(* ===== verification/Prelude.thy ===== *)
theory Prelude
  imports Main
begin

text \<open>
  What every component of the model shares: results and guards, Python dictionaries with their
  insertion order, Python indexing and slicing, and the string operations the sources use.

  Strings. A Python \<open>str\<close> is a sequence of code points; a HOL \<^typ>\<open>string\<close> is a list of characters
  with codes 0 to 255. The model covers the strings all of whose code points are below 256, one
  character per code point, so that \<open>len\<close>, indexing, slicing, equality and \<open>startswith\<close> are exact.

  Numbers. A Python \<open>int\<close> is a HOL \<^typ>\<open>int\<close>.
\<close>

named_theorems py_simps \<open>unfolding rules of the Python primitives\<close>
named_theorems py_intros \<open>introduction rules for invariants of the shared containers\<close>


section \<open>Results and guards\<close>

text \<open>
  A Python function that may raise returns a sum: \<^term>\<open>Inl e\<close> for the exception \<open>e\<close>,
  \<^term>\<open>Inr v\<close> for the value \<open>v\<close>. A chain of \<open>if cond: raise err\<close> statements is the list of
  its conditions and errors, and \<open>first_error\<close> is the first one that fires.
\<close>

definition res_bind :: "'e + 'a \<Rightarrow> ('a \<Rightarrow> 'e + 'b) \<Rightarrow> 'e + 'b" where
  "res_bind r f = (case r of Inl e \<Rightarrow> Inl e | Inr v \<Rightarrow> f v)"

definition is_ok :: "'e + 'a \<Rightarrow> bool" where
  "is_ok r = (case r of Inl _ \<Rightarrow> False | Inr _ \<Rightarrow> True)"

fun first_error :: "(bool \<times> 'e) list \<Rightarrow> 'e option" where
  "first_error [] = None"
| "first_error ((c, e) # gs) = (if c then Some e else first_error gs)"

definition guarded :: "(bool \<times> 'e) list \<Rightarrow> 'a \<Rightarrow> 'e + 'a" where
  "guarded gs v = (case first_error gs of Some e \<Rightarrow> Inl e | None \<Rightarrow> Inr v)"

lemma res_bind_simps [simp]:
  "res_bind (Inl e) f = Inl e"
  "res_bind (Inr v) f = f v"
  by (simp_all add: res_bind_def)

lemma res_bind_eq_Inr: "res_bind r f = Inr w \<longleftrightarrow> (\<exists>v. r = Inr v \<and> f v = Inr w)"
  by (cases r) auto

lemma is_ok_simps [simp]: "\<not> is_ok (Inl e)" "is_ok (Inr v)"
  by (simp_all add: is_ok_def)

lemma is_ok_iff: "is_ok r \<longleftrightarrow> (\<exists>v. r = Inr v)"
  by (cases r) auto

lemma first_error_None: "first_error gs = None \<longleftrightarrow> (\<forall>(c, e) \<in> set gs. \<not> c)"
  by (induction gs rule: first_error.induct) auto

lemma guarded_eq_Inr [simp]:
  "guarded gs v = Inr w \<longleftrightarrow> w = v \<and> (\<forall>(c, e) \<in> set gs. \<not> c)"
  unfolding first_error_None [symmetric] by (auto simp: guarded_def split: option.splits)

lemma guarded_eq_Inl: "guarded gs v = Inl e \<longleftrightarrow> first_error gs = Some e"
  by (auto simp: guarded_def split: option.splits)


section \<open>Python dictionaries\<close>

text \<open>
  A \<open>dict\<close> is an association list in insertion order: assigning to a present key keeps its place,
  assigning to a new key appends it, \<open>del\<close> and \<open>pop\<close> remove it. The keys of a dictionary are
  distinct.
\<close>

type_synonym ('k, 'v) dict = "('k \<times> 'v) list"

definition dict_get :: "('k, 'v) dict \<Rightarrow> 'k \<Rightarrow> 'v option" where
  "dict_get d k = map_of d k"

fun dict_put :: "'k \<Rightarrow> 'v \<Rightarrow> ('k, 'v) dict \<Rightarrow> ('k, 'v) dict" where
  "dict_put k v [] = [(k, v)]"
| "dict_put k v ((k', v') # d) = (if k = k' then (k', v) # d else (k', v') # dict_put k v d)"

definition dict_pop :: "'k \<Rightarrow> ('k, 'v) dict \<Rightarrow> ('k, 'v) dict" where
  "dict_pop k d = filter (\<lambda>kv. fst kv \<noteq> k) d"

definition dict_keys :: "('k, 'v) dict \<Rightarrow> 'k list" where
  "dict_keys d = map fst d"

definition dict_values :: "('k, 'v) dict \<Rightarrow> 'v list" where
  "dict_values d = map snd d"

definition dict_wf :: "('k, 'v) dict \<Rightarrow> bool" where
  "dict_wf d = distinct (map fst d)"

definition dict_get_default :: "('k, 'v) dict \<Rightarrow> 'k \<Rightarrow> 'v \<Rightarrow> 'v" where
  "dict_get_default d k v = (case dict_get d k of None \<Rightarrow> v | Some w \<Rightarrow> w)"

lemma dict_get_Nil [simp]: "dict_get [] k = None"
  by (simp add: dict_get_def)

lemma dict_get_put [simp]: "dict_get (dict_put k v d) k' = (if k' = k then Some v else dict_get d k')"
  by (induction d) (auto simp: dict_get_def)

lemma set_keys_put [simp]: "fst ` set (dict_put k v d) = insert k (fst ` set d)"
proof (induction d)
  case Nil
  then show ?case by simp
next
  case (Cons kv d)
  then show ?case by (cases kv) (auto simp: insert_commute)
qed

lemma dict_wf_put [simp, py_intros]: "dict_wf d \<Longrightarrow> dict_wf (dict_put k v d)"
proof (induction d)
  case Nil
  then show ?case by (simp add: dict_wf_def)
next
  case (Cons kv d)
  then show ?case by (cases kv) (auto simp: dict_wf_def)
qed

lemma dict_get_pop [simp]: "dict_get (dict_pop k d) k' = (if k' = k then None else dict_get d k')"
  by (induction d) (auto simp: dict_get_def dict_pop_def)

lemma dict_wf_pop [simp, py_intros]: "dict_wf d \<Longrightarrow> dict_wf (dict_pop k d)"
  by (simp add: dict_wf_def dict_pop_def distinct_map_filter)

lemma dict_wf_Nil [simp]: "dict_wf []"
  by (simp add: dict_wf_def)

lemma dict_get_None: "dict_get d k = None \<longleftrightarrow> k \<notin> fst ` set d"
  by (simp add: dict_get_def map_of_eq_None_iff)

lemma dict_get_Some_in: "dict_get d k = Some v \<Longrightarrow> (k, v) \<in> set d"
  by (simp add: dict_get_def map_of_SomeD)

lemma dict_get_in: "dict_wf d \<Longrightarrow> (k, v) \<in> set d \<Longrightarrow> dict_get d k = Some v"
  by (simp add: dict_wf_def dict_get_def)

lemma dict_get_iff: "dict_wf d \<Longrightarrow> dict_get d k = Some v \<longleftrightarrow> (k, v) \<in> set d"
  using dict_get_in dict_get_Some_in by metis

text \<open>The comprehension \<open>{key(x): val(x) for x in xs}\<close>: a later element replaces an earlier one.\<close>

definition dict_of :: "('a \<Rightarrow> 'k) \<Rightarrow> ('a \<Rightarrow> 'v) \<Rightarrow> 'a list \<Rightarrow> ('k, 'v) dict" where
  "dict_of key val xs = fold (\<lambda>x. dict_put (key x) (val x)) xs []"

lemma dict_get_fold_put:
  "dict_get (fold (\<lambda>x. dict_put (key x) (val x)) xs d) k =
     (case find (\<lambda>x. key x = k) (rev xs) of Some x \<Rightarrow> Some (val x) | None \<Rightarrow> dict_get d k)"
proof (induction xs rule: rev_induct)
  case (snoc x xs)
  then show ?case by (simp split: option.splits)
qed simp

lemma dict_get_dict_of:
  "dict_get (dict_of key val xs) k = map_option val (find (\<lambda>x. key x = k) (rev xs))"
  by (simp add: dict_of_def dict_get_fold_put split: option.splits)

lemma find_SomeD: "find p xs = Some x \<Longrightarrow> x \<in> set xs \<and> p x"
  by (induction xs) (auto split: if_splits)

lemma find_append_fresh: "\<forall>x \<in> set xs. \<not> p x \<Longrightarrow> find p (xs @ ys) = find p ys"
  by (induction xs) auto

lemma dict_get_dict_of_in:
  assumes "distinct (map key xs)" "x \<in> set xs"
  shows "dict_get (dict_of key val xs) (key x) = Some (val x)"
proof -
  obtain y where y: "find (\<lambda>z. key z = key x) (rev xs) = Some y"
    using assms(2) by (cases "find (\<lambda>z. key z = key x) (rev xs)") (auto simp: find_None_iff)
  then have "y \<in> set xs" "key y = key x"
    using find_SomeD [OF y] by auto
  then have "y = x"
    using assms by (simp add: distinct_map inj_on_def)
  with y show ?thesis by (simp add: dict_get_dict_of)
qed

lemma dict_get_dict_of_Some:
  assumes "dict_get (dict_of key val xs) k = Some v"
  obtains x where "x \<in> set xs" "key x = k" "val x = v"
  using assms by (auto simp: dict_get_dict_of dest: find_SomeD)

lemma dict_get_dict_of_None:
  "dict_get (dict_of key val xs) k = None \<longleftrightarrow> k \<notin> key ` set xs"
  by (auto simp: dict_get_dict_of find_None_iff)

lemma dict_wf_dict_of [simp]: "dict_wf (dict_of key val xs)"
proof -
  have "dict_wf d \<Longrightarrow> dict_wf (fold (\<lambda>x. dict_put (key x) (val x)) xs d)" for d
    by (induction xs arbitrary: d) auto
  then show ?thesis by (simp add: dict_of_def)
qed

text \<open>
  The interface the stateful components use a dictionary through, and the facts about a batch of
  insertions or removals that they share.
\<close>

locale keyed_store =
  fixes get :: "'s \<Rightarrow> 'k \<Rightarrow> 'v option"
    and put :: "'k \<Rightarrow> 'v \<Rightarrow> 's \<Rightarrow> 's"
    and pop :: "'k \<Rightarrow> 's \<Rightarrow> 's"
    and invar :: "'s \<Rightarrow> bool"
  assumes get_put_law: "get (put k v s) k' = (if k' = k then Some v else get s k')"
    and get_pop_law: "get (pop k s) k' = (if k' = k then None else get s k')"
    and invar_put_law: "invar s \<Longrightarrow> invar (put k v s)"
    and invar_pop_law: "invar s \<Longrightarrow> invar (pop k s)"
begin

lemma get_pop_all: "get (fold pop ks s) k = (if k \<in> set ks then None else get s k)"
  by (induction ks arbitrary: s) (auto simp: get_pop_law)

lemma invar_pop_all: "invar s \<Longrightarrow> invar (fold pop ks s)"
  by (induction ks arbitrary: s) (auto intro: invar_pop_law)

lemma get_put_all:
  "get (fold (\<lambda>k. put k (f k)) ks s) k = (if k \<in> set ks then Some (f k) else get s k)"
  by (induction ks arbitrary: s) (auto simp: get_put_law)

lemma invar_put_all: "invar s \<Longrightarrow> invar (fold (\<lambda>k. put k (f k)) ks s)"
  by (induction ks arbitrary: s) (auto intro: invar_put_law)

end

interpretation py_dict: keyed_store dict_get dict_put dict_pop dict_wf
  by unfold_locales auto


section \<open>Python indexing and slicing\<close>

text \<open>
  \<open>xs[i]\<close> counts a negative index from the end and raises IndexError (here \<^const>\<open>None\<close>) out of
  range; the slice \<open>xs[:i]\<close> clips instead.
\<close>

definition py_index :: "'a list \<Rightarrow> int \<Rightarrow> 'a option" where
  "py_index xs i =
     (let n = int (length xs); j = (if i < 0 then n + i else i)
      in if 0 \<le> j \<and> j < n then Some (xs ! nat j) else None)"

definition py_prefix :: "'a list \<Rightarrow> int \<Rightarrow> 'a list" where
  "py_prefix xs i = (let n = int (length xs) in take (nat (if i < 0 then n + i else i)) xs)"

definition py_suffix :: "'a list \<Rightarrow> int \<Rightarrow> 'a list" where
  "py_suffix xs i = (let n = int (length xs) in drop (nat (if i < 0 then n + i else i)) xs)"

lemma py_index_nonneg [py_simps]:
  "0 \<le> i \<Longrightarrow> py_index xs i = (if nat i < length xs then Some (xs ! nat i) else None)"
  by (auto simp: py_index_def Let_def)

lemma py_prefix_nonneg [py_simps]: "0 \<le> i \<Longrightarrow> py_prefix xs i = take (nat i) xs"
  by (simp add: py_prefix_def)

lemma py_suffix_nonneg [py_simps]: "0 \<le> i \<Longrightarrow> py_suffix xs i = drop (nat i) xs"
  by (simp add: py_suffix_def)

lemma py_index_last: "xs \<noteq> [] \<Longrightarrow> py_index xs (- 1) = Some (last xs)"
  by (cases xs rule: rev_cases) (auto simp: py_index_def Let_def nth_append)

lemma py_index_Nil [simp]: "py_index [] i = None"
  by (simp add: py_index_def Let_def)

lemma py_prefix_is_take: "\<exists>n. py_prefix xs i = take n xs"
  by (auto simp: py_prefix_def Let_def)


section \<open>Strings\<close>

definition lower_char :: "char \<Rightarrow> char" where
  "lower_char c =
     (let n = (of_char c :: nat)
      in if (65 \<le> n \<and> n \<le> 90) \<or> (192 \<le> n \<and> n \<le> 222 \<and> n \<noteq> 215) then char_of (n + 32) else c)"

definition lower :: "string \<Rightarrow> string" where
  "lower s = map lower_char s"

definition starts_with :: "string \<Rightarrow> string \<Rightarrow> bool" where
  "starts_with p s = (take (length p) s = p)"

definition ends_with :: "string \<Rightarrow> string \<Rightarrow> bool" where
  "ends_with p s = (length p \<le> length s \<and> drop (length s - length p) s = p)"

fun contains_str :: "string \<Rightarrow> string \<Rightarrow> bool" where
  "contains_str p [] = (p = [])"
| "contains_str p (c # s) = (starts_with p (c # s) \<or> contains_str p s)"

definition replace_char :: "char \<Rightarrow> char \<Rightarrow> string \<Rightarrow> string" where
  "replace_char a b s = map (\<lambda>c. if c = a then b else c) s"

fun split_on :: "char \<Rightarrow> string \<Rightarrow> string list" where
  "split_on c [] = [[]]"
| "split_on c (x # s) =
     (if x = c then [] # split_on c s
      else (case split_on c s of [] \<Rightarrow> [[x]] | w # ws \<Rightarrow> (x # w) # ws))"

fun join_with :: "string \<Rightarrow> string list \<Rightarrow> string" where
  "join_with sep [] = []"
| "join_with sep [w] = w"
| "join_with sep (w # ws) = w @ sep @ join_with sep ws"

lemma starts_with_iff: "starts_with p s \<longleftrightarrow> (\<exists>t. s = p @ t)"
  by (metis append_eq_conv_conj starts_with_def)

lemma starts_with_append [simp]: "starts_with p (p @ s)"
  by (simp add: starts_with_def)

lemma split_on_not_Nil [simp]: "split_on c s \<noteq> []"
  by (induction s) (auto split: list.splits)

lemma length_lower [simp]: "length (lower s) = length s"
  by (simp add: lower_def)

lemma split_on_no_sep: "w \<in> set (split_on c s) \<Longrightarrow> c \<notin> set w"
  by (induction s arbitrary: w) (auto split: list.splits if_splits)

lemma join_split: "join_with [c] (split_on c s) = s"
proof (induction s)
  case Nil
  then show ?case by simp
next
  case (Cons x s)
  obtain w ws where "split_on c s = w # ws"
    by (cases "split_on c s") auto
  with Cons show ?case by (cases ws) auto
qed

end
