(* ===== verification/Product_Contracts.thy ===== *)
theory Product_Contracts
  imports Prelude
begin

text \<open>
  The product contracts (core/product_contracts.py): the enumerations with their wire values, the
  identifier type, the validation of repository-relative paths, and the scope and mission policies.

  A contract is a pydantic model with \<open>str_strip_whitespace\<close> and \<open>extra = "forbid"\<close>. Its record holds
  the field values, and \<open>make_\<dots>\<close> is the constructor call: it strips the strings, checks the declared
  constraints of the fields in their order, then runs the validators, and returns the first error. A
  field that is itself a contract holds a value its own constructor accepted.
\<close>

section \<open>Enumerations\<close>

datatype execution_policy_preset = Conservative | Balanced | Exploratory

fun execution_policy_preset_value :: "execution_policy_preset \<Rightarrow> string" where
  "execution_policy_preset_value Conservative = ''conservative''"
| "execution_policy_preset_value Balanced = ''balanced''"
| "execution_policy_preset_value Exploratory = ''exploratory''"

lemma inj_execution_policy_preset_value: "inj execution_policy_preset_value"
  by (rule injI, rename_tac x y, case_tac x; case_tac y; simp)

datatype approval_type = Plan_Type | Scope_Expansion_Type | Draft_PR_Type

fun approval_type_value :: "approval_type \<Rightarrow> string" where
  "approval_type_value Plan_Type = ''plan''"
| "approval_type_value Scope_Expansion_Type = ''scope_expansion''"
| "approval_type_value Draft_PR_Type = ''draft_pr''"

lemma inj_approval_type_value: "inj approval_type_value"
  by (rule injI, rename_tac x y, case_tac x; case_tac y; simp)

datatype approval_status = Approval_Pending | Approved | Rejected

fun approval_status_value :: "approval_status \<Rightarrow> string" where
  "approval_status_value Approval_Pending = ''pending''"
| "approval_status_value Approved = ''approved''"
| "approval_status_value Rejected = ''rejected''"

lemma inj_approval_status_value: "inj approval_status_value"
  by (rule injI, rename_tac x y, case_tac x; case_tac y; simp)

datatype evidence_type = Ev_Command | Ev_Test | Ev_CI | Ev_Review | Ev_Scope | Ev_Architecture
    | Ev_Security | Ev_Quality | Ev_Cost | Ev_Artifact | Ev_Provider_Call

fun evidence_type_value :: "evidence_type \<Rightarrow> string" where
  "evidence_type_value Ev_Command = ''command''"
| "evidence_type_value Ev_Test = ''test''"
| "evidence_type_value Ev_CI = ''ci''"
| "evidence_type_value Ev_Review = ''review''"
| "evidence_type_value Ev_Scope = ''scope''"
| "evidence_type_value Ev_Architecture = ''architecture''"
| "evidence_type_value Ev_Security = ''security''"
| "evidence_type_value Ev_Quality = ''quality''"
| "evidence_type_value Ev_Cost = ''cost''"
| "evidence_type_value Ev_Artifact = ''artifact''"
| "evidence_type_value Ev_Provider_Call = ''provider_call''"

lemma inj_evidence_type_value: "inj evidence_type_value"
  by (rule injI, rename_tac x y, case_tac x; case_tac y; simp)

datatype gate_name = VG_Requirement | VG_Scope | VG_Architecture | VG_Tests | VG_Security
    | VG_Quality | VG_CI | VG_Cost

fun gate_name_value :: "gate_name \<Rightarrow> string" where
  "gate_name_value VG_Requirement = ''requirement''"
| "gate_name_value VG_Scope = ''scope''"
| "gate_name_value VG_Architecture = ''architecture''"
| "gate_name_value VG_Tests = ''tests''"
| "gate_name_value VG_Security = ''security''"
| "gate_name_value VG_Quality = ''quality''"
| "gate_name_value VG_CI = ''ci''"
| "gate_name_value VG_Cost = ''cost''"

lemma inj_gate_name_value: "inj gate_name_value"
  by (rule injI, rename_tac x y, case_tac x; case_tac y; simp)

datatype gate_status = Gate_Pending | Gate_Passed | Gate_Failed | Gate_Blocked
    | Gate_Not_Applicable

fun gate_status_value :: "gate_status \<Rightarrow> string" where
  "gate_status_value Gate_Pending = ''pending''"
| "gate_status_value Gate_Passed = ''passed''"
| "gate_status_value Gate_Failed = ''failed''"
| "gate_status_value Gate_Blocked = ''blocked''"
| "gate_status_value Gate_Not_Applicable = ''not_applicable''"

lemma inj_gate_status_value: "inj gate_status_value"
  by (rule injI, rename_tac x y, case_tac x; case_tac y; simp)

datatype risk_level = Low_Risk | Medium_Risk | High_Risk

fun risk_level_value :: "risk_level \<Rightarrow> string" where
  "risk_level_value Low_Risk = ''low''"
| "risk_level_value Medium_Risk = ''medium''"
| "risk_level_value High_Risk = ''high''"

lemma inj_risk_level_value: "inj risk_level_value"
  by (rule injI, rename_tac x y, case_tac x; case_tac y; simp)

datatype ci_status = CI_Pending | CI_Passed | CI_Failed_Status | CI_Not_Configured

fun ci_status_value :: "ci_status \<Rightarrow> string" where
  "ci_status_value CI_Pending = ''pending''"
| "ci_status_value CI_Passed = ''passed''"
| "ci_status_value CI_Failed_Status = ''failed''"
| "ci_status_value CI_Not_Configured = ''not_configured''"

lemma inj_ci_status_value: "inj ci_status_value"
  by (rule injI, rename_tac x y, case_tac x; case_tac y; simp)

datatype mergeability = Mergeable | Conflicts | Merge_Unknown

fun mergeability_value :: "mergeability \<Rightarrow> string" where
  "mergeability_value Mergeable = ''mergeable''"
| "mergeability_value Conflicts = ''conflicts''"
| "mergeability_value Merge_Unknown = ''unknown''"

lemma inj_mergeability_value: "inj mergeability_value"
  by (rule injI, rename_tac x y, case_tac x; case_tac y; simp)

datatype human_decision = Decision_Pending | Decision_Approved | Revision_Requested
    | Decision_Rejected

fun human_decision_value :: "human_decision \<Rightarrow> string" where
  "human_decision_value Decision_Pending = ''pending''"
| "human_decision_value Decision_Approved = ''approved''"
| "human_decision_value Revision_Requested = ''revision_requested''"
| "human_decision_value Decision_Rejected = ''rejected''"

lemma inj_human_decision_value: "inj human_decision_value"
  by (rule injI, rename_tac x y, case_tac x; case_tac y; simp)


definition default_required_verification :: "gate_name list" where
  "default_required_verification =
     [VG_Requirement, VG_Scope, VG_Architecture, VG_Tests, VG_Security, VG_Quality, VG_CI, VG_Cost]"


section \<open>Field constraints\<close>

datatype contract_error = Bad_Field string | Bad_Value string

definition schema_version_const :: string where
  "schema_version_const = ''1.0''"

definition is_space :: "char \<Rightarrow> bool" where
  "is_space c = (let n = (of_char c :: nat) in (9 \<le> n \<and> n \<le> 13) \<or> n = 32 \<or> n = 133 \<or> n = 160)"

definition strip_ws :: "string \<Rightarrow> string" where
  "strip_ws s = rev (dropWhile is_space (rev (dropWhile is_space s)))"

definition is_alnum_ascii :: "char \<Rightarrow> bool" where
  "is_alnum_ascii c = (let n = (of_char c :: nat) in
     (48 \<le> n \<and> n \<le> 57) \<or> (65 \<le> n \<and> n \<le> 90) \<or> (97 \<le> n \<and> n \<le> 122))"

definition identifier_char :: "char \<Rightarrow> bool" where
  "identifier_char c = (is_alnum_ascii c \<or> c \<in> set ''._:/-'')"

definition is_identifier :: "string \<Rightarrow> bool" where
  "is_identifier s =
     (1 \<le> length s \<and> length s \<le> 128 \<and> is_alnum_ascii (hd s) \<and> list_all identifier_char (tl s))"

definition len_between :: "nat \<Rightarrow> nat \<Rightarrow> string \<Rightarrow> bool" where
  "len_between lo hi s = (lo \<le> length s \<and> length s \<le> hi)"

definition opt_ok :: "('a \<Rightarrow> bool) \<Rightarrow> 'a option \<Rightarrow> bool" where
  "opt_ok p x = (case x of None \<Rightarrow> True | Some v \<Rightarrow> p v)"

lemma opt_ok_simps [simp]: "opt_ok p None" "opt_ok p (Some v) = p v"
  by (simp_all add: opt_ok_def)

lemma dropWhile_dropWhile [simp]: "dropWhile p (dropWhile p xs) = dropWhile p xs"
  by (induction xs) auto

lemma dropWhile_hd_fixed: "xs = [] \<or> \<not> p (hd xs) \<Longrightarrow> dropWhile p xs = xs"
  by (cases xs) auto

lemma strip_ws_idem [simp]: "strip_ws (strip_ws s) = strip_ws s"
proof -
  define t where "t = dropWhile is_space s"
  have "strip_ws s = rev (dropWhile is_space (rev t))"
    by (simp add: strip_ws_def t_def)
  moreover have "dropWhile is_space (rev (dropWhile is_space (rev t))) = rev (dropWhile is_space (rev t))"
  proof (rule dropWhile_hd_fixed)
    have t_hd: "t = [] \<or> \<not> is_space (hd t)"
      unfolding t_def by (meson hd_dropWhile dropWhile_eq_Nil_conv)
    obtain u where u: "rev t = u @ dropWhile is_space (rev t)"
      by (metis takeWhile_dropWhile_id)
    then have "t = rev (dropWhile is_space (rev t)) @ rev u"
      by (metis rev_append rev_rev_ident)
    with t_hd show "rev (dropWhile is_space (rev t)) = [] \<or> \<not> is_space (hd (rev (dropWhile is_space (rev t))))"
      by (metis append_is_Nil_conv hd_append2)
  qed
  ultimately show ?thesis by (simp add: strip_ws_def)
qed

lemma identifier_char_not_space: "identifier_char c \<Longrightarrow> \<not> is_space c"
  by (auto simp: identifier_char_def is_alnum_ascii_def is_space_def Let_def)

lemma identifier_not_space:
  assumes "is_identifier s"
  shows "list_all (\<lambda>c. \<not> is_space c) s"
  using assms identifier_char_not_space
  by (cases s) (auto simp: is_identifier_def list_all_iff identifier_char_def)

lemma dropWhile_none: "list_all (\<lambda>c. \<not> p c) s \<Longrightarrow> dropWhile p s = s"
  by (cases s) auto

lemma strip_identifier [simp]: "is_identifier s \<Longrightarrow> strip_ws s = s"
  using identifier_not_space [of s] by (simp add: strip_ws_def dropWhile_none)


section \<open>Repository-relative paths\<close>

text \<open>
  \<open>PurePosixPath(p).parts\<close>: the components between slashes without the empty ones and the dots, after
  the root when the path is absolute.
\<close>

definition posix_parts :: "string \<Rightarrow> string list" where
  "posix_parts p =
     (if starts_with ''/'' p then [''/''] else []) @
     filter (\<lambda>c. c \<noteq> [] \<and> c \<noteq> ''.'') (split_on (CHR ''/'') p)"

definition path_ok :: "string \<Rightarrow> bool" where
  "path_ok path =
     (let normalized = replace_char (CHR 0x5C) (CHR ''/'') path
      in \<not> (normalized = []
          \<or> starts_with ''/'' normalized
          \<or> (length normalized > 1 \<and> normalized ! 1 = CHR '':'')
          \<or> ''..'' \<in> set (posix_parts normalized)))"

definition validate_relative_paths :: "string list \<Rightarrow> contract_error + string list" where
  "validate_relative_paths paths =
     (if list_all path_ok paths then Inr paths
      else Inl (Bad_Value ''paths must be non-empty repository-relative paths''))"

text \<open>
  The lexical resolution of a path from a directory, given as the stack of its components with the
  innermost first: both separators separate, \<open>..\<close> leaves a directory, and leaving the top of the file
  system stays there. The specification of the validator is that resolution from any root stays below
  that root, whatever the resolver does at the top.
\<close>

definition is_sep :: "char \<Rightarrow> bool" where
  "is_sep c = (c = CHR ''/'' \<or> c = CHR 0x5C)"

fun words_by :: "(char \<Rightarrow> bool) \<Rightarrow> string \<Rightarrow> string list" where
  "words_by p [] = [[]]"
| "words_by p (x # s) =
     (if p x then [] # words_by p s
      else (case words_by p s of [] \<Rightarrow> [[x]] | w # ws \<Rightarrow> (x # w) # ws))"

fun resolve_from :: "string list \<Rightarrow> string list \<Rightarrow> string list" where
  "resolve_from dir [] = dir"
| "resolve_from dir (c # cs) =
     (if c = [] \<or> c = ''.'' then resolve_from dir cs
      else if c = ''..'' then resolve_from (tl dir) cs
      else resolve_from (c # dir) cs)"

definition resolve_path :: "string list \<Rightarrow> string \<Rightarrow> string list" where
  "resolve_path dir path = rev (resolve_from (rev dir) (words_by is_sep path))"

lemma split_replace:
  "split_on b (replace_char a b s) = words_by (\<lambda>c. c = b \<or> c = a) s"
  by (induction s) (auto simp: replace_char_def split: list.splits)

lemma words_by_sep: "split_on (CHR ''/'') (replace_char (CHR 0x5C) (CHR ''/'') p) = words_by is_sep p"
  unfolding split_replace by (rule arg_cong2 [where f = words_by]) (auto simp: is_sep_def)

lemma resolve_no_parent:
  "''..'' \<notin> set cs \<Longrightarrow>
     resolve_from dir cs = rev (filter (\<lambda>c. c \<noteq> [] \<and> c \<noteq> ''.'') cs) @ dir"
  by (induction cs arbitrary: dir) auto

lemma path_ok_no_parent:
  assumes "path_ok p"
  shows "''..'' \<notin> set (words_by is_sep p)"
  using assms by (auto simp: path_ok_def Let_def posix_parts_def words_by_sep split: if_splits)

lemma path_ok_resolve:
  assumes "path_ok p"
  shows "resolve_path dir p = dir @ filter (\<lambda>c. c \<noteq> [] \<and> c \<noteq> ''.'') (words_by is_sep p)"
  using resolve_no_parent [OF path_ok_no_parent [OF assms], of "rev dir"]
  by (simp add: resolve_path_def rev_filter)

lemma path_ok_not_rooted:
  assumes "path_ok p"
  shows "p \<noteq> []" "\<not> is_sep (hd p)" "length p > 1 \<longrightarrow> p ! 1 \<noteq> CHR '':''"
  using assms
  by (cases p; auto simp: path_ok_def Let_def replace_char_def is_sep_def starts_with_def split: if_splits)+


section \<open>Policies\<close>

record repository_size =
  rs_file_count :: int
  rs_line_count :: int
  rs_byte_count :: int

definition make_repository_size :: "repository_size \<Rightarrow> contract_error + repository_size" where
  "make_repository_size r = guarded
     [(rs_file_count r < 0, Bad_Field ''file_count''),
      (rs_line_count r < 0, Bad_Field ''line_count''),
      (rs_byte_count r < 0, Bad_Field ''byte_count'')] r"

record scope_policy =
  sp_allowed_paths :: "string list"
  sp_protected_paths :: "string list"
  sp_dependency_change_permission :: bool
  sp_schema_change_permission :: bool
  sp_ci_change_permission :: bool
  sp_commit_permission :: bool
  sp_push_permission :: bool
  sp_draft_pr_permission :: bool
  sp_auto_merge_allowed :: bool

definition default_scope_policy :: scope_policy where
  "default_scope_policy = \<lparr>sp_allowed_paths = [], sp_protected_paths = [],
     sp_dependency_change_permission = False, sp_schema_change_permission = False,
     sp_ci_change_permission = False, sp_commit_permission = False, sp_push_permission = False,
     sp_draft_pr_permission = False, sp_auto_merge_allowed = False\<rparr>"

definition make_scope_policy :: "scope_policy \<Rightarrow> contract_error + scope_policy" where
  "make_scope_policy raw =
     (let p = raw\<lparr>sp_allowed_paths := map strip_ws (sp_allowed_paths raw),
                  sp_protected_paths := map strip_ws (sp_protected_paths raw)\<rparr>
      in guarded
        [(\<not> is_ok (validate_relative_paths (sp_allowed_paths p)), Bad_Field ''allowed_paths''),
         (\<not> is_ok (validate_relative_paths (sp_protected_paths p)), Bad_Field ''protected_paths''),
         (sp_auto_merge_allowed p, Bad_Field ''auto_merge_allowed'')] p)"

record mission_policy =
  mp_preset :: execution_policy_preset
  mp_scope :: scope_policy

definition default_mission_policy :: mission_policy where
  "default_mission_policy = \<lparr>mp_preset = Balanced, mp_scope = default_scope_policy\<rparr>"

lemma is_ok_validate_paths [simp]: "is_ok (validate_relative_paths ps) = list_all path_ok ps"
  by (simp add: validate_relative_paths_def)

lemma make_scope_policy_ok:
  assumes "make_scope_policy raw = Inr p"
  shows "list_all path_ok (sp_allowed_paths p)" "list_all path_ok (sp_protected_paths p)"
    "\<not> sp_auto_merge_allowed p"
  using assms by (auto simp: make_scope_policy_def Let_def)

lemma default_scope_policy_ok: "make_scope_policy default_scope_policy = Inr default_scope_policy"
  by (simp add: make_scope_policy_def default_scope_policy_def guarded_def)

end
