(* ===== verification/Sha256.thy ===== *)
theory Sha256
  imports Prelude "HOL-Library.Word"
begin

unbundle bit_operations_syntax

text \<open>
  SHA-256 as the sources use it, \<open>hashlib.sha256(s.encode("utf-8")).hexdigest()\<close>: the UTF-8 bytes of
  the string, the FIPS 180-4 digest over 32-bit words, and its 64 lower-case hexadecimal digits. It
  is the standard library's, so it maps to no line under src/. Nothing about collisions is assumed:
  where a property rests on them it says that a collision would have to exist, and names it.
\<close>

type_synonym u32 = "32 word"

type_synonym u8 = "8 word"

definition utf8_char :: "char \<Rightarrow> u8 list" where
  "utf8_char c = (let w = (of_char c :: u8) in
     if w < 128 then [w] else [0xC0 OR drop_bit 6 w, 0x80 OR (w AND 0x3F)])"

definition utf8_encode :: "string \<Rightarrow> u8 list" where
  "utf8_encode s = concat (map utf8_char s)"

definition sha_k :: "u32 list" where
  "sha_k = [
     1116352408, 1899447441, 3049323471, 3921009573,
     961987163, 1508970993, 2453635748, 2870763221,
     3624381080, 310598401, 607225278, 1426881987,
     1925078388, 2162078206, 2614888103, 3248222580,
     3835390401, 4022224774, 264347078, 604807628,
     770255983, 1249150122, 1555081692, 1996064986,
     2554220882, 2821834349, 2952996808, 3210313671,
     3336571891, 3584528711, 113926993, 338241895,
     666307205, 773529912, 1294757372, 1396182291,
     1695183700, 1986661051, 2177026350, 2456956037,
     2730485921, 2820302411, 3259730800, 3345764771,
     3516065817, 3600352804, 4094571909, 275423344,
     430227734, 506948616, 659060556, 883997877,
     958139571, 1322822218, 1537002063, 1747873779,
     1955562222, 2024104815, 2227730452, 2361852424,
     2428436474, 2756734187, 3204031479, 3329325298]"

text \<open>The 64-bit length field is \<open>8 * len\<close> big-endian; the zero bytes fill up to a multiple of 64.\<close>

definition sha_pad :: "u8 list \<Rightarrow> u8 list" where
  "sha_pad bs =
     (let l = int (length bs); z = nat ((119 - l mod 64) mod 64); bits = (word_of_int (8 * l) :: 64 word)
      in bs @ [0x80] @ replicate z 0 @ map (\<lambda>i. ucast (drop_bit (56 - 8 * i) bits)) [0..<8])"

fun be_words :: "u8 list \<Rightarrow> u32 list" where
  "be_words (a # b # c # d # bs) =
     (push_bit 24 (ucast a) OR push_bit 16 (ucast b) OR push_bit 8 (ucast c) OR ucast d) # be_words bs"
| "be_words _ = []"

definition sha_expand :: "u32 list \<Rightarrow> u32" where
  "sha_expand ws =
     (let w15 = ws ! 1; w2 = ws ! 14;
          s0 = word_rotr 7 w15 XOR word_rotr 18 w15 XOR drop_bit 3 w15;
          s1 = word_rotr 17 w2 XOR word_rotr 19 w2 XOR drop_bit 10 w2
      in ws ! 0 + s0 + ws ! 9 + s1)"

type_synonym sha_state = "u32 \<times> u32 \<times> u32 \<times> u32 \<times> u32 \<times> u32 \<times> u32 \<times> u32"

fun sha_round :: "u32 \<Rightarrow> u32 \<Rightarrow> sha_state \<Rightarrow> sha_state" where
  "sha_round k w (a, b, c, d, e, f, g, h) =
     (let s1 = word_rotr 6 e XOR word_rotr 11 e XOR word_rotr 25 e;
          ch = (e AND f) XOR (NOT e AND g);
          t1 = h + s1 + ch + k + w;
          s0 = word_rotr 2 a XOR word_rotr 13 a XOR word_rotr 22 a;
          maj = (a AND b) XOR (a AND c) XOR (b AND c)
      in (t1 + s0 + maj, a, b, c, d + t1, e, f, g))"

text \<open>The window \<open>ws\<close> holds the next sixteen schedule words; each round consumes its head.\<close>

fun sha_rounds :: "u32 list \<Rightarrow> u32 list \<Rightarrow> sha_state \<Rightarrow> sha_state" where
  "sha_rounds [] ws st = st"
| "sha_rounds (k # ks) ws st =
     sha_rounds ks (tl ws @ [sha_expand ws]) (sha_round k (hd ws) st)"

fun sha_add :: "sha_state \<Rightarrow> sha_state \<Rightarrow> sha_state" where
  "sha_add (a, b, c, d, e, f, g, h) (a', b', c', d', e', f', g', h') =
     (a + a', b + b', c + c', d + d', e + e', f + f', g + g', h + h')"

function sha_blocks :: "u32 list \<Rightarrow> sha_state \<Rightarrow> sha_state" where
  "sha_blocks ws st =
     (if length ws < 16 then st
      else sha_blocks (drop 16 ws) (sha_add st (sha_rounds sha_k (take 16 ws) st)))"
  by pat_completeness auto
termination
  by (relation "measure (\<lambda>(ws, st). length ws)") auto

declare sha_blocks.simps [simp del]

definition sha_init :: sha_state where
  "sha_init = (0x6a09e667, 0xbb67ae85, 0x3c6ef372, 0xa54ff53a, 0x510e527f, 0x9b05688c, 0x1f83d9ab,
     0x5be0cd19)"

definition hex_digit :: "u32 \<Rightarrow> char" where
  "hex_digit n = ''0123456789abcdef'' ! unat n"

definition hex_word :: "u32 \<Rightarrow> string" where
  "hex_word w = map (\<lambda>i. hex_digit (drop_bit (28 - 4 * i) w AND 15)) [0..<8]"

fun hex_state :: "sha_state \<Rightarrow> string" where
  "hex_state (a, b, c, d, e, f, g, h) =
     hex_word a @ hex_word b @ hex_word c @ hex_word d @
     hex_word e @ hex_word f @ hex_word g @ hex_word h"

definition sha256 :: "string \<Rightarrow> string" where
  "sha256 s = hex_state (sha_blocks (be_words (sha_pad (utf8_encode s))) sha_init)"

definition zero_hash :: string where
  "zero_hash = replicate 64 (CHR ''0'')"

lemma length_hex_state [simp]: "length (hex_state st) = 64"
  by (cases st rule: hex_state.cases) (simp add: hex_word_def)

lemma length_sha256 [simp]: "length (sha256 s) = 64"
  by (simp add: sha256_def)

lemma sha256_not_Nil [simp]: "sha256 s \<noteq> []"
  using length_sha256 [of s] by fastforce

lemma length_zero_hash [simp]: "length zero_hash = 64"
  by (simp add: zero_hash_def)

text \<open>
  A collision of a hash function, and the interface every hash-chained or hash-tree component is
  proved against: the digests all have the same length, so that the concatenation of two of them can
  be taken apart again.
\<close>

definition collision :: "(string \<Rightarrow> string) \<Rightarrow> string \<Rightarrow> string \<Rightarrow> bool" where
  "collision h x y \<longleftrightarrow> x \<noteq> y \<and> h x = h y"

locale fixed_digest =
  fixes h :: "string \<Rightarrow> string" and n :: nat
  assumes digest_length: "length (h s) = n"
begin

lemma digest_eqD: "h x = h y \<Longrightarrow> x = y \<or> collision h x y"
  by (auto simp: collision_def)

lemma append_digest_eq: "h a @ s = h b @ t \<longleftrightarrow> h a = h b \<and> s = t"
  by (simp add: digest_length)

lemma pair_digest_eqD:
  assumes "h (l @ r) = h (l' @ r')" and "length l = length l'"
  shows "(l = l' \<and> r = r') \<or> collision h (l @ r) (l' @ r')"
  using assms by (auto simp: collision_def)

end

interpretation sha: fixed_digest sha256 64
  by unfold_locales simp

end
