(* ===== verification/Json.thy ===== *)
theory Json
  imports Prelude "HOL-Library.List_Lexorder" "HOL-Library.Char_ord"
begin

text \<open>
  JSON values and \<open>json.dumps\<close> as the sources call it: keys sorted, non-ASCII characters escaped, with
  the compact separators \<open>(",", ":")\<close> or the default ones \<open>(", ", ": ")\<close>. It is the standard
  library's, so it maps to no line under src/. The main fact is that the text determines the value
  (\<open>render_inject\<close>), which is what makes a digest of the text a digest of the value. A float is the text
  \<open>float.__repr__\<close> gives for it, and is outside the injectivity result. \<^term>\<open>JPy t r i\<close> is a Python value that is not
  JSON's - a tuple, a set, bytes, a complex number, a dictionary whose keys are not all text -, which \<open>ast.literal_eval\<close>
  yields: its type \<open>t\<close>, its \<open>repr\<close> \<open>r\<close>, and in \<open>i\<close> what \<open>json.dumps\<close> writes for it (a list for a tuple, keys as text), if
  it writes anything.
\<close>

datatype json =
    JNull
  | JBool bool
  | JInt int
  | JFloat string
  | JStr string
  | JArr "json list"
  | JObj "(string \<times> json) list"
  | JPy string string "json option"

datatype json_style = Compact | Spaced

text \<open>The values outside JSON that count as false.\<close>

definition empty_repr :: "string \<Rightarrow> bool" where
  "empty_repr r = (r \<in> {''()'', ''set()'', ''0j'', [CHR ''b'', CHR 0x27, CHR 0x27]})"

section \<open>Decimal numbers\<close>

definition digit_char :: "nat \<Rightarrow> char" where
  "digit_char d = ''0123456789'' ! d"

fun nat_str :: "nat \<Rightarrow> string" where
  "nat_str n = (if n < 10 then [digit_char n] else nat_str (n div 10) @ [digit_char (n mod 10)])"

declare nat_str.simps [simp del]

definition int_str :: "int \<Rightarrow> string" where
  "int_str i = (if i < 0 then CHR ''-'' # nat_str (nat (- i)) else nat_str (nat i))"

definition is_digit :: "char \<Rightarrow> bool" where
  "is_digit c = (c \<in> set ''0123456789'')"

fun digit_val :: "char \<Rightarrow> nat" where
  "digit_val c = of_char c - 48"

definition nat_val :: "string \<Rightarrow> nat" where
  "nat_val s = foldl (\<lambda>a c. 10 * a + digit_val c) 0 s"

lemma less_ten_cases:
  "(d :: nat) < 10 \<Longrightarrow> d = 0 \<or> d = 1 \<or> d = 2 \<or> d = 3 \<or> d = 4 \<or> d = 5 \<or> d = 6 \<or> d = 7 \<or> d = 8 \<or> d = 9"
  by auto

lemma digit_val_char: "d < 10 \<Longrightarrow> digit_val (digit_char d) = d"
  by (drule less_ten_cases) (auto simp: digit_char_def)

lemma is_digit_char: "d < 10 \<Longrightarrow> is_digit (digit_char d)"
  by (drule less_ten_cases) (auto simp: digit_char_def is_digit_def)

lemma nat_val_str: "nat_val (nat_str n) = n"
proof (induction n rule: nat_str.induct)
  case (1 n)
  show ?case
  proof (cases "n < 10")
    case True
    then show ?thesis by (simp add: nat_str.simps [of n] nat_val_def digit_val_char del: digit_val.simps)
  next
    case False
    with 1 have "nat_val (nat_str (n div 10)) = n div 10" by simp
    with False show ?thesis
      by (simp add: nat_str.simps [of n] nat_val_def digit_val_char del: digit_val.simps)
  qed
qed

lemma nat_str_digits: "c \<in> set (nat_str n) \<Longrightarrow> is_digit c"
proof (induction n rule: nat_str.induct)
  case (1 n)
  then show ?case
    by (subst (asm) (2) nat_str.simps) (auto split: if_splits intro: is_digit_char)
qed

lemma nat_str_not_Nil [simp]: "nat_str n \<noteq> []"
  by (subst nat_str.simps) simp

definition no_digit_hd :: "string \<Rightarrow> bool" where
  "no_digit_hd r = (case r of [] \<Rightarrow> True | c # _ \<Rightarrow> \<not> is_digit c)"

lemma takeWhile_digits: "no_digit_hd r \<Longrightarrow> takeWhile is_digit (nat_str n @ r) = nat_str n"
  by (subst takeWhile_append2)
     (auto simp: nat_str_digits no_digit_hd_def split: list.splits)

lemma nat_str_append_inject:
  assumes "nat_str n @ r = nat_str m @ r'" "no_digit_hd r" "no_digit_hd r'"
  shows "n = m \<and> r = r'"
proof -
  have "nat_str n = nat_str m"
    using assms takeWhile_digits by metis
  then show ?thesis
    using assms nat_val_str by (metis same_append_eq)
qed

lemma hd_nat_str: "nat_str n = c # s \<Longrightarrow> is_digit c"
  using nat_str_digits [of c n] by simp

lemma int_str_append_inject:
  assumes "int_str i @ r = int_str j @ r'" "no_digit_hd r" "no_digit_hd r'"
  shows "i = j \<and> r = r'"
proof -
  have minus: "\<not> is_digit (CHR ''-'')" by (simp add: is_digit_def)
  have hd_digit: "nat_str n @ x \<noteq> CHR ''-'' # y" for n x y
    using hd_nat_str minus by (cases "nat_str n") auto
  consider (nn) "i < 0" "j < 0" | (np) "i < 0" "\<not> j < 0" | (pn) "\<not> i < 0" "j < 0" | (pp) "\<not> i < 0" "\<not> j < 0"
    by blast
  then show ?thesis
  proof cases
    case nn
    with assms(1) have "nat_str (nat (- i)) @ r = nat_str (nat (- j)) @ r'" by (simp add: int_str_def)
    from nat_str_append_inject [OF this assms(2,3)] nn show ?thesis by auto
  next
    case np
    with assms(1) hd_digit show ?thesis by (metis append_Cons int_str_def)
  next
    case pn
    with assms(1) hd_digit show ?thesis by (metis append_Cons int_str_def)
  next
    case pp
    with assms(1) have "nat_str (nat i) @ r = nat_str (nat j) @ r'" by (simp add: int_str_def)
    from nat_str_append_inject [OF this assms(2,3)] pp show ?thesis by auto
  qed
qed

section \<open>Strings\<close>

definition hex_char :: "nat \<Rightarrow> char" where
  "hex_char d = ''0123456789abcdef'' ! d"

definition short_escapes :: "(char \<times> char) list" where
  "short_escapes =
     [(CHR 0x22, CHR 0x22), (CHR 0x5C, CHR 0x5C), (CHR 0x0A, CHR ''n''), (CHR 0x0D, CHR ''r''),
      (CHR 0x09, CHR ''t''), (CHR 0x0C, CHR ''f''), (CHR 0x08, CHR ''b'')]"

definition escape_char :: "char \<Rightarrow> string" where
  "escape_char c = (case map_of short_escapes c of
       Some k \<Rightarrow> [CHR 0x5C, k]
     | None \<Rightarrow> (let n = (of_char c :: nat) in
         if 32 \<le> n \<and> n \<le> 126 then [c]
         else [CHR 0x5C, CHR ''u'', CHR ''0'', CHR ''0'', hex_char (n div 16), hex_char (n mod 16)]))"

definition escape_str :: "string \<Rightarrow> string" where
  "escape_str s = concat (map escape_char s)"

lemma hex_char_inject:
  assumes "a < 16" "b < 16" "hex_char a = hex_char b"
  shows "a = b"
proof -
  have d: "distinct ''0123456789abcdef''" and l: "length ''0123456789abcdef'' = 16" by simp_all
  show ?thesis
    using assms nth_eq_iff_index_eq [OF d, of a b] l by (simp only: hex_char_def)
qed

lemma of_char_less: "(of_char c :: nat) < 256"
  by (metis of_char_of nat_of_char_less_256)

lemma short_escape_cases:
  assumes "map_of short_escapes c = Some k"
  shows "(c, k) \<in> set short_escapes"
  using assms by (rule map_of_SomeD)

lemma short_escape_inject:
  assumes "map_of short_escapes c = Some k" "map_of short_escapes d = Some k"
  shows "c = d"
  using short_escape_cases [OF assms(1)] short_escape_cases [OF assms(2)]
  by (auto simp: short_escapes_def)

lemma short_escape_not_u: "map_of short_escapes c = Some k \<Longrightarrow> k \<noteq> CHR ''u''"
  using short_escape_cases [of c k] by (auto simp: short_escapes_def)

lemma no_escape_plain: "map_of short_escapes c = None \<Longrightarrow> c \<noteq> CHR 0x22 \<and> c \<noteq> CHR 0x5C"
  by (auto simp: short_escapes_def)

lemma escape_char_append_inject:
  assumes "escape_char c @ x = escape_char d @ y"
  shows "c = d \<and> x = y"
proof -
  have lt: "of_char c div 16 < (16 :: nat)" "of_char d div 16 < (16 :: nat)"
    using of_char_less [of c] of_char_less [of d] by (auto intro: less_mult_imp_div_less)
  have code: "c = d" if "hex_char (of_char c div 16) = hex_char (of_char d div 16)"
    and "hex_char (of_char c mod 16) = hex_char (of_char d mod 16)"
    using hex_char_inject [OF lt that(1)] hex_char_inject [OF _ _ that(2)]
    by (metis div_mult_mod_eq mod_less_divisor of_char_eq_iff zero_less_numeral)
  show ?thesis
    using assms code no_escape_plain [of c] no_escape_plain [of d]
    by (auto simp: escape_char_def Let_def split: option.splits if_splits
        dest: short_escape_inject short_escape_not_u)
qed

lemma escape_char_hd: "\<exists>a s. escape_char c = a # s \<and> a \<noteq> CHR 0x22"
  using no_escape_plain [of c] by (auto simp: escape_char_def Let_def split: option.splits)

lemma escape_str_append_inject:
  "escape_str s @ CHR 0x22 # r = escape_str t @ CHR 0x22 # r' \<Longrightarrow> s = t \<and> r = r'"
proof (induction s arbitrary: t)
  case Nil
  then show ?case
    using escape_char_hd by (cases t) (auto simp: escape_str_def, metis append_Cons list.inject)
next
  case (Cons c s)
  show ?case
  proof (cases t)
    case Nil
    with Cons.prems show ?thesis
      using escape_char_hd [of c] by (auto simp: escape_str_def)
  next
    case (Cons d t')
    with Cons.prems have "escape_char c @ (escape_str s @ CHR 0x22 # r) =
        escape_char d @ (escape_str t' @ CHR 0x22 # r')"
      by (simp add: escape_str_def)
    from escape_char_append_inject [OF this] Cons.IH [of t'] Cons show ?thesis
      by simp
  qed
qed


section \<open>Values\<close>

definition item_sep :: "json_style \<Rightarrow> string" where
  "item_sep st = (case st of Compact \<Rightarrow> '','' | Spaced \<Rightarrow> '', '')"

definition key_sep :: "json_style \<Rightarrow> string" where
  "key_sep st = (case st of Compact \<Rightarrow> '':'' | Spaced \<Rightarrow> '': '')"

definition render_str :: "string \<Rightarrow> string" where
  "render_str s = CHR 0x22 # escape_str s @ [CHR 0x22]"

fun render :: "json_style \<Rightarrow> json \<Rightarrow> string" where
  "render st JNull = ''null''"
| "render st (JBool b) = (if b then ''true'' else ''false'')"
| "render st (JInt i) = int_str i"
| "render st (JFloat r) = r"
| "render st (JStr s) = render_str s"
| "render st (JArr js) = ''['' @ join_with (item_sep st) (map (render st) js) @ '']''"
| "render st (JObj kvs) =
     ''{'' @ join_with (item_sep st) (map (\<lambda>(k, v). render_str k @ key_sep st @ render st v) kvs) @ ''}''"
| "render st (JPy t r i) = r"

fun sort_keys :: "json \<Rightarrow> json" where
  "sort_keys (JArr js) = JArr (map sort_keys js)"
| "sort_keys (JObj kvs) = JObj (sort_key fst (map (\<lambda>(k, v). (k, sort_keys v)) kvs))"
| "sort_keys j = j"

definition dumps :: "json_style \<Rightarrow> json \<Rightarrow> string" where
  "dumps st j = render st (sort_keys j)"

fun float_free :: "json \<Rightarrow> bool" where
  "float_free (JFloat r) = False"
| "float_free (JPy t r i) = False"
| "float_free (JArr js) = list_all float_free js"
| "float_free (JObj kvs) = list_all (\<lambda>(k, v). float_free v) kvs"
| "float_free j = True"

text \<open>A text that decodes uniquely in front of a delimiter.\<close>

definition json_delim :: "string \<Rightarrow> bool" where
  "json_delim r = (case r of [] \<Rightarrow> True | c # _ \<Rightarrow> c \<in> {CHR '','', CHR '']'', CHR ''}''})"

lemma json_delim_simps [simp]:
  "json_delim []" "json_delim (CHR '']'' # r)" "json_delim (CHR ''}'' # r)" "json_delim (item_sep st @ r)"
  by (simp_all add: json_delim_def item_sep_def split: json_style.split)

lemma json_delim_no_digit: "json_delim r \<Longrightarrow> no_digit_hd r"
  by (auto simp: json_delim_def no_digit_hd_def is_digit_def split: list.splits)

lemma int_str_hd: "\<exists>c s. int_str i = c # s \<and> (is_digit c \<or> c = CHR ''-'')"
proof (cases "i < 0")
  case False
  then show ?thesis
    using hd_nat_str [of "nat i"] by (cases "nat_str (nat i)") (auto simp: int_str_def)
qed (auto simp: int_str_def)

fun json_kind :: "json \<Rightarrow> nat" where
  "json_kind JNull = 0"
| "json_kind (JBool b) = (if b then 1 else 2)"
| "json_kind (JInt _) = 3"
| "json_kind (JFloat _) = 4"
| "json_kind (JStr _) = 5"
| "json_kind (JArr _) = 6"
| "json_kind (JObj _) = 7"
| "json_kind (JPy _ _ _) = 4"

definition char_kind :: "char \<Rightarrow> nat" where
  "char_kind c = (if is_digit c \<or> c = CHR ''-'' then 3 else if c = CHR ''n'' then 0
     else if c = CHR ''t'' then 1 else if c = CHR ''f'' then 2 else if c = CHR 0x22 then 5
     else if c = CHR ''['' then 6 else if c = CHR ''{'' then 7 else 8)"

lemma char_kind_simps:
  "char_kind (CHR ''n'') = 0" "char_kind (CHR ''t'') = 1" "char_kind (CHR ''f'') = 2"
  "char_kind (CHR 0x22) = 5" "char_kind (CHR ''['') = 6" "char_kind (CHR ''{'') = 7"
  "char_kind (CHR '']'') = 8" "char_kind (CHR ''}'') = 8"
  by (simp_all add: char_kind_def is_digit_def)

lemma char_kind_digit: "is_digit c \<or> c = CHR ''-'' \<Longrightarrow> char_kind c = 3"
  by (simp add: char_kind_def)

lemma render_hd_ex: "float_free j \<Longrightarrow> \<exists>c s. render st j = c # s \<and> char_kind c = json_kind j"
proof (cases j)
  case (JInt i)
  with int_str_hd [of i] show ?thesis
    by (metis char_kind_digit json_kind.simps(3) render.simps(3))
qed (simp_all add: char_kind_simps render_str_def)

lemma render_hd:
  assumes "float_free j"
  obtains c s where "render st j = c # s" "char_kind c = json_kind j"
  using render_hd_ex [OF assms] by blast

lemma json_kind_le: "json_kind j < 8"
  by (cases j) simp_all

lemma render_hd_not_close:
  assumes "float_free j" "e = CHR '']'' \<or> e = CHR ''}''"
  shows "\<exists>c s. render st j = c # s \<and> c \<noteq> e"
proof -
  obtain c s where c: "render st j = c # s" "char_kind c = json_kind j"
    using assms(1) by (rule render_hd)
  have "char_kind e = 8"
    using assms(2) by (auto simp: char_kind_simps)
  with c json_kind_le [of j] show ?thesis by auto
qed

lemma render_same_kind:
  assumes "float_free x" "float_free y" "render st x @ r = render st y @ r'"
  shows "json_kind x = json_kind y"
proof -
  obtain c s where "render st x = c # s" "char_kind c = json_kind x"
    using assms(1) by (rule render_hd)
  moreover obtain d t where "render st y = d # t" "char_kind d = json_kind y"
    using assms(2) by (rule render_hd)
  ultimately show ?thesis using assms(3) by simp
qed

lemma render_str_append_inject: "render_str s @ r = render_str t @ r' \<Longrightarrow> s = t \<and> r = r'"
  using escape_str_append_inject [of s r t r'] by (simp add: render_str_def)

definition decodes :: "('a \<Rightarrow> string) \<Rightarrow> 'a \<Rightarrow> 'a \<Rightarrow> bool" where
  "decodes f x y \<longleftrightarrow>
     (\<forall>r r'. f x @ r = f y @ r' \<longrightarrow> json_delim r \<longrightarrow> json_delim r' \<longrightarrow> x = y \<and> r = r')"

lemma decodesD: "decodes f x y \<Longrightarrow> f x @ r = f y @ r' \<Longrightarrow> json_delim r \<Longrightarrow> json_delim r' \<Longrightarrow> x = y \<and> r = r'"
  by (simp add: decodes_def)

lemma join_Cons: "join_with sep (w # ws) = w @ (if ws = [] then [] else sep @ join_with sep ws)"
  by (cases ws) auto

lemma join_append_inject:
  assumes "\<forall>x \<in> set xs. \<forall>y \<in> set ys. decodes f x y"
    and "\<forall>x \<in> set xs \<union> set ys. \<exists>c s. f x = c # s \<and> c \<noteq> e"
    and "e = CHR '']'' \<or> e = CHR ''}''"
    and "join_with (item_sep st) (map f xs) @ e # r = join_with (item_sep st) (map f ys) @ e # r'"
  shows "xs = ys \<and> r = r'"
  using assms
proof (induction xs arbitrary: ys)
  case Nil
  then show ?case by (cases ys) (force simp: join_Cons)+
next
  case (Cons x xs)
  have e: "e \<noteq> CHR '',''" "json_delim (e # z)" for z
    using Cons.prems(3) by auto
  show ?case
  proof (cases ys)
    case Nil
    with Cons.prems show ?thesis by (auto simp: join_Cons)
  next
    case ys: (Cons y ys')
    define tl1 where "tl1 = (if xs = [] then [] else item_sep st @ join_with (item_sep st) (map f xs)) @ e # r"
    define tl2 where "tl2 = (if ys' = [] then [] else item_sep st @ join_with (item_sep st) (map f ys')) @ e # r'"
    have "f x @ tl1 = f y @ tl2" "json_delim tl1" "json_delim tl2"
      using Cons.prems(4) e(2) by (auto simp: ys join_Cons tl1_def tl2_def)
    moreover have "decodes f x y"
      using Cons.prems(1) ys by simp
    ultimately have xy: "x = y" "tl1 = tl2"
      by (auto dest: decodesD)
    have "(xs = [] \<longleftrightarrow> ys' = []) \<and> join_with (item_sep st) (map f xs) @ e # r = join_with (item_sep st) (map f ys') @ e # r'"
      using xy(2) e(1) by (auto simp: tl1_def tl2_def item_sep_def split: if_splits json_style.splits)
    with Cons.IH [of ys'] Cons.prems(1-3) ys xy(1) show ?thesis
      by simp
  qed
qed

lemma decodes_arr:
  assumes IH: "\<forall>x\<in>set js. \<forall>y\<in>set ks. decodes (render st) x y"
    and "float_free (JArr js)" "float_free (JArr ks)"
    and eq: "render st (JArr js) @ r = render st (JArr ks) @ r'"
  shows "js = ks \<and> r = r'"
proof (rule join_append_inject [where f = "render st" and e = "CHR '']''" and st = st, OF IH])
  show "\<forall>x\<in>set js \<union> set ks. \<exists>c s. render st x = c # s \<and> c \<noteq> CHR '']''"
    using assms(2,3) by (intro ballI render_hd_not_close) (auto simp: list_all_iff)
qed (use eq in simp_all)

definition render_item :: "json_style \<Rightarrow> string \<times> json \<Rightarrow> string" where
  "render_item st kv = render_str (fst kv) @ key_sep st @ render st (snd kv)"

lemma render_obj:
  "render st (JObj kvs) = ''{'' @ join_with (item_sep st) (map (render_item st) kvs) @ ''}''"
  by (simp add: render_item_def case_prod_unfold cong: map_cong)

lemma decodes_item:
  assumes "decodes (render st) (snd kv) (snd lw)"
  shows "decodes (render_item st) kv lw"
  unfolding decodes_def
proof (intro allI impI)
  fix r r' assume eq: "render_item st kv @ r = render_item st lw @ r'" and d: "json_delim r" "json_delim r'"
  from eq have "render_str (fst kv) @ (key_sep st @ render st (snd kv) @ r) =
      render_str (fst lw) @ (key_sep st @ render st (snd lw) @ r')"
    by (simp add: render_item_def)
  from render_str_append_inject [OF this]
  have "fst kv = fst lw" "render st (snd kv) @ r = render st (snd lw) @ r'"
    by simp_all
  with decodesD [OF assms _ d] show "kv = lw \<and> r = r'"
    by (simp add: prod_eq_iff)
qed

lemma decodes_obj:
  assumes IH: "\<forall>x\<in>set js. \<forall>y\<in>set ks. decodes (render st) (snd x) (snd y)"
    and eq: "render st (JObj js) @ r = render st (JObj ks) @ r'"
  shows "js = ks \<and> r = r'"
proof (rule join_append_inject [where f = "render_item st" and e = "CHR ''}''" and st = st])
  show "\<forall>x\<in>set js. \<forall>y\<in>set ks. decodes (render_item st) x y"
    using IH decodes_item by blast
  show "\<forall>x\<in>set js \<union> set ks. \<exists>c s. render_item st x = c # s \<and> c \<noteq> CHR ''}''"
    by (simp add: render_item_def render_str_def)
qed (use eq in \<open>simp_all add: render_obj del: render.simps\<close>)

lemma render_decodes: "float_free x \<Longrightarrow> float_free y \<Longrightarrow> decodes (render st) x y"
proof (induction x arbitrary: y)
  case (JArr js)
  show ?case
    unfolding decodes_def
  proof (intro allI impI)
    fix r r' assume eq: "render st (JArr js) @ r = render st y @ r'"
    from render_same_kind [OF JArr.prems eq] obtain ks where y: "y = JArr ks"
      by (cases y) (simp_all split: if_splits)
    have "\<forall>x\<in>set js. \<forall>y\<in>set ks. decodes (render st) x y"
    proof (intro ballI)
      fix v w assume "v \<in> set js" "w \<in> set ks"
      moreover from this have "float_free v" "float_free w"
        using JArr.prems y by (auto simp: list_all_iff)
      ultimately show "decodes (render st) v w"
        using JArr.IH by blast
    qed
    from decodes_arr [OF this JArr.prems(1) JArr.prems(2) [unfolded y] eq [unfolded y]]
    show "JArr js = y \<and> r = r'" using y by simp
  qed
next
  case (JObj kvs)
  show ?case
    unfolding decodes_def
  proof (intro allI impI)
    fix r r' assume eq: "render st (JObj kvs) @ r = render st y @ r'"
    from render_same_kind [OF JObj.prems eq] obtain ks where y: "y = JObj ks"
      by (cases y) (simp_all split: if_splits)
    have "\<forall>x\<in>set kvs. \<forall>y\<in>set ks. decodes (render st) (snd x) (snd y)"
    proof (intro ballI)
      fix kv lw assume "kv \<in> set kvs" "lw \<in> set ks"
      moreover from this have "float_free (snd kv)" "float_free (snd lw)"
        using JObj.prems y by (auto simp: list_all_iff)
      moreover have "snd kv \<in> Basic_BNFs.snds kv"
        by (cases kv) auto
      ultimately show "decodes (render st) (snd kv) (snd lw)"
        using JObj.IH by blast
    qed
    from decodes_obj [OF this eq [unfolded y]] show "JObj kvs = y \<and> r = r'" using y by simp
  qed
next
  case (JInt i)
  show ?case
    unfolding decodes_def
  proof (intro allI impI)
    fix r r' assume eq: "render st (JInt i) @ r = render st y @ r'" and d: "json_delim r" "json_delim r'"
    from render_same_kind [OF JInt.prems eq] obtain j where y: "y = JInt j"
      by (cases y) (simp_all split: if_splits)
    with eq d int_str_append_inject [of i r j r'] show "JInt i = y \<and> r = r'"
      by (simp add: json_delim_no_digit)
  qed
next
  case (JStr s)
  show ?case
    unfolding decodes_def
  proof (intro allI impI)
    fix r r' assume eq: "render st (JStr s) @ r = render st y @ r'"
    from render_same_kind [OF JStr.prems eq] obtain t where y: "y = JStr t"
      by (cases y) (simp_all split: if_splits)
    with eq render_str_append_inject [of s r t r'] show "JStr s = y \<and> r = r'"
      by simp
  qed
next
  case (JBool b)
  show ?case
    unfolding decodes_def
  proof (intro allI impI)
    fix r r' assume eq: "render st (JBool b) @ r = render st y @ r'"
    from render_same_kind [OF JBool.prems eq] have y: "y = JBool b"
      by (cases y) (simp_all split: if_splits)
    with eq show "JBool b = y \<and> r = r'"
      by simp
  qed
next
  case JNull
  show ?case
    unfolding decodes_def
  proof (intro allI impI)
    fix r r' assume eq: "render st JNull @ r = render st y @ r'"
    from render_same_kind [OF JNull.prems eq] have y: "y = JNull"
      by (cases y) (simp_all split: if_splits)
    with eq show "JNull = y \<and> r = r'"
      by simp
  qed
qed simp_all

lemma render_inject:
  assumes "float_free x" "float_free y" "render st x = render st y"
  shows "x = y"
  using decodesD [OF render_decodes [OF assms(1,2), of st], of "[]" "[]"] assms(3) by simp

lemma float_free_sort_keys [simp]: "float_free (sort_keys j) = float_free j"
  by (induction j rule: sort_keys.induct) (auto simp: list_all_iff)

text \<open>Equal texts come from values that agree up to the order of their keys.\<close>

lemma dumps_eqD:
  assumes "dumps st x = dumps st y" "float_free x" "float_free y"
  shows "sort_keys x = sort_keys y"
  using assms render_inject [of "sort_keys x" "sort_keys y" st] by (simp add: dumps_def)

lemma sort_keys_idem [simp]: "sort_keys (sort_keys j) = sort_keys j"
proof (induction j rule: sort_keys.induct)
  case (2 kvs)
  let ?g = "\<lambda>(k, v). (k, sort_keys v)"
  have "map ?g (sort_key fst (map ?g kvs)) = sort_key fst (map ?g kvs)"
    using 2 by (intro map_idI) auto
  then show ?case by (simp add: sort_key_id_if_sorted)
qed simp_all

lemma dumps_sort_keys [simp]: "dumps st (sort_keys j) = dumps st j"
  by (simp add: dumps_def)

text \<open>
  Two objects with the same keys in the same order have equal texts only if their values do, key by
  key; a contract of a fixed type is serialised this way.
\<close>

lemma same_keys_same_set:
  assumes "map fst xs = map fst ys" "distinct (map fst xs)" "set xs = set ys"
  shows "xs = ys"
proof (rule nth_equalityI)
  show l: "length xs = length ys"
    using assms(1) by (metis length_map)
  fix i assume i: "i < length xs"
  have f: "fst (xs ! i) = fst (ys ! i)"
    using i l arg_cong [OF assms(1), of "\<lambda>zs. zs ! i"] by simp
  have "xs ! i \<in> set xs" "ys ! i \<in> set xs"
    using nth_mem [of i xs] nth_mem [of i ys] i l by (simp_all only: assms(3))
  then have "(fst (xs ! i), snd (xs ! i)) \<in> set xs" "(fst (xs ! i), snd (ys ! i)) \<in> set xs"
    using f by (simp_all only: prod.collapse) (metis prod.collapse)
  with assms(2) have "snd (xs ! i) = snd (ys ! i)"
    by (rule eq_key_imp_eq_value)
  with f show "xs ! i = ys ! i"
    by (rule prod_eqI)
qed

definition sort_value :: "string \<times> json \<Rightarrow> string \<times> json" where
  "sort_value kv = (fst kv, sort_keys (snd kv))"

lemma sort_keys_obj: "sort_keys (JObj kvs) = JObj (sort_key fst (map sort_value kvs))"
proof -
  have "sort_value = (\<lambda>(k, v). (k, sort_keys v))"
    by (auto simp: sort_value_def)
  then show ?thesis by simp
qed

lemma sort_value_simps [simp]:
  "map fst (map sort_value xs) = map fst xs"
  "map snd (map sort_value xs) = map (\<lambda>kv. sort_keys (snd kv)) xs"
  by (simp_all add: sort_value_def)

lemma sort_keys_obj_eqD:
  assumes eq: "sort_keys (JObj kvs) = sort_keys (JObj kvs')"
    and keys: "map fst kvs = map fst kvs'" and dist: "distinct (map fst kvs)"
  shows "map (\<lambda>kv. sort_keys (snd kv)) kvs = map (\<lambda>kv. sort_keys (snd kv)) kvs'"
proof -
  have "sort_key fst (map sort_value kvs) = sort_key fst (map sort_value kvs')"
    using eq by (simp only: sort_keys_obj json.inject)
  then have "set (map sort_value kvs) = set (map sort_value kvs')"
    by (metis set_sort)
  with keys dist have "map sort_value kvs = map sort_value kvs'"
    by (intro same_keys_same_set) (simp_all only: sort_value_simps)
  then have "map snd (map sort_value kvs) = map snd (map sort_value kvs')"
    by (rule arg_cong)
  then show ?thesis
    by (simp only: sort_value_simps)
qed

definition opt_json :: "('a \<Rightarrow> json) \<Rightarrow> 'a option \<Rightarrow> json" where
  "opt_json f x = (case x of None \<Rightarrow> JNull | Some v \<Rightarrow> f v)"

lemma opt_json_simps [simp]: "opt_json f None = JNull" "opt_json f (Some v) = f v"
  by (simp_all add: opt_json_def)


section \<open>What a value becomes in a file\<close>

text \<open>The value that \<open>json.loads\<close> reads from what \<open>json.dumps\<close> wrote; \<^const>\<open>None\<close> is the \<open>TypeError\<close> of a value that cannot be
written, wherever it stands.\<close>

fun json_image :: "json \<Rightarrow> json option"
  and item_images :: "json list \<Rightarrow> json list option"
  and field_images :: "(string \<times> json) list \<Rightarrow> (string \<times> json) list option" where
  "json_image (JArr xs) = map_option JArr (item_images xs)"
| "json_image (JObj d) = map_option JObj (field_images d)"
| "json_image (JPy t r None) = None"
| "json_image (JPy t r (Some j)) = json_image j"
| "json_image JNull = Some JNull"
| "json_image (JBool b) = Some (JBool b)"
| "json_image (JInt n) = Some (JInt n)"
| "json_image (JFloat t) = Some (JFloat t)"
| "json_image (JStr s) = Some (JStr s)"
| "item_images [] = Some []"
| "item_images (x # xs) =
     (case json_image x of None \<Rightarrow> None | Some y \<Rightarrow> (case item_images xs of None \<Rightarrow> None | Some ys \<Rightarrow> Some (y # ys)))"
| "field_images [] = Some []"
| "field_images ((k, x) # d) =
     (case json_image x of None \<Rightarrow> None | Some y \<Rightarrow> (case field_images d of None \<Rightarrow> None | Some e \<Rightarrow> Some ((k, y) # e)))"

text \<open>A value of JSON is its own image.\<close>

fun pure_json :: "json \<Rightarrow> bool" where
  "pure_json (JArr xs) = list_all pure_json xs"
| "pure_json (JObj d) = list_all (\<lambda>(k, v). pure_json v) d"
| "pure_json (JPy t r i) = False"
| "pure_json j = True"

lemma pure_image:
  "pure_json j \<Longrightarrow> json_image j = Some j"
  "list_all pure_json xs \<Longrightarrow> item_images xs = Some xs"
  "list_all (\<lambda>(k, v). pure_json v) d \<Longrightarrow> field_images d = Some d"
  by (induction j and xs and d rule: json_image_item_images_field_images.induct) simp_all

lemma image_pure:
  "json_image j = Some j1 \<Longrightarrow> pure_json j1"
  "item_images xs = Some ys \<Longrightarrow> list_all pure_json ys"
  "field_images d = Some e \<Longrightarrow> list_all (\<lambda>(k, v). pure_json v) e"
  by (induction j and xs and d arbitrary: j1 and ys and e rule: json_image_item_images_field_images.induct)
    (auto split: option.split_asm)

end
