(* ===== verification/Mission_Contracts.thy ===== *)
theory Mission_Contracts
  imports Product_Contracts Sha256 Json Complex_Main
begin

text \<open>
  The mission contracts (core/mission_contracts.py): plans with their task graph, approvals, scope
  requests, evidence, verification gates, budgets and draft pull requests, each with the constraints
  and validators its constructor runs, and the canonical digest of a plan.

  A \<open>datetime\<close> is naive, or aware with its instant and its offset, in microseconds. A cost is a
  finite float and is compared exactly, so it is a rational.
\<close>

datatype datetime = Naive int | Aware int int

text \<open>\<open>a < b\<close> on datetimes raises TypeError when exactly one is aware.\<close>

fun dt_less :: "datetime \<Rightarrow> datetime \<Rightarrow> bool option" where
  "dt_less (Naive a) (Naive b) = Some (a < b)"
| "dt_less (Aware a _) (Aware b _) = Some (a < b)"
| "dt_less _ _ = None"


section \<open>Tasks and plans\<close>

record agent_assignment =
  aa_assignment_id :: string
  aa_role :: string
  aa_agent_id :: "string option"
  aa_provider :: "string option"
  aa_model :: "string option"

definition make_agent_assignment :: "agent_assignment \<Rightarrow> contract_error + agent_assignment" where
  "make_agent_assignment raw =
     (let a = \<lparr>aa_assignment_id = strip_ws (aa_assignment_id raw), aa_role = strip_ws (aa_role raw),
               aa_agent_id = map_option strip_ws (aa_agent_id raw),
               aa_provider = map_option strip_ws (aa_provider raw),
               aa_model = map_option strip_ws (aa_model raw)\<rparr>
      in guarded
        [(\<not> is_identifier (aa_assignment_id a), Bad_Field ''assignment_id''),
         (\<not> len_between 1 128 (aa_role a), Bad_Field ''role''),
         (\<not> opt_ok is_identifier (aa_agent_id a), Bad_Field ''agent_id''),
         (\<not> opt_ok (len_between 0 128) (aa_provider a), Bad_Field ''provider''),
         (\<not> opt_ok (len_between 0 256) (aa_model a), Bad_Field ''model'')] a)"

record plan_task =
  pt_task_id :: string
  pt_title :: string
  pt_description :: string
  pt_order :: int
  pt_dependencies :: "string list"
  pt_assignment :: "agent_assignment option"
  pt_assigned_role :: "string option"
  pt_expected_paths :: "string list"
  pt_verification_requirements :: "string list"
  pt_estimated_risk :: risk_level
  pt_calls_min :: int
  pt_calls_max :: int
  pt_approval_status :: approval_status

definition strip_plan_task :: "plan_task \<Rightarrow> plan_task" where
  "strip_plan_task t = t\<lparr>
     pt_task_id := strip_ws (pt_task_id t), pt_title := strip_ws (pt_title t),
     pt_description := strip_ws (pt_description t),
     pt_dependencies := map strip_ws (pt_dependencies t),
     pt_assigned_role := map_option strip_ws (pt_assigned_role t),
     pt_expected_paths := map strip_ws (pt_expected_paths t),
     pt_verification_requirements := map strip_ws (pt_verification_requirements t)\<rparr>"

definition make_plan_task :: "plan_task \<Rightarrow> contract_error + plan_task" where
  "make_plan_task raw =
     (let t = strip_plan_task raw
      in guarded
        [(\<not> is_identifier (pt_task_id t), Bad_Field ''task_id''),
         (\<not> len_between 1 256 (pt_title t), Bad_Field ''title''),
         (\<not> len_between 0 4000 (pt_description t), Bad_Field ''description''),
         (pt_order t < 1, Bad_Field ''order''),
         (\<not> list_all is_identifier (pt_dependencies t), Bad_Field ''dependencies''),
         (\<not> opt_ok (len_between 0 128) (pt_assigned_role t), Bad_Field ''assigned_role''),
         (\<not> is_ok (validate_relative_paths (pt_expected_paths t)), Bad_Field ''expected_paths''),
         (pt_calls_min t < 0, Bad_Field ''estimated_provider_calls_min''),
         (pt_calls_max t < 0, Bad_Field ''estimated_provider_calls_max''),
         (pt_calls_min t > pt_calls_max t,
            Bad_Value ''minimum provider calls cannot exceed maximum'')] t)"

record execution_plan =
  ep_schema_version :: string
  ep_plan_id :: string
  ep_mission_id :: string
  ep_revision :: int
  ep_tasks :: "plan_task list"
  ep_approval_status :: approval_status
  ep_approved_revision :: "int option"
  ep_required_verification :: "gate_name list"
  ep_estimated_risk :: risk_level

text \<open>
  The depth-first search \<open>visit\<close>. \<open>visiting\<close> is the recursion path, which a successful call leaves as
  it found it; \<open>visited\<close> is threaded through. A task that is no key of the graph raises KeyError.
\<close>

type_synonym task_graph = "(string, string list) dict"

definition cycle_error :: contract_error where
  "cycle_error = Bad_Value ''execution plan dependencies must be acyclic''"

lemma visiting_grows:
  assumes "dict_get graph t = Some deps" "t \<notin> set visiting"
  shows "card (fst ` set graph - set (t # visiting)) < card (fst ` set graph - set visiting)"
proof -
  have "t \<in> fst ` set graph - set visiting"
    using assms dict_get_Some_in [OF assms(1)] by force
  moreover have "fst ` set graph - set (t # visiting) = fst ` set graph - set visiting - {t}"
    by auto
  ultimately show ?thesis
    by (metis List.finite_set card_Diff1_less finite_Diff finite_imageI)
qed

function (sequential) visit ::
    "task_graph \<Rightarrow> string list \<Rightarrow> string list \<Rightarrow> string \<Rightarrow> contract_error + string list"
  and visit_all ::
    "task_graph \<Rightarrow> string list \<Rightarrow> string list \<Rightarrow> string list \<Rightarrow> contract_error + string list" where
  "visit graph visiting visited task_id =
     (if task_id \<in> set visiting then Inl cycle_error
      else if task_id \<in> set visited then Inr visited
      else case dict_get graph task_id of
          None \<Rightarrow> Inl (Bad_Value ''KeyError'')
        | Some deps \<Rightarrow>
            (case visit_all graph (task_id # visiting) visited deps of
               Inl e \<Rightarrow> Inl e
             | Inr visited' \<Rightarrow> Inr (task_id # visited')))"
| "visit_all graph visiting visited [] = Inr visited"
| "visit_all graph visiting visited (d # ds) =
     (case visit graph visiting visited d of
        Inl e \<Rightarrow> Inl e
      | Inr visited' \<Rightarrow> visit_all graph visiting visited' ds)"
  by pat_completeness auto

termination
  by (relation "measures
        [\<lambda>x. case x of Inl (g, vg, _, _) \<Rightarrow> card (fst ` set g - set vg)
                     | Inr (g, vg, _, _) \<Rightarrow> card (fst ` set g - set vg),
         \<lambda>x. case x of Inl _ \<Rightarrow> 0 | Inr (_, _, _, ds) \<Rightarrow> length ds]")
     (auto dest: visiting_grows)

definition plan_graph :: "plan_task list \<Rightarrow> task_graph" where
  "plan_graph tasks = dict_of pt_task_id pt_dependencies tasks"

definition validate_plan_graph :: "execution_plan \<Rightarrow> contract_error + execution_plan" where
  "validate_plan_graph plan =
     (let task_ids = map pt_task_id (ep_tasks plan);
          orders = map pt_order (ep_tasks plan);
          graph = plan_graph (ep_tasks plan)
      in res_bind (guarded
           ([(\<not> distinct task_ids, Bad_Value ''execution plan task IDs must be unique''),
             (\<not> distinct orders, Bad_Value ''execution plan task order values must be unique'')] @
            concat (map (\<lambda>t.
              [(pt_task_id t \<in> set (pt_dependencies t),
                 Bad_Value ''execution plan tasks cannot depend on themselves''),
               (\<not> list_all (\<lambda>d. d \<in> set task_ids) (pt_dependencies t),
                 Bad_Value ''execution plan dependencies must reference existing tasks'')])
              (ep_tasks plan))) ())
         (\<lambda>_. res_bind (visit_all graph [] [] task_ids)
         (\<lambda>_. guarded
           [(\<not> distinct (ep_required_verification plan),
               Bad_Value ''required verification gates must be unique''),
            (ep_approval_status plan = Approved \<and> ep_approved_revision plan \<noteq> Some (ep_revision plan),
               Bad_Value ''approved plans must bind their approved revision''),
            (ep_approval_status plan \<noteq> Approved \<and> ep_approved_revision plan \<noteq> None,
               Bad_Value ''only approved plans may record an approved revision'')] plan)))"

definition make_execution_plan :: "execution_plan \<Rightarrow> contract_error + execution_plan" where
  "make_execution_plan raw =
     (let p = raw\<lparr>ep_schema_version := strip_ws (ep_schema_version raw),
                  ep_plan_id := strip_ws (ep_plan_id raw),
                  ep_mission_id := strip_ws (ep_mission_id raw)\<rparr>
      in res_bind (guarded
        [(\<not> is_identifier (ep_plan_id p), Bad_Field ''plan_id''),
         (\<not> is_identifier (ep_mission_id p), Bad_Field ''mission_id''),
         (ep_revision p < 1, Bad_Field ''revision''),
         (length (ep_tasks p) < 1, Bad_Field ''tasks''),
         (\<not> opt_ok (\<lambda>r. 1 \<le> r) (ep_approved_revision p), Bad_Field ''approved_revision'')] p)
        validate_plan_graph)"


section \<open>The depth-first search decides acyclicity\<close>

definition graph_rel :: "task_graph \<Rightarrow> (string \<times> string) set" where
  "graph_rel g = {(t, d). \<exists>deps. dict_get g t = Some deps \<and> d \<in> set deps}"

definition settled :: "task_graph \<Rightarrow> string list \<Rightarrow> bool" where
  "settled g vs \<longleftrightarrow> graph_rel g `` set vs \<subseteq> set vs \<and> (\<forall>v \<in> set vs. (v, v) \<notin> (graph_rel g)\<^sup>+)"

lemma settled_reach:
  assumes "settled g vs" "(v, w) \<in> (graph_rel g)\<^sup>+" "v \<in> set vs"
  shows "w \<in> set vs"
  using assms(2,1,3) by (induction rule: trancl_induct) (auto simp: settled_def)

lemma settled_Cons:
  assumes "settled g vs" "dict_get g t = Some deps" "set deps \<subseteq> set vs" "t \<notin> set vs"
  shows "settled g (t # vs)"
proof -
  have "(t, t) \<notin> (graph_rel g)\<^sup>+"
  proof
    assume "(t, t) \<in> (graph_rel g)\<^sup>+"
    then obtain d where d: "(t, d) \<in> graph_rel g" "d = t \<or> (d, t) \<in> (graph_rel g)\<^sup>+"
      by (metis tranclD rtranclD)
    then have "d \<in> set vs"
      using assms by (auto simp: graph_rel_def)
    with d settled_reach [OF assms(1)] assms(4) show False
      by auto
  qed
  with assms show ?thesis
    by (auto simp: settled_def graph_rel_def)
qed

lemma visit_sound:
  "visit g visiting vs t = Inr vs' \<Longrightarrow> settled g vs \<Longrightarrow> set visiting \<inter> set vs = {} \<Longrightarrow>
     settled g vs' \<and> set vs \<subseteq> set vs' \<and> t \<in> set vs' \<and> set visiting \<inter> set vs' = {}"
  "visit_all g visiting vs ts = Inr vs' \<Longrightarrow> settled g vs \<Longrightarrow> set visiting \<inter> set vs = {} \<Longrightarrow>
     settled g vs' \<and> set vs \<subseteq> set vs' \<and> set ts \<subseteq> set vs' \<and> set visiting \<inter> set vs' = {}"
proof (induction g visiting vs t and g visiting vs ts arbitrary: vs' and vs' rule: visit_visit_all.induct)
  case (1 g visiting vs t)
  show ?case
  proof (cases "t \<in> set vs")
    case True
    with 1 show ?thesis by (auto split: if_splits)
  next
    case False
    with 1(2) obtain deps ws where w: "t \<notin> set visiting" "dict_get g t = Some deps"
        "visit_all g (t # visiting) vs deps = Inr ws" "vs' = t # ws"
      by (auto split: if_splits option.splits sum.splits)
    have "settled g ws \<and> set vs \<subseteq> set ws \<and> set deps \<subseteq> set ws \<and> set (t # visiting) \<inter> set ws = {}"
      using False w 1(3,4) by (intro 1(1)) auto
    with w settled_Cons [of g ws t deps] show ?thesis
      by auto
  qed
next
  case (2 g visiting vs)
  then show ?case by simp
next
  case (3 g visiting vs d ds)
  from 3(3) obtain ws where w: "visit g visiting vs d = Inr ws" "visit_all g visiting ws ds = Inr vs'"
    by (auto split: sum.splits)
  have a: "settled g ws \<and> set vs \<subseteq> set ws \<and> d \<in> set ws \<and> set visiting \<inter> set ws = {}"
    using 3(1) [OF w(1) 3(4,5)] .
  then have "settled g vs' \<and> set ws \<subseteq> set vs' \<and> set ds \<subseteq> set vs' \<and> set visiting \<inter> set vs' = {}"
    using 3(2) [OF w(1) w(2)] by blast
  with a show ?case by auto
qed

definition closed_graph :: "task_graph \<Rightarrow> bool" where
  "closed_graph g \<longleftrightarrow> (\<forall>t deps. dict_get g t = Some deps \<longrightarrow> (\<forall>d \<in> set deps. dict_get g d \<noteq> None))"

lemma visit_complete:
  "visit g visiting vs t = Inl e \<Longrightarrow> closed_graph g \<Longrightarrow> dict_get g t \<noteq> None \<Longrightarrow>
     (\<forall>v \<in> set visiting. (v, t) \<in> (graph_rel g)\<^sup>+) \<Longrightarrow> e = cycle_error \<and> (\<exists>c. (c, c) \<in> (graph_rel g)\<^sup>+)"
  "visit_all g visiting vs ts = Inl e \<Longrightarrow> closed_graph g \<Longrightarrow> (\<forall>t \<in> set ts. dict_get g t \<noteq> None) \<Longrightarrow>
     (\<forall>v \<in> set visiting. \<forall>t \<in> set ts. (v, t) \<in> (graph_rel g)\<^sup>+) \<Longrightarrow>
     e = cycle_error \<and> (\<exists>c. (c, c) \<in> (graph_rel g)\<^sup>+)"
proof (induction g visiting vs t and g visiting vs ts rule: visit_visit_all.induct)
  case (1 g visiting vs t)
  show ?case
  proof (cases "t \<in> set visiting")
    case True
    with 1 show ?thesis by auto
  next
    case False
    with 1(2,4) obtain deps where w: "t \<notin> set vs" "dict_get g t = Some deps"
        "visit_all g (t # visiting) vs deps = Inl e"
      by (auto split: if_splits option.splits sum.splits)
    have step: "(t, d) \<in> graph_rel g" if "d \<in> set deps" for d
      using that w by (auto simp: graph_rel_def)
    have "\<forall>v \<in> set (t # visiting). \<forall>d \<in> set deps. (v, d) \<in> (graph_rel g)\<^sup>+"
      using step 1(5) by (auto intro: trancl_into_trancl)
    moreover have "\<forall>d \<in> set deps. dict_get g d \<noteq> None"
      using 1(3) w(2) unfolding closed_graph_def by blast
    ultimately show ?thesis
      using 1(1) [OF False w(1,2,3)] 1(3) by blast
  qed
next
  case (2 g visiting vs)
  then show ?case by simp
next
  case (3 g visiting vs d ds)
  show ?case
  proof (cases "visit g visiting vs d")
    case (Inl e')
    with 3(1,3-6) show ?thesis by simp
  next
    case (Inr ws)
    with 3(3) have "visit_all g visiting ws ds = Inl e" by simp
    with 3(2) [OF Inr] 3(4-6) show ?thesis by simp
  qed
qed

lemma visit_all_iff_acyclic:
  assumes "closed_graph g" "set ts = fst ` set g"
  shows "(\<exists>vs. visit_all g [] [] ts = Inr vs) \<longleftrightarrow> acyclic (graph_rel g)"
proof
  assume "\<exists>vs. visit_all g [] [] ts = Inr vs"
  then obtain vs where "visit_all g [] [] ts = Inr vs" ..
  then have s: "settled g vs" "set ts \<subseteq> set vs"
    using visit_sound(2) [of g "[]" "[]" ts vs] by (auto simp: settled_def)
  show "acyclic (graph_rel g)"
    unfolding acyclic_def
  proof
    fix x
    show "(x, x) \<notin> (graph_rel g)\<^sup>+"
    proof
      assume c: "(x, x) \<in> (graph_rel g)\<^sup>+"
      then obtain d where "(x, d) \<in> graph_rel g" by (meson tranclD)
      then have "x \<in> set vs"
        using s(2) assms(2) dict_get_None [of g x] by (auto simp: graph_rel_def)
      with s(1) c show False by (simp add: settled_def)
    qed
  qed
next
  assume ac: "acyclic (graph_rel g)"
  show "\<exists>vs. visit_all g [] [] ts = Inr vs"
  proof (cases "visit_all g [] [] ts")
    case (Inl e)
    with visit_complete(2) [of g "[]" "[]" ts e] assms ac show ?thesis
      by (auto simp: dict_get_None acyclic_def)
  qed auto
qed

text \<open>
  The declarative meaning of a plan accepted by the validator: the identifiers and the positions are
  unique, every dependency is a task of the plan, the dependency relation has no cycle, the required
  gates are unique and the approved revision is recorded exactly for an approved plan.
\<close>

definition dependency_rel :: "plan_task list \<Rightarrow> (string \<times> string) set" where
  "dependency_rel ts = {(pt_task_id t, d) | t d. t \<in> set ts \<and> d \<in> set (pt_dependencies t)}"

definition plan_graph_spec :: "execution_plan \<Rightarrow> bool" where
  "plan_graph_spec p \<longleftrightarrow>
     distinct (map pt_task_id (ep_tasks p)) \<and> distinct (map pt_order (ep_tasks p)) \<and>
     Range (dependency_rel (ep_tasks p)) \<subseteq> pt_task_id ` set (ep_tasks p) \<and>
     acyclic (dependency_rel (ep_tasks p)) \<and>
     distinct (ep_required_verification p) \<and>
     ep_approved_revision p = (if ep_approval_status p = Approved then Some (ep_revision p) else None)"

lemma plan_graph_keys: "fst ` set (plan_graph ts) = pt_task_id ` set ts"
proof -
  have "(k \<in> fst ` set (plan_graph ts)) = (k \<in> pt_task_id ` set ts)" for k
    using dict_get_None [of "plan_graph ts" k] dict_get_dict_of_None [of pt_task_id pt_dependencies ts k]
    by (simp add: plan_graph_def)
  then show ?thesis by blast
qed

lemma plan_graph_rel:
  assumes "distinct (map pt_task_id ts)"
  shows "graph_rel (plan_graph ts) = dependency_rel ts"
proof
  show "graph_rel (plan_graph ts) \<subseteq> dependency_rel ts"
    by (auto simp: graph_rel_def dependency_rel_def plan_graph_def elim!: dict_get_dict_of_Some)
  show "dependency_rel ts \<subseteq> graph_rel (plan_graph ts)"
    using dict_get_dict_of_in [OF assms]
    by (fastforce simp: graph_rel_def dependency_rel_def plan_graph_def)
qed

lemma plan_graph_closed:
  assumes "Range (dependency_rel ts) \<subseteq> pt_task_id ` set ts"
  shows "closed_graph (plan_graph ts)"
  unfolding closed_graph_def
proof (intro allI impI ballI)
  fix t deps d assume g: "dict_get (plan_graph ts) t = Some deps" and d: "d \<in> set deps"
  obtain x where "x \<in> set ts" "pt_dependencies x = deps"
    using g unfolding plan_graph_def by (rule dict_get_dict_of_Some)
  with d have "(pt_task_id x, d) \<in> dependency_rel ts"
    unfolding dependency_rel_def by blast
  with assms have "d \<in> pt_task_id ` set ts"
    by blast
  then show "dict_get (plan_graph ts) d \<noteq> None"
    using dict_get_None plan_graph_keys by metis
qed

lemma dependencies_known:
  "Range (dependency_rel ts) \<subseteq> K \<longleftrightarrow> (\<forall>t \<in> set ts. list_all (\<lambda>d. d \<in> K) (pt_dependencies t))"
  by (auto simp: dependency_rel_def list_all_iff)

lemma acyclic_no_self: "acyclic (dependency_rel ts) \<Longrightarrow> t \<in> set ts \<Longrightarrow> pt_task_id t \<notin> set (pt_dependencies t)"
  by (auto simp: acyclic_def dependency_rel_def)

lemma validate_plan_graph_Inr:
  "validate_plan_graph p = Inr q \<longleftrightarrow> q = p \<and> plan_graph_spec p"
proof -
  let ?ts = "ep_tasks p"
  have dfs: "(\<exists>vs. visit_all (plan_graph ?ts) [] [] (map pt_task_id ?ts) = Inr vs) \<longleftrightarrow> acyclic (dependency_rel ?ts)"
    if "distinct (map pt_task_id ?ts)" "Range (dependency_rel ?ts) \<subseteq> pt_task_id ` set ?ts"
    using visit_all_iff_acyclic [OF plan_graph_closed [OF that(2)], of "map pt_task_id ?ts"]
      plan_graph_keys [of ?ts] plan_graph_rel [OF that(1)] by simp
  show ?thesis
    using dfs acyclic_no_self [of ?ts]
    by (auto simp: validate_plan_graph_def plan_graph_spec_def Let_def res_bind_eq_Inr dependencies_known
        dest: bspec split: if_splits)
qed

lemma make_execution_plan_spec:
  assumes "make_execution_plan raw = Inr p"
  shows "plan_graph_spec p" "ep_tasks p \<noteq> []" "1 \<le> ep_revision p"
    "is_identifier (ep_plan_id p)" "is_identifier (ep_mission_id p)"
  using assms by (auto simp: make_execution_plan_def Let_def res_bind_eq_Inr validate_plan_graph_Inr)


section \<open>The canonical digest of a plan\<close>

text \<open>\<open>model_dump(mode="json")\<close> of the plan and its parts, fields in declaration order.\<close>

definition strs_json :: "string list \<Rightarrow> json" where
  "strs_json xs = JArr (map JStr xs)"

definition assignment_json :: "agent_assignment \<Rightarrow> json" where
  "assignment_json a = JObj
     [(''assignment_id'', JStr (aa_assignment_id a)), (''role'', JStr (aa_role a)),
      (''agent_id'', opt_json JStr (aa_agent_id a)), (''provider'', opt_json JStr (aa_provider a)),
      (''model'', opt_json JStr (aa_model a))]"

definition task_json :: "plan_task \<Rightarrow> json" where
  "task_json t = JObj
     [(''task_id'', JStr (pt_task_id t)), (''title'', JStr (pt_title t)),
      (''description'', JStr (pt_description t)), (''order'', JInt (pt_order t)),
      (''dependencies'', strs_json (pt_dependencies t)),
      (''assignment'', opt_json assignment_json (pt_assignment t)),
      (''assigned_role'', opt_json JStr (pt_assigned_role t)),
      (''expected_paths'', strs_json (pt_expected_paths t)),
      (''verification_requirements'', strs_json (pt_verification_requirements t)),
      (''estimated_risk'', JStr (risk_level_value (pt_estimated_risk t))),
      (''estimated_provider_calls_min'', JInt (pt_calls_min t)),
      (''estimated_provider_calls_max'', JInt (pt_calls_max t)),
      (''approval_status'', JStr (approval_status_value (pt_approval_status t)))]"

definition plan_json :: "execution_plan \<Rightarrow> json" where
  "plan_json p = JObj
     [(''schema_version'', JStr (ep_schema_version p)), (''plan_id'', JStr (ep_plan_id p)),
      (''mission_id'', JStr (ep_mission_id p)), (''revision'', JInt (ep_revision p)),
      (''tasks'', JArr (map task_json (ep_tasks p))),
      (''approval_status'', JStr (approval_status_value (ep_approval_status p))),
      (''approved_revision'', opt_json JInt (ep_approved_revision p)),
      (''required_verification'', strs_json (map gate_name_value (ep_required_verification p))),
      (''estimated_risk'', JStr (risk_level_value (ep_estimated_risk p)))]"

definition serialize_plan :: "execution_plan \<Rightarrow> string" where
  "serialize_plan p = dumps Compact (plan_json p)"

definition canonical_digest :: "execution_plan \<Rightarrow> string" where
  "canonical_digest p = sha256 (serialize_plan p)"

lemma length_canonical_digest [simp]: "length (canonical_digest p) = 64"
  by (simp add: canonical_digest_def)

lemma sort_keys_strs_json [simp]: "sort_keys (strs_json xs) = strs_json xs"
  by (induction xs) (auto simp: strs_json_def)

lemma strs_json_inject [simp]: "strs_json xs = strs_json ys \<longleftrightarrow> xs = ys"
  by (auto simp: strs_json_def inj_map_eq_map inj_def)

lemma opt_json_str_inject [simp]: "opt_json JStr x = opt_json JStr y \<longleftrightarrow> x = y"
  by (cases x; cases y) auto

lemma opt_json_int_inject [simp]: "opt_json JInt x = opt_json JInt y \<longleftrightarrow> x = y"
  by (cases x; cases y) auto

lemma sort_keys_opt_json [simp]:
  "sort_keys (opt_json JStr x) = opt_json JStr x" "sort_keys (opt_json JInt i) = opt_json JInt i"
  by (simp_all add: opt_json_def split: option.splits)

lemma float_free_strs_json [simp]:
  "float_free (strs_json xs)" "float_free (opt_json JStr x)" "float_free (opt_json JInt i)"
  by (simp_all add: strs_json_def list_all_iff opt_json_def split: option.splits)

lemma assignment_json_eqD:
  assumes "sort_keys (assignment_json a) = sort_keys (assignment_json b)"
  shows "a = b"
  using sort_keys_obj_eqD [OF assms [unfolded assignment_json_def]]
  by (intro agent_assignment.equality) auto

lemma opt_assignment_eqD:
  "sort_keys (opt_json assignment_json x) = sort_keys (opt_json assignment_json y) \<Longrightarrow> x = y"
  by (cases x; cases y) (auto dest: assignment_json_eqD, (simp add: assignment_json_def)+)

lemma risk_value_inject [simp]: "risk_level_value x = risk_level_value y \<longleftrightarrow> x = y"
  by (rule inj_eq [OF inj_risk_level_value])

lemma approval_status_value_inject [simp]: "approval_status_value x = approval_status_value y \<longleftrightarrow> x = y"
  by (rule inj_eq [OF inj_approval_status_value])

lemma task_json_eqD:
  assumes "sort_keys (task_json a) = sort_keys (task_json b)"
  shows "a = b"
  using sort_keys_obj_eqD [OF assms [unfolded task_json_def]]
  by (intro plan_task.equality) (auto dest: opt_assignment_eqD)

lemma tasks_json_eqD: "map (sort_keys \<circ> task_json) xs = map (sort_keys \<circ> task_json) ys \<Longrightarrow> xs = ys"
  by (rule map_injective) (auto simp: inj_def task_json_eqD)

lemma plan_json_eqD:
  assumes "sort_keys (plan_json p) = sort_keys (plan_json q)"
  shows "p = q"
  using sort_keys_obj_eqD [OF assms [unfolded plan_json_def]]
  by (intro execution_plan.equality)
     (auto dest!: tasks_json_eqD dest: injD [OF inj_mapI [OF inj_gate_name_value]])

lemma float_free_assignment_json [simp]: "float_free (assignment_json a)"
  by (simp add: assignment_json_def)

lemma float_free_task_json [simp]: "float_free (task_json t)"
  by (cases "pt_assignment t") (simp_all add: task_json_def)

lemma float_free_plan_json [simp]: "float_free (plan_json p)"
  by (simp add: plan_json_def list_all_iff)

lemma serialize_plan_inject: "serialize_plan p = serialize_plan q \<Longrightarrow> p = q"
  unfolding serialize_plan_def by (rule plan_json_eqD) (rule dumps_eqD; simp)

lemma canonical_digest_eqD:
  assumes "canonical_digest p = canonical_digest q"
  shows "p = q \<or> collision sha256 (serialize_plan p) (serialize_plan q)"
  using sha.digest_eqD [OF assms [unfolded canonical_digest_def]] serialize_plan_inject by blast

end
