(* ===== verification/Mission_Records.thy ===== *)
theory Mission_Records
  imports Mission_Contracts
begin

text \<open>
  The records a mission collects (core/mission_contracts.py): approval subjects, decisions, requests
  and gates, scope requests, evidence, verification gates and the evidence types each gate accepts,
  budgets, usage and the delivered draft pull request.
\<close>

section \<open>Approvals\<close>

datatype approval_subject =
    Plan_Subject (ps_plan_id: string) (ps_revision: int) (ps_digest: string)
  | Scope_Subject (ss_request_id: string)
  | Draft_PR_Subject (ds_review_id: string) (ds_plan_id: string) (ds_revision: int) (ds_branch: string)
      (ds_head_sha: string)

definition is_hex64 :: "string \<Rightarrow> bool" where
  "is_hex64 s = (length s = 64 \<and> list_all (\<lambda>c. c \<in> set ''0123456789abcdef'') s)"

fun subject_kind :: "approval_subject \<Rightarrow> string" where
  "subject_kind (Plan_Subject _ _ _) = ''plan''"
| "subject_kind (Scope_Subject _) = ''scope_expansion''"
| "subject_kind (Draft_PR_Subject _ _ _ _ _) = ''draft_pr''"

fun make_approval_subject :: "approval_subject \<Rightarrow> contract_error + approval_subject" where
  "make_approval_subject (Plan_Subject i r d) =
     (let i' = strip_ws i; d' = strip_ws d
      in guarded [(\<not> is_identifier i', Bad_Field ''plan_id''), (r < 1, Bad_Field ''plan_revision''),
                  (\<not> is_hex64 d', Bad_Field ''plan_digest'')] (Plan_Subject i' r d'))"
| "make_approval_subject (Scope_Subject i) =
     (let i' = strip_ws i
      in guarded [(\<not> is_identifier i', Bad_Field ''scope_request_id'')] (Scope_Subject i'))"
| "make_approval_subject (Draft_PR_Subject v i r b h) =
     (let v' = strip_ws v; i' = strip_ws i; b' = strip_ws b; h' = strip_ws h
      in guarded [(\<not> is_identifier v', Bad_Field ''review_id''), (\<not> is_identifier i', Bad_Field ''plan_id''),
                  (r < 1, Bad_Field ''plan_revision''), (\<not> len_between 1 256 b', Bad_Field ''branch''),
                  (\<not> len_between 1 128 h', Bad_Field ''head_sha'')] (Draft_PR_Subject v' i' r b' h'))"

record approval_decision =
  ad_status :: approval_status
  ad_actor_id :: string
  ad_decided_at :: datetime
  ad_evidence_refs :: "string list"

definition make_approval_decision :: "approval_decision \<Rightarrow> contract_error + approval_decision" where
  "make_approval_decision raw =
     (let d = raw\<lparr>ad_actor_id := strip_ws (ad_actor_id raw),
                  ad_evidence_refs := map strip_ws (ad_evidence_refs raw)\<rparr>
      in guarded
        [(\<not> is_identifier (ad_actor_id d), Bad_Field ''actor_id''),
         (\<not> list_all is_identifier (ad_evidence_refs d), Bad_Field ''evidence_refs''),
         (ad_status d = Approval_Pending, Bad_Value ''a decision must be approved or rejected'')] d)"

record approval_request =
  ar_request_id :: string
  ar_decision_type :: approval_type
  ar_subject :: approval_subject
  ar_requested_change :: string
  ar_reason :: string
  ar_impact :: string
  ar_requested_actor :: string
  ar_decision :: "approval_decision option"
  ar_evidence_refs :: "string list"
  ar_idempotency_key :: string

definition make_approval_request :: "approval_request \<Rightarrow> contract_error + approval_request" where
  "make_approval_request raw =
     (let r = raw\<lparr>ar_request_id := strip_ws (ar_request_id raw),
                  ar_requested_change := strip_ws (ar_requested_change raw),
                  ar_reason := strip_ws (ar_reason raw), ar_impact := strip_ws (ar_impact raw),
                  ar_requested_actor := strip_ws (ar_requested_actor raw),
                  ar_evidence_refs := map strip_ws (ar_evidence_refs raw),
                  ar_idempotency_key := strip_ws (ar_idempotency_key raw)\<rparr>
      in guarded
        [(\<not> is_identifier (ar_request_id r), Bad_Field ''request_id''),
         (\<not> len_between 1 4000 (ar_requested_change r), Bad_Field ''requested_change''),
         (\<not> len_between 1 4000 (ar_reason r), Bad_Field ''reason''),
         (\<not> len_between 1 4000 (ar_impact r), Bad_Field ''impact''),
         (\<not> is_identifier (ar_requested_actor r), Bad_Field ''requested_actor''),
         (\<not> list_all is_identifier (ar_evidence_refs r), Bad_Field ''evidence_refs''),
         (\<not> is_identifier (ar_idempotency_key r), Bad_Field ''idempotency_key''),
         (subject_kind (ar_subject r) \<noteq> approval_type_value (ar_decision_type r),
            Bad_Value ''approval subject must match decision type''),
         ((case ar_decision r of None \<Rightarrow> False | Some d \<Rightarrow> ad_actor_id d = ar_requested_actor r),
            Bad_Value ''self_approval_prohibited: Approver cannot be the same actor who requested approval'')] r)"

record approval_gate =
  ag_gate_id :: string
  ag_gate_type :: approval_type
  ag_subject :: approval_subject
  ag_status :: approval_status
  ag_actor_id :: "string option"
  ag_decided_at :: "datetime option"
  ag_evidence_refs :: "string list"
  ag_idempotency_key :: string

definition make_approval_gate :: "approval_gate \<Rightarrow> contract_error + approval_gate" where
  "make_approval_gate raw =
     (let g = raw\<lparr>ag_gate_id := strip_ws (ag_gate_id raw),
                  ag_actor_id := map_option strip_ws (ag_actor_id raw),
                  ag_evidence_refs := map strip_ws (ag_evidence_refs raw),
                  ag_idempotency_key := strip_ws (ag_idempotency_key raw)\<rparr>;
          has_actor = (ag_actor_id g \<noteq> None); has_timestamp = (ag_decided_at g \<noteq> None)
      in guarded
        [(\<not> is_identifier (ag_gate_id g), Bad_Field ''gate_id''),
         (\<not> opt_ok is_identifier (ag_actor_id g), Bad_Field ''actor_id''),
         (\<not> list_all is_identifier (ag_evidence_refs g), Bad_Field ''evidence_refs''),
         (\<not> is_identifier (ag_idempotency_key g), Bad_Field ''idempotency_key''),
         (subject_kind (ag_subject g) \<noteq> approval_type_value (ag_gate_type g),
            Bad_Value ''approval gate subject must match gate type''),
         (ag_status g = Approval_Pending \<and> (has_actor \<or> has_timestamp),
            Bad_Value ''pending approvals cannot claim decision metadata''),
         (ag_status g \<noteq> Approval_Pending \<and> \<not> (has_actor \<and> has_timestamp),
            Bad_Value ''decided approvals require actor and timestamp'')] g)"

lemma make_approval_request_no_self:
  assumes "make_approval_request raw = Inr r" "ar_decision r = Some d"
  shows "ad_actor_id d \<noteq> ar_requested_actor r"
  using assms by (auto simp: make_approval_request_def Let_def)

lemma make_approval_gate_decided:
  assumes "make_approval_gate raw = Inr g"
  shows "ag_status g \<noteq> Approval_Pending \<longleftrightarrow> ag_actor_id g \<noteq> None"
    "ag_status g \<noteq> Approval_Pending \<longleftrightarrow> ag_decided_at g \<noteq> None"
    "subject_kind (ag_subject g) = approval_type_value (ag_gate_type g)"
  using assms unfolding make_approval_gate_def Let_def
  by (simp_all del: not_None_eq) blast+


section \<open>Scope requests and evidence\<close>

record scope_request =
  sr_request_id :: string
  sr_mission_id :: string
  sr_requested_paths :: "string list"
  sr_reason :: string
  sr_impact :: string
  sr_risk :: risk_level
  sr_status :: approval_status
  sr_requested_by :: "string option"

definition make_scope_request :: "scope_request \<Rightarrow> contract_error + scope_request" where
  "make_scope_request raw =
     (let r = raw\<lparr>sr_request_id := strip_ws (sr_request_id raw),
                  sr_mission_id := strip_ws (sr_mission_id raw),
                  sr_requested_paths := map strip_ws (sr_requested_paths raw),
                  sr_reason := strip_ws (sr_reason raw), sr_impact := strip_ws (sr_impact raw),
                  sr_requested_by := map_option strip_ws (sr_requested_by raw)\<rparr>
      in guarded
        [(\<not> is_identifier (sr_request_id r), Bad_Field ''request_id''),
         (\<not> is_identifier (sr_mission_id r), Bad_Field ''mission_id''),
         (\<not> is_ok (validate_relative_paths (sr_requested_paths r)), Bad_Field ''requested_paths''),
         (\<not> len_between 1 4000 (sr_reason r), Bad_Field ''reason''),
         (\<not> len_between 1 4000 (sr_impact r), Bad_Field ''impact''),
         (\<not> opt_ok is_identifier (sr_requested_by r), Bad_Field ''requested_by'')] r)"

record evidence_record =
  ev_evidence_id :: string
  ev_evidence_type :: evidence_type
  ev_source :: string
  ev_operation :: string
  ev_started_at :: datetime
  ev_finished_at :: datetime
  ev_exit_status :: "int option"
  ev_output_summary :: string
  ev_artifact_ref :: "string option"
  ev_commit_sha :: "string option"
  ev_producing_agent :: string
  ev_requirement_links :: "string list"
  ev_task_links :: "string list"
  ev_plan_revision :: "int option"
  ev_verification_status :: gate_status

definition strip_evidence :: "evidence_record \<Rightarrow> evidence_record" where
  "strip_evidence e = e\<lparr>
     ev_evidence_id := strip_ws (ev_evidence_id e), ev_source := strip_ws (ev_source e),
     ev_operation := strip_ws (ev_operation e), ev_output_summary := strip_ws (ev_output_summary e),
     ev_artifact_ref := map_option strip_ws (ev_artifact_ref e),
     ev_commit_sha := map_option strip_ws (ev_commit_sha e),
     ev_producing_agent := strip_ws (ev_producing_agent e),
     ev_requirement_links := map strip_ws (ev_requirement_links e),
     ev_task_links := map strip_ws (ev_task_links e)\<rparr>"

text \<open>Comparing a naive with an aware datetime raises TypeError, which is no validation error.\<close>

definition make_evidence :: "evidence_record \<Rightarrow> contract_error + evidence_record" where
  "make_evidence raw =
     (let e = strip_evidence raw
      in guarded
        [(\<not> is_identifier (ev_evidence_id e), Bad_Field ''evidence_id''),
         (\<not> len_between 1 256 (ev_source e), Bad_Field ''source''),
         (\<not> len_between 1 512 (ev_operation e), Bad_Field ''operation''),
         (\<not> len_between 0 4000 (ev_output_summary e), Bad_Field ''bounded_output_summary''),
         (\<not> opt_ok (len_between 0 512) (ev_artifact_ref e), Bad_Field ''artifact_ref''),
         (\<not> opt_ok (len_between 0 128) (ev_commit_sha e), Bad_Field ''commit_sha''),
         (\<not> is_identifier (ev_producing_agent e), Bad_Field ''producing_agent''),
         (\<not> list_all is_identifier (ev_task_links e), Bad_Field ''task_links''),
         (\<not> opt_ok (\<lambda>r. 1 \<le> r) (ev_plan_revision e), Bad_Field ''plan_revision''),
         (dt_less (ev_finished_at e) (ev_started_at e) = None, Bad_Value ''TypeError''),
         (dt_less (ev_finished_at e) (ev_started_at e) = Some True,
            Bad_Value ''evidence must finish at or after it starts'')] e)"

definition with_producing_agent :: "evidence_record \<Rightarrow> string \<Rightarrow> contract_error + evidence_record" where
  "with_producing_agent e actor_id = make_evidence (e\<lparr>ev_producing_agent := actor_id\<rparr>)"

record verification_gate =
  vg_gate :: gate_name
  vg_status :: gate_status
  vg_evidence_refs :: "string list"

definition make_verification_gate :: "verification_gate \<Rightarrow> contract_error + verification_gate" where
  "make_verification_gate raw =
     (let g = raw\<lparr>vg_evidence_refs := map strip_ws (vg_evidence_refs raw)\<rparr>
      in guarded
        [(\<not> list_all is_identifier (vg_evidence_refs g), Bad_Field ''evidence_refs''),
         (vg_status g = Gate_Passed \<and> vg_evidence_refs g = [],
            Bad_Value ''passed verification gates require evidence references'')] g)"

fun evidence_compatibility :: "gate_name \<Rightarrow> evidence_type list" where
  "evidence_compatibility VG_Requirement = [Ev_Command, Ev_Review, Ev_Test]"
| "evidence_compatibility VG_Scope = [Ev_Scope, Ev_Command, Ev_Review]"
| "evidence_compatibility VG_Architecture = [Ev_Architecture, Ev_Command, Ev_Review]"
| "evidence_compatibility VG_Tests = [Ev_Test, Ev_Command]"
| "evidence_compatibility VG_Security = [Ev_Security, Ev_Command]"
| "evidence_compatibility VG_Quality = [Ev_Quality, Ev_Test, Ev_Command]"
| "evidence_compatibility VG_CI = [Ev_CI]"
| "evidence_compatibility VG_Cost = [Ev_Cost, Ev_Provider_Call]"

lemma make_evidence_strip: "make_evidence raw = Inr e \<Longrightarrow> e = strip_evidence raw"
  by (simp add: make_evidence_def Let_def)

lemma strip_evidence_idem [simp]: "strip_evidence (strip_evidence e) = strip_evidence e"
  by (cases e) (simp add: strip_evidence_def option.map_comp comp_def)

lemma with_producing_agent_frame:
  assumes "make_evidence raw = Inr e" "is_identifier actor"
  shows "with_producing_agent e actor = Inr (e\<lparr>ev_producing_agent := actor\<rparr>)"
proof -
  have e: "strip_evidence e = e"
    using make_evidence_strip [OF assms(1)] by simp
  then have s: "strip_evidence (e\<lparr>ev_producing_agent := actor\<rparr>) = e\<lparr>ev_producing_agent := actor\<rparr>"
    using assms(2) by (cases e) (simp add: strip_evidence_def)
  have "make_evidence e = Inr e"
    using assms(1) e make_evidence_strip [OF assms(1)] by (simp add: make_evidence_def)
  then show ?thesis
    using assms(2) s e by (simp add: with_producing_agent_def make_evidence_def)
qed


section \<open>Budgets, usage, delivery\<close>

record budget_policy =
  bp_provider_call_limit :: int
  bp_max_cost :: "rat option"
  bp_currency :: string

definition make_budget_policy :: "budget_policy \<Rightarrow> contract_error + budget_policy" where
  "make_budget_policy raw =
     (let b = raw\<lparr>bp_currency := strip_ws (bp_currency raw)\<rparr>
      in guarded
        [(bp_provider_call_limit b < 1, Bad_Field ''provider_call_limit''),
         (\<not> opt_ok (\<lambda>c. 0 \<le> c) (bp_max_cost b), Bad_Field ''max_cost''),
         (\<not> len_between 3 3 (bp_currency b), Bad_Field ''currency'')] b)"

definition default_budget_policy :: budget_policy where
  "default_budget_policy = \<lparr>bp_provider_call_limit = 64, bp_max_cost = None, bp_currency = ''USD''\<rparr>"

record usage_summary =
  us_provider_calls :: int
  us_retries :: int
  us_healing_calls :: int
  us_input_tokens :: int
  us_output_tokens :: int
  us_actual_cost :: "rat option"
  us_currency :: string
  us_accounting_revision :: int
  us_accounted_at :: "datetime option"

definition make_usage_summary :: "usage_summary \<Rightarrow> contract_error + usage_summary" where
  "make_usage_summary raw =
     (let u = raw\<lparr>us_currency := strip_ws (us_currency raw)\<rparr>
      in guarded
        [(us_provider_calls u < 0, Bad_Field ''provider_calls''),
         (us_retries u < 0, Bad_Field ''retries''),
         (us_healing_calls u < 0, Bad_Field ''healing_calls''),
         (us_input_tokens u < 0, Bad_Field ''input_tokens''),
         (us_output_tokens u < 0, Bad_Field ''output_tokens''),
         (\<not> opt_ok (\<lambda>c. 0 \<le> c) (us_actual_cost u), Bad_Field ''actual_cost''),
         (\<not> len_between 3 3 (us_currency u), Bad_Field ''currency''),
         (us_accounting_revision u < 0, Bad_Field ''accounting_revision'')] u)"

definition default_usage_summary :: usage_summary where
  "default_usage_summary = \<lparr>us_provider_calls = 0, us_retries = 0, us_healing_calls = 0,
     us_input_tokens = 0, us_output_tokens = 0, us_actual_cost = None, us_currency = ''USD'',
     us_accounting_revision = 0, us_accounted_at = None\<rparr>"

record draft_pr_delivery =
  dp_branch :: string
  dp_commit_shas :: "string list"
  dp_pr_number :: int
  dp_url :: string
  dp_head_sha :: string
  dp_base_sha :: string
  dp_ci_status :: ci_status
  dp_unresolved_threads :: int
  dp_mergeability :: mergeability
  dp_human_decision :: human_decision

definition make_draft_pr_delivery :: "draft_pr_delivery \<Rightarrow> contract_error + draft_pr_delivery" where
  "make_draft_pr_delivery raw =
     (let d = raw\<lparr>dp_branch := strip_ws (dp_branch raw),
                  dp_commit_shas := map strip_ws (dp_commit_shas raw), dp_url := strip_ws (dp_url raw),
                  dp_head_sha := strip_ws (dp_head_sha raw), dp_base_sha := strip_ws (dp_base_sha raw)\<rparr>
      in guarded
        [(\<not> len_between 1 256 (dp_branch d), Bad_Field ''branch''),
         (length (dp_commit_shas d) < 1, Bad_Field ''commit_shas''),
         (dp_pr_number d < 1, Bad_Field ''pr_number''),
         (\<not> len_between 1 512 (dp_url d), Bad_Field ''url''),
         (\<not> len_between 1 128 (dp_head_sha d), Bad_Field ''head_sha''),
         (\<not> len_between 1 128 (dp_base_sha d), Bad_Field ''base_sha''),
         (dp_unresolved_threads d < 0, Bad_Field ''unresolved_review_thread_count'')] d)"

end
