(* ===== verification/Mission_Model.thy ===== *)
theory Mission_Model
  imports Mission_Records
begin

text \<open>
  The mission aggregate (core/mission_model.py): states, events and error codes, the aggregate with the
  references its validator checks, and the operations that replace it by an updated copy.

  \<open>Mission.model_validate\<close> of a dump is \<open>mission_validate\<close>: the constraints of the mission's own fields,
  then the aggregate validator. The nested contracts were accepted by their own constructors, and a
  second validation returns them unchanged.
\<close>

section \<open>States, events, errors\<close>

datatype mission_state =
    Draft | Planning | Awaiting_Approval | Running | Needs_Decision | Verifying | Review_Ready
  | Draft_PR_Created | Closed | Paused | Cancelled | Failed | Budget_Exhausted | Scope_Blocked
  | CI_Failed

datatype mission_event =
    Start_Planning | Submit_Plan | Approve_Plan | Reject_Plan | Begin_Verification
  | Complete_Verification | Fail_CI | Retry_Verification | Create_Draft_PR | Request_Scope_Expansion
  | Block_Scope | Approve_Scope | Reject_Scope | Pause | Resume | Cancel | Fail | Exhaust_Budget
  | Close

datatype transition_code =
    Invalid_Transition | Terminal_State | Plan_Approval_Required | Verification_Required
  | Draft_PR_Permission_Required | Draft_PR_Approval_Required | Scope_Decision_Required
  | Approval_Subject_Required | Approval_Subject_Mismatch | Resume_State_Missing
  | Idempotency_Conflict

fun mission_state_value :: "mission_state \<Rightarrow> string" where
  "mission_state_value Draft = ''draft''"
| "mission_state_value Planning = ''planning''"
| "mission_state_value Awaiting_Approval = ''awaiting_approval''"
| "mission_state_value Running = ''running''"
| "mission_state_value Needs_Decision = ''needs_decision''"
| "mission_state_value Verifying = ''verifying''"
| "mission_state_value Review_Ready = ''review_ready''"
| "mission_state_value Draft_PR_Created = ''draft_pr_created''"
| "mission_state_value Closed = ''closed''"
| "mission_state_value Paused = ''paused''"
| "mission_state_value Cancelled = ''cancelled''"
| "mission_state_value Failed = ''failed''"
| "mission_state_value Budget_Exhausted = ''budget_exhausted''"
| "mission_state_value Scope_Blocked = ''scope_blocked''"
| "mission_state_value CI_Failed = ''ci_failed''"

fun mission_event_value :: "mission_event \<Rightarrow> string" where
  "mission_event_value Start_Planning = ''start_planning''"
| "mission_event_value Submit_Plan = ''submit_plan''"
| "mission_event_value Approve_Plan = ''approve_plan''"
| "mission_event_value Reject_Plan = ''reject_plan''"
| "mission_event_value Begin_Verification = ''begin_verification''"
| "mission_event_value Complete_Verification = ''complete_verification''"
| "mission_event_value Fail_CI = ''fail_ci''"
| "mission_event_value Retry_Verification = ''retry_verification''"
| "mission_event_value Create_Draft_PR = ''create_draft_pr''"
| "mission_event_value Request_Scope_Expansion = ''request_scope_expansion''"
| "mission_event_value Block_Scope = ''block_scope''"
| "mission_event_value Approve_Scope = ''approve_scope''"
| "mission_event_value Reject_Scope = ''reject_scope''"
| "mission_event_value Pause = ''pause''"
| "mission_event_value Resume = ''resume''"
| "mission_event_value Cancel = ''cancel''"
| "mission_event_value Fail = ''fail''"
| "mission_event_value Exhaust_Budget = ''exhaust_budget''"
| "mission_event_value Close = ''close''"

fun transition_code_value :: "transition_code \<Rightarrow> string" where
  "transition_code_value Invalid_Transition = ''invalid_transition''"
| "transition_code_value Terminal_State = ''terminal_state''"
| "transition_code_value Plan_Approval_Required = ''plan_approval_required''"
| "transition_code_value Verification_Required = ''verification_required''"
| "transition_code_value Draft_PR_Permission_Required = ''draft_pr_permission_required''"
| "transition_code_value Draft_PR_Approval_Required = ''draft_pr_approval_required''"
| "transition_code_value Scope_Decision_Required = ''scope_decision_required''"
| "transition_code_value Approval_Subject_Required = ''approval_subject_required''"
| "transition_code_value Approval_Subject_Mismatch = ''approval_subject_mismatch''"
| "transition_code_value Resume_State_Missing = ''resume_state_missing''"
| "transition_code_value Idempotency_Conflict = ''idempotency_conflict''"

record transition_request =
  tr_event :: mission_event
  tr_actor_id :: string
  tr_idempotency_key :: string
  tr_subject :: "approval_subject option"

record transition_audit =
  ta_audit_id :: string
  ta_event :: mission_event
  ta_from_state :: mission_state
  ta_to_state :: mission_state
  ta_from_revision :: int
  ta_to_revision :: int
  ta_actor_id :: string
  ta_idempotency_key :: string
  ta_subject :: "approval_subject option"
  ta_occurred_at :: datetime

definition make_transition_request :: "transition_request \<Rightarrow> contract_error + transition_request" where
  "make_transition_request raw =
     (let r = raw\<lparr>tr_actor_id := strip_ws (tr_actor_id raw),
                  tr_idempotency_key := strip_ws (tr_idempotency_key raw)\<rparr>
      in guarded
        [(\<not> is_identifier (tr_actor_id r), Bad_Field ''actor_id''),
         (\<not> is_identifier (tr_idempotency_key r), Bad_Field ''idempotency_key'')] r)"

definition make_transition_audit :: "transition_audit \<Rightarrow> contract_error + transition_audit" where
  "make_transition_audit raw =
     (let a = raw\<lparr>ta_audit_id := strip_ws (ta_audit_id raw), ta_actor_id := strip_ws (ta_actor_id raw),
                  ta_idempotency_key := strip_ws (ta_idempotency_key raw)\<rparr>
      in guarded
        [(\<not> is_identifier (ta_audit_id a), Bad_Field ''audit_id''),
         (ta_from_revision a < 0, Bad_Field ''from_revision''),
         (ta_to_revision a < 1, Bad_Field ''to_revision''),
         (\<not> is_identifier (ta_actor_id a), Bad_Field ''actor_id''),
         (\<not> is_identifier (ta_idempotency_key a), Bad_Field ''idempotency_key'')] a)"

record mission =
  ms_schema_version :: string
  ms_mission_id :: string
  ms_requirement :: string
  ms_repository_id :: string
  ms_state :: mission_state
  ms_revision :: int
  ms_policy :: mission_policy
  ms_plan :: "execution_plan option"
  ms_plan_reference :: "string option"
  ms_plan_revision :: "int option"
  ms_budget :: budget_policy
  ms_usage :: usage_summary
  ms_approval_gates :: "approval_gate list"
  ms_scope_requests :: "scope_request list"
  ms_evidence :: "evidence_record list"
  ms_required_verification :: "gate_name list"
  ms_verification_gates :: "verification_gate list"
  ms_created_at :: datetime
  ms_updated_at :: datetime
  ms_actor_id :: string
  ms_owner_actor_id :: "string option"
  ms_draft_pr_review :: "approval_subject option"
  ms_final_draft_pr :: "draft_pr_delivery option"
  ms_resume_state :: "mission_state option"
  ms_audit :: "transition_audit list"

text \<open>\<open>a or b\<close> takes \<open>b\<close> also when \<open>a\<close> is the empty string.\<close>

definition mission_owner_id :: "mission \<Rightarrow> string" where
  "mission_owner_id m =
     (case ms_owner_actor_id m of None \<Rightarrow> ms_actor_id m
      | Some o' \<Rightarrow> if o' = [] then ms_actor_id m else o')"


section \<open>Verification\<close>

definition evidence_by_id :: "mission \<Rightarrow> (string, evidence_record) dict" where
  "evidence_by_id m = dict_of ev_evidence_id id (ms_evidence m)"

definition gates_by_name :: "mission \<Rightarrow> (gate_name, verification_gate) dict" where
  "gates_by_name m = dict_of vg_gate id (ms_verification_gates m)"

fun linked_records :: "(string, evidence_record) dict \<Rightarrow> string list \<Rightarrow> evidence_record list option" where
  "linked_records d [] = Some []"
| "linked_records d (r # rs) =
     (case dict_get d r of None \<Rightarrow> None
      | Some e \<Rightarrow> map_option (Cons e) (linked_records d rs))"

definition gate_satisfied :: "(string, evidence_record) dict \<Rightarrow> verification_gate \<Rightarrow> bool" where
  "gate_satisfied d g =
     (case vg_status g of
        Gate_Not_Applicable \<Rightarrow> True
      | Gate_Passed \<Rightarrow>
          (if vg_evidence_refs g = [] then False
           else case linked_records d (vg_evidence_refs g) of
               None \<Rightarrow> False
             | Some records \<Rightarrow>
                 \<not> list_ex (\<lambda>r. ev_verification_status r \<noteq> Gate_Passed
                     \<or> ev_evidence_type r \<notin> set (evidence_compatibility (vg_gate g))) records)
      | _ \<Rightarrow> False)"

definition verification_complete :: "mission \<Rightarrow> bool" where
  "verification_complete m =
     list_all (\<lambda>name. case dict_get (gates_by_name m) name of
          None \<Rightarrow> False
        | Some g \<Rightarrow> gate_satisfied (evidence_by_id m) g) (ms_required_verification m)"

lemma linked_records_Some:
  "linked_records d refs = Some rs \<longleftrightarrow> map (dict_get d) refs = map Some rs"
  by (induction refs arbitrary: rs) (auto split: option.splits simp: Cons_eq_map_conv)

lemma linked_records_ex:
  "linked_records d refs = Some rs \<Longrightarrow> e \<in> set rs \<longleftrightarrow> (\<exists>r \<in> set refs. dict_get d r = Some e)"
  unfolding linked_records_Some by (metis (no_types, lifting) ex_map_conv image_eqI imageE list.set_map option.inject)

lemma linked_records_None: "linked_records d refs = None \<longleftrightarrow> (\<exists>r \<in> set refs. dict_get d r = None)"
  by (induction refs) (auto split: option.splits)


section \<open>The aggregate validator\<close>

fun check_task_links :: "int \<Rightarrow> string list \<Rightarrow> evidence_record list \<Rightarrow> contract_error + unit" where
  "check_task_links plan_rev task_ids [] = Inr ()"
| "check_task_links plan_rev task_ids (r # rs) =
     (if ev_task_links r \<noteq> [] \<and> ev_plan_revision r \<noteq> Some plan_rev
      then Inl (Bad_Value ''evidence task links must bind the current plan revision'')
      else if list_ex (\<lambda>t. t \<notin> set task_ids) (ev_task_links r)
      then Inl (Bad_Value ''evidence task links must reference current plan tasks'')
      else check_task_links plan_rev task_ids rs)"

fun check_approval_gates ::
    "(string, evidence_record) dict \<Rightarrow> approval_subject list \<Rightarrow> approval_gate list \<Rightarrow> contract_error + unit" where
  "check_approval_gates d final [] = Inr ()"
| "check_approval_gates d final (g # gs) =
     (if list_ex (\<lambda>r. dict_get d r = None) (ag_evidence_refs g)
      then Inl (Bad_Value ''approval evidence references must exist in the Mission'')
      else if ag_status g \<noteq> Approval_Pending
      then (if ag_subject g \<in> set final
            then Inl (Bad_Value ''an approval subject can have only one final decision'')
            else check_approval_gates d (ag_subject g # final) gs)
      else check_approval_gates d final gs)"

fun check_verification_gates ::
    "(string, evidence_record) dict \<Rightarrow> verification_gate list \<Rightarrow> contract_error + unit" where
  "check_verification_gates d [] = Inr ()"
| "check_verification_gates d (g # gs) =
     (case linked_records d (vg_evidence_refs g) of
        None \<Rightarrow> Inl (Bad_Value ''verification evidence references must exist in the Mission'')
      | Some records \<Rightarrow>
          (if vg_status g = Gate_Passed \<and> list_ex (\<lambda>r. ev_verification_status r \<noteq> Gate_Passed) records
           then Inl (Bad_Value ''passed verification gates require passed evidence'')
           else if vg_status g = Gate_Passed \<and>
               list_ex (\<lambda>r. ev_evidence_type r \<notin> set (evidence_compatibility (vg_gate g))) records
           then Inl (Bad_Value ''verification evidence type is incompatible with the gate'')
           else check_verification_gates d gs))"

definition validate_aggregate_references :: "mission \<Rightarrow> contract_error + mission" where
  "validate_aggregate_references m =
     res_bind (guarded
       [((case ms_plan m of None \<Rightarrow> ms_plan_reference m \<noteq> None \<or> ms_plan_revision m \<noteq> None
                          | Some p \<Rightarrow> False),
          Bad_Value ''plan references require an execution plan''),
        ((case ms_plan m of None \<Rightarrow> False
                          | Some p \<Rightarrow> ms_plan_reference m \<noteq> Some (ep_plan_id p)
                                    \<or> ms_plan_revision m \<noteq> Some (ep_revision p)),
          Bad_Value ''mission plan references must match the execution plan''),
        (\<not> distinct (map ag_gate_id (ms_approval_gates m)),
          Bad_Value ''approval gate IDs must be unique''),
        (\<not> distinct (map sr_request_id (ms_scope_requests m)),
          Bad_Value ''scope request IDs must be unique''),
        (\<not> distinct (map ev_evidence_id (ms_evidence m)), Bad_Value ''evidence IDs must be unique''),
        (\<not> distinct (map vg_gate (ms_verification_gates m)),
          Bad_Value ''verification gate names must be unique''),
        (\<not> distinct (ms_required_verification m),
          Bad_Value ''required verification gate names must be unique''),
        (\<not> distinct (map ta_idempotency_key (ms_audit m)),
          Bad_Value ''transition idempotency keys must be unique'')] ())
     (\<lambda>_. res_bind
       (case ms_plan m of None \<Rightarrow> Inr ()
        | Some p \<Rightarrow> check_task_links (ep_revision p) (map pt_task_id (ep_tasks p)) (ms_evidence m))
     (\<lambda>_. res_bind (check_approval_gates (evidence_by_id m) [] (ms_approval_gates m))
     (\<lambda>_. res_bind (check_verification_gates (evidence_by_id m) (ms_verification_gates m))
     (\<lambda>_. Inr m))))"

definition strip_mission :: "mission \<Rightarrow> mission" where
  "strip_mission m = m\<lparr>
     ms_schema_version := strip_ws (ms_schema_version m), ms_mission_id := strip_ws (ms_mission_id m),
     ms_requirement := strip_ws (ms_requirement m), ms_repository_id := strip_ws (ms_repository_id m),
     ms_plan_reference := map_option strip_ws (ms_plan_reference m),
     ms_actor_id := strip_ws (ms_actor_id m),
     ms_owner_actor_id := map_option strip_ws (ms_owner_actor_id m)\<rparr>"

definition mission_validate :: "mission \<Rightarrow> contract_error + mission" where
  "mission_validate raw =
     (let m = strip_mission raw
      in res_bind (guarded
        [(\<not> is_identifier (ms_mission_id m), Bad_Field ''mission_id''),
         (\<not> len_between 1 4000 (ms_requirement m), Bad_Field ''requirement''),
         (\<not> is_identifier (ms_repository_id m), Bad_Field ''repository_id''),
         (ms_revision m < 0, Bad_Field ''revision''),
         (\<not> opt_ok is_identifier (ms_plan_reference m), Bad_Field ''plan_reference''),
         (\<not> opt_ok (\<lambda>r. 1 \<le> r) (ms_plan_revision m), Bad_Field ''plan_revision''),
         (length (ms_approval_gates m) > 256, Bad_Field ''approval_gates''),
         (length (ms_evidence m) > 1000, Bad_Field ''evidence_records''),
         (length (ms_verification_gates m) > 32, Bad_Field ''verification_gates''),
         (\<not> is_identifier (ms_actor_id m), Bad_Field ''actor_id''),
         (\<not> opt_ok is_identifier (ms_owner_actor_id m), Bad_Field ''owner_actor_id''),
         (length (ms_audit m) > 1000, Bad_Field ''transition_audit'')] m)
        validate_aggregate_references)"

definition mission_valid :: "mission \<Rightarrow> bool" where
  "mission_valid m \<longleftrightarrow> mission_validate m = Inr m"

lemma strip_mission_idem [simp]: "strip_mission (strip_mission m) = strip_mission m"
  by (cases m) (simp add: strip_mission_def option.map_comp comp_def)

lemma validate_aggregate_same: "validate_aggregate_references m = Inr m' \<Longrightarrow> m' = m"
  by (auto simp: validate_aggregate_references_def res_bind_eq_Inr)

lemma mission_validate_same: "mission_validate raw = Inr m \<Longrightarrow> m = strip_mission raw"
  by (auto simp: mission_validate_def Let_def res_bind_eq_Inr dest: validate_aggregate_same)

lemma mission_validate_strip: "mission_validate (strip_mission m) = mission_validate m"
  by (simp only: mission_validate_def strip_mission_idem)

lemma mission_validate_valid: "mission_validate raw = Inr m \<Longrightarrow> mission_valid m"
  using mission_validate_same [of raw m] mission_validate_strip [of raw] by (simp only: mission_valid_def)

lemma mission_valid_strip: "mission_valid m \<Longrightarrow> strip_mission m = m"
  using mission_validate_same [of m m] by (simp add: mission_valid_def)


section \<open>Operations on the aggregate\<close>

datatype mission_error =
    Aggregate_Error (me_code: string) (me_detail: string)
  | Contract_Error contract_error

definition revalidate :: "mission \<Rightarrow> mission_error + mission" where
  "revalidate m = (case mission_validate m of Inl e \<Rightarrow> Inl (Contract_Error e) | Inr m' \<Rightarrow> Inr m')"

definition plan_locked_states :: "mission_state list" where
  "plan_locked_states = [Running, Verifying, Review_Ready, Draft_PR_Created, Closed]"

definition attach_plan :: "mission \<Rightarrow> execution_plan \<Rightarrow> mission_error + mission" where
  "attach_plan m plan =
     (let updated = m\<lparr>ms_plan := Some plan, ms_plan_reference := Some (ep_plan_id plan),
                      ms_plan_revision := Some (ep_revision plan),
                      ms_required_verification := ep_required_verification plan\<rparr>
      in if ep_mission_id plan \<noteq> ms_mission_id m
         then Inl (Aggregate_Error ''plan_mission_mismatch'' ''Plan Mission ID does not match'')
         else case ms_plan m of
             None \<Rightarrow> revalidate updated
           | Some cur \<Rightarrow>
               (if ep_plan_id plan = ep_plan_id cur \<and> ep_revision plan = ep_revision cur
                then (if canonical_digest plan = canonical_digest cur then Inr m
                      else Inl (Aggregate_Error ''immutable_plan_conflict''
                             ''Plan content cannot change under the same ID and revision''))
                else if ep_plan_id plan \<noteq> ep_plan_id cur \<or> ep_revision plan \<le> ep_revision cur
                then Inl (Aggregate_Error ''plan_revision_conflict''
                       ''Plan revisions must increase monotonically'')
                else if ms_state m \<in> set plan_locked_states
                then Inl (Aggregate_Error ''approved_plan_locked''
                       ''The current Mission state cannot replace its plan'')
                else revalidate updated))"

definition autonomous_actor :: "string \<Rightarrow> bool" where
  "autonomous_actor a = (starts_with ''agent'' (lower a) \<or> starts_with ''bot'' (lower a))"

text \<open>The subject a plan gate must carry: the identifier, revision and digest of the attached plan.\<close>

definition subject_of_plan :: "execution_plan \<Rightarrow> approval_subject" where
  "subject_of_plan p = Plan_Subject (ep_plan_id p) (ep_revision p) (canonical_digest p)"

definition add_approval_gate :: "mission \<Rightarrow> approval_gate \<Rightarrow> mission_error + mission" where
  "add_approval_gate m gate =
     (if ag_gate_id gate \<in> set (map ag_gate_id (ms_approval_gates m))
      then Inl (Aggregate_Error ''duplicate_approval_gate'' ''Approval gate ID already exists'')
      else if ag_status gate = Approved \<and>
          (case ag_actor_id gate of None \<Rightarrow> False | Some a \<Rightarrow> a \<noteq> [] \<and> autonomous_actor a)
      then Inl (Aggregate_Error ''self_approval_prohibited''
             (''Autonomous agent '' @ [CHR 0x27] @ the (ag_actor_id gate) @ [CHR 0x27] @
              '' is prohibited from approving gates. Only human operators may approve.''))
      else res_bind
        (if ag_gate_type gate = Plan_Type
         then (case ms_plan m of
                 None \<Rightarrow> Inl (Aggregate_Error ''plan_required'' ''Plan approval requires an attached plan'')
               | Some p \<Rightarrow>
                   (case ag_subject gate of
                      Plan_Subject i r d \<Rightarrow>
                        (if i \<noteq> ep_plan_id p \<or> r \<noteq> ep_revision p \<or> d \<noteq> canonical_digest p
                         then Inl (Aggregate_Error ''approval_subject_mismatch''
                                ''Plan approval subject is stale'')
                         else Inr ())
                    | _ \<Rightarrow> Inl (Aggregate_Error ''approval_subject_mismatch''
                                ''Plan approval subject is invalid'')))
         else Inr ())
        (\<lambda>_. case find (\<lambda>g. ag_subject g = ag_subject gate) (ms_approval_gates m) of
            Some old \<Rightarrow>
              (if ag_status old = ag_status gate \<and> ag_idempotency_key old = ag_idempotency_key gate
                  \<and> ag_evidence_refs old = ag_evidence_refs gate
               then Inr m
               else Inl (Aggregate_Error ''immutable_decision_conflict''
                      ''Approval subject already has a final decision''))
          | None \<Rightarrow> revalidate (m\<lparr>ms_approval_gates := ms_approval_gates m @ [gate]\<rparr>)))"

definition add_evidence_record :: "mission \<Rightarrow> evidence_record \<Rightarrow> mission_error + mission" where
  "add_evidence_record m e =
     (if ev_evidence_id e \<in> set (map ev_evidence_id (ms_evidence m))
      then Inl (Aggregate_Error ''duplicate_evidence'' ''Evidence ID already exists'')
      else revalidate (m\<lparr>ms_evidence := ms_evidence m @ [e]\<rparr>))"

definition record_verification_gate :: "mission \<Rightarrow> verification_gate \<Rightarrow> mission_error + mission" where
  "record_verification_gate m g =
     revalidate (m\<lparr>ms_verification_gates :=
       filter (\<lambda>h. vg_gate h \<noteq> vg_gate g) (ms_verification_gates m) @ [g]\<rparr>)"


section \<open>What the operations keep and change\<close>

lemma revalidate_Inr: "revalidate raw = Inr m \<Longrightarrow> mission_valid m \<and> m = strip_mission raw"
  by (auto simp: revalidate_def split: sum.splits dest: mission_validate_same mission_validate_valid)

lemma mission_valid_facts:
  assumes "mission_valid m"
  shows "distinct (map ag_gate_id (ms_approval_gates m))"
    "distinct (map ev_evidence_id (ms_evidence m))"
    "distinct (map vg_gate (ms_verification_gates m))"
    "distinct (map ta_idempotency_key (ms_audit m))"
    "length (ms_audit m) \<le> 1000"
    "length (ms_approval_gates m) \<le> 256"
    "ms_plan m = Some p \<Longrightarrow> ms_plan_reference m = Some (ep_plan_id p) \<and> ms_plan_revision m = Some (ep_revision p)"
  using assms mission_valid_strip [OF assms]
  by (auto simp: mission_valid_def mission_validate_def validate_aggregate_references_def Let_def
      res_bind_eq_Inr split: option.splits)

lemma strip_mission_update:
  "strip_mission (m\<lparr>ms_approval_gates := gs\<rparr>) = (strip_mission m)\<lparr>ms_approval_gates := gs\<rparr>"
  "strip_mission (m\<lparr>ms_evidence := es\<rparr>) = (strip_mission m)\<lparr>ms_evidence := es\<rparr>"
  "strip_mission (m\<lparr>ms_verification_gates := vs\<rparr>) = (strip_mission m)\<lparr>ms_verification_gates := vs\<rparr>"
  by (simp_all add: strip_mission_def)

definition with_plan :: "mission \<Rightarrow> execution_plan \<Rightarrow> mission" where
  "with_plan m p = m\<lparr>ms_plan := Some p, ms_plan_reference := Some (ep_plan_id p),
     ms_plan_revision := Some (ep_revision p), ms_required_verification := ep_required_verification p\<rparr>"

lemma strip_with_plan:
  assumes "mission_valid (strip_mission (with_plan m p))" "strip_mission m = m"
  shows "strip_mission (with_plan m p) = with_plan m p"
proof -
  have p: "ms_plan (strip_mission (with_plan m p)) = Some p"
    by (simp add: strip_mission_def with_plan_def)
  from mission_valid_facts(7) [OF assms(1) p] have "strip_ws (ep_plan_id p) = ep_plan_id p"
    by (simp add: strip_mission_def with_plan_def)
  with assms(2) show ?thesis
    by (cases m) (simp add: strip_mission_def with_plan_def)
qed

lemma revalidate_with_plan:
  assumes "revalidate (with_plan m p) = Inr m'" "strip_mission m = m"
  shows "m' = with_plan m p \<and> mission_valid m'"
  using revalidate_Inr [OF assms(1)] assms(2) strip_with_plan by metis

lemma attach_plan_Inr:
  assumes "attach_plan m p = Inr m'" "strip_mission m = m"
  shows "m' = m \<and> ms_plan m \<noteq> None \<or>
    mission_valid m' \<and> m' = with_plan m p \<and> ep_mission_id p = ms_mission_id m"
  using assms revalidate_with_plan [of m p m']
  by (auto simp: attach_plan_def Let_def with_plan_def [symmetric] split: if_splits option.splits)

lemma attach_plan_locked:
  assumes "attach_plan m p = Inr m'" "ms_plan m = Some cur"
  shows "m' = m \<or> ms_state m \<notin> set plan_locked_states \<and> ep_plan_id p = ep_plan_id cur \<and> ep_revision cur < ep_revision p"
  using assms by (auto simp: attach_plan_def Let_def split: if_splits)

lemma add_approval_gate_Inr:
  assumes "add_approval_gate m g = Inr m'" "strip_mission m = m"
  shows "m' = m \<or> mission_valid m' \<and> m' = m\<lparr>ms_approval_gates := ms_approval_gates m @ [g]\<rparr>"
  using assms revalidate_Inr [of "m\<lparr>ms_approval_gates := ms_approval_gates m @ [g]\<rparr>" m']
    assms(2)
  by (auto simp: add_approval_gate_def res_bind_eq_Inr strip_mission_update
      split: if_splits option.splits)

lemma add_approval_gate_human:
  assumes "add_approval_gate m g = Inr m'" "ag_status g = Approved" "ag_actor_id g = Some a" "a \<noteq> []"
  shows "\<not> autonomous_actor a"
  using assms by (auto simp: add_approval_gate_def split: if_splits)

lemma add_approval_gate_plan:
  assumes "add_approval_gate m g = Inr m'" "ag_gate_type g = Plan_Type"
  shows "\<exists>p. ms_plan m = Some p \<and> ag_subject g = subject_of_plan p"
  using assms
  by (auto simp: add_approval_gate_def res_bind_eq_Inr subject_of_plan_def
      split: if_splits option.splits approval_subject.splits)

lemma add_evidence_record_Inr:
  assumes "add_evidence_record m e = Inr m'" "strip_mission m = m"
  shows "mission_valid m' \<and> m' = m\<lparr>ms_evidence := ms_evidence m @ [e]\<rparr>"
  using assms revalidate_Inr [of "m\<lparr>ms_evidence := ms_evidence m @ [e]\<rparr>" m'] assms(2)
  by (auto simp: add_evidence_record_def strip_mission_update split: if_splits)

lemma record_verification_gate_Inr:
  assumes "record_verification_gate m g = Inr m'" "strip_mission m = m"
  shows "mission_valid m' \<and> m' = m\<lparr>ms_verification_gates :=
       filter (\<lambda>h. vg_gate h \<noteq> vg_gate g) (ms_verification_gates m) @ [g]\<rparr>"
  using assms revalidate_Inr [of "m\<lparr>ms_verification_gates :=
       filter (\<lambda>h. vg_gate h \<noteq> vg_gate g) (ms_verification_gates m) @ [g]\<rparr>" m']
    assms(2)
  by (auto simp: record_verification_gate_def strip_mission_update)

text \<open>What a complete verification means: every required gate is waived or backed by passed evidence.\<close>

definition gate_backed :: "mission \<Rightarrow> gate_name \<Rightarrow> bool" where
  "gate_backed m name \<longleftrightarrow>
     (\<exists>g \<in> set (ms_verification_gates m). vg_gate g = name \<and>
        (vg_status g = Gate_Not_Applicable \<or>
         vg_status g = Gate_Passed \<and> vg_evidence_refs g \<noteq> [] \<and>
         (\<forall>r \<in> set (vg_evidence_refs g). \<exists>e \<in> set (ms_evidence m). ev_evidence_id e = r \<and>
            ev_verification_status e = Gate_Passed \<and>
            ev_evidence_type e \<in> set (evidence_compatibility name))))"

lemma evidence_lookup:
  assumes "distinct (map ev_evidence_id (ms_evidence m))"
  shows "dict_get (evidence_by_id m) r = Some e \<longleftrightarrow> e \<in> set (ms_evidence m) \<and> ev_evidence_id e = r"
  using dict_get_dict_of_in [OF assms, of e id]
  by (auto simp: evidence_by_id_def elim!: dict_get_dict_of_Some)

lemma gate_lookup:
  assumes "distinct (map vg_gate (ms_verification_gates m))"
  shows "dict_get (gates_by_name m) n = Some g \<longleftrightarrow> g \<in> set (ms_verification_gates m) \<and> vg_gate g = n"
  using dict_get_dict_of_in [OF assms, of g id]
  by (auto simp: gates_by_name_def elim!: dict_get_dict_of_Some)

lemma gate_satisfied_iff:
  "gate_satisfied d g \<longleftrightarrow> vg_status g = Gate_Not_Applicable \<or>
     vg_status g = Gate_Passed \<and> vg_evidence_refs g \<noteq> [] \<and>
     (\<forall>r \<in> set (vg_evidence_refs g). \<exists>e. dict_get d r = Some e \<and>
        ev_verification_status e = Gate_Passed \<and> ev_evidence_type e \<in> set (evidence_compatibility (vg_gate g)))"
proof (cases "linked_records d (vg_evidence_refs g)")
  case None
  then obtain r where r: "r \<in> set (vg_evidence_refs g)" "dict_get d r = None"
    by (auto simp: linked_records_None)
  have "gate_satisfied d g \<longleftrightarrow> vg_status g = Gate_Not_Applicable"
    using None by (simp add: gate_satisfied_def split: gate_status.split)
  with r show ?thesis
    by (metis option.distinct(1))
next
  case (Some rs)
  have "\<forall>r \<in> set (vg_evidence_refs g). \<exists>e. dict_get d r = Some e"
    using Some linked_records_None [of d "vg_evidence_refs g"] by fastforce
  with Some linked_records_ex [OF Some] show ?thesis
    by (auto simp: gate_satisfied_def list_ex_iff split: gate_status.splits) (metis option.inject)+
qed

lemma verification_complete_iff:
  assumes "mission_valid m"
  shows "verification_complete m \<longleftrightarrow> (\<forall>n \<in> set (ms_required_verification m). gate_backed m n)"
proof -
  have "(case dict_get (gates_by_name m) n of None \<Rightarrow> False | Some g \<Rightarrow> gate_satisfied (evidence_by_id m) g)
      \<longleftrightarrow> gate_backed m n" for n
  proof (cases "dict_get (gates_by_name m) n")
    case None
    then have "\<forall>g. \<not> (g \<in> set (ms_verification_gates m) \<and> vg_gate g = n)"
      using gate_lookup [OF mission_valid_facts(3) [OF assms], of n] by (metis option.distinct(1))
    with None show ?thesis by (auto simp: gate_backed_def)
  next
    case (Some g)
    have u: "g' = g" if "g' \<in> set (ms_verification_gates m)" "vg_gate g' = n" for g'
      using that Some gate_lookup [OF mission_valid_facts(3) [OF assms], of n g'] by simp
    have "g \<in> set (ms_verification_gates m)" "vg_gate g = n"
      using Some gate_lookup [OF mission_valid_facts(3) [OF assms], of n g] by auto
    with u have "gate_backed m n \<longleftrightarrow> vg_status g = Gate_Not_Applicable \<or>
         vg_status g = Gate_Passed \<and> vg_evidence_refs g \<noteq> [] \<and>
         (\<forall>r \<in> set (vg_evidence_refs g). \<exists>e \<in> set (ms_evidence m). ev_evidence_id e = r \<and>
            ev_verification_status e = Gate_Passed \<and>
            ev_evidence_type e \<in> set (evidence_compatibility (vg_gate g)))"
      unfolding gate_backed_def by blast
    moreover have "gate_satisfied (evidence_by_id m) g \<longleftrightarrow> vg_status g = Gate_Not_Applicable \<or>
         vg_status g = Gate_Passed \<and> vg_evidence_refs g \<noteq> [] \<and>
         (\<forall>r \<in> set (vg_evidence_refs g). \<exists>e \<in> set (ms_evidence m). ev_evidence_id e = r \<and>
            ev_verification_status e = Gate_Passed \<and>
            ev_evidence_type e \<in> set (evidence_compatibility (vg_gate g)))"
      unfolding gate_satisfied_iff evidence_lookup [OF mission_valid_facts(2) [OF assms]] by blast
    ultimately show ?thesis
      using Some by simp
  qed
  then show ?thesis
    by (simp add: verification_complete_def list_all_iff)
qed

end
