(* ===== verification/Mission_Machine.thy ===== *)
theory Mission_Machine
  imports Mission_Model
begin

text \<open>
  The mission state machine (core/mission_state_machine.py): the table of legal transitions, the guards
  of the events that need an approval or a verification, the capabilities a mission reports and the
  transition itself. The clock is the argument \<open>now\<close>.
\<close>

section \<open>The transition table\<close>

definition legal_transitions :: "((mission_state \<times> mission_event) \<times> mission_state) list" where
  "legal_transitions =
     [((Draft, Start_Planning), Planning),
      ((Draft, Cancel), Cancelled),
      ((Planning, Submit_Plan), Awaiting_Approval),
      ((Planning, Pause), Paused),
      ((Planning, Cancel), Cancelled),
      ((Planning, Fail), Failed),
      ((Planning, Exhaust_Budget), Budget_Exhausted),
      ((Awaiting_Approval, Approve_Plan), Running),
      ((Awaiting_Approval, Reject_Plan), Planning),
      ((Awaiting_Approval, Pause), Paused),
      ((Awaiting_Approval, Cancel), Cancelled),
      ((Awaiting_Approval, Fail), Failed),
      ((Running, Begin_Verification), Verifying),
      ((Running, Request_Scope_Expansion), Needs_Decision),
      ((Running, Block_Scope), Scope_Blocked),
      ((Running, Pause), Paused),
      ((Running, Cancel), Cancelled),
      ((Running, Fail), Failed),
      ((Running, Exhaust_Budget), Budget_Exhausted),
      ((Needs_Decision, Block_Scope), Scope_Blocked),
      ((Needs_Decision, Approve_Scope), Running),
      ((Needs_Decision, Reject_Scope), Planning),
      ((Needs_Decision, Pause), Paused),
      ((Needs_Decision, Cancel), Cancelled),
      ((Needs_Decision, Fail), Failed),
      ((Scope_Blocked, Approve_Scope), Running),
      ((Scope_Blocked, Reject_Scope), Planning),
      ((Scope_Blocked, Pause), Paused),
      ((Scope_Blocked, Cancel), Cancelled),
      ((Scope_Blocked, Fail), Failed),
      ((Verifying, Complete_Verification), Review_Ready),
      ((Verifying, Fail_CI), CI_Failed),
      ((Verifying, Pause), Paused),
      ((Verifying, Cancel), Cancelled),
      ((Verifying, Fail), Failed),
      ((Verifying, Exhaust_Budget), Budget_Exhausted),
      ((CI_Failed, Retry_Verification), Verifying),
      ((CI_Failed, Pause), Paused),
      ((CI_Failed, Cancel), Cancelled),
      ((CI_Failed, Fail), Failed),
      ((Review_Ready, Create_Draft_PR), Draft_PR_Created),
      ((Review_Ready, Close), Closed),
      ((Review_Ready, Pause), Paused),
      ((Review_Ready, Cancel), Cancelled),
      ((Review_Ready, Fail), Failed),
      ((Draft_PR_Created, Close), Closed),
      ((Paused, Cancel), Cancelled),
      ((Paused, Fail), Failed)]"

definition terminal_states :: "mission_state list" where
  "terminal_states = [Closed, Cancelled, Failed, Budget_Exhausted]"

datatype transition_error =
    Transition_Error (te_code: transition_code) (te_state: mission_state) (te_event: mission_event)
      (te_detail: string)
  | Audit_Error contract_error

record transition_result =
  rs_mission :: mission
  rs_audit :: transition_audit
  rs_replayed :: bool

definition reject :: "transition_code \<Rightarrow> mission \<Rightarrow> transition_request \<Rightarrow> string \<Rightarrow> transition_error" where
  "reject c m r detail = Transition_Error c (ms_state m) (tr_event r) detail"


section \<open>Guards\<close>

definition subject_or_error ::
    "mission \<Rightarrow> transition_request \<Rightarrow> approval_type \<Rightarrow> transition_error + approval_subject" where
  "subject_or_error m r expected =
     (case tr_subject r of
        None \<Rightarrow> Inl (reject Approval_Subject_Required m r ''the exact approval subject is required'')
      | Some s \<Rightarrow>
          (if subject_kind s \<noteq> approval_type_value expected
           then Inl (reject Approval_Subject_Mismatch m r ''approval subject does not match the event'')
           else Inr s))"

definition has_approval :: "mission \<Rightarrow> approval_type \<Rightarrow> approval_subject \<Rightarrow> bool" where
  "has_approval m ty s =
     list_ex (\<lambda>g. ag_gate_type g = ty \<and> ag_status g = Approved \<and> ag_subject g = s) (ms_approval_gates m)"

definition require_plan_approval :: "mission \<Rightarrow> transition_request \<Rightarrow> transition_error + unit" where
  "require_plan_approval m r = res_bind (subject_or_error m r Plan_Type) (\<lambda>s.
     case s of
       Plan_Subject i v d \<Rightarrow>
         (if (case ms_plan m of None \<Rightarrow> True
              | Some p \<Rightarrow> i \<noteq> ep_plan_id p \<or> v \<noteq> ep_revision p \<or> d \<noteq> canonical_digest p)
          then Inl (reject Approval_Subject_Mismatch m r ''plan approval subject is stale or unrelated'')
          else if \<not> has_approval m Plan_Type s
          then Inl (reject Plan_Approval_Required m r ''matching plan approval is required before running'')
          else Inr ())
     | _ \<Rightarrow> Inl (reject Approval_Subject_Mismatch m r ''plan approval requires a plan subject''))"

definition require_verification :: "mission \<Rightarrow> transition_request \<Rightarrow> transition_error + unit" where
  "require_verification m r =
     (if \<not> verification_complete m
      then Inl (reject Verification_Required m r
             ''every required verification gate must be passed or not applicable'')
      else Inr ())"

definition require_scope_decision :: "mission \<Rightarrow> transition_request \<Rightarrow> transition_error + unit" where
  "require_scope_decision m r = res_bind (subject_or_error m r Scope_Expansion_Type) (\<lambda>s.
     case s of
       Scope_Subject i \<Rightarrow>
         (if \<not> list_ex (\<lambda>q. sr_request_id q = i) (ms_scope_requests m)
             \<or> \<not> has_approval m Scope_Expansion_Type s
          then Inl (reject Scope_Decision_Required m r
                 ''matching scope approval is required before continuing'')
          else Inr ())
     | _ \<Rightarrow> Inl (reject Approval_Subject_Mismatch m r ''scope approval requires a scope subject''))"

definition require_draft_pr :: "mission \<Rightarrow> transition_request \<Rightarrow> transition_error + unit" where
  "require_draft_pr m r =
     (if \<not> sp_draft_pr_permission (mp_scope (ms_policy m))
      then Inl (reject Draft_PR_Permission_Required m r
             ''Draft PR permission is not enabled in the scope policy'')
      else res_bind (subject_or_error m r Draft_PR_Type) (\<lambda>s.
        case s of
          Draft_PR_Subject _ _ _ _ _ \<Rightarrow>
            (if ms_draft_pr_review m \<noteq> Some s \<or> \<not> has_approval m Draft_PR_Type s
             then Inl (reject Draft_PR_Approval_Required m r
                    ''matching Draft PR approval is required for the reviewed head'')
             else Inr ())
        | _ \<Rightarrow> Inl (reject Approval_Subject_Mismatch m r
                 ''Draft PR authorization requires a delivery review subject'')))"

fun guard_of :: "mission_event \<Rightarrow> mission \<Rightarrow> transition_request \<Rightarrow> transition_error + unit" where
  "guard_of Approve_Plan m r = require_plan_approval m r"
| "guard_of Begin_Verification m r = require_verification m r"
| "guard_of Complete_Verification m r = require_verification m r"
| "guard_of Create_Draft_PR m r = require_draft_pr m r"
| "guard_of Approve_Scope m r = require_scope_decision m r"
| "guard_of _ m r = Inr ()"


section \<open>Capabilities\<close>

record mission_capabilities =
  mc_mission_id :: string
  mc_revision :: int
  mc_state :: mission_state
  mc_allowed :: "mission_event list"
  mc_required_approval :: "approval_type option"
  mc_plan_approval_required :: bool
  mc_verification_incomplete :: bool
  mc_draft_pr_disabled :: bool
  mc_blocked_reason :: "string option"

fun required_approval :: "mission_state \<Rightarrow> approval_type option" where
  "required_approval Awaiting_Approval = Some Plan_Type"
| "required_approval Needs_Decision = Some Scope_Expansion_Type"
| "required_approval Scope_Blocked = Some Scope_Expansion_Type"
| "required_approval Review_Ready = Some Draft_PR_Type"
| "required_approval _ = None"

definition capabilities :: "mission \<Rightarrow> mission_capabilities" where
  "capabilities m =
     (let complete = verification_complete m;
          listed = map (\<lambda>((st, ev), t). ev)
            (filter (\<lambda>((st, ev), t). st = ms_state m \<and> (ev \<noteq> Begin_Verification \<or> complete)) legal_transitions);
          allowed = (if ms_state m = Paused \<and> ms_resume_state m \<noteq> None then listed @ [Resume] else listed);
          plan_required = (ms_state m = Awaiting_Approval);
          incomplete = (ms_state m \<in> set [Running, Verifying] \<and> \<not> complete);
          pr_disabled = (ms_state m = Review_Ready \<and> \<not> sp_draft_pr_permission (mp_scope (ms_policy m)));
          blocked = (if plan_required \<and> ms_plan m = None then Some (transition_code_value Plan_Approval_Required)
                     else if incomplete then Some (transition_code_value Verification_Required)
                     else if pr_disabled then Some (transition_code_value Draft_PR_Permission_Required)
                     else None)
      in \<lparr>mc_mission_id = ms_mission_id m, mc_revision = ms_revision m, mc_state = ms_state m,
          mc_allowed = allowed, mc_required_approval = required_approval (ms_state m),
          mc_plan_approval_required = plan_required, mc_verification_incomplete = incomplete,
          mc_draft_pr_disabled = pr_disabled, mc_blocked_reason = blocked\<rparr>)"


section \<open>The transition\<close>

definition transition_target :: "mission \<Rightarrow> mission_event \<Rightarrow> mission_state option" where
  "transition_target m ev =
     (if ev = Resume then ms_resume_state m else map_of legal_transitions (ms_state m, ev))"

definition transition_audit_of ::
    "mission \<Rightarrow> transition_request \<Rightarrow> mission_state \<Rightarrow> datetime \<Rightarrow> transition_audit" where
  "transition_audit_of m r target now =
     \<lparr>ta_audit_id = ''transition:'' @ tr_idempotency_key r, ta_event = tr_event r,
      ta_from_state = ms_state m, ta_to_state = target, ta_from_revision = ms_revision m,
      ta_to_revision = ms_revision m + 1, ta_actor_id = tr_actor_id r,
      ta_idempotency_key = tr_idempotency_key r, ta_subject = tr_subject r, ta_occurred_at = now\<rparr>"

definition transition ::
    "mission \<Rightarrow> transition_request \<Rightarrow> datetime \<Rightarrow> transition_error + transition_result" where
  "transition m r now =
     (case find (\<lambda>a. ta_idempotency_key a = tr_idempotency_key r) (ms_audit m) of
        Some existing \<Rightarrow>
          (if ta_event existing \<noteq> tr_event r \<or> ta_subject existing \<noteq> tr_subject r
           then Inl (reject Idempotency_Conflict m r
                  ''idempotency key was already used for another event or subject'')
           else Inr \<lparr>rs_mission = m, rs_audit = existing, rs_replayed = True\<rparr>)
      | None \<Rightarrow>
          (if ms_state m \<in> set terminal_states
           then Inl (reject Terminal_State m r ''terminal Mission states cannot transition'')
           else case transition_target m (tr_event r) of
               None \<Rightarrow>
                 (if tr_event r = Resume
                  then Inl (reject Resume_State_Missing m r
                         ''paused Mission has no recoverable resume state'')
                  else Inl (reject Invalid_Transition m r
                         ''event is not legal from the current state''))
             | Some target \<Rightarrow>
                 (case guard_of (tr_event r) m r of
                    Inl e \<Rightarrow> Inl e
                  | Inr _ \<Rightarrow>
                      (case make_transition_audit (transition_audit_of m r target now) of
                         Inl e \<Rightarrow> Inl (Audit_Error e)
                       | Inr audit \<Rightarrow>
                           Inr \<lparr>rs_mission = m\<lparr>ms_state := target, ms_revision := ms_revision m + 1,
                                  ms_updated_at := now,
                                  ms_resume_state := (if target = Paused then Some (ms_state m) else None),
                                  ms_audit := ms_audit m @ [audit]\<rparr>,
                               rs_audit = audit, rs_replayed = False\<rparr>))))"


section \<open>The abstract machine\<close>

text \<open>
  The control part of a mission is its state with the state to resume. One event moves it along the
  table, \<open>Resume\<close> to the remembered state, and entering \<open>Paused\<close> remembers where from.
\<close>

type_synonym control = "mission_state \<times> mission_state option"

definition control_of :: "mission \<Rightarrow> control" where
  "control_of m = (ms_state m, ms_resume_state m)"

inductive control_step :: "control \<Rightarrow> mission_event \<Rightarrow> control \<Rightarrow> bool" where
  table_step: "map_of legal_transitions (s, e) = Some t \<Longrightarrow>
    control_step (s, r) e (t, if t = Paused then Some s else None)"
| resume_step: "s \<notin> set terminal_states \<Longrightarrow>
    control_step (s, Some t) Resume (t, if t = Paused then Some s else None)"

inductive_cases control_step_elim: "control_step c e c'"

inductive control_run :: "control \<Rightarrow> mission_event list \<Rightarrow> control \<Rightarrow> bool" where
  run_Nil: "control_run c [] c"
| run_snoc: "control_run c es d \<Longrightarrow> control_step d e d' \<Longrightarrow> control_run c (es @ [e]) d'"

lemma table_sources:
  "((s, e), t) \<in> set legal_transitions \<Longrightarrow> s \<notin> set terminal_states \<and> e \<noteq> Resume \<and> t \<noteq> Draft"
  by (auto simp: legal_transitions_def terminal_states_def)

lemma legal_facts:
  assumes "map_of legal_transitions (s, e) = Some t"
  shows "s \<notin> set terminal_states" "e \<noteq> Resume" "t \<noteq> Draft"
  using table_sources [OF map_of_SomeD [OF assms]] by auto

lemma legal_to_paused:
  assumes "map_of legal_transitions (s, e) = Some Paused"
  shows "s \<notin> set terminal_states \<and> s \<noteq> Paused \<and> e = Pause"
  using map_of_SomeD [OF assms] by (auto simp: legal_transitions_def terminal_states_def)

lemma terminal_stuck: "s \<in> set terminal_states \<Longrightarrow> \<not> control_step (s, r) e c"
  by (auto elim!: control_step_elim dest: legal_facts)

text \<open>The control invariant: a state to resume is remembered exactly while paused.\<close>

definition control_inv :: "control \<Rightarrow> bool" where
  "control_inv c \<longleftrightarrow> (case snd c of
       None \<Rightarrow> fst c \<noteq> Paused
     | Some s \<Rightarrow> fst c = Paused \<and> s \<noteq> Paused \<and> s \<notin> set terminal_states)"

lemma control_step_inv: "control_step c e c' \<Longrightarrow> control_inv c \<Longrightarrow> control_inv c'"
  by (induction rule: control_step.induct)
     (auto simp: control_inv_def terminal_states_def dest: legal_to_paused)

lemma control_run_inv: "control_run c es c' \<Longrightarrow> control_inv c \<Longrightarrow> control_inv c'"
  by (induction rule: control_run.induct) (auto dest: control_step_inv)


section \<open>What a transition does\<close>

definition moved_mission :: "mission \<Rightarrow> mission_state \<Rightarrow> transition_audit \<Rightarrow> mission" where
  "moved_mission m target a = m\<lparr>ms_state := target, ms_revision := ms_revision m + 1,
     ms_updated_at := ta_occurred_at a,
     ms_resume_state := (if target = Paused then Some (ms_state m) else None), ms_audit := ms_audit m @ [a]\<rparr>"

lemma moved_mission_simps [simp]:
  "ms_state (moved_mission m t a) = t"
  "ms_revision (moved_mission m t a) = ms_revision m + 1"
  "ms_audit (moved_mission m t a) = ms_audit m @ [a]"
  "ms_resume_state (moved_mission m t a) = (if t = Paused then Some (ms_state m) else None)"
  "ms_approval_gates (moved_mission m t a) = ms_approval_gates m"
  "ms_plan (moved_mission m t a) = ms_plan m"
  by (simp_all add: moved_mission_def)

lemma make_audit_same:
  assumes "make_transition_audit (transition_audit_of m r t now) = Inr a"
    and "is_identifier (tr_idempotency_key r)" "is_identifier (tr_actor_id r)"
  shows "a = transition_audit_of m r t now"
proof -
  have "strip_ws (''transition:'' @ tr_idempotency_key r) = ''transition:'' @ tr_idempotency_key r"
    using assms(2) identifier_not_space [of "tr_idempotency_key r"]
    by (simp add: strip_ws_def dropWhile_none is_space_def list_all_rev)
  with assms show ?thesis
    by (auto simp: make_transition_audit_def transition_audit_of_def Let_def)
qed

lemma transition_fresh:
  assumes "transition m r now = Inr res" "\<not> rs_replayed res"
    and "is_identifier (tr_idempotency_key r)" "is_identifier (tr_actor_id r)"
  obtains t where "transition_target m (tr_event r) = Some t" "ms_state m \<notin> set terminal_states"
    "guard_of (tr_event r) m r = Inr ()" "rs_audit res = transition_audit_of m r t now"
    "rs_mission res = moved_mission m t (rs_audit res)"
    "\<forall>a \<in> set (ms_audit m). ta_idempotency_key a \<noteq> tr_idempotency_key r"
    "is_identifier (''transition:'' @ tr_idempotency_key r)" "0 \<le> ms_revision m"
proof -
  from assms(1,2) have none: "find (\<lambda>a. ta_idempotency_key a = tr_idempotency_key r) (ms_audit m) = None"
    by (auto simp: transition_def split: option.splits if_splits)
  with assms(1) obtain t a where t: "transition_target m (tr_event r) = Some t"
      "ms_state m \<notin> set terminal_states" "guard_of (tr_event r) m r = Inr ()"
      and a: "make_transition_audit (transition_audit_of m r t now) = Inr a"
      and res: "rs_audit res = a" "rs_mission res = m\<lparr>ms_state := t, ms_revision := ms_revision m + 1,
        ms_updated_at := now, ms_resume_state := (if t = Paused then Some (ms_state m) else None),
        ms_audit := ms_audit m @ [a]\<rparr>"
    by (auto simp: transition_def split: option.splits if_splits sum.splits)
  have aeq: "a = transition_audit_of m r t now"
    using make_audit_same [OF a assms(3,4)] .
  have ident: "is_identifier (''transition:'' @ tr_idempotency_key r)" "0 \<le> ms_revision m"
    using a aeq by (auto simp: make_transition_audit_def transition_audit_of_def Let_def)
  have "rs_mission res = moved_mission m t (rs_audit res)"
    using res aeq by (simp add: moved_mission_def transition_audit_of_def)
  with t ident res aeq none that show thesis
    by (auto simp: find_None_iff)
qed

lemma transition_replayed:
  assumes "transition m r now = Inr res" "rs_replayed res"
  shows "rs_mission res = m" "rs_audit res \<in> set (ms_audit m)"
    "ta_idempotency_key (rs_audit res) = tr_idempotency_key r" "ta_event (rs_audit res) = tr_event r"
    "ta_subject (rs_audit res) = tr_subject r"
  using assms
  by (auto simp: transition_def split: option.splits if_splits sum.splits dest: find_SomeD)

lemma transition_refines:
  assumes "transition m r now = Inr res" "\<not> rs_replayed res"
    and "is_identifier (tr_idempotency_key r)" "is_identifier (tr_actor_id r)"
  shows "control_step (control_of m) (tr_event r) (control_of (rs_mission res))"
proof -
  obtain t where t: "transition_target m (tr_event r) = Some t" "ms_state m \<notin> set terminal_states"
      "rs_mission res = moved_mission m t (rs_audit res)"
    using transition_fresh [OF assms] by metis
  show ?thesis
  proof (cases "tr_event r = Resume")
    case True
    with t have "ms_resume_state m = Some t" by (simp add: transition_target_def)
    with True t resume_step [OF t(2), of t] show ?thesis by (simp add: control_of_def)
  next
    case False
    with t have "map_of legal_transitions (ms_state m, tr_event r) = Some t"
      by (simp add: transition_target_def)
    from table_step [OF this, of "ms_resume_state m"] t show ?thesis by (simp add: control_of_def)
  qed
qed

lemma subject_or_error_Inr:
  "subject_or_error m r ty = Inr s \<longleftrightarrow> tr_subject r = Some s \<and> subject_kind s = approval_type_value ty"
  by (auto simp: subject_or_error_def split: option.splits)

lemma require_plan_approval_Inr:
  assumes "require_plan_approval m r = Inr ()"
  obtains p where "ms_plan m = Some p" "tr_subject r = Some (subject_of_plan p)"
    "has_approval m Plan_Type (subject_of_plan p)"
proof -
  from assms obtain s where s: "subject_or_error m r Plan_Type = Inr s"
    by (cases "subject_or_error m r Plan_Type") (auto simp: require_plan_approval_def)
  show thesis
  proof (cases s)
    case (Plan_Subject i v d)
    with assms s obtain p where "ms_plan m = Some p" "s = subject_of_plan p" "has_approval m Plan_Type s"
      by (cases "ms_plan m") (auto simp: require_plan_approval_def subject_of_plan_def split: if_splits)
    with s that show ?thesis by (simp add: subject_or_error_Inr)
  qed (use assms s in \<open>simp_all add: require_plan_approval_def\<close>)
qed

lemma require_verification_Inr: "require_verification m r = Inr () \<longleftrightarrow> verification_complete m"
  by (simp add: require_verification_def)

end
