(* ===== verification/Mission_Safety.thy ===== *)
theory Mission_Safety
  imports Mission_Machine
begin

text \<open>
  The missions that the aggregate's operations and the state machine reach from a fresh mission, and
  what holds of all of them: the audit trail replays to the current state, the revision counts it, and
  no mission runs before a plan gate was approved by somebody who is no autonomous agent.
\<close>

section \<open>Reachable missions\<close>

definition fresh_mission :: "mission \<Rightarrow> bool" where
  "fresh_mission m \<longleftrightarrow> mission_valid m \<and> ms_state m = Draft \<and> ms_revision m = 0 \<and> ms_audit m = [] \<and>
     ms_approval_gates m = [] \<and> ms_resume_state m = None"

text \<open>
  The last rule stands for the fields no operation of these components writes, which a caller may
  replace: the scope requests, the delivery records, the usage and the budget.
\<close>

inductive mission_step :: "mission \<Rightarrow> mission \<Rightarrow> bool" where
  step_plan: "make_execution_plan raw = Inr p \<Longrightarrow> attach_plan m p = Inr m' \<Longrightarrow> mission_step m m'"
| step_gate: "make_approval_gate raw = Inr g \<Longrightarrow> add_approval_gate m g = Inr m' \<Longrightarrow> mission_step m m'"
| step_evidence: "make_evidence raw = Inr e \<Longrightarrow> add_evidence_record m e = Inr m' \<Longrightarrow> mission_step m m'"
| step_verification:
    "make_verification_gate raw = Inr g \<Longrightarrow> record_verification_gate m g = Inr m' \<Longrightarrow> mission_step m m'"
| step_transition:
    "make_transition_request raw = Inr r \<Longrightarrow> transition m r now = Inr res \<Longrightarrow> mission_step m (rs_mission res)"
| step_other:
    "mission_step m (m\<lparr>ms_scope_requests := sr, ms_draft_pr_review := rv, ms_final_draft_pr := pr,
       ms_usage := us, ms_budget := bp\<rparr>)"

inductive mission_reach :: "mission \<Rightarrow> mission \<Rightarrow> bool" where
  reach_refl: "mission_reach m m"
| reach_step: "mission_reach m0 m \<Longrightarrow> mission_step m m' \<Longrightarrow> mission_reach m0 m'"

lemma make_transition_request_idents:
  "make_transition_request raw = Inr r \<Longrightarrow>
     is_identifier (tr_idempotency_key r) \<and> is_identifier (tr_actor_id r)"
  by (auto simp: make_transition_request_def Let_def)

text \<open>One step, seen by the fields the invariants are about.\<close>

lemma mission_step_cases:
  assumes "mission_step m m'" "strip_mission m = m"
  obtains
    (quiet) "control_of m' = control_of m" "ms_revision m' = ms_revision m" "ms_audit m' = ms_audit m"
      "ms_approval_gates m' = ms_approval_gates m" "strip_mission m' = m'"
  | (gate) g raw where "make_approval_gate raw = Inr g" "add_approval_gate m g = Inr m'"
      "control_of m' = control_of m" "ms_revision m' = ms_revision m" "ms_audit m' = ms_audit m"
      "ms_approval_gates m' = ms_approval_gates m @ [g]" "strip_mission m' = m'"
  | (moved) r t now where "transition_target m (tr_event r) = Some t" "ms_state m \<notin> set terminal_states"
      "guard_of (tr_event r) m r = Inr ()" "m' = moved_mission m t (transition_audit_of m r t now)"
      "control_step (control_of m) (tr_event r) (control_of m')" "strip_mission m' = m'"
      "\<forall>a \<in> set (ms_audit m). ta_idempotency_key a \<noteq> tr_idempotency_key r"
  using assms(1)
proof cases
  case (step_plan raw p)
  from attach_plan_Inr [OF step_plan(2) assms(2)] quiet assms(2) show thesis
    by (auto simp: with_plan_def control_of_def dest: mission_valid_strip)
next
  case (step_gate raw g)
  from add_approval_gate_Inr [OF step_gate(2) assms(2)] show thesis
  proof
    assume "m' = m"
    with quiet assms(2) show thesis by simp
  next
    assume "mission_valid m' \<and> m' = m\<lparr>ms_approval_gates := ms_approval_gates m @ [g]\<rparr>"
    with gate [OF step_gate] show thesis
      by (auto simp: control_of_def dest: mission_valid_strip)
  qed
next
  case (step_evidence raw e)
  from add_evidence_record_Inr [OF step_evidence(2) assms(2)] quiet show thesis
    by (auto simp: control_of_def dest: mission_valid_strip)
next
  case (step_verification raw g)
  from record_verification_gate_Inr [OF step_verification(2) assms(2)] quiet show thesis
    by (auto simp: control_of_def dest: mission_valid_strip)
next
  case (step_transition raw r now res)
  have id: "is_identifier (tr_idempotency_key r)" "is_identifier (tr_actor_id r)"
    using make_transition_request_idents [OF step_transition(2)] by auto
  show thesis
  proof (cases "rs_replayed res")
    case True
    from transition_replayed(1) [OF step_transition(3) True] step_transition(1) quiet assms(2) show thesis
      by simp
  next
    case False
    obtain t where t: "transition_target m (tr_event r) = Some t" "ms_state m \<notin> set terminal_states"
        "guard_of (tr_event r) m r = Inr ()" "rs_audit res = transition_audit_of m r t now"
        "rs_mission res = moved_mission m t (rs_audit res)"
        "\<forall>a \<in> set (ms_audit m). ta_idempotency_key a \<noteq> tr_idempotency_key r"
      using transition_fresh [OF step_transition(3) False id] by metis
    have m': "m' = moved_mission m t (transition_audit_of m r t now)"
      using t step_transition(1) by simp
    have "strip_mission m' = m'"
      using assms(2) m' by (cases m) (simp add: strip_mission_def moved_mission_def)
    with moved [OF t(1-3) m'] transition_refines [OF step_transition(3) False id] step_transition(1) t(6)
    show thesis by simp
  qed
next
  case (step_other sr rv pr us bp)
  with quiet assms(2) show thesis
    by (cases m) (simp add: control_of_def strip_mission_def)
qed


section \<open>The audit trail\<close>

text \<open>Consecutive audits join: each starts at the state and revision where the previous one ended.\<close>

inductive audit_chain :: "mission_state \<Rightarrow> int \<Rightarrow> transition_audit list \<Rightarrow> mission_state \<Rightarrow> int \<Rightarrow> bool" where
  chain_Nil: "audit_chain s n [] s n"
| chain_snoc: "audit_chain s n as t k \<Longrightarrow> ta_from_state a = t \<Longrightarrow> ta_from_revision a = k \<Longrightarrow>
    ta_to_revision a = k + 1 \<Longrightarrow> audit_chain s n (as @ [a]) (ta_to_state a) (k + 1)"

definition trail_inv :: "mission \<Rightarrow> bool" where
  "trail_inv m \<longleftrightarrow> strip_mission m = m \<and>
     control_run (Draft, None) (map ta_event (ms_audit m)) (control_of m) \<and>
     audit_chain Draft 0 (ms_audit m) (ms_state m) (ms_revision m) \<and>
     distinct (map ta_idempotency_key (ms_audit m))"

lemma trail_inv_fresh: "fresh_mission m \<Longrightarrow> trail_inv m"
  by (auto simp: trail_inv_def fresh_mission_def control_of_def mission_valid_strip
      intro: run_Nil chain_Nil)

lemma trail_inv_step:
  assumes "mission_step m m'" "trail_inv m"
  shows "trail_inv m'"
proof -
  have m: "strip_mission m = m" "control_run (Draft, None) (map ta_event (ms_audit m)) (control_of m)"
      "audit_chain Draft 0 (ms_audit m) (ms_state m) (ms_revision m)" "distinct (map ta_idempotency_key (ms_audit m))"
    using assms(2) by (auto simp: trail_inv_def)
  from assms(1) m(1) show ?thesis
  proof (cases rule: mission_step_cases)
    case quiet
    with m show ?thesis by (simp add: trail_inv_def control_of_def)
  next
    case (gate g raw)
    with m show ?thesis by (simp add: trail_inv_def control_of_def)
  next
    case (moved r t now)
    let ?a = "transition_audit_of m r t now"
    have "control_run (Draft, None) (map ta_event (ms_audit m) @ [tr_event r]) (control_of m')"
      using run_snoc [OF m(2) moved(5)] .
    moreover have "audit_chain Draft 0 (ms_audit m @ [?a]) (ta_to_state ?a) (ms_revision m + 1)"
      by (rule chain_snoc [OF m(3)]) (simp_all add: transition_audit_of_def)
    ultimately show ?thesis
      using m(4) moved(4,6,7) by (auto simp: trail_inv_def transition_audit_of_def)
  qed
qed

lemma trail_inv_reach:
  assumes "mission_reach m0 m" "fresh_mission m0"
  shows "trail_inv m"
  using assms by (induction rule: mission_reach.induct) (auto intro: trail_inv_fresh trail_inv_step)

lemma audit_chain_length: "audit_chain s n as t k \<Longrightarrow> k = n + int (length as)"
  by (induction rule: audit_chain.induct) auto

lemma trail_control_inv: "trail_inv m \<Longrightarrow> control_inv (control_of m)"
  by (rule control_run_inv [where c = "(Draft, None)"]) (auto simp: trail_inv_def control_inv_def)


section \<open>Nothing runs without an approved plan\<close>

text \<open>The states a mission is in, or will resume to, only after a plan was approved.\<close>

definition launched_states :: "mission_state list" where
  "launched_states = [Running, Needs_Decision, Scope_Blocked, Verifying, CI_Failed, Review_Ready,
     Draft_PR_Created, Closed]"

definition effective_state :: "control \<Rightarrow> mission_state" where
  "effective_state c = (case c of (s, r) \<Rightarrow> if s = Paused then (case r of None \<Rightarrow> s | Some t \<Rightarrow> t) else s)"

definition human_plan_approval :: "mission \<Rightarrow> approval_gate \<Rightarrow> bool" where
  "human_plan_approval m g \<longleftrightarrow>
     g \<in> set (ms_approval_gates m) \<and> ag_gate_type g = Plan_Type \<and> ag_status g = Approved \<and>
     (\<exists>a. ag_actor_id g = Some a \<and> \<not> autonomous_actor a) \<and>
     (\<exists>a \<in> set (ms_audit m). ta_event a = Approve_Plan \<and> ta_subject a = Some (ag_subject g))"

definition human_gates :: "mission \<Rightarrow> bool" where
  "human_gates m \<longleftrightarrow> (\<forall>g \<in> set (ms_approval_gates m). ag_status g = Approved \<longrightarrow>
     (\<exists>a. ag_actor_id g = Some a \<and> \<not> autonomous_actor a))"

lemma launch_only_by_approval:
  assumes "map_of legal_transitions (s, e) = Some t" "t \<in> set launched_states" "s \<notin> set launched_states"
  shows "e = Approve_Plan"
  using map_of_SomeD [OF assms(1)] assms(2,3)
  by (auto simp: legal_transitions_def launched_states_def)

lemma approve_plan_target:
  assumes "map_of legal_transitions (s, Approve_Plan) = Some t"
  shows "t = Running"
  using map_of_SomeD [OF assms] by (auto simp: legal_transitions_def)

lemma legal_from_paused:
  assumes "map_of legal_transitions (Paused, e) = Some t"
  shows "t \<notin> set launched_states \<and> t \<noteq> Paused"
  using map_of_SomeD [OF assms] by (auto simp: legal_transitions_def launched_states_def)

lemma control_step_launch:
  assumes "control_step c e c'" "control_inv c" "effective_state c' \<in> set launched_states"
  shows "effective_state c \<in> set launched_states \<or> e = Approve_Plan"
  using assms
proof (induction rule: control_step.induct)
  case (table_step s e t r)
  show ?case
  proof (cases "s = Paused")
    case True
    with table_step legal_from_paused [of e t] show ?thesis
      by (auto simp: effective_state_def)
  next
    case False
    with table_step launch_only_by_approval [of s e t] show ?thesis
      by (auto simp: effective_state_def split: if_splits)
  qed
next
  case (resume_step s t)
  then show ?case
    by (auto simp: effective_state_def control_inv_def)
qed

lemma human_plan_approval_mono:
  assumes "human_plan_approval m g" "set (ms_approval_gates m) \<subseteq> set (ms_approval_gates m')"
    and "set (ms_audit m) \<subseteq> set (ms_audit m')"
  shows "human_plan_approval m' g"
  using assms unfolding human_plan_approval_def by blast

definition launch_inv :: "mission \<Rightarrow> bool" where
  "launch_inv m \<longleftrightarrow> human_gates m \<and>
     (effective_state (control_of m) \<in> set launched_states \<longrightarrow> (\<exists>g. human_plan_approval m g))"

lemma launch_inv_fresh: "fresh_mission m \<Longrightarrow> launch_inv m"
  by (simp add: fresh_mission_def launch_inv_def human_gates_def effective_state_def control_of_def
      launched_states_def)

lemma identifier_not_Nil: "is_identifier a \<Longrightarrow> a \<noteq> []"
  by (auto simp: is_identifier_def)

lemma make_gate_approved_actor:
  assumes "make_approval_gate raw = Inr g" "add_approval_gate m g = Inr m'" "ag_status g = Approved"
  shows "\<exists>a. ag_actor_id g = Some a \<and> \<not> autonomous_actor a"
proof -
  from make_approval_gate_decided(1) [OF assms(1)] assms(3) obtain a where a: "ag_actor_id g = Some a"
    by auto
  then have "is_identifier a"
    using assms(1) by (auto simp: make_approval_gate_def Let_def)
  with add_approval_gate_human [OF assms(2,3) a] a identifier_not_Nil show ?thesis
    by blast
qed

lemma launch_inv_step:
  assumes "mission_step m m'" "launch_inv m" "trail_inv m"
  shows "launch_inv m'"
proof -
  have strip: "strip_mission m = m" using assms(3) by (simp add: trail_inv_def)
  note mono = human_plan_approval_mono [of m _ m']
  from assms(1) strip show ?thesis
  proof (cases rule: mission_step_cases)
    case quiet
    with assms(2) mono show ?thesis
      by (auto simp: launch_inv_def human_gates_def)
  next
    case (gate g raw)
    with make_gate_approved_actor [OF gate(1,2)] assms(2) mono show ?thesis
      by (auto simp: launch_inv_def human_gates_def)
  next
    case (moved r t now)
    have hg: "human_gates m'"
      using assms(2) moved(4) by (simp add: launch_inv_def human_gates_def)
    show ?thesis
    proof (cases "effective_state (control_of m') \<in> set launched_states")
      case False
      with hg show ?thesis by (simp add: launch_inv_def)
    next
      case True
      from control_step_launch [OF moved(5) trail_control_inv [OF assms(3)] True]
      have "\<exists>g. human_plan_approval m' g"
      proof
        assume "effective_state (control_of m) \<in> set launched_states"
        with assms(2) obtain g where "human_plan_approval m g" by (auto simp: launch_inv_def)
        from mono [OF this] moved(4) show ?thesis by auto
      next
        assume ev: "tr_event r = Approve_Plan"
        with moved(3) obtain p where p: "tr_subject r = Some (subject_of_plan p)"
            "has_approval m Plan_Type (subject_of_plan p)"
          by (auto elim: require_plan_approval_Inr)
        then obtain g where g: "g \<in> set (ms_approval_gates m)" "ag_gate_type g = Plan_Type"
            "ag_status g = Approved" "ag_subject g = subject_of_plan p"
          by (auto simp: has_approval_def list_ex_iff)
        moreover from g assms(2) have "\<exists>a. ag_actor_id g = Some a \<and> \<not> autonomous_actor a"
          by (auto simp: launch_inv_def human_gates_def)
        ultimately have "human_plan_approval m' g"
          using ev p moved(4) by (simp add: human_plan_approval_def transition_audit_of_def)
        then show ?thesis ..
      qed
      with hg show ?thesis by (simp add: launch_inv_def)
    qed
  qed
qed

lemma launch_inv_reach:
  assumes "mission_reach m0 m" "fresh_mission m0"
  shows "launch_inv m"
  using assms
  by (induction rule: mission_reach.induct)
     (auto intro: launch_inv_fresh launch_inv_step trail_inv_reach)

end
