(* ===== verification/Mission_Samples.thy ===== *)
theory Mission_Samples
  imports Mission_Safety
begin

text \<open>
  A concrete mission taken from its creation to the running state and beyond: the values the witnesses
  of the mission properties are evaluated on.
\<close>

definition sample_task :: "string \<Rightarrow> int \<Rightarrow> string list \<Rightarrow> plan_task" where
  "sample_task i n deps = \<lparr>pt_task_id = i, pt_title = ''Task'', pt_description = [], pt_order = n,
     pt_dependencies = deps, pt_assignment = None, pt_assigned_role = None,
     pt_expected_paths = [''src/app.py''], pt_verification_requirements = [],
     pt_estimated_risk = Medium_Risk, pt_calls_min = 0, pt_calls_max = 2,
     pt_approval_status = Approval_Pending\<rparr>"

definition sample_plan :: "int \<Rightarrow> execution_plan" where
  "sample_plan n = \<lparr>ep_schema_version = ''1.0'', ep_plan_id = ''plan-1'', ep_mission_id = ''m-1'',
     ep_revision = n, ep_tasks = [sample_task ''t1'' 1 [], sample_task ''t2'' 2 [''t1'']],
     ep_approval_status = Approval_Pending, ep_approved_revision = None,
     ep_required_verification = [VG_CI], ep_estimated_risk = Low_Risk\<rparr>"

definition sample_time :: datetime where
  "sample_time = Aware 0 0"

definition sample_mission :: mission where
  "sample_mission = \<lparr>ms_schema_version = ''1.0'', ms_mission_id = ''m-1'', ms_requirement = ''Do it'',
     ms_repository_id = ''repo'', ms_state = Draft, ms_revision = 0, ms_policy = default_mission_policy,
     ms_plan = None, ms_plan_reference = None, ms_plan_revision = None, ms_budget = default_budget_policy,
     ms_usage = default_usage_summary, ms_approval_gates = [], ms_scope_requests = [], ms_evidence = [],
     ms_required_verification = default_required_verification, ms_verification_gates = [],
     ms_created_at = sample_time, ms_updated_at = sample_time, ms_actor_id = ''alice'',
     ms_owner_actor_id = None, ms_draft_pr_review = None, ms_final_draft_pr = None,
     ms_resume_state = None, ms_audit = []\<rparr>"

definition sample_request :: "mission_event \<Rightarrow> string \<Rightarrow> approval_subject option \<Rightarrow> transition_request" where
  "sample_request ev key s = \<lparr>tr_event = ev, tr_actor_id = ''alice'', tr_idempotency_key = key, tr_subject = s\<rparr>"

definition sample_gate :: approval_gate where
  "sample_gate = \<lparr>ag_gate_id = ''g1'', ag_gate_type = Plan_Type, ag_subject = subject_of_plan (sample_plan 1),
     ag_status = Approved, ag_actor_id = Some ''alice'', ag_decided_at = Some sample_time,
     ag_evidence_refs = [], ag_idempotency_key = ''k-gate''\<rparr>"

text \<open>The mission with its plan attached and approved, before it is started.\<close>

definition sample_planned :: mission where
  "sample_planned = (with_plan sample_mission (sample_plan 1))\<lparr>ms_approval_gates := [sample_gate]\<rparr>"

definition move_sample :: "mission \<Rightarrow> mission_event \<Rightarrow> string \<Rightarrow> approval_subject option \<Rightarrow> mission_state \<Rightarrow> mission" where
  "move_sample m ev key s t = moved_mission m t (transition_audit_of m (sample_request ev key s) t sample_time)"

definition sample_planning :: mission where
  "sample_planning = move_sample sample_planned Start_Planning ''k1'' None Planning"

definition sample_awaiting :: mission where
  "sample_awaiting = move_sample sample_planning Submit_Plan ''k2'' None Awaiting_Approval"

definition sample_running :: mission where
  "sample_running = move_sample sample_awaiting Approve_Plan ''k3'' (Some (subject_of_plan (sample_plan 1))) Running"

lemmas sample_defs = sample_task_def sample_plan_def sample_time_def sample_mission_def sample_request_def
  default_mission_policy_def default_scope_policy_def default_budget_policy_def default_usage_summary_def
  default_required_verification_def

lemmas ident_eval = is_identifier_def is_alnum_ascii_def identifier_char_def strip_ws_def is_space_def
  len_between_def

lemma sample_idents [simp]:
  "is_identifier ''alice''" "is_identifier ''k1''" "is_identifier ''k2''" "is_identifier ''k3''"
  "is_identifier ''k4''" "is_identifier ''k5''"
  "is_identifier ''m-1''" "is_identifier ''plan-1''" "is_identifier ''repo''" "is_identifier ''g1''"
  "is_identifier ''k-gate''" "is_identifier ''t1''" "is_identifier ''t2''"
  "is_identifier ''transition:k1''" "is_identifier ''transition:k2''" "is_identifier ''transition:k3''"
  "is_identifier ''transition:k4''" "is_identifier ''transition:k5''"
  by (simp_all add: ident_eval)

lemma sample_strips [simp]:
  "strip_ws ''Do it'' = ''Do it''" "strip_ws ''1.0'' = ''1.0''" "strip_ws [] = []" "strip_ws ''Task'' = ''Task''"
  "strip_ws ''src/app.py'' = ''src/app.py''"
  by (simp_all add: strip_ws_def is_space_def)

lemma sample_mission_strip: "strip_mission sample_mission = sample_mission"
  by (simp add: strip_mission_def sample_defs)

lemma sample_mission_valid: "mission_valid sample_mission"
  unfolding mission_valid_def mission_validate_def sample_mission_strip Let_def
  by (simp add: res_bind_eq_Inr validate_aggregate_references_def sample_defs len_between_def
      evidence_by_id_def dict_of_def)

lemma sample_fresh: "fresh_mission sample_mission"
  using sample_mission_valid by (simp add: fresh_mission_def sample_defs)

lemma sample_plan_ok: "1 \<le> n \<Longrightarrow> make_execution_plan (sample_plan n) = Inr (sample_plan n)"
  by (simp add: make_execution_plan_def res_bind_eq_Inr validate_plan_graph_def sample_defs Let_def
      plan_graph_def dict_of_def dict_get_def)

lemma sample_with_plan_valid: "1 \<le> n \<Longrightarrow> mission_validate (with_plan sample_mission (sample_plan n)) = Inr (with_plan sample_mission (sample_plan n))"
  by (simp add: mission_validate_def strip_mission_def with_plan_def res_bind_eq_Inr
      validate_aggregate_references_def sample_defs len_between_def evidence_by_id_def dict_of_def)

lemma sample_attach:
  "attach_plan sample_mission (sample_plan 1) = Inr (with_plan sample_mission (sample_plan 1))"
proof -
  have "attach_plan sample_mission (sample_plan 1) = revalidate (with_plan sample_mission (sample_plan 1))"
    by (simp add: attach_plan_def with_plan_def sample_mission_def sample_plan_def)
  then show ?thesis by (simp add: revalidate_def sample_with_plan_valid)
qed

lemma sample_gate_ok: "make_approval_gate sample_gate = Inr sample_gate"
  by (simp add: make_approval_gate_def sample_gate_def subject_of_plan_def)

lemma sample_planned_valid: "mission_validate sample_planned = Inr sample_planned"
  by (simp add: sample_planned_def sample_gate_def mission_validate_def strip_mission_def with_plan_def
      res_bind_eq_Inr validate_aggregate_references_def sample_defs len_between_def evidence_by_id_def
      dict_of_def)

lemma sample_add_gate:
  "add_approval_gate (with_plan sample_mission (sample_plan 1)) sample_gate = Inr sample_planned"
proof -
  have "add_approval_gate (with_plan sample_mission (sample_plan 1)) sample_gate = revalidate sample_planned"
    by (simp add: add_approval_gate_def sample_planned_def with_plan_def sample_gate_def sample_mission_def
        subject_of_plan_def autonomous_actor_def lower_def lower_char_def starts_with_def)
  then show ?thesis by (simp add: revalidate_def sample_planned_valid)
qed

lemma sample_request_simps [simp]:
  "tr_event (sample_request ev key s) = ev" "tr_idempotency_key (sample_request ev key s) = key"
  "tr_subject (sample_request ev key s) = s" "tr_actor_id (sample_request ev key s) = ''alice''"
  by (simp_all add: sample_request_def)

lemma sample_transition:
  assumes "transition_target m ev = Some t" "ms_state m \<notin> set terminal_states" "0 \<le> ms_revision m"
    and "guard_of ev m (sample_request ev key s) = Inr ()"
    and "find (\<lambda>a. ta_idempotency_key a = key) (ms_audit m) = None"
    and "is_identifier key" "is_identifier (''transition:'' @ key)"
  shows "transition m (sample_request ev key s) sample_time =
    Inr \<lparr>rs_mission = move_sample m ev key s t,
         rs_audit = transition_audit_of m (sample_request ev key s) t sample_time, rs_replayed = False\<rparr>"
proof -
  have "make_transition_audit (transition_audit_of m (sample_request ev key s) t sample_time) =
      Inr (transition_audit_of m (sample_request ev key s) t sample_time)"
    using assms by (simp add: make_transition_audit_def transition_audit_of_def)
  moreover have "ta_occurred_at (transition_audit_of m (sample_request ev key s) t sample_time) = sample_time"
    by (simp add: transition_audit_of_def)
  ultimately show ?thesis
    using assms by (simp add: transition_def move_sample_def moved_mission_def)
qed

lemma sample_request_ok: "is_identifier key \<Longrightarrow> make_transition_request (sample_request ev key s) = Inr (sample_request ev key s)"
  by (simp add: make_transition_request_def)

lemma sample_step:
  assumes "mission_reach m0 m" "transition_target m ev = Some t" "ms_state m \<notin> set terminal_states"
    "0 \<le> ms_revision m" "guard_of ev m (sample_request ev key s) = Inr ()"
    "find (\<lambda>a. ta_idempotency_key a = key) (ms_audit m) = None"
    "is_identifier key" "is_identifier (''transition:'' @ key)"
  shows "mission_reach m0 (move_sample m ev key s t)"
  using reach_step [OF assms(1) step_transition [OF sample_request_ok [OF assms(7)]
      sample_transition [OF assms(2-8)]]] by simp

lemma sample_control:
  "ms_state sample_planned = Draft" "ms_revision sample_planned = 0" "ms_audit sample_planned = []"
  "ms_approval_gates sample_planned = [sample_gate]" "ms_plan sample_planned = Some (sample_plan 1)"
  "ms_resume_state sample_planned = None"
  by (simp_all add: sample_planned_def with_plan_def sample_mission_def)

lemma move_sample_simps [simp]:
  "ms_state (move_sample m ev k s t) = t" "ms_revision (move_sample m ev k s t) = ms_revision m + 1"
  "ms_audit (move_sample m ev k s t) = ms_audit m @ [transition_audit_of m (sample_request ev k s) t sample_time]"
  "ms_approval_gates (move_sample m ev k s t) = ms_approval_gates m" "ms_plan (move_sample m ev k s t) = ms_plan m"
  "ms_resume_state (move_sample m ev k s t) = (if t = Paused then Some (ms_state m) else None)"
  by (simp_all add: move_sample_def)

lemma audit_key_simp [simp]: "ta_idempotency_key (transition_audit_of m r t now) = tr_idempotency_key r"
  by (simp add: transition_audit_of_def)

lemma sample_reach_planned: "mission_reach sample_mission sample_planned"
  using reach_step [OF reach_step [OF reach_refl step_plan [OF sample_plan_ok sample_attach]]
      step_gate [OF sample_gate_ok sample_add_gate]] by simp

lemma sample_reach_planning: "mission_reach sample_mission sample_planning"
  unfolding sample_planning_def
  by (rule sample_step [OF sample_reach_planned])
     (simp_all add: sample_control transition_target_def legal_transitions_def terminal_states_def)

lemma sample_reach_awaiting: "mission_reach sample_mission sample_awaiting"
  unfolding sample_awaiting_def
  by (rule sample_step [OF sample_reach_planning])
     (simp_all add: sample_planning_def sample_control transition_target_def legal_transitions_def terminal_states_def)

lemma sample_awaiting_plan: "ms_plan sample_awaiting = Some (sample_plan 1)" "ms_state sample_awaiting = Awaiting_Approval"
  "ms_approval_gates sample_awaiting = [sample_gate]" "ms_revision sample_awaiting = 2"
  "map ta_idempotency_key (ms_audit sample_awaiting) = [''k1'', ''k2'']"
  by (simp_all add: sample_awaiting_def sample_planning_def sample_control)

lemma sample_plan_guard:
  "guard_of Approve_Plan sample_awaiting (sample_request Approve_Plan k (Some (subject_of_plan (sample_plan 1)))) = Inr ()"
  by (simp add: require_plan_approval_def subject_or_error_def subject_of_plan_def sample_awaiting_plan
      has_approval_def sample_gate_def)

lemma sample_fresh_key:
  assumes "k \<noteq> ''k1''" "k \<noteq> ''k2''"
  shows "find (\<lambda>a. ta_idempotency_key a = k) (ms_audit sample_awaiting) = None"
  using assms by (simp add: sample_awaiting_def sample_planning_def sample_control)

lemma sample_awaiting_target: "transition_target sample_awaiting Approve_Plan = Some Running"
  by (simp add: transition_target_def sample_awaiting_plan legal_transitions_def)

lemma sample_reach_running: "mission_reach sample_mission sample_running"
  unfolding sample_running_def
  by (rule sample_step [OF sample_reach_awaiting sample_awaiting_target])
     (simp_all add: sample_awaiting_plan sample_plan_guard [simplified] sample_fresh_key terminal_states_def)

lemma sample_running_control: "ms_state sample_running = Running" "ms_resume_state sample_running = None"
  "ms_plan sample_running = Some (sample_plan 1)" "ms_revision sample_running = 3"
  by (simp_all add: sample_running_def sample_awaiting_plan)

lemma sample_running_keys: "map ta_idempotency_key (ms_audit sample_running) = [''k1'', ''k2'', ''k3'']"
  by (simp add: sample_running_def sample_awaiting_plan)

lemma fresh_key: "k \<notin> set (map ta_idempotency_key as) \<Longrightarrow> find (\<lambda>a. ta_idempotency_key a = k) as = None"
  by (auto simp: find_None_iff)

lemma sample_plan_simps [simp]:
  "ep_plan_id (sample_plan n) = ''plan-1''" "ep_revision (sample_plan n) = n" "ep_mission_id (sample_plan n) = ''m-1''"
  by (simp_all add: sample_plan_def)

lemma sample_running_mission_id [simp]: "ms_mission_id sample_running = ''m-1''"
  by (simp add: sample_running_def sample_awaiting_def sample_planning_def sample_planned_def
      move_sample_def moved_mission_def with_plan_def sample_mission_def)

end
