(* ===== verification/Mission_Properties.thy ===== *)
theory Mission_Properties
  imports Mission_Samples
begin

text \<open>The properties of missions: plans, approvals, transitions and their audit trail.\<close>

section \<open>Reachable missions\<close>

text \<open>C1: A mission that is running, or past running, or paused on the way, has a plan gate that was
approved by an actor who is no autonomous agent, and an audited approval event for that gate's subject.
This holds for every mission the operations reach from a fresh one.\<close>

theorem no_run_without_human_approval:
  assumes "fresh_mission m0" "mission_reach m0 m" "effective_state (control_of m) \<in> set launched_states"
  shows "\<exists>g. human_plan_approval m g"
  using launch_inv_reach [OF assms(2,1)] assms(3) by (simp add: launch_inv_def)

lemma no_run_without_human_approval_witness: "\<exists>g. human_plan_approval sample_running g"
  by (rule no_run_without_human_approval [OF sample_fresh sample_reach_running])
     (simp add: control_of_def sample_running_control effective_state_def launched_states_def)

text \<open>C9: The audit trail of a reachable mission replays: its events lead the abstract machine from the
draft state to the current state, consecutive records join in state and revision, the revision counts
them, no idempotency key occurs twice, and a state to resume is remembered exactly while paused.\<close>

theorem audit_trail_replays:
  assumes "fresh_mission m0" "mission_reach m0 m"
  shows "control_run (Draft, None) (map ta_event (ms_audit m)) (control_of m)
    \<and> audit_chain Draft 0 (ms_audit m) (ms_state m) (ms_revision m)
    \<and> ms_revision m = int (length (ms_audit m))
    \<and> distinct (map ta_idempotency_key (ms_audit m))
    \<and> control_inv (control_of m)"
proof -
  have "trail_inv m" using trail_inv_reach assms by blast
  then show ?thesis
    using trail_control_inv audit_chain_length [of Draft 0 "ms_audit m"] by (auto simp: trail_inv_def)
qed

lemma audit_trail_replays_witness:
  "control_run (Draft, None) (map ta_event (ms_audit sample_running)) (control_of sample_running)"
  using audit_trail_replays [OF sample_fresh sample_reach_running] by blast

definition sample_paused :: mission where
  "sample_paused = move_sample sample_running Pause ''k4'' None Paused"

definition sample_swapped :: mission where
  "sample_swapped = move_sample (with_plan sample_paused (sample_plan 2)) Resume ''k5'' None Running"

lemma sample_paused_validate:
  "mission_validate (with_plan sample_paused (sample_plan 2)) = Inr (with_plan sample_paused (sample_plan 2))"
  by (simp add: sample_paused_def sample_running_def sample_awaiting_def sample_planning_def sample_planned_def
      sample_gate_def move_sample_def moved_mission_def mission_validate_def strip_mission_def with_plan_def
      res_bind_eq_Inr validate_aggregate_references_def sample_defs len_between_def evidence_by_id_def
      dict_of_def transition_audit_of_def)

lemma sample_paused_mission_id: "ms_mission_id sample_paused = ''m-1''"
  by (simp add: sample_paused_def move_sample_def moved_mission_def)

text \<open>The plan of a running mission can be one that nobody approved: pausing a running mission,
attaching the next revision of the plan and resuming reaches such a mission, because the lock on the
plan does not cover the paused state.\<close>

theorem plan_swapped_while_paused:
  "\<exists>m. mission_reach sample_mission m \<and> ms_state m = Running \<and> ms_plan m = Some (sample_plan 2)
     \<and> \<not> has_approval m Plan_Type (subject_of_plan (sample_plan 2))"
proof (intro exI conjI)
  have paused: "mission_reach sample_mission sample_paused"
    unfolding sample_paused_def
    by (rule sample_step [OF sample_reach_running])
       (simp_all add: sample_running_control transition_target_def legal_transitions_def terminal_states_def
         fresh_key sample_running_keys del: set_map)
  have "attach_plan sample_paused (sample_plan 2) = revalidate (with_plan sample_paused (sample_plan 2))"
    by (simp add: attach_plan_def with_plan_def sample_paused_def sample_running_control
        plan_locked_states_def sample_paused_mission_id [unfolded sample_paused_def])
  then have "attach_plan sample_paused (sample_plan 2) = Inr (with_plan sample_paused (sample_plan 2))"
    by (simp add: revalidate_def sample_paused_validate)
  then have swapped: "mission_reach sample_mission (with_plan sample_paused (sample_plan 2))"
    by (rule reach_step [OF paused step_plan [OF sample_plan_ok, rotated]]) simp
  show "mission_reach sample_mission sample_swapped"
    unfolding sample_swapped_def
    by (rule sample_step [OF swapped])
       (simp_all add: with_plan_def sample_paused_def sample_running_control transition_target_def
         terminal_states_def fresh_key sample_running_keys del: set_map)
qed (simp_all add: sample_swapped_def with_plan_def sample_paused_def sample_running_def
      sample_awaiting_plan has_approval_def sample_gate_def subject_of_plan_def sample_plan_def)


section \<open>Plans\<close>

text \<open>C15: The plan validator accepts exactly the plans whose identifiers, positions and required gates
are unique, whose dependencies are tasks of the plan and form no cycle, and which record an approved
revision exactly when approved; it returns the plan unchanged. Its depth-first search always ends.\<close>

theorem plan_accepted_iff:
  "validate_plan_graph p = Inr q \<longleftrightarrow> q = p \<and> plan_graph_spec p"
  by (rule validate_plan_graph_Inr)

text \<open>C35: An accepted approval event binds the content of the plan: the mission has an approved plan gate
for the plan it carries, and any plan that this gate could have been given for is that very plan, unless
SHA-256 collides on the two serialised plans.\<close>

theorem approval_binds_plan_content:
  assumes "transition m r now = Inr res" "\<not> rs_replayed res" "tr_event r = Approve_Plan"
    and "is_identifier (tr_idempotency_key r)" "is_identifier (tr_actor_id r)"
  shows "\<exists>p g. ms_plan (rs_mission res) = Some p \<and> g \<in> set (ms_approval_gates m) \<and> ag_status g = Approved
    \<and> ag_subject g = subject_of_plan p
    \<and> (\<forall>q. ag_subject g = subject_of_plan q \<longrightarrow> q = p \<or> collision sha256 (serialize_plan q) (serialize_plan p))"
proof -
  obtain t where t: "guard_of (tr_event r) m r = Inr ()" "rs_mission res = moved_mission m t (rs_audit res)"
    using transition_fresh [OF assms(1,2,4,5)] by metis
  with assms(3) obtain p where p: "ms_plan m = Some p" "has_approval m Plan_Type (subject_of_plan p)"
    by (auto elim: require_plan_approval_Inr)
  then obtain g where "g \<in> set (ms_approval_gates m)" "ag_status g = Approved" "ag_subject g = subject_of_plan p"
    by (auto simp: has_approval_def list_ex_iff)
  moreover have "q = p \<or> collision sha256 (serialize_plan q) (serialize_plan p)"
    if "subject_of_plan p = subject_of_plan q" for q
    using that canonical_digest_eqD [of q p] by (simp add: subject_of_plan_def)
  ultimately show ?thesis
    using p t(2) by (metis moved_mission_simps(6))
qed

lemma sample_approve_transition:
  "transition sample_awaiting (sample_request Approve_Plan ''k3'' (Some (subject_of_plan (sample_plan 1)))) sample_time =
    Inr \<lparr>rs_mission = sample_running, rs_audit = transition_audit_of sample_awaiting
       (sample_request Approve_Plan ''k3'' (Some (subject_of_plan (sample_plan 1)))) Running sample_time, rs_replayed = False\<rparr>"
  unfolding sample_running_def
  by (rule sample_transition [OF sample_awaiting_target])
     (simp_all add: sample_awaiting_plan sample_plan_guard [simplified] sample_fresh_key terminal_states_def)

lemma approval_binds_plan_content_witness:
  "\<exists>p g. ms_plan sample_running = Some p \<and> g \<in> set (ms_approval_gates sample_awaiting) \<and> ag_subject g = subject_of_plan p"
  using approval_binds_plan_content [OF sample_approve_transition] by auto

text \<open>The paths of an accepted scope policy resolve below the directory they are resolved from: the
resolution only appends components to it, whichever of the two separators the path uses, and the policy
never allows an automatic merge.\<close>

theorem scope_paths_stay_below:
  assumes "make_scope_policy raw = Inr p" "path \<in> set (sp_allowed_paths p) \<union> set (sp_protected_paths p)"
  shows "\<exists>below. resolve_path dir path = dir @ below \<and> ''..'' \<notin> set below
    \<and> \<not> is_sep (hd path) \<and> \<not> sp_auto_merge_allowed p"
proof -
  have ok: "path_ok path"
    using make_scope_policy_ok [OF assms(1)] assms(2) by (auto simp: list_all_iff)
  then show ?thesis
    using path_ok_resolve [OF ok, of dir] path_ok_no_parent [OF ok] path_ok_not_rooted [OF ok]
      make_scope_policy_ok(3) [OF assms(1)]
    by (intro exI [of _ "filter (\<lambda>c. c \<noteq> [] \<and> c \<noteq> ''.'') (words_by is_sep path)"]) auto
qed

lemma scope_paths_stay_below_witness:
  "\<exists>below. resolve_path [''repo''] ''src/app'' = [''repo''] @ below \<and> ''..'' \<notin> set below"
proof -
  let ?p = "default_scope_policy\<lparr>sp_allowed_paths := [''src/app'']\<rparr>"
  have "make_scope_policy ?p = Inr ?p"
    by (simp add: make_scope_policy_def default_scope_policy_def guarded_def strip_ws_def is_space_def
        path_ok_def replace_char_def starts_with_def posix_parts_def)
  from scope_paths_stay_below [OF this, of "''src/app''" "[''repo'']"] show ?thesis by auto
qed


section \<open>Transitions\<close>

text \<open>Repeating a request is harmless: if a transition succeeded, the same request on the resulting
mission, at any later time, returns the same mission and the same audit record, marked as replayed.\<close>

theorem transition_idempotent:
  assumes "transition m r now = Inr res"
    and "is_identifier (tr_idempotency_key r)" "is_identifier (tr_actor_id r)"
  shows "transition (rs_mission res) r later = Inr (res\<lparr>rs_replayed := True\<rparr>)"
proof (cases "rs_replayed res")
  case True
  with assms(1) obtain a where a: "find (\<lambda>a. ta_idempotency_key a = tr_idempotency_key r) (ms_audit m) = Some a"
    by (auto simp: transition_def split: option.splits if_splits sum.splits)
  with assms(1) have "ta_event a = tr_event r \<and> ta_subject a = tr_subject r"
    and "res = \<lparr>rs_mission = m, rs_audit = a, rs_replayed = True\<rparr>"
    by (auto simp: transition_def split: if_splits)
  with a show ?thesis by (simp add: transition_def)
next
  case False
  then obtain t where t: "rs_audit res = transition_audit_of m r t now"
      "rs_mission res = moved_mission m t (rs_audit res)"
      "\<forall>a \<in> set (ms_audit m). ta_idempotency_key a \<noteq> tr_idempotency_key r"
    using transition_fresh [OF assms(1) False assms(2,3)] by metis
  have "find (\<lambda>a. ta_idempotency_key a = tr_idempotency_key r) (ms_audit m @ [rs_audit res]) = Some (rs_audit res)"
    using t(1,3) by (simp add: find_append_fresh transition_audit_of_def)
  with t show ?thesis
    by (cases res) (simp add: transition_def transition_audit_of_def)
qed

lemma transition_idempotent_witness:
  "transition sample_running (sample_request Approve_Plan ''k3'' (Some (subject_of_plan (sample_plan 1)))) sample_time
     = Inr \<lparr>rs_mission = sample_running, rs_audit = transition_audit_of sample_awaiting
       (sample_request Approve_Plan ''k3'' (Some (subject_of_plan (sample_plan 1)))) Running sample_time, rs_replayed = True\<rparr>"
  using transition_idempotent [OF sample_approve_transition, of sample_time] by simp

text \<open>The capabilities are complete: on a reachable mission an event with a fresh key succeeds only
if the capabilities list it.\<close>

theorem capabilities_complete:
  assumes "fresh_mission m0" "mission_reach m0 m" "transition m r now = Inr res" "\<not> rs_replayed res"
    and "is_identifier (tr_idempotency_key r)" "is_identifier (tr_actor_id r)"
  shows "tr_event r \<in> set (mc_allowed (capabilities m))"
proof -
  obtain t where t: "transition_target m (tr_event r) = Some t" "guard_of (tr_event r) m r = Inr ()"
    using transition_fresh [OF assms(3-6)] by metis
  have inv: "control_inv (control_of m)"
    using trail_control_inv trail_inv_reach assms(1,2) by blast
  show ?thesis
  proof (cases "tr_event r = Resume")
    case True
    with t inv have "ms_state m = Paused \<and> ms_resume_state m \<noteq> None"
      by (auto simp: transition_target_def control_inv_def control_of_def)
    with True show ?thesis by (simp add: capabilities_def Let_def)
  next
    case False
    with t have "((ms_state m, tr_event r), t) \<in> set legal_transitions"
      by (simp add: transition_target_def map_of_SomeD)
    moreover have "tr_event r = Begin_Verification \<longrightarrow> verification_complete m"
      using t(2) by (auto simp: require_verification_Inr)
    ultimately show ?thesis
      by (force simp: capabilities_def Let_def)
  qed
qed

lemma capabilities_complete_witness: "Approve_Plan \<in> set (mc_allowed (capabilities sample_awaiting))"
  using capabilities_complete [OF sample_fresh sample_reach_awaiting sample_approve_transition] by simp

text \<open>A valid mission passes to review, or begins its verification, only with every required gate
waived or passed on evidence that is in the mission, passed, and of a type the gate accepts.\<close>

theorem review_needs_backed_gates:
  assumes "mission_valid m" "transition m r now = Inr res" "\<not> rs_replayed res"
    and "is_identifier (tr_idempotency_key r)" "is_identifier (tr_actor_id r)"
    and "tr_event r = Complete_Verification \<or> tr_event r = Begin_Verification"
  shows "\<forall>n \<in> set (ms_required_verification m). gate_backed m n"
proof -
  have "guard_of (tr_event r) m r = Inr ()"
    using transition_fresh [OF assms(2-5)] by metis
  with assms(6) have "verification_complete m"
    by (auto simp: require_verification_Inr)
  then show ?thesis
    using verification_complete_iff [OF assms(1)] by simp
qed

definition sample_unverified :: mission where
  "sample_unverified = sample_mission\<lparr>ms_state := Running, ms_required_verification := [VG_CI],
     ms_verification_gates := [\<lparr>vg_gate = VG_CI, vg_status = Gate_Not_Applicable, vg_evidence_refs = []\<rparr>]\<rparr>"

lemma review_needs_backed_gates_witness: "gate_backed sample_unverified VG_CI"
proof -
  let ?r = "sample_request Begin_Verification ''k1'' None"
  have valid: "mission_valid sample_unverified"
    unfolding mission_valid_def
    by (simp add: mission_validate_def strip_mission_def res_bind_eq_Inr
        validate_aggregate_references_def sample_unverified_def sample_defs len_between_def evidence_by_id_def dict_of_def)
  have "transition sample_unverified ?r sample_time = Inr \<lparr>rs_mission = move_sample sample_unverified Begin_Verification ''k1'' None Verifying,
      rs_audit = transition_audit_of sample_unverified ?r Verifying sample_time, rs_replayed = False\<rparr>"
    by (rule sample_transition)
       (simp_all add: sample_unverified_def sample_mission_def transition_target_def legal_transitions_def
         terminal_states_def require_verification_def verification_complete_def gates_by_name_def dict_of_def
         gate_satisfied_def dict_get_def)
  from review_needs_backed_gates [OF valid this] show ?thesis
    by (simp add: sample_unverified_def)
qed

text \<open>A mission in a terminal state is frozen: every request either fails or replays a recorded
transition, and the mission stays as it is.\<close>

theorem terminal_missions_frozen:
  assumes "ms_state m \<in> set terminal_states" "transition m r now = Inr res"
  shows "rs_mission res = m \<and> rs_replayed res \<and> rs_audit res \<in> set (ms_audit m)"
  using assms
  by (auto simp: transition_def split: option.splits if_splits dest: find_SomeD)

lemma terminal_missions_frozen_witness:
  "rs_replayed \<lparr>rs_mission = sample_running\<lparr>ms_state := Closed\<rparr>, rs_audit = hd (ms_audit sample_running), rs_replayed = True\<rparr>"
proof -
  let ?m = "sample_running\<lparr>ms_state := Closed\<rparr>"
  have "transition ?m (sample_request Start_Planning ''k1'' None) sample_time =
      Inr \<lparr>rs_mission = ?m, rs_audit = hd (ms_audit sample_running), rs_replayed = True\<rparr>"
    by (simp add: transition_def sample_running_def sample_awaiting_def sample_planning_def sample_control)
       (simp add: transition_audit_of_def)
  from terminal_missions_frozen [OF _ this] show ?thesis
    by (simp add: terminal_states_def)
qed

text \<open>An idempotency key longer than 117 characters is a valid key that no transition can record: the
audit identifier built from it exceeds the 128 characters an identifier may have, so a transition that
the table and the guards allow ends in a validation error instead of a transition error.\<close>

theorem long_key_never_transitions:
  assumes "is_identifier (tr_idempotency_key r)" "is_identifier (tr_actor_id r)"
    and "117 < length (tr_idempotency_key r)"
    and "\<forall>a \<in> set (ms_audit m). ta_idempotency_key a \<noteq> tr_idempotency_key r"
    and "transition_target m (tr_event r) = Some t" "ms_state m \<notin> set terminal_states"
    and "guard_of (tr_event r) m r = Inr ()"
  shows "transition m r now = Inl (Audit_Error (Bad_Field ''audit_id''))"
proof -
  have "find (\<lambda>a. ta_idempotency_key a = tr_idempotency_key r) (ms_audit m) = None"
    using assms(4) by (simp add: find_None_iff)
  moreover have "strip_ws (''transition:'' @ tr_idempotency_key r) = ''transition:'' @ tr_idempotency_key r"
    using identifier_not_space [OF assms(1)]
    by (simp add: strip_ws_def dropWhile_none is_space_def list_all_rev)
  then have "make_transition_audit (transition_audit_of m r t now) = Inl (Bad_Field ''audit_id'')"
    using assms(3) by (simp add: make_transition_audit_def transition_audit_of_def guarded_def is_identifier_def)
  ultimately show ?thesis
    using assms(5-7) by (simp add: transition_def)
qed

lemma long_key_never_transitions_witness:
  "transition sample_mission (sample_request Start_Planning (replicate 120 (CHR ''k'')) None) sample_time =
     Inl (Audit_Error (Bad_Field ''audit_id''))"
  by (rule long_key_never_transitions [where t = Planning])
     (simp_all add: sample_mission_def transition_target_def legal_transitions_def terminal_states_def
       is_identifier_def is_alnum_ascii_def identifier_char_def list_all_iff)

text \<open>C36: A draft pull request is created only when the scope policy permits it and an approved gate
names the very review of the mission: its branch, its head and its plan revision.\<close>

theorem draft_pr_needs_permission_and_review:
  assumes "transition m r now = Inr res" "ms_state m \<noteq> Draft_PR_Created" "ms_resume_state m \<noteq> Some Draft_PR_Created"
    and "ms_state (rs_mission res) = Draft_PR_Created"
    and "is_identifier (tr_idempotency_key r)" "is_identifier (tr_actor_id r)"
  shows "sp_draft_pr_permission (mp_scope (ms_policy m)) \<and> ms_state m = Review_Ready
    \<and> (\<exists>s. ms_draft_pr_review m = Some s \<and> tr_subject r = Some s \<and> has_approval m Draft_PR_Type s)"
proof -
  have fresh: "\<not> rs_replayed res"
    using transition_replayed(1) [OF assms(1)] assms(2,4) by auto
  obtain t where t: "transition_target m (tr_event r) = Some t" "guard_of (tr_event r) m r = Inr ()"
      "rs_mission res = moved_mission m t (rs_audit res)"
    using transition_fresh [OF assms(1) fresh assms(5,6)] by metis
  have "tr_event r = Create_Draft_PR \<and> ms_state m = Review_Ready"
  proof (cases "tr_event r = Resume")
    case True
    with t assms(3,4) show ?thesis by (simp add: transition_target_def)
  next
    case False
    with t assms(4) have "((ms_state m, tr_event r), Draft_PR_Created) \<in> set legal_transitions"
      by (simp add: transition_target_def map_of_SomeD)
    then show ?thesis by (simp add: legal_transitions_def)
  qed
  with t(2) show ?thesis
    by (auto simp: require_draft_pr_def res_bind_eq_Inr subject_or_error_Inr
        split: if_splits approval_subject.splits)
qed

definition sample_review :: approval_subject where
  "sample_review = Draft_PR_Subject ''rv'' ''plan-1'' 1 ''feature'' ''abc''"

definition sample_reviewed :: mission where
  "sample_reviewed = sample_mission\<lparr>ms_state := Review_Ready, ms_draft_pr_review := Some sample_review,
     ms_policy := \<lparr>mp_preset = Balanced, mp_scope = default_scope_policy\<lparr>sp_draft_pr_permission := True\<rparr>\<rparr>,
     ms_approval_gates := [sample_gate\<lparr>ag_gate_type := Draft_PR_Type, ag_subject := sample_review\<rparr>]\<rparr>"

lemma draft_pr_needs_permission_and_review_witness: "has_approval sample_reviewed Draft_PR_Type sample_review"
proof -
  let ?r = "sample_request Create_Draft_PR ''k1'' (Some sample_review)"
  have "transition sample_reviewed ?r sample_time = Inr \<lparr>rs_mission = move_sample sample_reviewed Create_Draft_PR ''k1'' (Some sample_review) Draft_PR_Created,
      rs_audit = transition_audit_of sample_reviewed ?r Draft_PR_Created sample_time, rs_replayed = False\<rparr>"
    by (rule sample_transition)
       (simp_all add: sample_reviewed_def sample_mission_def transition_target_def legal_transitions_def
         terminal_states_def require_draft_pr_def subject_or_error_def sample_review_def has_approval_def sample_gate_def)
  from draft_pr_needs_permission_and_review [OF this] show ?thesis
    by (simp add: sample_reviewed_def sample_mission_def)
qed


section \<open>Approval gates\<close>

text \<open>A pending gate closes its subject: once a mission carries a pending gate for a subject, and no
decided one, every decision on that subject is refused, so a pending approval can never be decided.\<close>

theorem pending_gate_never_decided:
  assumes "g0 \<in> set (ms_approval_gates m)" "ag_subject g0 = ag_subject g" "ag_status g \<noteq> Approval_Pending"
    and "\<forall>h \<in> set (ms_approval_gates m). ag_subject h = ag_subject g \<longrightarrow> ag_status h = Approval_Pending"
  shows "\<exists>e. add_approval_gate m g = Inl e"
proof -
  obtain h where h: "find (\<lambda>h. ag_subject h = ag_subject g) (ms_approval_gates m) = Some h"
    using assms(1,2) by (cases "find (\<lambda>h. ag_subject h = ag_subject g) (ms_approval_gates m)") (auto simp: find_None_iff)
  then have "ag_status h = Approval_Pending"
    using assms(4) find_SomeD [OF h] by blast
  then show ?thesis
    using h assms(3)
    by (cases "add_approval_gate m g") (auto simp: add_approval_gate_def res_bind_eq_Inr split: if_splits)
qed

lemma pending_gate_never_decided_witness:
  "\<exists>e. add_approval_gate (sample_planned\<lparr>ms_approval_gates := [sample_gate\<lparr>ag_status := Approval_Pending,
       ag_actor_id := None, ag_decided_at := None\<rparr>]\<rparr>) (sample_gate\<lparr>ag_gate_id := ''g2''\<rparr>) = Inl e"
  by (rule pending_gate_never_decided
       [where ?g0.0 = "sample_gate\<lparr>ag_status := Approval_Pending, ag_actor_id := None, ag_decided_at := None\<rparr>"])
     (simp_all add: sample_gate_def)

end
