(* ===== verification/Mission_Store.thy ===== *)
theory Mission_Store
  imports Mission_Safety "HOL-Library.Product_Lexorder"
begin

text \<open>
  The mission store (core/mission_store.py): a SQLite database with a table of missions and a table of
  transition receipts. Every operation takes the database and returns it with a result; a transaction
  works on a copy that the rollback drops.

  Outside the model, as parameters: the codec (pydantic's JSON dump and validation of missions and
  audits, \<open>json.loads\<close>, \<open>isoformat\<close>), whether SQLite answers (\<open>up\<close>: a \<open>sqlite3.Error\<close> is raised at the
  first statement when it does not), the clock, and whether the \<open>before_commit\<close> hook raises.
\<close>

section \<open>Database and codec\<close>

record mission_row =
  mr_id :: string
  mr_owner :: string
  mr_schema :: string
  mr_revision :: int
  mr_created :: string
  mr_updated :: string
  mr_payload :: string

record receipt_row =
  rr_mission :: string
  rr_key :: string
  rr_event :: string
  rr_audit :: string

record store_db =
  db_meta :: "int option"
  db_has_missions :: bool
  db_owner_column :: bool
  db_missions :: "mission_row list"
  db_receipts :: "receipt_row list"

record codec =
  cd_enc :: "mission \<Rightarrow> string"
  cd_dec :: "string \<Rightarrow> mission option"
  cd_enc_audit :: "transition_audit \<Rightarrow> string"
  cd_dec_audit :: "string \<Rightarrow> transition_audit option"
  cd_loads :: "string \<Rightarrow> json option"
  cd_iso :: "datetime \<Rightarrow> string"

datatype store_error =
    Store_Conflict string
  | Store_Corruption string
  | Store_Validation string
  | Store_Unavailable
  | Store_Operational
  | Store_Attribute_Error
  | Store_Transition transition_error
  | Store_Hook_Failed

definition store_schema_version :: int where
  "store_schema_version = 2"

definition max_page_size :: int where
  "max_page_size = 100"

record 'a page =
  pg_items :: "'a list"
  pg_limit :: int
  pg_offset :: int
  pg_next :: "int option"


section \<open>Initialisation and migration\<close>

text \<open>\<open>bool(x)\<close> of a JSON value, and \<open>payload.get("owner_actor_id") or payload.get("actor_id")\<close>.\<close>

fun json_truthy :: "json \<Rightarrow> bool" where
  "json_truthy JNull = False"
| "json_truthy (JBool b) = b"
| "json_truthy (JInt i) = (i \<noteq> 0)"
| "json_truthy (JFloat r) = (r \<noteq> ''0.0'' \<and> r \<noteq> ''-0.0'')"
| "json_truthy (JStr s) = (s \<noteq> [])"
| "json_truthy (JArr js) = (js \<noteq> [])"
| "json_truthy (JObj kvs) = (kvs \<noteq> [])"
| "json_truthy (JPy t r i) = (\<not> empty_repr r)"

definition json_get :: "(string \<times> json) list \<Rightarrow> string \<Rightarrow> json" where
  "json_get kvs k = (case map_of (rev kvs) k of None \<Rightarrow> JNull | Some j \<Rightarrow> j)"

definition payload_owner :: "json \<Rightarrow> store_error + string" where
  "payload_owner j = (case j of
     JObj kvs \<Rightarrow>
       (let v = json_get kvs ''owner_actor_id'';
            w = (if json_truthy v then v else json_get kvs ''actor_id'')
        in case w of
             JStr s \<Rightarrow> (if s = [] then Inl (Store_Corruption ''corrupt_mission_payload'') else Inr s)
           | _ \<Rightarrow> Inl (Store_Corruption ''corrupt_mission_payload''))
   | _ \<Rightarrow> Inl Store_Attribute_Error)"

definition row_owner :: "codec \<Rightarrow> mission_row \<Rightarrow> store_error + string" where
  "row_owner cd r = (case cd_loads cd (mr_payload r) of
     None \<Rightarrow> Inl (Store_Corruption ''corrupt_mission_payload'')
   | Some j \<Rightarrow> payload_owner j)"

text \<open>
  The migration runs outside a transaction: the rows are updated one by one, and the rows before a
  failing one stay updated.
\<close>

fun migrate_rows :: "codec \<Rightarrow> mission_row list \<Rightarrow> mission_row list \<times> (store_error + unit)" where
  "migrate_rows cd [] = ([], Inr ())"
| "migrate_rows cd (r # rs) =
     (case row_owner cd r of
        Inl e \<Rightarrow> (r # rs, Inl e)
      | Inr o' \<Rightarrow> (case migrate_rows cd rs of (rs', res) \<Rightarrow> (r\<lparr>mr_owner := o'\<rparr> # rs', res)))"

definition create_tables :: "store_db \<Rightarrow> store_db \<times> (store_error + unit)" where
  "create_tables db =
     (let db' = (if db_has_missions db then db
                 else db\<lparr>db_has_missions := True, db_owner_column := True, db_missions := []\<rparr>)
      in (db', if db_owner_column db' then Inr () else Inl Store_Operational))"

definition initialize :: "codec \<Rightarrow> store_db \<Rightarrow> store_db \<times> (store_error + unit)" where
  "initialize cd db =
     (case db_meta db of
        None \<Rightarrow> create_tables (db\<lparr>db_meta := Some store_schema_version\<rparr>)
      | Some v \<Rightarrow>
          (if v = 1 then
             (if \<not> db_has_missions db \<or> db_owner_column db then (db, Inl Store_Operational)
              else
                (let added = db\<lparr>db_owner_column := True,
                       db_missions := map (\<lambda>r. r\<lparr>mr_owner := []\<rparr>) (db_missions db)\<rparr>
                 in case migrate_rows cd (db_missions added) of
                      (rows, Inl e) \<Rightarrow> (added\<lparr>db_missions := rows\<rparr>, Inl e)
                    | (rows, Inr _) \<Rightarrow>
                        create_tables (added\<lparr>db_missions := rows, db_meta := Some store_schema_version\<rparr>)))
           else if v \<noteq> store_schema_version then (db, Inl (Store_Corruption ''unsupported_store_schema''))
           else create_tables db))"


section \<open>Reading\<close>

definition validated :: "mission \<Rightarrow> store_error + mission" where
  "validated m = (case mission_validate m of
     Inl e \<Rightarrow> Inl (Store_Validation ''invalid_aggregate_contract'') | Inr m' \<Rightarrow> Inr m')"

definition load_row :: "codec \<Rightarrow> mission_row \<Rightarrow> store_error + mission" where
  "load_row cd r =
     (if mr_schema r \<noteq> schema_version_const then Inl (Store_Corruption ''unsupported_contract_schema'')
      else case cd_dec cd (mr_payload r) of
          None \<Rightarrow> Inl (Store_Corruption ''corrupt_mission_payload'')
        | Some m \<Rightarrow> Inr m)"

text \<open>The clause \<open>mission_id = ?\<close>, with \<open>AND owner_actor_id = ?\<close> when an owner is given.\<close>

definition row_matches :: "string \<Rightarrow> string option \<Rightarrow> mission_row \<Rightarrow> bool" where
  "row_matches mid owner r = (mr_id r = mid \<and> (case owner of None \<Rightarrow> True | Some o' \<Rightarrow> mr_owner r = o'))"

definition store_get ::
    "codec \<Rightarrow> bool \<Rightarrow> store_db \<Rightarrow> string \<Rightarrow> string option \<Rightarrow> store_error + mission option" where
  "store_get cd up db mid owner =
     (if \<not> up then Inl Store_Unavailable
      else case find (row_matches mid owner) (db_missions db) of
          None \<Rightarrow> Inr None
        | Some r \<Rightarrow> (case load_row cd r of Inl e \<Rightarrow> Inl e | Inr m \<Rightarrow> Inr (Some m)))"

fun load_all :: "codec \<Rightarrow> mission_row list \<Rightarrow> store_error + mission list" where
  "load_all cd [] = Inr []"
| "load_all cd (r # rs) = (case load_row cd r of Inl e \<Rightarrow> Inl e
     | Inr m \<Rightarrow> (case load_all cd rs of Inl e \<Rightarrow> Inl e | Inr ms \<Rightarrow> Inr (m # ms)))"

definition ordered_rows :: "store_db \<Rightarrow> string option \<Rightarrow> mission_row list" where
  "ordered_rows db owner = sort_key (\<lambda>r. (mr_created r, mr_id r))
     (filter (\<lambda>r. case owner of None \<Rightarrow> True | Some o' \<Rightarrow> mr_owner r = o') (db_missions db))"

definition bad_page :: "int \<Rightarrow> int \<Rightarrow> bool" where
  "bad_page limit offset = (limit < 1 \<or> limit > max_page_size \<or> offset < 0)"

definition store_list ::
    "codec \<Rightarrow> bool \<Rightarrow> store_db \<Rightarrow> int \<Rightarrow> int \<Rightarrow> string option \<Rightarrow> store_error + mission page" where
  "store_list cd up db limit offset owner =
     (if bad_page limit offset then Inl (Store_Validation ''invalid_pagination'')
      else if \<not> up then Inl Store_Unavailable
      else
        (let rows = take (nat (limit + 1)) (drop (nat offset) (ordered_rows db owner));
             has_more = int (length rows) > limit
         in case load_all cd (take (nat limit) rows) of
              Inl e \<Rightarrow> Inl e
            | Inr items \<Rightarrow> Inr \<lparr>pg_items = items, pg_limit = limit, pg_offset = offset,
                pg_next = (if has_more then Some (offset + limit) else None)\<rparr>))"


section \<open>Writing\<close>

definition store_create ::
    "codec \<Rightarrow> bool \<Rightarrow> store_db \<Rightarrow> mission \<Rightarrow> store_db \<times> (store_error + mission)" where
  "store_create cd up db raw =
     (case validated raw of
        Inl e \<Rightarrow> (db, Inl e)
      | Inr m \<Rightarrow>
          (if \<not> up then (db, Inl Store_Unavailable)
           else if ms_mission_id m \<in> set (map mr_id (db_missions db))
           then (db, Inl (Store_Conflict ''duplicate_mission''))
           else (db\<lparr>db_missions := db_missions db @
                   [\<lparr>mr_id = ms_mission_id m, mr_owner = mission_owner_id m, mr_schema = schema_version_const,
                     mr_revision = ms_revision m, mr_created = cd_iso cd (ms_created_at m),
                     mr_updated = cd_iso cd (ms_updated_at m), mr_payload = cd_enc cd m\<rparr>]\<rparr>, Inr m)))"

text \<open>
  \<open>UPDATE missions SET revision, updated_at, payload WHERE \<dots> AND revision = ?\<close> with its row count.
\<close>

definition update_mission ::
    "codec \<Rightarrow> store_db \<Rightarrow> string \<Rightarrow> string option \<Rightarrow> int \<Rightarrow> mission \<Rightarrow> store_db \<times> nat" where
  "update_mission cd db mid owner rev0 m =
     (let hit = (\<lambda>r. row_matches mid owner r \<and> mr_revision r = rev0)
      in (db\<lparr>db_missions := map (\<lambda>r. if hit r
              then r\<lparr>mr_revision := ms_revision m, mr_updated := cd_iso cd (ms_updated_at m),
                     mr_payload := cd_enc cd m\<rparr>
              else r) (db_missions db)\<rparr>,
          length (filter hit (db_missions db))))"

definition store_save ::
    "codec \<Rightarrow> bool \<Rightarrow> store_db \<Rightarrow> datetime \<Rightarrow> mission \<Rightarrow> int \<Rightarrow> string option
       \<Rightarrow> store_db \<times> (store_error + mission)" where
  "store_save cd up db now raw expected owner =
     (case validated raw of
        Inl e \<Rightarrow> (db, Inl e)
      | Inr m \<Rightarrow>
          (if ms_revision m \<noteq> expected then (db, Inl (Store_Conflict ''stale_revision''))
           else case mission_validate (m\<lparr>ms_revision := expected + 1, ms_updated_at := now\<rparr>) of
               Inl e \<Rightarrow> (db, Inl (Store_Transition (Audit_Error e)))
             | Inr updated \<Rightarrow>
                 (if \<not> up then (db, Inl Store_Unavailable)
                  else case update_mission cd db (ms_mission_id updated) owner expected updated of
                      (work, count) \<Rightarrow>
                        (if count \<noteq> 1 then (db, Inl (Store_Conflict ''stale_revision''))
                         else (work, Inr updated)))))"

definition append_transition ::
    "codec \<Rightarrow> bool \<Rightarrow> bool \<Rightarrow> store_db \<Rightarrow> datetime \<Rightarrow> string \<Rightarrow> transition_request \<Rightarrow> int option
       \<Rightarrow> string option \<Rightarrow> store_db \<times> (store_error + transition_result)" where
  "append_transition cd up hook_fails db now mid req expected owner =
     (if \<not> up then (db, Inl Store_Unavailable)
      else case find (row_matches mid owner) (db_missions db) of
        None \<Rightarrow> (db, Inl (Store_Conflict ''mission_not_found''))
      | Some row \<Rightarrow>
      (case load_row cd row of
        Inl e \<Rightarrow> (db, Inl e)
      | Inr m \<Rightarrow>
      (case find (\<lambda>t. rr_mission t = mid \<and> rr_key t = tr_idempotency_key req) (db_receipts db) of
        Some receipt \<Rightarrow>
          (case cd_dec_audit cd (rr_audit receipt) of
             None \<Rightarrow> (db, Inl (Store_Corruption ''corrupt_transition_receipt''))
           | Some audit \<Rightarrow>
               (if ta_event audit \<noteq> tr_event req \<or> ta_subject audit \<noteq> tr_subject req
                then (db, Inl (Store_Conflict ''idempotency_conflict''))
                else (db, Inr \<lparr>rs_mission = m, rs_audit = audit, rs_replayed = True\<rparr>)))
      | None \<Rightarrow>
      (if expected \<noteq> None \<and> expected \<noteq> Some (ms_revision m)
       then (db, Inl (Store_Conflict ''stale_revision''))
       else case transition m req now of
         Inl e \<Rightarrow> (db, Inl (Store_Transition e))
       | Inr res \<Rightarrow>
       (case validated (rs_mission res) of
          Inl e \<Rightarrow> (db, Inl e)
        | Inr m' \<Rightarrow>
        (case update_mission cd db mid owner (ms_revision m) m' of
           (work, count) \<Rightarrow>
             (if count \<noteq> 1 then (db, Inl (Store_Conflict ''stale_revision''))
              else
                (let work' = work\<lparr>db_receipts := db_receipts work @
                       [\<lparr>rr_mission = mid, rr_key = tr_idempotency_key req,
                         rr_event = mission_event_value (tr_event req),
                         rr_audit = cd_enc_audit cd (rs_audit res)\<rparr>]\<rparr>
                 in if hook_fails then (db, Inl Store_Hook_Failed)
                    else (work', Inr (res\<lparr>rs_mission := m'\<rparr>)))))))))) "

fun load_audits :: "codec \<Rightarrow> receipt_row list \<Rightarrow> store_error + transition_audit list" where
  "load_audits cd [] = Inr []"
| "load_audits cd (r # rs) = (case cd_dec_audit cd (rr_audit r) of
       None \<Rightarrow> Inl (Store_Corruption ''corrupt_transition_receipt'')
     | Some a \<Rightarrow> (case load_audits cd rs of Inl e \<Rightarrow> Inl e | Inr as \<Rightarrow> Inr (a # as)))"

definition transition_history ::
    "codec \<Rightarrow> bool \<Rightarrow> store_db \<Rightarrow> string \<Rightarrow> int \<Rightarrow> int \<Rightarrow> string option \<Rightarrow> store_error + transition_audit page" where
  "transition_history cd up db mid limit offset owner =
     (if bad_page limit offset then Inl (Store_Validation ''invalid_pagination'')
      else if \<not> up then Inl Store_Unavailable
      else if find (row_matches mid owner) (db_missions db) = None
      then Inl (Store_Conflict ''mission_not_found'')
      else
        (let rows = take (nat (limit + 1)) (drop (nat offset)
               (filter (\<lambda>t. rr_mission t = mid) (db_receipts db)))
         in case load_audits cd (take (nat limit) rows) of
              Inl e \<Rightarrow> Inl e
            | Inr items \<Rightarrow> Inr \<lparr>pg_items = items, pg_limit = limit, pg_offset = offset,
                pg_next = (if int (length rows) > limit then Some (offset + limit) else None)\<rparr>))"

end
