(* ===== verification/Store_Properties.thy ===== *)
theory Store_Properties
  imports Mission_Store Mission_Samples
begin

text \<open>
  The mission store's contract: the keys of its tables stay unique, a failed operation changes nothing,
  a stale write is refused, a repeated request replays, and paging visits every mission once.
\<close>

section \<open>Keys and frames\<close>

definition store_keys :: "store_db \<Rightarrow> bool" where
  "store_keys db \<longleftrightarrow> distinct (map mr_id (db_missions db)) \<and>
     distinct (map (\<lambda>t. (rr_mission t, rr_key t)) (db_receipts db))"

lemma update_mission_fst:
  "fst (update_mission cd db mid owner n m) = db\<lparr>db_missions := map (\<lambda>r.
     if row_matches mid owner r \<and> mr_revision r = n
     then r\<lparr>mr_revision := ms_revision m, mr_updated := cd_iso cd (ms_updated_at m), mr_payload := cd_enc cd m\<rparr>
     else r) (db_missions db)\<rparr>"
  by (simp add: update_mission_def Let_def)

lemma update_mission_ids [simp]:
  "map mr_id (db_missions (fst (update_mission cd db mid owner n m))) = map mr_id (db_missions db)"
  "db_receipts (fst (update_mission cd db mid owner n m)) = db_receipts db"
  by (simp_all add: update_mission_fst comp_def)

text \<open>What a successful append did, on both branches.\<close>

lemma append_transition_Inr:
  assumes "append_transition cd up hook db now mid req expected owner = (db', Inr res)"
  obtains
    (replay) row m receipt where "db' = db" "find (row_matches mid owner) (db_missions db) = Some row"
      "load_row cd row = Inr m"
      "find (\<lambda>t. rr_mission t = mid \<and> rr_key t = tr_idempotency_key req) (db_receipts db) = Some receipt"
      "cd_dec_audit cd (rr_audit receipt) = Some (rs_audit res)"
      "rs_mission res = m" "rs_replayed res" "ta_event (rs_audit res) = tr_event req" "ta_subject (rs_audit res) = tr_subject req"
  | (stored) row m res0 m' where "find (row_matches mid owner) (db_missions db) = Some row"
      "load_row cd row = Inr m" "transition m req now = Inr res0" "mission_validate (rs_mission res0) = Inr m'"
      "res = res0\<lparr>rs_mission := m'\<rparr>" "expected = None \<or> expected = Some (ms_revision m)"
      "find (\<lambda>t. rr_mission t = mid \<and> rr_key t = tr_idempotency_key req) (db_receipts db) = None"
      "snd (update_mission cd db mid owner (ms_revision m) m') = 1"
      "db' = (fst (update_mission cd db mid owner (ms_revision m) m'))\<lparr>db_receipts := db_receipts db @
         [\<lparr>rr_mission = mid, rr_key = tr_idempotency_key req, rr_event = mission_event_value (tr_event req),
           rr_audit = cd_enc_audit cd (rs_audit res0)\<rparr>]\<rparr>"
proof -
  from assms obtain row m where rm: "find (row_matches mid owner) (db_missions db) = Some row" "load_row cd row = Inr m"
    by (auto simp: append_transition_def split: if_splits option.splits sum.splits)
  show thesis
  proof (cases "find (\<lambda>t. rr_mission t = mid \<and> rr_key t = tr_idempotency_key req) (db_receipts db)")
    case (Some receipt)
    with assms rm replay show thesis
      by (auto simp: append_transition_def split: if_splits option.splits)
  next
    case None
    with assms rm obtain res0 m' where t: "transition m req now = Inr res0" "mission_validate (rs_mission res0) = Inr m'"
        "expected = None \<or> expected = Some (ms_revision m)"
      by (auto simp: append_transition_def validated_def split: if_splits option.splits sum.splits)
    obtain work count where u: "update_mission cd db mid owner (ms_revision m) m' = (work, count)"
      by (cases "update_mission cd db mid owner (ms_revision m) m'")
    with assms rm None t have "count = 1" "res = res0\<lparr>rs_mission := m'\<rparr>"
      "db' = work\<lparr>db_receipts := db_receipts work @
         [\<lparr>rr_mission = mid, rr_key = tr_idempotency_key req, rr_event = mission_event_value (tr_event req),
           rr_audit = cd_enc_audit cd (rs_audit res0)\<rparr>]\<rparr>"
      by (auto simp: append_transition_def validated_def Let_def split: if_splits)
    moreover have "db_receipts work = db_receipts db"
      using update_mission_ids(2) [of cd db mid owner "ms_revision m" m'] u by simp
    ultimately show thesis
      using stored [OF rm t(1,2) _ t(3) None] u by simp
  qed
qed

lemma mission_validate_fields:
  assumes "mission_validate raw = Inr m"
  shows "ms_revision m = ms_revision raw" "ms_mission_id m = strip_ws (ms_mission_id raw)"
    "ms_audit m = ms_audit raw" "ms_owner_actor_id m = map_option strip_ws (ms_owner_actor_id raw)"
  using mission_validate_same [OF assms] by (simp_all add: strip_mission_def)

lemma store_save_Inr:
  assumes "store_save cd up db now raw expected owner = (db', Inr u)"
  shows "ms_revision u = expected + 1 \<and> mission_valid u \<and> ms_mission_id u = strip_ws (ms_mission_id raw)
    \<and> db' = fst (update_mission cd db (ms_mission_id u) owner expected u)
    \<and> snd (update_mission cd db (ms_mission_id u) owner expected u) = 1"
proof -
  from assms obtain m where v: "mission_validate raw = Inr m"
    by (cases "mission_validate raw") (auto simp: store_save_def validated_def)
  with assms have rev: "ms_revision m = expected"
    by (auto simp: store_save_def validated_def split: if_splits)
  let ?n = "m\<lparr>ms_revision := expected + 1, ms_updated_at := now\<rparr>"
  from assms v rev obtain w where w: "mission_validate ?n = Inr w"
    by (cases "mission_validate ?n") (auto simp: store_save_def validated_def)
  obtain work count where c: "update_mission cd db (ms_mission_id w) owner expected w = (work, count)"
    by (cases "update_mission cd db (ms_mission_id w) owner expected w")
  from assms v rev w c have "w = u \<and> db' = work \<and> count = 1"
    by (auto simp: store_save_def validated_def split: if_splits)
  with c mission_validate_fields [OF w] mission_validate_fields [OF v] mission_validate_valid [OF w] show ?thesis
    by simp
qed

lemma store_keys_create:
  assumes "store_create cd up db m = (db', res)" "store_keys db"
  shows "store_keys db'"
  using assms by (auto simp: store_create_def store_keys_def split: sum.splits if_splits)

lemma store_save_Inl: "store_save cd up db now m n owner = (db', Inl e) \<Longrightarrow> db' = db"
  by (auto simp: store_save_def split: sum.splits if_splits prod.splits)

lemma store_keys_save:
  assumes "store_save cd up db now m n owner = (db', res)" "store_keys db"
  shows "store_keys db'"
proof (cases res)
  case (Inl e)
  with store_save_Inl assms show ?thesis by blast
next
  case (Inr u)
  with assms(1) have "store_save cd up db now m n owner = (db', Inr u)" by simp
  from store_save_Inr [OF this]
  have db': "db' = fst (update_mission cd db (ms_mission_id u) owner n u)" by blast
  show ?thesis
    using assms(2) unfolding db' store_keys_def by (simp only: update_mission_ids)
qed

lemma append_transition_Inl:
  "append_transition cd up hook db now mid req expected owner = (db', Inl e) \<Longrightarrow> db' = db"
  by (auto simp: append_transition_def Let_def split: sum.splits if_splits prod.splits option.splits)

lemma store_keys_append:
  assumes "append_transition cd up hook db now mid req expected owner = (db', res)" "store_keys db"
  shows "store_keys db'"
proof (cases res)
  case (Inl e)
  with append_transition_Inl assms show ?thesis by blast
next
  case (Inr r)
  from assms(1)[unfolded Inr] show ?thesis
  proof (cases rule: append_transition_Inr)
    case (replay row m receipt)
    with assms(2) show ?thesis by simp
  next
    case (stored row m res0 m')
    then have "(mid, tr_idempotency_key req) \<notin> (\<lambda>t. (rr_mission t, rr_key t)) ` set (db_receipts db)"
      by (auto simp: find_None_iff)
    with stored(9) assms(2) show ?thesis by (simp add: store_keys_def)
  qed
qed

text \<open>The writes of the store as one step relation.\<close>

inductive store_write :: "codec \<Rightarrow> store_db \<Rightarrow> store_db \<Rightarrow> bool" where
  write_create: "store_create cd up db m = (db', res) \<Longrightarrow> store_write cd db db'"
| write_save: "store_save cd up db now m n owner = (db', res) \<Longrightarrow> store_write cd db db'"
| write_append: "append_transition cd up hook db now mid req expected owner = (db', res) \<Longrightarrow> store_write cd db db'"

inductive store_writes :: "codec \<Rightarrow> store_db \<Rightarrow> store_db \<Rightarrow> bool" where
  writes_refl: "store_writes cd db db"
| writes_step: "store_writes cd db db1 \<Longrightarrow> store_write cd db1 db2 \<Longrightarrow> store_writes cd db db2"

lemma store_keys_write: "store_write cd db db' \<Longrightarrow> store_keys db \<Longrightarrow> store_keys db'"
  by (erule store_write.cases)
    (auto intro: store_keys_create store_keys_save store_keys_append)

lemma store_keys_writes: "store_writes cd db db' \<Longrightarrow> store_keys db \<Longrightarrow> store_keys db'"
  by (induction rule: store_writes.induct) (auto intro: store_keys_write)

text \<open>No write removes a mission or lowers its revision.\<close>

definition rev_le :: "store_db \<Rightarrow> store_db \<Rightarrow> bool" where
  "rev_le db db' \<longleftrightarrow> (\<forall>q \<in> set (db_missions db). \<exists>r \<in> set (db_missions db').
     mr_id r = mr_id q \<and> mr_revision q \<le> mr_revision r)"

lemma rev_le_refl [simp]: "rev_le db db"
  by (auto simp: rev_le_def)

lemma rev_le_trans: "rev_le a b \<Longrightarrow> rev_le b c \<Longrightarrow> rev_le a c"
proof -
  assume ab: "rev_le a b" and bc: "rev_le b c"
  show "rev_le a c"
    unfolding rev_le_def
  proof
    fix q assume "q \<in> set (db_missions a)"
    with ab obtain r where r: "r \<in> set (db_missions b)" "mr_id r = mr_id q" "mr_revision q \<le> mr_revision r"
      by (auto simp: rev_le_def)
    with bc obtain t where "t \<in> set (db_missions c)" "mr_id t = mr_id r" "mr_revision r \<le> mr_revision t"
      by (auto simp: rev_le_def)
    with r show "\<exists>r\<in>set (db_missions c). mr_id r = mr_id q \<and> mr_revision q \<le> mr_revision r"
      by (intro bexI [of _ t]) simp_all
  qed
qed

lemma rev_le_update:
  assumes "n \<le> ms_revision m"
  shows "rev_le db (fst (update_mission cd db mid owner n m))"
  unfolding rev_le_def
proof
  let ?f = "\<lambda>r. if row_matches mid owner r \<and> mr_revision r = n
     then r\<lparr>mr_revision := ms_revision m, mr_updated := cd_iso cd (ms_updated_at m), mr_payload := cd_enc cd m\<rparr>
     else r"
  fix q assume "q \<in> set (db_missions db)"
  then have "?f q \<in> set (db_missions (fst (update_mission cd db mid owner n m)))"
    by (simp add: update_mission_fst)
  moreover have "mr_id (?f q) = mr_id q \<and> mr_revision q \<le> mr_revision (?f q)"
    using assms by simp
  ultimately show "\<exists>r\<in>set (db_missions (fst (update_mission cd db mid owner n m))).
      mr_id r = mr_id q \<and> mr_revision q \<le> mr_revision r" ..
qed

lemma transition_revision:
  assumes "transition m r now = Inr res"
  shows "ms_revision m \<le> ms_revision (rs_mission res)"
  using assms by (auto simp: transition_def split: option.splits if_splits sum.splits)

lemma rev_le_receipts: "rev_le db (db'\<lparr>db_receipts := rs\<rparr>) = rev_le db db'"
  by (simp add: rev_le_def)

lemma rev_le_append:
  assumes "append_transition cd up hook db now mid req expected owner = (db', res)"
  shows "rev_le db db'"
proof (cases res)
  case (Inl e)
  with append_transition_Inl assms show ?thesis by (metis rev_le_refl)
next
  case (Inr r)
  from assms[unfolded Inr] show ?thesis
  proof (cases rule: append_transition_Inr)
    case (replay row m receipt)
    then show ?thesis by simp
  next
    case (stored row m res0 m')
    have "ms_revision m \<le> ms_revision m'"
      using transition_revision [OF stored(3)] mission_validate_fields(1) [OF stored(4)] by simp
    with stored(9) show ?thesis by (simp add: rev_le_receipts rev_le_update)
  qed
qed

lemma rev_le_save:
  assumes "store_save cd up db now m n owner = (db', res)"
  shows "rev_le db db'"
proof (cases res)
  case (Inl e)
  with store_save_Inl assms show ?thesis by (metis rev_le_refl)
next
  case (Inr u)
  with store_save_Inr assms rev_le_update show ?thesis by (metis less_add_one less_imp_le)
qed

lemma rev_le_create: "store_create cd up db m = (db', res) \<Longrightarrow> rev_le db db'"
  by (auto simp: store_create_def rev_le_def split: sum.splits if_splits)

lemma rev_le_writes: "store_writes cd db db' \<Longrightarrow> rev_le db db'"
proof (induction rule: store_writes.induct)
  case (writes_step cd db db1 db2)
  from writes_step(2) have "rev_le db1 db2"
    by cases (auto intro: rev_le_create rev_le_save rev_le_append)
  with writes_step.IH show ?case by (rule rev_le_trans)
qed simp

lemma matching_unique:
  assumes "store_keys db" "r \<in> set (db_missions db)" "s \<in> set (db_missions db)" "mr_id r = mr_id s"
  shows "r = s"
  using assms by (auto simp: store_keys_def distinct_map inj_on_def)

lemma find_row:
  assumes "store_keys db" "r \<in> set (db_missions db)" "row_matches mid owner r"
  shows "find (row_matches mid owner) (db_missions db) = Some r"
proof -
  obtain s where s: "find (row_matches mid owner) (db_missions db) = Some s"
    using assms(2,3) by (cases "find (row_matches mid owner) (db_missions db)") (auto simp: find_None_iff)
  from find_SomeD [OF s] assms have "s = r"
    by (intro matching_unique) (auto simp: row_matches_def)
  with s show ?thesis by simp
qed


section \<open>Concurrency and atomicity\<close>

lemma updated_once:
  assumes "snd (update_mission cd db mid owner n m) = 1"
  obtains r where "r \<in> set (db_missions db)" "mr_id r = mid" "mr_revision r = n" "row_matches mid owner r"
proof -
  let ?hits = "filter (\<lambda>r. row_matches mid owner r \<and> mr_revision r = n) (db_missions db)"
  have "length ?hits = 1"
    using assms by (simp add: update_mission_def Let_def)
  then obtain r where "r \<in> set ?hits"
    by (cases ?hits) auto
  then have "r \<in> set (db_missions db)" "row_matches mid owner r" "mr_revision r = n" "mr_id r = mid"
    by (simp_all add: row_matches_def)
  with that show thesis by blast
qed

lemma updated_row_revision:
  assumes "store_keys db" "snd (update_mission cd db mid owner n m) = 1"
    and "q \<in> set (db_missions (fst (update_mission cd db mid owner n m)))" "mr_id q = mid"
  shows "mr_revision q = ms_revision m"
proof -
  obtain s where s: "s \<in> set (db_missions db)" "mr_id s = mid" "mr_revision s = n" "row_matches mid owner s"
    using assms(2) by (rule updated_once)
  from assms(3) obtain p where p: "p \<in> set (db_missions db)" "mr_id q = mr_id p"
    "q = (if row_matches mid owner p \<and> mr_revision p = n
     then p\<lparr>mr_revision := ms_revision m, mr_updated := cd_iso cd (ms_updated_at m), mr_payload := cd_enc cd m\<rparr>
     else p)"
    by (auto simp: update_mission_fst)
  have "p = s"
    using matching_unique [OF assms(1) p(1) s(1)] p(2) assms(4) s(2) by simp
  with p(3) s show ?thesis by simp
qed

text \<open>C10: No update is lost: after a successful save of a mission at a revision, and any writes by others
since, a second save of that mission at the same revision is refused and changes nothing.\<close>

theorem stale_save_refused:
  assumes "store_keys db" "store_save cd up db now m n owner = (db1, Inr u)"
    and "store_writes cd db1 db2" "strip_ws (ms_mission_id m2) = ms_mission_id u"
  shows "\<exists>e. store_save cd up2 db2 now2 m2 n owner2 = (db2, Inl e)"
proof (cases "store_save cd up2 db2 now2 m2 n owner2")
  case (Pair db3 res)
  show ?thesis
  proof (cases res)
    case (Inl e)
    with Pair store_save_Inl show ?thesis by blast
  next
    case (Inr u2)
    have u: "snd (update_mission cd db (ms_mission_id u) owner n u) = 1" "ms_revision u = n + 1"
        "db1 = fst (update_mission cd db (ms_mission_id u) owner n u)"
      using store_save_Inr [OF assms(2)] by auto
    have "snd (update_mission cd db2 (ms_mission_id u2) owner2 n u2) = 1" "ms_mission_id u2 = ms_mission_id u"
      using store_save_Inr [of cd up2 db2 now2 m2 n owner2 db3 u2] Pair Inr assms(4) by auto
    then obtain r where r: "r \<in> set (db_missions db2)" "mr_id r = ms_mission_id u" "mr_revision r = n"
      by (metis updated_once)
    have keys: "store_keys db2"
      using store_keys_writes [OF assms(3)] store_keys_save [OF assms(2,1)] by blast
    obtain s where s: "s \<in> set (db_missions db)" "mr_id s = ms_mission_id u"
      using updated_once [OF u(1)] by metis
    have "mr_id s \<in> set (map mr_id (db_missions db1))"
      using s(1) update_mission_ids(1) [of cd db "ms_mission_id u" owner n u] u(3) by (metis image_eqI list.set_map)
    then obtain q where q: "q \<in> set (db_missions db1)" "mr_id q = ms_mission_id u"
      using s(2) by auto
    then obtain r' where r': "r' \<in> set (db_missions db2)" "mr_id r' = ms_mission_id u" "mr_revision q \<le> mr_revision r'"
      using rev_le_writes [OF assms(3)] by (auto simp: rev_le_def)
    have "r' = r"
      using matching_unique [OF keys r'(1) r(1)] r'(2) r(2) by simp
    with updated_row_revision [OF assms(1) u(1), of q] q u r' r show ?thesis by simp
  qed
qed

definition sample_codec :: "mission \<Rightarrow> codec" where
  "sample_codec m = \<lparr>cd_enc = (\<lambda>_. ''m''), cd_dec = (\<lambda>_. Some m), cd_enc_audit = (\<lambda>_. ''a''),
     cd_dec_audit = (\<lambda>_. None), cd_loads = (\<lambda>_. None), cd_iso = (\<lambda>_. ''t'')\<rparr>"

definition empty_db :: store_db where
  "empty_db = \<lparr>db_meta = Some 2, db_has_missions = True, db_owner_column = True, db_missions = [], db_receipts = []\<rparr>"

definition sample_row :: mission_row where
  "sample_row = \<lparr>mr_id = ''m-1'', mr_owner = ''alice'', mr_schema = ''1.0'', mr_revision = 0, mr_created = ''t'',
     mr_updated = ''t'', mr_payload = ''m''\<rparr>"

definition sample_db :: store_db where
  "sample_db = empty_db\<lparr>db_missions := [sample_row]\<rparr>"

lemma sample_db_keys: "store_keys sample_db"
  by (simp add: store_keys_def sample_db_def empty_db_def)

lemma sample_mission_validate: "mission_validate sample_mission = Inr sample_mission"
  using sample_mission_valid by (simp add: mission_valid_def)

lemma sample_bumped: "mission_validate (sample_mission\<lparr>ms_revision := 1, ms_updated_at := sample_time\<rparr>) =
    Inr (sample_mission\<lparr>ms_revision := 1, ms_updated_at := sample_time\<rparr>)"
  by (simp add: mission_validate_def strip_mission_def res_bind_eq_Inr validate_aggregate_references_def
      sample_defs len_between_def evidence_by_id_def dict_of_def)

lemma sample_save:
  "store_save (sample_codec sample_mission) True sample_db sample_time sample_mission 0 None =
     (sample_db\<lparr>db_missions := [sample_row\<lparr>mr_revision := 1\<rparr>]\<rparr>, Inr (sample_mission\<lparr>ms_revision := 1, ms_updated_at := sample_time\<rparr>))"
proof -
  have f: "ms_revision sample_mission = 0" "ms_mission_id sample_mission = ''m-1''"
    by (simp_all add: sample_mission_def)
  show ?thesis
    using sample_bumped
    by (simp add: store_save_def validated_def sample_mission_validate f update_mission_def row_matches_def
        sample_db_def empty_db_def sample_row_def sample_codec_def)
qed

lemma stale_save_refused_witness:
  "\<exists>e. store_save (sample_codec sample_mission) True (sample_db\<lparr>db_missions := [sample_row\<lparr>mr_revision := 1\<rparr>]\<rparr>)
     sample_time sample_mission 0 None = (sample_db\<lparr>db_missions := [sample_row\<lparr>mr_revision := 1\<rparr>]\<rparr>, Inl e)"
  by (rule stale_save_refused [OF sample_db_keys sample_save writes_refl]) (simp add: sample_mission_def)

text \<open>An operation of the store that fails leaves the database as it was, also when the hook before
the commit raises after the writes; and no write, failed or not, repeats a key or removes a mission.\<close>

theorem failed_write_changes_nothing:
  assumes "store_keys db"
  shows "(snd (store_create cd up db m) = Inl e1 \<longrightarrow> fst (store_create cd up db m) = db)
    \<and> (snd (store_save cd up db now m n owner) = Inl e2 \<longrightarrow> fst (store_save cd up db now m n owner) = db)
    \<and> (snd (append_transition cd up hook db now mid req expected owner) = Inl e3
        \<longrightarrow> fst (append_transition cd up hook db now mid req expected owner) = db)
    \<and> (store_writes cd db db' \<longrightarrow> store_keys db' \<and> rev_le db db')"
proof (intro conjI impI)
  show "fst (store_create cd up db m) = db" if "snd (store_create cd up db m) = Inl e1"
    using that by (auto simp: store_create_def split: sum.splits if_splits)
  show "fst (store_save cd up db now m n owner) = db" if "snd (store_save cd up db now m n owner) = Inl e2"
    using that store_save_Inl by (metis prod.collapse)
  show "fst (append_transition cd up hook db now mid req expected owner) = db"
    if "snd (append_transition cd up hook db now mid req expected owner) = Inl e3"
    using that append_transition_Inl by (metis prod.collapse)
  show "store_keys db'" "rev_le db db'" if "store_writes cd db db'"
    using that store_keys_writes rev_le_writes assms by blast+
qed

lemma failed_write_changes_nothing_witness:
  "store_create (sample_codec sample_mission) True sample_db sample_mission = (sample_db, Inl (Store_Conflict ''duplicate_mission''))
     \<and> fst (store_create (sample_codec sample_mission) True sample_db sample_mission) = sample_db"
proof -
  have c: "store_create (sample_codec sample_mission) True sample_db sample_mission = (sample_db, Inl (Store_Conflict ''duplicate_mission''))"
    by (simp add: store_create_def validated_def sample_mission_validate sample_db_def empty_db_def sample_row_def)
       (simp add: sample_mission_def)
  with failed_write_changes_nothing [OF sample_db_keys] show ?thesis
    by (metis snd_conv)
qed


section \<open>Transitions\<close>

lemma find_updated_row:
  assumes "find (row_matches mid owner) rows = Some row" "mr_revision row = n"
    and "\<And>r. row_matches mid owner (f r) = row_matches mid owner r"
  shows "find (row_matches mid owner) (map (\<lambda>r. if row_matches mid owner r \<and> mr_revision r = n then f r else r) rows)
    = Some (f row)"
  using assms by (induction rows) (auto split: if_splits)

lemma stored_row_revision:
  assumes "store_keys db" "find (row_matches mid owner) (db_missions db) = Some row"
    and "snd (update_mission cd db mid owner n m) = 1"
  shows "mr_revision row = n"
proof -
  obtain r where r: "r \<in> set (db_missions db)" "mr_id r = mid" "mr_revision r = n"
    using assms(3) by (rule updated_once)
  have "row = r"
    using find_SomeD [OF assms(2)] r by (intro matching_unique [OF assms(1)]) (auto simp: row_matches_def)
  with r show ?thesis by simp
qed

lemma transition_audit_matches:
  assumes "transition m r now = Inr res" "is_identifier (tr_idempotency_key r)" "is_identifier (tr_actor_id r)"
  shows "ta_event (rs_audit res) = tr_event r \<and> ta_subject (rs_audit res) = tr_subject r"
proof (cases "rs_replayed res")
  case True
  with transition_replayed [OF assms(1)] show ?thesis by blast
next
  case False
  obtain t where "rs_audit res = transition_audit_of m r t now"
    using transition_fresh [OF assms(1) False assms(2,3)] by metis
  then show ?thesis by (simp add: transition_audit_of_def)
qed

text \<open>Appending is idempotent: once a transition request was stored, the same request, with whatever
expected revision, returns the same mission and receipt as a replay and writes nothing, provided the
codec reads back the two values that were written.\<close>

theorem append_transition_idempotent:
  assumes "store_keys db" "append_transition cd up hook db now mid req expected owner = (db1, Inr res)"
    and "is_identifier (tr_idempotency_key req)" "is_identifier (tr_actor_id req)"
    and "cd_dec cd (cd_enc cd (rs_mission res)) = Some (rs_mission res)"
    and "cd_dec_audit cd (cd_enc_audit cd (rs_audit res)) = Some (rs_audit res)"
  shows "append_transition cd True hook2 db1 later mid req expected2 owner = (db1, Inr (res\<lparr>rs_replayed := True\<rparr>))"
  using assms(2)
proof (cases rule: append_transition_Inr)
  case (replay row m receipt)
  then show ?thesis
    by (cases res) (simp add: append_transition_def)
next
  case (stored row m res0 m')
  have rev: "mr_revision row = ms_revision m"
    using stored_row_revision [OF assms(1) stored(1,8)] .
  let ?f = "\<lambda>r. r\<lparr>mr_revision := ms_revision m', mr_updated := cd_iso cd (ms_updated_at m'), mr_payload := cd_enc cd m'\<rparr>"
  define row' where "row' = ?f row"
  have same: "row_matches mid owner (?f r) = row_matches mid owner r" for r
    by (cases owner) (simp_all add: row_matches_def)
  have row: "find (row_matches mid owner) (db_missions db1) = Some row'"
    unfolding stored(9) row'_def
    using find_updated_row [OF stored(1) rev, of ?f] same by (simp add: update_mission_fst)
  have "mr_schema row = schema_version_const"
    using stored(2) by (auto simp: load_row_def split: if_splits)
  then have load: "load_row cd row' = Inr m'"
    using assms(5) stored(5) by (simp add: load_row_def row'_def)
  have rcpt: "find (\<lambda>t. rr_mission t = mid \<and> rr_key t = tr_idempotency_key req) (db_receipts db1) =
      Some \<lparr>rr_mission = mid, rr_key = tr_idempotency_key req, rr_event = mission_event_value (tr_event req),
           rr_audit = cd_enc_audit cd (rs_audit res0)\<rparr>"
    unfolding stored(9) using stored(7) by (simp add: find_append_fresh find_None_iff)
  show ?thesis
    using row load rcpt assms(6) stored(5) transition_audit_matches [OF stored(3) assms(3,4)]
    by (simp add: append_transition_def)
qed

definition sample_start :: transition_request where
  "sample_start = sample_request Start_Planning ''k1'' None"

definition sample_started :: mission where
  "sample_started = move_sample sample_mission Start_Planning ''k1'' None Planning"

definition sample_start_audit :: transition_audit where
  "sample_start_audit = transition_audit_of sample_mission sample_start Planning sample_time"

lemma sample_append:
  assumes "cd_dec cd ''m'' = Some sample_mission"
  shows "append_transition cd True False sample_db sample_time ''m-1'' sample_start None None =
   (sample_db\<lparr>db_missions := [sample_row\<lparr>mr_revision := 1, mr_updated := cd_iso cd (ms_updated_at sample_started),
        mr_payload := cd_enc cd sample_started\<rparr>],
      db_receipts := [\<lparr>rr_mission = ''m-1'', rr_key = ''k1'', rr_event = ''start_planning'',
        rr_audit = cd_enc_audit cd sample_start_audit\<rparr>]\<rparr>,
    Inr \<lparr>rs_mission = sample_started, rs_audit = sample_start_audit, rs_replayed = False\<rparr>)"
proof -
  have t: "transition sample_mission sample_start sample_time =
    Inr \<lparr>rs_mission = sample_started, rs_audit = sample_start_audit, rs_replayed = False\<rparr>"
    unfolding sample_start_def sample_started_def sample_start_audit_def
    by (rule sample_transition)
       (simp_all add: sample_mission_def transition_target_def legal_transitions_def terminal_states_def)
  have v: "mission_validate sample_started = Inr sample_started"
    by (simp add: mission_validate_def strip_mission_def res_bind_eq_Inr validate_aggregate_references_def
        sample_started_def move_sample_def moved_mission_def sample_defs len_between_def evidence_by_id_def dict_of_def)
  have r: "ms_revision sample_mission = 0" "ms_revision sample_started = 1"
    by (simp_all add: sample_mission_def sample_started_def)
  have k: "tr_idempotency_key sample_start = ''k1''" "tr_event sample_start = Start_Planning"
    by (simp_all add: sample_start_def)
  show ?thesis
    using assms
    by (simp add: append_transition_def sample_db_def empty_db_def sample_row_def row_matches_def load_row_def
        schema_version_const_def t v r k validated_def update_mission_def)
qed

definition two_codec :: codec where
  "two_codec = \<lparr>cd_enc = (\<lambda>m. if m = sample_started then ''new'' else ''m''),
     cd_dec = (\<lambda>s. if s = ''new'' then Some sample_started else Some sample_mission),
     cd_enc_audit = (\<lambda>_. ''a''), cd_dec_audit = (\<lambda>_. Some sample_start_audit),
     cd_loads = (\<lambda>_. None), cd_iso = (\<lambda>_. ''t'')\<rparr>"

lemma append_transition_idempotent_witness:
  "\<exists>db1. append_transition two_codec True False db1 sample_time ''m-1'' sample_start (Some 7) None =
     (db1, Inr \<lparr>rs_mission = sample_started, rs_audit = sample_start_audit, rs_replayed = True\<rparr>)"
proof -
  have "cd_dec two_codec ''m'' = Some sample_mission"
    by (simp add: two_codec_def)
  from append_transition_idempotent [OF sample_db_keys sample_append [OF this]]
  show ?thesis
    by (auto simp: two_codec_def sample_start_def)
qed

text \<open>C37: A stored transition is the machine's transition of the stored mission: the row that is written
holds the validated result and its revision, which grew by one, and the receipts grew by the audit.\<close>

theorem stored_transition_refines_machine:
  assumes "store_keys db" "append_transition cd up hook db now mid req expected owner = (db1, Inr res)"
    and "\<not> rs_replayed res"
  shows "\<exists>row m. row \<in> set (db_missions db) \<and> mr_id row = mid \<and> load_row cd row = Inr m
    \<and> (expected = None \<or> expected = Some (ms_revision m)) \<and> mr_revision row = ms_revision m
    \<and> (\<exists>res0. transition m req now = Inr res0 \<and> mission_validate (rs_mission res0) = Inr (rs_mission res)
          \<and> rs_audit res = rs_audit res0)
    \<and> (\<exists>row' \<in> set (db_missions db1). mr_id row' = mid \<and> mr_payload row' = cd_enc cd (rs_mission res)
          \<and> mr_revision row' = ms_revision m + 1)
    \<and> rr_audit (last (db_receipts db1)) = cd_enc_audit cd (rs_audit res)
    \<and> length (db_receipts db1) = length (db_receipts db) + 1"
  using assms(2)
proof (cases rule: append_transition_Inr)
  case (replay row m receipt)
  with assms(3) show ?thesis by simp
next
  case (stored row m res0 m')
  have row: "row \<in> set (db_missions db)" "row_matches mid owner row"
    using find_SomeD [OF stored(1)] by auto
  have rev: "mr_revision row = ms_revision m"
    using stored_row_revision [OF assms(1) stored(1,8)] .
  have "\<not> rs_replayed res0" using stored(5) assms(3) by simp
  then have "ms_revision (rs_mission res0) = ms_revision m + 1"
    using stored(3) by (auto simp: transition_def split: option.splits if_splits sum.splits)
  then have m': "ms_revision m' = ms_revision m + 1"
    using mission_validate_fields(1) [OF stored(4)] by simp
  let ?new = "row\<lparr>mr_revision := ms_revision m', mr_updated := cd_iso cd (ms_updated_at m'), mr_payload := cd_enc cd m'\<rparr>"
  have "?new \<in> set (db_missions db1)"
    using row rev by (auto simp: stored(9) update_mission_fst intro!: image_eqI [of _ _ row])
  moreover have "mr_id ?new = mid" "mr_payload ?new = cd_enc cd (rs_mission res)" "mr_revision ?new = ms_revision m + 1"
    using row(2) m' stored(5) by (simp_all add: row_matches_def)
  ultimately have new: "\<exists>row' \<in> set (db_missions db1). mr_id row' = mid \<and> mr_payload row' = cd_enc cd (rs_mission res)
          \<and> mr_revision row' = ms_revision m + 1" by blast
  show ?thesis
    using new row rev stored(2-6,9) by (intro exI [of _ row] exI [of _ m]) (simp add: row_matches_def)
qed

lemma stored_transition_refines_machine_witness:
  "\<exists>row m. row \<in> set (db_missions sample_db) \<and> load_row two_codec row = Inr m
    \<and> (\<exists>res0. transition m sample_start sample_time = Inr res0)"
proof -
  have "cd_dec two_codec ''m'' = Some sample_mission"
    by (simp add: two_codec_def)
  from stored_transition_refines_machine [OF sample_db_keys sample_append [OF this]] show ?thesis
    by auto
qed

text \<open>The store keeps at most 1000 transitions of a mission: once its audit trail has that length, a
legal transition with a fresh key fails the validation of the result and is not stored.\<close>

theorem thousand_transitions_at_most:
  assumes "find (row_matches mid owner) (db_missions db) = Some row" "load_row cd row = Inr m"
    and "find (\<lambda>t. rr_mission t = mid \<and> rr_key t = tr_idempotency_key req) (db_receipts db) = None"
    and "transition m req now = Inr res" "\<not> rs_replayed res" "1000 \<le> length (ms_audit m)"
    and "expected = None \<or> expected = Some (ms_revision m)"
  shows "append_transition cd True hook db now mid req expected owner =
    (db, Inl (Store_Validation ''invalid_aggregate_contract''))"
proof -
  have "length (ms_audit (rs_mission res)) > 1000"
    using assms(4,5,6) by (auto simp: transition_def split: option.splits if_splits sum.splits)
  then have "\<exists>e. mission_validate (rs_mission res) = Inl e"
    using mission_validate_fields(3) [of "rs_mission res"] mission_valid_facts(5) mission_validate_valid
    by (cases "mission_validate (rs_mission res)") fastforce+
  with assms show ?thesis
    by (auto simp: append_transition_def validated_def)
qed

definition sample_full :: mission where
  "sample_full = sample_mission\<lparr>ms_audit := replicate 1000 sample_start_audit\<rparr>"

lemma find_replicate: "\<not> p x \<Longrightarrow> find p (replicate n x) = None"
  by (induction n) auto

lemma thousand_transitions_at_most_witness:
  "append_transition (sample_codec sample_full) True False sample_db sample_time ''m-1''
     (sample_request Cancel ''k2'' None) None None = (sample_db, Inl (Store_Validation ''invalid_aggregate_contract''))"
proof -
  have t: "transition sample_full (sample_request Cancel ''k2'' None) sample_time =
    Inr \<lparr>rs_mission = move_sample sample_full Cancel ''k2'' None Cancelled,
         rs_audit = transition_audit_of sample_full (sample_request Cancel ''k2'' None) Cancelled sample_time,
         rs_replayed = False\<rparr>"
    by (rule sample_transition)
       (simp_all add: sample_full_def sample_mission_def transition_target_def legal_transitions_def
         terminal_states_def find_replicate sample_start_audit_def sample_start_def)
  have "find (row_matches ''m-1'' None) (db_missions sample_db) = Some sample_row"
    "load_row (sample_codec sample_full) sample_row = Inr sample_full"
    by (simp_all add: sample_db_def sample_row_def row_matches_def load_row_def schema_version_const_def sample_codec_def)
  from thousand_transitions_at_most [OF this _ t] show ?thesis
    by (simp add: sample_db_def empty_db_def sample_full_def)
qed


section \<open>Reading\<close>

text \<open>What is created can be read: by its identifier and by its owner, and by no other owner.\<close>

theorem created_mission_is_readable:
  assumes "store_keys db" "store_create cd up db raw = (db', Inr m)" "cd_dec cd (cd_enc cd m) = Some m"
  shows "store_get cd True db' (ms_mission_id m) owner =
    Inr (if owner = None \<or> owner = Some (mission_owner_id m) then Some m else None)"
proof -
  let ?row = "\<lparr>mr_id = ms_mission_id m, mr_owner = mission_owner_id m, mr_schema = schema_version_const,
                     mr_revision = ms_revision m, mr_created = cd_iso cd (ms_created_at m),
                     mr_updated = cd_iso cd (ms_updated_at m), mr_payload = cd_enc cd m\<rparr>"
  have db': "db' = db\<lparr>db_missions := db_missions db @ [?row]\<rparr>" "ms_mission_id m \<notin> set (map mr_id (db_missions db))"
    using assms(2) by (auto simp: store_create_def split: sum.splits if_splits)
  then have "\<forall>r \<in> set (db_missions db). \<not> row_matches (ms_mission_id m) owner r"
    by (metis image_eqI list.set_map row_matches_def)
  then have "find (row_matches (ms_mission_id m) owner) (db_missions db') =
      (if row_matches (ms_mission_id m) owner ?row then Some ?row else None)"
    unfolding db'(1) by (simp add: find_append_fresh)
  then show ?thesis
    using assms(3) by (cases owner) (simp_all add: store_get_def load_row_def row_matches_def)
qed

lemma created_mission_is_readable_witness:
  "\<exists>db'. store_get (sample_codec sample_mission) True db' ''m-1'' (Some ''alice'') = Inr (Some sample_mission)"
proof -
  have keys: "store_keys empty_db"
    by (simp add: store_keys_def empty_db_def)
  obtain db' where c: "store_create (sample_codec sample_mission) True empty_db sample_mission = (db', Inr sample_mission)"
    by (simp add: store_create_def validated_def sample_mission_validate empty_db_def)
  from created_mission_is_readable [OF keys c, of "Some ''alice''"] show ?thesis
    by (intro exI [of _ db']) (simp add: sample_codec_def sample_mission_def mission_owner_id_def)
qed

text \<open>Saving a mission under a changed owner hides it from the new owner: the row keeps the owner it
was created with, so a lookup scoped to the owner the mission now names finds nothing.\<close>

theorem saved_owner_change_is_not_indexed:
  assumes "store_keys db" "store_save cd up db now m n (Some owner) = (db1, Inr u)" "mission_owner_id u \<noteq> owner"
  shows "store_get cd True db1 (ms_mission_id u) (Some (mission_owner_id u)) = Inr None"
proof -
  have u: "snd (update_mission cd db (ms_mission_id u) (Some owner) n u) = 1"
    "db1 = fst (update_mission cd db (ms_mission_id u) (Some owner) n u)"
    using store_save_Inr [OF assms(2)] by auto
  obtain s where s: "s \<in> set (db_missions db)" "mr_id s = ms_mission_id u" "row_matches (ms_mission_id u) (Some owner) s"
    using updated_once [OF u(1)] by metis
  have "\<not> row_matches (ms_mission_id u) (Some (mission_owner_id u)) r" if "r \<in> set (db_missions db1)" for r
  proof
    assume r: "row_matches (ms_mission_id u) (Some (mission_owner_id u)) r"
    from that u(2) obtain p where p: "p \<in> set (db_missions db)" "mr_id r = mr_id p" "mr_owner r = mr_owner p"
      by (auto simp: update_mission_fst split: if_splits)
    have "p = s"
      using matching_unique [OF assms(1) p(1) s(1)] p(2) r s(2) by (simp add: row_matches_def)
    with p(3) r s(3) assms(3) show False by (simp add: row_matches_def)
  qed
  then have "find (row_matches (ms_mission_id u) (Some (mission_owner_id u))) (db_missions db1) = None"
    by (simp add: find_None_iff)
  then show ?thesis by (simp add: store_get_def)
qed

lemma saved_owner_change_is_not_indexed_witness:
  "store_get (sample_codec sample_mission) True (sample_db\<lparr>db_missions := [sample_row\<lparr>mr_revision := 1\<rparr>]\<rparr>) ''m-1'' (Some ''k1'') = Inr None"
proof -
  let ?m = "sample_mission\<lparr>ms_owner_actor_id := Some ''k1''\<rparr>"
  let ?u = "?m\<lparr>ms_revision := 1, ms_updated_at := sample_time\<rparr>"
  have v: "mission_validate ?m = Inr ?m" "mission_validate ?u = Inr ?u"
    by (simp_all add: mission_validate_def strip_mission_def res_bind_eq_Inr validate_aggregate_references_def
      sample_defs len_between_def evidence_by_id_def dict_of_def)
  have f: "ms_revision sample_mission = 0" "ms_mission_id sample_mission = ''m-1''"
    by (simp_all add: sample_mission_def)
  have "store_save (sample_codec sample_mission) True sample_db sample_time ?m 0 (Some ''alice'') =
      (sample_db\<lparr>db_missions := [sample_row\<lparr>mr_revision := 1\<rparr>]\<rparr>, Inr ?u)"
    using v(2)
    by (simp add: store_save_def validated_def v(1) f update_mission_def row_matches_def
        sample_db_def empty_db_def sample_row_def sample_codec_def)
  from saved_owner_change_is_not_indexed [OF sample_db_keys this] show ?thesis
    by (simp add: mission_owner_id_def f)
qed

fun page_walk :: "codec \<Rightarrow> store_db \<Rightarrow> int \<Rightarrow> string option \<Rightarrow> nat \<Rightarrow> int \<Rightarrow> store_error + mission list" where
  "page_walk cd db limit owner 0 offset = Inl Store_Operational"
| "page_walk cd db limit owner (Suc fuel) offset =
     (case store_list cd True db limit offset owner of
        Inl e \<Rightarrow> Inl e
      | Inr p \<Rightarrow> (case pg_next p of None \<Rightarrow> Inr (pg_items p)
          | Some next' \<Rightarrow> (case page_walk cd db limit owner fuel next' of
                Inl e \<Rightarrow> Inl e | Inr rest \<Rightarrow> Inr (pg_items p @ rest))))"

lemma load_all_append:
  "load_all cd (xs @ ys) = Inr ms \<longleftrightarrow> (\<exists>as bs. load_all cd xs = Inr as \<and> load_all cd ys = Inr bs \<and> ms = as @ bs)"
proof (induction xs arbitrary: ms)
  case (Cons x xs)
  then show ?case
    by (cases "load_row cd x"; cases "load_all cd xs"; cases "load_all cd ys"; cases "load_all cd (xs @ ys)") auto
qed auto

lemma load_all_length: "load_all cd xs = Inr ms \<Longrightarrow> length ms = length xs"
  by (induction xs arbitrary: ms) (auto split: sum.splits)

lemma page_walk_from:
  assumes "1 \<le> limit" "limit \<le> max_page_size"
  shows "load_all cd (drop off (ordered_rows db owner)) = Inr ms \<Longrightarrow> length ms < fuel \<Longrightarrow>
    page_walk cd db limit owner fuel (int off) = Inr ms"
proof (induction fuel arbitrary: off ms)
  case 0
  then show ?case by simp
next
  case (Suc fuel)
  let ?rows = "drop off (ordered_rows db owner)"
  have pos: "0 < nat limit" using assms(1) by simp
  obtain as bs where ab: "load_all cd (take (nat limit) ?rows) = Inr as" "load_all cd (drop (nat limit) ?rows) = Inr bs" "ms = as @ bs"
    using Suc.prems(1) load_all_append [of cd "take (nat limit) ?rows" "drop (nat limit) ?rows" ms]
    by (auto simp only: append_take_drop_id)
  have window: "take (nat limit) (take (nat (limit + 1)) ?rows) = take (nat limit) ?rows"
    using assms(1) by simp
  have page: "store_list cd True db limit (int off) owner = Inr \<lparr>pg_items = as, pg_limit = limit, pg_offset = int off,
      pg_next = (if int (length (take (nat (limit + 1)) ?rows)) > limit then Some (int off + limit) else None)\<rparr>"
    using assms ab(1) by (simp add: store_list_def bad_page_def Let_def window)
  show ?case
  proof (cases "int (length ?rows) > limit")
    case False
    with assms(1) have "drop (nat limit) ?rows = []" by simp
    with ab have "ms = as" by simp
    with False page show ?thesis by simp
  next
    case True
    have more: "int (length (take (nat (limit + 1)) ?rows)) > limit"
      using True assms(1) by simp
    have "length as = nat limit"
      using load_all_length [OF ab(1)] True assms(1) by simp
    with ab(3) Suc.prems(2) pos have "length bs < fuel" by simp
    moreover have "load_all cd (drop (off + nat limit) (ordered_rows db owner)) = Inr bs"
      using ab(2) by (simp add: add.commute)
    ultimately have "page_walk cd db limit owner fuel (int (off + nat limit)) = Inr bs"
      using Suc.IH by blast
    with page more ab(3) assms(1) show ?thesis by simp
  qed
qed

text \<open>Paging is complete: following the next offsets from the first page, with any legal page size,
collects every mission of the owner exactly once, in the order of creation time and identifier, and the
walk ends within as many pages as there are missions and one more.\<close>

theorem pages_cover_all_missions:
  assumes "1 \<le> limit" "limit \<le> max_page_size" "load_all cd (ordered_rows db owner) = Inr ms" "length ms < fuel"
  shows "page_walk cd db limit owner fuel 0 = Inr ms"
  using page_walk_from [OF assms(1,2), of cd 0 db owner ms fuel] assms(3,4) by simp

lemma pages_cover_all_missions_witness:
  "page_walk (sample_codec sample_mission) sample_db 1 (Some ''alice'') 5 0 = Inr [sample_mission]"
  by (rule pages_cover_all_missions)
     (simp_all add: max_page_size_def ordered_rows_def sample_db_def sample_row_def load_row_def
       schema_version_const_def sample_codec_def)


section \<open>Migration\<close>

text \<open>The migration from schema 1 is not restartable: if one stored payload stops it, the added column
stays, and every later initialisation fails on adding it again, whatever happens to the rows meanwhile.\<close>

theorem failed_migration_is_final:
  assumes "db_meta db = Some 1" "db_has_missions db" "\<not> db_owner_column db" "initialize cd db = (db', Inl e)"
  shows "initialize cd2 (db'\<lparr>db_missions := rows\<rparr>) = (db'\<lparr>db_missions := rows\<rparr>, Inl Store_Operational)"
  using assms
  by (auto simp: initialize_def create_tables_def Let_def split: prod.splits sum.splits)

definition half_migrated :: store_db where
  "half_migrated = sample_db\<lparr>db_meta := Some 1, db_missions := [sample_row\<lparr>mr_owner := []\<rparr>]\<rparr>"

lemma failed_migration_is_final_witness:
  "initialize (sample_codec sample_mission) (half_migrated\<lparr>db_missions := []\<rparr>) =
     (half_migrated\<lparr>db_missions := []\<rparr>, Inl Store_Operational)"
proof (rule failed_migration_is_final)
  show "initialize (sample_codec sample_mission) (sample_db\<lparr>db_meta := Some 1, db_owner_column := False\<rparr>) =
    (half_migrated, Inl (Store_Corruption ''corrupt_mission_payload''))"
    by (simp add: initialize_def sample_db_def empty_db_def sample_codec_def row_owner_def half_migrated_def)
qed (simp_all add: sample_db_def empty_db_def)

end
