(* ===== verification/Raft.thy ===== *)
theory Raft
  imports Json Sha256
begin

text \<open>
  The committee's Raft node (core/raft_consensus.py): log entries and their signatures, the replicated
  state machine, the handlers of the two RPCs, the election and the proposal.

  What a method reads from outside the node is in an environment: the peers the provider names, the
  attestation answers, the traffic the chaos manager blocks and the monotonic clock. Delays only sleep.
  The answers of remote peers are functions from the peer and the arguments to an optional reply. A
  method that raises returns the state it leaves behind with the exception. An entry's timestamp is its
  four-decimal rendering, the only form the code reads. Payload values are JSON values, compared as such
  (Python's 1, True and 1.0 are one dictionary key).
\<close>

section \<open>Log entries\<close>

datatype raft_role = Follower | Candidate | Leader

fun role_value :: "raft_role \<Rightarrow> string" where
  "role_value Follower = ''FOLLOWER''"
| "role_value Candidate = ''CANDIDATE''"
| "role_value Leader = ''LEADER''"

datatype entry_type =
    Propose_Task | Speech_Turn | Critique_Score | Consensus_Verdict | Patch_Commit | Configuration
  | Vector_Checkpoint

fun entry_type_value :: "entry_type \<Rightarrow> string" where
  "entry_type_value Propose_Task = ''PROPOSE_TASK''"
| "entry_type_value Speech_Turn = ''SPEECH_TURN''"
| "entry_type_value Critique_Score = ''CRITIQUE_SCORE''"
| "entry_type_value Consensus_Verdict = ''CONSENSUS_VERDICT''"
| "entry_type_value Patch_Commit = ''PATCH_COMMIT''"
| "entry_type_value Configuration = ''CONFIGURATION''"
| "entry_type_value Vector_Checkpoint = ''VECTOR_CHECKPOINT''"

type_synonym payload = "(string \<times> json) list"

record log_entry =
  le_index :: int
  le_term :: int
  le_type :: entry_type
  le_author :: string
  le_payload :: payload
  le_signature :: string
  le_timestamp :: string

definition entry_text :: "log_entry \<Rightarrow> string" where
  "entry_text e = int_str (le_index e) @ '':'' @ int_str (le_term e) @ '':'' @ entry_type_value (le_type e) @
     '':'' @ le_author e @ '':'' @ dumps Spaced (JObj (le_payload e)) @ '':'' @ le_timestamp e"

definition compute_hash :: "log_entry \<Rightarrow> string" where
  "compute_hash e = sha256 (entry_text e)"

definition signature_of :: "log_entry \<Rightarrow> string \<Rightarrow> string" where
  "signature_of e secret = sha256 (compute_hash e @ '':'' @ (if secret = [] then le_author e else secret))"

definition sign_entry :: "log_entry \<Rightarrow> string \<Rightarrow> log_entry" where
  "sign_entry e secret = e\<lparr>le_signature := signature_of e secret\<rparr>"

definition verify_signature :: "log_entry \<Rightarrow> string \<Rightarrow> bool" where
  "verify_signature e secret = (if le_signature e = [] then False else le_signature e = signature_of e secret)"


section \<open>The replicated state machine\<close>

record committee =
  cm_last_applied :: int
  cm_debates :: "(json, payload list) dict"
  cm_verdicts :: "(json, payload) dict"
  cm_patches :: "(json, json) dict"
  cm_statuses :: "(json, string) dict"
  cm_checkpoints :: "payload list"
  cm_vector_root :: string

definition initial_committee :: committee where
  "initial_committee = \<lparr>cm_last_applied = 0, cm_debates = [], cm_verdicts = [], cm_patches = [],
     cm_statuses = [], cm_checkpoints = [], cm_vector_root = []\<rparr>"

text \<open>\<open>str(x)\<close> of a JSON value; inside a container it is \<open>repr\<close>.\<close>

definition repr_char :: "char \<Rightarrow> char \<Rightarrow> string" where
  "repr_char q c =
     (let n = (of_char c :: nat)
      in if c = q \<or> c = CHR 0x5C then [CHR 0x5C, c]
         else if n = 10 then [CHR 0x5C, CHR ''n''] else if n = 13 then [CHR 0x5C, CHR ''r'']
         else if n = 9 then [CHR 0x5C, CHR ''t'']
         else if n < 32 \<or> (127 \<le> n \<and> n \<le> 160) \<or> n = 173
         then [CHR 0x5C, CHR ''x'', hex_char (n div 16), hex_char (n mod 16)]
         else [c])"

definition repr_str :: "string \<Rightarrow> string" where
  "repr_str s =
     (let q = (if CHR 0x27 \<in> set s \<and> CHR 0x22 \<notin> set s then CHR 0x22 else CHR 0x27)
      in q # concat (map (repr_char q) s) @ [q])"

fun py_repr :: "json \<Rightarrow> string" where
  "py_repr JNull = ''None''"
| "py_repr (JBool b) = (if b then ''True'' else ''False'')"
| "py_repr (JInt i) = int_str i"
| "py_repr (JFloat r) = r"
| "py_repr (JStr s) = repr_str s"
| "py_repr (JArr js) = ''['' @ join_with '', '' (map py_repr js) @ '']''"
| "py_repr (JObj kvs) = ''{'' @ join_with '', '' (map (\<lambda>(k, v). repr_str k @ '': '' @ py_repr v) kvs) @ ''}''"
| "py_repr (JPy t r i) = r"

definition py_str :: "json \<Rightarrow> string" where
  "py_str j = (case j of JStr s \<Rightarrow> s | _ \<Rightarrow> py_repr j)"

fun hashable :: "json \<Rightarrow> bool" where
  "hashable (JArr _) = False"
| "hashable (JObj _) = False"
| "hashable _ = True"

datatype raft_exn = Index_Error | Type_Error

definition payload_get :: "payload \<Rightarrow> string \<Rightarrow> json \<Rightarrow> json" where
  "payload_get p k d = (case dict_get p k of None \<Rightarrow> d | Some v \<Rightarrow> v)"

definition apply_entry :: "committee \<Rightarrow> log_entry \<Rightarrow> committee \<times> raft_exn option" where
  "apply_entry st e =
     (let st0 = st\<lparr>cm_last_applied := le_index e\<rparr>;
          p = le_payload e;
          task = payload_get p ''task_id'' (JStr ''default-task'');
          fail = (st0, Some Type_Error)
      in case le_type e of
           Propose_Task \<Rightarrow>
             (if \<not> hashable task then fail
              else (st0\<lparr>cm_statuses := dict_put task ''PROPOSED'' (cm_statuses st0),
                        cm_debates := (if dict_get (cm_debates st0) task = None
                                       then dict_put task [] (cm_debates st0) else cm_debates st0)\<rparr>, None))
         | Speech_Turn \<Rightarrow>
             (if \<not> hashable task then fail
              else (st0\<lparr>cm_debates := dict_put task (dict_get_default (cm_debates st0) task [] @ [p])
                         (cm_debates st0)\<rparr>, None))
         | Consensus_Verdict \<Rightarrow>
             (if \<not> hashable task then fail
              else (st0\<lparr>cm_verdicts := dict_put task p (cm_verdicts st0),
                        cm_statuses := dict_put task
                          (if payload_get p ''decision'' (JStr ''CONSENSUS_APPROVED'') = JStr ''CONSENSUS_APPROVED''
                           then ''APPROVED'' else ''REJECTED'') (cm_statuses st0)\<rparr>, None))
         | Patch_Commit \<Rightarrow>
             (if \<not> hashable task then fail
              else (st0\<lparr>cm_patches := dict_put task (payload_get p ''merkle_root'' (JStr [])) (cm_patches st0),
                        cm_statuses := dict_put task ''PATCH_COMMITTED'' (cm_statuses st0)\<rparr>, None))
         | Vector_Checkpoint \<Rightarrow>
             (st0\<lparr>cm_checkpoints := cm_checkpoints st0 @ [p],
                  cm_vector_root := (case dict_get p ''merkle_root'' of None \<Rightarrow> cm_vector_root st0
                                     | Some r \<Rightarrow> py_str r)\<rparr>, None)
         | _ \<Rightarrow> (st0, None))"

record task_summary =
  ts_task_id :: string
  ts_status :: string
  ts_turns :: int
  ts_verdict :: "payload option"
  ts_patch_root :: "json option"
  ts_last_applied :: int
  ts_vector_root :: string
  ts_checkpoints :: int

definition get_task_summary :: "committee \<Rightarrow> string \<Rightarrow> task_summary" where
  "get_task_summary st t = \<lparr>ts_task_id = t,
     ts_status = dict_get_default (cm_statuses st) (JStr t) ''UNKNOWN'',
     ts_turns = int (length (dict_get_default (cm_debates st) (JStr t) [])),
     ts_verdict = dict_get (cm_verdicts st) (JStr t), ts_patch_root = dict_get (cm_patches st) (JStr t),
     ts_last_applied = cm_last_applied st, ts_vector_root = cm_vector_root st,
     ts_checkpoints = int (length (cm_checkpoints st))\<rparr>"


section \<open>The node\<close>

record raft_node =
  rn_id :: string
  rn_term :: int
  rn_voted :: "string option"
  rn_log :: "log_entry list"
  rn_role :: raft_role
  rn_leader :: "string option"
  rn_commit :: int
  rn_applied :: int
  rn_heartbeat :: int
  rn_next :: "(string, int) dict"
  rn_match :: "(string, int) dict"
  rn_machine :: committee

record raft_env =
  re_peers :: "string list"
  re_attested :: "string \<Rightarrow> bool"
  re_blocked :: "string \<Rightarrow> string \<Rightarrow> string \<Rightarrow> bool"
  re_now :: int

definition genesis_entry :: "string \<Rightarrow> log_entry" where
  "genesis_entry time = \<lparr>le_index = 0, le_term = 0, le_type = Configuration, le_author = ''genesis'',
     le_payload = [(''desc'', JStr ''genesis_slot'')], le_signature = [], le_timestamp = time\<rparr>"

definition new_node :: "string \<Rightarrow> string \<Rightarrow> int \<Rightarrow> raft_node" where
  "new_node nid time now = \<lparr>rn_id = nid, rn_term = 0, rn_voted = None, rn_log = [genesis_entry time],
     rn_role = Follower, rn_leader = None, rn_commit = 0, rn_applied = 0, rn_heartbeat = now,
     rn_next = [], rn_match = [], rn_machine = initial_committee\<rparr>"

record vote_args =
  va_term :: int
  va_candidate :: string
  va_last_index :: int
  va_last_term :: int

record vote_reply =
  vr_term :: int
  vr_granted :: bool
  vr_voter :: string
  vr_reason :: "string option"

record append_args =
  aa_term :: int
  aa_leader :: string
  aa_prev_index :: int
  aa_prev_term :: int
  aa_entries :: "log_entry list"
  aa_commit :: int

record append_reply =
  ap_term :: int
  ap_success :: bool
  ap_match :: int
  ap_node :: string
  ap_error :: "string option"

definition last_log_index :: "raft_node \<Rightarrow> int" where
  "last_log_index n = int (length (rn_log n)) - 1"

definition last_log_term :: "raft_node \<Rightarrow> int option" where
  "last_log_term n = map_option le_term (py_index (rn_log n) (- 1))"

definition cluster_peers :: "raft_env \<Rightarrow> raft_node \<Rightarrow> string list" where
  "cluster_peers env n = filter (\<lambda>p. p \<noteq> rn_id n) (re_peers env)"

definition verified_peers :: "raft_env \<Rightarrow> raft_node \<Rightarrow> string list" where
  "verified_peers env n = filter (re_attested env) (cluster_peers env n)"

definition quorum_size :: "raft_env \<Rightarrow> raft_node \<Rightarrow> int" where
  "quorum_size env n = (int (length (verified_peers env n)) + 1) div 2 + 1"

definition step_down :: "raft_env \<Rightarrow> raft_node \<Rightarrow> int \<Rightarrow> string option \<Rightarrow> raft_node" where
  "step_down env n term leader = n\<lparr>rn_term := term, rn_role := Follower, rn_voted := None,
     rn_leader := leader, rn_heartbeat := re_now env\<rparr>"

fun show_opt :: "string option \<Rightarrow> string" where
  "show_opt None = ''None''"
| "show_opt (Some s) = s"


section \<open>Votes\<close>

definition vote_denied :: "raft_node \<Rightarrow> string \<Rightarrow> vote_reply" where
  "vote_denied n reason = \<lparr>vr_term = rn_term n, vr_granted = False, vr_voter = rn_id n, vr_reason = Some reason\<rparr>"

definition handle_request_vote ::
    "raft_env \<Rightarrow> raft_node \<Rightarrow> vote_args \<Rightarrow> raft_node \<times> (raft_exn + vote_reply)" where
  "handle_request_vote env n a =
     (if re_blocked env (va_candidate a) (rn_id n) ''RequestVote''
      then (n, Inr (vote_denied n ''Blocked by active chaos rule (Phase 91).''))
      else if \<not> re_attested env (va_candidate a)
      then (n, Inr (vote_denied n ''Candidate is not attested (Phase 88 Zero-Trust requirement).''))
      else
        (let n1 = (if va_term a > rn_term n then step_down env n (va_term a) None else n)
         in if va_term a < rn_term n1
            then (n1, Inr (vote_denied n1 (''Candidate term '' @ int_str (va_term a) @ '' < current_term '' @
                   int_str (rn_term n1))))
            else case last_log_term n1 of
                None \<Rightarrow> (n1, Inl Index_Error)
              | Some lt \<Rightarrow>
                  (let log_ok = (va_last_term a > lt \<or>
                         (va_last_term a = lt \<and> va_last_index a \<ge> last_log_index n1));
                       can_vote = ((rn_voted n1 = None \<or> rn_voted n1 = Some (va_candidate a)) \<and> log_ok)
                   in if can_vote
                      then (n1\<lparr>rn_voted := Some (va_candidate a), rn_heartbeat := re_now env\<rparr>,
                            Inr \<lparr>vr_term = rn_term n1, vr_granted = True, vr_voter = rn_id n1, vr_reason = None\<rparr>)
                      else (n1, Inr (vote_denied n1 (''Vote denied (already voted for '' @
                              show_opt (rn_voted n1) @ '' or log not up-to-date)''))))))"


section \<open>Replication\<close>

text \<open>\<open>_apply_committed_entries\<close>: an entry that raises leaves the counter advanced.\<close>

function apply_committed :: "raft_node \<Rightarrow> raft_node \<times> raft_exn option" where
  "apply_committed n =
     (if rn_applied n < rn_commit n
      then
        (let n1 = n\<lparr>rn_applied := rn_applied n + 1\<rparr>
         in if rn_applied n1 < int (length (rn_log n1))
            then case py_index (rn_log n1) (rn_applied n1) of
                None \<Rightarrow> (n1, Some Index_Error)
              | Some e \<Rightarrow>
                  (case apply_entry (rn_machine n1) e of
                     (st, Some x) \<Rightarrow> (n1\<lparr>rn_machine := st\<rparr>, Some x)
                   | (st, None) \<Rightarrow> apply_committed (n1\<lparr>rn_machine := st\<rparr>))
            else apply_committed n1)
      else (n, None))"
  by pat_completeness auto
termination
  by (relation "measure (\<lambda>n. nat (rn_commit n - rn_applied n))") (auto simp: Let_def)

declare apply_committed.simps [simp del]

text \<open>The loop over the received entries: the log, and whether an index was out of range.\<close>

fun append_loop :: "log_entry list \<Rightarrow> int \<Rightarrow> log_entry list \<Rightarrow> log_entry list \<times> bool" where
  "append_loop log i [] = (log, True)"
| "append_loop log i (e # es) =
     (if i < int (length log)
      then case py_index log i of
          None \<Rightarrow> (log, False)
        | Some old \<Rightarrow>
            (if le_term old \<noteq> le_term e then append_loop (py_prefix log i @ [e]) (i + 1) es
             else append_loop log (i + 1) es)
      else append_loop (log @ [e]) (i + 1) es)"

definition append_refused :: "raft_node \<Rightarrow> int \<Rightarrow> string \<Rightarrow> append_reply" where
  "append_refused n match reason =
     \<lparr>ap_term = rn_term n, ap_success = False, ap_match = match, ap_node = rn_id n, ap_error = Some reason\<rparr>"

definition handle_append_entries ::
    "raft_env \<Rightarrow> raft_node \<Rightarrow> append_args \<Rightarrow> raft_node \<times> (raft_exn + append_reply)" where
  "handle_append_entries env n a =
     (if re_blocked env (aa_leader a) (rn_id n) ''AppendEntries''
      then (n, Inr (append_refused n 0 ''Blocked by active chaos rule (Phase 91).''))
      else if \<not> re_attested env (aa_leader a)
      then (n, Inr (append_refused n 0 ''Leader is not attested (Phase 88 Zero-Trust requirement).''))
      else
        (let n1 = (if aa_term a > rn_term n \<or> (aa_term a = rn_term n \<and> rn_role n \<noteq> Follower)
                   then step_down env n (aa_term a) (Some (aa_leader a)) else n)
         in if aa_term a < rn_term n1
            then (n1, Inr (append_refused n1 0 (''Leader term '' @ int_str (aa_term a) @ '' < current_term '' @
                   int_str (rn_term n1))))
            else
              (let n2 = n1\<lparr>rn_leader := Some (aa_leader a), rn_heartbeat := re_now env\<rparr>
               in if aa_prev_index a \<ge> int (length (rn_log n2))
                  then (n2, Inr (append_refused n2 (last_log_index n2) (''Missing prev_log_index '' @
                         int_str (aa_prev_index a) @ '' (log len='' @ int_str (int (length (rn_log n2))) @ '')'')))
                  else case py_index (rn_log n2) (aa_prev_index a) of
                      None \<Rightarrow> (n2, Inl Index_Error)
                    | Some prev \<Rightarrow>
                        (if le_term prev \<noteq> aa_prev_term a
                         then (let n3 = n2\<lparr>rn_log := py_prefix (rn_log n2) (aa_prev_index a)\<rparr>
                               in (n3, Inr (append_refused n3 (last_log_index n3)
                                     (''Term mismatch at prev_log_index '' @ int_str (aa_prev_index a)))))
                         else case append_loop (rn_log n2) (aa_prev_index a + 1) (aa_entries a) of
                             (log', False) \<Rightarrow> (n2\<lparr>rn_log := log'\<rparr>, Inl Index_Error)
                           | (log', True) \<Rightarrow>
                               (let n3 = n2\<lparr>rn_log := log'\<rparr>;
                                    (n4, x) =
                                      (if aa_commit a > rn_commit n3
                                       then apply_committed (n3\<lparr>rn_commit := min (aa_commit a) (last_log_index n3)\<rparr>)
                                       else (n3, None))
                                in case x of
                                     Some exn \<Rightarrow> (n4, Inl exn)
                                   | None \<Rightarrow> (n4, Inr \<lparr>ap_term = rn_term n4, ap_success = True,
                                       ap_match = last_log_index n4, ap_node = rn_id n4, ap_error = None\<rparr>))))))"


section \<open>Elections\<close>

definition become_leader :: "raft_env \<Rightarrow> raft_node \<Rightarrow> raft_node" where
  "become_leader env n =
     (let n1 = n\<lparr>rn_role := Leader, rn_leader := Some (rn_id n)\<rparr>; ps = cluster_peers env n
      in n1\<lparr>rn_next := fold (\<lambda>p. dict_put p (last_log_index n1 + 1)) ps (rn_next n1),
            rn_match := fold (\<lambda>p. dict_put p 0) ps (rn_match n1)\<rparr>)"

text \<open>The loop over the peers: \<open>rpc p\<close> is the reply of \<open>_send_request_vote(p, args)\<close>.\<close>

fun collect_votes ::
    "raft_env \<Rightarrow> (string \<Rightarrow> vote_reply option) \<Rightarrow> int \<Rightarrow> int \<Rightarrow> raft_node \<Rightarrow> string list \<Rightarrow> raft_node \<times> bool" where
  "collect_votes env rpc quorum votes n [] = (n, rn_role n = Leader)"
| "collect_votes env rpc quorum votes n (p # ps) =
     (case rpc p of
        None \<Rightarrow> collect_votes env rpc quorum votes n ps
      | Some r \<Rightarrow>
          (if vr_term r > rn_term n then (step_down env n (vr_term r) None, False)
           else if vr_granted r
           then (if votes + 1 \<ge> quorum \<and> rn_role n = Candidate then (become_leader env n, True)
                 else collect_votes env rpc quorum (votes + 1) n ps)
           else collect_votes env rpc quorum votes n ps))"

definition start_election ::
    "raft_env \<Rightarrow> (string \<Rightarrow> vote_args \<Rightarrow> vote_reply option) \<Rightarrow> raft_node \<Rightarrow> raft_node \<times> (raft_exn + bool)" where
  "start_election env rpc n =
     (let n1 = n\<lparr>rn_term := rn_term n + 1, rn_role := Candidate, rn_voted := Some (rn_id n),
                 rn_leader := None, rn_heartbeat := re_now env\<rparr>;
          quorum = quorum_size env n1
      in if 1 \<ge> quorum then (become_leader env n1, Inr True)
         else case last_log_term n1 of
             None \<Rightarrow> (n1, Inl Index_Error)
           | Some lt \<Rightarrow>
               (let args = \<lparr>va_term = rn_term n1, va_candidate = rn_id n1,
                            va_last_index = last_log_index n1, va_last_term = lt\<rparr>
                in case collect_votes env (\<lambda>p. rpc p args) quorum 1 n1 (verified_peers env n1) of
                     (n2, won) \<Rightarrow> (n2, Inr won)))"


section \<open>Proposals\<close>

datatype propose_loop_result =
    Loop_Done raft_node int
  | Loop_Stepped_Down raft_node
  | Loop_Raised raft_node raft_exn

fun replicate_loop ::
    "raft_env \<Rightarrow> (string \<Rightarrow> append_args \<Rightarrow> append_reply option) \<Rightarrow> int \<Rightarrow> int \<Rightarrow> raft_node \<Rightarrow> string list
       \<Rightarrow> propose_loop_result" where
  "replicate_loop env rpc new_index acks n [] = Loop_Done n acks"
| "replicate_loop env rpc new_index acks n (p # ps) =
     (let prev = dict_get_default (rn_next n) p new_index - 1
      in case (if prev < int (length (rn_log n)) then map_option le_term (py_index (rn_log n) prev) else Some 0) of
           None \<Rightarrow> Loop_Raised n Index_Error
         | Some prev_term \<Rightarrow>
             (case rpc p \<lparr>aa_term = rn_term n, aa_leader = rn_id n, aa_prev_index = prev, aa_prev_term = prev_term,
                          aa_entries = py_suffix (rn_log n) (prev + 1), aa_commit = rn_commit n\<rparr> of
                None \<Rightarrow> replicate_loop env rpc new_index acks n ps
              | Some r \<Rightarrow>
                  (if ap_term r > rn_term n then Loop_Stepped_Down (step_down env n (ap_term r) None)
                   else if ap_success r
                   then replicate_loop env rpc new_index (acks + 1)
                          (n\<lparr>rn_match := dict_put p (ap_match r) (rn_match n),
                             rn_next := dict_put p (ap_match r + 1) (rn_next n)\<rparr>) ps
                   else replicate_loop env rpc new_index acks
                          (n\<lparr>rn_next := dict_put p (max 1 (dict_get_default (rn_next n) p new_index - 1))
                              (rn_next n)\<rparr>) ps)))"

record propose_result =
  pr_ok :: bool
  pr_entry :: "log_entry option"
  pr_message :: string

definition propose_entry ::
    "raft_env \<Rightarrow> (string \<Rightarrow> append_args \<Rightarrow> append_reply option) \<Rightarrow> string \<Rightarrow> raft_node \<Rightarrow> entry_type \<Rightarrow> payload
       \<Rightarrow> string option \<Rightarrow> raft_node \<times> (raft_exn + propose_result)" where
  "propose_entry env rpc time n ty p author =
     (if rn_role n \<noteq> Leader
      then (n, Inr \<lparr>pr_ok = False, pr_entry = None, pr_message = ''Node '' @ rn_id n @
             '' is not LEADER (Current leader: '' @ show_opt (rn_leader n) @ '')''\<rparr>)
      else
        (let new_index = int (length (rn_log n));
             who = (case author of None \<Rightarrow> rn_id n | Some a \<Rightarrow> if a = [] then rn_id n else a);
             entry = sign_entry \<lparr>le_index = new_index, le_term = rn_term n, le_type = ty, le_author = who,
                        le_payload = p, le_signature = [], le_timestamp = time\<rparr> [];
             n1 = n\<lparr>rn_log := rn_log n @ [entry]\<rparr>;
             quorum = quorum_size env n1
         in case replicate_loop env rpc new_index 1 n1 (verified_peers env n1) of
              Loop_Raised n2 x \<Rightarrow> (n2, Inl x)
            | Loop_Stepped_Down n2 \<Rightarrow> (n2, Inr \<lparr>pr_ok = False, pr_entry = None,
                  pr_message = ''Stepped down due to higher term peer''\<rparr>)
            | Loop_Done n2 acks \<Rightarrow>
                (if acks \<ge> quorum
                 then (case apply_committed (n2\<lparr>rn_commit := new_index\<rparr>) of
                         (n3, Some x) \<Rightarrow> (n3, Inl x)
                       | (n3, None) \<Rightarrow> (n3, Inr \<lparr>pr_ok = True, pr_entry = Some entry,
                           pr_message = ''Committed by quorum''\<rparr>))
                 else (n2, Inr \<lparr>pr_ok = False, pr_entry = Some entry, pr_message = ''Quorum not achieved ('' @
                        int_str acks @ ''/'' @ int_str quorum @ '' acks)''\<rparr>))))"

record raft_status =
  st_node_id :: string
  st_role :: string
  st_term :: int
  st_leader_id :: "string option"
  st_commit_index :: int
  st_last_applied :: int
  st_log_length :: int
  st_quorum_size :: int
  st_peers_count :: int

definition get_status :: "raft_env \<Rightarrow> raft_node \<Rightarrow> raft_status" where
  "get_status env n = \<lparr>st_node_id = rn_id n, st_role = role_value (rn_role n), st_term = rn_term n,
     st_leader_id = rn_leader n, st_commit_index = rn_commit n, st_last_applied = rn_applied n,
     st_log_length = int (length (rn_log n)), st_quorum_size = quorum_size env n,
     st_peers_count = int (length (cluster_peers env n))\<rparr>"

section \<open>Outbound calls\<close>

text \<open>
  \<open>_send_request_vote\<close> and \<open>_send_append_entries\<close>: nothing is sent over a blocked link. \<open>disp\<close> is what
  the dispatcher returns, \<^const>\<open>None\<close> also where there is none or it raises.
\<close>

definition send_request_vote ::
    "raft_env \<Rightarrow> (string \<Rightarrow> vote_args \<Rightarrow> vote_reply option) \<Rightarrow> string \<Rightarrow> string \<Rightarrow> vote_args \<Rightarrow> vote_reply option" where
  "send_request_vote env disp nid p a = (if re_blocked env nid p ''RequestVote'' then None else disp p a)"

definition send_append_entries ::
    "raft_env \<Rightarrow> (string \<Rightarrow> append_args \<Rightarrow> append_reply option) \<Rightarrow> string \<Rightarrow> string \<Rightarrow> append_args \<Rightarrow> append_reply option" where
  "send_append_entries env disp nid p a = (if re_blocked env nid p ''AppendEntries'' then None else disp p a)"

end
