(* ===== verification/Raft_Safety.thy ===== *)
theory Raft_Safety
  imports Raft
begin

text \<open>
  Terms and votes of the committee's Raft nodes, and election safety of a cluster of them.

  The cluster lets every node handle vote requests from anybody at any time and append requests from
  anybody who won an election for their term; an election runs on its node while the others proceed,
  and counts a granted reply only if its voter did grant that vote. Every node sees the same verified
  members.
\<close>

section \<open>Terms never decrease\<close>

lemma step_down_simps [simp]:
  "rn_term (step_down env n t l) = t" "rn_role (step_down env n t l) = Follower"
  "rn_voted (step_down env n t l) = None" "rn_id (step_down env n t l) = rn_id n"
  "rn_log (step_down env n t l) = rn_log n" "rn_commit (step_down env n t l) = rn_commit n"
  "rn_applied (step_down env n t l) = rn_applied n" "rn_machine (step_down env n t l) = rn_machine n"
  by (simp_all add: step_down_def)

lemma become_leader_simps [simp]:
  "rn_term (become_leader env n) = rn_term n" "rn_role (become_leader env n) = Leader"
  "rn_voted (become_leader env n) = rn_voted n" "rn_id (become_leader env n) = rn_id n"
  "rn_log (become_leader env n) = rn_log n"
  by (simp_all add: become_leader_def Let_def)

text \<open>The part of a node the election is about.\<close>

definition ballot :: "raft_node \<Rightarrow> string \<times> int \<times> string option \<times> raft_role" where
  "ballot n = (rn_id n, rn_term n, rn_voted n, rn_role n)"

lemma apply_committed_ballot: "ballot (fst (apply_committed n)) = ballot n"
proof (induction n rule: apply_committed.induct)
  case (1 n)
  show ?case
    using 1 by (subst apply_committed.simps) (auto simp: Let_def ballot_def split: option.splits prod.splits)
qed

lemma apply_committed_log: "rn_log (fst (apply_committed n)) = rn_log n"
proof (induction n rule: apply_committed.induct)
  case (1 n)
  then show ?case
    by (subst apply_committed.simps) (auto simp: Let_def split: option.splits prod.splits)
qed

lemma ballot_log [simp]: "ballot (n\<lparr>rn_log := l\<rparr>) = ballot n" "ballot (n\<lparr>rn_commit := c\<rparr>) = ballot n"
  "ballot (n\<lparr>rn_leader := ld, rn_heartbeat := h\<rparr>) = ballot n"
  "ballot (n\<lparr>rn_match := d\<rparr>) = ballot n" "ballot (n\<lparr>rn_next := e\<rparr>) = ballot n"
  by (simp_all add: ballot_def)

definition after_append :: "raft_env \<Rightarrow> raft_node \<Rightarrow> append_args \<Rightarrow> raft_node" where
  "after_append env n a =
     (if re_blocked env (aa_leader a) (rn_id n) ''AppendEntries'' \<or> \<not> re_attested env (aa_leader a) then n
      else if aa_term a > rn_term n \<or> (aa_term a = rn_term n \<and> rn_role n \<noteq> Follower)
      then step_down env n (aa_term a) (Some (aa_leader a)) else n)"

lemma handle_append_ballot: "ballot (fst (handle_append_entries env n a)) = ballot (after_append env n a)"
proof -
  have c: "ballot (fst (apply_committed m)) = ballot m" for m
    by (rule apply_committed_ballot)
  show ?thesis
    by (auto simp: handle_append_entries_def after_append_def Let_def c split: option.splits prod.splits bool.splits)
       (metis c ballot_log fst_conv)+
qed


text \<open>What a vote request does to the voter.\<close>

lemma request_vote_cases:
  assumes "handle_request_vote env n a = (n', r)"
  obtains
    (granted) rep where "r = Inr rep" "vr_granted rep" "vr_term rep = va_term a" "rn_term n \<le> va_term a"
      "rn_id n' = rn_id n" "rn_term n' = va_term a" "rn_voted n' = Some (va_candidate a)" "rn_log n' = rn_log n"
      "if va_term a > rn_term n then rn_role n' = Follower
       else rn_role n' = rn_role n \<and> rn_voted n \<in> {None, Some (va_candidate a)}"
  | (stepped) "\<forall>rep. r = Inr rep \<longrightarrow> \<not> vr_granted rep" "n' = step_down env n (va_term a) None" "rn_term n < va_term a"
  | (same) "\<forall>rep. r = Inr rep \<longrightarrow> \<not> vr_granted rep" "n' = n"
  using assms
  by (auto simp: handle_request_vote_def vote_denied_def Let_def split: if_splits option.splits)

lemma append_entries_cases:
  assumes "handle_append_entries env n a = (n', r)"
  obtains
    (same) "ballot n' = ballot n"
  | (stepped) "rn_id n' = rn_id n" "rn_term n < rn_term n'" "rn_role n' = Follower"
  | (reset) "rn_id n' = rn_id n" "rn_term n' = rn_term n" "rn_term n = aa_term a" "rn_role n \<noteq> Follower"
      "rn_role n' = Follower"
  using handle_append_ballot [of env n a] assms
  by (auto simp: after_append_def ballot_def step_down_def split: if_splits)

lemma collect_votes_won:
  "collect_votes env rpc q v n ps = (n', True) \<Longrightarrow> rn_role n = Candidate \<Longrightarrow>
     n' = become_leader env n \<and> q \<le> v + int (length (filter (\<lambda>p. \<exists>r. rpc p = Some r \<and> vr_granted r) ps))"
proof (induction ps arbitrary: v)
  case (Cons p ps)
  show ?case
  proof (cases "rpc p")
    case None
    with Cons show ?thesis by simp
  next
    case (Some r)
    with Cons.prems have le: "\<not> vr_term r > rn_term n" by (auto split: if_splits)
    show ?thesis
    proof (cases "vr_granted r \<and> v + 1 \<ge> q")
      case True
      with Some Cons.prems le show ?thesis by simp
    next
      case False
      with Some Cons.prems le Cons.IH [of v] Cons.IH [of "v + 1"] show ?thesis
        by (auto split: if_splits)
    qed
  qed
qed auto

lemma collect_votes_lost:
  "collect_votes env rpc q v n ps = (n', False) \<Longrightarrow> n' = n \<or> (\<exists>t > rn_term n. n' = step_down env n t None)"
  by (induction ps arbitrary: v) (auto split: option.splits if_splits)

lemma start_election_cases:
  assumes "start_election env rpc n = (n', r)"
  obtains
    (won) args where "r = Inr True" "rn_id n' = rn_id n" "rn_term n' = rn_term n + 1" "rn_role n' = Leader"
      "rn_voted n' = Some (rn_id n)" "va_term args = rn_term n + 1" "va_candidate args = rn_id n"
      "quorum_size env n \<le> 1 + int (length (filter (\<lambda>p. \<exists>r. rpc p args = Some r \<and> vr_granted r) (verified_peers env n)))"
  | (lost) "r \<noteq> Inr True" "rn_id n' = rn_id n" "rn_term n < rn_term n'"
      "rn_role n' \<noteq> Follower \<longrightarrow> rn_voted n' = Some (rn_id n)"
proof -
  define n1 where "n1 = n\<lparr>rn_term := rn_term n + 1, rn_role := Candidate, rn_voted := Some (rn_id n),
                 rn_leader := None, rn_heartbeat := re_now env\<rparr>"
  have same: "quorum_size env n1 = quorum_size env n" "verified_peers env n1 = verified_peers env n"
    by (simp_all add: n1_def quorum_size_def verified_peers_def cluster_peers_def)
  have f: "rn_term n1 = rn_term n + 1" "rn_id n1 = rn_id n" "rn_role n1 = Candidate" "rn_voted n1 = Some (rn_id n)"
    by (simp_all add: n1_def)
  show thesis
  proof (cases "1 \<ge> quorum_size env n")
    case True
    with assms have "n' = become_leader env n1" "r = Inr True"
      by (auto simp: start_election_def Let_def n1_def [symmetric] same)
    with True f won [of "\<lparr>va_term = rn_term n + 1, va_candidate = rn_id n, va_last_index = 0, va_last_term = 0\<rparr>"]
    show thesis by simp
  next
    case False
    show thesis
    proof (cases "last_log_term n1")
      case None
      with assms False have "n' = n1" "r = Inl Index_Error"
        by (auto simp: start_election_def Let_def n1_def [symmetric] same)
      with f lost show thesis by simp
    next
      case (Some lt)
      define args where "args = \<lparr>va_term = rn_term n1, va_candidate = rn_id n1,
                            va_last_index = last_log_index n1, va_last_term = lt\<rparr>"
      obtain b where c: "collect_votes env (\<lambda>p. rpc p args) (quorum_size env n) 1 n1 (verified_peers env n) = (n', b)"
        and r: "r = Inr b"
        using assms False Some
        by (auto simp: start_election_def Let_def n1_def [symmetric] same args_def [symmetric] split: prod.splits)
      show thesis
      proof (cases b)
        case True
        with c have "collect_votes env (\<lambda>p. rpc p args) (quorum_size env n) 1 n1 (verified_peers env n) = (n', True)"
          by simp
        from collect_votes_won [OF this f(3)]
        have n': "n' = become_leader env n1"
          and q: "quorum_size env n \<le> 1 + int (length (filter (\<lambda>p. \<exists>r. rpc p args = Some r \<and> vr_granted r) (verified_peers env n)))"
          by auto
        show thesis
          by (rule won [of args]) (use True r f n' q in \<open>simp_all add: args_def\<close>)
      next
        case b: False
        with c have "collect_votes env (\<lambda>p. rpc p args) (quorum_size env n) 1 n1 (verified_peers env n) = (n', False)"
          by simp
        from collect_votes_lost [OF this] have "n' = n1 \<or> (\<exists>t > rn_term n1. n' = step_down env n1 t None)" .
        then have "rn_id n' = rn_id n" "rn_term n < rn_term n'" "rn_role n' \<noteq> Follower \<longrightarrow> rn_voted n' = Some (rn_id n)"
          using f by auto
        with r b lost show thesis by simp
      qed
    qed
  qed
qed

lemma start_election_not_won:
  assumes "start_election env rpc n = (n', r)" "r \<noteq> Inr True"
  shows "rn_role n' \<noteq> Leader"
proof -
  have lost: "rn_role (fst res) \<noteq> Leader" if "collect_votes env f q v m ps = res" "rn_role m = Candidate" "\<not> snd res"
    for f q v m ps res
  proof -
    have "collect_votes env f q v m ps = (fst res, False)"
      using that(1,3) by (cases res) auto
    from collect_votes_lost [OF this] that(2) show ?thesis by auto
  qed
  show ?thesis
    using assms
    by (auto simp: start_election_def Let_def quorum_size_def split: if_splits option.splits prod.splits dest!: lost)
qed

definition loop_keeps :: "raft_node \<Rightarrow> propose_loop_result \<Rightarrow> bool" where
  "loop_keeps n res = (case res of
     Loop_Done n' _ \<Rightarrow> ballot n' = ballot n
   | Loop_Raised n' _ \<Rightarrow> ballot n' = ballot n
   | Loop_Stepped_Down n' \<Rightarrow> rn_id n' = rn_id n \<and> rn_term n < rn_term n' \<and> rn_role n' = Follower)"

lemma loop_keeps_ballot: "loop_keeps m res \<Longrightarrow> ballot m = ballot n \<Longrightarrow> loop_keeps n res"
  by (auto simp: loop_keeps_def ballot_def split: propose_loop_result.splits)

lemma replicate_loop_keeps: "loop_keeps n (replicate_loop env rpc k acks n ps)"
proof (induction ps arbitrary: acks n)
  case Nil
  then show ?case by (simp add: loop_keeps_def)
next
  case (Cons p ps)
  have step: "loop_keeps n (replicate_loop env rpc k acks' m ps)" if "ballot m = ballot n" for acks' m
    using loop_keeps_ballot [OF Cons.IH that] .
  have stop: "loop_keeps n (Loop_Raised n x)" "rn_term n < t \<Longrightarrow> loop_keeps n (Loop_Stepped_Down (step_down env n t None))" for x t
    by (simp_all add: loop_keeps_def)
  let ?prev = "dict_get_default (rn_next n) p k - 1"
  show ?case
  proof (cases "if ?prev < int (length (rn_log n)) then map_option le_term (py_index (rn_log n) ?prev) else Some 0")
    case None
    with stop show ?thesis by (simp add: Let_def)
  next
    case (Some pt)
    let ?args = "\<lparr>aa_term = rn_term n, aa_leader = rn_id n, aa_prev_index = ?prev, aa_prev_term = pt,
                          aa_entries = py_suffix (rn_log n) (?prev + 1), aa_commit = rn_commit n\<rparr>"
    show ?thesis
    proof (cases "rpc p ?args")
      case None
      with Some step [of n] show ?thesis by (simp add: Let_def)
    next
      case (Some r)
      with \<open>(if ?prev < int (length (rn_log n)) then map_option le_term (py_index (rn_log n) ?prev) else Some 0) = Some pt\<close>
        stop(2) show ?thesis by (simp add: Let_def step)
    qed
  qed
qed

lemma propose_entry_cases:
  assumes "propose_entry env rpc time n ty p author = (n', r)"
  obtains
    (same) "ballot n' = ballot n"
  | (stepped) "rn_id n' = rn_id n" "rn_term n < rn_term n'" "rn_role n' = Follower"
proof (cases "rn_role n = Leader")
  case False
  with assms same show thesis by (simp add: propose_entry_def)
next
  case True
  define new_index where "new_index = int (length (rn_log n))"
  define entry where "entry = sign_entry \<lparr>le_index = new_index, le_term = rn_term n, le_type = ty,
      le_author = (case author of None \<Rightarrow> rn_id n | Some a \<Rightarrow> if a = [] then rn_id n else a),
      le_payload = p, le_signature = [], le_timestamp = time\<rparr> []"
  define n1 where "n1 = n\<lparr>rn_log := rn_log n @ [entry]\<rparr>"
  have n1: "ballot n1 = ballot n" by (simp add: n1_def)
  have res: "(case replicate_loop env rpc new_index 1 n1 (verified_peers env n1) of
              Loop_Raised n2 x \<Rightarrow> (n2, Inl x)
            | Loop_Stepped_Down n2 \<Rightarrow> (n2, Inr \<lparr>pr_ok = False, pr_entry = None,
                  pr_message = ''Stepped down due to higher term peer''\<rparr>)
            | Loop_Done n2 acks \<Rightarrow>
                (if acks \<ge> quorum_size env n1
                 then (case apply_committed (n2\<lparr>rn_commit := new_index\<rparr>) of
                         (n3, Some x) \<Rightarrow> (n3, Inl x)
                       | (n3, None) \<Rightarrow> (n3, Inr \<lparr>pr_ok = True, pr_entry = Some entry,
                           pr_message = ''Committed by quorum''\<rparr>))
                 else (n2, Inr \<lparr>pr_ok = False, pr_entry = Some entry, pr_message = ''Quorum not achieved ('' @
                        int_str acks @ ''/'' @ int_str (quorum_size env n1) @ '' acks)''\<rparr>))) = (n', r)"
    using assms True unfolding propose_entry_def Let_def n1_def entry_def new_index_def by simp
  have keeps: "loop_keeps n (replicate_loop env rpc new_index 1 n1 (verified_peers env n1))"
    using loop_keeps_ballot [OF replicate_loop_keeps n1] .
  show thesis
  proof (cases "replicate_loop env rpc new_index 1 n1 (verified_peers env n1)")
    case (Loop_Done n2 acks)
    have "ballot n' = ballot n2"
      using res Loop_Done apply_committed_ballot [of "n2\<lparr>rn_commit := new_index\<rparr>"]
      by (auto split: if_splits prod.splits option.splits)
    with keeps Loop_Done same show thesis by (simp add: loop_keeps_def)
  next
    case (Loop_Stepped_Down n2)
    with keeps res stepped show thesis by (simp add: loop_keeps_def)
  next
    case (Loop_Raised n2 x)
    with keeps res same show thesis by (simp add: loop_keeps_def)
  qed
qed


section \<open>The cluster\<close>

record cluster =
  cl_node :: "string \<Rightarrow> raft_node"
  cl_votes :: "(string \<times> int \<times> string) set"
  cl_led :: "(int \<times> string) set"

definition member_env :: "string set \<Rightarrow> raft_env \<Rightarrow> string \<Rightarrow> bool" where
  "member_env M env v \<longleftrightarrow> distinct (re_peers env) \<and>
     {p \<in> set (re_peers env). re_attested env p \<and> p \<noteq> v} = M - {v}"

definition put_node :: "cluster \<Rightarrow> string \<Rightarrow> raft_node \<Rightarrow> cluster" where
  "put_node cl v n = cl\<lparr>cl_node := (cl_node cl)(v := n)\<rparr>"

inductive cluster_step :: "string set \<Rightarrow> cluster \<Rightarrow> cluster \<Rightarrow> bool" for M where
  step_vote: "v \<in> M \<Longrightarrow> handle_request_vote env (cl_node cl v) a = (n', r) \<Longrightarrow>
    cluster_step M cl ((put_node cl v n')\<lparr>cl_votes := cl_votes cl \<union>
      (if \<exists>rep. r = Inr rep \<and> vr_granted rep then {(v, va_term a, va_candidate a)} else {})\<rparr>)"
| step_append: "v \<in> M \<Longrightarrow> (aa_term a, aa_leader a) \<in> cl_led cl \<Longrightarrow> aa_leader a \<noteq> v \<Longrightarrow>
    handle_append_entries env (cl_node cl v) a = (n', r) \<Longrightarrow> cluster_step M cl (put_node cl v n')"
| step_elect: "v \<in> M \<Longrightarrow> member_env M env v \<Longrightarrow> start_election env rpc (cl_node cl v) = (n', r) \<Longrightarrow>
    (\<forall>p a rep. rpc p a = Some rep \<longrightarrow> vr_granted rep \<longrightarrow> (p, va_term a, va_candidate a) \<in> cl_votes cl) \<Longrightarrow>
    cluster_step M cl ((put_node cl v n')\<lparr>
      cl_votes := insert (v, rn_term (cl_node cl v) + 1, v) (cl_votes cl),
      cl_led := cl_led cl \<union> (if r = Inr True then {(rn_term (cl_node cl v) + 1, v)} else {})\<rparr>)"
| step_propose: "v \<in> M \<Longrightarrow> propose_entry env rpc2 time (cl_node cl v) ty p author = (n', r2) \<Longrightarrow>
    cluster_step M cl (put_node cl v n')"

inductive cluster_reach :: "string set \<Rightarrow> cluster \<Rightarrow> cluster \<Rightarrow> bool" for M where
  cluster_refl: "cluster_reach M cl cl"
| cluster_next: "cluster_reach M cl0 cl \<Longrightarrow> cluster_step M cl cl' \<Longrightarrow> cluster_reach M cl0 cl'"

definition cluster_start :: "string set \<Rightarrow> cluster \<Rightarrow> bool" where
  "cluster_start M cl \<longleftrightarrow> finite M \<and> cl_votes cl = {} \<and> cl_led cl = {} \<and>
     (\<forall>v \<in> M. \<exists>time now. cl_node cl v = new_node v time now)"


section \<open>Election safety\<close>

definition won_by_majority :: "string set \<Rightarrow> cluster \<Rightarrow> int \<Rightarrow> string \<Rightarrow> bool" where
  "won_by_majority M cl t l \<longleftrightarrow> (\<exists>W \<subseteq> M. l \<in> W \<and> card M < 2 * card W \<and> (\<forall>v \<in> W. (v, t, l) \<in> cl_votes cl))"

definition node_inv :: "raft_node \<Rightarrow> string \<Rightarrow> bool" where
  "node_inv n v \<longleftrightarrow> rn_id n = v \<and> (rn_role n \<noteq> Follower \<longrightarrow> rn_voted n = Some v)"

definition vote_locked :: "raft_node \<Rightarrow> int \<Rightarrow> string \<Rightarrow> bool" where
  "vote_locked n t c \<longleftrightarrow> t < rn_term n \<or> t = rn_term n \<and> rn_voted n = Some c \<and> rn_role n = Follower"

definition lead_current :: "raft_node \<Rightarrow> int \<Rightarrow> string \<Rightarrow> bool" where
  "lead_current n t l \<longleftrightarrow> t < rn_term n \<or> t = rn_term n \<and> rn_voted n = Some l"

definition election_inv :: "string set \<Rightarrow> cluster \<Rightarrow> bool" where
  "election_inv M cl \<longleftrightarrow> finite M
     \<and> (\<forall>v \<in> M. node_inv (cl_node cl v) v)
     \<and> (\<forall>v t c. (v, t, c) \<in> cl_votes cl \<longrightarrow> v \<in> M \<and> (v \<noteq> c \<longrightarrow> vote_locked (cl_node cl v) t c))
     \<and> (\<forall>v t c c'. (v, t, c) \<in> cl_votes cl \<longrightarrow> (v, t, c') \<in> cl_votes cl \<longrightarrow> c \<noteq> v \<longrightarrow> c' \<noteq> v \<longrightarrow> c = c')
     \<and> (\<forall>t l. (t, l) \<in> cl_led cl \<longrightarrow> l \<in> M \<and> lead_current (cl_node cl l) t l \<and> won_by_majority M cl t l)
     \<and> (\<forall>t l c. (t, l) \<in> cl_led cl \<longrightarrow> (l, t, c) \<in> cl_votes cl \<longrightarrow> c = l)
     \<and> (\<forall>t l l'. (t, l) \<in> cl_led cl \<longrightarrow> (t, l') \<in> cl_led cl \<longrightarrow> l = l')"

lemma election_invD:
  assumes "election_inv M cl"
  shows "finite M" "v \<in> M \<Longrightarrow> node_inv (cl_node cl v) v"
    "(v, t, c) \<in> cl_votes cl \<Longrightarrow> v \<in> M"
    "(v, t, c) \<in> cl_votes cl \<Longrightarrow> v \<noteq> c \<Longrightarrow> vote_locked (cl_node cl v) t c"
    "(v, t, c) \<in> cl_votes cl \<Longrightarrow> (v, t, c') \<in> cl_votes cl \<Longrightarrow> c \<noteq> v \<Longrightarrow> c' \<noteq> v \<Longrightarrow> c = c'"
    "(t, l) \<in> cl_led cl \<Longrightarrow> l \<in> M" "(t, l) \<in> cl_led cl \<Longrightarrow> lead_current (cl_node cl l) t l"
    "(t, l) \<in> cl_led cl \<Longrightarrow> won_by_majority M cl t l"
    "(t, l) \<in> cl_led cl \<Longrightarrow> (l, t, c) \<in> cl_votes cl \<Longrightarrow> c = l"
    "(t, l) \<in> cl_led cl \<Longrightarrow> (t, l') \<in> cl_led cl \<Longrightarrow> l = l'"
  using assms unfolding election_inv_def by blast+

lemma put_node_simps [simp]:
  "cl_node (put_node cl v n) w = (if w = v then n else cl_node cl w)"
  "cl_votes (put_node cl v n) = cl_votes cl" "cl_led (put_node cl v n) = cl_led cl"
  by (simp_all add: put_node_def)

text \<open>A node moves to a ballot that keeps its locks.\<close>

lemma election_inv_put:
  assumes inv: "election_inv M cl" and "node_inv n' v"
    and lock: "\<And>t c. vote_locked (cl_node cl v) t c \<Longrightarrow> vote_locked n' t c"
    and lead: "\<And>t. (t, v) \<in> cl_led cl \<Longrightarrow> lead_current (cl_node cl v) t v \<Longrightarrow> lead_current n' t v"
  shows "election_inv M (put_node cl v n')"
  unfolding election_inv_def
  using election_invD [OF inv] assms(2) lock lead
  by (auto simp: won_by_majority_def)

lemma ballot_keeps:
  assumes "ballot n' = ballot n"
  shows "node_inv n' v = node_inv n v" "vote_locked n' t c = vote_locked n t c" "lead_current n' t l = lead_current n t l"
  using assms by (auto simp: ballot_def node_inv_def vote_locked_def lead_current_def)

lemma higher_term_keeps:
  assumes "rn_term n < rn_term n'"
  shows "vote_locked n t c \<Longrightarrow> vote_locked n' t c" "lead_current n t l \<Longrightarrow> lead_current n' t l"
  using assms by (auto simp: vote_locked_def lead_current_def)

lemma election_inv_start:
  assumes "cluster_start M cl"
  shows "election_inv M cl"
proof -
  have "node_inv (cl_node cl v) v" if "v \<in> M" for v
    using assms that by (fastforce simp: cluster_start_def node_inv_def new_node_def)
  with assms show ?thesis by (simp add: election_inv_def cluster_start_def)
qed

lemma inv_vote:
  assumes inv: "election_inv M cl" and v: "v \<in> M"
    and hv: "handle_request_vote env (cl_node cl v) a = (n', r)"
  shows "election_inv M ((put_node cl v n')\<lparr>cl_votes := cl_votes cl \<union>
      (if \<exists>rep. r = Inr rep \<and> vr_granted rep then {(v, va_term a, va_candidate a)} else {})\<rparr>)"
proof -
  let ?n = "cl_node cl v" and ?t = "va_term a" and ?c = "va_candidate a"
  have nv: "rn_id ?n = v" "rn_role ?n = Follower \<or> rn_voted ?n = Some v"
    using election_invD(2) [OF inv v] by (auto simp: node_inv_def)
  from hv show ?thesis
  proof (cases rule: request_vote_cases)
    case (granted rep)
    have lock: "vote_locked n' t c" if "vote_locked ?n t c" for t c
      using that granted by (auto simp: vote_locked_def split: if_splits)
    have lead: "lead_current n' t v" if "(t, v) \<in> cl_led cl" "lead_current ?n t v" for t
      using that granted by (auto simp: lead_current_def split: if_splits)
    have nv': "node_inv n' v"
      using nv granted by (auto simp: node_inv_def split: if_splits)
    have put: "election_inv M (put_node cl v n')"
      using election_inv_put [OF inv nv' lock lead] .
    have new_lock: "vote_locked n' ?t ?c" if "v \<noteq> ?c"
      using that granted nv by (auto simp: vote_locked_def split: if_splits)
    have new_uniq: "c = ?c" if "(v, ?t, c) \<in> cl_votes cl" "c \<noteq> v" for c
      using election_invD(4) [OF inv that(1)] that(2) granted by (auto simp: vote_locked_def split: if_splits)
    have new_lead: "?c = v" if "(?t, v) \<in> cl_led cl"
      using election_invD(7) [OF inv that] granted by (auto simp: lead_current_def split: if_splits)
    have maj: "won_by_majority M (cl'\<lparr>cl_votes := cl_votes cl' \<union> X\<rparr>) t l" if "won_by_majority M cl' t l" for cl' X t l
      using that unfolding won_by_majority_def by (simp, blast)
    show ?thesis
      unfolding election_inv_def
      using election_invD [OF put] granted(1,2) v new_lock new_uniq new_lead maj [of "put_node cl v n'" _ _ "{(v, ?t, ?c)}"]
      by simp
  next
    case stepped
    have "election_inv M (put_node cl v n')"
      using stepped(2,3) nv(1)
      by (intro election_inv_put [OF inv]) (auto simp: node_inv_def vote_locked_def lead_current_def)
    with stepped(1) show ?thesis by (auto simp: put_node_def)
  next
    case same
    have "election_inv M (put_node cl v n')"
      using same(2) election_invD(2) [OF inv v] by (intro election_inv_put [OF inv]) auto
    with same(1) show ?thesis by (auto simp: put_node_def)
  qed
qed

lemma inv_append:
  assumes inv: "election_inv M cl" and v: "v \<in> M"
    and led: "(aa_term a, aa_leader a) \<in> cl_led cl" "aa_leader a \<noteq> v"
    and ha: "handle_append_entries env (cl_node cl v) a = (n', r)"
  shows "election_inv M (put_node cl v n')"
  using ha
proof (cases rule: append_entries_cases)
  case same
  then show ?thesis
    using election_invD(2) [OF inv v] ballot_keeps [OF same] by (intro election_inv_put [OF inv]) simp_all
next
  case stepped
  then show ?thesis
    using election_invD(2) [OF inv v] higher_term_keeps [OF stepped(2)]
    by (intro election_inv_put [OF inv]) (auto simp: node_inv_def)
next
  case reset
  have "lead_current n' t v" if "(t, v) \<in> cl_led cl" "lead_current (cl_node cl v) t v" for t
    using that reset election_invD(10) [OF inv, of "aa_term a" v "aa_leader a"] led
    by (auto simp: lead_current_def)
  with reset election_invD(2) [OF inv v] show ?thesis
    by (intro election_inv_put [OF inv]) (auto simp: node_inv_def vote_locked_def)
qed

lemma majority_meet:
  assumes "finite M" "A \<subseteq> M" "B \<subseteq> M" "card M < 2 * card A" "card M < 2 * card B"
  shows "A \<inter> B \<noteq> {}"
proof
  assume "A \<inter> B = {}"
  moreover have "finite A" "finite B" using assms(1-3) finite_subset by auto
  ultimately have "card (A \<union> B) = card A + card B" by (simp add: card_Un_disjoint)
  moreover have "card (A \<union> B) \<le> card M" using assms(1-3) by (intro card_mono) auto
  ultimately show False using assms(4,5) by simp
qed

lemma verified_members:
  assumes "member_env M env v" "rn_id n = v"
  shows "distinct (verified_peers env n)" "set (verified_peers env n) = M - {v}"
  using assms by (auto simp: member_env_def verified_peers_def cluster_peers_def)

lemma quorum_is_majority:
  assumes "finite M" "v \<in> M" "member_env M env v" "rn_id n = v"
    and "quorum_size env n \<le> 1 + int (length (filter p (verified_peers env n)))"
  shows "card M < 2 * card (insert v {w \<in> M - {v}. p w})"
proof -
  let ?vs = "verified_peers env n"
  have "length ?vs = card (M - {v})"
    using verified_members [OF assms(3,4)] by (metis distinct_card)
  with card_Suc_Diff1 [OF assms(1,2)] have "length ?vs + 1 = card M"
    by simp
  moreover have "card {w \<in> M - {v}. p w} = length (filter p ?vs)"
    using verified_members [OF assms(3,4)] distinct_card [of "filter p ?vs"] by simp
  moreover have "card (insert v {w \<in> M - {v}. p w}) = Suc (card {w \<in> M - {v}. p w})"
    using assms(1) by simp
  ultimately show ?thesis
    using assms(5) by (simp add: quorum_size_def)
qed

lemma inv_elect:
  assumes inv: "election_inv M cl" and v: "v \<in> M" and env: "member_env M env v"
    and el: "start_election env rpc (cl_node cl v) = (n', r)"
    and backed: "\<forall>p a rep. rpc p a = Some rep \<longrightarrow> vr_granted rep \<longrightarrow> (p, va_term a, va_candidate a) \<in> cl_votes cl"
  shows "election_inv M ((put_node cl v n')\<lparr>
      cl_votes := insert (v, rn_term (cl_node cl v) + 1, v) (cl_votes cl),
      cl_led := cl_led cl \<union> (if r = Inr True then {(rn_term (cl_node cl v) + 1, v)} else {})\<rparr>)"
    (is "election_inv M ?cl'")
proof -
  let ?n = "cl_node cl v"
  let ?t = "rn_term ?n + 1"
  have nid: "rn_id ?n = v"
    using election_invD(2) [OF inv v] by (simp add: node_inv_def)
  have up: "rn_term ?n < rn_term n'" "node_inv n' v"
    using el by (cases rule: start_election_cases; use nid in \<open>auto simp: node_inv_def\<close>)+
  have put: "election_inv M (put_node cl v n')"
    using up higher_term_keeps [OF up(1)] by (intro election_inv_put [OF inv])
  have fresh: "c = v" if "(v, ?t, c) \<in> cl_votes cl" for c
    using election_invD(4) [OF inv that] by (auto simp: vote_locked_def)
  have no_lead: "(?t, v) \<notin> cl_led cl"
    using election_invD(7) [OF inv, of ?t v] by (auto simp: lead_current_def)
  define cl1 where "cl1 = (put_node cl v n')\<lparr>cl_votes := insert (v, ?t, v) (cl_votes cl)\<rparr>"
  have maj: "won_by_majority M cl1 t l" if "won_by_majority M (put_node cl v n') t l" for t l
    using that unfolding won_by_majority_def cl1_def by (simp, blast)
  have inv1: "election_inv M cl1"
    unfolding election_inv_def
    using election_invD [OF put] v maj by (simp add: cl1_def)
  show ?thesis
  proof (cases "r = Inr True")
    case False
    with inv1 show ?thesis by (simp add: cl1_def put_node_def)
  next
    case True
    from el True obtain args where w: "rn_term n' = ?t" "rn_voted n' = Some v" "va_term args = ?t" "va_candidate args = v"
        "quorum_size env ?n \<le> 1 + int (length (filter (\<lambda>p. \<exists>r. rpc p args = Some r \<and> vr_granted r) (verified_peers env ?n)))"
      by (cases rule: start_election_cases) (auto simp: nid)
    define W where "W = insert v {p \<in> M - {v}. \<exists>r. rpc p args = Some r \<and> vr_granted r}"
    have W: "W \<subseteq> M" "v \<in> W" "card M < 2 * card W"
      using v quorum_is_majority [OF election_invD(1) [OF inv] v env nid w(5)] by (auto simp: W_def)
    have votes: "(p, ?t, v) \<in> cl_votes cl1" if "p \<in> W" for p
      using that backed w(3,4) by (fastforce simp: W_def cl1_def)
    have won: "won_by_majority M cl1 ?t v"
      unfolding won_by_majority_def using W votes by blast
    have only: "l = v" if l: "(?t, l) \<in> cl_led cl" for l
    proof (rule ccontr)
      assume ne: "l \<noteq> v"
      obtain B where B: "B \<subseteq> M" "l \<in> B" "card M < 2 * card B" "\<forall>p \<in> B. (p, ?t, l) \<in> cl_votes cl"
        using election_invD(8) [OF inv l] by (auto simp: won_by_majority_def)
      obtain x where x: "x \<in> W" "x \<in> B"
        using majority_meet [OF election_invD(1) [OF inv] W(1) B(1) W(3) B(3)] by auto
      have xl: "(x, ?t, l) \<in> cl_votes cl" using B(4) x(2) by blast
      have "x \<noteq> v" using fresh xl ne by blast
      then have xv: "(x, ?t, v) \<in> cl_votes cl"
        using votes [OF x(1)] by (simp add: cl1_def)
      have "x \<noteq> l" using election_invD(9) [OF inv l] xv ne by blast
      then show False
        using election_invD(5) [OF inv xl xv] \<open>x \<noteq> v\<close> ne by blast
    qed
    have cl': "?cl' = cl1\<lparr>cl_led := insert (?t, v) (cl_led cl)\<rparr>"
      using True by (simp add: cl1_def)
    have maj2: "won_by_majority M (cl1\<lparr>cl_led := L\<rparr>) t l = won_by_majority M cl1 t l" for L t l
      by (simp add: won_by_majority_def)
    have cur: "lead_current n' ?t v" using w(1,2) by (simp add: lead_current_def)
    have led1: "cl_led cl1 = cl_led cl" "cl_node cl1 v = n'" by (simp_all add: cl1_def)
    have self: "c = v" if "(v, ?t, c) \<in> cl_votes cl1" for c
      using that fresh by (auto simp: cl1_def)
    show ?thesis
      unfolding cl' election_inv_def
      using election_invD [OF inv1] v won only cur led1 self
      by (simp add: maj2) (intro conjI allI impI; (blast | metis))
  qed
qed

lemma inv_propose:
  assumes inv: "election_inv M cl" and v: "v \<in> M" and "propose_entry env rpc time (cl_node cl v) ty p author = (n', r)"
  shows "election_inv M (put_node cl v n')"
  using assms(3)
proof (cases rule: propose_entry_cases)
  case same
  then show ?thesis
    using election_invD(2) [OF inv v] ballot_keeps [OF same] by (intro election_inv_put [OF inv]) simp_all
next
  case stepped
  then show ?thesis
    using election_invD(2) [OF inv v] higher_term_keeps [OF stepped(2)]
    by (intro election_inv_put [OF inv]) (auto simp: node_inv_def)
qed

lemma election_inv_step:
  assumes "cluster_step M cl cl'" "election_inv M cl"
  shows "election_inv M cl'"
  using assms
proof (induction rule: cluster_step.induct)
  case (step_vote v env cl a n' r)
  show ?case by (rule inv_vote [OF step_vote(3,1,2)])
next
  case (step_append v a cl env n' r)
  show ?case by (rule inv_append [OF step_append(5,1,2,3,4)])
next
  case (step_elect v env rpc cl n' r)
  show ?case by (rule inv_elect [OF step_elect(5,1,2,3,4)])
next
  case (step_propose v env rpc2 time cl ty p author n' r2)
  show ?case by (rule inv_propose [OF step_propose(3,1,2)])
qed

lemma election_inv_reach: "cluster_reach M cl cl' \<Longrightarrow> election_inv M cl \<Longrightarrow> election_inv M cl'"
  by (induction rule: cluster_reach.induct) (auto intro: election_inv_step)


text \<open>Whoever has the leader's role won the election of its term.\<close>

definition leader_inv :: "string set \<Rightarrow> cluster \<Rightarrow> bool" where
  "leader_inv M cl \<longleftrightarrow> (\<forall>v \<in> M. rn_role (cl_node cl v) = Leader \<longrightarrow> (rn_term (cl_node cl v), v) \<in> cl_led cl)"

lemma leader_inv_start: "cluster_start M cl \<Longrightarrow> leader_inv M cl"
  by (fastforce simp: cluster_start_def leader_inv_def new_node_def)

lemma leader_inv_put:
  assumes "leader_inv M cl" "cl_led cl \<subseteq> cl_led cl'" "\<And>w. w \<noteq> v \<Longrightarrow> cl_node cl' w = cl_node cl w"
    and "rn_role (cl_node cl' v) = Leader \<Longrightarrow> (rn_term (cl_node cl' v), v) \<in> cl_led cl'"
  shows "leader_inv M cl'"
  using assms unfolding leader_inv_def by (metis subsetD)

lemma ballot_leader: "ballot n' = ballot n \<Longrightarrow> rn_role n' = rn_role n \<and> rn_term n' = rn_term n"
  by (simp add: ballot_def)

lemma leader_inv_step:
  assumes "cluster_step M cl cl'" "leader_inv M cl"
  shows "leader_inv M cl'"
  using assms
proof (induction rule: cluster_step.induct)
  case (step_vote v env cl a n' r)
  have "rn_role n' = Leader \<Longrightarrow> (rn_term n', v) \<in> cl_led cl"
    using step_vote(2) by (cases rule: request_vote_cases; use step_vote(1,3) in \<open>auto simp: leader_inv_def split: if_splits\<close>)
  then show ?case by (intro leader_inv_put [OF step_vote(3), of _ v]) auto
next
  case (step_append v a cl env n' r)
  have "rn_role n' = Leader \<Longrightarrow> (rn_term n', v) \<in> cl_led cl"
    using step_append(4)
    by (cases rule: append_entries_cases; use step_append(1,5) in \<open>auto simp: leader_inv_def dest: ballot_leader\<close>)
  then show ?case by (intro leader_inv_put [OF step_append(5), of _ v]) auto
next
  case (step_elect v env rpc cl n' r)
  show ?case
  proof (cases "r = Inr True")
    case True
    with step_elect(3) have "rn_term n' = rn_term (cl_node cl v) + 1"
      by (cases rule: start_election_cases) auto
    with True show ?thesis by (intro leader_inv_put [OF step_elect(5), of _ v]) auto
  next
    case False
    with start_election_not_won [OF step_elect(3)] show ?thesis
      by (intro leader_inv_put [OF step_elect(5), of _ v]) auto
  qed
next
  case (step_propose v env rpc2 time cl ty p author n' r2)
  have "rn_role n' = Leader \<Longrightarrow> (rn_term n', v) \<in> cl_led cl"
    using step_propose(2)
    by (cases rule: propose_entry_cases; use step_propose(1,3) in \<open>auto simp: leader_inv_def dest: ballot_leader\<close>)
  then show ?case by (intro leader_inv_put [OF step_propose(3), of _ v]) auto
qed

lemma leader_inv_reach: "cluster_reach M cl cl' \<Longrightarrow> leader_inv M cl \<Longrightarrow> leader_inv M cl'"
  by (induction rule: cluster_reach.induct) (auto intro: leader_inv_step)

end
