(* ===== verification/Raft_Properties.thy ===== *)
theory Raft_Properties
  imports Raft_Safety
begin

text \<open>The properties of the committee's Raft: elections, replication, application, signatures.\<close>

section \<open>Replication\<close>

lemma append_loop_prefix:
  assumes "append_loop log i es = (log', ok)" "0 \<le> i" "i \<le> int (length log)"
  shows "ok \<and> take (nat i) log' = take (nat i) log \<and> int (length log') \<ge> i + int (length es)
    \<and> (\<forall>j < length es. le_term (log' ! (nat i + j)) = le_term (es ! j))"
  using assms
proof (induction es arbitrary: log i)
  case Nil
  then show ?case by simp
next
  case (Cons e es)
  have at: "py_index log i = Some (log ! nat i)" if "i < int (length log)"
    using that Cons.prems(2) by (simp add: py_index_nonneg)
  obtain log1 where rest: "append_loop log1 (i + 1) es = (log', ok)" "i + 1 \<le> int (length log1)"
      "take (nat i) log1 = take (nat i) log" "le_term (log1 ! nat i) = le_term e"
  proof (cases "i < int (length log)")
    case True
    show thesis
    proof (cases "le_term (log ! nat i) = le_term e")
      case True
      with Cons.prems(1) \<open>i < int (length log)\<close> at that [of log] show thesis by simp
    next
      case False
      let ?cut = "take (nat i) log"
      have l: "length ?cut = nat i" using True Cons.prems(2) by simp
      have "(?cut @ [e]) ! nat i = e" "take (nat i) (?cut @ [e]) = ?cut" "i + 1 \<le> int (length (?cut @ [e]))"
        using l Cons.prems(2) by (metis nth_append_length, simp_all)
      moreover have "append_loop (?cut @ [e]) (i + 1) es = (log', ok)"
        using Cons.prems(1,2) True False at by (simp add: py_prefix_nonneg)
      ultimately show thesis
        using that [of "?cut @ [e]"] by simp
    qed
  next
    case False
    with Cons.prems(2,3) have l: "length log = nat i" "i = int (nat i)" by simp_all
    then have "(log @ [e]) ! nat i = e" by (metis nth_append_length)
    moreover have "append_loop (log @ [e]) (i + 1) es = (log', ok)"
      using Cons.prems(1) False by simp
    ultimately show thesis
      using that [of "log @ [e]"] l by simp
  qed
  have IH: "ok \<and> take (nat (i + 1)) log' = take (nat (i + 1)) log1 \<and> int (length log') \<ge> i + 1 + int (length es)
    \<and> (\<forall>j < length es. le_term (log' ! (nat (i + 1) + j)) = le_term (es ! j))"
    using Cons.IH [OF rest(1)] Cons.prems(2) rest(2) by simp
  have ni: "nat (i + 1) = Suc (nat i)" using Cons.prems(2) by simp
  have pre: "take (nat i) log' = take (nat i) log"
  proof -
    have "take (nat i) log' = take (nat i) (take (Suc (nat i)) log')" by simp
    also have "\<dots> = take (nat i) (take (Suc (nat i)) log1)" using IH unfolding ni by simp
    also have "\<dots> = take (nat i) log" using rest(3) by simp
    finally show ?thesis .
  qed
  have "log' ! nat i = log1 ! nat i"
    using IH unfolding ni by (metis lessI nth_take)
  then have "le_term (log' ! (nat i + j)) = le_term ((e # es) ! j)" if "j < length (e # es)" for j
    using that IH rest(4) unfolding ni by (cases j) auto
  with IH pre show ?case by simp
qed

lemma append_loop_agree:
  assumes "0 \<le> i" "int (length log) \<ge> i + int (length es)" "\<forall>j < length es. le_term (log ! (nat i + j)) = le_term (es ! j)"
  shows "append_loop log i es = (log, True)"
  using assms
proof (induction es arbitrary: i)
  case (Cons e es)
  have "py_index log i = Some (log ! nat i)"
    using Cons.prems(1,2) by (simp add: py_index_nonneg)
  moreover have "le_term (log ! nat i) = le_term e"
    using Cons.prems(3) by force
  moreover have "\<forall>j < length es. le_term (log ! (nat (i + 1) + j)) = le_term (es ! j)"
  proof (intro allI impI)
    fix j assume "j < length es"
    with Cons.prems(3) have "le_term (log ! (nat i + Suc j)) = le_term ((e # es) ! Suc j)" by force
    then show "le_term (log ! (nat (i + 1) + j)) = le_term (es ! j)"
      using Cons.prems(1) by (simp add: nat_add_distrib)
  qed
  ultimately show ?case
    using Cons.IH [of "i + 1"] Cons.prems(1,2) by simp
qed simp

text \<open>An append request that passed its first checks and succeeded.\<close>

lemma append_success:
  assumes "handle_append_entries env n a = (n', Inr rep)" "ap_success rep" "0 \<le> aa_prev_index a"
  obtains old where "aa_prev_index a < int (length (rn_log n))" "rn_log n ! nat (aa_prev_index a) = old"
    "le_term old = aa_prev_term a" "append_loop (rn_log n) (aa_prev_index a + 1) (aa_entries a) = (rn_log n', True)"
    "ap_match rep = int (length (rn_log n')) - 1" "\<not> aa_term a < rn_term n" "rn_term n' = aa_term a"
proof -
  have tm: "rn_term (fst (apply_committed m)) = rn_term m" for m
    using apply_committed_ballot [of m] by (simp add: ballot_def)
  let ?m = "if aa_term a > rn_term n \<or> (aa_term a = rn_term n \<and> rn_role n \<noteq> Follower)
     then step_down env n (aa_term a) (Some (aa_leader a)) else n"
  have m: "rn_log ?m = rn_log n" "rn_term ?m = (if aa_term a > rn_term n then aa_term a else rn_term n)"
    by auto
  have applied: "rn_log m' = rn_log m \<and> rn_term m' = rn_term m" if "apply_committed m = (m', x)" for m m' x
    using apply_committed_log [of m] tm [of m] that by simp
  have f: "\<not> aa_term a < rn_term ?m" "aa_prev_index a < int (length (rn_log n))"
      "le_term (rn_log n ! nat (aa_prev_index a)) = aa_prev_term a"
      "append_loop (rn_log n) (aa_prev_index a + 1) (aa_entries a) = (rn_log n', True)"
      "rn_term n' = rn_term ?m" "ap_match rep = last_log_index n'"
    using assms unfolding handle_append_entries_def Let_def append_refused_def
    by (auto simp: py_index_nonneg split: if_splits option.splits prod.splits bool.splits dest!: applied)
  with m that show thesis
    by (auto simp: last_log_index_def split: if_splits)
qed

lemma append_matches:
  assumes "handle_append_entries env n a = (n', Inr rep)" "ap_success rep" "0 \<le> aa_prev_index a"
  shows "take (nat (aa_prev_index a) + 1) (rn_log n') = take (nat (aa_prev_index a) + 1) (rn_log n)
    \<and> le_term (rn_log n' ! nat (aa_prev_index a)) = aa_prev_term a
    \<and> (\<forall>j < length (aa_entries a). le_term (rn_log n' ! (nat (aa_prev_index a) + 1 + j)) = le_term (aa_entries a ! j))
    \<and> ap_match rep = int (length (rn_log n')) - 1
    \<and> aa_prev_index a + int (length (aa_entries a)) \<le> ap_match rep"
proof -
  let ?p = "aa_prev_index a"
  obtain old where o': "?p < int (length (rn_log n))" "rn_log n ! nat ?p = old" "le_term old = aa_prev_term a"
      "append_loop (rn_log n) (?p + 1) (aa_entries a) = (rn_log n', True)" "ap_match rep = int (length (rn_log n')) - 1"
    using append_success [OF assms] by metis
  have np: "nat (?p + 1) = nat ?p + 1" using assms(3) by simp
  have loop: "take (nat ?p + 1) (rn_log n') = take (nat ?p + 1) (rn_log n)"
      "int (length (rn_log n')) \<ge> ?p + 1 + int (length (aa_entries a))"
      "\<forall>j < length (aa_entries a). le_term (rn_log n' ! (nat ?p + 1 + j)) = le_term (aa_entries a ! j)"
    using append_loop_prefix [OF o'(4)] o'(1) assms(3) unfolding np by auto
  have "rn_log n' ! nat ?p = rn_log n ! nat ?p"
    using loop(1) by (metis lessI nth_take Suc_eq_plus1)
  with loop o' show ?thesis by auto
qed

text \<open>A successful append makes the logs match: the follower keeps everything up to the position the
leader named, whose term is the leader's, holds at every following position an entry of the term the
leader sent, and reports its last position.\<close>

theorem append_makes_logs_match:
  assumes "handle_append_entries env n a = (n', Inr rep)" "ap_success rep" "0 \<le> aa_prev_index a"
  shows "take (nat (aa_prev_index a) + 1) (rn_log n') = take (nat (aa_prev_index a) + 1) (rn_log n)
    \<and> le_term (rn_log n' ! nat (aa_prev_index a)) = aa_prev_term a
    \<and> (\<forall>j < length (aa_entries a). le_term (rn_log n' ! (nat (aa_prev_index a) + 1 + j)) = le_term (aa_entries a ! j))
    \<and> ap_match rep = int (length (rn_log n')) - 1
    \<and> aa_prev_index a + int (length (aa_entries a)) \<le> ap_match rep"
  by (rule append_matches [OF assms])

definition sample_entry :: "int \<Rightarrow> int \<Rightarrow> string \<Rightarrow> log_entry" where
  "sample_entry i t who = \<lparr>le_index = i, le_term = t, le_type = Critique_Score, le_author = who, le_payload = [],
     le_signature = [], le_timestamp = ''0.0000''\<rparr>"

definition open_env :: raft_env where
  "open_env = \<lparr>re_peers = [''a'', ''b'', ''c''], re_attested = (\<lambda>_. True), re_blocked = (\<lambda>_ _ _. False), re_now = 0\<rparr>"

definition node_b :: raft_node where
  "node_b = new_node ''b'' ''0.0000'' 0"

definition append_of :: "int \<Rightarrow> int \<Rightarrow> int \<Rightarrow> log_entry list \<Rightarrow> int \<Rightarrow> append_args" where
  "append_of t prev prev_t es c = \<lparr>aa_term = t, aa_leader = ''a'', aa_prev_index = prev, aa_prev_term = prev_t,
     aa_entries = es, aa_commit = c\<rparr>"

lemmas raft_eval = handle_append_entries_def append_of_def open_env_def node_b_def new_node_def genesis_entry_def
  step_down_def py_index_def py_prefix_def last_log_index_def append_refused_def sample_entry_def
  apply_committed.simps apply_entry_def

lemma append_makes_logs_match_witness:
  "le_term (rn_log (fst (handle_append_entries open_env node_b (append_of 1 0 0 [sample_entry 1 1 ''a''] 0))) ! 1) = 1"
proof -
  let ?a = "append_of 1 0 0 [sample_entry 1 1 ''a''] 0"
  obtain n' rep where h: "handle_append_entries open_env node_b ?a = (n', Inr rep)" "ap_success rep"
    by (simp add: raft_eval)
  from append_makes_logs_match [OF h] h(1) show ?thesis
    by (simp add: append_of_def sample_entry_def)
qed

text \<open>A repeated append request changes the log no further: handling the request that just succeeded
again succeeds with the same log and the same match index, whatever else happened to the node's other
fields, as long as it still accepts the leader's term.\<close>

theorem append_is_idempotent:
  assumes "handle_append_entries env n a = (n', Inr rep)" "ap_success rep" "0 \<le> aa_prev_index a"
    and "handle_append_entries env2 m a = (m', Inr rep2)" "ap_success rep2" "rn_log m = rn_log n'"
  shows "rn_log m' = rn_log n' \<and> ap_match rep2 = ap_match rep"
proof -
  let ?p = "aa_prev_index a"
  have match: "\<forall>j < length (aa_entries a). le_term (rn_log n' ! (nat ?p + 1 + j)) = le_term (aa_entries a ! j)"
    "ap_match rep = int (length (rn_log n')) - 1" "?p + int (length (aa_entries a)) \<le> ap_match rep"
    using append_matches [OF assms(1-3)] by auto
  have "append_loop (rn_log m) (?p + 1) (aa_entries a) = (rn_log m, True)"
    using match assms(3,6) by (intro append_loop_agree) (auto simp: nat_add_distrib)
  moreover obtain old where "append_loop (rn_log m) (?p + 1) (aa_entries a) = (rn_log m', True)"
      "ap_match rep2 = int (length (rn_log m')) - 1"
    using append_success [OF assms(4,5,3)] by metis
  ultimately show ?thesis
    using assms(6) match(2) by simp
qed

lemma append_is_idempotent_witness:
  "\<exists>n1 n2 r1 r2. handle_append_entries open_env node_b (append_of 1 0 0 [sample_entry 1 1 ''a''] 0) = (n1, Inr r1)
     \<and> handle_append_entries open_env n1 (append_of 1 0 0 [sample_entry 1 1 ''a''] 0) = (n2, Inr r2)
     \<and> rn_log n2 = rn_log n1 \<and> ap_match r2 = ap_match r1"
proof -
  let ?a = "append_of 1 0 0 [sample_entry 1 1 ''a''] 0"
  obtain n1 r1 where h: "handle_append_entries open_env node_b ?a = (n1, Inr r1)" "ap_success r1"
    by (simp add: raft_eval)
  then obtain n2 r2 where h2: "handle_append_entries open_env n1 ?a = (n2, Inr r2)" "ap_success r2"
    by (auto simp: raft_eval)
  from append_is_idempotent [OF h _ h2] h h2 show ?thesis
    by (auto simp: append_of_def)
qed

definition stale_node :: raft_node where
  "stale_node = node_b\<lparr>rn_term := 1, rn_log := rn_log node_b @ [sample_entry 1 1 ''c'']\<rparr>"

text \<open>A heartbeat can commit an entry its leader never sent: a follower with a stale tail accepts an
empty append for an earlier position and commits up to the leader's commit index bounded by its own last
position, so it applies a stale entry of another term.\<close>

theorem heartbeat_commits_unverified_entry:
  "\<exists>n' rep. handle_append_entries open_env stale_node (append_of 2 0 0 [] 1) = (n', Inr rep) \<and> ap_success rep
     \<and> rn_commit n' = 1 \<and> rn_applied n' = 1 \<and> rn_log n' ! 1 = sample_entry 1 1 ''c'' \<and> cm_last_applied (rn_machine n') = 1"
  by (simp add: raft_eval stale_node_def initial_committee_def)

text \<open>An append request can remove a committed and applied entry: a conflict at a position at or below
the commit index truncates the log there, and the commit index stays behind the log.\<close>

theorem committed_entry_truncated:
  "\<exists>n1 n2 r1 r2. handle_append_entries open_env node_b (append_of 1 0 0 [sample_entry 1 1 ''a''] 1) = (n1, Inr r1)
     \<and> rn_commit n1 = 1 \<and> rn_applied n1 = 1
     \<and> handle_append_entries open_env n1 (append_of 1 1 7 [] 1) = (n2, Inr r2)
     \<and> length (rn_log n2) = 1 \<and> rn_commit n2 = 1 \<and> rn_applied n2 = 1"
  by (simp add: raft_eval initial_committee_def)

text \<open>An empty log is for ever: an append request for position 0 with a wrong term removes the genesis
slot, and from then on no append request restores an entry and no vote request of an accepted term is
answered, each raises IndexError.\<close>

theorem empty_log_is_final:
  assumes "rn_log n = []"
  shows "rn_log (fst (handle_append_entries env n a)) = []
    \<and> (\<not> re_blocked env (va_candidate v) (rn_id n) ''RequestVote'' \<and> re_attested env (va_candidate v) \<and> rn_term n \<le> va_term v
        \<longrightarrow> snd (handle_request_vote env n v) = Inl Index_Error)"
  using assms
  by (auto simp: handle_append_entries_def handle_request_vote_def Let_def last_log_term_def
      split: option.splits prod.splits)

lemma empty_log_is_final_witness:
  "\<exists>n. n = fst (handle_append_entries open_env node_b (append_of 1 0 9 [] 0))
     \<and> rn_log (fst (handle_append_entries open_env n (append_of 1 0 0 [sample_entry 1 1 ''a''] 0))) = []"
proof -
  let ?n = "fst (handle_append_entries open_env node_b (append_of 1 0 9 [] 0))"
  have "rn_log ?n = []" by (simp add: raft_eval)
  from empty_log_is_final [OF this] show ?thesis by blast
qed


section \<open>Application\<close>

definition apply_all :: "committee \<Rightarrow> log_entry list \<Rightarrow> committee" where
  "apply_all st es = foldl (\<lambda>s e. fst (apply_entry s e)) st es"

lemma apply_committed_spec:
  assumes "0 \<le> rn_applied n" "apply_committed n = (n', None)"
  shows "rn_applied n' = max (rn_applied n) (rn_commit n)
    \<and> rn_machine n' = apply_all (rn_machine n) (drop (nat (rn_applied n) + 1) (take (nat (rn_commit n) + 1) (rn_log n)))
    \<and> rn_log n' = rn_log n \<and> rn_commit n' = rn_commit n"
  using assms
proof (induction n rule: apply_committed.induct)
  case (1 n)
  show ?case
  proof (cases "rn_applied n < rn_commit n")
    case False
    then have "nat (rn_commit n) + 1 \<le> nat (rn_applied n) + 1" using 1(3) by simp
    with False 1(4) show ?thesis
      by (subst (asm) apply_committed.simps) (auto simp: apply_all_def max_def)
  next
    case less: True
    define k where "k = nat (rn_applied n) + 1"
    have k: "rn_applied n + 1 = int k" "nat (rn_applied n + 1) = k" "k < nat (rn_commit n) + 1"
      using 1(3) less by (auto simp: k_def)
    let ?n1 = "n\<lparr>rn_applied := rn_applied n + 1\<rparr>"
    let ?es = "take (nat (rn_commit n) + 1) (rn_log n)"
    show ?thesis
    proof (cases "k < length (rn_log n)")
      case False
      then have c: "apply_committed ?n1 = (n', None)"
        using 1(4) less k by (subst (asm) apply_committed.simps) (simp add: Let_def)
      have "rn_applied n' = max (rn_applied ?n1) (rn_commit ?n1)
        \<and> rn_machine n' = apply_all (rn_machine ?n1) (drop (nat (rn_applied ?n1) + 1) (take (nat (rn_commit ?n1) + 1) (rn_log ?n1)))
        \<and> rn_log n' = rn_log ?n1 \<and> rn_commit n' = rn_commit ?n1"
        using 1(2) [OF less refl _ _ c] 1(3) False k by simp
      with False less k show ?thesis by (simp add: k_def max_def)
    next
      case True
      then have at: "py_index (rn_log ?n1) (rn_applied ?n1) = Some (rn_log n ! k)"
        using k by (simp add: py_index_nonneg)
      obtain st x where ap: "apply_entry (rn_machine n) (rn_log n ! k) = (st, x)"
        by (cases "apply_entry (rn_machine n) (rn_log n ! k)")
      have x: "x = None" and c: "apply_committed (?n1\<lparr>rn_machine := st\<rparr>) = (n', None)"
        using 1(4) less True at ap k by (subst (asm) apply_committed.simps, auto simp: Let_def split: option.splits)+
      have IH: "rn_applied n' = max (rn_applied n + 1) (rn_commit n)
        \<and> rn_machine n' = apply_all st (drop (nat (rn_applied n + 1) + 1) ?es)
        \<and> rn_log n' = rn_log n \<and> rn_commit n' = rn_commit n"
        using 1(1) [OF less refl _ at _ x _ c] ap 1(3) k True by simp
      have "drop k ?es = rn_log n ! k # drop (k + 1) ?es"
        using True k by (simp add: Cons_nth_drop_Suc [symmetric])
      then have "apply_all (rn_machine n) (drop k ?es) = apply_all st (drop (k + 1) ?es)"
        using ap by (simp add: apply_all_def)
      with IH [unfolded k(2)] less k(3) show ?thesis by (simp add: k_def max_def)
    qed
  qed
qed

text \<open>Application is deterministic: two nodes that start from the same machine and hold the same log up
to the commit index reach the same machine when they apply it without an exception, namely the entries
after the applied ones applied in order, and both have applied up to the commit index.\<close>

theorem replicas_agree:
  assumes "apply_committed n = (n', None)" "apply_committed m = (m', None)"
    and "0 \<le> rn_applied n" "rn_applied m = rn_applied n" "rn_commit m = rn_commit n" "rn_machine m = rn_machine n"
    and "take (nat (rn_commit n) + 1) (rn_log m) = take (nat (rn_commit n) + 1) (rn_log n)"
  shows "rn_machine m' = rn_machine n' \<and> rn_applied m' = rn_applied n'
    \<and> rn_applied n' = max (rn_applied n) (rn_commit n)
    \<and> rn_machine n' = apply_all (rn_machine n) (drop (nat (rn_applied n) + 1) (take (nat (rn_commit n) + 1) (rn_log n)))"
  using apply_committed_spec [OF assms(3,1)] apply_committed_spec [of m m'] assms by simp

lemma replicas_agree_witness:
  "\<exists>n' m'. apply_committed (stale_node\<lparr>rn_commit := 1\<rparr>) = (n', None)
     \<and> apply_committed (stale_node\<lparr>rn_id := ''c'', rn_commit := 1\<rparr>) = (m', None) \<and> rn_machine m' = rn_machine n'"
proof -
  obtain n' where n: "apply_committed (stale_node\<lparr>rn_commit := 1\<rparr>) = (n', None)"
    by (simp add: raft_eval stale_node_def initial_committee_def)
  obtain m' where m: "apply_committed (stale_node\<lparr>rn_id := ''c'', rn_commit := 1\<rparr>) = (m', None)"
    by (simp add: raft_eval stale_node_def initial_committee_def)
  from replicas_agree [OF n m] n m show ?thesis
    by (simp add: stale_node_def node_b_def new_node_def)
qed


section \<open>Signatures\<close>

lemma signature_facts:
  shows "verify_signature (sign_entry e secret) secret"
    and "verify_signature e [] \<Longrightarrow> verify_signature f [] \<Longrightarrow> le_signature e = le_signature f \<Longrightarrow>
      (entry_text e = entry_text f \<and> le_author e = le_author f) \<or> (\<exists>x y. collision sha256 x y)"
proof -
  have "signature_of (sign_entry e secret) secret = signature_of e secret"
    by (simp add: signature_of_def sign_entry_def compute_hash_def entry_text_def)
  moreover have "signature_of e secret \<noteq> []"
    by (simp add: signature_of_def)
  ultimately show "verify_signature (sign_entry e secret) secret"
    by (simp add: verify_signature_def) (simp add: sign_entry_def)
next
  assume "verify_signature e []" "verify_signature f []" "le_signature e = le_signature f"
  then have "sha256 (compute_hash e @ '':'' @ le_author e) = sha256 (compute_hash f @ '':'' @ le_author f)"
    by (simp add: verify_signature_def signature_of_def split: if_splits)
  then consider "\<exists>x y. collision sha256 x y" | "compute_hash e @ '':'' @ le_author e = compute_hash f @ '':'' @ le_author f"
    using sha.digest_eqD by blast
  then show "(entry_text e = entry_text f \<and> le_author e = le_author f) \<or> (\<exists>x y. collision sha256 x y)"
  proof cases
    case 2
    then have "compute_hash e = compute_hash f" "le_author e = le_author f"
      unfolding compute_hash_def using sha.append_digest_eq by auto
    then show ?thesis
      unfolding compute_hash_def using sha.digest_eqD by blast
  qed simp
qed

text \<open>A signed entry verifies under the key it was signed with, and two entries that carry the same
verified default signature have the same author and the same signed text, up to a SHA-256 collision. The
default key is the author's public name, so anybody's signature of another's entry verifies as well.\<close>

theorem signature_binds_entry:
  "verify_signature (sign_entry e secret) secret
    \<and> (verify_signature e [] \<longrightarrow> verify_signature f [] \<longrightarrow> le_signature e = le_signature f \<longrightarrow>
      (entry_text e = entry_text f \<and> le_author e = le_author f) \<or> (\<exists>x y. collision sha256 x y))"
  using signature_facts by blast

lemma signature_binds_entry_witness: "verify_signature (sign_entry (sample_entry 1 1 ''a'') []) []"
  using signature_binds_entry by blast


section \<open>Elections\<close>

text \<open>C2: Election safety: in a cluster whose nodes see the same verified members, whatever order requests
are delivered in and however often, a term has at most one elected leader, every elected leader had the
votes of a majority of the members, and two nodes in the leader's role in the same term are one node.\<close>

theorem election_safety:
  assumes "cluster_start M cl0" "cluster_reach M cl0 cl"
  shows "((t, l) \<in> cl_led cl \<longrightarrow> (t, l') \<in> cl_led cl \<longrightarrow> l = l')
    \<and> ((t, l) \<in> cl_led cl \<longrightarrow> won_by_majority M cl t l)
    \<and> (v \<in> M \<longrightarrow> w \<in> M \<longrightarrow> rn_role (cl_node cl v) = Leader \<longrightarrow> rn_role (cl_node cl w) = Leader
        \<longrightarrow> rn_term (cl_node cl v) = rn_term (cl_node cl w) \<longrightarrow> v = w)"
proof -
  have inv: "election_inv M cl"
    using election_inv_reach [OF assms(2) election_inv_start [OF assms(1)]] .
  have led: "leader_inv M cl"
    using leader_inv_reach [OF assms(2) leader_inv_start [OF assms(1)]] .
  show ?thesis
    using election_invD(8,10) [OF inv] led unfolding leader_inv_def by metis
qed

definition trio :: "string set" where
  "trio = {''a'', ''b'', ''c''}"

definition trio_start :: cluster where
  "trio_start = \<lparr>cl_node = (\<lambda>v. new_node v ''0.0000'' 0), cl_votes = {}, cl_led = {}\<rparr>"

definition ask_vote :: vote_args where
  "ask_vote = \<lparr>va_term = 1, va_candidate = ''a'', va_last_index = 0, va_last_term = 0\<rparr>"

definition vote_yes :: vote_reply where
  "vote_yes = \<lparr>vr_term = 1, vr_granted = True, vr_voter = ''b'', vr_reason = None\<rparr>"

definition trio_rpc :: "string \<Rightarrow> vote_args \<Rightarrow> vote_reply option" where
  "trio_rpc p a = (if p = ''b'' \<and> a = ask_vote then Some vote_yes else None)"

definition trio_voted :: cluster where
  "trio_voted = (put_node trio_start ''b'' (fst (handle_request_vote open_env (cl_node trio_start ''b'') ask_vote)))
     \<lparr>cl_votes := {(''b'', 1, ''a'')}\<rparr>"

definition trio_elected :: cluster where
  "trio_elected = (put_node trio_voted ''a'' (fst (start_election open_env trio_rpc (cl_node trio_voted ''a''))))
     \<lparr>cl_votes := {(''b'', 1, ''a''), (''a'', 1, ''a'')}, cl_led := {(1, ''a'')}\<rparr>"

lemma trio_reach: "cluster_start trio trio_start" "cluster_reach trio trio_start trio_elected"
proof -
  show "cluster_start trio trio_start"
    by (auto simp: cluster_start_def trio_def trio_start_def)
  have v: "snd (handle_request_vote open_env (cl_node trio_start ''b'') ask_vote) = Inr vote_yes"
    by (simp add: handle_request_vote_def trio_start_def new_node_def open_env_def ask_vote_def vote_yes_def
        last_log_term_def last_log_index_def genesis_entry_def step_down_def py_index_def)
  have s1: "cluster_step trio trio_start trio_voted"
    using step_vote [of "''b''" trio open_env trio_start ask_vote, OF _ prod.collapse [symmetric]] v
    by (simp add: trio_def trio_voted_def vote_yes_def ask_vote_def) (simp add: trio_start_def)
  have node_a: "cl_node trio_voted ''a'' = new_node ''a'' ''0.0000'' 0"
    by (simp add: trio_voted_def trio_start_def)
  have e: "snd (start_election open_env trio_rpc (cl_node trio_voted ''a'')) = Inr True"
    unfolding node_a
    by (simp add: start_election_def new_node_def open_env_def trio_rpc_def ask_vote_def vote_yes_def quorum_size_def
        verified_peers_def cluster_peers_def last_log_term_def last_log_index_def genesis_entry_def py_index_def)
  have m: "member_env trio open_env ''a''"
    by (auto simp: member_env_def open_env_def trio_def)
  have backed: "\<forall>p a rep. trio_rpc p a = Some rep \<longrightarrow> vr_granted rep \<longrightarrow> (p, va_term a, va_candidate a) \<in> cl_votes trio_voted"
    by (auto simp: trio_rpc_def ask_vote_def trio_voted_def split: if_splits)
  have t: "rn_term (cl_node trio_voted ''a'') = 0"
    unfolding node_a by (simp add: new_node_def)
  have s2: "cluster_step trio trio_voted trio_elected"
    using step_elect [OF _ m prod.collapse [symmetric] backed] e t
    by (simp add: trio_def trio_elected_def insert_commute) (simp add: trio_voted_def trio_start_def put_node_def insert_commute)
  show "cluster_reach trio trio_start trio_elected"
    using cluster_next [OF cluster_next [OF cluster_refl s1] s2] .
qed

lemma election_safety_witness: "won_by_majority trio trio_elected 1 ''a''"
  using election_safety [OF trio_reach, of 1 "''a''"] by (simp add: trio_elected_def)

text \<open>One node can grant two votes in one term: a candidate has voted for itself, an append request of
the same term clears that vote, and the next vote request of the term is granted.\<close>

theorem candidate_votes_twice:
  "\<exists>n1 n2 n3 r2 r3. n1 = fst (start_election open_env (\<lambda>_ _. None) node_b) \<and> rn_term n1 = 1 \<and> rn_voted n1 = Some ''b''
     \<and> handle_append_entries open_env n1 (append_of 1 0 0 [] 0) = (n2, Inr r2)
     \<and> handle_request_vote open_env n2 (ask_vote\<lparr>va_candidate := ''c''\<rparr>) = (n3, Inr r3)
     \<and> vr_granted r3 \<and> vr_term r3 = 1 \<and> rn_voted n3 = Some ''c''"
  by (simp add: raft_eval start_election_def quorum_size_def verified_peers_def cluster_peers_def
      handle_request_vote_def ask_vote_def last_log_term_def)

end
