(* ===== verification/Chaos.thy ===== *)
theory Chaos
  imports Complex_Main Prelude
begin

text \<open>
  The chaos manager (core/chaos.py): the fault rules injected into the mesh, their expiry, and the
  verdict on one communication attempt.

  A float is the rational it denotes; \<open>rnd\<close> rounds the result of a float addition and is arbitrary
  (not-a-number and the infinities are outside the model). The wall clock, the identifier a new rule
  draws and the dice \<open>random.random()\<close> returns, in the order they are thrown, are arguments.
\<close>

section \<open>Rules\<close>

datatype fault_type = Network_Partition | Latency_Spike | Packet_Drop | Node_Isolation | Byzantine_Tamper

fun fault_type_value :: "fault_type \<Rightarrow> string" where
  "fault_type_value Network_Partition = ''NETWORK_PARTITION''"
| "fault_type_value Latency_Spike = ''LATENCY_SPIKE''"
| "fault_type_value Packet_Drop = ''PACKET_DROP''"
| "fault_type_value Node_Isolation = ''NODE_ISOLATION''"
| "fault_type_value Byzantine_Tamper = ''BYZANTINE_TAMPER''"

record fault_rule =
  fr_id :: string
  fr_type :: fault_type
  fr_sources :: "string list"
  fr_targets :: "string list"
  fr_probability :: rat
  fr_latency :: rat
  fr_duration :: "rat option"
  fr_created :: rat
  fr_expires :: "rat option"
  fr_description :: string

text \<open>\<open>current_time or time.time()\<close>: a zero argument is replaced by the wall clock as well.\<close>

definition is_expired :: "fault_rule \<Rightarrow> rat option \<Rightarrow> rat \<Rightarrow> bool" where
  "is_expired r current wall =
     (let now = (case current of None \<Rightarrow> wall | Some c \<Rightarrow> if c = 0 then wall else c)
      in case fr_expires r of None \<Rightarrow> False | Some e \<Rightarrow> now > e)"

type_synonym chaos = "(string, fault_rule) dict"

datatype chaos_error = Rule_Invalid


section \<open>Injecting and clearing\<close>

definition inject_fault ::
    "(rat \<Rightarrow> rat) \<Rightarrow> string \<Rightarrow> rat \<Rightarrow> chaos \<Rightarrow> fault_type \<Rightarrow> string list \<Rightarrow> string list \<Rightarrow> rat \<Rightarrow> rat
       \<Rightarrow> rat option \<Rightarrow> string \<Rightarrow> chaos \<times> (chaos_error + fault_rule)" where
  "inject_fault rnd fresh now ch ty srcs dsts prob latency duration desc =
     (let rule = \<lparr>fr_id = fresh, fr_type = ty, fr_sources = srcs, fr_targets = dsts, fr_probability = prob,
            fr_latency = latency, fr_duration = duration, fr_created = now,
            fr_expires = map_option (\<lambda>d. rnd (now + d)) duration,
            fr_description = (if desc = [] then ''Chaos '' @ fault_type_value ty else desc)\<rparr>
      in if prob < 0 \<or> prob > 1 \<or> latency < 0 then (ch, Inl Rule_Invalid)
         else (dict_put fresh rule ch, Inr rule))"

text \<open>The two injections draw two identifiers and read the clock twice.\<close>

definition create_partition ::
    "(rat \<Rightarrow> rat) \<Rightarrow> string \<times> string \<Rightarrow> rat \<times> rat \<Rightarrow> chaos \<Rightarrow> string list \<Rightarrow> string list \<Rightarrow> rat option
       \<Rightarrow> string \<Rightarrow> chaos \<times> (chaos_error + string list)" where
  "create_partition rnd fresh now ch a b duration desc =
     (case inject_fault rnd (fst fresh) (fst now) ch Network_Partition a b 1 0 duration (desc @ '' (A -> B)'') of
        (ch1, Inl e) \<Rightarrow> (ch1, Inl e)
      | (ch1, Inr r1) \<Rightarrow>
          (case inject_fault rnd (snd fresh) (snd now) ch1 Network_Partition b a 1 0 duration (desc @ '' (B -> A)'') of
             (ch2, Inl e) \<Rightarrow> (ch2, Inl e)
           | (ch2, Inr r2) \<Rightarrow> (ch2, Inr [fr_id r1, fr_id r2])))"

definition isolate_node ::
    "(rat \<Rightarrow> rat) \<Rightarrow> string \<Rightarrow> rat \<Rightarrow> chaos \<Rightarrow> string \<Rightarrow> rat option \<Rightarrow> string
       \<Rightarrow> chaos \<times> (chaos_error + string)" where
  "isolate_node rnd fresh now ch node duration desc =
     (case inject_fault rnd fresh now ch Node_Isolation [node] [] 1 0 duration
             (desc @ '' (node='' @ node @ '')'') of
        (ch1, Inl e) \<Rightarrow> (ch1, Inl e)
      | (ch1, Inr r) \<Rightarrow> (ch1, Inr (fr_id r)))"

definition clear_fault :: "chaos \<Rightarrow> string \<Rightarrow> chaos \<times> bool" where
  "clear_fault ch rid = (dict_pop rid ch, dict_get ch rid \<noteq> None)"

definition clear_all_faults :: "chaos \<Rightarrow> chaos \<times> int" where
  "clear_all_faults ch = ([], int (length ch))"

text \<open>\<open>wall\<close> is the clock read at the start; \<open>is_expired\<close> reads it again only when it is zero.\<close>

definition list_active_faults :: "rat \<Rightarrow> chaos \<Rightarrow> chaos \<times> fault_rule list" where
  "list_active_faults wall ch =
     (let expired = map fst (filter (\<lambda>(rid, r). is_expired r (Some wall) wall) ch);
          active = map snd (filter (\<lambda>(rid, r). \<not> is_expired r (Some wall) wall) ch)
      in (fold dict_pop expired ch, active))"


section \<open>The verdict on a communication attempt\<close>

record traffic =
  tf_blocked :: bool
  tf_latency :: rat
  tf_tampered :: bool

definition rule_applies :: "fault_rule \<Rightarrow> string \<Rightarrow> string \<Rightarrow> bool" where
  "rule_applies r src dst \<longleftrightarrow>
     (fr_sources r = [] \<or> src \<in> set (fr_sources r) \<or> (fr_type r = Node_Isolation \<and> dst \<in> set (fr_sources r)))
     \<and> (fr_targets r = [] \<or> dst \<in> set (fr_targets r))"

text \<open>The loop over the active rules; \<open>k\<close> counts the dice thrown so far.\<close>

fun evaluate_rules ::
    "(rat \<Rightarrow> rat) \<Rightarrow> (nat \<Rightarrow> rat) \<Rightarrow> nat \<Rightarrow> string \<Rightarrow> string \<Rightarrow> rat \<Rightarrow> bool \<Rightarrow> fault_rule list \<Rightarrow> traffic" where
  "evaluate_rules rnd dice k src dst lat tam [] = \<lparr>tf_blocked = False, tf_latency = lat, tf_tampered = tam\<rparr>"
| "evaluate_rules rnd dice k src dst lat tam (r # rs) =
     (if \<not> rule_applies r src dst then evaluate_rules rnd dice k src dst lat tam rs
      else
        (let k' = (if fr_probability r < 1 then Suc k else k)
         in if fr_probability r < 1 \<and> dice k > fr_probability r
            then evaluate_rules rnd dice k' src dst lat tam rs
            else case fr_type r of
                Network_Partition \<Rightarrow> \<lparr>tf_blocked = True, tf_latency = lat, tf_tampered = tam\<rparr>
              | Node_Isolation \<Rightarrow> \<lparr>tf_blocked = True, tf_latency = lat, tf_tampered = tam\<rparr>
              | Packet_Drop \<Rightarrow> \<lparr>tf_blocked = True, tf_latency = lat, tf_tampered = tam\<rparr>
              | Latency_Spike \<Rightarrow> evaluate_rules rnd dice k' src dst (rnd (lat + fr_latency r)) tam rs
              | Byzantine_Tamper \<Rightarrow> evaluate_rules rnd dice k' src dst lat True rs))"

definition evaluate_traffic ::
    "(rat \<Rightarrow> rat) \<Rightarrow> (nat \<Rightarrow> rat) \<Rightarrow> rat \<Rightarrow> chaos \<Rightarrow> string \<Rightarrow> string \<Rightarrow> chaos \<times> traffic" where
  "evaluate_traffic rnd dice wall ch src dst =
     (case list_active_faults wall ch of
        (ch', active) \<Rightarrow>
          (ch', if active = [] then \<lparr>tf_blocked = False, tf_latency = 0, tf_tampered = False\<rparr>
                else evaluate_rules rnd dice 0 src dst 0 False active))"


section \<open>What the rules mean\<close>

text \<open>The reference reading: a rule cuts a link when it is in force, is of a blocking kind and matches.\<close>

definition in_force :: "rat \<Rightarrow> fault_rule \<Rightarrow> bool" where
  "in_force wall r \<longleftrightarrow> (case fr_expires r of None \<Rightarrow> True | Some e \<Rightarrow> wall \<le> e)"

definition blocking :: "fault_rule \<Rightarrow> bool" where
  "blocking r \<longleftrightarrow> fr_type r \<in> {Network_Partition, Node_Isolation, Packet_Drop}"

definition chaos_inv :: "chaos \<Rightarrow> bool" where
  "chaos_inv ch \<longleftrightarrow> dict_wf ch \<and> (\<forall>rid r. dict_get ch rid = Some r \<longrightarrow>
     fr_id r = rid \<and> 0 \<le> fr_probability r \<and> fr_probability r \<le> 1 \<and> 0 \<le> fr_latency r)"

lemma is_expired_in_force [simp]: "is_expired r (Some wall) wall \<longleftrightarrow> \<not> in_force wall r"
  by (auto simp: is_expired_def in_force_def Let_def split: option.splits)

lemma chaos_inv_Nil [simp]: "chaos_inv []"
  by (simp add: chaos_inv_def)

lemma chaos_inv_pop_all: "chaos_inv ch \<Longrightarrow> chaos_inv (fold dict_pop ks ch)"
  by (auto simp: chaos_inv_def py_dict.get_pop_all intro: py_dict.invar_pop_all)

lemma inject_fault_ok:
  assumes "inject_fault rnd fresh now ch ty srcs dsts prob latency duration desc = (ch', Inr r)"
  shows "ch' = dict_put fresh r ch" "fr_id r = fresh" "fr_type r = ty" "fr_sources r = srcs" "fr_targets r = dsts"
    "fr_probability r = prob" "fr_expires r = map_option (\<lambda>d. rnd (now + d)) duration"
    "0 \<le> prob" "prob \<le> 1" "0 \<le> latency" "fr_latency r = latency"
  using assms by (auto simp: inject_fault_def Let_def split: if_splits)

lemma inject_fault_error:
  "inject_fault rnd fresh now ch ty srcs dsts prob latency duration desc = (ch', Inl e) \<Longrightarrow> ch' = ch"
  by (auto simp: inject_fault_def Let_def split: if_splits)

lemma chaos_inv_inject:
  assumes "chaos_inv ch"
  shows "chaos_inv (fst (inject_fault rnd fresh now ch ty srcs dsts prob latency duration desc))"
  using assms by (auto simp: chaos_inv_def inject_fault_def Let_def)

lemma chaos_inv_list: "chaos_inv ch \<Longrightarrow> chaos_inv (fst (list_active_faults wall ch))"
  by (simp add: list_active_faults_def Let_def chaos_inv_pop_all)

lemma in_expired_keys:
  assumes "dict_wf ch"
  shows "rid \<in> set (map fst (filter (\<lambda>(rid, r). \<not> in_force wall r) ch)) \<longleftrightarrow>
    (\<exists>r. dict_get ch rid = Some r \<and> \<not> in_force wall r)"
  using assms by (force dest: dict_get_Some_in intro: dict_get_in)

text \<open>Pruning removes exactly the rules that expired, and the active rules are the others.\<close>

lemma list_active_get:
  assumes "chaos_inv ch"
  shows "dict_get (fst (list_active_faults wall ch)) rid =
    (case dict_get ch rid of Some r \<Rightarrow> if in_force wall r then Some r else None | None \<Rightarrow> None)"
proof -
  have wf: "dict_wf ch" using assms by (simp add: chaos_inv_def)
  show ?thesis
    unfolding list_active_faults_def Let_def is_expired_in_force fst_conv py_dict.get_pop_all in_expired_keys [OF wf]
    by (auto split: option.splits)
qed

lemma list_active_set:
  assumes "chaos_inv ch"
  shows "r \<in> set (snd (list_active_faults wall ch)) \<longleftrightarrow> (\<exists>rid. dict_get ch rid = Some r) \<and> in_force wall r"
proof -
  have wf: "dict_wf ch" using assms by (simp add: chaos_inv_def)
  have "(\<exists>rid. (rid, r) \<in> set ch) \<longleftrightarrow> (\<exists>rid. dict_get ch rid = Some r)"
    using wf by (auto dest: dict_get_Some_in intro: dict_get_in)
  then show ?thesis
    by (force simp: list_active_faults_def Let_def)
qed

text \<open>A certain rule of a blocking kind that matches always blocks, and nothing blocks without one.\<close>

lemma evaluate_rules_blocks:
  "r \<in> set rs \<Longrightarrow> blocking r \<Longrightarrow> rule_applies r src dst \<Longrightarrow> fr_probability r \<ge> 1 \<Longrightarrow>
     tf_blocked (evaluate_rules rnd dice k src dst lat tam rs)"
proof (induction rs arbitrary: k lat tam)
  case (Cons q rs)
  show ?case
  proof (cases "q = r")
    case True
    with Cons.prems show ?thesis by (cases "fr_type r") (auto simp: blocking_def)
  next
    case False
    with Cons show ?thesis by (auto simp: Let_def split: fault_type.split)
  qed
qed simp

lemma evaluate_rules_blocked:
  "tf_blocked (evaluate_rules rnd dice k src dst lat tam rs) \<Longrightarrow>
     \<exists>r \<in> set rs. blocking r \<and> rule_applies r src dst"
proof (induction rs arbitrary: k lat tam)
  case (Cons q rs)
  then show ?case
    by (cases "rule_applies q src dst"; cases "fr_type q") (auto simp: Let_def blocking_def split: if_splits)
qed simp

lemma evaluate_traffic_blocks:
  assumes "chaos_inv ch" "dict_get ch rid = Some r" "in_force wall r" "blocking r" "rule_applies r src dst"
    "fr_probability r \<ge> 1"
  shows "tf_blocked (snd (evaluate_traffic rnd dice wall ch src dst))"
proof -
  have r: "r \<in> set (snd (list_active_faults wall ch))"
    using assms(2,3) list_active_set [OF assms(1)] by blast
  then have "snd (list_active_faults wall ch) \<noteq> []" by auto
  with evaluate_rules_blocks [OF r assms(4-6)] show ?thesis
    by (simp add: evaluate_traffic_def split: prod.split) (metis snd_conv)
qed

lemma evaluate_traffic_blocked:
  assumes "chaos_inv ch" "tf_blocked (snd (evaluate_traffic rnd dice wall ch src dst))"
  obtains rid r where "dict_get ch rid = Some r" "in_force wall r" "blocking r" "rule_applies r src dst"
proof -
  from assms(2) have "tf_blocked (evaluate_rules rnd dice 0 src dst 0 False (snd (list_active_faults wall ch)))"
    by (auto simp: evaluate_traffic_def split: prod.splits if_splits)
  from evaluate_rules_blocked [OF this] list_active_set [OF assms(1)] that show thesis by blast
qed

lemma fst_evaluate_traffic: "fst (evaluate_traffic rnd dice wall ch src dst) = fst (list_active_faults wall ch)"
  by (simp add: evaluate_traffic_def split: prod.split)

text \<open>
  Evaluating prunes: what was pruned at one time is not in force later either, so earlier evaluations
  do not change a later verdict.
\<close>

lemma in_force_earlier: "in_force w' r \<Longrightarrow> w \<le> w' \<Longrightarrow> in_force w r"
  by (auto simp: in_force_def split: option.splits)

lemma dict_pop_all_filter: "fold dict_pop ks ch = filter (\<lambda>kv. fst kv \<notin> set ks) ch"
proof (induction ks arbitrary: ch)
  case (Cons k ks)
  then show ?case
    by (simp add: dict_pop_def)
qed simp

lemma prune_filter:
  assumes "chaos_inv ch"
  shows "fst (list_active_faults wall ch) = filter (\<lambda>(rid, r). in_force wall r) ch"
proof -
  have wf: "dict_wf ch" using assms by (simp add: chaos_inv_def)
  have "fst kv \<notin> set (map fst (filter (\<lambda>(rid, r). \<not> in_force wall r) ch)) \<longleftrightarrow> in_force wall (snd kv)"
    if "kv \<in> set ch" for kv
    unfolding in_expired_keys [OF wf] using dict_get_in [OF wf, of "fst kv" "snd kv"] that by simp
  then have "filter (\<lambda>kv. fst kv \<notin> set (map fst (filter (\<lambda>(rid, r). \<not> in_force wall r) ch))) ch
      = filter (\<lambda>kv. in_force wall (snd kv)) ch"
    by (intro filter_cong [OF refl])
  then show ?thesis
    unfolding list_active_faults_def Let_def is_expired_in_force fst_conv dict_pop_all_filter
    by (simp add: case_prod_unfold)
qed

lemma evaluate_traffic_after_prune:
  assumes "chaos_inv ch" "w \<le> w'"
  shows "snd (evaluate_traffic rnd dice w' (fst (list_active_faults w ch)) src dst) =
    snd (evaluate_traffic rnd dice w' ch src dst)"
proof -
  have "filter (\<lambda>(rid, r). in_force w' r) (filter (\<lambda>(rid, r). in_force w r) ch) =
      filter (\<lambda>(rid, r). in_force w' r) ch"
    using in_force_earlier [OF _ assms(2)] by (auto intro!: filter_cong)
  then show ?thesis
    by (simp add: evaluate_traffic_def list_active_faults_def Let_def prune_filter [OF assms(1), unfolded list_active_faults_def Let_def fst_conv, simplified])
qed

end
