(* ===== verification/Mesh.thy ===== *)
theory Mesh
  imports Chaos Raft_Safety
begin

text \<open>
  The committee over a faulty mesh: the Raft node consults the chaos manager before it sends and before
  it answers. The interface between the two is \<open>link_layer\<close>: some link state says which links it cuts
  and which attempts it blocks; the Raft lemmas need nothing else.
\<close>

section \<open>The node behind blocked links\<close>

locale link_layer =
  fixes blocked :: "'s \<Rightarrow> string \<Rightarrow> string \<Rightarrow> string \<Rightarrow> bool"
    and cut :: "'s \<Rightarrow> string set \<Rightarrow> string set \<Rightarrow> bool"
  assumes cut_blocks: "cut s A B \<Longrightarrow> a \<in> A \<Longrightarrow> b \<in> B \<Longrightarrow> blocked s a b rpc"
    and cut_sym: "cut s A B \<Longrightarrow> cut s B A"
begin

lemma vote_not_sent:
  "cut s A B \<Longrightarrow> re_blocked env = blocked s \<Longrightarrow> nid \<in> A \<Longrightarrow> p \<in> B \<Longrightarrow> send_request_vote env disp nid p a = None"
  by (simp add: send_request_vote_def cut_blocks)

lemma append_not_sent:
  "cut s A B \<Longrightarrow> re_blocked env = blocked s \<Longrightarrow> nid \<in> A \<Longrightarrow> p \<in> B \<Longrightarrow> send_append_entries env disp nid p a = None"
  by (simp add: send_append_entries_def cut_blocks)

text \<open>A request that got through the outbound check anyway leaves the receiver as it was.\<close>

lemma cut_vote_ignored:
  assumes "cut s A B" "re_blocked env = blocked s" "va_candidate a \<in> A" "rn_id n \<in> B"
  shows "fst (handle_request_vote env n a) = n"
  using assms by (simp add: handle_request_vote_def cut_blocks)

lemma cut_append_ignored:
  assumes "cut s A B" "re_blocked env = blocked s" "aa_leader a \<in> A" "rn_id n \<in> B"
  shows "fst (handle_append_entries env n a) = n"
  using assms by (simp add: handle_append_entries_def cut_blocks)

end


section \<open>How many answers a round needs\<close>

lemma filter_length_mono: "(\<And>x. x \<in> set xs \<Longrightarrow> p x \<Longrightarrow> q x) \<Longrightarrow> length (filter p xs) \<le> length (filter q xs)"
  by (induction xs) auto

lemma election_needs_answers:
  assumes "start_election env rpc n = (n', r)"
    and "int (length (filter (\<lambda>p. \<exists>a. rpc p a \<noteq> None) (verified_peers env n))) + 1 < quorum_size env n"
  shows "r \<noteq> Inr True \<and> rn_role n' \<noteq> Leader"
proof -
  have "r \<noteq> Inr True"
    using assms(1)
  proof (cases rule: start_election_cases)
    case (won args)
    have "length (filter (\<lambda>p. \<exists>r. rpc p args = Some r \<and> vr_granted r) (verified_peers env n))
        \<le> length (filter (\<lambda>p. \<exists>a. rpc p a \<noteq> None) (verified_peers env n))"
      by (intro filter_length_mono) force
    with won(8) assms(2) show ?thesis by linarith
  qed simp
  with start_election_not_won [OF assms(1)] show ?thesis by blast
qed

definition loop_acks :: "raft_node \<Rightarrow> int \<Rightarrow> propose_loop_result \<Rightarrow> bool" where
  "loop_acks n k res = (case res of
     Loop_Done n' acks \<Rightarrow> acks \<le> k \<and> rn_commit n' = rn_commit n \<and> rn_applied n' = rn_applied n \<and> rn_machine n' = rn_machine n
   | Loop_Raised n' _ \<Rightarrow> rn_commit n' = rn_commit n \<and> rn_applied n' = rn_applied n \<and> rn_machine n' = rn_machine n
   | Loop_Stepped_Down n' \<Rightarrow> rn_commit n' = rn_commit n \<and> rn_applied n' = rn_applied n \<and> rn_machine n' = rn_machine n)"

lemma loop_acks_weaken: "loop_acks m k res \<Longrightarrow> k \<le> k' \<Longrightarrow> rn_commit m = rn_commit n \<Longrightarrow> rn_applied m = rn_applied n
    \<Longrightarrow> rn_machine m = rn_machine n \<Longrightarrow> loop_acks n k' res"
  by (auto simp: loop_acks_def split: propose_loop_result.splits)

lemma replicate_loop_acks:
  "loop_acks n (acks + int (length (filter (\<lambda>p. \<exists>a. rpc p a \<noteq> None) ps))) (replicate_loop env rpc k acks n ps)"
proof (induction ps arbitrary: acks n)
  case Nil
  then show ?case by (simp add: loop_acks_def)
next
  case (Cons p ps)
  let ?prev = "dict_get_default (rn_next n) p k - 1"
  let ?pt = "if ?prev < int (length (rn_log n)) then map_option le_term (py_index (rn_log n) ?prev) else Some 0"
  show ?case
  proof (cases ?pt)
    case None
    then show ?thesis by (simp add: Let_def loop_acks_def)
  next
    case (Some pt)
    let ?a = "\<lparr>aa_term = rn_term n, aa_leader = rn_id n, aa_prev_index = ?prev, aa_prev_term = pt,
                aa_entries = py_suffix (rn_log n) (?prev + 1), aa_commit = rn_commit n\<rparr>"
    show ?thesis
    proof (cases "rpc p ?a")
      case None
      with Some show ?thesis
        by (auto simp: Let_def intro!: loop_acks_weaken [OF Cons.IH])
    next
      case (Some r)
      then have "\<exists>a. rpc p a \<noteq> None" by force
      with \<open>?pt = Some pt\<close> Some show ?thesis
        by (auto simp: Let_def loop_acks_def [of _ _ "Loop_Stepped_Down _"] intro!: loop_acks_weaken [OF Cons.IH])
    qed
  qed
qed

lemma proposal_needs_answers:
  assumes "propose_entry env rpc time n ty p author = (n', r)"
    and "int (length (filter (\<lambda>p. \<exists>a. rpc p a \<noteq> None) (verified_peers env n))) + 1 < quorum_size env n"
  shows "(\<forall>res. r = Inr res \<longrightarrow> \<not> pr_ok res) \<and> rn_commit n' = rn_commit n \<and> rn_applied n' = rn_applied n
    \<and> rn_machine n' = rn_machine n"
proof -
  have same: "verified_peers env (n\<lparr>rn_log := l\<rparr>) = verified_peers env n" "quorum_size env (n\<lparr>rn_log := l\<rparr>) = quorum_size env n" for l
    by (simp_all add: quorum_size_def verified_peers_def cluster_peers_def)
  have acks: "loop_acks n (1 + int (length (filter (\<lambda>p. \<exists>a. rpc p a \<noteq> None) (verified_peers env n))))
      (replicate_loop env rpc k 1 (n\<lparr>rn_log := l\<rparr>) (verified_peers env n))" for k l
    by (rule loop_acks_weaken [OF replicate_loop_acks]) auto
  show ?thesis
  proof (cases "rn_role n = Leader")
    case False
    with assms(1) show ?thesis by (auto simp: propose_entry_def)
  next
    case True
    define who where "who = (case author of None \<Rightarrow> rn_id n | Some a \<Rightarrow> if a = [] then rn_id n else a)"
    define entry where "entry = sign_entry \<lparr>le_index = int (length (rn_log n)), le_term = rn_term n, le_type = ty, le_author = who,
                        le_payload = p, le_signature = [], le_timestamp = time\<rparr> []"
    obtain res where res: "replicate_loop env rpc (int (length (rn_log n))) 1 (n\<lparr>rn_log := rn_log n @ [entry]\<rparr>) (verified_peers env n) = res"
      by simp
    note a = acks [of "int (length (rn_log n))" "rn_log n @ [entry]", unfolded res]
    show ?thesis
      using assms a True res
      by (cases res) (auto simp: propose_entry_def Let_def who_def [symmetric] entry_def [symmetric] same loop_acks_def
          split: if_splits)
  qed
qed

text \<open>A client of the interface: the side of a cut that has no quorum decides nothing.\<close>

context link_layer
begin

lemma answering_side:
  assumes "cut s A B" "re_blocked env = blocked s" "rn_id n \<in> A" "set (verified_peers env n) \<subseteq> A \<union> B"
  shows "length (filter (\<lambda>p. \<exists>a. send_request_vote env disp (rn_id n) p a \<noteq> None) (verified_peers env n))
      \<le> length (filter (\<lambda>p. p \<in> A) (verified_peers env n))"
    and "length (filter (\<lambda>p. \<exists>a. send_append_entries env disp' (rn_id n) p a \<noteq> None) (verified_peers env n))
      \<le> length (filter (\<lambda>p. p \<in> A) (verified_peers env n))"
  using assms vote_not_sent [OF assms(1-3)] append_not_sent [OF assms(1-3)]
  by (auto intro!: filter_length_mono)

lemma minority_loses:
  assumes "cut s A B" "re_blocked env = blocked s" "rn_id n \<in> A" "set (verified_peers env n) \<subseteq> A \<union> B"
    and "int (length (filter (\<lambda>p. p \<in> A) (verified_peers env n))) + 1 < quorum_size env n"
    and "start_election env (send_request_vote env disp (rn_id n)) n = (n', r)"
  shows "r \<noteq> Inr True \<and> rn_role n' \<noteq> Leader"
  by (rule election_needs_answers [OF assms(6)]) (use answering_side(1) [OF assms(1-4), of disp] assms(5) in linarith)

lemma minority_commits_nothing:
  assumes "cut s A B" "re_blocked env = blocked s" "rn_id n \<in> A" "set (verified_peers env n) \<subseteq> A \<union> B"
    and "int (length (filter (\<lambda>p. p \<in> A) (verified_peers env n))) + 1 < quorum_size env n"
    and "propose_entry env (send_append_entries env disp (rn_id n)) time n ty p author = (n', r)"
  shows "(\<forall>res. r = Inr res \<longrightarrow> \<not> pr_ok res) \<and> rn_commit n' = rn_commit n \<and> rn_applied n' = rn_applied n
    \<and> rn_machine n' = rn_machine n"
  by (rule proposal_needs_answers [OF assms(6)]) (use answering_side(2) [OF assms(1-4), of disp] assms(5) in linarith)

end


section \<open>The chaos manager is such a link layer\<close>

text \<open>
  The manager as the node sees it: its rules, and for every attempt the dice and the clock. Each attempt
  is judged on the rules as injected: pruning in between makes no difference
  (lemma \<open>evaluate_traffic_after_prune\<close>).
\<close>

record link_state =
  lk_rules :: chaos
  lk_rnd :: "rat \<Rightarrow> rat"
  lk_dice :: "string \<Rightarrow> string \<Rightarrow> string \<Rightarrow> nat \<Rightarrow> rat"
  lk_wall :: "string \<Rightarrow> string \<Rightarrow> string \<Rightarrow> rat"

definition link_blocked :: "link_state \<Rightarrow> string \<Rightarrow> string \<Rightarrow> string \<Rightarrow> bool" where
  "link_blocked lk src dst rpc = tf_blocked (snd
     (evaluate_traffic (lk_rnd lk) (lk_dice lk src dst rpc) (lk_wall lk src dst rpc) (lk_rules lk) src dst))"

definition one_way_cut :: "link_state \<Rightarrow> string set \<Rightarrow> string set \<Rightarrow> bool" where
  "one_way_cut lk A B \<longleftrightarrow> (\<exists>rid r. dict_get (lk_rules lk) rid = Some r \<and> blocking r \<and> fr_probability r \<ge> 1 \<and>
     (\<forall>s d rpc. in_force (lk_wall lk s d rpc) r) \<and> (\<forall>a \<in> A. \<forall>b \<in> B. rule_applies r a b))"

definition link_cut :: "link_state \<Rightarrow> string set \<Rightarrow> string set \<Rightarrow> bool" where
  "link_cut lk A B \<longleftrightarrow> chaos_inv (lk_rules lk) \<and> one_way_cut lk A B \<and> one_way_cut lk B A"

lemma one_way_cut_blocks:
  "chaos_inv (lk_rules lk) \<Longrightarrow> one_way_cut lk A B \<Longrightarrow> a \<in> A \<Longrightarrow> b \<in> B \<Longrightarrow> link_blocked lk a b rpc"
  unfolding one_way_cut_def link_blocked_def by (meson evaluate_traffic_blocks)

interpretation chaos_links: link_layer link_blocked link_cut
  by unfold_locales (auto simp: link_cut_def one_way_cut_blocks)

lemma create_partition_ok:
  assumes "create_partition rnd fresh now ch a b duration desc = (ch', res)"
  obtains r1 r2 where "res = Inr [fst fresh, snd fresh]"
    "ch' = dict_put (snd fresh) r2 (dict_put (fst fresh) r1 ch)"
    "fr_type r1 = Network_Partition" "fr_sources r1 = a" "fr_targets r1 = b" "fr_probability r1 = 1"
    "fr_expires r1 = map_option (\<lambda>d. rnd (fst now + d)) duration" "fr_id r1 = fst fresh"
    "fr_type r2 = Network_Partition" "fr_sources r2 = b" "fr_targets r2 = a" "fr_probability r2 = 1"
    "fr_expires r2 = map_option (\<lambda>d. rnd (snd now + d)) duration" "fr_id r2 = snd fresh"
  using assms unfolding create_partition_def inject_fault_def Let_def
  by (auto split: if_splits)

lemma chaos_inv_partition:
  "chaos_inv ch \<Longrightarrow> chaos_inv (fst (create_partition rnd fresh now ch a b duration desc))"
  using chaos_inv_inject by (auto simp: create_partition_def split: prod.splits sum.splits) (metis fst_conv)+

end
