(* ===== verification/Mesh_Properties.thy ===== *)
theory Mesh_Properties
  imports Mesh
begin

text \<open>The properties of the chaos manager and of the committee behind it.\<close>

section \<open>Partitions\<close>

definition lasting :: "(rat \<Rightarrow> rat) \<Rightarrow> rat \<times> rat \<Rightarrow> rat option \<Rightarrow> rat \<Rightarrow> bool" where
  "lasting rnd now duration wall = (case duration of None \<Rightarrow> True
     | Some d \<Rightarrow> wall \<le> rnd (fst now + d) \<and> wall \<le> rnd (snd now + d))"

text \<open>A partition cuts exactly the links between its sides, in both directions, for as long as it
lasts: in a manager whose other rules only delay or tamper, an attempt is blocked if and only if one end
is on one side and the other end on the other.\<close>

theorem partition_blocks_exactly:
  assumes "chaos_inv ch" "\<forall>rid r. dict_get ch rid = Some r \<longrightarrow> \<not> blocking r"
    and "create_partition rnd fresh now ch a b duration desc = (ch', Inr ids)"
    and "fst fresh \<noteq> snd fresh" "a \<noteq> []" "b \<noteq> []" "lasting rnd now duration wall"
  shows "tf_blocked (snd (evaluate_traffic rnd' dice wall ch' src dst)) \<longleftrightarrow>
    (src \<in> set a \<and> dst \<in> set b) \<or> (src \<in> set b \<and> dst \<in> set a)"
proof -
  from assms(3) obtain r1 r2 where
    ch': "ch' = dict_put (snd fresh) r2 (dict_put (fst fresh) r1 ch)"
    and r1: "fr_type r1 = Network_Partition" "fr_sources r1 = a" "fr_targets r1 = b" "fr_probability r1 = 1"
      "fr_expires r1 = map_option (\<lambda>d. rnd (fst now + d)) duration"
    and r2: "fr_type r2 = Network_Partition" "fr_sources r2 = b" "fr_targets r2 = a" "fr_probability r2 = 1"
      "fr_expires r2 = map_option (\<lambda>d. rnd (snd now + d)) duration"
    by (rule create_partition_ok)
  have inv: "chaos_inv ch'"
    using chaos_inv_partition [OF assms(1), of rnd fresh now a b duration desc] assms(3) by simp
  have at: "dict_get ch' (fst fresh) = Some r1" "dict_get ch' (snd fresh) = Some r2"
    using ch' assms(4) by simp_all
  have live: "in_force wall r1" "in_force wall r2"
    using assms(7) r1(5) r2(5) by (auto simp: in_force_def lasting_def split: option.splits)
  have app: "rule_applies r1 src dst \<longleftrightarrow> src \<in> set a \<and> dst \<in> set b" "rule_applies r2 src dst \<longleftrightarrow> src \<in> set b \<and> dst \<in> set a"
    using assms(5,6) r1 r2 by (simp_all add: rule_applies_def)
  show ?thesis
  proof
    assume "tf_blocked (snd (evaluate_traffic rnd' dice wall ch' src dst))"
    then obtain rid r where r: "dict_get ch' rid = Some r" "blocking r" "rule_applies r src dst"
      using evaluate_traffic_blocked [OF inv] by metis
    then have "r = r1 \<or> r = r2"
      using ch' assms(2) by (auto split: if_splits)
    with r(3) app show "(src \<in> set a \<and> dst \<in> set b) \<or> (src \<in> set b \<and> dst \<in> set a)" by auto
  next
    assume "(src \<in> set a \<and> dst \<in> set b) \<or> (src \<in> set b \<and> dst \<in> set a)"
    with evaluate_traffic_blocks [OF inv at(1) live(1)] evaluate_traffic_blocks [OF inv at(2) live(2)] r1 r2 app
    show "tf_blocked (snd (evaluate_traffic rnd' dice wall ch' src dst))"
      by (auto simp: blocking_def)
  qed
qed

definition split_mesh :: chaos where
  "split_mesh = fst (create_partition id (''r1'', ''r2'') (5, 5) [] [''a''] [''b'', ''c''] (Some 60) ''split'')"

lemma partition_blocks_exactly_witness:
  "tf_blocked (snd (evaluate_traffic id (\<lambda>_. 0) 10 split_mesh ''b'' ''a''))
     \<and> \<not> tf_blocked (snd (evaluate_traffic id (\<lambda>_. 0) 10 split_mesh ''b'' ''c''))"
proof -
  have c: "create_partition id (''r1'', ''r2'') (5, 5) [] [''a''] [''b'', ''c''] (Some 60) ''split'' =
      (split_mesh, Inr [''r1'', ''r2''])"
    by (simp add: split_mesh_def create_partition_def inject_fault_def Let_def)
  note p = partition_blocks_exactly [OF chaos_inv_Nil _ c, of 10 id "\<lambda>_. 0"]
  show ?thesis
    using p [of "''b''" "''a''"] p [of "''b''" "''c''"] by (simp add: lasting_def)
qed


section \<open>Consensus over a partitioned mesh\<close>

text \<open>The link state of a manager right after a partition was created.\<close>

definition partitioned :: "link_state \<Rightarrow> string \<times> string \<Rightarrow> rat \<times> rat \<Rightarrow> string list \<Rightarrow> string list \<Rightarrow> rat option \<Rightarrow> link_state" where
  "partitioned lk fresh now a b duration =
     lk\<lparr>lk_rules := fst (create_partition (lk_rnd lk) fresh now (lk_rules lk) a b duration ''Split-brain network partition'')\<rparr>"

lemma partitioned_cut:
  assumes "chaos_inv (lk_rules lk)" "fst fresh \<noteq> snd fresh" "\<forall>s d rpc. lasting (lk_rnd lk) now duration (lk_wall lk s d rpc)"
  shows "link_cut (partitioned lk fresh now a b duration) (set a) (set b)"
proof -
  obtain ch' res where c: "create_partition (lk_rnd lk) fresh now (lk_rules lk) a b duration ''Split-brain network partition'' = (ch', res)"
    by fastforce
  from c obtain r1 r2 where
    ch': "ch' = dict_put (snd fresh) r2 (dict_put (fst fresh) r1 (lk_rules lk))"
    and r1: "fr_type r1 = Network_Partition" "fr_sources r1 = a" "fr_targets r1 = b" "fr_probability r1 = 1"
      "fr_expires r1 = map_option (\<lambda>d. lk_rnd lk (fst now + d)) duration"
    and r2: "fr_type r2 = Network_Partition" "fr_sources r2 = b" "fr_targets r2 = a" "fr_probability r2 = 1"
      "fr_expires r2 = map_option (\<lambda>d. lk_rnd lk (snd now + d)) duration"
    by (rule create_partition_ok)
  have lk: "lk_rules (partitioned lk fresh now a b duration) = ch'" "lk_wall (partitioned lk fresh now a b duration) = lk_wall lk"
    by (simp_all add: partitioned_def c)
  have live: "in_force (lk_wall lk s d rpc) r1" "in_force (lk_wall lk s d rpc) r2" for s d rpc
    using assms(3) r1(5) r2(5) by (auto simp: in_force_def lasting_def split: option.splits)
  have at: "dict_get ch' (fst fresh) = Some r1" "dict_get ch' (snd fresh) = Some r2"
    using ch' assms(2) by simp_all
  have "chaos_inv ch'"
    using chaos_inv_partition [OF assms(1), of "lk_rnd lk" fresh now a b duration "''Split-brain network partition''"] c by simp
  moreover have "\<exists>rid r. dict_get ch' rid = Some r \<and> blocking r \<and> fr_probability r \<ge> 1
      \<and> (\<forall>s d rpc. in_force (lk_wall lk s d rpc) r) \<and> (\<forall>x \<in> set a. \<forall>y \<in> set b. rule_applies r x y)"
    by (intro exI [of _ "fst fresh"] exI [of _ r1]) (use at live r1 in \<open>simp add: blocking_def rule_applies_def\<close>)
  moreover have "\<exists>rid r. dict_get ch' rid = Some r \<and> blocking r \<and> fr_probability r \<ge> 1
      \<and> (\<forall>s d rpc. in_force (lk_wall lk s d rpc) r) \<and> (\<forall>x \<in> set b. \<forall>y \<in> set a. rule_applies r x y)"
    by (intro exI [of _ "snd fresh"] exI [of _ r2]) (use at live r2 in \<open>simp add: blocking_def rule_applies_def\<close>)
  ultimately show ?thesis
    unfolding link_cut_def one_way_cut_def lk by blast
qed

text \<open>C20: The side of a partition without a quorum elects nobody and gets no proposal through: while the partition
lasts, a node all of whose attested peers are on one of the two sides, and whose attested peers on its own side and
itself are fewer than the quorum, does not become leader by an election it starts, and a proposal it makes fails and
moves neither its commit index nor its applied state, whatever the dispatcher returns. This is about what the node
starts itself. What it accepts from others is not covered: as a follower it still takes over the commit index of a
heartbeat, unverified entries included.\<close>

theorem minority_elections_and_proposals_fail:
  assumes "chaos_inv (lk_rules lk)" "fst fresh \<noteq> snd fresh"
    and "\<forall>s d rpc. lasting (lk_rnd lk) now duration (lk_wall lk s d rpc)"
    and "re_blocked env = link_blocked (partitioned lk fresh now a b duration)"
    and "rn_id n \<in> set a" "set (verified_peers env n) \<subseteq> set a \<union> set b"
    and "int (length (filter (\<lambda>p. p \<in> set a) (verified_peers env n))) + 1 < quorum_size env n"
    and "start_election env (send_request_vote env votes (rn_id n)) n = (n1, r1)"
    and "propose_entry env (send_append_entries env appends (rn_id n)) time n ty payload author = (n2, r2)"
  shows "r1 \<noteq> Inr True \<and> rn_role n1 \<noteq> Leader
    \<and> (\<forall>res. r2 = Inr res \<longrightarrow> \<not> pr_ok res) \<and> rn_commit n2 = rn_commit n \<and> rn_machine n2 = rn_machine n"
  using chaos_links.minority_loses [OF partitioned_cut [OF assms(1-3)] assms(4-8)]
    chaos_links.minority_commits_nothing [OF partitioned_cut [OF assms(1-3)] assms(4-7,9)]
  by blast

definition quiet_links :: link_state where
  "quiet_links = \<lparr>lk_rules = [], lk_rnd = id, lk_dice = (\<lambda>_ _ _ _. 0), lk_wall = (\<lambda>_ _ _. 10)\<rparr>"

definition split_links :: link_state where
  "split_links = partitioned quiet_links (''r1'', ''r2'') (5, 5) [''a''] [''b'', ''c''] (Some 60)"

definition split_env :: raft_env where
  "split_env = \<lparr>re_peers = [''a'', ''b'', ''c''], re_attested = (\<lambda>_. True), re_blocked = link_blocked split_links,
     re_now = 0\<rparr>"

lemma minority_elections_and_proposals_fail_witness:
  "snd (start_election split_env (send_request_vote split_env
      (\<lambda>p v. Some \<lparr>vr_term = va_term v, vr_granted = True, vr_voter = p, vr_reason = None\<rparr>) ''a'')
      (new_node ''a'' ''0.0000'' 0)) \<noteq> Inr True"
proof -
  let ?n = "new_node ''a'' ''0.0000'' 0"
  let ?votes = "\<lambda>p v. Some \<lparr>vr_term = va_term v, vr_granted = True, vr_voter = p, vr_reason = None\<rparr>"
  have id: "rn_id ?n = ''a''" by (simp add: new_node_def)
  have v: "verified_peers split_env ?n = [''b'', ''c'']" "quorum_size split_env ?n = 2"
    by (simp_all add: verified_peers_def cluster_peers_def quorum_size_def split_env_def new_node_def)
  obtain n1 r1 where e: "start_election split_env (send_request_vote split_env ?votes (rn_id ?n)) ?n = (n1, r1)"
    by fastforce
  obtain n2 r2 where p: "propose_entry split_env (send_append_entries split_env (\<lambda>_ _. None) (rn_id ?n)) ''1.0000'' ?n
      Critique_Score [] None = (n2, r2)"
    by fastforce
  have "r1 \<noteq> Inr True"
    using minority_elections_and_proposals_fail [of quiet_links "(''r1'', ''r2'')" "(5, 5)" "Some 60" split_env "[''a'']"
        "[''b'', ''c'']" ?n, OF _ _ _ _ _ _ _ e p] v id
    by (simp add: quiet_links_def lasting_def split_env_def split_links_def)
  with e id show ?thesis by simp
qed


section \<open>Enough votes elect\<close>

lemma collect_votes_wins:
  assumes "\<forall>p \<in> set ps. \<forall>r. rpc p = Some r \<longrightarrow> vr_term r \<le> rn_term n" "rn_role n = Candidate" "v < q"
    and "q \<le> v + int (length (filter (\<lambda>p. \<exists>r. rpc p = Some r \<and> vr_granted r) ps))"
  shows "collect_votes env rpc q v n ps = (become_leader env n, True)"
  using assms
proof (induction ps arbitrary: v)
  case (Cons p ps)
  show ?case
  proof (cases "\<exists>r. rpc p = Some r \<and> vr_granted r")
    case True
    then obtain r where r: "rpc p = Some r" "vr_granted r" by blast
    with Cons.prems have le: "\<not> vr_term r > rn_term n" by auto
    show ?thesis
    proof (cases "v + 1 \<ge> q")
      case True
      with r le Cons.prems(2) show ?thesis by simp
    next
      case False
      with Cons.IH [of "v + 1"] Cons.prems r le show ?thesis by simp
    qed
  next
    case False
    with Cons.IH [of v] Cons.prems show ?thesis by (auto split: option.splits)
  qed
qed simp

text \<open>An election with a quorum succeeds: if the node's log is not empty, no answer carries a term above
the new one, and the granted votes with the node's own reach the quorum, the node is the leader of the next
term afterwards, knows itself as leader and has reset its view of every peer.\<close>

theorem enough_votes_elect:
  assumes "rn_log n \<noteq> []"
    and "\<forall>p \<in> set (verified_peers env n). \<forall>a r. rpc p a = Some r \<longrightarrow> vr_term r \<le> rn_term n + 1"
    and "quorum_size env n \<le> 1 + int (length (filter (\<lambda>p. \<forall>a. \<exists>r. rpc p a = Some r \<and> vr_granted r) (verified_peers env n)))"
  shows "\<exists>n'. start_election env rpc n = (n', Inr True) \<and> rn_role n' = Leader \<and> rn_term n' = rn_term n + 1
    \<and> rn_leader n' = Some (rn_id n) \<and> rn_voted n' = Some (rn_id n)
    \<and> (\<forall>p \<in> set (cluster_peers env n). dict_get (rn_next n') p = Some (int (length (rn_log n))) \<and> dict_get (rn_match n') p = Some 0)"
proof -
  define n1 where "n1 = n\<lparr>rn_term := rn_term n + 1, rn_role := Candidate, rn_voted := Some (rn_id n),
                 rn_leader := None, rn_heartbeat := re_now env\<rparr>"
  have same: "quorum_size env n1 = quorum_size env n" "verified_peers env n1 = verified_peers env n"
      "cluster_peers env n1 = cluster_peers env n"
    by (simp_all add: n1_def quorum_size_def verified_peers_def cluster_peers_def)
  have f: "rn_term n1 = rn_term n + 1" "rn_id n1 = rn_id n" "rn_role n1 = Candidate" "rn_voted n1 = Some (rn_id n)" "rn_log n1 = rn_log n"
    by (simp_all add: n1_def)
  have led: "rn_role (become_leader env n1) = Leader \<and> rn_term (become_leader env n1) = rn_term n + 1
      \<and> rn_leader (become_leader env n1) = Some (rn_id n) \<and> rn_voted (become_leader env n1) = Some (rn_id n)
      \<and> (\<forall>p \<in> set (cluster_peers env n). dict_get (rn_next (become_leader env n1)) p = Some (int (length (rn_log n)))
          \<and> dict_get (rn_match (become_leader env n1)) p = Some 0)"
    using f by (simp add: become_leader_def Let_def py_dict.get_put_all same last_log_index_def)
  have "start_election env rpc n = (become_leader env n1, Inr True)"
  proof (cases "1 \<ge> quorum_size env n")
    case True
    then show ?thesis by (simp add: start_election_def Let_def n1_def [symmetric] same)
  next
    case False
    obtain lt where lt: "last_log_term n1 = Some lt"
      using assms(1) by (auto simp: last_log_term_def py_index_last f)
    let ?args = "\<lparr>va_term = rn_term n1, va_candidate = rn_id n1, va_last_index = last_log_index n1, va_last_term = lt\<rparr>"
    have "length (filter (\<lambda>p. \<forall>a. \<exists>r. rpc p a = Some r \<and> vr_granted r) (verified_peers env n))
        \<le> length (filter (\<lambda>p. \<exists>r. rpc p ?args = Some r \<and> vr_granted r) (verified_peers env n))"
      by (rule filter_length_mono) blast
    then have "collect_votes env (\<lambda>p. rpc p ?args) (quorum_size env n) 1 n1 (verified_peers env n) = (become_leader env n1, True)"
      using assms(2,3) False f by (intro collect_votes_wins) auto
    then show ?thesis
      using False lt by (simp add: start_election_def Let_def n1_def [symmetric] same)
  qed
  with led show ?thesis by blast
qed

lemma enough_votes_elect_witness:
  "rn_role (fst (start_election split_env (\<lambda>p v. Some \<lparr>vr_term = 1, vr_granted = p = ''b'', vr_voter = p, vr_reason = None\<rparr>)
     (new_node ''c'' ''0.0000'' 0))) = Leader"
proof -
  let ?n = "new_node ''c'' ''0.0000'' 0"
  have v: "verified_peers split_env ?n = [''a'', ''b'']" "quorum_size split_env ?n = 2" "rn_log ?n \<noteq> []" "rn_term ?n = 0"
    by (simp_all add: verified_peers_def cluster_peers_def quorum_size_def split_env_def new_node_def)
  let ?rpc = "\<lambda>p v. Some \<lparr>vr_term = 1, vr_granted = p = ''b'', vr_voter = p, vr_reason = None\<rparr>"
  obtain n' where "start_election split_env ?rpc ?n = (n', Inr True)" "rn_role n' = Leader"
    using enough_votes_elect [of ?n split_env ?rpc, OF v(3)] v by (auto simp del: split_paired_Ex)
  then show ?thesis by simp
qed

end
