(* ===== verification/Federation.thy ===== *)
theory Federation
  imports Complex_Main Raft_Safety
begin

text \<open>
  The federation of regional Raft nodes (core/mesh_tunnel/multi_cluster_raft.py): registration, the
  cross-region election, replication of one entry and the failover of a region.

  A coroutine runs from its call to its return without another one in between (each \<open>await\<close> only
  sleeps). The nodes live in the federation's dictionary, so a change of a node is an assignment there. A
  method that raises returns the federation it leaves with the exception. The measured latency and the
  clocks are arguments.
\<close>

section \<open>Members\<close>

datatype cluster_region = US_East | EU_Central | AP_East | Local_Region

record regional_member =
  fm_node_id :: string
  fm_region :: cluster_region
  fm_organization :: string
  fm_virtual_ip :: string
  fm_latency :: rat
  fm_active :: bool

record proposal_result =
  mp_term :: int
  mp_log_index :: int
  mp_regions :: "cluster_region set"
  mp_success :: bool
  mp_latency :: rat
  mp_acknowledged :: int
  mp_total :: int

record federation =
  fd_name :: string
  fd_members :: "(string, regional_member) dict"
  fd_nodes :: "(string, raft_node) dict"
  fd_leader :: "string option"

datatype fed_exn = Fed_Key_Error | Fed_Runtime_Error | Fed_Raft raft_exn

definition new_federation :: "string \<Rightarrow> federation" where
  "new_federation name = \<lparr>fd_name = name, fd_members = [], fd_nodes = [], fd_leader = None\<rparr>"

text \<open>What the providers given to a node answer: they read the federation's members at the call.\<close>

definition fed_env :: "federation \<Rightarrow> int \<Rightarrow> string \<Rightarrow> raft_env" where
  "fed_env fd now nid = \<lparr>re_peers = filter (\<lambda>p. p \<noteq> nid) (dict_keys (fd_members fd)),
     re_attested = (\<lambda>p. dict_get (fd_members fd) p \<noteq> None), re_blocked = (\<lambda>_ _ _. False), re_now = now\<rparr>"

definition register_regional_node ::
    "federation \<Rightarrow> string \<Rightarrow> int \<Rightarrow> string \<Rightarrow> cluster_region \<Rightarrow> string \<Rightarrow> string \<Rightarrow> rat \<Rightarrow> federation \<times> raft_node" where
  "register_regional_node fd time now nid region org ip latency =
     (let member = \<lparr>fm_node_id = nid, fm_region = region, fm_organization = org, fm_virtual_ip = ip,
            fm_latency = latency, fm_active = True\<rparr>;
          node = new_node nid time now
      in (fd\<lparr>fd_members := dict_put nid member (fd_members fd), fd_nodes := dict_put nid node (fd_nodes fd)\<rparr>, node))"

definition put_fed_node :: "federation \<Rightarrow> string \<Rightarrow> raft_node \<Rightarrow> federation" where
  "put_fed_node fd nid n = fd\<lparr>fd_nodes := dict_put nid n (fd_nodes fd)\<rparr>"

definition active_members :: "federation \<Rightarrow> (string \<times> regional_member) list" where
  "active_members fd = filter (\<lambda>(nid, m). fm_active m) (fd_members fd)"

definition total_active :: "federation \<Rightarrow> int" where
  "total_active fd = int (length (active_members fd))"

definition active_regions :: "federation \<Rightarrow> cluster_region set" where
  "active_regions fd = set (map (\<lambda>(nid, m). fm_region m) (active_members fd))"


section \<open>Election\<close>

text \<open>The loop over the members; the accumulators are the votes and the regions voting.\<close>

fun vote_round ::
    "int \<Rightarrow> vote_args \<Rightarrow> federation \<Rightarrow> int \<Rightarrow> cluster_region set \<Rightarrow> (string \<times> regional_member) list
       \<Rightarrow> federation \<times> (fed_exn + int \<times> cluster_region set)" where
  "vote_round now args fd votes regions [] = (fd, Inr (votes, regions))"
| "vote_round now args fd votes regions ((p, m) # ms) =
     (if p = va_candidate args \<or> \<not> fm_active m then vote_round now args fd votes regions ms
      else case dict_get (fd_nodes fd) p of
          None \<Rightarrow> (fd, Inl Fed_Key_Error)
        | Some n \<Rightarrow>
            (case handle_request_vote (fed_env fd now p) n args of
               (n', Inl x) \<Rightarrow> (put_fed_node fd p n', Inl (Fed_Raft x))
             | (n', Inr reply) \<Rightarrow>
                 (if vr_granted reply
                  then vote_round now args (put_fed_node fd p n') (votes + 1) (insert (fm_region m) regions) ms
                  else vote_round now args (put_fed_node fd p n') votes regions ms)))"

definition elect_cross_cluster_leader :: "federation \<Rightarrow> int \<Rightarrow> string \<Rightarrow> federation \<times> (fed_exn + bool)" where
  "elect_cross_cluster_leader fd now cand =
     (case (dict_get (fd_nodes fd) cand, dict_get (fd_members fd) cand) of
        (Some n, Some meta) \<Rightarrow>
          (let n1 = n\<lparr>rn_role := Candidate, rn_term := rn_term n + 1, rn_voted := Some cand\<rparr>;
               fd1 = put_fed_node fd cand n1
           in case last_log_term n1 of
                None \<Rightarrow> (fd1, Inl (Fed_Raft Index_Error))
              | Some lt \<Rightarrow>
                  (case vote_round now \<lparr>va_term = rn_term n1, va_candidate = cand,
                          va_last_index = int (length (rn_log n1)) - 1, va_last_term = lt\<rparr>
                          fd1 1 {fm_region meta} (fd_members fd1) of
                     (fd2, Inl x) \<Rightarrow> (fd2, Inl x)
                   | (fd2, Inr (votes, regions)) \<Rightarrow>
                       (if votes > total_active fd2 div 2 \<and> int (card regions) \<ge> min 2 (int (card (active_regions fd2)))
                        then ((put_fed_node fd2 cand (n1\<lparr>rn_role := Leader\<rparr>))\<lparr>fd_leader := Some cand\<rparr>, Inr True)
                        else (put_fed_node fd2 cand (n1\<lparr>rn_role := Follower\<rparr>), Inr False))))
      | _ \<Rightarrow> (fd, Inl Fed_Key_Error))"


section \<open>Replication\<close>

fun append_round ::
    "int \<Rightarrow> string \<Rightarrow> append_args \<Rightarrow> federation \<Rightarrow> int \<Rightarrow> cluster_region set \<Rightarrow> (string \<times> regional_member) list
       \<Rightarrow> federation \<times> (fed_exn + int \<times> cluster_region set)" where
  "append_round now leader args fd acks regions [] = (fd, Inr (acks, regions))"
| "append_round now leader args fd acks regions ((p, m) # ms) =
     (if p = leader \<or> \<not> fm_active m then append_round now leader args fd acks regions ms
      else case dict_get (fd_nodes fd) p of
          None \<Rightarrow> (fd, Inl Fed_Key_Error)
        | Some n \<Rightarrow>
            (case handle_append_entries (fed_env fd now p) n args of
               (n', Inl x) \<Rightarrow> (put_fed_node fd p n', Inl (Fed_Raft x))
             | (n', Inr reply) \<Rightarrow>
                 (if ap_success reply
                  then append_round now leader args (put_fed_node fd p n') (acks + 1) (insert (fm_region m) regions) ms
                  else append_round now leader args (put_fed_node fd p n') acks regions ms)))"

text \<open>The commit on the followers: every active one is given the new commit index and applies.\<close>

fun commit_round ::
    "string \<Rightarrow> int \<Rightarrow> federation \<Rightarrow> (string \<times> regional_member) list \<Rightarrow> federation \<times> fed_exn option" where
  "commit_round leader idx fd [] = (fd, None)"
| "commit_round leader idx fd ((p, m) # ms) =
     (if p = leader \<or> \<not> fm_active m then commit_round leader idx fd ms
      else case dict_get (fd_nodes fd) p of
          None \<Rightarrow> (fd, Some Fed_Key_Error)
        | Some n \<Rightarrow>
            (case apply_committed (n\<lparr>rn_commit := idx\<rparr>) of
               (n', Some x) \<Rightarrow> (put_fed_node fd p n', Some (Fed_Raft x))
             | (n', None) \<Rightarrow> commit_round leader idx (put_fed_node fd p n') ms))"

definition ensure_leader :: "federation \<Rightarrow> int \<Rightarrow> federation \<times> fed_exn option" where
  "ensure_leader fd now =
     (if (case fd_leader fd of None \<Rightarrow> True | Some l \<Rightarrow> l = [] \<or> dict_get (fd_nodes fd) l = None)
      then case active_members fd of
          [] \<Rightarrow> (fd, Some Fed_Runtime_Error)
        | (nid, _) # _ \<Rightarrow>
            (case elect_cross_cluster_leader fd now nid of (fd', Inl x) \<Rightarrow> (fd', Some x) | (fd', Inr _) \<Rightarrow> (fd', None))
      else (fd, None))"

definition fed_entry ::
    "raft_node \<Rightarrow> string \<Rightarrow> string \<Rightarrow> entry_type \<Rightarrow> payload \<Rightarrow> string option \<Rightarrow> log_entry" where
  "fed_entry n leader time ty payload author =
     (let who = (case author of None \<Rightarrow> leader | Some a \<Rightarrow> if a = [] then leader else a)
      in sign_entry \<lparr>le_index = int (length (rn_log n)), le_term = rn_term n, le_type = ty, le_author = who,
           le_payload = payload, le_signature = [], le_timestamp = time\<rparr> who)"

definition replicate_from ::
    "federation \<Rightarrow> int \<Rightarrow> rat \<Rightarrow> string \<Rightarrow> raft_node \<Rightarrow> log_entry
       \<Rightarrow> federation \<times> (fed_exn + proposal_result)" where
  "replicate_from fd now elapsed leader n entry =
     (let idx = int (length (rn_log n));
          n1 = n\<lparr>rn_log := rn_log n @ [entry]\<rparr>;
          fd1 = put_fed_node fd leader n1
      in case (dict_get (fd_members fd1) leader, py_index (rn_log n1) (idx - 1)) of
           (None, _) \<Rightarrow> (fd1, Inl Fed_Key_Error)
         | (_, None) \<Rightarrow> (fd1, Inl (Fed_Raft Index_Error))
         | (Some meta, Some prev) \<Rightarrow>
             (case append_round now leader \<lparr>aa_term = rn_term n1, aa_leader = leader, aa_prev_index = idx - 1,
                     aa_prev_term = le_term prev, aa_entries = [entry], aa_commit = rn_commit n1\<rparr>
                     fd1 1 {fm_region meta} (fd_members fd1) of
                (fd2, Inl x) \<Rightarrow> (fd2, Inl x)
              | (fd2, Inr (acks, regions)) \<Rightarrow>
                  (let result = \<lparr>mp_term = rn_term n1, mp_log_index = idx, mp_regions = regions,
                         mp_success = acks > total_active fd2 div 2, mp_latency = elapsed,
                         mp_acknowledged = acks, mp_total = total_active fd2\<rparr>
                   in if acks > total_active fd2 div 2
                      then (case apply_committed (n1\<lparr>rn_commit := idx\<rparr>) of
                              (n2, Some x) \<Rightarrow> (put_fed_node fd2 leader n2, Inl (Fed_Raft x))
                            | (n2, None) \<Rightarrow>
                                (case commit_round leader idx (put_fed_node fd2 leader n2) (fd_members fd2) of
                                   (fd3, Some x) \<Rightarrow> (fd3, Inl x)
                                 | (fd3, None) \<Rightarrow> (fd3, Inr result)))
                      else (fd2, Inr result))))"

definition replicate_cross_region_entry ::
    "federation \<Rightarrow> int \<Rightarrow> rat \<Rightarrow> string \<Rightarrow> entry_type \<Rightarrow> payload \<Rightarrow> string option
       \<Rightarrow> federation \<times> (fed_exn + proposal_result)" where
  "replicate_cross_region_entry fd now elapsed time ty payload author =
     (case ensure_leader fd now of
        (fd0, Some x) \<Rightarrow> (fd0, Inl x)
      | (fd0, None) \<Rightarrow>
          (case fd_leader fd0 of
             None \<Rightarrow> (fd0, Inl Fed_Key_Error)
           | Some l \<Rightarrow>
               (case dict_get (fd_nodes fd0) l of
                  None \<Rightarrow> (fd0, Inl Fed_Key_Error)
                | Some n \<Rightarrow> replicate_from fd0 now elapsed l n (fed_entry n l time ty payload author))))"


section \<open>Failover\<close>

text \<open>The loop that marks a region's members inactive and makes their nodes followers.\<close>

fun mark_region :: "cluster_region \<Rightarrow> federation \<Rightarrow> (string \<times> regional_member) list \<Rightarrow> federation \<times> fed_exn option" where
  "mark_region region fd [] = (fd, None)"
| "mark_region region fd ((nid, m) # ms) =
     (if fm_region m = region
      then
        (let fd1 = fd\<lparr>fd_members := dict_put nid (m\<lparr>fm_active := False\<rparr>) (fd_members fd)\<rparr>
         in case dict_get (fd_nodes fd1) nid of
              None \<Rightarrow> (fd1, Some Fed_Key_Error)
            | Some n \<Rightarrow> mark_region region (put_fed_node fd1 nid (n\<lparr>rn_role := Follower\<rparr>)) ms)
      else mark_region region fd ms)"

definition handle_regional_partition ::
    "federation \<Rightarrow> int \<Rightarrow> cluster_region \<Rightarrow> federation \<times> (fed_exn + string option)" where
  "handle_regional_partition fd now region =
     (case mark_region region fd (fd_members fd) of
        (fd1, Some x) \<Rightarrow> (fd1, Inl x)
      | (fd1, None) \<Rightarrow>
          (case active_members fd1 of
             [] \<Rightarrow> (fd1\<lparr>fd_leader := None\<rparr>, Inr None)
           | (first, _) # _ \<Rightarrow>
               (case fd_leader fd1 of
                  None \<Rightarrow> (fd1, Inr None)
                | Some l \<Rightarrow>
                    (if l = [] then (fd1, Inr (Some l))
                     else case dict_get (fd_members fd1) l of
                         None \<Rightarrow> (fd1, Inl Fed_Key_Error)
                       | Some meta \<Rightarrow>
                           (if fm_region meta = region
                            then (case elect_cross_cluster_leader fd1 now first of
                                    (fd2, Inl x) \<Rightarrow> (fd2, Inl x)
                                  | (fd2, Inr True) \<Rightarrow> (fd2, Inr (fd_leader fd2))
                                  | (fd2, Inr False) \<Rightarrow> (fd2, Inr None))
                            else (fd1, Inr (Some l)))))))"

end
