(* ===== verification/Federation_Properties.thy ===== *)
theory Federation_Properties
  imports Federation Raft_Properties
begin

text \<open>The properties of the federation: what its elections, its replication and its failover guarantee.\<close>

section \<open>The federation's invariant\<close>

definition fed_inv :: "federation \<Rightarrow> bool" where
  "fed_inv fd \<longleftrightarrow> dict_wf (fd_members fd) \<and> dict_wf (fd_nodes fd) \<and>
     (\<forall>k. dict_get (fd_members fd) k = None \<longleftrightarrow> dict_get (fd_nodes fd) k = None) \<and>
     (\<forall>k n. dict_get (fd_nodes fd) k = Some n \<longrightarrow> rn_id n = k)"

lemma put_fed_node_simps [simp]:
  "fd_members (put_fed_node fd k n) = fd_members fd" "fd_leader (put_fed_node fd k n) = fd_leader fd"
  "dict_get (fd_nodes (put_fed_node fd k n)) j = (if j = k then Some n else dict_get (fd_nodes fd) j)"
  by (simp_all add: put_fed_node_def)

lemma total_active_put [simp]: "total_active (put_fed_node fd k n) = total_active fd"
    "active_regions (put_fed_node fd k n) = active_regions fd" "active_members (put_fed_node fd k n) = active_members fd"
  by (simp_all add: total_active_def active_regions_def active_members_def)

lemma fed_inv_put: "fed_inv fd \<Longrightarrow> dict_get (fd_nodes fd) k \<noteq> None \<Longrightarrow> rn_id n = k \<Longrightarrow> fed_inv (put_fed_node fd k n)"
  by (auto simp: fed_inv_def) (simp_all add: put_fed_node_def)

lemma fed_inv_new [simp]: "fed_inv (new_federation name)"
  by (simp add: fed_inv_def new_federation_def)

lemma fed_inv_register:
  "fed_inv fd \<Longrightarrow> fed_inv (fst (register_regional_node fd time now nid region org ip latency))"
  by (auto simp: fed_inv_def register_regional_node_def Let_def new_node_def)

lemma fed_inv_leader [simp]: "fed_inv (fd\<lparr>fd_leader := x\<rparr>) = fed_inv fd"
  by (simp add: fed_inv_def)

lemma fed_inv_node:
  assumes "fed_inv fd" "dict_get (fd_members fd) k \<noteq> None"
  obtains n where "dict_get (fd_nodes fd) k = Some n" "rn_id n = k"
proof -
  have "\<forall>k. (dict_get (fd_members fd) k = None) = (dict_get (fd_nodes fd) k = None)"
    using assms(1) by (simp add: fed_inv_def)
  with assms(2) have "dict_get (fd_nodes fd) k \<noteq> None" by simp
  then obtain n where n: "dict_get (fd_nodes fd) k = Some n" by blast
  moreover from n assms(1) have "rn_id n = k" unfolding fed_inv_def by blast
  ultimately show thesis by (rule that)
qed

lemma request_vote_id: "rn_id (fst (handle_request_vote env n a)) = rn_id n"
  by (cases "handle_request_vote env n a") (auto elim!: request_vote_cases)

lemma apply_committed_id: "rn_id (fst (apply_committed n)) = rn_id n"
  using apply_committed_ballot [of n] by (simp add: ballot_def)

lemma append_entries_id: "rn_id (fst (handle_append_entries env n a)) = rn_id n"
  using handle_append_ballot [of env n a] by (simp add: after_append_def ballot_def step_down_def split: if_splits)

text \<open>What the loops over the members do to the federation: only nodes change, and no node its name.\<close>

definition nodes_only :: "federation \<Rightarrow> federation \<Rightarrow> bool" where
  "nodes_only fd fd' \<longleftrightarrow> fd_members fd' = fd_members fd \<and> fd_leader fd' = fd_leader fd \<and>
     (dict_wf (fd_nodes fd) \<longrightarrow> dict_wf (fd_nodes fd')) \<and>
     (\<forall>k. map_option rn_id (dict_get (fd_nodes fd') k) = map_option rn_id (dict_get (fd_nodes fd) k))"

lemma nodes_only_refl [simp]: "nodes_only fd fd"
  by (simp add: nodes_only_def)

lemma nodes_only_put: "dict_get (fd_nodes fd) k = Some n \<Longrightarrow> rn_id n' = rn_id n \<Longrightarrow> nodes_only fd (put_fed_node fd k n')"
  by (auto simp: nodes_only_def) (simp add: put_fed_node_def)

lemma nodes_only_trans: "nodes_only fd fd1 \<Longrightarrow> nodes_only fd1 fd2 \<Longrightarrow> nodes_only fd fd2"
  by (simp add: nodes_only_def)

lemma nodes_only_at:
  assumes "nodes_only fd fd'" "dict_get (fd_nodes fd) k = Some n"
  obtains n' where "dict_get (fd_nodes fd') k = Some n'" "rn_id n' = rn_id n"
proof -
  have "map_option rn_id (dict_get (fd_nodes fd') k) = Some (rn_id n)"
    using assms by (simp add: nodes_only_def)
  with that show thesis by auto
qed

lemma fed_inv_nodes_only:
  assumes "nodes_only fd fd'" "fed_inv fd"
  shows "fed_inv fd'"
proof -
  have "dict_get (fd_nodes fd') k = None \<longleftrightarrow> dict_get (fd_nodes fd) k = None" for k
    using assms(1) unfolding nodes_only_def by (metis option.map_disc_iff)
  moreover have "rn_id n = k" if "dict_get (fd_nodes fd') k = Some n" for k n
  proof -
    have "map_option rn_id (dict_get (fd_nodes fd) k) = Some (rn_id n)"
      using assms(1) that unfolding nodes_only_def by (metis option.simps(9))
    with assms(2) show ?thesis by (auto simp: fed_inv_def)
  qed
  ultimately show ?thesis
    using assms by (auto simp: fed_inv_def nodes_only_def)
qed

lemma vote_round_nodes_only: "nodes_only fd (fst (vote_round now args fd v rs ms))"
proof (induction ms arbitrary: fd v rs)
  case (Cons pm ms)
  obtain p m where pm: "pm = (p, m)" by (cases pm)
  have step: "nodes_only fd (put_fed_node fd p n')"
    if "dict_get (fd_nodes fd) p = Some n" "handle_request_vote env n args = (n', r)" for env n n' r
    using nodes_only_put [OF that(1)] request_vote_id [of env n args] that(2) by simp
  show ?case
    unfolding pm using Cons.IH nodes_only_trans [OF step Cons.IH] step
    by (auto split: option.split prod.split sum.split)
qed simp

lemma append_round_nodes_only: "nodes_only fd (fst (append_round now l args fd v rs ms))"
proof (induction ms arbitrary: fd v rs)
  case (Cons pm ms)
  obtain p m where pm: "pm = (p, m)" by (cases pm)
  have step: "nodes_only fd (put_fed_node fd p n')"
    if "dict_get (fd_nodes fd) p = Some n" "handle_append_entries env n args = (n', r)" for env n n' r
    using nodes_only_put [OF that(1)] append_entries_id [of env n args] that(2) by simp
  show ?case
    unfolding pm using Cons.IH nodes_only_trans [OF step Cons.IH] step
    by (auto split: option.split prod.split sum.split)
qed simp

lemma commit_round_nodes_only: "nodes_only fd (fst (commit_round l i fd ms))"
proof (induction ms arbitrary: fd)
  case (Cons pm ms)
  obtain p m where pm: "pm = (p, m)" by (cases pm)
  have step: "nodes_only fd (put_fed_node fd p n')"
    if "dict_get (fd_nodes fd) p = Some n" "apply_committed (n\<lparr>rn_commit := i\<rparr>) = (n', r)" for n n' r
    using nodes_only_put [OF that(1)] apply_committed_id [of "n\<lparr>rn_commit := i\<rparr>"] that(2) by simp
  show ?case
    unfolding pm using Cons.IH nodes_only_trans [OF step Cons.IH] step
    by (auto split: option.split prod.split)
qed simp


section \<open>Elections\<close>

text \<open>The successful end of a voting round: who granted the votes that were counted.\<close>

lemma vote_round_spec:
  assumes "vote_round now args fd v rs ms = (fd', Inr (v', rs'))" "distinct (map fst ms)"
  shows "\<exists>ws. set ws \<subseteq> set ms \<and> distinct (map fst ws) \<and> v' = v + int (length ws) \<and> rs' = rs \<union> (\<lambda>w. fm_region (snd w)) ` set ws
    \<and> (\<forall>w \<in> set ws. fm_active (snd w) \<and> fst w \<noteq> va_candidate args
        \<and> (\<exists>n. dict_get (fd_nodes fd') (fst w) = Some n \<and> rn_term n = va_term args \<and> rn_voted n = Some (va_candidate args)))
    \<and> (\<forall>q. q \<notin> fst ` set ms \<or> q = va_candidate args \<longrightarrow> dict_get (fd_nodes fd') q = dict_get (fd_nodes fd) q)"
  using assms
proof (induction ms arbitrary: fd v rs)
  case Nil
  then show ?case by (intro exI [of _ "[]"]) simp
next
  case (Cons pm ms)
  obtain p m where pm: "pm = (p, m)" by (cases pm)
  have d: "distinct (map fst ms)" "p \<notin> fst ` set ms"
    using Cons.prems(2) pm by auto
  show ?case
  proof (cases "p = va_candidate args \<or> \<not> fm_active m")
    case True
    with Cons.prems(1) pm have "vote_round now args fd v rs ms = (fd', Inr (v', rs'))" by simp
    from Cons.IH [OF this d(1)] show ?thesis unfolding pm by fastforce
  next
    case False
    then obtain n where n: "dict_get (fd_nodes fd) p = Some n"
      using Cons.prems(1) pm by (auto split: option.splits)
    obtain n1 r where h: "handle_request_vote (fed_env fd now p) n args = (n1, r)" by fastforce
    with Cons.prems(1) pm n False obtain reply where r: "r = Inr reply"
      by (auto split: sum.splits)
    show ?thesis
    proof (cases "vr_granted reply")
      case True
      with Cons.prems(1) pm n False h r
      have "vote_round now args (put_fed_node fd p n1) (v + 1) (insert (fm_region m) rs) ms = (fd', Inr (v', rs'))" by simp
      from Cons.IH [OF this d(1)] obtain ws where ws: "set ws \<subseteq> set ms" "distinct (map fst ws)" "v' = v + 1 + int (length ws)"
        "rs' = insert (fm_region m) rs \<union> (\<lambda>w. fm_region (snd w)) ` set ws"
        "\<forall>w \<in> set ws. fm_active (snd w) \<and> fst w \<noteq> va_candidate args
          \<and> (\<exists>n. dict_get (fd_nodes fd') (fst w) = Some n \<and> rn_term n = va_term args \<and> rn_voted n = Some (va_candidate args))"
        "\<forall>q. q \<notin> fst ` set ms \<or> q = va_candidate args \<longrightarrow> dict_get (fd_nodes fd') q = dict_get (fd_nodes (put_fed_node fd p n1)) q"
        by auto
      have "rn_term n1 = va_term args \<and> rn_voted n1 = Some (va_candidate args)"
        using h r True by (auto elim!: request_vote_cases)
      moreover have "dict_get (fd_nodes fd') p = Some n1" using ws(6) d(2) by simp
      moreover have "p \<notin> fst ` set ws" using ws(1) d(2) by auto
      ultimately show ?thesis
        using ws False pm d(2) by (intro exI [of _ "(p, m) # ws"]) auto
    next
      case no: False
      with Cons.prems(1) pm n False h r
      have "vote_round now args (put_fed_node fd p n1) v rs ms = (fd', Inr (v', rs'))" by simp
      from Cons.IH [OF this d(1)] False show ?thesis unfolding pm by fastforce
    qed
  qed
qed

definition fed_voters :: "federation \<Rightarrow> federation \<Rightarrow> int \<Rightarrow> string \<Rightarrow> string set" where
  "fed_voters fd fd' t cand = {p. \<exists>m n. dict_get (fd_members fd) p = Some m \<and> (p = cand \<or> fm_active m) \<and>
     dict_get (fd_nodes fd') p = Some n \<and> rn_term n = t \<and> rn_voted n = Some cand}"

text \<open>A cross-cluster leader has a quorum over the regions: when the election returns true, the candidate
is the leader of its next term, more than half as many members as are active voted for it in that term
(itself and active members only), and the voters come from two regions if the active members do.\<close>

theorem federation_leader_has_quorum:
  assumes "fed_inv fd" "elect_cross_cluster_leader fd now cand = (fd', Inr True)"
  shows "\<exists>n n'. dict_get (fd_nodes fd) cand = Some n \<and> dict_get (fd_nodes fd') cand = Some n' \<and> fd_leader fd' = Some cand
    \<and> rn_role n' = Leader \<and> rn_term n' = rn_term n + 1 \<and> rn_log n' = rn_log n
    \<and> total_active fd div 2 < int (card (fed_voters fd fd' (rn_term n') cand))
    \<and> min 2 (card (active_regions fd))
        \<le> card ((\<lambda>p. map_option fm_region (dict_get (fd_members fd) p)) ` fed_voters fd fd' (rn_term n') cand)"
proof -
  from assms(2) obtain n meta where n: "dict_get (fd_nodes fd) cand = Some n" and meta: "dict_get (fd_members fd) cand = Some meta"
    by (auto simp: elect_cross_cluster_leader_def split: option.splits)
  define n1 where "n1 = n\<lparr>rn_role := Candidate, rn_term := rn_term n + 1, rn_voted := Some cand\<rparr>"
  obtain lt where lt: "last_log_term n1 = Some lt"
    using assms(2) n meta by (auto simp: elect_cross_cluster_leader_def Let_def n1_def split: option.splits)
  let ?args = "\<lparr>va_term = rn_term n1, va_candidate = cand, va_last_index = int (length (rn_log n1)) - 1, va_last_term = lt\<rparr>"
  obtain fd2 votes regions where round: "vote_round now ?args (put_fed_node fd cand n1) 1 {fm_region meta} (fd_members fd)
      = (fd2, Inr (votes, regions))"
    and won: "votes > total_active fd2 div 2" "int (card regions) \<ge> min 2 (int (card (active_regions fd2)))"
    and fd': "fd' = (put_fed_node fd2 cand (n1\<lparr>rn_role := Leader\<rparr>))\<lparr>fd_leader := Some cand\<rparr>"
    using assms(2) n meta lt
    by (auto simp: elect_cross_cluster_leader_def Let_def n1_def [symmetric] split: prod.splits sum.splits if_splits)
  have mem: "fd_members fd2 = fd_members fd"
    using vote_round_nodes_only [of "put_fed_node fd cand n1" now ?args 1 "{fm_region meta}" "fd_members fd"]
    by (simp only: round fst_conv nodes_only_def put_fed_node_simps)
  then have act: "total_active fd2 = total_active fd" "active_regions fd2 = active_regions fd"
    by (simp_all add: total_active_def active_regions_def active_members_def)
  have wf: "dict_wf (fd_members fd)" using assms(1) by (simp add: fed_inv_def)
  obtain ws where ws: "set ws \<subseteq> set (fd_members fd)" "distinct (map fst ws)" "votes = 1 + int (length ws)"
      "regions = {fm_region meta} \<union> (\<lambda>w. fm_region (snd w)) ` set ws"
    and w: "\<And>w. w \<in> set ws \<Longrightarrow> fm_active (snd w) \<and> fst w \<noteq> cand
        \<and> (\<exists>n. dict_get (fd_nodes fd2) (fst w) = Some n \<and> rn_term n = rn_term n1 \<and> rn_voted n = Some cand)"
    using vote_round_spec [OF round] wf by (auto simp: dict_wf_def)
  let ?V = "fed_voters fd fd' (rn_term n1) cand"
  have at: "dict_get (fd_members fd) (fst w) = Some (snd w)" if "w \<in> set ws" for w
    using dict_get_in [OF wf, of "fst w" "snd w"] that ws(1) by auto
  have sub: "insert cand (fst ` set ws) \<subseteq> ?V"
    using w at meta unfolding fed_voters_def fd' by (auto simp: n1_def)
  have fin: "finite ?V"
    by (rule finite_subset [of _ "fst ` set (fd_members fd)"]) (force simp: fed_voters_def dict_get_def dest: map_of_SomeD, simp)
  have "cand \<notin> fst ` set ws" using w by auto
  then have "int (card (insert cand (fst ` set ws))) = votes"
    using ws(2,3) distinct_card [OF ws(2)] by simp
  with card_mono [OF fin sub] have v: "votes \<le> int (card ?V)" by linarith
  have "Some ` regions \<subseteq> (\<lambda>p. map_option fm_region (dict_get (fd_members fd) p)) ` ?V"
  proof
    fix x assume "x \<in> Some ` regions"
    then consider "x = Some (fm_region meta)" | w where "w \<in> set ws" "x = Some (fm_region (snd w))"
      using ws(4) by auto
    then show "x \<in> (\<lambda>p. map_option fm_region (dict_get (fd_members fd) p)) ` ?V"
      by cases (use sub meta at in \<open>force simp: image_iff\<close>)+
  qed
  with fin have "card (Some ` regions) \<le> card ((\<lambda>p. map_option fm_region (dict_get (fd_members fd) p)) ` ?V)"
    by (intro card_mono) auto
  moreover have "card (Some ` regions) = card regions" by (simp add: card_image)
  moreover have "min 2 (card (active_regions fd)) \<le> card regions"
    using won(2) unfolding act(2) by (simp add: min_def split: if_splits)
  ultimately have "min 2 (card (active_regions fd)) \<le> card ((\<lambda>p. map_option fm_region (dict_get (fd_members fd) p)) ` ?V)"
    by linarith
  moreover have "total_active fd div 2 < int (card ?V)" using v won(1) act by linarith
  ultimately show ?thesis
    using n fd' by (simp add: n1_def)
qed


definition trio_fed :: federation where
  "trio_fed =
     (let reg = (\<lambda>nid region fd. fst (register_regional_node fd ''0.0000'' 0 nid region ''org'' ''10.0.0.1'' 10))
      in reg ''c'' EU_Central (reg ''b'' US_East (reg ''a'' US_East (new_federation ''mesh''))))"

lemma trio_fed_inv: "fed_inv trio_fed"
  unfolding trio_fed_def Let_def by (intro fed_inv_register fed_inv_new)

lemmas fed_eval = trio_fed_def new_federation_def register_regional_node_def elect_cross_cluster_leader_def Let_def
  put_fed_node_def new_node_def last_log_term_def last_log_index_def genesis_entry_def handle_request_vote_def fed_env_def dict_keys_def
  py_index_def step_down_def total_active_def active_members_def active_regions_def dict_get_def

lemma trio_fed_elects: "snd (elect_cross_cluster_leader trio_fed 0 ''a'') = Inr True"
  by (simp add: fed_eval)

lemma federation_leader_has_quorum_witness:
  "fd_leader (fst (elect_cross_cluster_leader trio_fed 0 ''a'')) = Some ''a''"
  using federation_leader_has_quorum [OF trio_fed_inv, of 0 "''a''"] trio_fed_elects
  by (metis prod.collapse)


section \<open>Replication\<close>

text \<open>A follower that misses the position before the sent entry refuses and keeps what it has.\<close>

lemma append_missing_prev:
  assumes "\<not> re_blocked env (aa_leader a) (rn_id n) ''AppendEntries''" "int (length (rn_log n)) \<le> aa_prev_index a"
    and "handle_append_entries env n a = (n', r)"
  shows "\<exists>rep. r = Inr rep \<and> \<not> ap_success rep" "rn_log n' = rn_log n" "rn_applied n' = rn_applied n"
    "rn_machine n' = rn_machine n" "rn_commit n' = rn_commit n" "rn_id n' = rn_id n"
  using assms by (auto simp: handle_append_entries_def Let_def append_refused_def step_down_def split: if_splits)

text \<open>What a round does to one member's node: at most its own turn.\<close>

lemma append_round_other:
  "append_round now l args fd v rs ms = (fd', res) \<Longrightarrow> q \<notin> fst ` set ms \<or> q = l \<Longrightarrow>
     dict_get (fd_nodes fd') q = dict_get (fd_nodes fd) q"
proof (induction ms arbitrary: fd v rs)
  case (Cons pm ms)
  obtain p m where pm: "pm = (p, m)" by (cases pm)
  show ?case
    using Cons.prems unfolding pm
    by (auto split: if_splits option.splits prod.splits sum.splits dest!: Cons.IH)
qed simp

lemma append_round_turn:
  assumes "append_round now l args fd v rs ms = (fd', Inr res)" "distinct (map fst ms)" "(p, m) \<in> set ms"
    and "fm_active m" "p \<noteq> l" "dict_get (fd_nodes fd) p = Some n" "fd_members fd = mm"
  shows "\<exists>env n' rep. re_blocked env = (\<lambda>_ _ _. False) \<and> handle_append_entries env n args = (n', Inr rep)
    \<and> dict_get (fd_nodes fd') p = Some n'"
  using assms
proof (induction ms arbitrary: fd v rs)
  case (Cons qk ms)
  obtain q k where qk: "qk = (q, k)" by (cases qk)
  show ?case
  proof (cases "q = p")
    case True
    then have k: "k = m" "p \<notin> fst ` set ms"
      using Cons.prems(2,3) qk by (auto simp: image_iff)
    obtain n' r where h: "handle_append_entries (fed_env fd now p) n args = (n', r)" by fastforce
    with Cons.prems(1,4,5,6) True k qk obtain rep v1 rs1 where
      r: "r = Inr rep" and rest: "append_round now l args (put_fed_node fd p n') v1 rs1 ms = (fd', Inr res)"
      by (auto split: sum.splits if_splits)
    have "dict_get (fd_nodes fd') p = Some n'"
      using append_round_other [OF rest] k(2) by simp
    with h r show ?thesis
      by (intro exI [of _ "fed_env fd now p"] exI [of _ n'] exI [of _ rep]) (simp add: fed_env_def)
  next
    case False
    with Cons.prems(3) qk have in_ms: "(p, m) \<in> set ms" by simp
    have d: "distinct (map fst ms)" using Cons.prems(2) by simp
    show ?thesis
    proof (cases "q = l \<or> \<not> fm_active k")
      case True
      with Cons.prems(1) qk have "append_round now l args fd v rs ms = (fd', Inr res)" by simp
      from Cons.IH [OF this d in_ms Cons.prems(4-7)] show ?thesis .
    next
      case False
      with Cons.prems(1) qk obtain nq n' rep v1 rs1 where
        "append_round now l args (put_fed_node fd q n') v1 rs1 ms = (fd', Inr res)"
        by (auto split: option.splits prod.splits sum.splits if_splits)
      from Cons.IH [OF this d in_ms Cons.prems(4,5)] Cons.prems(6,7) \<open>q \<noteq> p\<close> show ?thesis by simp
    qed
  qed
qed simp

lemma commit_round_other:
  "commit_round l i fd ms = (fd', res) \<Longrightarrow> q \<notin> fst ` set ms \<or> q = l \<Longrightarrow>
     dict_get (fd_nodes fd') q = dict_get (fd_nodes fd) q"
proof (induction ms arbitrary: fd)
  case (Cons pm ms)
  obtain p m where pm: "pm = (p, m)" by (cases pm)
  show ?case
    using Cons.prems unfolding pm
    by (auto split: if_splits option.splits prod.splits dest!: Cons.IH)
qed simp

lemma commit_round_turn:
  assumes "commit_round l i fd ms = (fd', None)" "distinct (map fst ms)" "(p, m) \<in> set ms"
    and "fm_active m" "p \<noteq> l" "dict_get (fd_nodes fd) p = Some n"
  shows "\<exists>n'. apply_committed (n\<lparr>rn_commit := i\<rparr>) = (n', None) \<and> dict_get (fd_nodes fd') p = Some n'"
  using assms
proof (induction ms arbitrary: fd)
  case (Cons qk ms)
  obtain q k where qk: "qk = (q, k)" by (cases qk)
  show ?case
  proof (cases "q = p")
    case True
    then have k: "k = m" "p \<notin> fst ` set ms"
      using Cons.prems(2,3) qk by (auto simp: image_iff)
    with Cons.prems(1,4,5,6) True qk obtain n' where
      a: "apply_committed (n\<lparr>rn_commit := i\<rparr>) = (n', None)" and rest: "commit_round l i (put_fed_node fd p n') ms = (fd', None)"
      by (auto split: prod.splits option.splits)
    with commit_round_other [OF rest] k(2) show ?thesis by simp
  next
    case False
    with Cons.prems(3) qk have in_ms: "(p, m) \<in> set ms" by simp
    have d: "distinct (map fst ms)" using Cons.prems(2) by simp
    show ?thesis
    proof (cases "q = l \<or> \<not> fm_active k")
      case True
      with Cons.prems(1) qk have "commit_round l i fd ms = (fd', None)" by simp
      from Cons.IH [OF this d in_ms Cons.prems(4-6)] show ?thesis .
    next
      case False
      with Cons.prems(1) qk obtain n' where "commit_round l i (put_fed_node fd q n') ms = (fd', None)"
        by (auto split: option.splits prod.splits)
      from Cons.IH [OF this d in_ms Cons.prems(4,5)] Cons.prems(6) \<open>q \<noteq> p\<close> show ?thesis by simp
    qed
  qed
qed simp

text \<open>A replication led by a registered leader: what its rounds were given.\<close>

lemma replicate_led:
  assumes "replicate_cross_region_entry fd now elapsed time ty payload author = (fd', Inr res)"
    and "fd_leader fd = Some l" "l \<noteq> []" "dict_get (fd_nodes fd) l = Some nl"
  obtains entry args fd2 acks regions meta where
    "aa_leader args = l" "aa_prev_index args = int (length (rn_log nl)) - 1" "aa_entries args = [entry]"
    "append_round now l args (put_fed_node fd l (nl\<lparr>rn_log := rn_log nl @ [entry]\<rparr>)) 1 {fm_region meta} (fd_members fd)
       = (fd2, Inr (acks, regions))"
    "dict_get (fd_members fd) l = Some meta" "fd_members fd2 = fd_members fd"
    "mp_success res \<longleftrightarrow> acks > total_active fd div 2" "mp_acknowledged res = acks" "mp_regions res = regions"
    "\<not> mp_success res \<longrightarrow> fd' = fd2"
    "mp_success res \<longrightarrow> (\<exists>n2. apply_committed (nl\<lparr>rn_log := rn_log nl @ [entry], rn_commit := int (length (rn_log nl))\<rparr>) = (n2, None)
       \<and> commit_round l (int (length (rn_log nl))) (put_fed_node fd2 l n2) (fd_members fd) = (fd', None))"
proof -
  define entry where "entry = fed_entry nl l time ty payload author"
  define n1 where "n1 = nl\<lparr>rn_log := rn_log nl @ [entry]\<rparr>"
  have "ensure_leader fd now = (fd, None)"
    using assms(2-4) by (simp add: ensure_leader_def)
  with assms have r: "replicate_from fd now elapsed l nl entry = (fd', Inr res)"
    by (simp add: replicate_cross_region_entry_def entry_def)
  then obtain meta prev where meta: "dict_get (fd_members fd) l = Some meta"
    and prev: "py_index (rn_log n1) (int (length (rn_log nl)) - 1) = Some prev"
    by (auto simp: replicate_from_def Let_def n1_def split: option.splits)
  let ?args = "\<lparr>aa_term = rn_term n1, aa_leader = l, aa_prev_index = int (length (rn_log nl)) - 1,
                     aa_prev_term = le_term prev, aa_entries = [entry], aa_commit = rn_commit n1\<rparr>"
  obtain fd2 acks regions where round: "append_round now l ?args (put_fed_node fd l n1) 1 {fm_region meta} (fd_members fd)
      = (fd2, Inr (acks, regions))"
    using r meta prev by (auto simp: replicate_from_def Let_def n1_def [symmetric] split: prod.splits sum.splits)
  have mem: "fd_members fd2 = fd_members fd"
    using append_round_nodes_only [of "put_fed_node fd l n1" now l ?args 1 "{fm_region meta}" "fd_members fd"]
    by (simp only: round fst_conv nodes_only_def put_fed_node_simps)
  then have act: "total_active fd2 = total_active fd"
    by (simp add: total_active_def active_members_def)
  have n1u: "n1\<lparr>rn_commit := int (length (rn_log nl))\<rparr>
      = nl\<lparr>rn_log := rn_log nl @ [entry], rn_commit := int (length (rn_log nl))\<rparr>"
    by (simp add: n1_def)
  have out: "mp_success res \<longleftrightarrow> acks > total_active fd div 2" "mp_acknowledged res = acks" "mp_regions res = regions"
    "\<not> mp_success res \<longrightarrow> fd' = fd2"
    "mp_success res \<longrightarrow> (\<exists>n2. apply_committed (n1\<lparr>rn_commit := int (length (rn_log nl))\<rparr>) = (n2, None)
       \<and> commit_round l (int (length (rn_log nl))) (put_fed_node fd2 l n2) (fd_members fd) = (fd', None))"
    using r meta prev round mem act
    by (auto simp: replicate_from_def Let_def n1_def [symmetric] split: prod.splits option.splits if_splits)
  from that [OF _ _ _ round [unfolded n1_def] meta mem out(1-4) out(5) [unfolded n1u]] show thesis by simp
qed

text \<open>A member that misses an entry is left behind for good. A replication sends one entry and never an
earlier one: an active follower whose log is shorter than the leader's refuses it and keeps its log, while
the leader's grows, so it is behind again at the next replication. When the entry is committed without it,
it is all the same given the new commit index and marks the entries it does not have as applied.\<close>

theorem lagging_member_stays_behind:
  assumes "fed_inv fd" "fd_leader fd = Some l" "l \<noteq> []" "dict_get (fd_nodes fd) l = Some nl"
    and "dict_get (fd_members fd) p = Some m" "fm_active m" "p \<noteq> l" "dict_get (fd_nodes fd) p = Some n"
    and "length (rn_log n) < length (rn_log nl)" "0 \<le> rn_applied n"
    and "replicate_cross_region_entry fd now elapsed time ty payload author = (fd', Inr res)"
  shows "\<exists>n' nl'. dict_get (fd_nodes fd') p = Some n' \<and> dict_get (fd_nodes fd') l = Some nl'
    \<and> rn_log n' = rn_log n \<and> length (rn_log nl') = length (rn_log nl) + 1
    \<and> (mp_success res \<longrightarrow> rn_commit n' = int (length (rn_log nl))
        \<and> rn_applied n' = max (rn_applied n) (int (length (rn_log nl)))
        \<and> rn_machine n' = apply_all (rn_machine n) (drop (nat (rn_applied n) + 1) (rn_log n)))"
proof -
  obtain entry args fd2 acks regions meta where
    a: "aa_leader args = l" "aa_prev_index args = int (length (rn_log nl)) - 1" "aa_entries args = [entry]"
    and round: "append_round now l args (put_fed_node fd l (nl\<lparr>rn_log := rn_log nl @ [entry]\<rparr>)) 1 {fm_region meta} (fd_members fd)
       = (fd2, Inr (acks, regions))"
    and "dict_get (fd_members fd) l = Some meta" "fd_members fd2 = fd_members fd"
      "mp_success res \<longleftrightarrow> acks > total_active fd div 2" "mp_acknowledged res = acks" "mp_regions res = regions"
    and failed: "\<not> mp_success res \<longrightarrow> fd' = fd2"
    and done': "mp_success res \<longrightarrow> (\<exists>n2. apply_committed (nl\<lparr>rn_log := rn_log nl @ [entry], rn_commit := int (length (rn_log nl))\<rparr>) = (n2, None)
       \<and> commit_round l (int (length (rn_log nl))) (put_fed_node fd2 l n2) (fd_members fd) = (fd', None))"
    by (rule replicate_led [OF assms(11,2-4)])
  have d: "distinct (map fst (fd_members fd))" and pm: "(p, m) \<in> set (fd_members fd)"
    using assms(1,5) by (auto simp: fed_inv_def dict_wf_def dict_get_Some_in)
  have pn: "dict_get (fd_nodes (put_fed_node fd l (nl\<lparr>rn_log := rn_log nl @ [entry]\<rparr>))) p = Some n"
    using assms(7,8) by simp
  obtain env n1 rep where env: "re_blocked env = (\<lambda>_ _ _. False)" and h: "handle_append_entries env n args = (n1, Inr rep)"
    and n1: "dict_get (fd_nodes fd2) p = Some n1"
    using append_round_turn [OF round d pm assms(6,7) pn refl] by blast
  have miss: "rn_log n1 = rn_log n" "rn_applied n1 = rn_applied n" "rn_machine n1 = rn_machine n"
    using append_missing_prev [OF _ _ h] env a assms(9) by simp_all
  have l2: "dict_get (fd_nodes fd2) l = Some (nl\<lparr>rn_log := rn_log nl @ [entry]\<rparr>)"
    using append_round_other [OF round, of l] by simp
  show ?thesis
  proof (cases "mp_success res")
    case False
    with failed n1 l2 miss show ?thesis by simp
  next
    case True
    then obtain n2 where n2: "apply_committed (nl\<lparr>rn_log := rn_log nl @ [entry], rn_commit := int (length (rn_log nl))\<rparr>) = (n2, None)"
      and c: "commit_round l (int (length (rn_log nl))) (put_fed_node fd2 l n2) (fd_members fd) = (fd', None)"
      using done' by blast
    have "dict_get (fd_nodes (put_fed_node fd2 l n2)) p = Some n1" using n1 assms(7) by simp
    from commit_round_turn [OF c d pm assms(6,7) this] obtain n' where
      ap: "apply_committed (n1\<lparr>rn_commit := int (length (rn_log nl))\<rparr>) = (n', None)" and n': "dict_get (fd_nodes fd') p = Some n'"
      by blast
    have spec: "rn_applied n' = max (rn_applied n) (int (length (rn_log nl)))"
        "rn_machine n' = apply_all (rn_machine n) (drop (nat (rn_applied n) + 1) (rn_log n))"
        "rn_log n' = rn_log n" "rn_commit n' = int (length (rn_log nl))"
      using apply_committed_spec [OF _ ap] assms(9,10) miss by simp_all
    have l': "dict_get (fd_nodes fd') l = Some n2"
      using commit_round_other [OF c, of l] by simp
    have "rn_log n2 = rn_log nl @ [entry]"
      using apply_committed_log [of "nl\<lparr>rn_log := rn_log nl @ [entry], rn_commit := int (length (rn_log nl))\<rparr>"] n2 by simp
    with n' l' spec show ?thesis by simp
  qed
qed

text \<open>A member that registers after the first replication is behind from the start.\<close>

definition led_node :: "string \<Rightarrow> raft_role \<Rightarrow> raft_node" where
  "led_node nid role = new_node nid ''0.0000'' 0\<lparr>rn_role := role, rn_term := 1,
     rn_log := [genesis_entry ''0.0000'', sample_entry 1 1 ''a'']\<rparr>"

definition late_fed :: federation where
  "late_fed = (put_fed_node (put_fed_node trio_fed ''b'' (led_node ''b'' Follower)) ''a'' (led_node ''a'' Leader))
     \<lparr>fd_leader := Some ''a''\<rparr>"

lemma trio_fed_nodes: "dict_get (fd_nodes trio_fed) k =
    (if k \<in> {''a'', ''b'', ''c''} then Some (new_node k ''0.0000'' 0) else None)"
  by (simp add: trio_fed_def new_federation_def register_regional_node_def Let_def dict_get_def)

lemma late_fed_inv: "fed_inv late_fed"
  unfolding late_fed_def fed_inv_leader
  by (intro fed_inv_put trio_fed_inv) (simp_all add: trio_fed_nodes led_node_def new_node_def)

definition late_result :: "federation \<times> (fed_exn + proposal_result)" where
  "late_result = replicate_cross_region_entry late_fed 0 0 ''1.0000'' Critique_Score [] None"

lemma late_result_ok: "\<exists>fd' res. late_result = (fd', Inr res) \<and> mp_success res"
  unfolding late_result_def late_fed_def
  by (simp add: fed_eval led_node_def replicate_cross_region_entry_def ensure_leader_def replicate_from_def fed_entry_def
      sample_entry_def handle_append_entries_def append_refused_def sign_entry_def apply_committed.simps apply_entry_def)

lemma lagging_member_stays_behind_witness:
  "\<exists>n. dict_get (fd_nodes (fst late_result)) ''c'' = Some n \<and> length (rn_log n) = 1 \<and> rn_commit n = 2 \<and> rn_applied n = 2"
proof -
  obtain fd' res where r: "late_result = (fd', Inr res)" "mp_success res"
    using late_result_ok by blast
  obtain nl n m where at: "fd_leader late_fed = Some ''a''" "dict_get (fd_nodes late_fed) ''a'' = Some nl"
      "dict_get (fd_members late_fed) ''c'' = Some m" "fm_active m" "dict_get (fd_nodes late_fed) ''c'' = Some n"
      "length (rn_log n) = 1" "length (rn_log nl) = 2" "rn_applied n = 0"
    by (simp add: late_fed_def fed_eval led_node_def)
  obtain n' where "dict_get (fd_nodes fd') ''c'' = Some n'" "rn_log n' = rn_log n" "rn_commit n' = 2" "rn_applied n' = 2"
    using lagging_member_stays_behind [OF late_fed_inv at(1) _ at(2,3,4) _ at(5) _ _ r(1) [unfolded late_result_def]] at r(2)
    by auto
  then show ?thesis
    unfolding r(1) fst_conv using at(6) by (intro exI [of _ n']) simp
qed


section \<open>Failover\<close>

lemma mark_region_nodes:
  assumes "mark_region region fd ms = (fd', r)"
  shows "fd_leader fd' = fd_leader fd"
  using assms
proof (induction ms arbitrary: fd)
  case (Cons pm ms)
  obtain p m where pm: "pm = (p, m)" by (cases pm)
  show ?case
    using Cons.prems Cons.IH unfolding pm by (fastforce simp: Let_def split: if_splits option.splits)
qed simp

lemma mark_region_members:
  assumes "mark_region region fd ms = (fd', None)" "distinct (map fst ms)"
    and "\<forall>(p, m) \<in> set ms. dict_get (fd_members fd) p = Some m"
  shows "dict_get (fd_members fd') p = map_option (\<lambda>m. if (p, m) \<in> set ms \<and> fm_region m = region
      then m\<lparr>fm_active := False\<rparr> else m) (dict_get (fd_members fd) p)"
  using assms
proof (induction ms arbitrary: fd)
  case (Cons pm ms)
  obtain q k where q: "pm = (q, k)" by (cases pm)
  have fresh: "(q, x) \<notin> set ms" for x using Cons.prems(2) q by force
  have tl: "distinct (map fst ms)" using Cons.prems(2) by simp
  show ?case
  proof (cases "fm_region k = region")
    case False
    with Cons.prems(1) q have "mark_region region fd ms = (fd', None)" by simp
    from Cons.IH [OF this tl] Cons.prems(3) False q show ?thesis
      by (auto simp: option.map_comp o_def intro!: option.map_cong)
  next
    case True
    let ?fd1 = "fd\<lparr>fd_members := dict_put q (k\<lparr>fm_active := False\<rparr>) (fd_members fd)\<rparr>"
    obtain n where "mark_region region (put_fed_node ?fd1 q (n\<lparr>rn_role := Follower\<rparr>)) ms = (fd', None)"
      using Cons.prems(1) q True by (auto simp: Let_def split: option.splits)
    from Cons.IH [OF this tl] have "dict_get (fd_members fd') p = map_option (\<lambda>m. if (p, m) \<in> set ms \<and> fm_region m = region
      then m\<lparr>fm_active := False\<rparr> else m) (dict_get (dict_put q (k\<lparr>fm_active := False\<rparr>) (fd_members fd)) p)"
      using Cons.prems(3) fresh q by fastforce
    with fresh Cons.prems(3) q True show ?thesis
      by (auto intro!: option.map_cong)
  qed
qed (simp add: option.map_ident)

text \<open>An election changes nodes, and the leader only when it succeeds.\<close>

lemma elect_frame:
  assumes "elect_cross_cluster_leader fd now cand = (fd', Inr b)"
  shows "nodes_only fd (fd'\<lparr>fd_leader := fd_leader fd\<rparr>)" "fd_leader fd' = (if b then Some cand else fd_leader fd)"
    "b \<Longrightarrow> \<exists>n. dict_get (fd_nodes fd') cand = Some n \<and> rn_role n = Leader"
proof -
  obtain n meta where n: "dict_get (fd_nodes fd) cand = Some n" and meta: "dict_get (fd_members fd) cand = Some meta"
    using assms by (auto simp: elect_cross_cluster_leader_def split: option.splits)
  define n1 where "n1 = n\<lparr>rn_role := Candidate, rn_term := rn_term n + 1, rn_voted := Some cand\<rparr>"
  obtain lt where lt: "last_log_term n1 = Some lt"
    using assms n meta by (auto simp: elect_cross_cluster_leader_def Let_def n1_def split: option.splits)
  let ?args = "\<lparr>va_term = rn_term n1, va_candidate = cand, va_last_index = int (length (rn_log n1)) - 1, va_last_term = lt\<rparr>"
  obtain fd2 v rs role where round: "vote_round now ?args (put_fed_node fd cand n1) 1 {fm_region meta} (fd_members fd) = (fd2, Inr (v, rs))"
    and fd': "fd' = (put_fed_node fd2 cand (n1\<lparr>rn_role := role\<rparr>))\<lparr>fd_leader := if b then Some cand else fd_leader fd2\<rparr>"
    and role: "b \<Longrightarrow> role = Leader"
  proof (cases "vote_round now ?args (put_fed_node fd cand n1) 1 {fm_region meta} (fd_members fd)")
    case (Pair fd2 r)
    with assms n meta lt obtain v rs where "r = Inr (v, rs)"
      by (auto simp: elect_cross_cluster_leader_def Let_def n1_def [symmetric] split: sum.splits)
    with Pair assms n meta lt that [of fd2 v rs Leader] that [of fd2 v rs Follower] show thesis
      by (auto simp: elect_cross_cluster_leader_def Let_def n1_def [symmetric] put_fed_node_def split: if_splits)
  qed
  have o1: "nodes_only fd (put_fed_node fd cand n1)"
    using nodes_only_put [OF n] by (simp add: n1_def)
  have o2: "nodes_only (put_fed_node fd cand n1) fd2"
    using vote_round_nodes_only [of "put_fed_node fd cand n1" now ?args 1 "{fm_region meta}" "fd_members fd"]
    by (simp only: round fst_conv)
  have same: "fd_leader fd2 = fd_leader fd"
    using o1 o2 by (simp add: nodes_only_def)
  obtain n2 where n2: "dict_get (fd_nodes fd2) cand = Some n2" and "rn_id n2 = rn_id n"
    by (rule nodes_only_at [OF nodes_only_trans [OF o1 o2] n])
  then have "nodes_only fd2 (put_fed_node fd2 cand (n1\<lparr>rn_role := role\<rparr>))"
    using nodes_only_put [OF n2] by (simp add: n1_def)
  from nodes_only_trans [OF nodes_only_trans [OF o1 o2] this]
  show "nodes_only fd (fd'\<lparr>fd_leader := fd_leader fd\<rparr>)"
    unfolding fd' nodes_only_def by simp
  show "fd_leader fd' = (if b then Some cand else fd_leader fd)"
    using fd' same by simp
  show "b \<Longrightarrow> \<exists>n. dict_get (fd_nodes fd') cand = Some n \<and> rn_role n = Leader"
    using fd' role by simp
qed

lemma active_member: "fed_inv fd \<Longrightarrow> (p, m) \<in> set (active_members fd) \<longleftrightarrow> dict_get (fd_members fd) p = Some m \<and> fm_active m"
  by (auto simp: active_members_def fed_inv_def dict_get_iff)

lemma mark_region_inv:
  "mark_region region fd ms = (fd', r) \<Longrightarrow> fed_inv fd \<Longrightarrow> \<forall>(p, m) \<in> set ms. dict_get (fd_members fd) p \<noteq> None \<Longrightarrow> fed_inv fd'"
proof (induction ms arbitrary: fd)
  case (Cons pm ms)
  obtain q k where q: "pm = (q, k)" by (cases pm)
  show ?case
  proof (cases "fm_region k = region")
    case False
    with Cons q show ?thesis by simp
  next
    case True
    let ?fd1 = "fd\<lparr>fd_members := dict_put q (k\<lparr>fm_active := False\<rparr>) (fd_members fd)\<rparr>"
    have mem: "dict_get (fd_members fd) q \<noteq> None" using Cons.prems(3) q by auto
    have inv1: "fed_inv ?fd1"
      using Cons.prems(2) mem by (auto simp: fed_inv_def)
    obtain n where n: "dict_get (fd_nodes fd) q = Some n" "rn_id n = q"
      by (rule fed_inv_node [OF Cons.prems(2) mem])
    have "fed_inv (put_fed_node ?fd1 q (n\<lparr>rn_role := Follower\<rparr>))"
      using fed_inv_put [OF inv1] n by simp
    moreover have "mark_region region (put_fed_node ?fd1 q (n\<lparr>rn_role := Follower\<rparr>)) ms = (fd', r)"
      using Cons.prems(1) q True n by (simp add: Let_def)
    ultimately show ?thesis
      using Cons.IH Cons.prems(3) q by fastforce
  qed
qed simp

text \<open>When the leader's region goes dark, the failover either elects a member that is active and elsewhere,
which is then in the leader's role, or returns nothing. In that case, if anybody survives, the failed
leader is still the federation's leader, although it is inactive, and the next replication goes through it
without a new election.\<close>

theorem failover_elects_survivor_or_keeps_dead_leader:
  assumes "fed_inv fd" "fd_leader fd = Some l" "l \<noteq> []" "dict_get (fd_members fd) l = Some meta"
    and "dict_get (fd_members fd) p = Some m" "fm_active m" "fm_region m \<noteq> fm_region meta"
    and "handle_regional_partition fd now (fm_region meta) = (fd', Inr r)"
  shows "(case r of
      Some c \<Rightarrow> fd_leader fd' = Some c \<and> (\<exists>mc n. dict_get (fd_members fd') c = Some mc \<and> fm_active mc
        \<and> fm_region mc \<noteq> fm_region meta \<and> dict_get (fd_nodes fd') c = Some n \<and> rn_role n = Leader)
    | None \<Rightarrow> fd_leader fd' = Some l \<and> dict_get (fd_members fd') l = Some (meta\<lparr>fm_active := False\<rparr>)
        \<and> ensure_leader fd' later = (fd', None))"
proof -
  have wf: "dict_wf (fd_members fd)" using assms(1) by (simp add: fed_inv_def)
  then have d: "distinct (map fst (fd_members fd))"
    and at: "\<forall>(p, m) \<in> set (fd_members fd). dict_get (fd_members fd) p = Some m"
    by (auto simp: dict_wf_def dict_get_iff)
  obtain fd1 where mk: "mark_region (fm_region meta) fd (fd_members fd) = (fd1, None)"
    using assms(8) by (auto simp: handle_regional_partition_def split: prod.splits option.splits)
  have lead: "fd_leader fd1 = Some l" using mark_region_nodes [OF mk] assms(2) by simp
  have inv: "fed_inv fd1" using mark_region_inv [OF mk assms(1)] at by auto
  note mem = mark_region_members [OF mk d at]
  have l1: "dict_get (fd_members fd1) l = Some (meta\<lparr>fm_active := False\<rparr>)"
    using mem [of l] assms(4) dict_get_iff [OF wf, of l meta] by simp
  have "(p, m) \<in> set (active_members fd1)"
    unfolding active_member [OF inv] using mem [of p] assms(5-7) by simp
  then obtain first mf rest where first: "active_members fd1 = (first, mf) # rest"
    by (cases "active_members fd1") auto
  then have mf: "dict_get (fd_members fd1) first = Some mf" "fm_active mf"
    using active_member [OF inv, of first mf] by simp_all
  have region: "fm_region mf \<noteq> fm_region meta"
  proof -
    obtain m0 where "dict_get (fd_members fd) first = Some m0"
      "mf = (if (first, m0) \<in> set (fd_members fd) \<and> fm_region m0 = fm_region meta then m0\<lparr>fm_active := False\<rparr> else m0)"
      using mem [of first] mf(1) by (cases "dict_get (fd_members fd) first") auto
    with mf(2) dict_get_iff [OF wf, of first m0] show ?thesis by (auto split: if_splits)
  qed
  have h: "(case elect_cross_cluster_leader fd1 now first of
              (fd2, Inl x) \<Rightarrow> (fd2, Inl x)
            | (fd2, Inr True) \<Rightarrow> (fd2, Inr (fd_leader fd2))
            | (fd2, Inr False) \<Rightarrow> (fd2, Inr None)) = (fd', Inr r)"
    using assms(3,8) mk first lead l1 by (simp add: handle_regional_partition_def)
  then obtain b where e: "elect_cross_cluster_leader fd1 now first = (fd', Inr b)"
    and r: "r = (if b then fd_leader fd' else None)"
    by (auto split: prod.splits sum.splits bool.splits)
  have mems: "fd_members fd' = fd_members fd1"
    using elect_frame(1) [OF e] by (simp add: nodes_only_def)
  show ?thesis
  proof (cases b)
    case True
    with elect_frame(2,3) [OF e] mf region mems r show ?thesis by auto
  next
    case False
    then have lead': "fd_leader fd' = Some l" using elect_frame(2) [OF e] lead by simp
    obtain nl where "dict_get (fd_nodes fd1) l = Some nl"
      by (rule fed_inv_node [OF inv, of l]) (use l1 in auto)
    then obtain nl' where "dict_get (fd_nodes (fd'\<lparr>fd_leader := fd_leader fd1\<rparr>)) l = Some nl'"
      by (rule nodes_only_at [OF elect_frame(1) [OF e]])
    with lead' assms(3) have "ensure_leader fd' later = (fd', None)" by (simp add: ensure_leader_def)
    with False r lead' l1 mems show ?thesis by simp
  qed
qed

text \<open>Two survivors, the first of them a late member with a short log: it cannot win the second's vote.\<close>

definition stuck_fed :: federation where
  "stuck_fed = (put_fed_node (put_fed_node (fst (register_regional_node trio_fed ''0.0000'' 0 ''d'' AP_East ''org'' ''10.0.0.1'' 10))
       ''d'' (led_node ''d'' Follower)) ''a'' (led_node ''a'' Leader))\<lparr>fd_leader := Some ''a''\<rparr>"

lemma stuck_fed_inv: "fed_inv stuck_fed"
  unfolding stuck_fed_def fed_inv_leader
  by (intro fed_inv_put fed_inv_register trio_fed_inv)
    (simp_all add: trio_fed_nodes led_node_def new_node_def register_regional_node_def Let_def)

lemma stuck_fed_fails: "snd (handle_regional_partition stuck_fed 0 US_East) = Inr None"
  by (simp add: stuck_fed_def fed_eval handle_regional_partition_def led_node_def sample_entry_def vote_denied_def)

lemma failover_elects_survivor_or_keeps_dead_leader_witness:
  "fd_leader (fst (handle_regional_partition stuck_fed 0 US_East)) = Some ''a''"
proof -
  obtain meta m where at: "dict_get (fd_members stuck_fed) ''a'' = Some meta" "fm_region meta = US_East"
      "dict_get (fd_members stuck_fed) ''c'' = Some m" "fm_active m" "fm_region m = EU_Central" "fd_leader stuck_fed = Some ''a''"
    by (simp add: stuck_fed_def fed_eval)
  have "handle_regional_partition stuck_fed 0 (fm_region meta) = (fst (handle_regional_partition stuck_fed 0 US_East), Inr None)"
    using stuck_fed_fails at(2) by (simp add: prod_eq_iff)
  from failover_elects_survivor_or_keeps_dead_leader [OF stuck_fed_inv at(6) _ at(1,3,4) _ this, of 0] at show ?thesis
    by simp
qed

end
