(* ===== verification/Merkle.thy ===== *)
theory Merkle
  imports Sha256 Prelude
begin

text \<open>
  The Merkle tree of the audit ledger (core/merkle.py) and its inclusion proofs
  (\<open>generate_merkle_proof\<close> and \<open>verify_merkle_proof\<close> of core/audit_ledger.py).
\<close>

section \<open>The tree\<close>

text \<open>One pass over a level: neighbours are hashed together, an odd last node with itself.\<close>

fun pair_level :: "string list \<Rightarrow> string list" where
  "pair_level [] = []"
| "pair_level [x] = [sha256 (x @ x)]"
| "pair_level (x # y # zs) = sha256 (x @ y) # pair_level zs"

lemma length_pair_level [simp]: "length (pair_level xs) = (length xs + 1) div 2"
  by (induction xs rule: pair_level.induct) auto

function collapse :: "string list \<Rightarrow> string list" where
  "collapse level = (if length level > 1 then collapse (pair_level level) else level)"
  by pat_completeness auto
termination
  by (relation "measure length") auto

declare collapse.simps [simp del]

definition merkle_root :: "string list \<Rightarrow> string" where
  "merkle_root leaves = (if leaves = [] then zero_hash else hd (collapse (map sha256 leaves)))"


section \<open>Inclusion proofs\<close>

datatype side = Left_Side | Right_Side

record merkle_proof =
  mk_path :: "(string \<times> side) list"
  mk_root :: string
  mk_event :: string

text \<open>The proof generator keeps every level, from the leaves' hashes up to the root.\<close>

function levels_of :: "string list \<Rightarrow> string list list" where
  "levels_of level = (if length level > 1 then level # levels_of (pair_level level) else [level])"
  by pat_completeness auto
termination
  by (relation "measure length") auto

declare levels_of.simps [simp del]

definition sibling :: "string list \<Rightarrow> nat \<Rightarrow> string \<times> side" where
  "sibling level i =
     (if i mod 2 = 0 then (if i + 1 < length level then level ! (i + 1) else level ! i, Right_Side)
      else (level ! (i - 1), Left_Side))"

fun proof_path :: "nat \<Rightarrow> string list list \<Rightarrow> (string \<times> side) list" where
  "proof_path i [] = []"
| "proof_path i (level # ls) = sibling level i # proof_path (i div 2) ls"

fun first_index :: "int \<Rightarrow> int list \<Rightarrow> nat option" where
  "first_index x [] = None"
| "first_index x (y # ys) = (if x = y then Some 0 else map_option Suc (first_index x ys))"

text \<open>The rows are the identifiers and hashes of the events, in the order of the identifiers.\<close>

definition generate_merkle_proof :: "(int \<times> string) list \<Rightarrow> int \<Rightarrow> merkle_proof option" where
  "generate_merkle_proof rows eid =
     (if rows = [] then None
      else case first_index eid (map fst rows) of
          None \<Rightarrow> None
        | Some i \<Rightarrow>
            (let hashes = map snd rows; levels = levels_of (map sha256 hashes)
             in Some \<lparr>mk_path = proof_path i (butlast levels), mk_root = hd (last levels),
                      mk_event = hashes ! i\<rparr>))"

text \<open>
  The verifier reads each step from a dictionary: a missing or empty hash or position refuses the proof,
  and every position that is not \<open>left\<close> counts as right.
\<close>

type_synonym raw_step = "string option \<times> string option"

fun walk_proof :: "string \<Rightarrow> raw_step list \<Rightarrow> string option" where
  "walk_proof cur [] = Some cur"
| "walk_proof cur ((sib, pos) # steps) =
     (case (sib, pos) of
        (Some s, Some p) \<Rightarrow>
          (if s = [] \<or> p = [] then None
           else walk_proof (sha256 (if p = ''left'' then s @ cur else cur @ s)) steps)
      | _ \<Rightarrow> None)"

definition verify_merkle_proof :: "string \<Rightarrow> raw_step list \<Rightarrow> string \<Rightarrow> bool" where
  "verify_merkle_proof event steps root =
     (if event = [] \<or> root = [] then False else walk_proof (sha256 event) steps = Some root)"

text \<open>A generated path as the dictionaries the verifier reads.\<close>

fun side_value :: "side \<Rightarrow> string" where
  "side_value Left_Side = ''left''"
| "side_value Right_Side = ''right''"

definition raw_path :: "(string \<times> side) list \<Rightarrow> raw_step list" where
  "raw_path path = map (\<lambda>(s, d). (Some s, Some (side_value d))) path"


section \<open>Levels and roots\<close>

lemma levels_of_not_Nil [simp]: "levels_of xs \<noteq> []"
  by (subst levels_of.simps) auto

text \<open>The two loops of the sources build the same tree.\<close>

lemma last_levels: "last (levels_of xs) = collapse xs"
proof (induction xs rule: collapse.induct)
  case (1 xs)
  then show ?case
    by (subst levels_of.simps, subst collapse.simps) auto
qed

lemma length_collapse: "xs \<noteq> [] \<Longrightarrow> length (collapse xs) = 1"
proof (induction xs rule: collapse.induct)
  case (1 xs)
  have "length xs > 1 \<Longrightarrow> pair_level xs \<noteq> []"
    using length_pair_level [of xs] by (auto simp del: length_pair_level)
  with 1 show ?case
    by (subst collapse.simps) (cases xs, auto)
qed

lemma pair_level_nth:
  "j < (length xs + 1) div 2 \<Longrightarrow> pair_level xs ! j =
     sha256 (xs ! (2 * j) @ (if 2 * j + 1 < length xs then xs ! (2 * j + 1) else xs ! (2 * j)))"
proof (induction xs arbitrary: j rule: pair_level.induct)
  case (3 x y zs)
  then show ?case by (cases j) auto
qed auto

text \<open>One step of the walk goes from a node to its parent.\<close>

lemma sibling_parent:
  assumes "i < length level" "sibling level i = (s, d)"
  shows "sha256 (if d = Left_Side then s @ level ! i else level ! i @ s) = pair_level level ! (i div 2)"
    and "s \<in> set level"
proof -
  have j: "i div 2 < (length level + 1) div 2" using assms(1) by simp
  show "sha256 (if d = Left_Side then s @ level ! i else level ! i @ s) = pair_level level ! (i div 2)"
  proof (cases "i mod 2 = 0")
    case True
    then have "2 * (i div 2) = i" by presburger
    with assms True j show ?thesis
      by (auto simp: sibling_def pair_level_nth)
  next
    case False
    then have "2 * (i div 2) = i - 1" "i - 1 + 1 = i" by presburger+
    with assms False j show ?thesis
      by (auto simp: sibling_def pair_level_nth)
  qed
  show "s \<in> set level"
    using assms by (auto simp: sibling_def split: if_splits)
qed

lemma walk_path:
  assumes "i < length level" "\<forall>x \<in> set level. x \<noteq> []"
  shows "walk_proof (level ! i) (raw_path (proof_path i (butlast (levels_of level)))) = Some (hd (collapse level))"
  using assms
proof (induction level arbitrary: i rule: collapse.induct)
  case (1 level)
  show ?case
  proof (cases "length level > 1")
    case False
    with 1(2) have "level = [level ! 0]" "i = 0"
      by (cases level; simp)+
    with False show ?thesis
      by (subst levels_of.simps, subst collapse.simps) (simp add: raw_path_def, metis list.sel(1))
  next
    case True
    obtain s d where sib: "sibling level i = (s, d)" by fastforce
    note par = sibling_parent [OF 1(2) sib]
    have ne: "\<forall>x \<in> set (pair_level level). x \<noteq> []"
      by (auto simp: in_set_conv_nth pair_level_nth)
    have "walk_proof (pair_level level ! (i div 2))
        (raw_path (proof_path (i div 2) (butlast (levels_of (pair_level level))))) = Some (hd (collapse (pair_level level)))"
      by (rule 1(1) [OF True _ ne]) (use 1(2) in simp)
    moreover have "butlast (levels_of level) = level # butlast (levels_of (pair_level level))"
      using True by (subst levels_of.simps) simp
    moreover have "s \<noteq> []" using par(2) 1(3) by blast
    moreover have "side_value d \<noteq> []" "side_value d = ''left'' \<longleftrightarrow> d = Left_Side"
      by (cases d; simp)+
    ultimately show ?thesis
      using True par(1) sib by (subst collapse.simps) (simp add: raw_path_def)
  qed
qed

lemma first_index_Some:
  "first_index x ys = Some i \<longleftrightarrow> i < length ys \<and> ys ! i = x \<and> (\<forall>j < i. ys ! j \<noteq> x)"
proof (induction ys arbitrary: i)
  case (Cons y ys)
  show ?case
  proof (cases "x = y")
    case True
    then show ?thesis by (auto simp: less_Suc_eq_0_disj)
  next
    case False
    show ?thesis
    proof (cases i)
      case 0
      with False show ?thesis by auto
    next
      case (Suc k)
      with False Cons [of k] show ?thesis by (auto simp: less_Suc_eq_0_disj)
    qed
  qed
qed simp

lemma first_index_None: "first_index x ys = None \<longleftrightarrow> x \<notin> set ys"
  by (induction ys) auto


section \<open>The nodes of a tree\<close>

text \<open>The texts that are hashed for a root: the leaves and, level by level, two nodes together.\<close>

fun pair_texts :: "string list \<Rightarrow> string list" where
  "pair_texts [] = []"
| "pair_texts [x] = [x @ x]"
| "pair_texts (x # y # zs) = (x @ y) # pair_texts zs"

lemma pair_level_texts: "pair_level xs = map sha256 (pair_texts xs)"
  by (induction xs rule: pair_texts.induct) simp_all

function inner_texts :: "string list \<Rightarrow> string list" where
  "inner_texts level = (if length level > 1 then pair_texts level @ inner_texts (pair_level level) else [])"
  by pat_completeness auto
termination
  by (relation "measure length") auto

declare inner_texts.simps [simp del]

definition tree_texts :: "string list \<Rightarrow> string list" where
  "tree_texts leaves = leaves @ inner_texts (map sha256 leaves)"

text \<open>The texts the verifier hashes on the way from an event to the root.\<close>

fun walk_texts :: "string \<Rightarrow> raw_step list \<Rightarrow> string list" where
  "walk_texts cur ((Some s, Some p) # steps) =
     (let c = (if p = ''left'' then s @ cur else cur @ s) in c # walk_texts (sha256 c) steps)"
| "walk_texts cur steps = []"

definition proof_texts :: "string \<Rightarrow> raw_step list \<Rightarrow> string list" where
  "proof_texts event steps = event # walk_texts (sha256 event) steps"

text \<open>A collision between texts of two given lists.\<close>

definition collision_among :: "string list \<Rightarrow> string list \<Rightarrow> bool" where
  "collision_among xs ys = list_ex (\<lambda>x. list_ex (collision sha256 x) ys) xs"

lemma collision_amongI: "x \<in> set xs \<Longrightarrow> y \<in> set ys \<Longrightarrow> sha256 x = sha256 y \<Longrightarrow> x \<noteq> y \<Longrightarrow> collision_among xs ys"
  by (auto simp: collision_among_def list_ex_iff collision_def)

lemma collision_among_Cons: "collision_among xs ys \<Longrightarrow> collision_among (x # xs) ys"
  by (simp add: collision_among_def)

text \<open>Every node is the hash of a text of the tree, and such a text is a leaf or two nodes.\<close>

abbreviation tree_nodes :: "string list \<Rightarrow> string set" where
  "tree_nodes leaves \<equiv> sha256 ` set (tree_texts leaves)"

lemma pair_texts_halves: "t \<in> set (pair_texts xs) \<Longrightarrow> \<exists>l \<in> set xs. \<exists>r \<in> set xs. t = l @ r"
  by (induction xs rule: pair_texts.induct) auto

lemma inner_texts_halves:
  "set level \<subseteq> N \<Longrightarrow> sha256 ` set (inner_texts level) \<subseteq> N \<Longrightarrow> t \<in> set (inner_texts level) \<Longrightarrow> \<exists>l \<in> N. \<exists>r \<in> N. t = l @ r"
proof (induction level rule: inner_texts.induct)
  case (1 level)
  note ih = 1(1)
  show ?case
  proof (cases "length level > 1")
    case True
    then have it: "inner_texts level = pair_texts level @ inner_texts (pair_level level)" by (simp add: inner_texts.simps)
    have sub: "set (pair_level level) \<subseteq> N" "sha256 ` set (inner_texts (pair_level level)) \<subseteq> N"
      using 1(3) unfolding it by (auto simp: pair_level_texts)
    from 1(4) it consider "t \<in> set (pair_texts level)" | "t \<in> set (inner_texts (pair_level level))" by auto
    then show ?thesis
    proof cases
      case 1
      from pair_texts_halves [OF this] \<open>set level \<subseteq> N\<close> show ?thesis by blast
    next
      case 2
      from ih [OF True sub this] show ?thesis .
    qed
  next
    case False
    with 1(4) show ?thesis by (simp add: inner_texts.simps)
  qed
qed

lemma tree_text_cases:
  assumes "t \<in> set (tree_texts leaves)"
  shows "t \<in> set leaves \<or> (\<exists>l \<in> tree_nodes leaves. \<exists>r \<in> tree_nodes leaves. t = l @ r)"
  using assms inner_texts_halves [of "map sha256 leaves" "tree_nodes leaves" t] by (auto simp: tree_texts_def)

lemma collapse_in_texts:
  "xs \<noteq> [] \<Longrightarrow> set xs \<union> sha256 ` set (inner_texts xs) \<subseteq> N \<Longrightarrow> hd (collapse xs) \<in> N"
proof (induction xs rule: collapse.induct)
  case (1 xs)
  show ?case
  proof (cases "length xs > 1")
    case True
    then have it: "inner_texts xs = pair_texts xs @ inner_texts (pair_level xs)" "collapse xs = collapse (pair_level xs)"
      by (simp_all add: inner_texts.simps collapse.simps)
    have "pair_level xs \<noteq> []" using True length_pair_level [of xs] by (auto simp del: length_pair_level)
    then show ?thesis
      using 1(1) [OF True] 1(3) it by (auto simp: pair_level_texts)
  next
    case False
    with 1(2) have "collapse xs = xs" by (simp add: collapse.simps)
    with 1(2,3) show ?thesis by (cases xs) auto
  qed
qed

lemma merkle_root_node: "leaves \<noteq> [] \<Longrightarrow> merkle_root leaves \<in> tree_nodes leaves"
  unfolding merkle_root_def by (simp, rule collapse_in_texts) (auto simp: tree_texts_def)

lemma length_node: "x \<in> tree_nodes leaves \<Longrightarrow> length x = 64"
  by auto

text \<open>A walk that ends in a node starts in one, unless one of its texts collides with one of the tree's.\<close>

lemma walk_stays_in_tree:
  assumes "\<forall>x \<in> set leaves. length x = 64" "root \<in> tree_nodes leaves"
  shows "walk_proof cur steps = Some root \<Longrightarrow> length cur = 64 \<Longrightarrow>
    cur \<in> tree_nodes leaves \<or> collision_among (walk_texts cur steps) (tree_texts leaves)"
proof (induction steps arbitrary: cur)
  case Nil
  with assms(2) show ?case by simp
next
  case (Cons st steps)
  from Cons.prems(1) obtain s p where st: "st = (Some s, Some p)" "s \<noteq> []"
    and rest: "walk_proof (sha256 (if p = ''left'' then s @ cur else cur @ s)) steps = Some root"
    by (cases st) (auto split: option.splits if_splits)
  let ?c = "if p = ''left'' then s @ cur else cur @ s"
  have texts: "walk_texts cur (st # steps) = ?c # walk_texts (sha256 ?c) steps" by (simp add: st(1) Let_def)
  from Cons.IH [OF rest] consider "sha256 ?c \<in> tree_nodes leaves" | "collision_among (walk_texts (sha256 ?c) steps) (tree_texts leaves)"
    by auto
  then show ?case
  proof cases
    case 1
    then obtain t where t: "t \<in> set (tree_texts leaves)" "sha256 ?c = sha256 t" by auto
    show ?thesis
    proof (cases "?c = t")
      case False
      with t have "collision_among (walk_texts cur (st # steps)) (tree_texts leaves)"
        unfolding texts by (intro collision_amongI [of ?c _ t]) simp_all
      then show ?thesis ..
    next
      case True
      have "length ?c \<noteq> 64" using st(2) Cons.prems(2) by auto
      then obtain l r where lr: "?c = l @ r" "l \<in> tree_nodes leaves" "r \<in> tree_nodes leaves"
        using tree_text_cases [OF t(1)] assms(1) True by auto
      then have len: "length l = 64" "length r = 64" by (simp_all add: length_node)
      have "cur = l \<or> cur = r"
      proof (cases "p = ''left''")
        case True
        with lr(1) have "s @ cur = l @ r" by simp
        with Cons.prems(2) len show ?thesis by (metis append_eq_append_conv)
      next
        case False
        with lr(1) have "cur @ s = l @ r" by simp
        with Cons.prems(2) len show ?thesis by (metis append_eq_append_conv)
      qed
      with lr show ?thesis by auto
    qed
  next
    case 2
    then show ?thesis unfolding texts by (blast intro: collision_among_Cons)
  qed
qed

end
