(* ===== verification/Audit_Ledger.thy ===== *)
theory Audit_Ledger
  imports Merkle Json
begin

text \<open>
  The audit ledger and its replication daemon (core/audit_ledger.py).

  The table is the list of its rows in the order of their identifiers; \<open>lg_seq\<close> is what SQLite's
  AUTOINCREMENT remembers, the largest identifier ever used. \<open>loads\<close> is \<open>json.loads\<close>, \<^const>\<open>None\<close> when it
  raises; the time of an event is the text of its timestamp. The locks and the connection settings are
  left out: every method is one transaction. \<open>get_logs\<close> is given before the decoding of its payloads.
  Messages of the daemon have all their keys; subscribing, and the loop that broadcasts at intervals, are
  left out.
\<close>

section \<open>Rows\<close>

record audit_row =
  al_id :: int
  al_event :: string
  al_payload :: string
  al_prev :: string
  al_hash :: string
  al_time :: string
  al_tenant :: string

record ledger =
  lg_rows :: "audit_row list"
  lg_seq :: int
  lg_revoked :: "(string, string) dict"

definition empty_ledger :: ledger where
  "empty_ledger = \<lparr>lg_rows = [], lg_seq = 0, lg_revoked = []\<rparr>"

definition default_tenant :: string where
  "default_tenant = ''default_tenant''"

definition row_hash :: "string \<Rightarrow> string \<Rightarrow> string \<Rightarrow> string" where
  "row_hash prev payload time = sha256 (prev @ payload @ time)"

definition last_hash :: "audit_row list \<Rightarrow> string" where
  "last_hash rows = (if rows = [] then zero_hash else al_hash (last rows))"

definition next_id :: "ledger \<Rightarrow> int" where
  "next_id led = foldl max (lg_seq led) (map al_id (lg_rows led)) + 1"

definition record_event :: "ledger \<Rightarrow> string \<Rightarrow> string \<Rightarrow> json \<Rightarrow> string \<Rightarrow> ledger \<times> int" where
  "record_event led time event payload tenant =
     (let text = dumps Spaced payload;
          prev = last_hash (lg_rows led);
          row = \<lparr>al_id = next_id led, al_event = event, al_payload = text, al_prev = prev,
                 al_hash = row_hash prev text time, al_time = time, al_tenant = tenant\<rparr>
      in (led\<lparr>lg_rows := lg_rows led @ [row], lg_seq := next_id led\<rparr>, next_id led))"

text \<open>What the components that record events rely on: a record appends one row that says what was recorded,
and keeps the ledger consistent.\<close>

locale event_recorder =
  fixes record_in :: "'s \<Rightarrow> string \<Rightarrow> 'e \<Rightarrow> json \<Rightarrow> string \<Rightarrow> 's \<times> int"
    and rows :: "'s \<Rightarrow> 'r list"
    and inv :: "'s \<Rightarrow> bool"
    and says :: "'r \<Rightarrow> 'e \<Rightarrow> json \<Rightarrow> string \<Rightarrow> int \<Rightarrow> bool"
  assumes record_appends: "\<exists>row. rows (fst (record_in s time event payload tenant)) = rows s @ [row]
      \<and> says row event payload tenant (snd (record_in s time event payload tenant))"
    and record_keeps_inv: "inv s \<Longrightarrow> inv (fst (record_in s time event payload tenant))"
begin

definition record_all :: "(string \<times> 'e \<times> json \<times> string) list \<Rightarrow> 's \<Rightarrow> 's" where
  "record_all evs s = fold (\<lambda>(time, event, payload, tenant) s. fst (record_in s time event payload tenant)) evs s"

lemma record_all_inv: "inv s \<Longrightarrow> inv (record_all evs s)"
  by (induction evs arbitrary: s) (auto simp: record_all_def intro: record_keeps_inv)

lemma record_all_rows: "\<exists>new. rows (record_all evs s) = rows s @ new \<and> length new = length evs"
proof (induction evs arbitrary: s)
  case (Cons ev evs)
  obtain time event payload tenant where ev: "ev = (time, event, payload, tenant)" by (cases ev) auto
  obtain row where row: "rows (fst (record_in s time event payload tenant)) = rows s @ [row]"
    using record_appends by blast
  from Cons.IH [of "fst (record_in s time event payload tenant)"] show ?case
    by (auto simp: record_all_def ev row)
qed (simp add: record_all_def)

end

text \<open>\<open>INSERT OR REPLACE\<close> with an explicit identifier.\<close>

fun put_row :: "audit_row \<Rightarrow> audit_row list \<Rightarrow> audit_row list" where
  "put_row r [] = [r]"
| "put_row r (q # qs) =
     (if al_id r < al_id q then r # q # qs
      else if al_id r = al_id q then r # qs
      else q # put_row r qs)"

definition insert_raw_event :: "ledger \<Rightarrow> audit_row \<Rightarrow> ledger" where
  "insert_raw_event led r = led\<lparr>lg_rows := put_row r (lg_rows led), lg_seq := max (lg_seq led) (al_id r)\<rparr>"

definition get_logs :: "ledger \<Rightarrow> string option \<Rightarrow> string \<Rightarrow> audit_row list" where
  "get_logs led event tenant = filter (\<lambda>r. al_tenant r = tenant \<and>
     (case event of None \<Rightarrow> True | Some e \<Rightarrow> e = [] \<or> al_event r = e)) (lg_rows led)"

definition get_logs_after :: "ledger \<Rightarrow> int \<Rightarrow> audit_row list" where
  "get_logs_after led after = filter (\<lambda>r. al_id r > after) (lg_rows led)"

definition reset_ledger :: "ledger \<Rightarrow> ledger" where
  "reset_ledger led = led\<lparr>lg_rows := []\<rparr>"

definition revoke_certificate :: "ledger \<Rightarrow> string \<Rightarrow> string \<Rightarrow> ledger" where
  "revoke_certificate led time cert = led\<lparr>lg_revoked := dict_put cert time (lg_revoked led)\<rparr>"

definition reinstate_certificate :: "ledger \<Rightarrow> string \<Rightarrow> ledger" where
  "reinstate_certificate led cert = led\<lparr>lg_revoked := dict_pop cert (lg_revoked led)\<rparr>"

definition get_revoked_certificates :: "ledger \<Rightarrow> (string \<times> string) list" where
  "get_revoked_certificates led = lg_revoked led"

definition is_certificate_revoked :: "ledger \<Rightarrow> string \<Rightarrow> bool" where
  "is_certificate_revoked led cert = (dict_get (lg_revoked led) cert \<noteq> None)"


section \<open>Verification of the chain\<close>

definition canon :: "(string \<Rightarrow> json option) \<Rightarrow> string \<Rightarrow> string" where
  "canon loads s = (case loads s of None \<Rightarrow> s | Some j \<Rightarrow> dumps Spaced j)"

record chain_status =
  cs_valid :: bool
  cs_tampered :: "int option"
  cs_error :: "string option"
  cs_root :: string

fun check_rows :: "(string \<Rightarrow> string) \<Rightarrow> string \<Rightarrow> audit_row list \<Rightarrow> (int \<times> string) option" where
  "check_rows cn expected [] = None"
| "check_rows cn expected (r # rs) =
     (if al_prev r \<noteq> expected then Some (al_id r, ''previous_hash mismatch'')
      else if al_hash r \<noteq> row_hash (al_prev r) (cn (al_payload r)) (al_time r)
      then Some (al_id r, ''current_hash mismatch'')
      else check_rows cn (al_hash r) rs)"

definition verify_chain_integrity :: "(string \<Rightarrow> json option) \<Rightarrow> ledger \<Rightarrow> chain_status" where
  "verify_chain_integrity loads led =
     (case check_rows (canon loads) zero_hash (lg_rows led) of
        Some (i, e) \<Rightarrow> \<lparr>cs_valid = False, cs_tampered = Some i, cs_error = Some e, cs_root = zero_hash\<rparr>
      | None \<Rightarrow> \<lparr>cs_valid = True, cs_tampered = None, cs_error = None,
                  cs_root = merkle_root (map al_hash (lg_rows led))\<rparr>)"

definition ledger_proof :: "ledger \<Rightarrow> int \<Rightarrow> merkle_proof option" where
  "ledger_proof led eid = generate_merkle_proof (map (\<lambda>r. (al_id r, al_hash r)) (lg_rows led)) eid"


section \<open>Blinded proofs\<close>

text \<open>\<open>mac\<close> is the HMAC under the configured key, in hexadecimal; \<open>salt\<close> is drawn at random.\<close>

record blinded_proof =
  bp_proof :: string
  bp_commitment :: string
  bp_salt :: string
  bp_event :: string
  bp_time :: string
  bp_prev :: string
  bp_hash :: string

definition zk_message :: "string \<Rightarrow> string \<Rightarrow> string \<Rightarrow> string \<Rightarrow> string \<Rightarrow> string" where
  "zk_message event time prev hash commitment =
     event @ '':'' @ time @ '':'' @ prev @ '':'' @ hash @ '':'' @ commitment"

definition generate_zk_proof :: "(string \<Rightarrow> string) \<Rightarrow> string \<Rightarrow> ledger \<Rightarrow> int \<Rightarrow> blinded_proof option" where
  "generate_zk_proof mac salt led eid =
     (case find (\<lambda>r. al_id r = eid) (lg_rows led) of
        None \<Rightarrow> None
      | Some r \<Rightarrow>
          (let c = sha256 (al_payload r @ salt)
           in Some \<lparr>bp_proof = mac (zk_message (al_event r) (al_time r) (al_prev r) (al_hash r) c),
                    bp_commitment = c, bp_salt = salt, bp_event = al_event r, bp_time = al_time r,
                    bp_prev = al_prev r, bp_hash = al_hash r\<rparr>))"

definition verify_zk_proof ::
    "(string \<Rightarrow> string) \<Rightarrow> string \<Rightarrow> string \<Rightarrow> string \<Rightarrow> string \<Rightarrow> string option \<Rightarrow> string option \<Rightarrow> bool" where
  "verify_zk_proof mac event time prev hash commitment signature =
     (case (commitment, signature) of
        (Some c, Some s) \<Rightarrow>
          (if c = [] \<or> s = [] then False else s = mac (zk_message event time prev hash c))
      | _ \<Rightarrow> False)"


section \<open>The replication daemon\<close>

record peer_state =
  ps_last_seen :: string
  ps_count :: int
  ps_root :: string
  ps_status :: string

record sync_daemon =
  dm_node :: string
  dm_ledger :: ledger
  dm_peers :: "(string, peer_state) dict"
  dm_pending :: "string set"

datatype sync_msg =
    Sync_Query string
  | Sync_Ping string string int
  | Logs_Request string string int
  | Logs_Response string "audit_row list"

type_synonym published = "(string \<times> sync_msg) list"

definition local_count :: "sync_daemon \<Rightarrow> int" where
  "local_count d = int (length (get_logs (dm_ledger d) None default_tenant))"

definition broadcast_status :: "(string \<Rightarrow> json option) \<Rightarrow> sync_daemon \<Rightarrow> published" where
  "broadcast_status loads d =
     [(''audit:sync:check'',
       Sync_Ping (dm_node d) (cs_root (verify_chain_integrity loads (dm_ledger d))) (local_count d))]"

definition trigger_manual_sync :: "(string \<Rightarrow> json option) \<Rightarrow> sync_daemon \<Rightarrow> published" where
  "trigger_manual_sync loads d = (''audit:sync:check'', Sync_Query (dm_node d)) # broadcast_status loads d"

definition record_own :: "sync_daemon \<Rightarrow> string \<Rightarrow> string \<Rightarrow> json \<Rightarrow> sync_daemon" where
  "record_own d time event payload =
     d\<lparr>dm_ledger := fst (record_event (dm_ledger d) time event payload default_tenant)\<rparr>"

definition pending_key :: "string \<Rightarrow> int \<Rightarrow> string" where
  "pending_key peer count = peer @ '':'' @ int_str count"

definition process_ping ::
    "(string \<Rightarrow> json option) \<Rightarrow> string \<Rightarrow> sync_daemon \<Rightarrow> sync_msg \<Rightarrow> sync_daemon \<times> published" where
  "process_ping loads time d msg =
     (case msg of
        Sync_Query _ \<Rightarrow> (d, broadcast_status loads d)
      | Sync_Ping peer root count \<Rightarrow>
          (if peer = [] \<or> peer = dm_node d then (d, [])
           else
             (let local_root = cs_root (verify_chain_integrity loads (dm_ledger d));
                  mine = local_count d;
                  status = (if count = mine \<and> root = local_root then ''synchronized''
                            else if mine < count then ''peer_ahead'' else ''local_ahead'');
                  d1 = d\<lparr>dm_peers := dict_put peer \<lparr>ps_last_seen = time, ps_count = count, ps_root = root,
                           ps_status = status\<rparr> (dm_peers d)\<rparr>
              in if mine < count
                 then (if pending_key peer mine \<in> dm_pending d then (d1, [])
                       else (d1\<lparr>dm_pending := insert (pending_key peer mine) (dm_pending d1)\<rparr>,
                             [(''audit:sync:request'', Logs_Request (dm_node d) peer mine)]))
                 else if count = mine \<and> root \<noteq> local_root
                 then (record_own d1 time ''SOC2_VIOLATION'' (JObj
                         [(''error'', JStr ''Merkle root mismatch with equal event count / unresolvable fork detected''),
                          (''peer_node_id'', JStr peer), (''local_root'', JStr local_root),
                          (''peer_root'', JStr root), (''event_count'', JInt mine)]), [])
                 else (d1, [])))
      | _ \<Rightarrow> (d, []))"

definition process_request :: "sync_daemon \<Rightarrow> sync_msg \<Rightarrow> published" where
  "process_request d msg =
     (case msg of
        Logs_Request requester provider after \<Rightarrow>
          (if provider \<noteq> dm_node d then []
           else [(''audit:sync:response:'' @ requester,
                  Logs_Response (dm_node d) (get_logs_after (dm_ledger d) after))])
      | _ \<Rightarrow> [])"

fun check_incoming :: "(string \<Rightarrow> string) \<Rightarrow> string \<Rightarrow> audit_row list \<Rightarrow> bool" where
  "check_incoming cn expected [] = True"
| "check_incoming cn expected (r # rs) =
     (if al_prev r \<noteq> expected then False
      else if row_hash (al_prev r) (cn (al_payload r)) (al_time r) \<noteq> al_hash r then False
      else check_incoming cn (al_hash r) rs)"

definition process_response ::
    "(string \<Rightarrow> json option) \<Rightarrow> string \<Rightarrow> sync_daemon \<Rightarrow> sync_msg \<Rightarrow> sync_daemon" where
  "process_response loads time d msg =
     (case msg of
        Logs_Response provider incoming \<Rightarrow>
          (case incoming of
             [] \<Rightarrow> d
           | first # _ \<Rightarrow>
               (if \<not> check_incoming (canon loads) (last_hash (get_logs (dm_ledger d) None default_tenant)) incoming
                then record_own d time ''SOC2_VIOLATION'' (JObj
                       [(''error'', JStr ''Replicated logs failed cryptographic verification''),
                        (''provider_node_id'', JStr provider), (''first_incoming_id'', JInt (al_id first))])
                else
                  (let healed = d\<lparr>dm_ledger := foldl insert_raw_event (dm_ledger d) incoming,
                                  dm_pending := dm_pending d - {pending_key provider (local_count d)}\<rparr>
                   in record_own healed time ''CONSENSUS_RECOVERY'' (JObj
                        [(''message'', JStr ''Self-healing replication completed successfully''),
                         (''logs_restored'', JInt (int (length incoming))),
                         (''provider_node_id'', JStr provider)]))))
      | _ \<Rightarrow> d)"

end
