(* ===== verification/Audit_Properties.thy ===== *)
theory Audit_Properties
  imports Audit_Ledger
begin

text \<open>
  The properties of the Merkle tree, of the hash chain of the audit ledger and of its replication.
\<close>

section \<open>Inclusion proofs\<close>

lemma root_of_levels: "hs \<noteq> [] \<Longrightarrow> hd (last (levels_of (map sha256 hs))) = merkle_root hs"
  by (simp add: last_levels merkle_root_def)

text \<open>C39: The proof generated for an event verifies: it exists exactly for the identifiers in the ledger, its
root is the Merkle root of all events, its event is the hash of the event with that identifier, and the
verifier accepts it.\<close>

theorem merkle_proof_complete:
  assumes "\<forall>row \<in> set rows. snd row \<noteq> []"
  shows "case generate_merkle_proof rows eid of
      None \<Rightarrow> eid \<notin> fst ` set rows
    | Some p \<Rightarrow> (eid, mk_event p) \<in> set rows \<and> mk_root p = merkle_root (map snd rows)
        \<and> verify_merkle_proof (mk_event p) (raw_path (mk_path p)) (mk_root p)"
proof (cases "first_index eid (map fst rows)")
  case None
  then have "generate_merkle_proof rows eid = None"
    by (simp add: generate_merkle_proof_def)
  with None show ?thesis by (simp add: first_index_None)
next
  case (Some i)
  then have i: "i < length rows" "fst (rows ! i) = eid" "rows \<noteq> []"
    by (auto simp: first_index_Some)
  let ?hs = "map snd rows"
  let ?level = "map sha256 ?hs"
  define p where "p = \<lparr>mk_path = proof_path i (butlast (levels_of ?level)), mk_root = hd (last (levels_of ?level)),
    mk_event = ?hs ! i\<rparr>"
  have g: "generate_merkle_proof rows eid = Some p"
    using Some i(3) by (simp add: generate_merkle_proof_def Let_def p_def)
  have row: "rows ! i \<in> set rows" using i(1) by simp
  have event: "mk_event p = snd (rows ! i)" using i(1) by (simp add: p_def)
  have root: "mk_root p = merkle_root ?hs" using i(3) by (simp add: p_def last_levels merkle_root_def)
  have "walk_proof (?level ! i) (raw_path (proof_path i (butlast (levels_of ?level)))) = Some (hd (collapse ?level))"
    by (rule walk_path) (use i(1) in auto)
  then have "walk_proof (sha256 (mk_event p)) (raw_path (mk_path p)) = Some (mk_root p)"
    using i(1) by (simp add: p_def last_levels)
  moreover have "mk_event p \<noteq> []" using assms row event by auto
  moreover have "mk_root p \<noteq> []"
    using length_node [OF merkle_root_node [of ?hs]] i(3) root by fastforce
  ultimately show ?thesis
    using g row event root i(2) by (auto simp: verify_merkle_proof_def)
qed

lemma merkle_proof_complete_witness:
  "\<exists>p. generate_merkle_proof [(1, ''a''), (2, ''b''), (3, ''c'')] 3 = Some p
     \<and> verify_merkle_proof ''c'' (raw_path (mk_path p)) (merkle_root [''a'', ''b'', ''c''])"
  using merkle_proof_complete [of "[(1, ''a''), (2, ''b''), (3, ''c'')]" 3]
  by (auto split: option.splits)

text \<open>C38: No proof convinces the verifier of an event that is not in the tree: for events of the length of a
digest, whatever steps are given, acceptance against the Merkle root of a list of digests means that the event is one of
them, or that one of the texts hashed by the verifier collides under SHA-256 with one of the texts hashed for the root,
the two lists of which are computed from the proof and the events.\<close>

theorem merkle_proof_sound:
  assumes "hashes \<noteq> []" "\<forall>h \<in> set hashes. length h = 64" "length event = 64"
    and "verify_merkle_proof event steps (merkle_root hashes)"
  shows "event \<in> set hashes \<or> collision_among (proof_texts event steps) (tree_texts hashes)"
proof -
  have w: "walk_proof (sha256 event) steps = Some (merkle_root hashes)"
    using assms(4) by (simp add: verify_merkle_proof_def split: if_splits)
  from walk_stays_in_tree [OF assms(2) merkle_root_node [OF assms(1)] w]
  consider "sha256 event \<in> tree_nodes hashes" | "collision_among (walk_texts (sha256 event) steps) (tree_texts hashes)"
    by auto
  then show ?thesis
  proof cases
    case 1
    then obtain t where t: "t \<in> set (tree_texts hashes)" "sha256 event = sha256 t" by auto
    show ?thesis
    proof (cases "event = t")
      case True
      with tree_text_cases [OF t(1)] assms(3) show ?thesis by (auto dest!: length_node)
    next
      case False
      with t show ?thesis by (intro disjI2 collision_amongI [of event _ t]) (simp_all add: proof_texts_def)
    qed
  next
    case 2
    then show ?thesis unfolding proof_texts_def by (blast intro: collision_among_Cons)
  qed
qed

lemma merkle_proof_sound_witness: "zero_hash \<in> set [zero_hash] \<or> collision_among (proof_texts zero_hash []) (tree_texts [zero_hash])"
  using merkle_proof_sound [of "[zero_hash]" zero_hash "[]"]
  by (simp add: verify_merkle_proof_def merkle_root_def collapse.simps zero_hash_def)

lemma pair_level_dup: "odd (length xs) \<Longrightarrow> pair_level (xs @ [last xs]) = pair_level xs"
proof (induction xs rule: pair_level.induct)
  case (3 x y zs)
  then show ?case by (cases zs) auto
qed auto

text \<open>The root does not determine the events. A list of an odd number of events, more than one, has the
root of the same list with the last event repeated; and the concatenation of the two digests below the
root of two events is accepted as an event with an empty proof, although it is none.\<close>

theorem merkle_root_not_binding:
  assumes "odd (length xs)" "length xs > 1"
  shows "merkle_root (xs @ [last xs]) = merkle_root xs \<and> xs @ [last xs] \<noteq> xs
    \<and> verify_merkle_proof (sha256 a @ sha256 b) [] (merkle_root [a, b])"
proof -
  let ?l = "map sha256 xs"
  have ne: "xs \<noteq> []" using assms(2) by auto
  have "map sha256 (xs @ [last xs]) = ?l @ [last ?l]" using ne by (simp add: last_map)
  moreover have "pair_level (?l @ [last ?l]) = pair_level ?l"
    using assms(1) by (intro pair_level_dup) simp
  ultimately have "collapse (map sha256 (xs @ [last xs])) = collapse ?l"
    using assms(2) ne by (subst (1 2) collapse.simps) auto
  then have "merkle_root (xs @ [last xs]) = merkle_root xs"
    using ne by (simp add: merkle_root_def)
  moreover have "verify_merkle_proof (sha256 a @ sha256 b) [] (merkle_root [a, b])"
    by (simp add: verify_merkle_proof_def merkle_root_def collapse.simps)
  ultimately show ?thesis by simp
qed

lemma merkle_root_not_binding_witness:
  "merkle_root [''x'', ''y'', ''z'', ''z''] = merkle_root [''x'', ''y'', ''z'']"
  using merkle_root_not_binding [of "[''x'', ''y'', ''z'']"] by simp


section \<open>The chain\<close>

text \<open>The ledger's check and the daemon's check are the same walk.\<close>

lemma check_rows_incoming: "check_rows cn e rs = None \<longleftrightarrow> check_incoming cn e rs"
  by (induction rs arbitrary: e) auto

lemma valid_iff: "cs_valid (verify_chain_integrity loads led) \<longleftrightarrow> check_incoming (canon loads) zero_hash (lg_rows led)"
  by (auto simp: verify_chain_integrity_def check_rows_incoming [symmetric] split: option.splits)

lemma valid_root: "cs_valid (verify_chain_integrity loads led) \<Longrightarrow>
    cs_root (verify_chain_integrity loads led) = merkle_root (map al_hash (lg_rows led))"
  by (auto simp: verify_chain_integrity_def split: option.splits)

lemma check_incoming_append:
  "check_incoming cn e (xs @ ys) \<longleftrightarrow> check_incoming cn e xs \<and> check_incoming cn (if xs = [] then e else al_hash (last xs)) ys"
  by (induction xs arbitrary: e) auto

lemma check_zero_append:
  "check_incoming cn zero_hash (xs @ ys) \<longleftrightarrow> check_incoming cn zero_hash xs \<and> check_incoming cn (last_hash xs) ys"
  by (simp add: check_incoming_append last_hash_def)

lemma check_hash_length: "check_incoming cn e rs \<Longrightarrow> r \<in> set rs \<Longrightarrow> length (al_hash r) = 64"
proof (induction rs arbitrary: e)
  case (Cons q rs)
  have "length (row_hash x y z) = 64" for x y z by (simp add: row_hash_def)
  then have "length (al_hash q) = 64"
    using Cons.prems(1) by (metis check_incoming.simps(2))
  with Cons show ?case by (auto split: if_splits)
qed simp

lemma last_hash_length: "check_incoming cn e rs \<Longrightarrow> length (last_hash rs) = 64"
  by (simp add: last_hash_def check_hash_length)

definition ledger_inv :: "(string \<Rightarrow> json option) \<Rightarrow> ledger \<Rightarrow> bool" where
  "ledger_inv loads led \<longleftrightarrow> check_incoming (canon loads) zero_hash (lg_rows led) \<and> 0 \<le> lg_seq led
     \<and> sorted_wrt (<) (map al_id (lg_rows led)) \<and> (\<forall>r \<in> set (lg_rows led). 0 < al_id r \<and> al_id r \<le> lg_seq led)"

text \<open>The ledgers an installation reaches through the methods that record and manage, replication apart.\<close>

inductive ledger_run :: "ledger \<Rightarrow> bool" where
  run_empty: "ledger_run empty_ledger"
| run_record: "ledger_run led \<Longrightarrow> ledger_run (fst (record_event led time event payload tenant))"
| run_reset: "ledger_run led \<Longrightarrow> ledger_run (reset_ledger led)"
| run_revoke: "ledger_run led \<Longrightarrow> ledger_run (revoke_certificate led time cert)"
| run_reinstate: "ledger_run led \<Longrightarrow> ledger_run (reinstate_certificate led cert)"

text \<open>What \<open>json\<close> promises: reading back what was written and writing it again gives the same text.\<close>

definition json_stable :: "(string \<Rightarrow> json option) \<Rightarrow> bool" where
  "json_stable loads \<longleftrightarrow> (\<forall>j. canon loads (dumps Spaced j) = dumps Spaced j)"

lemma foldl_max: "\<forall>x \<in> set xs. x \<le> a \<Longrightarrow> foldl max (a :: int) xs = a"
  by (induction xs) (auto simp: max_def)

lemma next_id_inv: "ledger_inv loads led \<Longrightarrow> next_id led = lg_seq led + 1"
  by (auto simp: next_id_def ledger_inv_def intro!: foldl_max)

lemma record_rows:
  obtains r where "lg_rows (fst (record_event led time event payload tenant)) = lg_rows led @ [r]"
    "al_id r = next_id led" "al_event r = event" "al_tenant r = tenant" "al_payload r = dumps Spaced payload" "al_time r = time"
    "al_prev r = last_hash (lg_rows led)" "al_hash r = row_hash (al_prev r) (al_payload r) time"
    "lg_seq (fst (record_event led time event payload tenant)) = next_id led"
    "snd (record_event led time event payload tenant) = next_id led"
  by (rule that [of "\<lparr>al_id = next_id led, al_event = event, al_payload = dumps Spaced payload,
      al_prev = last_hash (lg_rows led), al_hash = row_hash (last_hash (lg_rows led)) (dumps Spaced payload) time,
      al_time = time, al_tenant = tenant\<rparr>"]) (simp_all add: record_event_def Let_def)

lemma ledger_inv_record:
  assumes "ledger_inv loads led" "json_stable loads"
  shows "ledger_inv loads (fst (record_event led time event payload tenant))"
proof -
  obtain r where r: "lg_rows (fst (record_event led time event payload tenant)) = lg_rows led @ [r]"
    "al_id r = next_id led" "al_event r = event" "al_tenant r = tenant" "al_payload r = dumps Spaced payload" "al_time r = time"
    "al_prev r = last_hash (lg_rows led)" "al_hash r = row_hash (al_prev r) (al_payload r) time"
    "lg_seq (fst (record_event led time event payload tenant)) = next_id led"
    "snd (record_event led time event payload tenant) = next_id led"
    by (rule record_rows)
  have stable: "canon loads (dumps Spaced payload) = dumps Spaced payload"
    using assms(2) by (simp add: json_stable_def)
  with assms(1) r next_id_inv [OF assms(1)] show ?thesis
    unfolding ledger_inv_def r(1) check_zero_append by (auto simp: sorted_wrt_append)
qed

lemma run_inv:
  assumes "ledger_run led" "json_stable loads"
  shows "ledger_inv loads led"
  using assms(1)
proof (induction rule: ledger_run.induct)
  case (run_record led time event payload tenant)
  then show ?case by (intro ledger_inv_record assms(2))
qed (auto simp: ledger_inv_def empty_ledger_def reset_ledger_def revoke_certificate_def reinstate_certificate_def)

definition row_says :: "audit_row \<Rightarrow> string \<Rightarrow> json \<Rightarrow> string \<Rightarrow> int \<Rightarrow> bool" where
  "row_says r event payload tenant n \<longleftrightarrow>
     al_event r = event \<and> al_payload r = dumps Spaced payload \<and> al_tenant r = tenant \<and> al_id r = n"

definition ledger_ok :: "ledger \<Rightarrow> bool" where
  "ledger_ok led \<longleftrightarrow> (\<forall>loads. json_stable loads \<longrightarrow> ledger_inv loads led)"

interpretation ledger_log: event_recorder record_event lg_rows ledger_ok row_says
proof
  fix led :: ledger and time event tenant :: string and payload :: json
  show "\<exists>row. lg_rows (fst (record_event led time event payload tenant)) = lg_rows led @ [row]
      \<and> row_says row event payload tenant (snd (record_event led time event payload tenant))"
    by (simp add: record_event_def Let_def row_says_def)
  show "ledger_ok led \<Longrightarrow> ledger_ok (fst (record_event led time event payload tenant))"
    by (simp add: ledger_ok_def ledger_inv_record)
qed

text \<open>An honest ledger verifies: whatever events of whatever tenants are recorded, and however often the
ledger is reset, the chain is found valid with the Merkle root of all its events, the identifiers
increase, and an identifier once used is not given out again.\<close>

theorem recorded_ledger_verifies:
  assumes "ledger_run led" "json_stable loads"
  shows "cs_valid (verify_chain_integrity loads led)
    \<and> cs_root (verify_chain_integrity loads led) = merkle_root (map al_hash (lg_rows led))
    \<and> sorted_wrt (<) (map al_id (lg_rows led))
    \<and> snd (record_event led time event payload tenant) = lg_seq led + 1"
proof -
  have inv: "ledger_inv loads led" by (rule run_inv [OF assms])
  then have "cs_valid (verify_chain_integrity loads led)" by (simp add: valid_iff ledger_inv_def)
  with inv valid_root next_id_inv [OF inv] show ?thesis
    by (simp add: ledger_inv_def record_event_def Let_def)
qed

definition sample_ledger :: ledger where
  "sample_ledger = fst (record_event (reset_ledger (fst (record_event empty_ledger ''t1'' ''login'' JNull default_tenant)))
     ''t2'' ''logout'' JNull default_tenant)"

lemma sample_ledger_run: "ledger_run sample_ledger"
  unfolding sample_ledger_def by (intro ledger_run.intros)

lemma json_stable_raw: "json_stable (\<lambda>_. None)"
  by (simp add: json_stable_def canon_def)

lemma recorded_ledger_verifies_witness:
  "cs_valid (verify_chain_integrity (\<lambda>_. None) sample_ledger)"
  using recorded_ledger_verifies [OF sample_ledger_run json_stable_raw] by blast

text \<open>The text the hash of a row is taken of.\<close>

definition row_text :: "(string \<Rightarrow> json option) \<Rightarrow> audit_row \<Rightarrow> string" where
  "row_text loads r = al_prev r @ canon loads (al_payload r) @ al_time r"

text \<open>C21: The chain is tamper-evident: two ledgers with the same number of events that are both found valid and end in the
same hash agree in every hash and every link, and in the text of payload and timestamp of every event, or else at some
position the two hashed texts, made of link, payload and timestamp of the row, collide under SHA-256.\<close>

theorem valid_chain_binds_events:
  assumes "cs_valid (verify_chain_integrity loads led)" "cs_valid (verify_chain_integrity loads led')"
    and "length (lg_rows led) = length (lg_rows led')" "last_hash (lg_rows led) = last_hash (lg_rows led')"
  shows "(map al_hash (lg_rows led) = map al_hash (lg_rows led') \<and> map al_prev (lg_rows led) = map al_prev (lg_rows led')
     \<and> map (\<lambda>r. canon loads (al_payload r) @ al_time r) (lg_rows led)
       = map (\<lambda>r. canon loads (al_payload r) @ al_time r) (lg_rows led'))
    \<or> (\<exists>i < length (lg_rows led). collision sha256 (row_text loads (lg_rows led ! i)) (row_text loads (lg_rows led' ! i)))"
proof -
  have "(map al_hash rs = map al_hash rs' \<and> map al_prev rs = map al_prev rs'
      \<and> map (\<lambda>r. canon loads (al_payload r) @ al_time r) rs = map (\<lambda>r. canon loads (al_payload r) @ al_time r) rs')
      \<or> (\<exists>i < length rs. collision sha256 (row_text loads (rs ! i)) (row_text loads (rs' ! i)))"
    if "length rs = length rs'" "check_incoming (canon loads) zero_hash rs" "check_incoming (canon loads) zero_hash rs'"
      "last_hash rs = last_hash rs'" for rs rs'
    using that
  proof (induction rs arbitrary: rs' rule: rev_induct)
    case (snoc r rs)
    then obtain qs q where rs': "rs' = qs @ [q]" "length rs = length qs"
      by (cases rs' rule: rev_cases) auto
    have r: "check_incoming (canon loads) zero_hash rs" "al_prev r = last_hash rs" "al_hash r = sha256 (row_text loads r)"
      using snoc.prems(2) unfolding check_zero_append by (auto simp: row_hash_def row_text_def split: if_splits)
    have q: "check_incoming (canon loads) zero_hash qs" "al_prev q = last_hash qs" "al_hash q = sha256 (row_text loads q)"
      using snoc.prems(3) unfolding rs' check_zero_append by (auto simp: row_hash_def row_text_def split: if_splits)
    have h: "al_hash r = al_hash q" using snoc.prems(4) rs' by (simp add: last_hash_def)
    show ?case
    proof (cases "row_text loads r = row_text loads q")
      case False
      then have "collision sha256 (row_text loads ((rs @ [r]) ! length rs)) (row_text loads (rs' ! length rs))"
        using h r(3) q(3) by (simp add: rs' collision_def) (simp add: rs'(2) [symmetric])
      then show ?thesis by (intro disjI2 exI [of _ "length rs"]) simp
    next
      case True
      have "length (al_prev r) = length (al_prev q)"
        using last_hash_length [OF r(1)] last_hash_length [OF q(1)] r(2) q(2) by simp
      with True have eq: "al_prev r = al_prev q" "canon loads (al_payload r) @ al_time r = canon loads (al_payload q) @ al_time q"
        by (simp_all add: row_text_def)
      then have "last_hash rs = last_hash qs" using r(2) q(2) by simp
      from snoc.IH [OF rs'(2) r(1) q(1) this] show ?thesis
      proof
        assume "\<exists>i < length rs. collision sha256 (row_text loads (rs ! i)) (row_text loads (qs ! i))"
        then obtain i where i: "i < length rs" "collision sha256 (row_text loads (rs ! i)) (row_text loads (qs ! i))" by blast
        then have "collision sha256 (row_text loads ((rs @ [r]) ! i)) (row_text loads (rs' ! i))"
          using rs' by (simp add: nth_append)
        with i(1) show ?thesis by (intro disjI2 exI [of _ i]) simp
      qed (use eq h rs' in simp)
    qed
  qed simp
  with assms show ?thesis
    unfolding valid_iff by blast
qed

lemma valid_sample: "cs_valid (verify_chain_integrity (\<lambda>_. None) sample_ledger)"
  using run_inv [OF sample_ledger_run json_stable_raw] by (simp add: valid_iff ledger_inv_def)

lemma valid_chain_binds_events_witness:
  "map al_hash (lg_rows sample_ledger) = map al_hash (lg_rows (revoke_certificate sample_ledger ''t'' ''c''))"
proof -
  have same: "lg_rows (revoke_certificate sample_ledger ''t'' ''c'') = lg_rows sample_ledger" by (simp add: revoke_certificate_def)
  then have "cs_valid (verify_chain_integrity (\<lambda>_. None) (revoke_certificate sample_ledger ''t'' ''c''))"
    using valid_sample by (simp add: valid_iff)
  from valid_chain_binds_events [OF valid_sample this] same show ?thesis by (auto simp: collision_def)
qed

text \<open>What the chain does not see: relabelling any event with another type, tenant or identifier, and
cutting off any number of the latest events, leaves a valid ledger valid; relabelling even keeps the
Merkle root.\<close>

theorem chain_misses_labels_and_truncation:
  assumes "cs_valid (verify_chain_integrity loads led)"
  shows "cs_valid (verify_chain_integrity loads
        (led\<lparr>lg_rows := map (\<lambda>r. r\<lparr>al_event := ev r, al_tenant := tn r, al_id := ident r\<rparr>) (lg_rows led)\<rparr>))
    \<and> cs_root (verify_chain_integrity loads
        (led\<lparr>lg_rows := map (\<lambda>r. r\<lparr>al_event := ev r, al_tenant := tn r, al_id := ident r\<rparr>) (lg_rows led)\<rparr>))
      = cs_root (verify_chain_integrity loads led)
    \<and> cs_valid (verify_chain_integrity loads (led\<lparr>lg_rows := take n (lg_rows led)\<rparr>))"
proof -
  let ?relabel = "\<lambda>r. r\<lparr>al_event := ev r, al_tenant := tn r, al_id := ident r\<rparr>"
  have "check_incoming cn e (map ?relabel rs) = check_incoming cn e rs" for cn e rs
    by (induction rs arbitrary: e) auto
  then have v: "cs_valid (verify_chain_integrity loads (led\<lparr>lg_rows := map ?relabel (lg_rows led)\<rparr>))"
    using assms by (simp add: valid_iff)
  have "check_incoming (canon loads) zero_hash (take n (lg_rows led) @ drop n (lg_rows led))"
    using assms by (simp add: valid_iff)
  then have "cs_valid (verify_chain_integrity loads (led\<lparr>lg_rows := take n (lg_rows led)\<rparr>))"
    unfolding check_zero_append by (simp add: valid_iff)
  with v valid_root [OF v] valid_root [OF assms] show ?thesis by (simp add: comp_def)
qed

lemma chain_misses_labels_and_truncation_witness:
  "cs_valid (verify_chain_integrity (\<lambda>_. None)
     (sample_ledger\<lparr>lg_rows := map (\<lambda>r. r\<lparr>al_event := ''forged'', al_tenant := ''other'', al_id := al_id r\<rparr>) (lg_rows sample_ledger)\<rparr>))"
  using chain_misses_labels_and_truncation [OF valid_sample, where ev = "\<lambda>_. ''forged''" and tn = "\<lambda>_. ''other''" and ident = al_id]
  by blast


text \<open>A blinded proof verifies for the row it was made from.\<close>

lemma zk_proof_roundtrip:
  assumes "generate_zk_proof mac salt led eid = Some p" "\<forall>m. mac m \<noteq> []"
  shows "verify_zk_proof mac (bp_event p) (bp_time p) (bp_prev p) (bp_hash p) (Some (bp_commitment p)) (Some (bp_proof p))"
  using assms by (auto simp: generate_zk_proof_def verify_zk_proof_def Let_def split: option.splits)


section \<open>Replication\<close>

lemma put_row_last: "\<forall>q \<in> set qs. al_id q < al_id r \<Longrightarrow> put_row r qs = qs @ [r]"
  by (induction qs) auto

lemma insert_all_rows:
  "sorted_wrt (<) (map al_id (lg_rows led @ inc)) \<Longrightarrow>
     lg_rows (foldl insert_raw_event led inc) = lg_rows led @ inc \<and> lg_seq led \<le> lg_seq (foldl insert_raw_event led inc)
     \<and> (\<forall>r \<in> set inc. al_id r \<le> lg_seq (foldl insert_raw_event led inc))"
proof (induction inc arbitrary: led)
  case (Cons r inc)
  have "\<forall>q \<in> set (lg_rows led). al_id q < al_id r"
    using Cons.prems by (auto simp: sorted_wrt_append)
  then have rows: "lg_rows (insert_raw_event led r) = lg_rows led @ [r]"
    by (simp add: insert_raw_event_def put_row_last)
  have seq: "lg_seq (insert_raw_event led r) = max (lg_seq led) (al_id r)"
    by (simp add: insert_raw_event_def)
  from Cons.IH [of "insert_raw_event led r"] rows Cons.prems
  have IH: "lg_rows (foldl insert_raw_event (insert_raw_event led r) inc) = (lg_rows led @ [r]) @ inc
      \<and> max (lg_seq led) (al_id r) \<le> lg_seq (foldl insert_raw_event (insert_raw_event led r) inc)
      \<and> (\<forall>r' \<in> set inc. al_id r' \<le> lg_seq (foldl insert_raw_event (insert_raw_event led r) inc))"
    by (simp add: seq)
  then show ?case by auto
qed simp

lemma all_default_logs: "\<forall>r \<in> set (lg_rows led). al_tenant r = default_tenant \<Longrightarrow> get_logs led None default_tenant = lg_rows led"
  by (simp add: get_logs_def filter_id_conv)

text \<open>Self-healing restores the provider's events and then adds one of its own, so it never brings two
nodes together: after a response that verified, the replica's chain is valid and holds the provider's
events followed by one recovery event, and the provider's next status finds it ahead, not synchronized.\<close>

theorem self_healing_never_synchronizes:
  assumes "ledger_inv loads (dm_ledger d)" "ledger_inv loads led" "json_stable loads"
    and "lg_rows led = lg_rows (dm_ledger d) @ incoming" "incoming \<noteq> []"
    and "\<forall>r \<in> set (lg_rows led). al_tenant r = default_tenant" "prov \<noteq> []" "prov \<noteq> dm_node d"
    and "d' = process_response loads time d (Logs_Response prov incoming)"
  shows "cs_valid (verify_chain_integrity loads (dm_ledger d'))
    \<and> (\<exists>r. lg_rows (dm_ledger d') = lg_rows led @ [r] \<and> al_event r = ''CONSENSUS_RECOVERY'')
    \<and> map_option ps_status (dict_get (dm_peers (fst (process_ping loads time' d'
          (Sync_Ping prov (cs_root (verify_chain_integrity loads led)) (int (length (lg_rows led))))))) prov) = Some ''local_ahead''"
proof -
  have logs: "get_logs (dm_ledger d) None default_tenant = lg_rows (dm_ledger d)"
    by (rule all_default_logs) (use assms(4,6) in auto)
  obtain first rest where inc: "incoming = first # rest" using assms(5) by (cases incoming) auto
  have chain: "check_incoming (canon loads) zero_hash (lg_rows (dm_ledger d) @ incoming)"
    and srt: "sorted_wrt (<) (map al_id (lg_rows (dm_ledger d) @ incoming))"
    using assms(2,4) by (auto simp: ledger_inv_def)
  then have ok: "check_incoming (canon loads) (last_hash (lg_rows (dm_ledger d))) incoming"
    unfolding check_zero_append by simp
  let ?led = "foldl insert_raw_event (dm_ledger d) incoming"
  note ins = insert_all_rows [OF srt]
  have inv: "ledger_inv loads ?led"
  proof -
    have "0 < al_id r \<and> al_id r \<le> lg_seq ?led" if "r \<in> set (lg_rows ?led)" for r
    proof -
      have "r \<in> set (lg_rows led)" using that ins assms(4) by simp
      then have "0 < al_id r" using assms(2) by (simp add: ledger_inv_def)
      moreover have "al_id r \<le> lg_seq ?led"
        using that ins assms(1) unfolding ledger_inv_def by fastforce
      ultimately show ?thesis ..
    qed
    moreover have "0 \<le> lg_seq ?led" using ins assms(1) by (simp add: ledger_inv_def)
    ultimately show ?thesis
      using chain srt ins by (simp add: ledger_inv_def)
  qed
  define payload where "payload = JObj [(''message'', JStr ''Self-healing replication completed successfully''),
     (''logs_restored'', JInt (int (length incoming))), (''provider_node_id'', JStr prov)]"
  have d': "d' = record_own (d\<lparr>dm_ledger := ?led, dm_pending := dm_pending d - {pending_key prov (local_count d)}\<rparr>)
      time ''CONSENSUS_RECOVERY'' payload"
    unfolding assms(9) process_response_def using ok [unfolded inc] logs
    by (simp add: inc Let_def payload_def del: check_incoming.simps)
  then have led': "dm_ledger d' = fst (record_event ?led time ''CONSENSUS_RECOVERY'' payload default_tenant)"
    and node: "dm_node d' = dm_node d"
    by (simp_all add: record_own_def)
  have valid: "cs_valid (verify_chain_integrity loads (dm_ledger d'))"
    using ledger_inv_record [OF inv assms(3)] unfolding led' valid_iff ledger_inv_def by blast
  obtain r where r: "lg_rows (dm_ledger d') = lg_rows led @ [r]" "al_event r = ''CONSENSUS_RECOVERY''" "al_tenant r = default_tenant"
    unfolding led' using ins assms(4) by (simp add: record_event_def Let_def)
  have "local_count d' = int (length (lg_rows led)) + 1"
    using all_default_logs [of "dm_ledger d'"] r assms(6) by (simp add: local_count_def)
  then have "map_option ps_status (dict_get (dm_peers (fst (process_ping loads time' d'
      (Sync_Ping prov (cs_root (verify_chain_integrity loads led)) (int (length (lg_rows led))))))) prov) = Some ''local_ahead''"
    using assms(7,8) node by (simp add: process_ping_def Let_def record_own_def)
  with valid r show ?thesis by blast
qed

definition sample_replica :: sync_daemon where
  "sample_replica = \<lparr>dm_node = ''b'', dm_ledger = empty_ledger, dm_peers = [], dm_pending = {}\<rparr>"

lemma self_healing_never_synchronizes_witness:
  "\<exists>r. lg_rows (dm_ledger (process_response (\<lambda>_. None) ''t'' sample_replica (Logs_Response ''a'' (lg_rows sample_ledger))))
     = lg_rows sample_ledger @ [r] \<and> al_event r = ''CONSENSUS_RECOVERY''"
proof -
  have inv: "ledger_inv (\<lambda>_. None) (dm_ledger sample_replica)" "ledger_inv (\<lambda>_. None) sample_ledger"
    using run_inv [OF run_empty json_stable_raw] run_inv [OF sample_ledger_run json_stable_raw] by (simp_all add: sample_replica_def)
  have rows: "lg_rows sample_ledger = lg_rows (dm_ledger sample_replica) @ lg_rows sample_ledger" "lg_rows sample_ledger \<noteq> []"
      "\<forall>r \<in> set (lg_rows sample_ledger). al_tenant r = default_tenant"
    by (simp_all add: sample_replica_def empty_ledger_def sample_ledger_def record_event_def Let_def reset_ledger_def)
  show ?thesis
    using self_healing_never_synchronizes [OF inv json_stable_raw rows _ _ refl, of "''a''" "''t''" "''t''"]
    by (simp add: sample_replica_def)
qed

lemma last_filter: "xs \<noteq> [] \<Longrightarrow> p (last xs) \<Longrightarrow> last (filter p xs) = last xs"
  by (induction xs rule: rev_induct) auto

lemma logs_after_drop:
  assumes "\<forall>i < length xs. al_id (xs ! i) = int i + 1" "k \<le> length xs"
  shows "filter (\<lambda>r. int k < al_id r) xs = drop k xs"
proof -
  have "filter (\<lambda>r. int k < al_id r) (take k xs) = []"
    using assms by (auto simp: filter_empty_conv in_set_conv_nth)
  moreover have "filter (\<lambda>r. int k < al_id r) (drop k xs) = drop k xs"
    using assms by (auto simp: filter_id_conv in_set_conv_nth)
  moreover have "filter (\<lambda>r. int k < al_id r) (take k xs @ drop k xs) = filter (\<lambda>r. int k < al_id r) xs"
    by (simp only: append_take_drop_id)
  ultimately show ?thesis unfolding filter_append by simp
qed

text \<open>One event of another tenant stops replication: the daemon counts the events of the default tenant
but asks for everything after that number as an identifier. If a replica that holds a prefix of the
provider's chain has any event of another tenant, before a last event of the default tenant, the
provider's honest answer starts inside that prefix, and the replica rejects it as a violation and records one
(unless two of its events have the same hash).\<close>

theorem tenant_event_blocks_replication:
  assumes "ledger_inv loads (dm_ledger p)" "lg_rows (dm_ledger p) = lg_rows (dm_ledger d) @ new"
    and "map al_id (lg_rows (dm_ledger p)) = map int [1..<length (lg_rows (dm_ledger p)) + 1]"
    and "rows = lg_rows (dm_ledger d)" "rows \<noteq> []" "al_tenant (last rows) = default_tenant"
    and "local_count d < int (length rows)"
  shows "process_request p (Logs_Request (dm_node d) (dm_node p) (local_count d))
      = [(''audit:sync:response:'' @ dm_node d, Logs_Response (dm_node p) (drop (nat (local_count d)) (rows @ new)))]
    \<and> ((\<exists>r. lg_rows (dm_ledger (process_response loads time d
            (Logs_Response (dm_node p) (drop (nat (local_count d)) (rows @ new))))) = rows @ [r] \<and> al_event r = ''SOC2_VIOLATION'')
      \<or> al_hash (rows ! (nat (local_count d) - 1)) = al_hash (last rows))"
proof -
  define k where "k = length (get_logs (dm_ledger d) None default_tenant)"
  have lk: "local_count d = int k" by (simp add: local_count_def k_def)
  have k: "k < length rows" using assms(7) lk by simp
  have lastf: "last (get_logs (dm_ledger d) None default_tenant) = last rows"
    unfolding get_logs_def assms(4) [symmetric] by (rule last_filter) (use assms(5,6) in auto)
  have mem: "last rows \<in> set (get_logs (dm_ledger d) None default_tenant)"
    unfolding get_logs_def assms(4) [symmetric] using assms(5,6) by simp
  then have k0: "0 < k" unfolding k_def by (metis length_pos_if_in_set)
  have expected: "last_hash (get_logs (dm_ledger d) None default_tenant) = al_hash (last rows)"
    using lastf mem by (auto simp: last_hash_def)
  let ?all = "rows @ new"
  have all: "lg_rows (dm_ledger p) = ?all" using assms(2,4) by simp
  have after: "get_logs_after (dm_ledger p) (int k) = drop k ?all"
  proof -
    have id: "al_id (?all ! i) = int i + 1" if "i < length ?all" for i
    proof -
      have "map al_id ?all ! i = map int [1..<length ?all + 1] ! i"
        using assms(3) unfolding all by (rule arg_cong)
      moreover have "map al_id ?all ! i = al_id (?all ! i)" using that by (rule nth_map)
      moreover have "map int [1..<length ?all + 1] ! i = int ([1..<length ?all + 1] ! i)"
        using that by (intro nth_map) (simp del: upt_Suc)
      moreover have "[1..<length ?all + 1] ! i = i + 1"
        using that by (simp del: upt_Suc)
      ultimately show ?thesis by (simp only:)
    qed
    have "filter (\<lambda>r. int k < al_id r) ?all = drop k ?all"
      by (rule logs_after_drop) (use id k in auto)
    then show ?thesis unfolding get_logs_after_def all .
  qed
  have d: "drop k ?all = rows ! k # drop (Suc k) rows @ new"
    using k by (simp add: Cons_nth_drop_Suc)
  have "check_incoming (canon loads) zero_hash (take k ?all @ drop k ?all)"
    using assms(1) all unfolding append_take_drop_id by (simp add: ledger_inv_def)
  then have "al_prev (rows ! k) = last_hash (take k rows)"
    unfolding check_zero_append d using k by (simp split: if_splits)
  also have "\<dots> = al_hash (rows ! (k - 1))"
    using k k0 assms(5) by (simp add: last_hash_def last_conv_nth min_def)
  finally have prev: "al_prev (rows ! k) = al_hash (rows ! (k - 1))" .
  have "process_request p (Logs_Request (dm_node d) (dm_node p) (local_count d))
      = [(''audit:sync:response:'' @ dm_node d, Logs_Response (dm_node p) (drop k ?all))]"
    by (simp add: process_request_def after lk)
  moreover have "\<exists>r. lg_rows (dm_ledger (process_response loads time d (Logs_Response (dm_node p) (drop k ?all)))) = rows @ [r]
      \<and> al_event r = ''SOC2_VIOLATION''" if "al_hash (rows ! (k - 1)) \<noteq> al_hash (last rows)"
    using that prev assms(4) unfolding process_response_def d by (simp add: expected record_own_def record_event_def Let_def)
  ultimately show ?thesis unfolding lk nat_int by blast
qed

text \<open>The provider has one event more than a replica whose first event is another tenant's.\<close>

definition tenant_ledger :: ledger where
  "tenant_ledger = fst (record_event (fst (record_event empty_ledger ''t1'' ''scan'' JNull ''other''))
     ''t2'' ''login'' JNull default_tenant)"

definition tenant_provider :: sync_daemon where
  "tenant_provider = sample_replica\<lparr>dm_node := ''a'',
     dm_ledger := fst (record_event tenant_ledger ''t3'' ''logout'' JNull default_tenant)\<rparr>"

lemma tenant_event_blocks_replication_witness:
  "process_request tenant_provider (Logs_Request ''b'' ''a'' 1)
     = [(''audit:sync:response:b'', Logs_Response ''a'' (drop 1 (lg_rows (dm_ledger tenant_provider))))]"
proof -
  have seq: "next_id empty_ledger = 1" "ledger_inv (\<lambda>_. None) empty_ledger"
    by (simp_all add: next_id_def empty_ledger_def ledger_inv_def)
  let ?l1 = "fst (record_event empty_ledger ''t1'' ''scan'' JNull ''other'')"
  obtain r1 where r1: "lg_rows ?l1 = [r1]" "al_id r1 = 1" "al_tenant r1 = ''other''" and s1: "lg_seq ?l1 = 1"
    by (rule record_rows [of empty_ledger "''t1''" "''scan''" JNull "''other''"])
      (use seq in \<open>simp add: empty_ledger_def\<close>)
  have i1: "ledger_inv (\<lambda>_. None) ?l1" by (rule ledger_inv_record [OF seq(2) json_stable_raw])
  have n1: "next_id ?l1 = 2" using next_id_inv [OF i1] s1 by simp
  obtain r2 where r2: "lg_rows tenant_ledger = [r1, r2]" "al_id r2 = 2" "al_tenant r2 = default_tenant" and s2: "lg_seq tenant_ledger = 2"
    by (rule record_rows [of ?l1 "''t2''" "''login''" JNull default_tenant]) (use n1 r1 in \<open>simp add: tenant_ledger_def\<close>)
  have i2: "ledger_inv (\<lambda>_. None) tenant_ledger"
    unfolding tenant_ledger_def by (rule ledger_inv_record [OF i1 json_stable_raw])
  have n2: "next_id tenant_ledger = 3" using next_id_inv [OF i2] s2 by simp
  have p: "dm_ledger tenant_provider = fst (record_event tenant_ledger ''t3'' ''logout'' JNull default_tenant)"
    by (simp add: tenant_provider_def)
  have inv: "ledger_inv (\<lambda>_. None) (dm_ledger tenant_provider)"
    unfolding p by (rule ledger_inv_record [OF i2 json_stable_raw])
  obtain r3 where "lg_rows (dm_ledger tenant_provider) = [r1, r2, r3]" "al_id r3 = 3"
    by (rule record_rows [of tenant_ledger "''t3''" "''logout''" JNull default_tenant]) (use n2 r2 in \<open>simp add: p\<close>)
  with r1 r2 have rows: "lg_rows (dm_ledger tenant_provider) = [r1, r2, r3]" "lg_rows tenant_ledger = [r1, r2]"
    and ids: "al_id r1 = 1" "al_id r2 = 2" "al_id r3 = 3"
    and tenants: "al_tenant r1 = ''other''" "al_tenant r2 = default_tenant"
    by simp_all
  define d where "d = sample_replica\<lparr>dm_ledger := tenant_ledger\<rparr>"
  have d: "lg_rows (dm_ledger d) = [r1, r2]" "dm_node d = ''b''" "dm_node tenant_provider = ''a''" "local_count d = 1"
    using rows tenants by (simp_all add: d_def sample_replica_def tenant_provider_def local_count_def get_logs_def default_tenant_def)
  have "map al_id [r1, r2, r3] = map int [1..<length [r1, r2, r3] + 1]" using ids by (simp add: upt_rec)
  with rows have ids': "map al_id (lg_rows (dm_ledger tenant_provider)) = map int [1..<length (lg_rows (dm_ledger tenant_provider)) + 1]"
    by simp
  have parts: "lg_rows (dm_ledger tenant_provider) = lg_rows (dm_ledger d) @ [r3]" "[r1, r2] = lg_rows (dm_ledger d)"
    "[r1, r2] \<noteq> []" "al_tenant (last [r1, r2]) = default_tenant" "local_count d < int (length [r1, r2])"
    using rows d tenants by simp_all
  note t = tenant_event_blocks_replication [OF inv parts(1) ids' parts(2-5), THEN conjunct1]
  have "[r1, r2] @ [r3] = lg_rows (dm_ledger tenant_provider)" "nat 1 = 1" "''audit:sync:response:'' @ ''b'' = ''audit:sync:response:b''"
    using rows by simp_all
  then show ?thesis
    using t unfolding d(2-4) by metis
qed

end
