(* ===== verification/Consensus.thy ===== *)
theory Consensus
  imports Audit_Ledger
begin

text \<open>
  Proof of consensus: the signatures and certificates of the five swarm roles
  (core/discussion/consensus.py), the intrusion detection that quarantines roles (core/discussion/ids.py),
  the voting on governance proposals and the proposals that anomalies in the audit ledger trigger
  (core/governance.py).

  The class variables of \<open>ProofOfConsensus\<close> and \<open>SwarmIDS\<close> are one state, threaded through the calls.
  \<open>env\<close> is the process environment; \<open>tok n name\<close> is the token the \<open>n\<close>-th rotation draws for a key.
\<close>

section \<open>Keys\<close>

definition swarm_roles :: "string list" where
  "swarm_roles = [''ceo'', ''cto'', ''dev'', ''qa'', ''cfo'']"

record poc =
  pc_secrets :: "(string, string) dict"
  pc_key :: "string option"
  pc_failures :: "(string, int) dict"
  pc_quarantined :: "string set"
  pc_rotations :: nat

datatype poc_error = Poc_Value_Error | Poc_Runtime_Error

definition upper_char :: "char \<Rightarrow> char" where
  "upper_char c = (let n = (of_char c :: nat) in if 97 \<le> n \<and> n \<le> 122 then char_of (n - 32) else c)"

definition get_secret :: "(string \<Rightarrow> string option) \<Rightarrow> string \<Rightarrow> poc_error + string" where
  "get_secret env name =
     (case env name of
        Some v \<Rightarrow> if v \<noteq> [] then Inr v
                  else if lower (case env ''LAS_TEST_MODE'' of Some t \<Rightarrow> t | None \<Rightarrow> []) \<in> {''1'', ''true'', ''yes''}
                  then Inr (''test-only:'' @ name) else Inl Poc_Runtime_Error
      | None \<Rightarrow> if lower (case env ''LAS_TEST_MODE'' of Some t \<Rightarrow> t | None \<Rightarrow> []) \<in> {''1'', ''true'', ''yes''}
                then Inr (''test-only:'' @ name) else Inl Poc_Runtime_Error)"

fun get_secrets :: "(string \<Rightarrow> string option) \<Rightarrow> string list \<Rightarrow> poc_error + (string, string) dict" where
  "get_secrets env [] = Inr []"
| "get_secrets env (r # rs) =
     res_bind (get_secret env (''LAS_POC_SECRET_'' @ map upper_char r)) (\<lambda>s.
     res_bind (get_secrets env rs) (\<lambda>d. Inr ((r, s) # d)))"

definition load_configured_keys :: "(string \<Rightarrow> string option) \<Rightarrow> poc \<Rightarrow> poc \<times> poc_error option" where
  "load_configured_keys env st =
     (case get_secrets env swarm_roles of
        Inl e \<Rightarrow> (st, Some e)
      | Inr d \<Rightarrow>
          (case get_secret env ''LAS_POC_CONSENSUS_SECRET'' of
             Inl e \<Rightarrow> (st\<lparr>pc_secrets := d\<rparr>, Some e)
           | Inr k \<Rightarrow> (st\<lparr>pc_secrets := d, pc_key := Some k\<rparr>, None)))"

definition rotate_session_keys :: "(nat \<Rightarrow> string \<Rightarrow> string) \<Rightarrow> poc \<Rightarrow> poc" where
  "rotate_session_keys tok st = st\<lparr>pc_secrets := map (\<lambda>r. (r, tok (pc_rotations st) r)) swarm_roles,
     pc_key := Some (tok (pc_rotations st) ''consensus''), pc_rotations := pc_rotations st + 1\<rparr>"


section \<open>Intrusion detection\<close>

definition is_quarantined :: "poc \<Rightarrow> string \<Rightarrow> bool" where
  "is_quarantined st role = (lower role \<in> pc_quarantined st)"

definition quarantine_node :: "(nat \<Rightarrow> string \<Rightarrow> string) \<Rightarrow> poc \<Rightarrow> string \<Rightarrow> poc" where
  "quarantine_node tok st role =
     (if lower role \<in> pc_quarantined st then st
      else rotate_session_keys tok (st\<lparr>pc_quarantined := insert (lower role) (pc_quarantined st)\<rparr>))"

definition record_failure :: "(nat \<Rightarrow> string \<Rightarrow> string) \<Rightarrow> poc \<Rightarrow> string \<Rightarrow> poc" where
  "record_failure tok st role =
     (let n = dict_get_default (pc_failures st) (lower role) 0 + 1;
          st1 = st\<lparr>pc_failures := dict_put (lower role) n (pc_failures st)\<rparr>
      in if n \<ge> 3 then quarantine_node tok st1 (lower role) else st1)"

definition reset_ids :: "poc \<Rightarrow> poc" where
  "reset_ids st = st\<lparr>pc_quarantined := {}, pc_failures := []\<rparr>"


section \<open>Signatures and certificates\<close>

definition member_signature :: "string \<Rightarrow> string \<Rightarrow> string \<Rightarrow> string" where
  "member_signature role payload secret = sha256 (role @ '':'' @ payload @ '':'' @ secret)"

definition generate_member_signature ::
    "(string \<Rightarrow> string option) \<Rightarrow> poc \<Rightarrow> string \<Rightarrow> string \<Rightarrow> poc \<times> (poc_error + string)" where
  "generate_member_signature env st role payload =
     (let r = lower role
      in if r \<notin> set swarm_roles then (st, Inl Poc_Value_Error)
         else
           (case (if dict_get_default (pc_secrets st) r [] = [] then load_configured_keys env st else (st, None)) of
              (st1, Some e) \<Rightarrow> (st1, Inl e)
            | (st1, None) \<Rightarrow>
                (let secret = dict_get_default (pc_secrets st1) r []
                 in (st1, if secret = [] then Inl Poc_Runtime_Error else Inr (member_signature r payload secret)))))"

record certificate =
  ce_payload :: string
  ce_approvals :: "string list"
  ce_signatures :: "(string, string) dict"
  ce_consensus :: string
  ce_time :: string

definition majority_needed :: nat where
  "majority_needed = length swarm_roles div 2 + 1"

definition key_text :: "string option \<Rightarrow> string" where
  "key_text k = (case k of None \<Rightarrow> ''None'' | Some s \<Rightarrow> s)"

definition master_signature :: "string \<Rightarrow> string list \<Rightarrow> string option \<Rightarrow> string" where
  "master_signature payload roles key =
     sha256 (''consensus:'' @ payload @ '':'' @ join_with '','' (sort roles) @ '':'' @ key_text key)"

fun sign_all ::
    "(string \<Rightarrow> string option) \<Rightarrow> poc \<Rightarrow> string \<Rightarrow> (string, string) dict \<Rightarrow> string list
       \<Rightarrow> poc \<times> (poc_error + (string, string) dict)" where
  "sign_all env st payload sigs [] = (st, Inr sigs)"
| "sign_all env st payload sigs (r # rs) =
     (case generate_member_signature env st r payload of
        (st1, Inl e) \<Rightarrow> (st1, Inl e)
      | (st1, Inr s) \<Rightarrow> sign_all env st1 payload (dict_put r s sigs) rs)"

definition create_consensus_certificate ::
    "(string \<Rightarrow> string option) \<Rightarrow> poc \<Rightarrow> string \<Rightarrow> string \<Rightarrow> string list \<Rightarrow> poc \<times> (poc_error + certificate)" where
  "create_consensus_certificate env st time payload approved =
     (let approvals = filter (\<lambda>r. r \<in> set swarm_roles \<and> \<not> is_quarantined st r) (map lower approved)
      in if length approvals < majority_needed then (st, Inl Poc_Value_Error)
         else
           (case sign_all env st payload [] approvals of
              (st1, Inl e) \<Rightarrow> (st1, Inl e)
            | (st1, Inr sigs) \<Rightarrow>
                (st1, Inr \<lparr>ce_payload = payload, ce_approvals = approvals, ce_signatures = sigs,
                          ce_consensus = master_signature payload approvals (pc_key st1), ce_time = time\<rparr>)))"

text \<open>The loop of the verifier; a wrong signature is reported to the intrusion detection at once.\<close>

fun check_approvals ::
    "(string \<Rightarrow> string option) \<Rightarrow> (nat \<Rightarrow> string \<Rightarrow> string) \<Rightarrow> poc \<Rightarrow> string \<Rightarrow> (string, string) dict \<Rightarrow> string list
       \<Rightarrow> string list \<Rightarrow> poc \<times> (poc_error + string list)" where
  "check_approvals env tok st payload sigs valid [] = (st, Inr valid)"
| "check_approvals env tok st payload sigs valid (r # rs) =
     (if r \<notin> set swarm_roles \<or> is_quarantined st r then check_approvals env tok st payload sigs valid rs
      else
        (case generate_member_signature env st r payload of
           (st1, Inl e) \<Rightarrow> (st1, Inl e)
         | (st1, Inr expected) \<Rightarrow>
             (if dict_get sigs r = Some expected
              then check_approvals env tok st1 payload sigs (valid @ [r]) rs
              else check_approvals env tok (record_failure tok st1 r) payload sigs valid rs)))"

text \<open>\<^const>\<open>None\<close> is a dictionary that lacks one of the four keys.\<close>

definition verify_consensus_certificate ::
    "(string \<Rightarrow> string option) \<Rightarrow> (nat \<Rightarrow> string \<Rightarrow> string) \<Rightarrow> poc \<Rightarrow> certificate option \<Rightarrow> poc \<times> bool" where
  "verify_consensus_certificate env tok st cert =
     (case cert of
        None \<Rightarrow> (st, False)
      | Some c \<Rightarrow>
          (case check_approvals env tok st (ce_payload c) (ce_signatures c) [] (ce_approvals c) of
             (st1, Inl e) \<Rightarrow> (st1, False)
           | (st1, Inr valid) \<Rightarrow>
               (if length valid < majority_needed then (st1, False)
                else (st1, ce_consensus c = master_signature (ce_payload c) valid (pc_key st1)))))"


section \<open>The registry\<close>

type_synonym registry = "(string, certificate option) dict"

text \<open>What happens to the files while a certificate is registered: whether the audit event is recorded, the folder exists or
can be made, the registry is readable, and how writing it ends. A failure of the event or of the writing is logged and
passed over; the file is then as it was, or torn, and a torn file reads like an empty one.\<close>

datatype write_outcome = Written | Left_As_It_Was | Torn

record storage =
  so_audit :: bool
  so_folder :: bool
  so_readable :: bool
  so_write :: write_outcome

definition registry_after :: "storage \<Rightarrow> registry \<Rightarrow> string \<Rightarrow> certificate \<Rightarrow> registry" where
  "registry_after so reg payload cert =
     (case so_write so of
        Written \<Rightarrow> dict_put payload (Some cert) (if so_readable so then reg else [])
      | Left_As_It_Was \<Rightarrow> reg
      | Torn \<Rightarrow> [])"

definition register_consensus ::
    "storage \<Rightarrow> (string \<Rightarrow> string option) \<Rightarrow> (nat \<Rightarrow> string \<Rightarrow> string) \<Rightarrow> string \<Rightarrow> poc \<Rightarrow> ledger \<Rightarrow> registry \<Rightarrow> string \<Rightarrow> certificate
       \<Rightarrow> poc \<times> ledger \<times> registry \<times> poc_error option" where
  "register_consensus so env tok time st led reg payload cert =
     (case verify_consensus_certificate env tok st (Some cert) of
        (st1, False) \<Rightarrow> (st1, led, reg, Some Poc_Value_Error)
      | (st1, True) \<Rightarrow>
          (let led1 = (if so_audit so
                       then fst (record_event led time ''consensus_vote'' (JObj
                              [(''payload_hash'', JStr payload), (''approvals'', JArr (map JStr (ce_approvals cert))),
                               (''consensus_signature'', JStr (ce_consensus cert))]) default_tenant)
                       else led)
           in if \<not> so_folder so then (st1, led1, reg, Some Poc_Runtime_Error)
              else (st1, led1, registry_after so reg payload cert, None)))"

definition is_consensus_approved ::
    "(string \<Rightarrow> string option) \<Rightarrow> (nat \<Rightarrow> string \<Rightarrow> string) \<Rightarrow> poc \<Rightarrow> registry \<Rightarrow> string \<Rightarrow> poc \<times> bool" where
  "is_consensus_approved env tok st reg payload =
     (case dict_get reg payload of
        None \<Rightarrow> (st, False)
      | Some cert \<Rightarrow> verify_consensus_certificate env tok st cert)"


section \<open>Governance votes\<close>

record proposal =
  gp_id :: string
  gp_rule_type :: string
  gp_rule_text :: string
  gp_status :: string
  gp_payload :: string
  gp_votes :: "(string, string) dict"
  gp_signatures :: "(string, string) dict"
  gp_time :: string
  gp_certificate :: "certificate option"

record governance =
  gv_proposals :: "(string, proposal) dict"
  gv_poc :: poc
  gv_ledger :: ledger
  gv_registry :: registry

definition roles_voting :: "proposal \<Rightarrow> string \<Rightarrow> string list" where
  "roles_voting p v = map fst (filter (\<lambda>(r, w). w = v) (gp_votes p))"

definition save_proposal :: "governance \<Rightarrow> string \<Rightarrow> proposal \<Rightarrow> governance" where
  "save_proposal g pid p = g\<lparr>gv_proposals := dict_put pid p (gv_proposals g)\<rparr>"

text \<open>The file of the proposals is readable and writable; \<open>so\<close> says how registering a certificate goes.\<close>

definition cast_vote ::
    "storage \<Rightarrow> (string \<Rightarrow> string option) \<Rightarrow> (nat \<Rightarrow> string \<Rightarrow> string) \<Rightarrow> string \<Rightarrow> governance \<Rightarrow> string \<Rightarrow> string \<Rightarrow> string \<Rightarrow> string
       \<Rightarrow> governance \<times> (poc_error + bool)" where
  "cast_vote so env tok time g pid role vote signature =
     (case dict_get (gv_proposals g) pid of
        None \<Rightarrow> (g, Inl Poc_Value_Error)
      | Some p0 \<Rightarrow>
          (case generate_member_signature env (gv_poc g) role (gp_payload p0) of
             (st1, Inl e) \<Rightarrow> (g\<lparr>gv_poc := st1\<rparr>, Inl e)
           | (st1, Inr expected) \<Rightarrow>
               (if signature \<noteq> expected then (g\<lparr>gv_poc := st1\<rparr>, Inr False)
                else
                  (let p = p0\<lparr>gp_votes := dict_put (lower role) (lower vote) (gp_votes p0),
                              gp_signatures := dict_put (lower role) signature (gp_signatures p0)\<rparr>
                   in if length (roles_voting p ''approve'') \<ge> 3
                      then (case create_consensus_certificate env st1 time (gp_payload p) (roles_voting p ''approve'') of
                              (st2, Inl e) \<Rightarrow> (g\<lparr>gv_poc := st2\<rparr>, Inr False)
                            | (st2, Inr cert) \<Rightarrow>
                                (case register_consensus so env tok time st2 (gv_ledger g) (gv_registry g) (gp_payload p) cert of
                                   (st3, led, reg, Some e) \<Rightarrow>
                                     (g\<lparr>gv_poc := st3, gv_ledger := led, gv_registry := reg\<rparr>, Inr False)
                                 | (st3, led, reg, None) \<Rightarrow>
                                     (save_proposal (g\<lparr>gv_poc := st3, gv_ledger := led, gv_registry := reg\<rparr>) pid
                                        (p\<lparr>gp_status := ''accepted'', gp_certificate := Some cert\<rparr>), Inr True)))
                      else if length (roles_voting p ''reject'') \<ge> 3
                      then (save_proposal (g\<lparr>gv_poc := st1\<rparr>) pid (p\<lparr>gp_status := ''rejected''\<rparr>), Inr True)
                      else (save_proposal (g\<lparr>gv_poc := st1\<rparr>) pid p, Inr True)))))"

fun active_rules ::
    "(string \<Rightarrow> string option) \<Rightarrow> (nat \<Rightarrow> string \<Rightarrow> string) \<Rightarrow> registry \<Rightarrow> poc \<Rightarrow> proposal list \<Rightarrow> poc \<times> string list" where
  "active_rules env tok reg st [] = (st, [])"
| "active_rules env tok reg st (p # ps) =
     (if gp_status p = ''accepted''
      then (case is_consensus_approved env tok st reg (gp_payload p) of
              (st1, ok) \<Rightarrow>
                (case active_rules env tok reg st1 ps of
                   (st2, rules) \<Rightarrow> (st2, if ok then gp_rule_text p # rules else rules)))
      else active_rules env tok reg st ps)"

definition get_active_rules ::
    "(string \<Rightarrow> string option) \<Rightarrow> (nat \<Rightarrow> string \<Rightarrow> string) \<Rightarrow> governance \<Rightarrow> governance \<times> string list" where
  "get_active_rules env tok g =
     (case active_rules env tok (gv_registry g) (gv_poc g) (dict_values (gv_proposals g)) of
        (st, rules) \<Rightarrow> (g\<lparr>gv_poc := st\<rparr>, rules))"

section \<open>Calibration proposals\<close>

text \<open>\<open>over s\<close> is \<open>float(s) > 5000\<close>, \<^const>\<open>None\<close> when \<open>float\<close> raises a \<open>ValueError\<close>, which is caught; the
\<open>TypeError\<close> of a list or an object and the \<open>OverflowError\<close> of an integer too large are not. \<open>now\<close> is the
time in whole seconds.\<close>

datatype calibration_error = Type_Error | Overflow_Error

definition long_duration :: "(string \<Rightarrow> bool option) \<Rightarrow> json option \<Rightarrow> calibration_error + bool" where
  "long_duration over d =
     (case d of
        None \<Rightarrow> Inr False
      | Some JNull \<Rightarrow> Inr False
      | Some (JBool _) \<Rightarrow> Inr False
      | Some (JInt i) \<Rightarrow> if \<bar>i\<bar> \<ge> 2 ^ 1024 - 2 ^ 970 then Inl Overflow_Error else Inr (i > 5000)
      | Some (JFloat t) \<Rightarrow> Inr (over t = Some True)
      | Some (JStr t) \<Rightarrow> Inr (over t = Some True)
      | Some (JArr _) \<Rightarrow> Inl Type_Error
      | Some (JObj _) \<Rightarrow> Inl Type_Error
      | Some (JPy t r i) \<Rightarrow> Inl Type_Error)"

definition log_latency :: "(string \<Rightarrow> json option) \<Rightarrow> (string \<Rightarrow> bool option) \<Rightarrow> audit_row \<Rightarrow> calibration_error + bool" where
  "log_latency loads over r =
     (case loads (al_payload r) of
        Some (JObj kvs) \<Rightarrow>
          res_bind (long_duration over (dict_get kvs ''duration_ms''))
            (\<lambda>slow. Inr (slow \<or> dict_get kvs ''active_latency_alert'' = Some (JBool True)))
      | _ \<Rightarrow> Inr False)"

fun latency_anomaly :: "(string \<Rightarrow> json option) \<Rightarrow> (string \<Rightarrow> bool option) \<Rightarrow> audit_row list \<Rightarrow> calibration_error + bool" where
  "latency_anomaly loads over [] = Inr False"
| "latency_anomaly loads over (r # rs) =
     res_bind (log_latency loads over r) (\<lambda>a. res_bind (latency_anomaly loads over rs) (\<lambda>b. Inr (a \<or> b)))"

definition safety_anomaly :: "audit_row list \<Rightarrow> bool" where
  "safety_anomaly rs = (\<exists>r \<in> set rs. al_event r = ''SOC2_VIOLATION'' \<or> al_event r = ''safety_exception'')"

definition proposal_live :: "proposal \<Rightarrow> bool" where
  "proposal_live p = (gp_status p = ''proposed'' \<or> gp_status p = ''accepted'')"

definition has_live :: "governance \<Rightarrow> string \<Rightarrow> bool" where
  "has_live g rule = (\<exists>p \<in> set (dict_values (gv_proposals g)). gp_rule_type p = rule \<and> proposal_live p)"

definition latency_rule_template :: string where
  "latency_rule_template =
     ''Optimize agent latency by disabling verbose debug loops and enforcing strict token limits.''"

definition safety_rule_template :: string where
  "safety_rule_template =
     ''Enforce strict validation of system commands, blocking unauthorized access to workspace configurations.''"

definition new_proposal :: "string \<Rightarrow> int \<Rightarrow> string \<Rightarrow> string \<Rightarrow> string \<Rightarrow> proposal" where
  "new_proposal prefix now time rule text =
     \<lparr>gp_id = prefix @ int_str now, gp_rule_type = rule, gp_rule_text = text, gp_status = ''proposed'',
      gp_payload = sha256 text, gp_votes = [], gp_signatures = [], gp_time = time, gp_certificate = None\<rparr>"

definition check_and_trigger_calibration ::
    "(string \<Rightarrow> json option) \<Rightarrow> (string \<Rightarrow> bool option) \<Rightarrow> int \<Rightarrow> string \<Rightarrow> governance
       \<Rightarrow> governance \<times> (calibration_error + proposal option)" where
  "check_and_trigger_calibration loads over now time g =
     (let logs = get_logs (gv_ledger g) None default_tenant
      in case latency_anomaly loads over logs of
           Inl e \<Rightarrow> (g, Inl e)
         | Inr slow \<Rightarrow>
             (if slow \<and> \<not> has_live g ''latency_overrun''
              then (let p = new_proposal ''prop_latency_'' now time ''latency_overrun'' latency_rule_template
                    in (save_proposal g (gp_id p) p, Inr (Some p)))
              else if safety_anomaly logs \<and> \<not> has_live g ''safety_violation''
              then (let p = new_proposal ''prop_safety_'' now time ''safety_violation'' safety_rule_template
                    in (save_proposal g (gp_id p) p, Inr (Some p)))
              else (g, Inr None)))"

definition get_all_proposals :: "governance \<Rightarrow> (string, proposal) dict" where
  "get_all_proposals g = gv_proposals g"

end
