(* ===== verification/Consensus_Properties.thy ===== *)
theory Consensus_Properties
  imports Consensus
begin

text \<open>The properties of the swarm's certificates, of its intrusion detection and of its governance votes.\<close>

section \<open>Signing and checking\<close>

definition keys_loaded :: "poc \<Rightarrow> bool" where
  "keys_loaded st \<longleftrightarrow> (\<forall>r \<in> set swarm_roles. dict_get_default (pc_secrets st) r [] \<noteq> [])"

definition role_signature :: "poc \<Rightarrow> string \<Rightarrow> string \<Rightarrow> string" where
  "role_signature st r payload = member_signature r payload (dict_get_default (pc_secrets st) r [])"

lemma lower_role [simp]: "r \<in> set swarm_roles \<Longrightarrow> lower r = r"
  by (auto simp: swarm_roles_def lower_def lower_char_def)

lemma majority_is_three [simp]: "majority_needed = 3"
  by (simp add: majority_needed_def swarm_roles_def)

lemma generate_loaded:
  "keys_loaded st \<Longrightarrow> r \<in> set swarm_roles \<Longrightarrow> generate_member_signature env st r payload = (st, Inr (role_signature st r payload))"
  by (simp add: generate_member_signature_def keys_loaded_def Let_def role_signature_def)

lemma sign_all_loaded:
  "keys_loaded st \<Longrightarrow> set rs \<subseteq> set swarm_roles \<Longrightarrow>
     \<exists>sigs'. sign_all env st payload sigs rs = (st, Inr sigs')
       \<and> (\<forall>r. dict_get sigs' r = (if r \<in> set rs then Some (role_signature st r payload) else dict_get sigs r))"
proof (induction rs arbitrary: sigs)
  case (Cons r rs)
  from Cons.IH [of "dict_put r (role_signature st r payload) sigs"] Cons.prems
  show ?case by (auto simp: generate_loaded)
qed simp

lemma check_all_signed:
  "keys_loaded st \<Longrightarrow> \<forall>r \<in> set rs. r \<in> set swarm_roles \<and> \<not> is_quarantined st r \<and> dict_get sigs r = Some (role_signature st r payload)
     \<Longrightarrow> check_approvals env tok st payload sigs valid rs = (st, Inr (valid @ rs))"
  by (induction rs arbitrary: valid) (auto simp: generate_loaded)

lemma create_loaded:
  assumes "keys_loaded st" "approvals = filter (\<lambda>r. r \<in> set swarm_roles \<and> \<not> is_quarantined st r) (map lower approved)"
  shows "create_consensus_certificate env st time payload approved =
    (if length approvals < 3 then (st, Inl Poc_Value_Error)
     else (st, Inr \<lparr>ce_payload = payload, ce_approvals = approvals,
       ce_signatures = (case sign_all env st payload [] approvals of (_, Inr sigs) \<Rightarrow> sigs | _ \<Rightarrow> []),
       ce_consensus = master_signature payload approvals (pc_key st), ce_time = time\<rparr>))"
proof -
  obtain sigs where "sign_all env st payload [] approvals = (st, Inr sigs)"
    using sign_all_loaded [OF assms(1), of approvals env payload "[]"] assms(2) by fastforce
  then show ?thesis
    unfolding create_consensus_certificate_def Let_def assms(2) [symmetric] by simp
qed

lemma created_ok:
  assumes "keys_loaded st" "create_consensus_certificate env st time payload approved = (st', Inr c)"
  shows "st' = st \<and> 3 \<le> length (ce_approvals c) \<and> set (ce_approvals c) \<subseteq> set swarm_roles - {r. is_quarantined st r}
    \<and> ce_approvals c = filter (\<lambda>r. r \<in> set swarm_roles \<and> \<not> is_quarantined st r) (map lower approved)
    \<and> ce_payload c = payload \<and> verify_consensus_certificate env' tok st (Some c) = (st, True)
    \<and> (\<forall>r \<in> set (ce_approvals c). dict_get (ce_signatures c) r = Some (role_signature st r payload))"
proof -
  define rs where "rs = filter (\<lambda>r. r \<in> set swarm_roles \<and> \<not> is_quarantined st r) (map lower approved)"
  have mem: "\<forall>r \<in> set rs. r \<in> set swarm_roles \<and> \<not> is_quarantined st r" by (auto simp: rs_def)
  then have "set rs \<subseteq> set swarm_roles" by blast
  from sign_all_loaded [OF assms(1) this, of env payload "[]"]
  obtain sigs where s: "sign_all env st payload [] rs = (st, Inr sigs)"
    "\<forall>r. dict_get sigs r = (if r \<in> set rs then Some (role_signature st r payload) else dict_get [] r)"
    by blast
  have c: "st' = st" "\<not> length rs < 3" "c = \<lparr>ce_payload = payload, ce_approvals = rs, ce_signatures = sigs,
      ce_consensus = master_signature payload rs (pc_key st), ce_time = time\<rparr>"
    using assms(2) s(1) unfolding create_loaded [OF assms(1) rs_def] by (auto split: if_splits)
  have "check_approvals env' tok st payload sigs [] rs = (st, Inr ([] @ rs))"
    using mem s(2) by (intro check_all_signed assms(1)) simp
  with c have "verify_consensus_certificate env' tok st (Some c) = (st, True)"
    by (simp add: verify_consensus_certificate_def)
  moreover have "set rs \<subseteq> set swarm_roles - {r. is_quarantined st r}" using mem by blast
  ultimately show ?thesis
    using c s(2) unfolding rs_def by simp
qed

text \<open>A certificate that was created verifies, as long as keys and quarantine stay as they were: creating
needs three approvals of members in good standing, changes nothing, and the verifier accepts the result
and changes nothing either.\<close>

theorem created_certificate_verifies:
  assumes "keys_loaded st" "create_consensus_certificate env st time payload approved = (st', Inr c)"
  shows "st' = st \<and> 3 \<le> length (ce_approvals c) \<and> set (ce_approvals c) \<subseteq> set swarm_roles - {r. is_quarantined st r}
    \<and> ce_approvals c = filter (\<lambda>r. r \<in> set swarm_roles \<and> \<not> is_quarantined st r) (map lower approved)
    \<and> ce_payload c = payload \<and> verify_consensus_certificate env' tok st (Some c) = (st, True)"
  using created_ok [OF assms] by blast

definition test_env :: "string \<Rightarrow> string option" where
  "test_env name = (if name = ''LAS_TEST_MODE'' then Some ''1'' else None)"

definition fresh_poc :: poc where
  "fresh_poc = \<lparr>pc_secrets = map (\<lambda>r. (r, r)) swarm_roles, pc_key = Some ''k'', pc_failures = [], pc_quarantined = {},
     pc_rotations = 0\<rparr>"

lemma fresh_poc_loaded: "keys_loaded fresh_poc"
  by (simp add: keys_loaded_def fresh_poc_def swarm_roles_def dict_get_default_def dict_get_def)

definition trio_certificate :: certificate where
  "trio_certificate = (case create_consensus_certificate test_env fresh_poc ''t'' ''h'' [''CEO'', ''cto'', ''qa''] of
     (_, Inr c) \<Rightarrow> c | _ \<Rightarrow> undefined)"

lemma trio_certificate: "create_consensus_certificate test_env fresh_poc ''t'' ''h'' [''CEO'', ''cto'', ''qa''] = (fresh_poc, Inr trio_certificate)"
proof -
  have "map lower [''CEO'', ''cto'', ''qa''] = [''ceo'', ''cto'', ''qa'']" by code_simp
  then show ?thesis
    unfolding trio_certificate_def create_loaded [OF fresh_poc_loaded refl]
    by (simp add: swarm_roles_def is_quarantined_def fresh_poc_def del: list.map)
qed

lemma created_certificate_verifies_witness:
  "verify_consensus_certificate test_env (\<lambda>_ _. []) fresh_poc (Some trio_certificate) = (fresh_poc, True)"
  using created_certificate_verifies [OF fresh_poc_loaded trio_certificate] by blast


section \<open>What an accepted certificate proves\<close>

lemma rotate_grows: "pc_rotations (rotate_session_keys tok st) = pc_rotations st + 1"
  by (simp add: rotate_session_keys_def)

lemma record_failure_frame:
  "pc_rotations st \<le> pc_rotations (record_failure tok st r)
   \<and> (pc_rotations (record_failure tok st r) = pc_rotations st \<longrightarrow>
       pc_secrets (record_failure tok st r) = pc_secrets st \<and> pc_key (record_failure tok st r) = pc_key st
       \<and> pc_quarantined (record_failure tok st r) = pc_quarantined st)"
  by (simp add: record_failure_def quarantine_node_def rotate_session_keys_def Let_def)

lemma generate_rotations: "pc_rotations (fst (generate_member_signature env st r payload)) = pc_rotations st"
  by (simp add: generate_member_signature_def load_configured_keys_def Let_def split: sum.split prod.split option.split)

lemma check_approvals_rotations:
  "pc_rotations st \<le> pc_rotations (fst (check_approvals env tok st payload sigs valid rs))"
proof (induction rs arbitrary: st valid)
  case (Cons r rs)
  obtain st1 x where g: "generate_member_signature env st r payload = (st1, x)" by fastforce
  with generate_rotations [of env st r payload] have same: "pc_rotations st1 = pc_rotations st" by simp
  note up = Cons.IH [of st1 "valid @ [r]"] Cons.IH [of "record_failure tok st1 r" valid] Cons.IH [of st valid]
    record_failure_frame [of st1 tok r]
  show ?case
    using up same g by (cases x) auto
qed simp

lemma check_approvals_signed:
  assumes "check_approvals env tok st payload sigs valid rs = (st', Inr valid')" "keys_loaded st"
  shows "pc_rotations st \<le> pc_rotations st' \<and> (pc_rotations st' = pc_rotations st \<longrightarrow>
    pc_secrets st' = pc_secrets st \<and> pc_key st' = pc_key st \<and> pc_quarantined st' = pc_quarantined st \<and>
    valid' = valid @ filter (\<lambda>r. r \<in> set swarm_roles \<and> \<not> is_quarantined st r \<and> dict_get sigs r = Some (role_signature st r payload)) rs)"
  using assms
proof (induction rs arbitrary: st valid)
  case (Cons r rs)
  show ?case
  proof (cases "r \<notin> set swarm_roles \<or> is_quarantined st r")
    case True
    with Cons.IH [of st valid] Cons.prems show ?thesis by auto
  next
    case False
    note g = generate_loaded [OF Cons.prems(2), of r env payload]
    show ?thesis
    proof (cases "dict_get sigs r = Some (role_signature st r payload)")
      case True
      with False Cons.prems g Cons.IH [of st "valid @ [r]"] show ?thesis by auto
    next
      case wrong: False
      let ?st1 = "record_failure tok st r"
      note fr = record_failure_frame [of st tok r]
      have c: "check_approvals env tok ?st1 payload sigs valid rs = (st', Inr valid')"
        using Cons.prems(1) False wrong g by (simp split: if_splits)
      have up: "pc_rotations ?st1 \<le> pc_rotations st'"
        using check_approvals_rotations [of ?st1 env tok payload sigs valid rs] c by simp
      show ?thesis
      proof (cases "pc_rotations ?st1 = pc_rotations st")
        case True
        with fr have same: "pc_secrets ?st1 = pc_secrets st" "pc_key ?st1 = pc_key st" "pc_quarantined ?st1 = pc_quarantined st"
          by auto
        then have "keys_loaded ?st1" using Cons.prems(2) by (simp add: keys_loaded_def)
        from Cons.IH [OF c this] True same wrong show ?thesis
          by (simp add: role_signature_def is_quarantined_def)
      next
        case False
        with up fr show ?thesis by auto
      qed
    qed
  qed
qed simp

lemma accepted_signed:
  assumes "keys_loaded st" "verify_consensus_certificate env tok st (Some c) = (st', True)"
    and "pc_rotations st' = pc_rotations st"
  shows "\<exists>ws. ws = filter (\<lambda>r. r \<in> set swarm_roles \<and> \<not> is_quarantined st r
        \<and> dict_get (ce_signatures c) r = Some (role_signature st r (ce_payload c))) (ce_approvals c)
    \<and> 3 \<le> length ws \<and> ce_consensus c = master_signature (ce_payload c) ws (pc_key st)"
proof -
  obtain valid where v: "check_approvals env tok st (ce_payload c) (ce_signatures c) [] (ce_approvals c) = (st', Inr valid)"
    "3 \<le> length valid" "ce_consensus c = master_signature (ce_payload c) valid (pc_key st')"
    using assms(2) by (auto simp: verify_consensus_certificate_def split: prod.splits sum.splits if_splits)
  from check_approvals_signed [OF v(1) assms(1)] assms(3) v(2,3) show ?thesis by simp
qed

text \<open>An accepted certificate is signed: when the verifier accepts without a key rotation on the way, at
least three of its approvals name members in good standing and carry their current signature of the
payload, and the master signature covers exactly those. Nobody who lacks the keys can produce them short
of the preimages of these hashes.\<close>

theorem accepted_certificate_is_signed:
  assumes "keys_loaded st" "verify_consensus_certificate env tok st (Some c) = (st', True)"
    and "pc_rotations st' = pc_rotations st"
  shows "\<exists>ws. ws = filter (\<lambda>r. r \<in> set swarm_roles \<and> \<not> is_quarantined st r
        \<and> dict_get (ce_signatures c) r = Some (role_signature st r (ce_payload c))) (ce_approvals c)
    \<and> 3 \<le> length ws \<and> ce_consensus c = master_signature (ce_payload c) ws (pc_key st)"
  by (rule accepted_signed [OF assms])

lemma accepted_certificate_is_signed_witness:
  "\<exists>ws. 3 \<le> length ws \<and> ce_consensus trio_certificate = master_signature (ce_payload trio_certificate) ws (Some ''k'')"
proof -
  have "verify_consensus_certificate test_env (\<lambda>_ _. []) fresh_poc (Some trio_certificate) = (fresh_poc, True)"
    using created_ok [OF fresh_poc_loaded trio_certificate] by blast
  from accepted_certificate_is_signed [OF fresh_poc_loaded this refl] show ?thesis
    by (auto simp: fresh_poc_def)
qed

text \<open>The approvals are counted with repetition, so one member in good standing is a majority.\<close>

lemma one_role_reaches_majority:
  assumes "keys_loaded st" "r \<in> set swarm_roles" "\<not> is_quarantined st r"
  shows "\<exists>c. create_consensus_certificate env st time payload [r, r, r] = (st, Inr c) \<and> ce_approvals c = [r, r, r]
    \<and> verify_consensus_certificate env tok st (Some c) = (st, True)"
proof -
  have "[r, r, r] = filter (\<lambda>r. r \<in> set swarm_roles \<and> \<not> is_quarantined st r) (map lower [r, r, r])"
    using assms(2,3) by simp
  from create_loaded [OF assms(1) this, of env time payload] obtain c where
    c: "create_consensus_certificate env st time payload [r, r, r] = (st, Inr c)" "ce_approvals c = [r, r, r]"
    by simp
  with created_ok [OF assms(1) c(1)] show ?thesis by blast
qed


text \<open>The registry does not compare the hash a certificate is filed under with the hash it is for: a good
certificate for one payload can be registered for, and then approves, any other.\<close>

definition sound_storage :: storage where
  "sound_storage = \<lparr>so_audit = True, so_folder = True, so_readable = True, so_write = Written\<rparr>"

lemma registry_takes_any_key:
  assumes "keys_loaded st" "create_consensus_certificate env st time payload approved = (st, Inr c)"
  shows "\<exists>led' reg'. register_consensus sound_storage env tok time st led reg other c = (st, led', reg', None)
    \<and> is_consensus_approved env tok st reg' other = (st, True)"
  using created_ok [OF assms]
  by (simp add: register_consensus_def is_consensus_approved_def registry_after_def sound_storage_def Let_def)


section \<open>Quarantine by forgery\<close>

text \<open>Other keys, of members who sign a payload differently with them.\<close>

definition wrong_keys :: "poc \<Rightarrow> string \<Rightarrow> poc \<Rightarrow> bool" where
  "wrong_keys old payload st \<longleftrightarrow> keys_loaded st \<and> (\<forall>r \<in> set swarm_roles. role_signature st r payload \<noteq> role_signature old r payload)"

definition good_tokens :: "(nat \<Rightarrow> string \<Rightarrow> string) \<Rightarrow> poc \<Rightarrow> string \<Rightarrow> bool" where
  "good_tokens tok old payload \<longleftrightarrow>
     (\<forall>n. \<forall>r \<in> set swarm_roles. tok n r \<noteq> [] \<and> member_signature r payload (tok n r) \<noteq> role_signature old r payload)"

lemma rotate_wrong: "good_tokens tok old payload \<Longrightarrow> wrong_keys old payload (rotate_session_keys tok st)"
  by (auto simp: wrong_keys_def good_tokens_def keys_loaded_def role_signature_def rotate_session_keys_def dict_get_default_def
      dict_get_def swarm_roles_def)

lemma record_failure_wrong: "good_tokens tok old payload \<Longrightarrow> wrong_keys old payload st \<Longrightarrow> wrong_keys old payload (record_failure tok st r)"
  using rotate_wrong [of tok old payload] by (auto simp: record_failure_def quarantine_node_def Let_def wrong_keys_def keys_loaded_def role_signature_def)

text \<open>Under other keys no old signature passes, whatever the failures on the way trigger.\<close>

lemma old_signatures_fail:
  assumes "good_tokens tok old payload"
  shows "wrong_keys old payload st \<Longrightarrow> \<forall>r \<in> set rs. dict_get sigs r = Some (role_signature old r payload) \<Longrightarrow>
    \<exists>st'. check_approvals env tok st payload sigs [] rs = (st', Inr [])"
proof (induction rs arbitrary: st)
  case (Cons r rs)
  show ?case
  proof (cases "r \<notin> set swarm_roles \<or> is_quarantined st r")
    case True
    with Cons show ?thesis by simp
  next
    case False
    have kl: "keys_loaded st" using Cons.prems(1) by (simp add: wrong_keys_def)
    have "role_signature st r payload \<noteq> role_signature old r payload" using Cons.prems(1) False by (simp add: wrong_keys_def)
    with Cons.prems(2) have "dict_get sigs r \<noteq> Some (role_signature st r payload)" by auto
    with False generate_loaded [OF kl, of r env payload]
      Cons.IH [OF record_failure_wrong [OF assms Cons.prems(1), of r]] Cons.prems(2)
    show ?thesis by simp
  qed
qed simp

definition forged :: "string \<Rightarrow> string \<Rightarrow> certificate" where
  "forged r payload = \<lparr>ce_payload = payload, ce_approvals = [r, r, r], ce_signatures = [], ce_consensus = [], ce_time = []\<rparr>"

text \<open>One forged certificate, made without any key, disables the swarm's consensus. If it names a member
three times without a signature, checking it counts three failures, quarantines the member and rotates
all keys; and every certificate created honestly before is refused from then on, when the
members sign its payload differently with the new tokens.\<close>

theorem forged_certificate_quarantines_member:
  assumes "keys_loaded st" "r \<in> set swarm_roles" "\<not> is_quarantined st r" "dict_get_default (pc_failures st) r 0 = 0"
    and "verify_consensus_certificate env tok st (Some (forged r payload)) = (st', ok)"
    and "create_consensus_certificate env st time payload' approved = (st, Inr c)"
  shows "\<not> ok \<and> is_quarantined st' r \<and> pc_rotations st' = pc_rotations st + 1
    \<and> (good_tokens tok st payload' \<longrightarrow> \<not> snd (verify_consensus_certificate env tok st' (Some c)))"
proof -
  let ?f = "record_failure tok"
  have g: "generate_member_signature env s r payload = (s, Inr (role_signature s r payload))" if "pc_secrets s = pc_secrets st" for s
    using that assms(1) by (intro generate_loaded assms(2)) (simp add: keys_loaded_def)
  have f1: "?f st r = st\<lparr>pc_failures := dict_put r 1 (pc_failures st)\<rparr>"
    using assms(2,4) by (simp add: record_failure_def Let_def)
  have f2: "?f (?f st r) r = st\<lparr>pc_failures := dict_put r 2 (dict_put r 1 (pc_failures st))\<rparr>"
    unfolding f1 using assms(2) by (simp add: record_failure_def Let_def dict_get_default_def)
  have f3: "?f (?f (?f st r) r) r = rotate_session_keys tok (st\<lparr>pc_failures := dict_put r 3 (dict_put r 2 (dict_put r 1 (pc_failures st))),
      pc_quarantined := insert r (pc_quarantined st)\<rparr>)"
    unfolding f2 using assms(2,3) by (simp add: record_failure_def Let_def dict_get_default_def quarantine_node_def is_quarantined_def)
  have q: "\<not> is_quarantined (?f st r) r" "\<not> is_quarantined (?f (?f st r) r) r"
    unfolding f2 unfolding f1 using assms(3) by (simp_all add: is_quarantined_def)
  have "check_approvals env tok st payload [] [] [r, r, r] = (?f (?f (?f st r) r) r, Inr [])"
    using assms(2,3) q g [of st] g [of "?f st r"] g [of "?f (?f st r) r"] f1 f2 by simp
  then have st': "st' = ?f (?f (?f st r) r) r" "\<not> ok"
    using assms(5) by (auto simp: verify_consensus_certificate_def forged_def)
  have "\<not> snd (verify_consensus_certificate env tok st' (Some c))" if t: "good_tokens tok st payload'"
  proof -
    have w: "wrong_keys st payload' st'" unfolding st' f3 by (rule rotate_wrong [OF t])
    have "\<forall>q \<in> set (ce_approvals c). dict_get (ce_signatures c) q = Some (role_signature st q payload')" "ce_payload c = payload'"
      using created_ok [OF assms(1,6)] by blast+
    with old_signatures_fail [OF t w, of "ce_approvals c" "ce_signatures c" env] show ?thesis
      by (auto simp: verify_consensus_certificate_def)
  qed
  moreover have "is_quarantined st' r" "pc_rotations st' = pc_rotations st + 1"
    unfolding st' f3 using assms(2) by (simp_all add: is_quarantined_def rotate_session_keys_def)
  ultimately show ?thesis using st'(2) by blast
qed

lemma forged_certificate_quarantines_member_witness:
  "is_quarantined (fst (verify_consensus_certificate test_env (\<lambda>_ _. ''x'') fresh_poc (Some (forged ''dev'' ''h'')))) ''dev''"
proof -
  obtain st' ok where v: "verify_consensus_certificate test_env (\<lambda>_ _. ''x'') fresh_poc (Some (forged ''dev'' ''h'')) = (st', ok)"
    by fastforce
  have "''dev'' \<in> set swarm_roles" "\<not> is_quarantined fresh_poc ''dev''" "dict_get_default (pc_failures fresh_poc) ''dev'' 0 = 0"
    by (simp_all add: swarm_roles_def fresh_poc_def is_quarantined_def dict_get_default_def)
  from forged_certificate_quarantines_member [OF fresh_poc_loaded this v trio_certificate] v show ?thesis by simp
qed


section \<open>Governance\<close>

definition votes_ok :: "proposal \<Rightarrow> bool" where
  "votes_ok p \<longleftrightarrow> dict_wf (gp_votes p) \<and> fst ` set (gp_votes p) \<subseteq> set swarm_roles"

lemma roles_voting_spec:
  assumes "votes_ok p"
  shows "distinct (roles_voting p v)" "set (roles_voting p v) = {r. dict_get (gp_votes p) r = Some v}"
    "set (roles_voting p v) \<subseteq> set swarm_roles"
proof -
  have wf: "dict_wf (gp_votes p)" using assms by (simp add: votes_ok_def)
  then show "distinct (roles_voting p v)"
    by (simp add: roles_voting_def dict_wf_def distinct_map_filter)
  show "set (roles_voting p v) = {r. dict_get (gp_votes p) r = Some v}"
    using dict_get_iff [OF wf] by (force simp: roles_voting_def)
  show "set (roles_voting p v) \<subseteq> set swarm_roles"
    using assms by (auto simp: roles_voting_def votes_ok_def)
qed

lemma votes_ok_put:
  "votes_ok p \<Longrightarrow> r \<in> set swarm_roles \<Longrightarrow> votes_ok (p\<lparr>gp_votes := dict_put r v (gp_votes p), gp_signatures := s\<rparr>)"
  by (simp add: votes_ok_def)

lemma map_lower_roles: "set rs \<subseteq> set swarm_roles \<Longrightarrow> map lower rs = rs"
  by (induction rs) auto

lemma cast_vote_right:
  assumes "dict_get (gv_proposals g) pid = Some p0"
    and "generate_member_signature env (gv_poc g) role (gp_payload p0) = (st1, Inr signature)"
    and "q = p0\<lparr>gp_votes := dict_put (lower role) (lower vote) (gp_votes p0),
      gp_signatures := dict_put (lower role) signature (gp_signatures p0)\<rparr>"
  shows "cast_vote so env tok time g pid role vote signature =
     (if length (roles_voting q ''approve'') \<ge> 3
      then (case create_consensus_certificate env st1 time (gp_payload q) (roles_voting q ''approve'') of
              (st2, Inl e) \<Rightarrow> (g\<lparr>gv_poc := st2\<rparr>, Inr False)
            | (st2, Inr cert) \<Rightarrow>
                (case register_consensus so env tok time st2 (gv_ledger g) (gv_registry g) (gp_payload q) cert of
                   (st3, led, reg, Some e) \<Rightarrow> (g\<lparr>gv_poc := st3, gv_ledger := led, gv_registry := reg\<rparr>, Inr False)
                 | (st3, led, reg, None) \<Rightarrow>
                     (save_proposal (g\<lparr>gv_poc := st3, gv_ledger := led, gv_registry := reg\<rparr>) pid
                        (q\<lparr>gp_status := ''accepted'', gp_certificate := Some cert\<rparr>), Inr True)))
      else if length (roles_voting q ''reject'') \<ge> 3
      then (save_proposal (g\<lparr>gv_poc := st1\<rparr>) pid (q\<lparr>gp_status := ''rejected''\<rparr>), Inr True)
      else (save_proposal (g\<lparr>gv_poc := st1\<rparr>) pid q, Inr True))"
  unfolding cast_vote_def assms(1) option.case assms(2) prod.case sum.case assms(3) [symmetric] Let_def by simp

text \<open>What a vote that returns \<^const>\<open>True\<close> did.\<close>

lemma cast_vote_true:
  assumes "keys_loaded (gv_poc g)" "dict_get (gv_proposals g) pid = Some p0"
    and "cast_vote so env tok time g pid role vote signature = (g', Inr True)"
    and q_def: "q = p0\<lparr>gp_votes := dict_put (lower role) (lower vote) (gp_votes p0),
      gp_signatures := dict_put (lower role) signature (gp_signatures p0)\<rparr>"
  shows "lower role \<in> set swarm_roles \<and> signature = role_signature (gv_poc g) (lower role) (gp_payload p0)
    \<and> ((\<exists>cert led. 3 \<le> length (roles_voting q ''approve'')
          \<and> create_consensus_certificate env (gv_poc g) time (gp_payload q) (roles_voting q ''approve'') = (gv_poc g, Inr cert)
          \<and> (so_audit so \<longrightarrow> al_event (last (lg_rows led)) = ''consensus_vote'') \<and> (\<not> so_audit so \<longrightarrow> led = gv_ledger g)
          \<and> g' = save_proposal (g\<lparr>gv_ledger := led, gv_registry := registry_after so (gv_registry g) (gp_payload q) cert\<rparr>) pid
                   (q\<lparr>gp_status := ''accepted'', gp_certificate := Some cert\<rparr>))
      \<or> g' = save_proposal g pid (q\<lparr>gp_status := ''rejected''\<rparr>) \<or> g' = save_proposal g pid q)"
proof -
  have role: "lower role \<in> set swarm_roles"
    using assms(2,3) by (auto simp: cast_vote_def generate_member_signature_def Let_def split: if_splits)
  have g: "generate_member_signature env (gv_poc g) role (gp_payload p0)
      = (gv_poc g, Inr (role_signature (gv_poc g) (lower role) (gp_payload p0)))"
    using assms(1) role by (simp add: generate_member_signature_def keys_loaded_def Let_def role_signature_def)
  have sig: "signature = role_signature (gv_poc g) (lower role) (gp_payload p0)"
    using assms(2,3) g by (auto simp: cast_vote_def split: if_splits)
  note body = assms(3) [unfolded cast_vote_right [OF assms(2) g [folded sig] q_def]]
  have "g' = save_proposal g pid (q\<lparr>gp_status := ''rejected''\<rparr>) \<or> g' = save_proposal g pid q"
    if "\<not> 3 \<le> length (roles_voting q ''approve'')"
    using body that by (auto split: if_splits)
  moreover have "\<exists>cert led. create_consensus_certificate env (gv_poc g) time (gp_payload q) (roles_voting q ''approve'') = (gv_poc g, Inr cert)
      \<and> (so_audit so \<longrightarrow> al_event (last (lg_rows led)) = ''consensus_vote'') \<and> (\<not> so_audit so \<longrightarrow> led = gv_ledger g)
      \<and> g' = save_proposal (g\<lparr>gv_ledger := led, gv_registry := registry_after so (gv_registry g) (gp_payload q) cert\<rparr>) pid
               (q\<lparr>gp_status := ''accepted'', gp_certificate := Some cert\<rparr>)"
    if three: "3 \<le> length (roles_voting q ''approve'')"
  proof -
    obtain cert where cert: "create_consensus_certificate env (gv_poc g) time (gp_payload q) (roles_voting q ''approve'') = (gv_poc g, Inr cert)"
      using body three created_ok [OF assms(1)] by (auto split: prod.splits sum.splits)
    have ver: "verify_consensus_certificate env tok (gv_poc g) (Some cert) = (gv_poc g, True)" using created_ok [OF assms(1) cert] by blast
    have folder: "so_folder so"
      using body three cert ver by (auto simp: register_consensus_def Let_def split: if_splits)
    obtain led where reg: "register_consensus so env tok time (gv_poc g) (gv_ledger g) (gv_registry g) (gp_payload q) cert
        = (gv_poc g, led, registry_after so (gv_registry g) (gp_payload q) cert, None)"
      and led: "so_audit so \<longrightarrow> al_event (last (lg_rows led)) = ''consensus_vote''" "\<not> so_audit so \<longrightarrow> led = gv_ledger g"
      using ver folder by (auto simp: register_consensus_def record_event_def Let_def)
    show ?thesis using body three cert reg led by auto
  qed
  ultimately show ?thesis using role sig by blast
qed

text \<open>C25: A proposal is accepted by three members: when a vote turns a proposal into an accepted one - every role's key being
loaded, and the votes so far being those of roles of the swarm, as \<open>cast_vote\<close> keeps them - the voter's signature was
right, at least three different roles of the swarm stand at approve, and the proposal carries a certificate over its rule
signed by at least three different roles that approved. That certificate is in the registry when writing it succeeded,
and in the audit ledger when recording the event did: either failure is passed over and the proposal is accepted all the
same, with the ledger and, if the file was left alone, the registry as they were.\<close>

theorem acceptance_needs_three_roles:
  assumes "keys_loaded (gv_poc g)" "dict_get (gv_proposals g) pid = Some p0" "votes_ok p0" "gp_status p0 \<noteq> ''accepted''"
    and "cast_vote so env tok time g pid role vote signature = (g', Inr True)"
    and "dict_get (gv_proposals g') pid = Some p" "gp_status p = ''accepted''"
  shows "signature = role_signature (gv_poc g) (lower role) (gp_payload p)
    \<and> 3 \<le> card {r \<in> set swarm_roles. dict_get (gp_votes p) r = Some ''approve''}
    \<and> (\<exists>c. gp_certificate p = Some c \<and> ce_payload c = gp_payload p \<and> distinct (ce_approvals c) \<and> 3 \<le> length (ce_approvals c)
        \<and> set (ce_approvals c) \<subseteq> {r. dict_get (gp_votes p) r = Some ''approve''}
        \<and> (\<forall>r \<in> set (ce_approvals c). dict_get (ce_signatures c) r = Some (role_signature (gv_poc g) r (gp_payload p)))
        \<and> (so_write so = Written \<longrightarrow> dict_get (gv_registry g') (gp_payload p) = Some (Some c))
        \<and> (so_write so = Left_As_It_Was \<longrightarrow> gv_registry g' = gv_registry g))
    \<and> (so_audit so \<longrightarrow> al_event (last (lg_rows (gv_ledger g'))) = ''consensus_vote'')
    \<and> (\<not> so_audit so \<longrightarrow> gv_ledger g' = gv_ledger g)"
proof -
  define q where "q = p0\<lparr>gp_votes := dict_put (lower role) (lower vote) (gp_votes p0),
    gp_signatures := dict_put (lower role) signature (gp_signatures p0)\<rparr>"
  note out = cast_vote_true [OF assms(1,2,5) q_def]
  have q: "votes_ok q" unfolding q_def using out by (intro votes_ok_put assms(3)) blast
  have pay: "gp_payload q = gp_payload p0" "gp_status q \<noteq> ''accepted''" using assms(4) by (simp_all add: q_def)
  have "\<not> (g' = save_proposal g pid (q\<lparr>gp_status := ''rejected''\<rparr>) \<or> g' = save_proposal g pid q)"
    using assms(6,7) pay(2) by (auto simp: save_proposal_def)
  then obtain cert led where three: "3 \<le> length (roles_voting q ''approve'')"
    and cert: "create_consensus_certificate env (gv_poc g) time (gp_payload q) (roles_voting q ''approve'') = (gv_poc g, Inr cert)"
    and led: "so_audit so \<longrightarrow> al_event (last (lg_rows led)) = ''consensus_vote''" "\<not> so_audit so \<longrightarrow> led = gv_ledger g"
    and g': "g' = save_proposal (g\<lparr>gv_ledger := led, gv_registry := registry_after so (gv_registry g) (gp_payload q) cert\<rparr>) pid
      (q\<lparr>gp_status := ''accepted'', gp_certificate := Some cert\<rparr>)"
    using out by blast
  have sig: "signature = role_signature (gv_poc g) (lower role) (gp_payload p0)" using out by blast
  note ok = created_ok [OF assms(1) cert]
  have p: "p = q\<lparr>gp_status := ''accepted'', gp_certificate := Some cert\<rparr>"
    using assms(6) by (simp add: save_proposal_def g')
  note rv = roles_voting_spec [OF q, of "''approve''"]
  have ap: "ce_approvals cert = filter (\<lambda>r. r \<in> set swarm_roles \<and> \<not> is_quarantined (gv_poc g) r) (roles_voting q ''approve'')"
    using ok map_lower_roles [OF rv(3)] by simp
  have "{r \<in> set swarm_roles. dict_get (gp_votes p) r = Some ''approve''} = set (roles_voting q ''approve'')"
    using rv(2,3) p by auto
  then have "3 \<le> card {r \<in> set swarm_roles. dict_get (gp_votes p) r = Some ''approve''}"
    using three distinct_card [OF rv(1)] by simp
  moreover have "distinct (ce_approvals cert)" "set (ce_approvals cert) \<subseteq> {r. dict_get (gp_votes p) r = Some ''approve''}"
    using ap rv(1,2) p by auto
  moreover have "3 \<le> length (ce_approvals cert)" "ce_payload cert = gp_payload q" using ok by blast+
  moreover have "\<forall>r \<in> set (ce_approvals cert). dict_get (ce_signatures cert) r = Some (role_signature (gv_poc g) r (gp_payload q))"
    using ok by blast
  moreover have "so_write so = Written \<longrightarrow> dict_get (registry_after so (gv_registry g) (gp_payload q) cert) (gp_payload q) = Some (Some cert)"
    "so_write so = Left_As_It_Was \<longrightarrow> registry_after so (gv_registry g) (gp_payload q) cert = gv_registry g"
    by (simp_all add: registry_after_def)
  ultimately show ?thesis
    using p g' led pay sig by (simp add: save_proposal_def)
qed

text \<open>A vote's signature does not say what the vote was: it covers the role and the rule only. Whoever
has seen a member vote, one way, can cast that member's vote the other way with the same signature; it
is recorded, unless it is a third approval.\<close>

theorem vote_signature_replayable:
  assumes "keys_loaded (gv_poc g)" "dict_get (gv_proposals g) pid = Some p0"
    and "cast_vote so env tok time g pid role vote signature = (g1, Inr True)"
    and "dict_get (gv_proposals g1) pid = Some p1"
    and "length (roles_voting (p1\<lparr>gp_votes := dict_put (lower role) (lower other) (gp_votes p1)\<rparr>) ''approve'') < 3"
  shows "\<exists>g2 p2. cast_vote so env tok time' g1 pid role other signature = (g2, Inr True)
    \<and> dict_get (gv_proposals g2) pid = Some p2 \<and> dict_get (gp_votes p2) (lower role) = Some (lower other)"
proof -
  note out = cast_vote_true [OF assms(1-3) refl]
  have role: "lower role \<in> set swarm_roles" and sig: "signature = role_signature (gv_poc g) (lower role) (gp_payload p0)"
    using out by blast+
  have poc: "gv_poc g1 = gv_poc g" "gp_payload p1 = gp_payload p0" using out assms(4) by (auto simp: save_proposal_def)
  have gen: "generate_member_signature env (gv_poc g1) role (gp_payload p1) = (gv_poc g1, Inr signature)"
    using assms(1) role sig poc by (simp add: generate_member_signature_def keys_loaded_def Let_def role_signature_def)
  show ?thesis
    using assms(5) unfolding cast_vote_right [OF assms(4) gen refl]
    by (simp add: roles_voting_def save_proposal_def)
qed

definition blank_proposal :: "string \<Rightarrow> string \<Rightarrow> proposal" where
  "blank_proposal pid h = \<lparr>gp_id = pid, gp_rule_type = ''latency_overrun'', gp_rule_text = ''rule'', gp_status = ''proposed'',
     gp_payload = h, gp_votes = [], gp_signatures = [], gp_time = ''t'', gp_certificate = None\<rparr>"

definition blank_ballot :: governance where
  "blank_ballot = \<lparr>gv_proposals = [(''p1'', blank_proposal ''p1'' ''h'')], gv_poc = fresh_poc, gv_ledger = empty_ledger, gv_registry = []\<rparr>"

lemma vote_signature_replayable_witness:
  "\<exists>g1 g2 p2. cast_vote sound_storage test_env (\<lambda>_ _. []) ''t'' blank_ballot ''p1'' ''qa'' ''reject'' (role_signature fresh_poc ''qa'' ''h'') = (g1, Inr True)
     \<and> cast_vote sound_storage test_env (\<lambda>_ _. []) ''t'' g1 ''p1'' ''qa'' ''approve'' (role_signature fresh_poc ''qa'' ''h'') = (g2, Inr True)
     \<and> dict_get (gv_proposals g2) ''p1'' = Some p2 \<and> dict_get (gp_votes p2) ''qa'' = Some ''approve''"
proof -
  have low: "lower ''qa'' = ''qa''" "lower ''approve'' = ''approve''" "lower ''reject'' = ''reject''" by code_simp+
  have g: "generate_member_signature test_env fresh_poc ''qa'' ''h'' = (fresh_poc, Inr (role_signature fresh_poc ''qa'' ''h''))"
    by (rule generate_loaded [OF fresh_poc_loaded]) (simp add: swarm_roles_def)
  have p0: "dict_get (gv_proposals blank_ballot) ''p1'' = Some (blank_proposal ''p1'' ''h'')" by (simp add: blank_ballot_def dict_get_def)
  obtain g1 p1 where b: "cast_vote sound_storage test_env (\<lambda>_ _. []) ''t'' blank_ballot ''p1'' ''qa'' ''reject'' (role_signature fresh_poc ''qa'' ''h'') = (g1, Inr True)"
      "dict_get (gv_proposals g1) ''p1'' = Some p1" "gp_votes p1 = [(''qa'', ''reject'')]"
    using g low by (simp add: cast_vote_def blank_ballot_def blank_proposal_def roles_voting_def save_proposal_def dict_get_def)
  have "keys_loaded (gv_poc blank_ballot)" using fresh_poc_loaded by (simp add: blank_ballot_def)
  from vote_signature_replayable [OF this p0 b(1,2), of "''approve''" "''t''"] b low show ?thesis
    by (simp add: roles_voting_def)
qed

definition ballot_box :: governance where
  "ballot_box = \<lparr>gv_proposals = [(''p1'', \<lparr>gp_id = ''p1'', gp_rule_type = ''t'', gp_rule_text = ''rule'', gp_status = ''proposed'',
     gp_payload = ''h'', gp_votes = [(''ceo'', ''approve''), (''cto'', ''approve'')], gp_signatures = [], gp_time = ''t'',
     gp_certificate = None\<rparr>)], gv_poc = fresh_poc, gv_ledger = empty_ledger, gv_registry = []\<rparr>"

lemma acceptance_needs_three_roles_witness:
  "\<exists>g' p. cast_vote sound_storage test_env (\<lambda>_ _. []) ''t'' ballot_box ''p1'' ''qa'' ''approve'' (role_signature fresh_poc ''qa'' ''h'') = (g', Inr True)
     \<and> dict_get (gv_proposals g') ''p1'' = Some p \<and> 3 \<le> card {r \<in> set swarm_roles. dict_get (gp_votes p) r = Some ''approve''}"
proof -
  have low: "lower ''qa'' = ''qa''" "lower ''approve'' = ''approve''" "''qa'' \<in> set swarm_roles" by (code_simp, code_simp, simp add: swarm_roles_def)
  have g: "generate_member_signature test_env fresh_poc ''qa'' ''h'' = (fresh_poc, Inr (role_signature fresh_poc ''qa'' ''h''))"
    by (rule generate_loaded [OF fresh_poc_loaded low(3)])
  have "[''ceo'', ''cto'', ''qa''] = filter (\<lambda>r. r \<in> set swarm_roles \<and> \<not> is_quarantined fresh_poc r) (map lower [''ceo'', ''cto'', ''qa''])"
    using low(1) by (simp add: swarm_roles_def is_quarantined_def fresh_poc_def lower_def lower_char_def)
  from create_loaded [OF fresh_poc_loaded this, of test_env "''t''" "''h''"] obtain c where
    c: "create_consensus_certificate test_env fresh_poc ''t'' ''h'' [''ceo'', ''cto'', ''qa''] = (fresh_poc, Inr c)" by simp
  have v: "verify_consensus_certificate test_env (\<lambda>_ _. []) fresh_poc (Some c) = (fresh_poc, True)"
    using created_ok [OF fresh_poc_loaded c] by blast
  obtain g' p where b: "cast_vote sound_storage test_env (\<lambda>_ _. []) ''t'' ballot_box ''p1'' ''qa'' ''approve'' (role_signature fresh_poc ''qa'' ''h'') = (g', Inr True)"
      "dict_get (gv_proposals g') ''p1'' = Some p" "gp_status p = ''accepted''"
    using g c v low(1,2) by (simp add: cast_vote_def ballot_box_def roles_voting_def register_consensus_def save_proposal_def dict_get_def sound_storage_def Let_def)
  obtain p0 where p0: "dict_get (gv_proposals ballot_box) ''p1'' = Some p0" "votes_ok p0" "gp_status p0 \<noteq> ''accepted''"
    by (simp add: ballot_box_def dict_get_def votes_ok_def dict_wf_def swarm_roles_def)
  have "keys_loaded (gv_poc ballot_box)" using fresh_poc_loaded by (simp add: ballot_box_def)
  from acceptance_needs_three_roles [OF this p0 b] b show ?thesis by blast
qed

text \<open>Acceptance does not wait for its record: with the ledger and the registry failing, the third approval still accepts the
proposal, no event and no certificate are stored, and the accepted rule never becomes active.\<close>

lemma accepted_without_record:
  assumes "cast_vote \<lparr>so_audit = False, so_folder = True, so_readable = True, so_write = Left_As_It_Was\<rparr>
      test_env (\<lambda>_ _. []) ''t'' ballot_box ''p1'' ''qa'' ''approve'' (role_signature fresh_poc ''qa'' ''h'') = (g', r)"
  shows "r = Inr True \<and> map_option gp_status (dict_get (gv_proposals g') ''p1'') = Some ''accepted'' \<and> lg_rows (gv_ledger g') = []
    \<and> gv_registry g' = [] \<and> snd (get_active_rules test_env (\<lambda>_ _. []) g') = []"
proof -
  have low: "lower ''qa'' = ''qa''" "lower ''approve'' = ''approve''" "''qa'' \<in> set swarm_roles" by (code_simp, code_simp, simp add: swarm_roles_def)
  have g: "generate_member_signature test_env fresh_poc ''qa'' ''h'' = (fresh_poc, Inr (role_signature fresh_poc ''qa'' ''h''))"
    by (rule generate_loaded [OF fresh_poc_loaded low(3)])
  have "[''ceo'', ''cto'', ''qa''] = filter (\<lambda>r. r \<in> set swarm_roles \<and> \<not> is_quarantined fresh_poc r) (map lower [''ceo'', ''cto'', ''qa''])"
    using low(1) by (simp add: swarm_roles_def is_quarantined_def fresh_poc_def lower_def lower_char_def)
  from create_loaded [OF fresh_poc_loaded this, of test_env "''t''" "''h''"] obtain c where
    c: "create_consensus_certificate test_env fresh_poc ''t'' ''h'' [''ceo'', ''cto'', ''qa''] = (fresh_poc, Inr c)" by simp
  have v: "verify_consensus_certificate test_env (\<lambda>_ _. []) fresh_poc (Some c) = (fresh_poc, True)"
    using created_ok [OF fresh_poc_loaded c] by blast
  from assms g c v low(1,2) show ?thesis
    by (auto simp: cast_vote_def ballot_box_def roles_voting_def register_consensus_def registry_after_def save_proposal_def dict_get_def
      Let_def empty_ledger_def get_active_rules_def dict_values_def is_consensus_approved_def)
qed

text \<open>Acceptance is not withdrawn with the approvals: with fewer than three approvals and rejections left, the
status stays what it was.\<close>

lemma status_kept:
  assumes "dict_get (gv_proposals g) pid = Some p0" "cast_vote so env tok time g pid role vote signature = (g', Inr True)"
    and "dict_get (gv_proposals g') pid = Some p" "length (roles_voting p ''approve'') < 3" "length (roles_voting p ''reject'') < 3"
  shows "gp_status p = gp_status p0 \<and> gp_certificate p = gp_certificate p0"
  using assms
  by (auto simp: cast_vote_def Let_def save_proposal_def roles_voting_def split: prod.splits sum.splits if_splits option.splits)

section \<open>Calibration\<close>

definition live_count :: "governance \<Rightarrow> string \<Rightarrow> nat" where
  "live_count g rule = length (filter (\<lambda>p. gp_rule_type p = rule \<and> proposal_live p) (dict_values (gv_proposals g)))"

lemma count_put:
  "length (filter P (dict_values (dict_put k v d))) \<le> length (filter P (dict_values d)) + (if P v then 1 else 0)"
  "P v \<Longrightarrow> 0 < length (filter P (dict_values (dict_put k v d)))"
  by (induction k v d rule: dict_put.induct) (auto simp: dict_values_def)

lemma has_live_count: "has_live g rule \<longleftrightarrow> 0 < live_count g rule"
  by (auto simp: has_live_def live_count_def filter_empty_conv)

lemma save_live_count:
  "gp_rule_type p = rule' \<Longrightarrow> proposal_live p \<Longrightarrow>
     live_count (save_proposal g pid p) rule \<le> live_count g rule + (if rule = rule' then 1 else 0)
     \<and> 0 < live_count (save_proposal g pid p) rule'"
  using count_put(1) [where P = "\<lambda>p. gp_rule_type p = rule \<and> proposal_live p" and k = pid and v = p and d = "gv_proposals g"]
    count_put(2) [where P = "\<lambda>p. gp_rule_type p = rule' \<and> proposal_live p" and k = pid and v = p and d = "gv_proposals g"]
  by (auto simp: live_count_def save_proposal_def)

lemma new_proposal_live: "gp_rule_type (new_proposal x now time rule text) = rule \<and> proposal_live (new_proposal x now time rule text)"
  by (simp add: new_proposal_def proposal_live_def)

text \<open>Calibration never proposes a rule twice. If every rule type has at most one proposal that is open or
accepted, that stays so; a proposal it returns is stored, is open, is the only live one of its type
and had no live predecessor; and when it returns none or fails, nothing is changed.\<close>

theorem calibration_keeps_one_live:
  assumes "\<forall>rule. live_count g rule \<le> 1"
    and "check_and_trigger_calibration loads over now time g = (g', r)"
  shows "(\<forall>rule. live_count g' rule \<le> 1)
    \<and> (case r of
         Inr (Some p) \<Rightarrow> live_count g (gp_rule_type p) = 0 \<and> live_count g' (gp_rule_type p) = 1 \<and> gp_status p = ''proposed''
           \<and> gp_payload p = sha256 (gp_rule_text p) \<and> dict_get (gv_proposals g') (gp_id p) = Some p \<and> gv_ledger g' = gv_ledger g
       | _ \<Rightarrow> g' = g)"
proof (cases "\<exists>p. r = Inr (Some p)")
  case False
  then have "g' = g" using assms(2)
    by (auto simp: check_and_trigger_calibration_def Let_def split: sum.splits if_splits)
  with False assms(1) show ?thesis by (auto split: sum.split option.split)
next
  case True
  then obtain p where r: "r = Inr (Some p)" by blast
  then obtain x rule tx where p: "p = new_proposal x now time rule tx" "\<not> has_live g rule" "g' = save_proposal g (gp_id p) p"
    using assms(2) by (auto simp: check_and_trigger_calibration_def Let_def split: sum.splits if_splits)
  have none: "live_count g rule = 0" using p(2) by (simp add: has_live_count)
  note live = new_proposal_live [of x now time rule tx, folded p(1)]
  note put = save_live_count [of p rule g "gp_id p", folded p(3)]
  have "live_count g' rule' \<le> 1" for rule'
    using put [of rule'] live assms(1) none by (cases "rule' = rule") (auto intro: order_trans)
  moreover have "live_count g' rule = 1"
    using put [of rule] live none by simp
  ultimately show ?thesis
    using live none r p by (simp add: new_proposal_def save_proposal_def)
qed

definition slow_log :: governance where
  "slow_log = \<lparr>gv_proposals = [], gv_poc = fresh_poc,
     gv_ledger = fst (record_event empty_ledger ''t'' ''safety_exception'' (JObj []) default_tenant), gv_registry = []\<rparr>"

lemma calibration_keeps_one_live_witness:
  "\<exists>g' p. check_and_trigger_calibration (\<lambda>_. None) (\<lambda>_. None) 7 ''t'' slow_log = (g', Inr (Some p))
     \<and> live_count slow_log (gp_rule_type p) = 0 \<and> live_count g' (gp_rule_type p) = 1"
proof -
  obtain g' p where c: "check_and_trigger_calibration (\<lambda>_. None) (\<lambda>_. None) 7 ''t'' slow_log = (g', Inr (Some p))"
    by (simp add: check_and_trigger_calibration_def slow_log_def record_event_def Let_def empty_ledger_def get_logs_def log_latency_def
        res_bind_def safety_anomaly_def has_live_def dict_values_def)
  have "\<forall>rule. live_count slow_log rule \<le> 1" by (simp add: live_count_def slow_log_def dict_values_def)
  from calibration_keeps_one_live [OF this c] c show ?thesis by auto
qed

end
