(* ===== verification/Scope_Paths.thy ===== *)
theory Scope_Paths
  imports Product_Contracts
begin

text \<open>
  The path strings of task scopes: how \<open>str.strip\<close> and the normalization
  \<open>p.replace("\\", "/").strip().lstrip("/")\<close> repeated through core/task_environment.py and
  core/agent_executor.py treat them, the protected patterns of core/repository.py and the role
  restrictions of core/policy_gate.py. Paths are POSIX paths.
\<close>

definition py_space :: "char \<Rightarrow> bool" where
  "py_space c = (let n = (of_char c :: nat) in (9 \<le> n \<and> n \<le> 13) \<or> (28 \<le> n \<and> n \<le> 32) \<or> n = 133 \<or> n = 160)"

definition py_strip :: "string \<Rightarrow> string" where
  "py_strip s = rev (dropWhile py_space (rev (dropWhile py_space s)))"

definition clean_path :: "string \<Rightarrow> string" where
  "clean_path s = dropWhile (\<lambda>c. c = CHR ''/'') (py_strip (replace_char (CHR 0x5C) (CHR ''/'') s))"

text \<open>\<open>Path(p).name\<close> is the last component, the empty string when there is none.\<close>

definition path_name :: "string \<Rightarrow> string" where
  "path_name p = (case rev (filter (\<lambda>c. c \<noteq> [] \<and> c \<noteq> ''.'') (split_on (CHR ''/'') p)) of [] \<Rightarrow> [] | c # cs \<Rightarrow> c)"

definition default_protected_patterns :: "string list" where
  "default_protected_patterns =
     [''.env*'', ''.git/'', ''.git'', ''.github/workflows/'', ''id_rsa*'', ''*.pem'', ''*.key'',
      ''credentials.json'', ''secrets.yaml'']"


section \<open>Role restrictions\<close>

record role_rule =
  ro_read_only :: bool
  ro_forbidden :: "string list"
  ro_description :: string

definition read_only_role :: "string \<Rightarrow> role_rule" where
  "read_only_role d = \<lparr>ro_read_only = True, ro_forbidden = [], ro_description = d\<rparr>"

definition bounded_role :: "string list \<Rightarrow> string \<Rightarrow> role_rule" where
  "bounded_role ps d = \<lparr>ro_read_only = False, ro_forbidden = ps, ro_description = d\<rparr>"

definition role_scope_restrictions :: "(string, role_rule) dict" where
  "role_scope_restrictions =
     [(''UI_UX_AGENT'', bounded_role [''agent_workspace/'', ''spec/'', ''migrations/'']
         ''UI_UX_AGENT is strictly prohibited from modifying backend or spec files''),
      (''BACKEND_INFRA_AGENT'', bounded_role [''viewer/'']
         ''BACKEND_INFRA_AGENT is strictly prohibited from modifying presentation UI files''),
      (''DOMAIN_LOGIC_AGENT'', bounded_role [''viewer/'']
         ''DOMAIN_LOGIC_AGENT must remain framework-agnostic and cannot touch presentation UI''),
      (''SECURITY_AUDIT_AGENT'', read_only_role
         ''SECURITY_AUDIT_AGENT is a read-only review authority''),
      (''ARCHITECT_PLANNER_AGENT'', read_only_role
         ''ARCHITECT_PLANNER_AGENT is an advisory specialist and cannot mutate code directly''),
      (''QA_TEST_AGENT'', read_only_role
         ''QA_TEST_AGENT is a verification authority and cannot mutate production code''),
      (''PERFORMANCE_LATENCY_AGENT'', read_only_role
         ''PERFORMANCE_LATENCY_AGENT is a benchmarking authority and cannot mutate code''),
      (''APPLICATION_FLOW_AGENT'', bounded_role [''viewer/'', ''migrations/'']
         ''APPLICATION_FLOW_AGENT manages workflows and cannot mutate presentation UI or migrations''),
      (''INTEGRATION_MERGE_AGENT'', bounded_role []
         ''INTEGRATION_MERGE_AGENT handles PR and branch integration''),
      (''KNOWLEDGE_TOPOLOGY_AGENT'', bounded_role [''agent_workspace/core/'', ''viewer/'']
         ''KNOWLEDGE_TOPOLOGY_AGENT maintains documentation and topology notes'')]"

text \<open>\<open>ROLE_SCOPE_RESTRICTIONS.get(role, {})\<close>: an unknown role has no restriction.\<close>

definition role_rule_of :: "string \<Rightarrow> role_rule" where
  "role_rule_of role = dict_get_default role_scope_restrictions role (bounded_role [] [])"


text \<open>A resolver for the examples: lexical, without symbolic links.\<close>

definition plain_resolve :: "string \<Rightarrow> string list option" where
  "plain_resolve p = Some (''/'' # rev (resolve_from [] (split_on (CHR ''/'') p)))"


section \<open>Facts about prefixes\<close>

lemma starts_with_refl [simp]: "starts_with p p"
  by (simp add: starts_with_def)

lemma starts_with_Nil [simp]: "starts_with [] s"
  by (simp add: starts_with_def)

lemma starts_with_trans: "starts_with p q \<Longrightarrow> starts_with q s \<Longrightarrow> starts_with p s"
  by (auto simp: starts_with_iff)

lemma starts_with_comparable: "starts_with p s \<Longrightarrow> starts_with q s \<Longrightarrow> starts_with p q \<or> starts_with q p"
  unfolding starts_with_iff by (metis append_eq_append_conv2)

lemma ends_with_iff: "ends_with p s \<longleftrightarrow> (\<exists>t. s = t @ p)"
proof
  assume "ends_with p s"
  then have "s = take (length s - length p) s @ p"
    unfolding ends_with_def by (metis append_take_drop_id)
  then show "\<exists>t. s = t @ p" by blast
qed (auto simp: ends_with_def)

lemma ends_with_append [simp]: "ends_with p (t @ p)"
  by (auto simp: ends_with_iff)

lemma clean_path_no_slash: "clean_path s = [] \<or> hd (clean_path s) \<noteq> CHR ''/''"
  using hd_dropWhile [of "\<lambda>c. c = CHR ''/''"] by (auto simp: clean_path_def dropWhile_eq_Nil_conv)

end
