(* ===== verification/Task_Graph.thy ===== *)
theory Task_Graph
  imports Scope_Paths
begin

text \<open>
  The task graph of core/task_environment.py: tasks with their dependencies, the depth-first search for
  cycles, the scheduling states, and the test that tasks running in parallel do not share files.

  The nested function \<open>dfs\<close> is \<open>dfs_visit\<close>, over the list of dependencies still to be visited. Its
  \<open>visited\<close> dictionary and its path are arguments: the path is popped where the call returns. A missing
  \<open>task_id\<close> in the dictionary of tasks is a \<open>KeyError\<close>.
\<close>

section \<open>Tasks\<close>

datatype task_status = Task_Pending | Task_Ready | Task_In_Progress | Task_Completed | Task_Failed | Task_Blocked

record capability =
  cr_role :: string
  cr_tools :: "string list"
  cr_max_turns :: int
  cr_budget :: int
  cr_read_only :: bool
  cr_forbidden :: "string list"

definition minimal_governed_tools :: "string list" where
  "minimal_governed_tools = [''filesystem.read'', ''filesystem.write'', ''shell.exec'', ''git.diff'']"

definition make_capability :: "capability \<Rightarrow> contract_error + capability" where
  "make_capability c = guarded
     [(cr_max_turns c < 1 \<or> cr_max_turns c > 5, Bad_Field ''max_turns''),
      (cr_budget c < 512 \<or> cr_budget c > 32768, Bad_Field ''context_budget_tokens'')] c"

record task_node =
  tk_id :: string
  tk_title :: string
  tk_intent :: string
  tk_role :: string
  tk_scope :: "string list"
  tk_criteria :: "string list"
  tk_deps :: "string list"
  tk_capability :: "capability option"
  tk_status :: task_status
  tk_summary :: "string option"
  tk_created :: string

record task_graph =
  tg_id :: string
  tg_description :: string
  tg_tasks :: "(string, task_node) dict"

datatype graph_error =
    Duplicate_Task string
  | Unknown_Task string
  | Cyclic_Dependency "string list"


section \<open>The search for cycles\<close>

definition known :: "(string, task_node) dict \<Rightarrow> string \<Rightarrow> bool" where
  "known tasks n = (dict_get tasks n \<noteq> None)"

definition deps_of :: "(string, task_node) dict \<Rightarrow> string \<Rightarrow> string list" where
  "deps_of tasks n = (case dict_get tasks n of None \<Rightarrow> [] | Some t \<Rightarrow> tk_deps t)"

definition visit_state :: "(string, nat) dict \<Rightarrow> string \<Rightarrow> nat" where
  "visit_state vis n = dict_get_default vis n 0"

definition cycle_at :: "string list \<Rightarrow> string \<Rightarrow> string list" where
  "cycle_at path d = dropWhile (\<lambda>x. x \<noteq> d) path @ [d]"

function dfs_visit ::
    "(string, task_node) dict \<Rightarrow> (string, nat) dict \<Rightarrow> string list \<Rightarrow> string list
       \<Rightarrow> graph_error + (string, nat) dict" where
  "dfs_visit tasks vis path [] = Inr vis"
| "dfs_visit tasks vis path (d # ds) =
     (if \<not> known tasks d then dfs_visit tasks vis path ds
      else if visit_state vis d = 1 then Inl (Cyclic_Dependency (cycle_at path d))
      else if visit_state vis d = 0
      then (case dfs_visit tasks (dict_put d 1 vis) (path @ [d]) (deps_of tasks d) of
              Inl e \<Rightarrow> Inl e
            | Inr vis1 \<Rightarrow> dfs_visit tasks (dict_put d 2 vis1) path ds)
      else dfs_visit tasks vis path ds)"
  by pat_completeness auto

definition unvisited :: "(string, task_node) dict \<Rightarrow> (string, nat) dict \<Rightarrow> string set" where
  "unvisited tasks vis = {n. known tasks n \<and> visit_state vis n = 0}"

lemma finite_known [simp]: "finite {n. known tasks n}"
  by (rule finite_subset [of _ "fst ` set tasks"]) (auto simp: known_def dict_get_None)

lemma finite_unvisited [simp]: "finite (unvisited tasks vis)"
  by (rule finite_subset [OF _ finite_known [of tasks]]) (auto simp: unvisited_def)

lemma visit_state_put [simp]: "visit_state (dict_put d k vis) n = (if n = d then k else visit_state vis n)"
  by (simp add: visit_state_def dict_get_default_def)

lemma dfs_visit_grows:
  "dfs_visit_dom (tasks, vis, path, ds) \<Longrightarrow> dfs_visit tasks vis path ds = Inr vis1 \<Longrightarrow>
     visit_state vis n \<noteq> 0 \<Longrightarrow> visit_state vis1 n \<noteq> 0"
proof (induction tasks vis path ds arbitrary: vis1 rule: dfs_visit.pinduct)
  case (1 tasks vis path)
  then show ?case by (simp add: dfs_visit.psimps)
next
  case (2 tasks vis path d ds)
  show ?case
  proof (cases "known tasks d \<and> visit_state vis d = 0")
    case True
    with 2(1,6) obtain v where v: "dfs_visit tasks (dict_put d 1 vis) (path @ [d]) (deps_of tasks d) = Inr v"
      "dfs_visit tasks (dict_put d 2 v) path ds = Inr vis1"
      by (auto simp: dfs_visit.psimps split: sum.splits)
    have "visit_state v n \<noteq> 0" using 2(3) [OF _ _ _ v(1)] True 2(7) by auto
    then show ?thesis using 2(4) [OF _ _ _ v(1) v(2)] True by auto
  next
    case False
    then show ?thesis using 2 by (auto simp: dfs_visit.psimps split: if_splits)
  qed
qed

termination dfs_visit
proof (relation "measures [\<lambda>(tasks, vis, path, ds). card (unvisited tasks vis), \<lambda>(tasks, vis, path, ds). length ds]", goal_cases)
  case (4 tasks vis path d ds vis1)
  have grow: "visit_state vis n = 0" if "visit_state vis1 n = 0" for n
  proof (rule ccontr)
    assume "visit_state vis n \<noteq> 0"
    then have "visit_state (dict_put d 1 vis) n \<noteq> 0" by simp
    from dfs_visit_grows [OF 4(5,4) this] that show False by simp
  qed
  have "unvisited tasks (dict_put d 2 vis1) \<subseteq> unvisited tasks vis" "d \<in> unvisited tasks vis"
    "d \<notin> unvisited tasks (dict_put d 2 vis1)"
    using 4(1,3) grow by (auto simp: unvisited_def)
  then have "card (unvisited tasks (dict_put d 2 vis1)) < card (unvisited tasks vis)"
    by (intro psubset_card_mono) auto
  then show ?case by simp
next
  case (3 tasks vis path d ds)
  then have "unvisited tasks (dict_put d 1 vis) \<subseteq> unvisited tasks vis" "d \<in> unvisited tasks vis"
    "d \<notin> unvisited tasks (dict_put d 1 vis)"
    by (auto simp: unvisited_def)
  then have "card (unvisited tasks (dict_put d 1 vis)) < card (unvisited tasks vis)"
    by (intro psubset_card_mono) auto
  then show ?case by simp
qed simp_all

text \<open>The outer loop starts a search at every task not visited yet.\<close>

fun detect_from :: "(string, task_node) dict \<Rightarrow> (string, nat) dict \<Rightarrow> string list \<Rightarrow> graph_error + (string, nat) dict" where
  "detect_from tasks vis [] = Inr vis"
| "detect_from tasks vis (n # ns) =
     (if visit_state vis n = 0
      then (case dfs_visit tasks (dict_put n 1 vis) [n] (deps_of tasks n) of
              Inl e \<Rightarrow> Inl e
            | Inr vis1 \<Rightarrow> detect_from tasks (dict_put n 2 vis1) ns)
      else detect_from tasks vis ns)"

definition detect_cycles :: "task_graph \<Rightarrow> graph_error option" where
  "detect_cycles g =
     (case detect_from (tg_tasks g) [] (dict_keys (tg_tasks g)) of Inl e \<Rightarrow> Some e | Inr vis \<Rightarrow> None)"


section \<open>Operations of the graph\<close>

text \<open>A task that closes a cycle stays in the graph when the error is raised.\<close>

definition add_task :: "task_graph \<Rightarrow> task_node \<Rightarrow> task_graph \<times> graph_error option" where
  "add_task g t =
     (if known (tg_tasks g) (tk_id t) then (g, Some (Duplicate_Task (tk_id t)))
      else (let g1 = g\<lparr>tg_tasks := dict_put (tk_id t) t (tg_tasks g)\<rparr> in (g1, detect_cycles g1)))"

definition get_task :: "task_graph \<Rightarrow> string \<Rightarrow> graph_error + task_node" where
  "get_task g n = (case dict_get (tg_tasks g) n of None \<Rightarrow> Inl (Unknown_Task n) | Some t \<Rightarrow> Inr t)"

definition deps_completed :: "(string, task_node) dict \<Rightarrow> task_node \<Rightarrow> bool" where
  "deps_completed tasks t =
     list_all (\<lambda>d. case dict_get tasks d of None \<Rightarrow> False | Some t' \<Rightarrow> tk_status t' = Task_Completed) (tk_deps t)"

definition is_ready :: "(string, task_node) dict \<Rightarrow> task_node \<Rightarrow> bool" where
  "is_ready tasks t = ((tk_status t = Task_Pending \<or> tk_status t = Task_Ready) \<and> deps_completed tasks t)"

text \<open>The tasks returned are the objects of the graph: they are set to READY in place. Setting one does
not change which others are ready.\<close>

definition mark_ready :: "(string, task_node) dict \<Rightarrow> task_node \<Rightarrow> task_node" where
  "mark_ready tasks t = (if is_ready tasks t then t\<lparr>tk_status := Task_Ready\<rparr> else t)"

definition get_ready_tasks :: "task_graph \<Rightarrow> task_graph \<times> task_node list" where
  "get_ready_tasks g =
     (let tasks = tg_tasks g
      in (g\<lparr>tg_tasks := map (\<lambda>(n, t). (n, mark_ready tasks t)) tasks\<rparr>,
          map (mark_ready tasks) (filter (is_ready tasks) (dict_values tasks))))"

definition mark_completed :: "task_graph \<Rightarrow> string \<Rightarrow> string \<Rightarrow> task_graph \<times> graph_error option" where
  "mark_completed g n summary =
     (case get_task g n of
        Inl e \<Rightarrow> (g, Some e)
      | Inr t \<Rightarrow>
          (g\<lparr>tg_tasks := dict_put n (t\<lparr>tk_status := Task_Completed, tk_summary := Some summary\<rparr>) (tg_tasks g)\<rparr>, None))"

definition block_dependent :: "string \<Rightarrow> task_node \<Rightarrow> task_node" where
  "block_dependent n t =
     (if n \<in> set (tk_deps t) \<and> (tk_status t = Task_Pending \<or> tk_status t = Task_Ready)
      then t\<lparr>tk_status := Task_Blocked, tk_summary := Some (''Blocked by failed dependency '' @ [CHR 0x27] @ n @ [CHR 0x27])\<rparr>
      else t)"

definition mark_failed :: "task_graph \<Rightarrow> string \<Rightarrow> string \<Rightarrow> task_graph \<times> graph_error option" where
  "mark_failed g n reason =
     (case get_task g n of
        Inl e \<Rightarrow> (g, Some e)
      | Inr t \<Rightarrow>
          (g\<lparr>tg_tasks := map (\<lambda>(k, u). (k, block_dependent n u))
               (dict_put n (t\<lparr>tk_status := Task_Failed, tk_summary := Some reason\<rparr>) (tg_tasks g))\<rparr>, None))"


section \<open>Overlapping scopes\<close>

definition as_dir :: "string \<Rightarrow> string" where
  "as_dir p = (if ends_with ''/'' p then p else p @ ''/'')"

definition paths_collide :: "string \<Rightarrow> string \<Rightarrow> bool" where
  "paths_collide a b = (a = b \<or> starts_with (as_dir a) b \<or> starts_with (as_dir b) a)"

definition scopes_collide :: "string list \<Rightarrow> string list \<Rightarrow> bool" where
  "scopes_collide xs ys = list_ex (\<lambda>a. list_ex (paths_collide a) ys) xs"

fun collect_scopes :: "task_graph \<Rightarrow> (string, string list) dict \<Rightarrow> string list \<Rightarrow> graph_error + (string, string list) dict" where
  "collect_scopes g acc [] = Inr acc"
| "collect_scopes g acc (n # ns) =
     (case get_task g n of
        Inl e \<Rightarrow> Inl e
      | Inr t \<Rightarrow> collect_scopes g (dict_put n (map clean_path (tk_scope t)) acc) ns)"

fun first_collision :: "(string \<times> string list) list \<Rightarrow> (string \<times> string) option" where
  "first_collision [] = None"
| "first_collision ((n, xs) # rest) =
     (case find (\<lambda>(m, ys). scopes_collide xs ys) rest of
        Some (m, ys) \<Rightarrow> Some (n, m)
      | None \<Rightarrow> first_collision rest)"

text \<open>The pair of colliding tasks stands for the message that names them.\<close>

definition validate_no_overlapping_scopes :: "task_graph \<Rightarrow> string list \<Rightarrow> graph_error + (string \<times> string) option" where
  "validate_no_overlapping_scopes g ns =
     (case collect_scopes g [] ns of Inl e \<Rightarrow> Inl e | Inr scopes \<Rightarrow> Inr (first_collision scopes))"

end
