(* ===== verification/Graph_Search.thy ===== *)
theory Graph_Search
  imports Prelude
begin

text \<open>
  Cycles of relations, for the depth-first searches of the task graph and of the workflow validation.
\<close>

lemma successively_trancl:
  "successively (\<lambda>a b. (a, b) \<in> R) (x # y # xs) \<Longrightarrow> (x, last (y # xs)) \<in> R\<^sup>+"
  by (induction xs arbitrary: x y) (auto intro: trancl_into_trancl2 r_into_trancl)

lemma acyclic_insert_top:
  assumes "E `` B \<subseteq> B" "acyclic (Restr E B)" "d \<notin> B" "E `` {d} \<subseteq> B"
  shows "acyclic (Restr E (insert d B))"
  unfolding acyclic_def
proof
  fix x
  let ?R = "Restr E (insert d B)"
  have stay: "(a, b) \<in> ?R\<^sup>+ \<Longrightarrow> a \<in> B \<Longrightarrow> b \<in> B \<and> (a, b) \<in> (Restr E B)\<^sup>+" for a b
  proof (induction rule: trancl_induct)
    case (base y)
    then show ?case using assms(1) by auto
  next
    case (step y z)
    then have "z \<in> B" using assms(1) by auto
    with step show ?case by (auto intro: trancl_into_trancl)
  qed
  show "(x, x) \<notin> ?R\<^sup>+"
  proof
    assume x: "(x, x) \<in> ?R\<^sup>+"
    show False
    proof (cases "x \<in> B")
      case True
      with stay [OF x] assms(2) show False by (auto simp: acyclic_def)
    next
      case False
      from x obtain y where y: "(x, y) \<in> ?R" "y = x \<or> (y, x) \<in> ?R\<^sup>+"
        by (metis converse_tranclE)
      with False have "y \<in> B" using assms(4) by auto
      with y(2) stay False show False by blast
    qed
  qed
qed

text \<open>A cycle only meets elements that have a successor.\<close>

lemma acyclic_domain:
  assumes "acyclic E" "\<And>a b. (a, b) \<in> R \<Longrightarrow> b \<in> Domain R \<Longrightarrow> (a, b) \<in> E"
  shows "acyclic R"
  unfolding acyclic_def
proof
  fix x
  have stay: "(x, y) \<in> R\<^sup>+ \<Longrightarrow> y \<in> Domain R \<Longrightarrow> (x, y) \<in> E\<^sup>+" for y
  proof (induction rule: trancl_induct)
    case (base y)
    from assms(2) [OF base] show ?case by (rule r_into_trancl)
  next
    case (step y z)
    then have "y \<in> Domain R" "(y, z) \<in> E" using assms(2) by blast+
    with step.IH show ?case by (blast intro: trancl_into_trancl)
  qed
  show "(x, x) \<notin> R\<^sup>+"
  proof
    assume x: "(x, x) \<in> R\<^sup>+"
    then have "x \<in> Domain R" by (blast dest: tranclD)
    from stay [OF x this] assms(1) show False by (simp add: acyclic_def)
  qed
qed

end
