(* ===== verification/Task_Properties.thy ===== *)
theory Task_Properties
  imports Task_Graph Graph_Search
begin

text \<open>
  Properties of the task graph: the search for cycles is exact and total, scheduling makes progress and
  respects the dependencies, and what failing tasks and the overlap test do.
\<close>

section \<open>Cycles\<close>

definition dep_edges :: "(string, task_node) dict \<Rightarrow> (string \<times> string) set" where
  "dep_edges tasks = {(a, b). known tasks a \<and> known tasks b \<and> b \<in> set (deps_of tasks a)}"

definition dep_cycle :: "(string, task_node) dict \<Rightarrow> string list \<Rightarrow> bool" where
  "dep_cycle tasks c = (length c \<ge> 2 \<and> hd c = last c \<and> successively (\<lambda>a b. (a, b) \<in> dep_edges tasks) c)"

lemma dep_cycle_not_acyclic: "dep_cycle tasks c \<Longrightarrow> \<not> acyclic (dep_edges tasks)"
proof -
  assume c: "dep_cycle tasks c"
  then obtain x y xs where xs: "c = x # y # xs"
    by (cases c; cases "tl c") (auto simp: dep_cycle_def)
  with c have "(x, last (y # xs)) \<in> (dep_edges tasks)\<^sup>+" "x = last (y # xs)"
    using successively_trancl [of "dep_edges tasks" x y xs] by (auto simp: dep_cycle_def)
  then show ?thesis by (auto simp: acyclic_def)
qed

definition black :: "(string, nat) dict \<Rightarrow> string set" where
  "black vis = {n. visit_state vis n \<noteq> 0 \<and> visit_state vis n \<noteq> 1}"

definition gray :: "(string, nat) dict \<Rightarrow> string set" where
  "gray vis = {n. visit_state vis n = 1}"

lemma black_gray_put:
  "black (dict_put d 1 vis) = black vis - {d}" "black (dict_put d 2 vis) = insert d (black vis)"
  "gray (dict_put d 1 vis) = insert d (gray vis)" "gray (dict_put d 2 vis) = gray vis - {d}"
  by (auto simp: black_def gray_def)

text \<open>The invariant of the search: the grey tasks are those on the path, and the black ones are closed
under dependencies and free of cycles.\<close>

definition search_inv :: "(string, task_node) dict \<Rightarrow> (string, nat) dict \<Rightarrow> string list \<Rightarrow> bool" where
  "search_inv tasks vis path \<longleftrightarrow> gray vis = set path \<and> dep_edges tasks `` black vis \<subseteq> black vis
     \<and> acyclic (Restr (dep_edges tasks) (black vis))"

lemma white_notin:
  assumes "search_inv tasks vis path" "visit_state vis d = 0"
  shows "d \<notin> black vis" "d \<notin> set path"
proof -
  have "d \<in> set path \<longleftrightarrow> d \<in> gray vis" using assms(1) by (simp add: search_inv_def)
  with assms(2) show "d \<notin> black vis" "d \<notin> set path" by (simp_all add: black_def gray_def)
qed

lemma search_enter:
  assumes "search_inv tasks vis path" "visit_state vis d = 0"
  shows "search_inv tasks (dict_put d 1 vis) (path @ [d])"
  using assms(1) white_notin [OF assms] unfolding search_inv_def black_gray_put by simp

lemma search_leave:
  assumes "search_inv tasks v (path @ [d])" "d \<notin> set path" "{x \<in> set (deps_of tasks d). known tasks x} \<subseteq> black v"
  shows "search_inv tasks (dict_put d 2 v) path"
proof -
  have g: "gray v = insert d (set path)" using assms(1) by (simp add: search_inv_def)
  then have "d \<in> gray v" by simp
  then have "d \<notin> black v" by (simp add: gray_def black_def)
  moreover have "dep_edges tasks `` {d} \<subseteq> black v" using assms(3) by (auto simp: dep_edges_def)
  ultimately show ?thesis
    using assms(1,2) g acyclic_insert_top [of "dep_edges tasks" "black v" d]
    unfolding search_inv_def black_gray_put by auto
qed

lemma dfs_visit_inv:
  "dfs_visit tasks vis path ds = Inr vis1 \<Longrightarrow> search_inv tasks vis path \<Longrightarrow>
     search_inv tasks vis1 path \<and> black vis \<subseteq> black vis1 \<and> {d \<in> set ds. known tasks d} \<subseteq> black vis1"
proof (induction tasks vis path ds arbitrary: vis1 rule: dfs_visit.induct)
  case (2 tasks vis path d ds)
  show ?case
  proof (cases "known tasks d \<and> visit_state vis d = 0")
    case True
    with 2(5) obtain v where v: "dfs_visit tasks (dict_put d 1 vis) (path @ [d]) (deps_of tasks d) = Inr v"
      "dfs_visit tasks (dict_put d 2 v) path ds = Inr vis1"
      by (auto split: sum.splits)
    note d = white_notin [OF 2(6) conjunct2 [OF True]]
    from search_enter [OF 2(6) conjunct2 [OF True]] have w: "search_inv tasks v (path @ [d])" "black vis \<subseteq> black v" "{x \<in> set (deps_of tasks d). known tasks x} \<subseteq> black v"
      using 2(2) [OF _ _ _ v(1)] True d by (auto simp: black_gray_put simp del: One_nat_def)
    from 2(3) [OF _ _ _ v(1) v(2) search_leave [OF w(1) d(2) w(3)]] True w(2) show ?thesis by (auto simp: black_gray_put)
  next
    case False
    then show ?thesis using 2 by (auto simp: black_def split: if_splits)
  qed
qed simp

lemma cycle_at_cycle:
  assumes "successively (\<lambda>a b. (a, b) \<in> dep_edges tasks) path" "d \<in> set path" "(last path, d) \<in> dep_edges tasks"
  shows "dep_cycle tasks (cycle_at path d)"
proof -
  obtain s where s: "dropWhile (\<lambda>x. x \<noteq> d) path = d # s"
    using assms(2) by (metis (mono_tags, lifting) dropWhile_eq_Nil_conv hd_dropWhile list.collapse)
  have p: "path = takeWhile (\<lambda>x. x \<noteq> d) path @ d # s" using s by (metis takeWhile_dropWhile_id)
  then have "successively (\<lambda>a b. (a, b) \<in> dep_edges tasks) (d # s)" "last path = last (d # s)"
    using assms(1) by (metis successively_append_iff) (metis p last_appendR list.distinct(1))
  with assms(3) s show ?thesis
    using successively_append_iff [of "\<lambda>a b. (a, b) \<in> dep_edges tasks" "d # s" "[d]"]
    by (simp add: dep_cycle_def cycle_at_def)
qed

lemma dfs_visit_cycle:
  "dfs_visit tasks vis path ds = Inl e \<Longrightarrow> search_inv tasks vis path \<Longrightarrow> path \<noteq> [] \<Longrightarrow>
     successively (\<lambda>a b. (a, b) \<in> dep_edges tasks) path \<Longrightarrow> known tasks (last path) \<Longrightarrow> set ds \<subseteq> set (deps_of tasks (last path)) \<Longrightarrow>
     \<exists>c. e = Cyclic_Dependency c \<and> dep_cycle tasks c"
proof (induction tasks vis path ds rule: dfs_visit.induct)
  case (2 tasks vis path d ds)
  have edge: "(last path, d) \<in> dep_edges tasks" if "known tasks d"
    using that 2(9,10) by (simp add: dep_edges_def)
  consider (none) "\<not> known tasks d" | (grey) "known tasks d" "visit_state vis d = 1"
    | (white) "known tasks d" "visit_state vis d = 0" | (other) "known tasks d" "visit_state vis d \<noteq> 0" "visit_state vis d \<noteq> 1"
    by blast
  then show ?case
  proof cases
    case grey
    have "d \<in> set path" using 2(6) grey(2) unfolding search_inv_def by (metis (mono_tags) gray_def mem_Collect_eq)
    with grey 2(5) cycle_at_cycle [OF 2(8)] edge show ?thesis by auto
  next
    case white
    note d = white_notin [OF 2(6) white(2)] and i = search_enter [OF 2(6) white(2)]
    have s: "successively (\<lambda>a b. (a, b) \<in> dep_edges tasks) (path @ [d])"
      using 2(7,8) edge white by (simp add: successively_append_iff)
    show ?thesis
    proof (cases "dfs_visit tasks (dict_put d 1 vis) (path @ [d]) (deps_of tasks d)")
      case (Inl e')
      then have e: "dfs_visit tasks (dict_put d 1 vis) (path @ [d]) (deps_of tasks d) = Inl e" using white 2(5) by simp
      from 2(2) [OF _ _ _ e i _ s] white show ?thesis by simp
    next
      case (Inr v)
      have w: "search_inv tasks v (path @ [d])" "{x \<in> set (deps_of tasks d). known tasks x} \<subseteq> black v"
        using dfs_visit_inv [OF Inr i] by auto
      from 2(3) [OF _ _ _ Inr _ search_leave [OF w(1) d(2) w(2)]] white 2(5,7-10) Inr show ?thesis by simp
    qed
  qed (use 2 in auto)
qed simp


lemma detect_from_spec:
  "search_inv tasks vis [] \<Longrightarrow> {n. known tasks n} \<subseteq> set ns \<union> black vis \<Longrightarrow> list_all (known tasks) ns \<Longrightarrow>
     (case detect_from tasks vis ns of
        Inl e \<Rightarrow> \<exists>c. e = Cyclic_Dependency c \<and> dep_cycle tasks c
      | Inr vis1 \<Rightarrow> acyclic (dep_edges tasks))"
proof (induction tasks vis ns rule: detect_from.induct)
  case (1 tasks vis)
  then have "dep_edges tasks = Restr (dep_edges tasks) (black vis)" by (auto simp: dep_edges_def)
  with 1 show ?case by (simp add: search_inv_def)
next
  case (2 tasks vis n ns)
  show ?case
  proof (cases "visit_state vis n = 0")
    case True
    from search_enter [OF 2(3) True] have i: "search_inv tasks (dict_put n 1 vis) [n]" by simp
    show ?thesis
    proof (cases "dfs_visit tasks (dict_put n 1 vis) [n] (deps_of tasks n)")
      case (Inl e)
      then show ?thesis using dfs_visit_cycle [OF Inl i] True 2(5) by simp
    next
      case (Inr v)
      note w = dfs_visit_inv [OF Inr i]
      have "search_inv tasks (dict_put n 2 v) []" using w search_leave [of tasks v "[]" n] by simp
      moreover have "{m. known tasks m} \<subseteq> set ns \<union> black (dict_put n 2 v)"
        using 2(4) w white_notin [OF 2(3) True] unfolding black_gray_put by auto
      ultimately show ?thesis using 2(1) [OF True Inr] 2(5) True Inr by simp
    qed
  next
    case False
    have "gray vis = {}" using 2(3) by (simp add: search_inv_def)
    with False have "n \<in> black vis" by (auto simp: gray_def black_def)
    with False 2 show ?thesis by auto
  qed
qed

lemma known_keys: "known tasks n \<longleftrightarrow> n \<in> set (dict_keys tasks)"
  by (auto simp: known_def dict_get_None dict_keys_def)

lemma detect_cycles_exact_lemma:
  "case detect_cycles g of
     None \<Rightarrow> acyclic (dep_edges (tg_tasks g))
   | Some (Cyclic_Dependency c) \<Rightarrow> dep_cycle (tg_tasks g) c \<and> \<not> acyclic (dep_edges (tg_tasks g))
   | Some e \<Rightarrow> False"
proof -
  have "search_inv (tg_tasks g) [] []"
    by (simp add: search_inv_def gray_def black_def visit_state_def dict_get_default_def acyclic_def)
  moreover have "list_all (known (tg_tasks g)) (dict_keys (tg_tasks g))"
    by (auto simp: list_all_iff known_keys)
  ultimately show ?thesis
    using detect_from_spec [of "tg_tasks g" "[]" "dict_keys (tg_tasks g)"] dep_cycle_not_acyclic
    by (auto simp: detect_cycles_def known_keys split: sum.splits)
qed


text \<open>C11: The search for cycles is exact. It reports nothing exactly when the known dependencies are
acyclic, and what it reports is a cycle: a sequence of tasks of the graph, each depending on the next,
that returns to its start.\<close>

theorem detect_cycles_exact:
  "case detect_cycles g of
     None \<Rightarrow> acyclic (dep_edges (tg_tasks g))
   | Some (Cyclic_Dependency c) \<Rightarrow> dep_cycle (tg_tasks g) c \<and> \<not> acyclic (dep_edges (tg_tasks g))
   | Some e \<Rightarrow> False"
  by (rule detect_cycles_exact_lemma)

definition plain_task :: "string \<Rightarrow> string list \<Rightarrow> string list \<Rightarrow> task_node" where
  "plain_task n ds scope = \<lparr>tk_id = n, tk_title = n, tk_intent = n, tk_role = ''DOMAIN_LOGIC_AGENT'', tk_scope = scope,
     tk_criteria = [], tk_deps = ds, tk_capability = None, tk_status = Task_Pending, tk_summary = None, tk_created = ''t''\<rparr>"

definition graph_with :: "task_node list \<Rightarrow> task_graph" where
  "graph_with ts = \<lparr>tg_id = ''g'', tg_description = [], tg_tasks = map (\<lambda>t. (tk_id t, t)) ts\<rparr>"

lemma dep_edges_mono:
  assumes "\<And>n t. dict_get tasks n = Some t \<Longrightarrow> dict_get tasks' n = Some t"
  shows "dep_edges tasks \<subseteq> dep_edges tasks'"
  using assms unfolding dep_edges_def known_def deps_of_def by (fastforce split: option.splits)

lemma detect_cycles_None: "detect_cycles g = None \<longleftrightarrow> acyclic (dep_edges (tg_tasks g))"
  using detect_cycles_exact_lemma [of g] by (auto split: option.splits graph_error.splits)

text \<open>A task rejected for closing a cycle is not removed: it stays in the graph, and from then on every
task that could be added is reported as cyclic, whatever its own dependencies are.\<close>

theorem cyclic_task_poisons_graph:
  assumes "add_task g t = (g1, Some (Cyclic_Dependency c))"
    and "add_task g1 u = (g2, r)"
  shows "dict_get (tg_tasks g1) (tk_id t) = Some t
    \<and> (r = Some (Duplicate_Task (tk_id u)) \<or> (\<exists>c'. r = Some (Cyclic_Dependency c')) \<and> dict_get (tg_tasks g2) (tk_id u) = Some u)"
proof -
  have g1: "tg_tasks g1 = dict_put (tk_id t) t (tg_tasks g)" "detect_cycles g1 = Some (Cyclic_Dependency c)"
    using assms(1) by (auto simp: add_task_def Let_def split: if_splits)
  have "\<exists>c'. r = Some (Cyclic_Dependency c')" if new: "\<not> known (tg_tasks g1) (tk_id u)"
  proof -
    have g2: "tg_tasks g2 = dict_put (tk_id u) u (tg_tasks g1)" "detect_cycles g2 = r"
      using assms(2) new by (auto simp: add_task_def Let_def)
    have "dep_edges (tg_tasks g1) \<subseteq> dep_edges (tg_tasks g2)"
      using new by (intro dep_edges_mono) (auto simp: g2(1) known_def)
    moreover have "\<not> acyclic (dep_edges (tg_tasks g1))" using g1(2) detect_cycles_None [of g1] by simp
    ultimately have "detect_cycles g2 \<noteq> None" using detect_cycles_None [of g2] acyclic_subset by blast
    then show ?thesis
      using detect_cycles_exact_lemma [of g2] g2(2) by (auto split: option.splits graph_error.splits)
  qed
  then show ?thesis
    using g1(1) assms(2) by (auto simp: add_task_def Let_def split: if_splits)
qed

lemma cyclic_task_poisons_graph_witness:
  "\<exists>r. snd (add_task (graph_with [plain_task ''a'' [''a''] []]) (plain_task ''b'' [] [])) = r \<and> r \<noteq> None"
proof -
  have t: "add_task (graph_with []) (plain_task ''a'' [''a''] []) = (graph_with [plain_task ''a'' [''a''] []], Some (Cyclic_Dependency [''a'', ''a'']))"
    by (simp add: add_task_def graph_with_def known_def plain_task_def detect_cycles_def dict_keys_def visit_state_def dict_get_default_def
        deps_of_def dict_get_def cycle_at_def Let_def)
  obtain g2 r where u: "add_task (graph_with [plain_task ''a'' [''a''] []]) (plain_task ''b'' [] []) = (g2, r)" by fastforce
  from cyclic_task_poisons_graph [OF t u] u show ?thesis by auto
qed


section \<open>Scheduling\<close>

text \<open>The identifiers and dependencies of the tasks, which scheduling does not change.\<close>

definition frame :: "(string, task_node) dict \<Rightarrow> string \<Rightarrow> (string \<times> string list) option" where
  "frame tasks n = map_option (\<lambda>t. (tk_id t, tk_deps t)) (dict_get tasks n)"

lemma dict_get_map_values: "dict_get (map (\<lambda>(n, t). (n, f t)) d) n = map_option f (dict_get d n)"
  by (simp add: dict_get_def map_of_map)

lemma frame_known: "known tasks n \<longleftrightarrow> frame tasks n \<noteq> None"
  by (simp add: known_def frame_def)

lemma frame_deps: "deps_of tasks n = (case frame tasks n of None \<Rightarrow> [] | Some (i, ds) \<Rightarrow> ds)"
  by (simp add: deps_of_def frame_def split: option.splits)

lemma frame_edges: "frame tasks = frame tasks' \<Longrightarrow> dep_edges tasks = dep_edges tasks'"
  by (simp add: dep_edges_def frame_known frame_deps)

lemma node_frame [simp]:
  "tk_id (mark_ready tasks t) = tk_id t" "tk_deps (mark_ready tasks t) = tk_deps t"
  "tk_id (block_dependent n t) = tk_id t" "tk_deps (block_dependent n t) = tk_deps t"
  by (simp_all add: mark_ready_def block_dependent_def)

lemma get_ready_get:
  "dict_get (tg_tasks (fst (get_ready_tasks g))) n = map_option (mark_ready (tg_tasks g)) (dict_get (tg_tasks g) n)"
  by (simp add: get_ready_tasks_def Let_def dict_get_map_values)

lemma frame_get_ready: "frame (tg_tasks (fst (get_ready_tasks g))) = frame (tg_tasks g)"
  by (rule ext) (simp add: frame_def get_ready_get option.map_comp comp_def)

lemma mark_completed_get:
  "dict_get (tg_tasks (fst (mark_completed g n s))) m =
     (if m = n then map_option (\<lambda>t. t\<lparr>tk_status := Task_Completed, tk_summary := Some s\<rparr>) (dict_get (tg_tasks g) m)
      else dict_get (tg_tasks g) m)"
  by (simp add: mark_completed_def get_task_def split: option.splits)

lemma frame_mark_completed: "frame (tg_tasks (fst (mark_completed g n s))) = frame (tg_tasks g)"
  by (rule ext) (simp add: frame_def mark_completed_get option.map_comp comp_def)

lemma mark_failed_get:
  "dict_get (tg_tasks (fst (mark_failed g n s))) m =
     (if \<not> known (tg_tasks g) n then dict_get (tg_tasks g) m
      else if m = n then map_option (\<lambda>t. block_dependent n (t\<lparr>tk_status := Task_Failed, tk_summary := Some s\<rparr>)) (dict_get (tg_tasks g) m)
      else map_option (block_dependent n) (dict_get (tg_tasks g) m))"
  by (simp add: mark_failed_def get_task_def dict_get_map_values known_def split: option.splits)

lemma frame_mark_failed: "frame (tg_tasks (fst (mark_failed g n s))) = frame (tg_tasks g)"
  by (rule ext) (simp add: frame_def mark_failed_get option.map_comp comp_def)

text \<open>One round: the ready tasks are asked for and all of them are completed.\<close>

fun complete_all :: "task_graph \<Rightarrow> task_node list \<Rightarrow> task_graph" where
  "complete_all g [] = g"
| "complete_all g (t # ts) = complete_all (fst (mark_completed g (tk_id t) [])) ts"

definition complete_round :: "task_graph \<Rightarrow> task_graph" where
  "complete_round g = (case get_ready_tasks g of (g1, ts) \<Rightarrow> complete_all g1 ts)"

definition ids_ok :: "task_graph \<Rightarrow> bool" where
  "ids_ok g = (\<forall>n t. dict_get (tg_tasks g) n = Some t \<longrightarrow> tk_id t = n)"

definition runnable :: "task_graph \<Rightarrow> bool" where
  "runnable g = (\<forall>n t. dict_get (tg_tasks g) n = Some t \<longrightarrow>
     (tk_status t = Task_Pending \<or> tk_status t = Task_Ready \<or> tk_status t = Task_Completed)
     \<and> (\<forall>d \<in> set (tk_deps t). known (tg_tasks g) d))"

definition unfinished :: "task_graph \<Rightarrow> string set" where
  "unfinished g = {n. \<exists>t. dict_get (tg_tasks g) n = Some t \<and> tk_status t \<noteq> Task_Completed}"

lemma complete_all_get:
  "(\<exists>s. dict_get (tg_tasks (complete_all g ts)) n =
     (if n \<in> tk_id ` set ts then map_option (\<lambda>t. t\<lparr>tk_status := Task_Completed, tk_summary := s\<rparr>) (dict_get (tg_tasks g) n)
      else dict_get (tg_tasks g) n))"
proof (induction ts arbitrary: g)
  case (Cons t ts)
  from Cons [of "fst (mark_completed g (tk_id t) [])"] show ?case
    by (auto simp: mark_completed_get option.map_comp comp_def split: if_splits)
qed simp

lemma frame_complete_all: "frame (tg_tasks (complete_all g ts)) = frame (tg_tasks g)"
  by (induction ts arbitrary: g) (simp_all add: frame_mark_completed)

lemma frame_round: "frame (tg_tasks (complete_round g)) = frame (tg_tasks g)"
  by (simp add: complete_round_def frame_complete_all frame_get_ready split: prod.split)
    (metis fst_conv frame_get_ready)

lemma ready_names:
  assumes "ids_ok g" "dict_wf (tg_tasks g)"
  shows "n \<in> tk_id ` set (snd (get_ready_tasks g)) \<longleftrightarrow> (\<exists>t. dict_get (tg_tasks g) n = Some t \<and> is_ready (tg_tasks g) t)"
proof -
  have "t \<in> set (dict_values (tg_tasks g)) \<longleftrightarrow> (\<exists>m. dict_get (tg_tasks g) m = Some t)" for t
    by (force simp: dict_values_def dict_get_iff [OF assms(2)])
  then show ?thesis
    using assms(1) by (auto simp: get_ready_tasks_def Let_def ids_ok_def image_iff)
qed


lemma round_get:
  assumes "ids_ok g" "dict_wf (tg_tasks g)" "dict_get (tg_tasks g) n = Some t"
  shows "\<exists>t'. dict_get (tg_tasks (complete_round g)) n = Some t' \<and>
    (if is_ready (tg_tasks g) t then tk_status t' = Task_Completed else t' = t)"
proof -
  obtain g1 ts where r: "get_ready_tasks g = (g1, ts)" by fastforce
  have "n \<in> tk_id ` set ts \<longleftrightarrow> is_ready (tg_tasks g) t" using ready_names [OF assms(1,2), of n] assms(3) r by simp
  moreover have "dict_get (tg_tasks g1) n = Some (mark_ready (tg_tasks g) t)" using get_ready_get [of g n] assms(3) r by simp
  ultimately show ?thesis
    using complete_all_get [of g1 ts n] r by (auto simp: complete_round_def mark_ready_def split: if_splits)
qed

lemma round_invariant:
  assumes "ids_ok g" "dict_wf (tg_tasks g)" "runnable g"
  shows "ids_ok (complete_round g)" "runnable (complete_round g)"
proof -
  have old: "\<exists>t. dict_get (tg_tasks g) n = Some t \<and> tk_id t' = tk_id t \<and> tk_deps t' = tk_deps t \<and> (tk_status t' = Task_Completed \<or> t' = t)"
    if "dict_get (tg_tasks (complete_round g)) n = Some t'" for n t'
  proof -
    have "frame (tg_tasks g) n = Some (tk_id t', tk_deps t')" using that frame_round [of g] by (metis frame_def option.simps(9))
    then obtain t where t: "dict_get (tg_tasks g) n = Some t" "tk_id t' = tk_id t" "tk_deps t' = tk_deps t"
      by (auto simp: frame_def)
    with round_get [OF assms(1,2) t(1)] that show ?thesis by (auto split: if_splits)
  qed
  show "ids_ok (complete_round g)" using assms(1) old by (fastforce simp: ids_ok_def)
  have "known (tg_tasks (complete_round g)) = known (tg_tasks g)" by (rule ext) (simp add: frame_known frame_round)
  then show "runnable (complete_round g)"
    using assms(3) old unfolding runnable_def by (metis (no_types, lifting))
qed

lemma dict_keys_complete_all: "dict_wf (tg_tasks g) \<Longrightarrow> dict_wf (tg_tasks (complete_all g ts))"
  by (induction ts arbitrary: g) (simp_all add: mark_completed_def get_task_def split: option.splits)

lemma round_wf: "dict_wf (tg_tasks g) \<Longrightarrow> dict_wf (tg_tasks (complete_round g))"
  by (auto simp: complete_round_def get_ready_tasks_def Let_def dict_wf_def comp_def split_beta intro!: dict_keys_complete_all [unfolded dict_wf_def])

text \<open>Some unfinished task has only finished dependencies.\<close>

lemma ready_task_exists:
  assumes "detect_cycles g = None" "runnable g" "unfinished g \<noteq> {}"
  shows "\<exists>n t. dict_get (tg_tasks g) n = Some t \<and> n \<in> unfinished g \<and> is_ready (tg_tasks g) t"
proof -
  let ?E = "dep_edges (tg_tasks g)"
  have "finite ?E"
    by (rule finite_subset [of _ "{n. known (tg_tasks g) n} \<times> {n. known (tg_tasks g) n}"]) (auto simp: dep_edges_def)
  moreover have "acyclic ?E" using assms(1) detect_cycles_None by blast
  ultimately have "wf (?E\<inverse>)" by (rule finite_acyclic_wf_converse)
  then obtain n where n: "n \<in> unfinished g" "\<And>d. (n, d) \<in> ?E \<Longrightarrow> d \<notin> unfinished g"
    using assms(3) by (metis converse_iff wf_eq_minimal all_not_in_conv)
  then obtain t where t: "dict_get (tg_tasks g) n = Some t" "tk_status t \<noteq> Task_Completed"
    by (auto simp: unfinished_def)
  have "deps_completed (tg_tasks g) t"
    unfolding deps_completed_def list_all_iff
  proof
    fix d assume d: "d \<in> set (tk_deps t)"
    then have "known (tg_tasks g) d" using assms(2) t(1) by (auto simp: runnable_def)
    moreover from this have "(n, d) \<in> ?E" using d t(1) by (simp add: dep_edges_def known_def deps_of_def)
    ultimately show "case dict_get (tg_tasks g) d of None \<Rightarrow> False | Some t' \<Rightarrow> tk_status t' = Task_Completed"
      using n(2) by (auto simp: unfinished_def known_def)
  qed
  moreover have "tk_status t = Task_Pending \<or> tk_status t = Task_Ready" using assms(2) t by (auto simp: runnable_def)
  ultimately show ?thesis using t n(1) by (auto simp: is_ready_def)
qed

lemma unfinished_round:
  assumes "ids_ok g" "dict_wf (tg_tasks g)" "runnable g" "detect_cycles g = None" "unfinished g \<noteq> {}"
  shows "card (unfinished (complete_round g)) < card (unfinished g)"
proof (rule psubset_card_mono)
  show "finite (unfinished g)"
    by (rule finite_subset [OF _ finite_known [of "tg_tasks g"]]) (auto simp: unfinished_def known_def)
  have sub: "unfinished (complete_round g) \<subseteq> unfinished g"
  proof
    fix n assume "n \<in> unfinished (complete_round g)"
    then obtain t' where t': "dict_get (tg_tasks (complete_round g)) n = Some t'" "tk_status t' \<noteq> Task_Completed"
      by (auto simp: unfinished_def)
    then obtain t where t: "dict_get (tg_tasks g) n = Some t"
      using frame_round [of g] by (metis frame_known known_def not_None_eq)
    with round_get [OF assms(1,2) t] t' show "n \<in> unfinished g" by (auto simp: unfinished_def split: if_splits)
  qed
  obtain n t where n: "dict_get (tg_tasks g) n = Some t" "n \<in> unfinished g" "is_ready (tg_tasks g) t"
    using ready_task_exists [OF assms(4,3,5)] by blast
  with round_get [OF assms(1,2) n(1)] have "n \<notin> unfinished (complete_round g)" by (auto simp: unfinished_def)
  with sub n(2) show "unfinished (complete_round g) \<subset> unfinished g" by blast
qed


text \<open>C26: Scheduling never stalls and always ends, for a graph that can run at all: it has no cycle, every task stands
under its own identifier, every dependency is a task of the graph, and every task is pending, ready or completed, so none
is in progress, failed or blocked. As long as a task is unfinished some task is ready; and completing the ready tasks,
round after round, completes all tasks in at most as many rounds as there were unfinished tasks. A failed task, on the
other hand, keeps everything that depends on it from ever being ready (\<open>failed_task_cuts_dependents\<close>).\<close>

theorem scheduling_completes:
  assumes "detect_cycles g = None" "ids_ok g" "dict_wf (tg_tasks g)" "runnable g"
  shows "(unfinished g = {} \<or> snd (get_ready_tasks g) \<noteq> [])
    \<and> (\<exists>k \<le> card (unfinished g). unfinished ((complete_round ^^ k) g) = {})"
proof
  show "unfinished g = {} \<or> snd (get_ready_tasks g) \<noteq> []"
    using ready_task_exists [OF assms(1,4)] ready_names [OF assms(2,3)] by fastforce
  show "\<exists>k \<le> card (unfinished g). unfinished ((complete_round ^^ k) g) = {}"
    using assms
  proof (induction "card (unfinished g)" arbitrary: g rule: less_induct)
    case less
    show ?case
    proof (cases "unfinished g = {}")
      case True
      then show ?thesis by (intro exI [of _ 0]) simp
    next
      case False
      have "detect_cycles (complete_round g) = None"
        using less(2) unfolding detect_cycles_None frame_edges [OF frame_round] .
      with less(1) [OF unfinished_round [OF less(3-5,2) False]] round_invariant [OF less(3-5)] round_wf [OF less(4)]
      obtain k where "k \<le> card (unfinished (complete_round g))" "unfinished ((complete_round ^^ k) (complete_round g)) = {}" by blast
      with unfinished_round [OF less(3-5,2) False] show ?thesis
        by (intro exI [of _ "Suc k"]) (simp add: funpow_Suc_right del: funpow.simps)
    qed
  qed
qed

lemma scheduling_completes_witness:
  "\<exists>k \<le> card (unfinished (graph_with [plain_task ''b'' [''a''] [], plain_task ''a'' [] []])).
     unfinished ((complete_round ^^ k) (graph_with [plain_task ''b'' [''a''] [], plain_task ''a'' [] []])) = {}"
proof -
  let ?g = "graph_with [plain_task ''b'' [''a''] [], plain_task ''a'' [] []]"
  have "detect_cycles ?g = None"
    by (simp add: graph_with_def known_def plain_task_def detect_cycles_def dict_keys_def visit_state_def dict_get_default_def
        deps_of_def dict_get_def)
  moreover have "ids_ok ?g" "dict_wf (tg_tasks ?g)" "runnable ?g"
    by (auto simp: graph_with_def plain_task_def ids_ok_def runnable_def dict_get_def dict_wf_def known_def split: if_splits)
  ultimately show ?thesis using scheduling_completes [of ?g] by blast
qed


section \<open>Failed tasks\<close>

text \<open>A run of the scheduler: the ready tasks are asked for, a ready task is completed, any task is
failed.\<close>

inductive sched_step :: "task_graph \<Rightarrow> task_graph \<Rightarrow> bool" where
  poll: "sched_step g (fst (get_ready_tasks g))"
| finish: "dict_get (tg_tasks g) n = Some t \<Longrightarrow> is_ready (tg_tasks g) t \<Longrightarrow> sched_step g (fst (mark_completed g n s))"
| fail: "sched_step g (fst (mark_failed g n s))"

inductive_cases sched_stepE: "sched_step g g'"

definition status_in :: "task_graph \<Rightarrow> string \<Rightarrow> task_status option" where
  "status_in g n = map_option tk_status (dict_get (tg_tasks g) n)"

text \<open>What a failed task cuts off: it stays failed, and nothing that depends on it gets completed.\<close>

definition cut_off :: "task_graph \<Rightarrow> string \<Rightarrow> bool" where
  "cut_off g n \<longleftrightarrow> status_in g n = Some Task_Failed
     \<and> (\<forall>m. (m, n) \<in> (dep_edges (tg_tasks g))\<^sup>+ \<longrightarrow> status_in g m \<noteq> Some Task_Completed)"

lemma cut_off_not_ready:
  assumes "cut_off g n" "(m, n) \<in> (dep_edges (tg_tasks g))\<^sup>+" "dict_get (tg_tasks g) m = Some t"
  shows "\<not> is_ready (tg_tasks g) t"
proof -
  obtain d where d: "(m, d) \<in> dep_edges (tg_tasks g)" "d = n \<or> (d, n) \<in> (dep_edges (tg_tasks g))\<^sup>+"
    using assms(2) by (metis converse_tranclE)
  then have "d \<in> set (tk_deps t)" "status_in g d \<noteq> Some Task_Completed"
    using assms(1,3) by (auto simp: dep_edges_def deps_of_def cut_off_def)
  then show ?thesis by (auto simp: is_ready_def deps_completed_def list_all_iff status_in_def split: option.splits)
qed

lemma cut_off_step:
  assumes "cut_off g n" "sched_step g g'"
  shows "cut_off g' n \<and> frame (tg_tasks g') = frame (tg_tasks g)"
  using assms(2)
proof cases
  case poll
  then have f: "frame (tg_tasks g') = frame (tg_tasks g)" by (simp add: frame_get_ready)
  have "status_in g' m = Some Task_Completed \<Longrightarrow> status_in g m = Some Task_Completed"
    "status_in g m = Some Task_Failed \<Longrightarrow> status_in g' m = Some Task_Failed" for m
    using poll by (cases "dict_get (tg_tasks g) m"; auto simp: status_in_def get_ready_get mark_ready_def is_ready_def split: if_splits)+
  with assms(1) f show ?thesis by (auto simp: cut_off_def frame_edges [OF f])
next
  case (finish k t s)
  then have f: "frame (tg_tasks g') = frame (tg_tasks g)" by (simp add: frame_mark_completed)
  have "k \<noteq> n" using assms(1) finish(2,3) by (auto simp: cut_off_def status_in_def is_ready_def)
  moreover have "(k, n) \<notin> (dep_edges (tg_tasks g))\<^sup>+" using cut_off_not_ready [OF assms(1) _ finish(2)] finish(3) by blast
  ultimately show ?thesis
    using assms(1) f finish(1)
    by (auto simp: cut_off_def frame_edges [OF frame_mark_completed] status_in_def mark_completed_get split: if_splits)
next
  case (fail k s)
  then have f: "frame (tg_tasks g') = frame (tg_tasks g)" by (simp add: frame_mark_failed)
  have "status_in g' m = Some Task_Completed \<Longrightarrow> status_in g m = Some Task_Completed"
    "status_in g m = Some Task_Failed \<Longrightarrow> status_in g' m = Some Task_Failed" for m
    using fail by (cases "dict_get (tg_tasks g) m"; auto simp: status_in_def mark_failed_get block_dependent_def split: if_splits)+
  with assms(1) f show ?thesis by (auto simp: cut_off_def frame_edges [OF f])
qed


lemma cut_off_run: "sched_step\<^sup>*\<^sup>* g g' \<Longrightarrow> cut_off g n \<Longrightarrow> cut_off g' n \<and> frame (tg_tasks g') = frame (tg_tasks g)"
  by (induction rule: rtranclp_induct) (use cut_off_step in auto)

text \<open>What depends on a failed task, at any distance, never runs: if none of it was completed before,
then in every continuation of the schedule it is neither ready nor completed. But only the direct
dependents are marked as blocked; the others are left as they were.\<close>

theorem failed_task_cuts_dependents:
  assumes "mark_failed g n reason = (g1, None)"
    and "\<forall>k. (k, n) \<in> (dep_edges (tg_tasks g))\<^sup>+ \<longrightarrow> status_in g k \<noteq> Some Task_Completed"
    and "sched_step\<^sup>*\<^sup>* g1 g2" "(m, n) \<in> (dep_edges (tg_tasks g))\<^sup>+" "dict_get (tg_tasks g2) m = Some t"
  shows "\<not> is_ready (tg_tasks g2) t \<and> tk_status t \<noteq> Task_Completed
    \<and> (m = n \<or> n \<in> set (deps_of (tg_tasks g) m) \<or> dict_get (tg_tasks g1) m = dict_get (tg_tasks g) m)"
proof -
  have g1: "g1 = fst (mark_failed g n reason)" "known (tg_tasks g) n"
    using assms(1) by (auto simp: mark_failed_def get_task_def known_def split: option.splits)
  have f: "frame (tg_tasks g1) = frame (tg_tasks g)" using g1(1) by (simp add: frame_mark_failed)
  have "status_in g1 n = Some Task_Failed"
    using g1 by (auto simp: status_in_def mark_failed_get block_dependent_def known_def)
  moreover have "status_in g1 k = Some Task_Completed \<Longrightarrow> status_in g k = Some Task_Completed" for k
    using g1 by (cases "dict_get (tg_tasks g) k"; auto simp: status_in_def mark_failed_get block_dependent_def split: if_splits)
  ultimately have "cut_off g1 n" using assms(2) by (auto simp: cut_off_def frame_edges [OF f])
  from cut_off_run [OF assms(3) this] have c: "cut_off g2 n" "frame (tg_tasks g2) = frame (tg_tasks g)" using f by auto
  then have m: "(m, n) \<in> (dep_edges (tg_tasks g2))\<^sup>+" using assms(4) by (simp add: frame_edges [OF c(2)])
  have "m = n \<or> n \<in> set (deps_of (tg_tasks g) m) \<or> dict_get (tg_tasks g1) m = dict_get (tg_tasks g) m"
    using g1 by (cases "dict_get (tg_tasks g) m") (auto simp: mark_failed_get deps_of_def block_dependent_def)
  moreover have "tk_status t \<noteq> Task_Completed" using c(1) m assms(5) by (auto simp: cut_off_def status_in_def)
  ultimately show ?thesis using cut_off_not_ready [OF c(1) m assms(5)] by blast
qed

lemma failed_task_cuts_dependents_witness:
  "\<not> is_ready (tg_tasks (fst (mark_failed (graph_with [plain_task ''a'' [] [], plain_task ''b'' [''a''] []]) ''a'' [])))
       (block_dependent ''a'' (plain_task ''b'' [''a''] []))"
proof -
  let ?g = "graph_with [plain_task ''a'' [] [], plain_task ''b'' [''a''] []]"
  obtain g1 where m: "mark_failed ?g ''a'' [] = (g1, None)" "g1 = fst (mark_failed ?g ''a'' [])"
    by (simp add: mark_failed_def get_task_def graph_with_def dict_get_def plain_task_def)
  have e: "(''b'', ''a'') \<in> (dep_edges (tg_tasks ?g))\<^sup>+"
    by (rule r_into_trancl) (simp add: dep_edges_def known_def deps_of_def graph_with_def plain_task_def dict_get_def)
  have n: "\<forall>k. (k, ''a'') \<in> (dep_edges (tg_tasks ?g))\<^sup>+ \<longrightarrow> status_in ?g k \<noteq> Some Task_Completed"
    by (auto simp: status_in_def graph_with_def plain_task_def dict_get_def split: if_splits)
  have t: "dict_get (tg_tasks g1) ''b'' = Some (block_dependent ''a'' (plain_task ''b'' [''a''] []))"
    unfolding m(2) mark_failed_get by (simp add: known_def graph_with_def plain_task_def dict_get_def)
  from failed_task_cuts_dependents [OF m(1) n rtranclp.rtrancl_refl e t] show ?thesis unfolding m(2) [symmetric] by blast
qed

end
