(* ===== verification/Task_Environment.thy ===== *)
theory Task_Environment
  imports Task_Graph Json
begin

text \<open>
  The sealed environment of a task (core/task_environment.py): which paths it may change, which tools
  it may call, and how it is made from the task and the profile of the repository. Reasons are values
  instead of messages; an absent optional list is the empty list.
\<close>

section \<open>Data\<close>

text \<open>The seconds are a finite float: \<open>(a, k)\<close> is \<open>a / 2 ^ k\<close>.\<close>

record sandbox_policy =
  sb_isolation :: string
  sb_max_seconds :: "int \<times> nat"
  sb_max_memory :: int
  sb_network :: bool
  sb_subprocesses :: bool

definition make_sandbox :: "sandbox_policy \<Rightarrow> contract_error + sandbox_policy" where
  "make_sandbox s = (case sb_max_seconds s of (a, k) \<Rightarrow> guarded
     [(a \<le> 0 \<or> a > 300 * 2 ^ k, Bad_Field ''max_execution_seconds''),
      (sb_max_memory s < 128, Bad_Field ''max_memory_mb'')] s)"

definition default_sandbox :: sandbox_policy where
  "default_sandbox = \<lparr>sb_isolation = ''worktree'', sb_max_seconds = (60, 0), sb_max_memory = 1024,
     sb_network = False, sb_subprocesses = True\<rparr>"

record worktree_session =
  ws_session :: string
  ws_path :: string
  ws_branch :: string
  ws_base :: string
  ws_isolated :: bool
  ws_created :: string

record repository_profile =
  rp_path :: string
  rp_branch :: string
  rp_head :: string
  rp_clean :: bool
  rp_uncommitted :: "string list"
  rp_ecosystems :: "string list"
  rp_tests :: "(string, string) dict list"
  rp_linters :: "(string, string) dict list"
  rp_protected :: "string list"
  rp_inspected :: string

record task_env =
  te_intent :: string
  te_criteria :: "string list"
  te_role :: string
  te_mutable :: "string list"
  te_protected :: "string list"
  te_architecture :: "string list"
  te_contracts :: "string list"
  te_source :: "string list"
  te_tests :: "string list"
  te_failures :: "string list"
  te_tools :: "string list"
  te_sandbox :: sandbox_policy
  te_session :: "worktree_session option"
  te_reviews :: "string list"
  te_stop :: "(string, json) dict"


section \<open>Paths and tools\<close>

datatype path_denial =
    Protected_Pattern string
  | Protected_Directory string
  | Protected_Path string
  | Outside_Scope

definition protected_by :: "string \<Rightarrow> string \<Rightarrow> path_denial option" where
  "protected_by p pattern =
     (let pat = clean_path pattern
      in if ends_with ''*'' pat
         then (if starts_with (butlast pat) p \<or> starts_with (butlast pat) (path_name p) then Some (Protected_Pattern pattern) else None)
         else if ends_with ''/'' pat
         then (if starts_with pat p \<or> contains_str (CHR ''/'' # pat) (CHR ''/'' # p) then Some (Protected_Directory pattern) else None)
         else if p = pat \<or> ends_with (CHR ''/'' # pat) p \<or> path_name p = pat then Some (Protected_Path pattern) else None)"

fun first_denial :: "string \<Rightarrow> string list \<Rightarrow> path_denial option" where
  "first_denial p [] = None"
| "first_denial p (x # xs) = (case protected_by p x of None \<Rightarrow> first_denial p xs | Some d \<Rightarrow> Some d)"

definition scope_allows :: "string \<Rightarrow> string \<Rightarrow> bool" where
  "scope_allows p allowed =
     (let a = clean_path allowed in if ends_with ''/'' a then starts_with a p else p = a)"

text \<open>\<^const>\<open>None\<close> is the answer \<open>(True, None)\<close>.\<close>

definition is_path_mutable :: "task_env \<Rightarrow> string \<Rightarrow> path_denial option" where
  "is_path_mutable e path =
     (let p = clean_path path
      in case first_denial p (te_protected e) of
           Some d \<Rightarrow> Some d
         | None \<Rightarrow>
             (if te_mutable e \<noteq> [] \<and> \<not> list_ex (scope_allows p) (te_mutable e) then Some Outside_Scope else None))"

definition validate_tool_allowed :: "task_env \<Rightarrow> string \<Rightarrow> bool" where
  "validate_tool_allowed e tool = (tool \<in> set (te_tools e))"


section \<open>The synthesizer\<close>

datatype boundary_error =
    Role_Read_Only string
  | Role_Forbidden string string

fun boundary_violation :: "role_rule \<Rightarrow> string list \<Rightarrow> boundary_error option" where
  "boundary_violation rule [] = None"
| "boundary_violation rule (path # paths) =
     (case find (\<lambda>f. starts_with (clean_path f) (clean_path path)) (ro_forbidden rule) of
        Some f \<Rightarrow> Some (Role_Forbidden path f)
      | None \<Rightarrow> boundary_violation rule paths)"

definition text_of :: "string option \<Rightarrow> string" where
  "text_of v = (case v of None \<Rightarrow> ''None'' | Some s \<Rightarrow> s)"

definition test_line :: "(string, string) dict \<Rightarrow> string" where
  "test_line d = text_of (dict_get d ''name'') @ '': '' @ text_of (dict_get d ''command'')"

definition mounted_tools :: "role_rule \<Rightarrow> string list" where
  "mounted_tools rule =
     (if ro_read_only rule \<and> ''filesystem.write'' \<in> set minimal_governed_tools
      then remove1 ''filesystem.write'' minimal_governed_tools else minimal_governed_tools)"

definition default_capability :: "string \<Rightarrow> role_rule \<Rightarrow> capability" where
  "default_capability role rule =
     \<lparr>cr_role = role, cr_tools = mounted_tools rule, cr_max_turns = 3, cr_budget = 8192,
      cr_read_only = ro_read_only rule, cr_forbidden = ro_forbidden rule\<rparr>"

definition synthesize ::
    "task_node \<Rightarrow> repository_profile \<Rightarrow> worktree_session option \<Rightarrow> string list \<Rightarrow> string list \<Rightarrow> string list
       \<Rightarrow> string list \<Rightarrow> string list \<Rightarrow> sandbox_policy option \<Rightarrow> boundary_error + task_env" where
  "synthesize t profile session arch contracts source tests failures sandbox =
     (let rule = role_rule_of (tk_role t)
      in if ro_read_only rule \<and> tk_scope t \<noteq> [] then Inl (Role_Read_Only (tk_role t))
         else
           (case boundary_violation rule (tk_scope t) of
              Some e \<Rightarrow> Inl e
            | None \<Rightarrow>
                (let cap = (case tk_capability t of None \<Rightarrow> default_capability (tk_role t) rule | Some c \<Rightarrow> c);
                     final_tests = (if tests = [] then map test_line (rp_tests profile) else tests)
                 in Inr \<lparr>te_intent = tk_intent t, te_criteria = tk_criteria t, te_role = tk_role t,
                      te_mutable = tk_scope t,
                      te_protected = sort (remdups (default_protected_patterns @ rp_protected profile)),
                      te_architecture = arch, te_contracts = contracts, te_source = source, te_tests = final_tests,
                      te_failures = failures, te_tools = cr_tools cap,
                      te_sandbox = (case sandbox of None \<Rightarrow> default_sandbox | Some s \<Rightarrow> s),
                      te_session = session, te_reviews = [''QA_TEST_AGENT''],
                      te_stop = [(''max_turns'', JInt (cr_max_turns cap)), (''loop_limit'', JInt 3),
                                 (''hitl_gate_required'', JBool True)]\<rparr>)))"

text \<open>The environment a plan gets when none is given: the defaults of the model's fields.\<close>

definition default_env :: "string \<Rightarrow> string \<Rightarrow> string list \<Rightarrow> worktree_session option \<Rightarrow> task_env" where
  "default_env intent role scope session =
     \<lparr>te_intent = intent, te_criteria = [], te_role = role, te_mutable = scope,
      te_protected = default_protected_patterns, te_architecture = [], te_contracts = [], te_source = [],
      te_tests = [], te_failures = [], te_tools = minimal_governed_tools, te_sandbox = default_sandbox,
      te_session = session, te_reviews = [''QA_TEST_AGENT''],
      te_stop = [(''max_turns'', JInt 3), (''loop_limit'', JInt 3), (''hitl_gate_required'', JBool True)]\<rparr>"

end
