(* ===== verification/Scope_Properties.thy ===== *)
theory Scope_Properties
  imports Task_Environment Task_Properties
begin

text \<open>
  Properties of task scopes: what the overlap test guarantees about the paths two environments may
  change, what every synthesized environment protects, and what the protected patterns miss.
\<close>

section \<open>Disjoint scopes\<close>

lemma scope_allows_collide:
  assumes "scope_allows p a" "scope_allows p b"
  shows "paths_collide (clean_path a) (clean_path b)"
  using assms starts_with_comparable [of "clean_path a" p "clean_path b"]
  by (auto simp: scope_allows_def Let_def paths_collide_def as_dir_def split: if_splits)

lemma paths_collide_sym: "paths_collide a b = paths_collide b a"
  by (auto simp: paths_collide_def)

lemma scopes_collide_sym: "scopes_collide xs ys = scopes_collide ys xs"
  unfolding scopes_collide_def list_ex_iff by (metis paths_collide_sym)

lemma first_collision_None:
  "first_collision d = None \<Longrightarrow> (n, xs) \<in> set d \<Longrightarrow> (m, ys) \<in> set d \<Longrightarrow> n \<noteq> m \<Longrightarrow> \<not> scopes_collide xs ys"
proof (induction d rule: first_collision.induct)
  case (2 k zs rest)
  then have none: "find (\<lambda>(m, ys). scopes_collide zs ys) rest = None" "first_collision rest = None"
    by (auto split: option.splits)
  then have "\<forall>(m, ys) \<in> set rest. \<not> scopes_collide zs ys" by (auto simp: find_None_iff)
  with 2(1) [OF none(1,2)] 2(3-5) show ?case using scopes_collide_sym by auto
qed simp

lemma collect_scopes_get:
  "collect_scopes g acc ns = Inr d \<Longrightarrow>
     (\<forall>n. dict_get d n = (if n \<in> set ns then map_option (\<lambda>t. map clean_path (tk_scope t)) (dict_get (tg_tasks g) n) else dict_get acc n))
     \<and> (\<forall>n \<in> set ns. known (tg_tasks g) n)"
proof (induction g acc ns arbitrary: d rule: collect_scopes.induct)
  case (2 g acc n ns)
  then obtain t where t: "dict_get (tg_tasks g) n = Some t" "collect_scopes g (dict_put n (map clean_path (tk_scope t)) acc) ns = Inr d"
    by (auto simp: get_task_def split: option.splits sum.splits)
  have "get_task g n = Inr t" using t(1) by (simp add: get_task_def)
  from 2(1) [OF this t(2)] t(1) show ?case by (auto simp: known_def)
qed simp

lemma no_overlap_tasks:
  assumes "validate_no_overlapping_scopes g ns = Inr None" "n \<in> set ns" "m \<in> set ns" "n \<noteq> m"
    and "dict_get (tg_tasks g) n = Some t" "dict_get (tg_tasks g) m = Some u"
  shows "\<not> scopes_collide (map clean_path (tk_scope t)) (map clean_path (tk_scope u))"
proof -
  obtain d where d: "collect_scopes g [] ns = Inr d" "first_collision d = None"
    using assms(1) by (auto simp: validate_no_overlapping_scopes_def split: sum.splits)
  then have "dict_get d n = Some (map clean_path (tk_scope t))" "dict_get d m = Some (map clean_path (tk_scope u))"
    using collect_scopes_get [OF d(1)] assms by auto
  then show ?thesis using first_collision_None [OF d(2)] assms(4) dict_get_Some_in by metis
qed

lemma synthesize_fields:
  assumes "synthesize t profile session arch contracts source tests failures sandbox = Inr e"
  shows "te_mutable e = tk_scope t" "te_role e = tk_role t"
    "set (te_protected e) = set default_protected_patterns \<union> set (rp_protected profile)"
    "te_tools e = cr_tools (case tk_capability t of None \<Rightarrow> default_capability (tk_role t) (role_rule_of (tk_role t)) | Some c \<Rightarrow> c)"
    "ro_read_only (role_rule_of (tk_role t)) \<longrightarrow> tk_scope t = []"
    "boundary_violation (role_rule_of (tk_role t)) (tk_scope t) = None"
  using assms by (auto simp: synthesize_def Let_def split: if_splits option.splits)

lemma mutable_iff:
  "is_path_mutable e path = None \<longleftrightarrow>
     first_denial (clean_path path) (te_protected e) = None
     \<and> (te_mutable e = [] \<or> (\<exists>a \<in> set (te_mutable e). scope_allows (clean_path path) a))"
  by (auto simp: is_path_mutable_def Let_def list_ex_iff split: option.splits)

lemma first_denial_None: "first_denial p xs = None \<longleftrightarrow> (\<forall>x \<in> set xs. protected_by p x = None)"
  by (induction p xs rule: first_denial.induct) (auto split: option.splits)

text \<open>C16: Two different tasks that both have a non-empty scope and pass the overlap test may run in parallel: no path
can be changed in the environments of both, whatever profile, session, approvals and tools the environments are built
with. The scopes have to be non-empty: an empty one passes the test and confines nothing
(\<open>unscoped_task_shares_everything\<close>).\<close>

theorem validated_scopes_are_disjoint:
  assumes "validate_no_overlapping_scopes g ns = Inr None" "n \<in> set ns" "m \<in> set ns" "n \<noteq> m"
    and "dict_get (tg_tasks g) n = Some t" "dict_get (tg_tasks g) m = Some u"
    and "synthesize t prof1 ses1 a1 c1 s1 t1 f1 sb1 = Inr e" "synthesize u prof2 ses2 a2 c2 s2 t2 f2 sb2 = Inr e'"
    and "tk_scope t \<noteq> []" "tk_scope u \<noteq> []" "is_path_mutable e path = None"
  shows "is_path_mutable e' path \<noteq> None"
proof
  assume "is_path_mutable e' path = None"
  then obtain a b where ab: "a \<in> set (tk_scope t)" "b \<in> set (tk_scope u)" "scope_allows (clean_path path) a" "scope_allows (clean_path path) b"
    using assms(9-11) synthesize_fields(1) [OF assms(7)] synthesize_fields(1) [OF assms(8)] by (auto simp: mutable_iff)
  have "paths_collide (clean_path a) (clean_path b)" by (rule scope_allows_collide [OF ab(3,4)])
  with ab no_overlap_tasks [OF assms(1-6)] show False by (auto simp: scopes_collide_def list_ex_iff)
qed

definition bare_profile :: repository_profile where
  "bare_profile = \<lparr>rp_path = ''/r'', rp_branch = ''main'', rp_head = ''h'', rp_clean = True, rp_uncommitted = [], rp_ecosystems = [],
     rp_tests = [], rp_linters = [], rp_protected = default_protected_patterns, rp_inspected = ''t''\<rparr>"

definition env_of :: "task_node \<Rightarrow> task_env" where
  "env_of t = (case synthesize t bare_profile None [] [] [] [] [] None of Inr e \<Rightarrow> e | Inl x \<Rightarrow> undefined)"

definition two_tasks :: task_graph where
  "two_tasks = graph_with [plain_task ''a'' [] [''src/a.py''], plain_task ''b'' [] [''src/b/'']]"

lemma env_of: "synthesize (plain_task n ds scope) bare_profile None [] [] [] [] [] None = Inr (env_of (plain_task n ds scope))"
  if "boundary_violation (role_rule_of ''DOMAIN_LOGIC_AGENT'') scope = None"
proof -
  have "\<not> ro_read_only (role_rule_of ''DOMAIN_LOGIC_AGENT'')" by code_simp
  then show ?thesis using that by (simp add: env_of_def synthesize_def plain_task_def Let_def)
qed

lemma validated_scopes_are_disjoint_witness: "is_path_mutable (env_of (plain_task ''b'' [] [''src/b/''])) ''src/a.py'' \<noteq> None"
proof -
  have v: "validate_no_overlapping_scopes two_tasks [''a'', ''b''] = Inr None" by code_simp
  have m: "''a'' \<in> set [''a'', ''b'']" "''b'' \<in> set [''a'', ''b'']" "''a'' \<noteq> ''b''" by simp_all
  have t: "dict_get (tg_tasks two_tasks) ''a'' = Some (plain_task ''a'' [] [''src/a.py''])"
    "dict_get (tg_tasks two_tasks) ''b'' = Some (plain_task ''b'' [] [''src/b/''])"
    by (simp_all add: two_tasks_def graph_with_def plain_task_def dict_get_def)
  have "boundary_violation (role_rule_of ''DOMAIN_LOGIC_AGENT'') [''src/a.py''] = None"
    "boundary_violation (role_rule_of ''DOMAIN_LOGIC_AGENT'') [''src/b/''] = None" by code_simp+
  note e = env_of [OF this(1), of "''a''" "[]"] env_of [OF this(2), of "''b''" "[]"]
  have s: "tk_scope (plain_task ''a'' [] [''src/a.py'']) \<noteq> []" "tk_scope (plain_task ''b'' [] [''src/b/'']) \<noteq> []" by (simp_all add: plain_task_def)
  have "first_denial (clean_path ''src/a.py'') default_protected_patterns = None" "scope_allows (clean_path ''src/a.py'') ''src/a.py''" by code_simp+
  then have "is_path_mutable (env_of (plain_task ''a'' [] [''src/a.py''])) ''src/a.py'' = None"
    using synthesize_fields(1,3) [OF e(1)] by (simp add: mutable_iff first_denial_None bare_profile_def plain_task_def)
  from validated_scopes_are_disjoint [OF v m t e s this] show ?thesis .
qed

text \<open>A task without a scope is not confined but free: it passes the overlap test together with any other
task, although whatever the other one may change it may change as well, given the same profile.\<close>

theorem unscoped_task_shares_everything:
  assumes "dict_get (tg_tasks g) n = Some t" "dict_get (tg_tasks g) m = Some u" "tk_scope t = []"
    and "synthesize t profile ses1 a1 c1 s1 t1 f1 sb1 = Inr e" "synthesize u profile ses2 a2 c2 s2 t2 f2 sb2 = Inr e'"
  shows "validate_no_overlapping_scopes g [n, m] = Inr None
    \<and> {path. is_path_mutable e' path = None} \<subseteq> {path. is_path_mutable e path = None}"
proof
  show "validate_no_overlapping_scopes g [n, m] = Inr None"
    using assms(1-3) by (simp add: validate_no_overlapping_scopes_def get_task_def scopes_collide_def list_ex_iff)
  show "{path. is_path_mutable e' path = None} \<subseteq> {path. is_path_mutable e path = None}"
    using synthesize_fields(1,3) [OF assms(4)] synthesize_fields(1,3) [OF assms(5)] assms(3)
    by (auto simp: mutable_iff first_denial_None)
qed


lemma unscoped_task_shares_everything_witness:
  "validate_no_overlapping_scopes (graph_with [plain_task ''a'' [] [], plain_task ''b'' [] [''src/b/'']]) [''a'', ''b''] = Inr None"
proof -
  let ?g = "graph_with [plain_task ''a'' [] [], plain_task ''b'' [] [''src/b/'']]"
  have t: "dict_get (tg_tasks ?g) ''a'' = Some (plain_task ''a'' [] [])" "dict_get (tg_tasks ?g) ''b'' = Some (plain_task ''b'' [] [''src/b/''])"
    "tk_scope (plain_task ''a'' [] []) = []"
    by (simp_all add: graph_with_def plain_task_def dict_get_def)
  have "boundary_violation (role_rule_of ''DOMAIN_LOGIC_AGENT'') [] = None"
    "boundary_violation (role_rule_of ''DOMAIN_LOGIC_AGENT'') [''src/b/''] = None" by code_simp+
  note e = env_of [OF this(1), of "''a''" "[]"] env_of [OF this(2), of "''b''" "[]"]
  from unscoped_task_shares_everything [OF t e] show ?thesis by blast
qed


section \<open>Protected paths\<close>

lemma clean_patterns:
  "clean_path ''.env*'' = ''.env*''" "clean_path ''.git/'' = ''.git/''" "clean_path ''.git'' = ''.git''"
  "clean_path ''.github/workflows/'' = ''.github/workflows/''" "clean_path ''id_rsa*'' = ''id_rsa*''" "clean_path ''*.pem'' = ''*.pem''"
  "clean_path ''*.key'' = ''*.key''" "clean_path ''credentials.json'' = ''credentials.json''" "clean_path ''secrets.yaml'' = ''secrets.yaml''"
  by code_simp+

lemma protected_by_None:
  "protected_by p pattern = None \<longleftrightarrow>
     (if ends_with ''*'' (clean_path pattern)
      then \<not> starts_with (butlast (clean_path pattern)) p \<and> \<not> starts_with (butlast (clean_path pattern)) (path_name p)
      else if ends_with ''/'' (clean_path pattern)
      then \<not> starts_with (clean_path pattern) p \<and> \<not> contains_str (CHR ''/'' # clean_path pattern) (CHR ''/'' # p)
      else p \<noteq> clean_path pattern \<and> \<not> ends_with (CHR ''/'' # clean_path pattern) p \<and> path_name p \<noteq> clean_path pattern)"
  by (simp add: protected_by_def Let_def)

lemma pattern_ends:
  "ends_with ''*'' ''.env*''" "ends_with ''*'' ''id_rsa*''" "\<not> ends_with ''*'' ''.git/''" "ends_with ''/'' ''.git/''"
  "\<not> ends_with ''*'' ''.github/workflows/''" "ends_with ''/'' ''.github/workflows/''" "\<not> ends_with ''*'' ''.git''" "\<not> ends_with ''/'' ''.git''"
  "\<not> ends_with ''*'' ''credentials.json''" "\<not> ends_with ''/'' ''credentials.json''" "\<not> ends_with ''*'' ''secrets.yaml''"
  "\<not> ends_with ''/'' ''secrets.yaml''" "\<not> ends_with ''*'' ''*.pem''" "\<not> ends_with ''/'' ''*.pem''" "\<not> ends_with ''*'' ''*.key''"
  "\<not> ends_with ''/'' ''*.key''"
  by (simp_all add: ends_with_def)

text \<open>Every synthesized environment, whatever the task and the profile, refuses the files of git and its
workflows, the environment files, the private keys of ssh, and the two credential files, in any directory.\<close>

theorem synthesized_environment_protects:
  assumes "synthesize t profile session arch contracts source tests failures sandbox = Inr e" "is_path_mutable e path = None"
  shows "\<not> starts_with ''.env'' (path_name (clean_path path)) \<and> \<not> starts_with ''id_rsa'' (path_name (clean_path path))
    \<and> path_name (clean_path path) \<notin> {''.git'', ''credentials.json'', ''secrets.yaml''}
    \<and> \<not> contains_str ''/.git/'' (CHR ''/'' # clean_path path)
    \<and> \<not> contains_str ''/.github/workflows/'' (CHR ''/'' # clean_path path)"
proof -
  have "\<forall>x \<in> set default_protected_patterns. protected_by (clean_path path) x = None"
    using assms(2) synthesize_fields(3) [OF assms(1)] by (simp add: mutable_iff first_denial_None)
  then have "protected_by (clean_path path) ''.env*'' = None" "protected_by (clean_path path) ''id_rsa*'' = None"
    "protected_by (clean_path path) ''.git'' = None" "protected_by (clean_path path) ''credentials.json'' = None"
    "protected_by (clean_path path) ''secrets.yaml'' = None" "protected_by (clean_path path) ''.git/'' = None"
    "protected_by (clean_path path) ''.github/workflows/'' = None"
    by (simp_all add: default_protected_patterns_def)
  then show ?thesis
    by (simp add: protected_by_None clean_patterns pattern_ends)
qed

lemma synthesized_environment_protects_witness: "\<not> starts_with ''.env'' (path_name (clean_path ''src/a.py''))"
proof -
  have "boundary_violation (role_rule_of ''DOMAIN_LOGIC_AGENT'') [] = None" by code_simp
  note e = env_of [OF this, of "''a''" "[]"]
  have "first_denial (clean_path ''src/a.py'') default_protected_patterns = None" by code_simp
  then have "is_path_mutable (env_of (plain_task ''a'' [] [])) ''src/a.py'' = None"
    using synthesize_fields(1,3) [OF e] by (simp add: mutable_iff first_denial_None bare_profile_def plain_task_def)
  from synthesized_environment_protects [OF e this] show ?thesis by blast
qed

lemma path_name_chars: "set (path_name p) \<subseteq> set p"
proof -
  have "set w \<subseteq> set p" if "w \<in> set (split_on (CHR ''/'') p)" for w
    using that
  proof (induction p arbitrary: w)
    case (Cons a p)
    obtain v vs where v: "split_on (CHR ''/'') p = v # vs" by (cases "split_on (CHR ''/'') p") auto
    with Cons.IH have "\<And>u. u \<in> set (v # vs) \<Longrightarrow> set u \<subseteq> set p" by simp
    with Cons.prems v show ?case by (fastforce split: if_splits)
  qed simp
  note parts = this
  show ?thesis
  proof (cases "rev (filter (\<lambda>c. c \<noteq> [] \<and> c \<noteq> ''.'') (split_on (CHR ''/'') p))")
    case (Cons c cs)
    then have "c \<in> set (rev (filter (\<lambda>c. c \<noteq> [] \<and> c \<noteq> ''.'') (split_on (CHR ''/'') p)))" by simp
    then have "c \<in> set (split_on (CHR ''/'') p)" by simp
    with parts Cons show ?thesis by (simp add: path_name_def)
  qed (simp add: path_name_def)
qed

text \<open>The patterns for key files protect nothing: no path without an asterisk in it is ever refused because
of \<open>*.pem\<close> or \<open>*.key\<close>, since a pattern is a prefix only when the asterisk is at its end and otherwise an
exact name.\<close>

theorem key_patterns_are_inert:
  assumes "CHR ''*'' \<notin> set (clean_path path)"
  shows "is_path_mutable e path = is_path_mutable (e\<lparr>te_protected := filter (\<lambda>x. x \<noteq> ''*.pem'' \<and> x \<noteq> ''*.key'') (te_protected e)\<rparr>) path"
proof -
  let ?p = "clean_path path"
  have "?p \<noteq> q \<and> path_name ?p \<noteq> q \<and> \<not> ends_with (CHR ''/'' # q) ?p" if "CHR ''*'' \<in> set q" for q
    using assms that path_name_chars [of ?p] by (auto simp: ends_with_iff)
  then have none: "protected_by ?p ''*.pem'' = None" "protected_by ?p ''*.key'' = None"
    by (simp_all add: protected_by_None clean_patterns pattern_ends)
  have "first_denial ?p (filter (\<lambda>x. x \<noteq> ''*.pem'' \<and> x \<noteq> ''*.key'') xs) = first_denial ?p xs" for xs
    by (induction xs) (auto simp: none split: option.splits)
  then show ?thesis by (simp add: is_path_mutable_def Let_def)
qed

lemma key_patterns_are_inert_witness:
  "is_path_mutable ((default_env [] [] [''certs/server.pem''] None)\<lparr>te_protected := [''*.pem'']\<rparr>) ''certs/server.pem'' = None"
proof -
  have "CHR ''*'' \<notin> set (clean_path ''certs/server.pem'')" "scope_allows (clean_path ''certs/server.pem'') ''certs/server.pem''" by code_simp+
  from key_patterns_are_inert [OF this(1), of "(default_env [] [] [''certs/server.pem''] None)\<lparr>te_protected := [''*.pem'']\<rparr>"] this(2)
  show ?thesis by (simp add: mutable_iff default_env_def)
qed

end
