(* ===== verification/Command_Filter.thy ===== *)
theory Command_Filter
  imports Scope_Paths
begin

text \<open>
  The content filters of tool calls: the destructive-command patterns of core/agent_executor.py, searched
  the way \<open>re.search\<close> does, and the anti-corruption scan of core/precheck.py.

  Only what the patterns use is modelled: literals and classes without regard to case, repeated classes,
  alternatives, options and \<open>\b\<close>. A position is the character before it and the text after it; \<open>spans\<close>
  lists the positions an expression can end at. Characters are those up to \<open>\u00ff\<close>.
\<close>

section \<open>Expressions\<close>

datatype rx =
    Eps
  | One "char \<Rightarrow> bool"
  | Many "char \<Rightarrow> bool"
  | Boundary
  | Then rx rx
  | Either rx rx

type_synonym pos = "char option \<times> string"

definition word_char :: "char \<Rightarrow> bool" where
  "word_char c = (let n = (of_char c :: nat) in
     (48 \<le> n \<and> n \<le> 57) \<or> (65 \<le> n \<and> n \<le> 90) \<or> n = 95 \<or> (97 \<le> n \<and> n \<le> 122)
     \<or> n = 170 \<or> n = 178 \<or> n = 179 \<or> n = 181 \<or> n = 185 \<or> n = 186 \<or> (188 \<le> n \<and> n \<le> 190)
     \<or> (192 \<le> n \<and> n \<noteq> 215 \<and> n \<noteq> 247))"

definition at_boundary :: "pos \<Rightarrow> bool" where
  "at_boundary p = ((case fst p of None \<Rightarrow> False | Some c \<Rightarrow> word_char c) \<noteq> (case snd p of [] \<Rightarrow> False | c # s \<Rightarrow> word_char c))"

fun many_spans :: "(char \<Rightarrow> bool) \<Rightarrow> char option \<Rightarrow> string \<Rightarrow> pos list" where
  "many_spans q prev [] = [(prev, [])]"
| "many_spans q prev (c # s) = (prev, c # s) # (if q c then many_spans q (Some c) s else [])"

fun spans :: "rx \<Rightarrow> pos \<Rightarrow> pos list" where
  "spans Eps p = [p]"
| "spans (One q) p = (case snd p of [] \<Rightarrow> [] | c # s \<Rightarrow> if q c then [(Some c, s)] else [])"
| "spans (Many q) p = many_spans q (fst p) (snd p)"
| "spans Boundary p = (if at_boundary p then [p] else [])"
| "spans (Then a b) p = concat (map (spans b) (spans a p))"
| "spans (Either a b) p = spans a p @ spans b p"

fun rx_search :: "rx \<Rightarrow> char option \<Rightarrow> string \<Rightarrow> bool" where
  "rx_search r prev [] = (spans r (prev, []) \<noteq> [])"
| "rx_search r prev (c # s) = (spans r (prev, c # s) \<noteq> [] \<or> rx_search r (Some c) s)"

definition in_order :: "rx list \<Rightarrow> rx" where
  "in_order rs = foldr Then rs Eps"

definition one_of :: "rx list \<Rightarrow> rx" where
  "one_of rs = foldr Either (butlast rs) (last rs)"

definition lit :: "string \<Rightarrow> rx" where
  "lit w = in_order (map (\<lambda>c. One (\<lambda>x. lower_char x = lower_char c)) w)"

definition any_of :: "string \<Rightarrow> rx" where
  "any_of cs = One (\<lambda>x. lower_char x \<in> set cs)"

definition letter :: "char \<Rightarrow> bool" where
  "letter c = (let n = (of_char c :: nat) in (65 \<le> n \<and> n \<le> 90) \<or> (97 \<le> n \<and> n \<le> 122))"

definition spaces :: rx where
  "spaces = Then (One py_space) (Many py_space)"

definition anything :: rx where
  "anything = Many (\<lambda>c. c \<noteq> CHR 0x0A)"

definition drive :: rx where
  "drive = in_order [One letter, lit '':'', lit [CHR 0x5C]]"


section \<open>The destructive commands\<close>

definition git_command :: "string \<Rightarrow> rx list" where
  "git_command w = [Boundary, lit ''git'', spaces, lit w, spaces, anything]"

definition destructive_command_patterns :: "rx list" where
  "destructive_command_patterns =
     [in_order (git_command ''push'' @ [one_of [Then (lit ''-f'') Boundary, Then (lit ''--force'') Boundary]]),
      in_order (git_command ''reset'' @ [lit ''--hard'', Boundary]),
      in_order (git_command ''clean'' @
        [one_of [in_order [lit ''-'', Many letter, lit ''f''], Then (lit ''--force'') Boundary]]),
      in_order (git_command ''branch'' @
        [one_of [in_order [lit ''-'', any_of ''d'', Boundary], in_order [lit ''--delete'', spaces, lit ''--force'', Boundary]]]),
      in_order (git_command ''checkout'' @ [one_of [Then (lit ''-f'') Boundary, Then (lit ''--force'') Boundary]]),
      in_order [Boundary, lit ''rm'', spaces, lit ''-'', any_of ''rf'', Either (any_of ''rf'') Eps, spaces, one_of [lit ''/'', drive, lit ''~'']],
      in_order [Boundary, lit ''rmdir'', spaces, lit ''/s'', spaces, lit ''/q'', spaces, one_of [drive, lit ''/'']],
      in_order [Boundary, lit ''format'', spaces, One letter, lit '':''],
      in_order [Boundary, lit ''Remove-Item'', spaces, anything, one_of [lit ''-r'', lit ''-recurse''], Boundary,
        anything, one_of [lit ''-f'', lit ''-force''], Boundary],
      in_order [Boundary, lit ''Remove-Item'', spaces, anything, one_of [lit ''-f'', lit ''-force''], Boundary,
        anything, one_of [lit ''-r'', lit ''-recurse''], Boundary],
      in_order [Boundary, lit ''del'', spaces, anything, one_of [Then (lit ''/'') (any_of ''sfq''), lit ''/q'', lit ''/f''], Boundary,
        anything, one_of [drive, lit ''/'']],
      in_order [Boundary, one_of [lit ''curl'', lit ''wget'', lit ''iwr''], spaces, anything, lit ''|'', Many py_space,
        one_of [lit ''ba'', lit ''z'', Eps], lit ''sh'', Boundary],
      in_order [Boundary, lit ''Invoke-Expression'', spaces, anything,
        one_of [lit ''Invoke-WebRequest'', lit ''iwr'', lit ''curl'', lit ''wget'']]]"

definition is_destructive :: "string \<Rightarrow> bool" where
  "is_destructive cmd = list_ex (\<lambda>r. rx_search r None cmd) destructive_command_patterns"


section \<open>The anti-corruption scan\<close>

datatype corruption = Bare_Except | Empty_Catch | Swallowed_Exception

definition except_pass :: "nat \<Rightarrow> string" where
  "except_pass n = ''except Exception:'' @ [CHR 0x0A] @ replicate n (CHR '' '') @ ''pass''"

definition check_seven_anti_corruption :: "string \<Rightarrow> corruption list" where
  "check_seven_anti_corruption code =
     (if contains_str ''except:'' code then [Bare_Except] else [])
     @ (if contains_str ''catch (e) {}'' code \<or> contains_str ''catch (error) {}'' code then [Empty_Catch] else [])
     @ (if contains_str (except_pass 12) code \<or> contains_str (except_pass 8) code then [Swallowed_Exception] else [])"

definition is_source_file :: "string \<Rightarrow> bool" where
  "is_source_file f = (ends_with ''.py'' f \<or> ends_with ''.ts'' f \<or> ends_with ''.js'' f)"


section \<open>Facts\<close>

lemma many_spans_iff:
  "(x, t) \<in> set (many_spans q prev s) \<longleftrightarrow>
     (\<exists>u. s = u @ t \<and> list_all q u \<and> x = (if u = [] then prev else Some (last u)))"
proof (induction s arbitrary: prev)
  case (Cons c s)
  show ?case (is "?l \<longleftrightarrow> ?r")
  proof
    assume ?l
    then consider "x = prev" "t = c # s" | "q c" "(x, t) \<in> set (many_spans q (Some c) s)"
      by (auto split: if_splits)
    then show ?r
    proof cases
      case 2
      then obtain u where "s = u @ t" "list_all q u" "x = (if u = [] then Some c else Some (last u))" using Cons by auto
      with 2(1) show ?r by (intro exI [of _ "c # u"]) simp
    qed simp
  next
    assume ?r
    then obtain u where u: "c # s = u @ t" "list_all q u" "x = (if u = [] then prev else Some (last u))" by blast
    show ?l
    proof (cases u)
      case (Cons d v)
      with u have "d = c" "s = v @ t" "q c" "list_all q v" "x = (if v = [] then Some c else Some (last v))" by auto
      then have "(x, t) \<in> set (many_spans q (Some c) s)" using Cons.IH by auto
      with \<open>q c\<close> show ?l by simp
    next
      case Nil
      with u have "t = c # s" "x = prev" by auto
      then show ?l by simp
    qed
  qed
qed auto

lemma rx_search_iff:
  "rx_search r prev s \<longleftrightarrow> (\<exists>u v. s = u @ v \<and> spans r (if u = [] then prev else Some (last u), v) \<noteq> [])"
proof (induction s arbitrary: prev)
  case (Cons c s)
  show ?case (is "?l \<longleftrightarrow> ?r")
  proof
    assume ?l
    then consider "spans r (prev, c # s) \<noteq> []" | "rx_search r (Some c) s" by auto
    then show ?r
    proof cases
      case 2
      then obtain u v where "s = u @ v" "spans r (if u = [] then Some c else Some (last u), v) \<noteq> []" using Cons by auto
      then show ?r by (intro exI [of _ "c # u"] exI [of _ v]) (auto split: if_splits)
    qed (intro exI [of _ "[]"] exI [of _ "c # s"], simp)
  next
    assume ?r
    then obtain u v where u: "c # s = u @ v" "spans r (if u = [] then prev else Some (last u), v) \<noteq> []" by blast
    show ?l
    proof (cases u)
      case (Cons d w)
      with u have "s = w @ v" "spans r (if w = [] then Some c else Some (last w), v) \<noteq> []" by (auto split: if_splits)
      then have "rx_search r (Some c) s" using Cons.IH by blast
      then show ?l by simp
    next
      case Nil
      with u have "v = c # s" "spans r (prev, v) \<noteq> []" by auto
      then show ?l by simp
    qed
  qed
qed auto

end
