(* ===== verification/Filter_Properties.thy ===== *)
theory Filter_Properties
  imports Command_Filter
begin

text \<open>
  Properties of the command filter: a pattern finds what it spells out wherever it stands and however it
  is capitalized, and which commands of the same effect it does not find.
\<close>

lemma lower_code:
  "(of_char (lower_char c) :: nat) =
     (let n = (of_char c :: nat) in if (65 \<le> n \<and> n \<le> 90) \<or> (192 \<le> n \<and> n \<le> 222 \<and> n \<noteq> 215) then n + 32 else n)"
  by (auto simp: lower_char_def Let_def of_char_of)

lemma word_of_lower:
  assumes "lower_char c = d" "97 \<le> (of_char d :: nat)" "(of_char d :: nat) \<le> 122"
  shows "word_char c"
  using lower_code [of c] assms by (auto simp: word_char_def Let_def split: if_splits)

lemma spans_Then: "q \<in> set (spans a p) \<Longrightarrow> r \<in> set (spans b q) \<Longrightarrow> r \<in> set (spans (Then a b) p)"
  by auto

lemma spans_lit:
  "map lower_char u = map lower_char w \<Longrightarrow> (if u = [] then prev else Some (last u), t) \<in> set (spans (lit w) (prev, u @ t))"
proof (induction w arbitrary: u prev)
  case (Cons c w)
  then obtain d v where u: "u = d # v" "lower_char d = lower_char c" "map lower_char v = map lower_char w" by (cases u) auto
  have "(if v = [] then Some d else Some (last v), t) \<in> set (spans (lit w) (Some d, v @ t))" by (rule Cons.IH [OF u(3)])
  with u show ?case by (auto simp: lit_def in_order_def)
qed (simp add: lit_def in_order_def)

lemma spans_many: "list_all q u \<Longrightarrow> (if u = [] then prev else Some (last u), t) \<in> set (spans (Many q) (prev, u @ t))"
  unfolding spans.simps fst_conv snd_conv many_spans_iff by (intro exI [of _ u]) simp

lemma spans_spaces: "u \<noteq> [] \<Longrightarrow> list_all py_space u \<Longrightarrow> (Some (last u), t) \<in> set (spans spaces (prev, u @ t))"
proof -
  assume u: "u \<noteq> []" "list_all py_space u"
  then obtain c v where v: "u = c # v" by (cases u) auto
  with u spans_many [of py_space v "Some c" t] show ?thesis by (auto simp: spaces_def)
qed

lemma in_order_Cons: "q \<in> set (spans a p) \<Longrightarrow> r \<in> set (spans (in_order as) q) \<Longrightarrow> r \<in> set (spans (in_order (a # as)) p)"
  by (auto simp: in_order_def)

lemma in_order_Nil: "p \<in> set (spans (in_order []) p)"
  by (simp add: in_order_def)

text \<open>Every git subcommand pattern is entered the same way.\<close>

lemma git_prefix:
  assumes "map lower_char g = ''git''" "map lower_char w = map lower_char sub" "w \<noteq> []"
    and "ws1 \<noteq> []" "list_all py_space ws1" "ws2 \<noteq> []" "list_all py_space ws2" "list_all (\<lambda>c. c \<noteq> CHR 0x0A) mid"
    and "case prev of None \<Rightarrow> True | Some c \<Rightarrow> \<not> word_char c"
    and "r \<in> set (spans (in_order rest) (Some (last (ws2 @ mid)), t))"
  shows "r \<in> set (spans (in_order (git_command sub @ rest)) (prev, g @ ws1 @ w @ ws2 @ mid @ t))"
proof -
  have g: "g \<noteq> []" "word_char (hd g)" using assms(1) word_of_lower [of "hd g"] by (cases g; auto)+
  have "(prev, g @ ws1 @ w @ ws2 @ mid @ t) \<in> set (spans Boundary (prev, g @ ws1 @ w @ ws2 @ mid @ t))"
    using g assms(9) by (cases g) (auto simp: at_boundary_def split: option.splits)
  moreover have "(Some (last g), ws1 @ w @ ws2 @ mid @ t) \<in> set (spans (lit ''git'') (prev, g @ ws1 @ w @ ws2 @ mid @ t))"
    using spans_lit [of g "''git''" prev "ws1 @ w @ ws2 @ mid @ t"] assms(1) g(1) by (simp add: lower_char_def)
  moreover note spans_spaces [OF assms(4,5), of "w @ ws2 @ mid @ t" "Some (last g)"]
  moreover have "(Some (last w), ws2 @ mid @ t) \<in> set (spans (lit sub) (Some (last ws1), w @ ws2 @ mid @ t))"
    using spans_lit [OF assms(2), of "Some (last ws1)" "ws2 @ mid @ t"] assms(3) by simp
  moreover note spans_spaces [OF assms(6,7), of "mid @ t" "Some (last w)"]
  moreover have "(Some (last (ws2 @ mid)), t) \<in> set (spans anything (Some (last ws2), mid @ t))"
    using spans_many [OF assms(8), of "Some (last ws2)" t] by (cases mid) (simp_all add: anything_def)
  ultimately show ?thesis using assms(10)
    unfolding git_command_def append_Cons append_Nil by (intro in_order_Cons)
qed

text \<open>A forced push is found wherever it stands in a command: after anything that does not end in a word
character, in any capitalization, with any blanks between the words and anything but a line break before
the option, which is \<open>-f\<close> or \<open>--force\<close> as a word of its own.\<close>

theorem forced_push_is_destructive:
  assumes "map lower_char g = ''git''" "map lower_char w = ''push''" "map lower_char opt \<in> {''-f'', ''--force''}"
    and "ws1 \<noteq> []" "list_all py_space ws1" "ws2 \<noteq> []" "list_all py_space ws2" "list_all (\<lambda>c. c \<noteq> CHR 0x0A) mid"
    and "pre = [] \<or> \<not> word_char (last pre)" "post = [] \<or> \<not> word_char (hd post)"
  shows "is_destructive (pre @ g @ ws1 @ w @ ws2 @ mid @ opt @ post)"
proof -
  let ?alt = "one_of [Then (lit ''-f'') Boundary, Then (lit ''--force'') Boundary]"
  let ?q = "(Some (last opt), post)"
  have o: "opt \<noteq> []" using assms(3) by auto
  have "lower_char (last opt) = CHR ''f'' \<or> lower_char (last opt) = CHR ''e''"
    using assms(3) o by (auto simp: last_map [symmetric])
  then have "word_char (last opt)" using word_of_lower [of "last opt"] by auto
  then have b: "?q \<in> set (spans Boundary ?q)" using assms(10) by (cases post) (auto simp: at_boundary_def)
  have "?q \<in> set (spans (lit ''-f'') (p, opt @ post)) \<or> ?q \<in> set (spans (lit ''--force'') (p, opt @ post))" for p
    using spans_lit [of opt "''-f''" p post] spans_lit [of opt "''--force''" p post] assms(3) o by (auto simp: lower_char_def)
  then have "?q \<in> set (spans ?alt (p, opt @ post))" for p
    using b spans_Then by (fastforce simp: one_of_def)
  then have r: "?q \<in> set (spans (in_order [?alt]) (p, opt @ post))" for p
    by (rule in_order_Cons) (rule in_order_Nil)
  have "w \<noteq> []" "map lower_char w = map lower_char ''push''" using assms(2) by (auto simp: lower_char_def)
  then have "?q \<in> set (spans (in_order (git_command ''push'' @ [?alt]))
      (if pre = [] then None else Some (last pre), g @ ws1 @ w @ ws2 @ mid @ opt @ post))"
    using assms by (intro git_prefix [OF _ _ _ _ _ _ _ _ _ r]) auto
  then have "rx_search (in_order (git_command ''push'' @ [?alt])) None (pre @ g @ ws1 @ w @ ws2 @ mid @ opt @ post)"
    unfolding rx_search_iff by (intro exI [of _ pre] exI conjI) (auto intro: refl)
  then show ?thesis
    unfolding is_destructive_def destructive_command_patterns_def by simp
qed

lemma forced_push_is_destructive_witness: "is_destructive ''cd x; Git PUSH  origin --force''"
proof -
  have "map lower_char ''Git'' = ''git''" "map lower_char ''PUSH'' = ''push''" "map lower_char ''--force'' \<in> {''-f'', ''--force''}"
    "list_all py_space '' ''" "list_all py_space ''  ''" "list_all (\<lambda>c. c \<noteq> CHR 0x0A) ''origin ''" "\<not> word_char (last ''cd x; '')"
    by code_simp+
  then show ?thesis
    using forced_push_is_destructive [of "''Git''" "''PUSH''" "''--force''" "'' ''" "''  ''" "''origin ''" "''cd x; ''" "[]"] by simp
qed


section \<open>What the filter needs\<close>

lemma spans_suffix: "(x, t) \<in> set (spans r (p, s)) \<Longrightarrow> \<exists>u. s = u @ t"
proof (induction r arbitrary: p s x t)
  case (Then a b)
  then obtain y m where "(y, m) \<in> set (spans a (p, s))" "(x, t) \<in> set (spans b (y, m))" by auto
  with Then.IH(1) [OF this(1)] Then.IH(2) [OF this(2)] show ?case by auto
qed (auto simp: many_spans_iff split: list.splits if_splits)

lemma spans_litD: "(x, t) \<in> set (spans (lit w) (p, s)) \<Longrightarrow> \<exists>u. s = u @ t \<and> map lower_char u = map lower_char w"
proof (induction w arbitrary: p s)
  case (Cons c w)
  then obtain d v where d: "s = d # v" "lower_char d = lower_char c" "(x, t) \<in> set (spans (lit w) (Some d, v))"
    by (auto simp: lit_def in_order_def split: list.splits if_splits)
  from Cons.IH [OF d(3)] obtain u where "v = u @ t" "map lower_char u = map lower_char w" by blast
  with d show ?case by (intro exI [of _ "d # u"]) simp
qed (simp add: lit_def in_order_def)

lemma contains_str_iff: "contains_str p s \<longleftrightarrow> (\<exists>a b. s = a @ p @ b)"
proof (induction s)
  case (Cons c s)
  show ?case (is "?l \<longleftrightarrow> ?r")
  proof
    assume ?l
    then consider "starts_with p (c # s)" | "contains_str p s" by auto
    then show ?r
    proof cases
      case 1
      then show ?thesis unfolding starts_with_iff by (metis append_Nil)
    next
      case 2
      then show ?thesis using Cons by (metis append_Cons)
    qed
  next
    assume ?r
    then obtain a b where ab: "c # s = a @ p @ b" by blast
    show ?l
    proof (cases a)
      case Nil
      with ab show ?thesis by (metis append_Nil contains_str.simps(2) starts_with_append)
    next
      case (Cons d a')
      with ab have "s = a' @ p @ b" by simp
      with Cons.IH show ?thesis by auto
    qed
  qed
qed auto

lemma in_order_needs:
  "lit w \<in> set rs \<Longrightarrow> q \<in> set (spans (in_order rs) (p, s)) \<Longrightarrow> contains_str (map lower_char w) (map lower_char s)"
proof (induction rs arbitrary: p s)
  case (Cons r rs)
  obtain y m where m: "(y, m) \<in> set (spans r (p, s))" "q \<in> set (spans (in_order rs) (y, m))"
    using Cons.prems(2) by (auto simp: in_order_def)
  obtain u where u: "s = u @ m" using spans_suffix [OF m(1)] by blast
  show ?case
  proof (cases "r = lit w")
    case True
    with m(1) obtain v where v: "s = v @ m" "map lower_char v = map lower_char w" using spans_litD by blast
    then show ?thesis unfolding contains_str_iff by (intro exI [of _ "[]"] exI [of _ "map lower_char m"]) (simp flip: v(2))
  next
    case False
    with Cons.IH [OF _ m(2)] Cons.prems(1) show ?thesis
      unfolding u contains_str_iff by (fastforce simp: append_assoc [symmetric] simp del: append_assoc)
  qed
qed simp

lemma search_needs:
  assumes "rx_search (in_order rs) prev s" "lit w \<in> set rs"
  shows "contains_str (map lower_char w) (map lower_char s)"
proof -
  obtain u v where "s = u @ v" "spans (in_order rs) (if u = [] then prev else Some (last u), v) \<noteq> []"
    using assms(1) unfolding rx_search_iff by blast
  moreover from this obtain q where "q \<in> set (spans (in_order rs) (if u = [] then prev else Some (last u), v))"
    by (meson ex_in_conv set_empty)
  ultimately show ?thesis
    using in_order_needs [OF assms(2)] unfolding contains_str_iff
    by (metis append.assoc map_append)
qed


text \<open>An equivalent search that first looks for a word the pattern cannot do without.\<close>

definition keyed_patterns :: "(string \<times> rx list) list" where
  "keyed_patterns =
     [(''push'', git_command ''push'' @ [one_of [Then (lit ''-f'') Boundary, Then (lit ''--force'') Boundary]]),
      (''reset'', git_command ''reset'' @ [lit ''--hard'', Boundary]),
      (''clean'', git_command ''clean'' @
        [one_of [in_order [lit ''-'', Many letter, lit ''f''], Then (lit ''--force'') Boundary]]),
      (''branch'', git_command ''branch'' @
        [one_of [in_order [lit ''-'', any_of ''d'', Boundary], in_order [lit ''--delete'', spaces, lit ''--force'', Boundary]]]),
      (''checkout'', git_command ''checkout'' @ [one_of [Then (lit ''-f'') Boundary, Then (lit ''--force'') Boundary]]),
      (''rm'', [Boundary, lit ''rm'', spaces, lit ''-'', any_of ''rf'', Either (any_of ''rf'') Eps, spaces, one_of [lit ''/'', drive, lit ''~'']]),
      (''rmdir'', [Boundary, lit ''rmdir'', spaces, lit ''/s'', spaces, lit ''/q'', spaces, one_of [drive, lit ''/'']]),
      (''format'', [Boundary, lit ''format'', spaces, One letter, lit '':'']),
      (''Remove-Item'', [Boundary, lit ''Remove-Item'', spaces, anything, one_of [lit ''-r'', lit ''-recurse''], Boundary,
        anything, one_of [lit ''-f'', lit ''-force''], Boundary]),
      (''Remove-Item'', [Boundary, lit ''Remove-Item'', spaces, anything, one_of [lit ''-f'', lit ''-force''], Boundary,
        anything, one_of [lit ''-r'', lit ''-recurse''], Boundary]),
      (''del'', [Boundary, lit ''del'', spaces, anything, one_of [Then (lit ''/'') (any_of ''sfq''), lit ''/q'', lit ''/f''], Boundary,
        anything, one_of [drive, lit ''/'']]),
      (''|'', [Boundary, one_of [lit ''curl'', lit ''wget'', lit ''iwr''], spaces, anything, lit ''|'', Many py_space,
        one_of [lit ''ba'', lit ''z'', Eps], lit ''sh'', Boundary]),
      (''Invoke-Expression'', [Boundary, lit ''Invoke-Expression'', spaces, anything,
        one_of [lit ''Invoke-WebRequest'', lit ''iwr'', lit ''curl'', lit ''wget'']])]"

definition find_destructive :: "string \<Rightarrow> bool" where
  "find_destructive cmd = list_ex (\<lambda>(w, rs). if contains_str (map lower_char w) (map lower_char cmd)
     then rx_search (in_order rs) None cmd else False) keyed_patterns"

lemma keyed_patterns_all: "destructive_command_patterns = map (\<lambda>(w, rs). in_order rs) keyed_patterns"
  unfolding destructive_command_patterns_def keyed_patterns_def list.map prod.case ..

lemma keyed_patterns_needed: "list_all (\<lambda>(w, rs). lit w \<in> set rs) keyed_patterns"
  unfolding keyed_patterns_def git_command_def by simp

lemma find_destructive_eq: "is_destructive cmd = find_destructive cmd"
proof -
  have "contains_str (map lower_char w) (map lower_char cmd)" if "(w, rs) \<in> set keyed_patterns" "rx_search (in_order rs) None cmd" for w rs
    using search_needs [OF that(2), of w] keyed_patterns_needed that(1) by (auto simp: list_all_iff)
  note need = this
  show ?thesis
    unfolding is_destructive_def find_destructive_def keyed_patterns_all list_ex_iff by (auto dest: need) (metis prod.case)
qed

lemma keywords_lower:
  "map lower_char ''push'' = ''push''" "map lower_char ''reset'' = ''reset''" "map lower_char ''clean'' = ''clean''"
  "map lower_char ''branch'' = ''branch''" "map lower_char ''checkout'' = ''checkout''" "map lower_char ''rm'' = ''rm''"
  "map lower_char ''rmdir'' = ''rmdir''" "map lower_char ''format'' = ''format''" "map lower_char ''Remove-Item'' = ''remove-item''"
  "map lower_char ''del'' = ''del''" "map lower_char ''|'' = ''|''" "map lower_char ''Invoke-Expression'' = ''invoke-expression''"
  by code_simp+

text \<open>The filter knows spellings, not effects: separate options or the parent directory in a recursive
removal, and a refspec that forces the push, all pass.\<close>

theorem filter_misses_respellings:
  "\<not> is_destructive ''rm -r -f /'' \<and> \<not> is_destructive ''rm -rf ..'' \<and> \<not> is_destructive ''git push a +b''"
proof -
  have low: "map lower_char ''rm -r -f /'' = ''rm -r -f /''" "map lower_char ''rm -rf ..'' = ''rm -rf ..''"
    "map lower_char ''git push a +b'' = ''git push a +b''"
    by code_simp+
  have "\<not> rx_search (in_order [Boundary, lit ''rm'', spaces, lit ''-'', any_of ''rf'', Either (any_of ''rf'') Eps, spaces,
      one_of [lit ''/'', drive, lit ''~'']]) None ''rm -r -f /''" by code_simp
  moreover have "\<not> rx_search (in_order [Boundary, lit ''rm'', spaces, lit ''-'', any_of ''rf'', Either (any_of ''rf'') Eps, spaces,
      one_of [lit ''/'', drive, lit ''~'']]) None ''rm -rf ..''" by code_simp
  moreover have "\<not> rx_search (in_order (git_command ''push'' @ [one_of [Then (lit ''-f'') Boundary, Then (lit ''--force'') Boundary]]))
      None ''git push a +b''" by code_simp
  ultimately show ?thesis
    unfolding find_destructive_eq find_destructive_def keyed_patterns_def low
    by (simp add: keywords_lower starts_with_def del: list.map rx_search.simps spans.simps)
qed

end
