(* ===== verification/Policy_Gate.thy ===== *)
theory Policy_Gate
  imports Consensus Command_Filter
begin

text \<open>
  The policy gate of core/policy_gate.py: the request, its scope checks, the consensus that high-impact
  actions need, and the decision recorded in the audit ledger.

  \<open>resolve p\<close> are the \<open>parts\<close> of \<open>Path(p).resolve()\<close>, the anchor first, or \<^const>\<open>None\<close> when it raises a
  \<open>ValueError\<close>; \<open>root\<close> are those of the workspace. \<open>bad_netloc\<close> are the network locations \<open>urlparse\<close> raises
  for. Metadata are JSON values.
\<close>

section \<open>Requests\<close>

definition policy_actions :: "string list" where
  "policy_actions = [''ultra_mode'', ''browser_use'', ''computer_use'', ''safety_scan'', ''external_api'',
     ''file_mutation'', ''tool_execution'']"

definition policy_scopes :: "string list" where
  "policy_scopes = [''workspace'', ''session'', ''tenant'']"

definition consensus_required_actions :: "string list" where
  "consensus_required_actions = [''ultra_mode'', ''browser_use'', ''computer_use'', ''external_api'']"

text \<open>A certificate that lacks one of the keys the verifier reads is a \<open>Partial\<close> one, with its payload hash
if it has one.\<close>

datatype gate_certificate = Full certificate | Partial "string option"

record gate_request =
  gr_action :: string
  gr_scope :: string
  gr_session :: string
  gr_tenant :: string
  gr_actor :: string
  gr_resource :: "string option"
  gr_hash :: "string option"
  gr_certificate :: "gate_certificate option"
  gr_metadata :: "(string, json) dict"

definition is_hash_text :: "string \<Rightarrow> bool" where
  "is_hash_text s = (length s = 64 \<and> list_all (\<lambda>c. c \<in> set ''0123456789abcdef'') s)"

definition make_gate_request :: "gate_request \<Rightarrow> contract_error + gate_request" where
  "make_gate_request r = guarded
     [(gr_action r \<notin> set policy_actions, Bad_Field ''action''),
      (gr_scope r \<notin> set policy_scopes, Bad_Field ''scope''),
      (gr_session r = [], Bad_Field ''session_id''),
      (case gr_hash r of None \<Rightarrow> False | Some h \<Rightarrow> \<not> is_hash_text h, Bad_Field ''payload_hash'')] r"

definition payload_hash_for :: "gate_request \<Rightarrow> string" where
  "payload_hash_for r = sha256 (dumps Compact (JObj
     [(''action'', JStr (gr_action r)), (''scope'', JStr (gr_scope r)), (''session_id'', JStr (gr_session r)),
      (''tenant_id'', JStr (gr_tenant r)), (''actor'', JStr (gr_actor r)),
      (''resource'', (case gr_resource r of None \<Rightarrow> JNull | Some s \<Rightarrow> JStr s)), (''metadata'', JObj (gr_metadata r))]))"

definition truthy :: "json \<Rightarrow> bool" where
  "truthy v = (case v of JNull \<Rightarrow> False | JBool b \<Rightarrow> b | JInt i \<Rightarrow> i \<noteq> 0 | JFloat t \<Rightarrow> t \<noteq> ''0.0'' \<and> t \<noteq> ''-0.0''
     | JStr s \<Rightarrow> s \<noteq> [] | JArr xs \<Rightarrow> xs \<noteq> [] | JObj kvs \<Rightarrow> kvs \<noteq> [] | JPy t r i \<Rightarrow> \<not> empty_repr r)"

text \<open>\<open>d.get(k)\<close> with \<open>None\<close> as null, and \<open>a or b\<close>.\<close>

definition meta :: "gate_request \<Rightarrow> string \<Rightarrow> json" where
  "meta r k = dict_get_default (gr_metadata r) k JNull"

definition py_or :: "json \<Rightarrow> json \<Rightarrow> json" where
  "py_or a b = (if truthy a then a else b)"


section \<open>URLs\<close>

text \<open>The part of \<open>urlparse\<close> that is used: leading blanks and control characters go, line breaks and tabs
inside go, the scheme is the text before the first colon if it is one, the location follows two slashes.\<close>

definition scheme_char :: "char \<Rightarrow> bool" where
  "scheme_char c = (is_alnum_ascii c \<or> c \<in> set ''+-.'')"

definition url_clean :: "string \<Rightarrow> string" where
  "url_clean u = filter (\<lambda>c. c \<noteq> CHR 0x09 \<and> c \<noteq> CHR 0x0A \<and> c \<noteq> CHR 0x0D) (dropWhile (\<lambda>c. (of_char c :: nat) \<le> 32) u)"

definition url_scheme :: "string \<Rightarrow> string \<times> string" where
  "url_scheme u =
     (let pre = takeWhile (\<lambda>c. c \<noteq> CHR '':'') u
      in if length pre < length u \<and> pre \<noteq> [] \<and> letter (hd pre) \<and> list_all scheme_char pre
         then (lower pre, drop (length pre + 1) u) else ([], u))"

definition url_netloc :: "string \<Rightarrow> string" where
  "url_netloc rest =
     (if starts_with ''//'' rest then takeWhile (\<lambda>c. c \<notin> set ''/?#'') (drop 2 rest) else [])"

text \<open>Whether a user name or a password, non-empty, stands before the last at-sign.\<close>

definition has_credentials :: "string \<Rightarrow> bool" where
  "has_credentials netloc =
     (CHR ''@'' \<in> set netloc \<and>
      (let user = rev (tl (dropWhile (\<lambda>c. c \<noteq> CHR ''@'') (rev netloc)))
       in takeWhile (\<lambda>c. c \<noteq> CHR '':'') user \<noteq> [] \<or> tl (dropWhile (\<lambda>c. c \<noteq> CHR '':'') user) \<noteq> []))"


section \<open>Scope checks\<close>

datatype scope_denial =
    Tenant_Missing
  | Session_Missing
  | Destructive_Command string
  | Corrupt_Content corruption
  | Url_Not_Allowed
  | Url_Not_Https
  | Url_Credentials
  | Outside_Workspace
  | Role_Is_Read_Only string
  | Boundary_Crossed string string

datatype gate_failure = Gate_Value_Error | Gate_Type_Error

definition posix_join :: "string list \<Rightarrow> string" where
  "posix_join cs = (if cs = [] then ''.'' else join_with ''/'' cs)"

definition join_path :: "string list \<Rightarrow> string \<Rightarrow> string" where
  "join_path root p = ''/'' @ join_with ''/'' (tl root @ [p])"

definition strip_root :: "string list \<Rightarrow> string list \<Rightarrow> string list option" where
  "strip_root root p = (if take (length root) p = root then Some (drop (length root) p) else None)"

text \<open>The role check: a role that is no text is looked up as well, which raises for a list or an object.\<close>

definition role_check :: "gate_request \<Rightarrow> string \<Rightarrow> gate_failure + scope_denial option" where
  "role_check r rel =
     (let role = py_or (meta r ''role'') (if contains_str ''AGENT'' (gr_actor r) then JStr (gr_actor r) else JNull)
      in case role of
           JStr n \<Rightarrow>
             (case dict_get role_scope_restrictions n of
                None \<Rightarrow> Inr None
              | Some rule \<Rightarrow>
                  (if ro_read_only rule \<and> truthy (meta r ''is_write'') then Inr (Some (Role_Is_Read_Only n))
                   else if list_ex (\<lambda>f. starts_with f (replace_char (CHR 0x5C) (CHR ''/'') rel)) (ro_forbidden rule)
                   then Inr (Some (Boundary_Crossed n (replace_char (CHR 0x5C) (CHR ''/'') rel)))
                   else Inr None))
         | JArr xs \<Rightarrow> if xs = [] then Inr None else Inl Gate_Type_Error
         | JObj kvs \<Rightarrow> if kvs = [] then Inr None else Inl Gate_Type_Error
         | _ \<Rightarrow> Inr None)"

definition resource_check ::
    "(string \<Rightarrow> string list option) \<Rightarrow> (string \<Rightarrow> bool) \<Rightarrow> string list \<Rightarrow> gate_request \<Rightarrow> string
       \<Rightarrow> gate_failure + scope_denial option" where
  "resource_check resolve bad_netloc root r res =
     (case url_scheme (url_clean res) of
        (scheme, rest) \<Rightarrow>
          (let netloc = url_netloc rest
           in if bad_netloc netloc then Inl Gate_Value_Error
              else if (scheme = ''http'' \<or> scheme = ''https'') \<and> netloc \<noteq> []
              then (if gr_action r \<noteq> ''external_api'' then Inr (Some Url_Not_Allowed)
                    else if scheme \<noteq> ''https'' then Inr (Some Url_Not_Https)
                    else if has_credentials netloc then Inr (Some Url_Credentials)
                    else Inr None)
              else
                (case resolve (if starts_with ''/'' res then res else join_path root res) of
                   None \<Rightarrow> Inr (Some Outside_Workspace)
                 | Some p \<Rightarrow>
                     (case strip_root root p of
                        None \<Rightarrow> Inr (Some Outside_Workspace)
                      | Some rel \<Rightarrow> role_check r (posix_join rel)))))"

definition content_check :: "gate_request \<Rightarrow> scope_denial option" where
  "content_check r =
     (let target = py_or (case gr_resource r of None \<Rightarrow> JNull | Some s \<Rightarrow> JStr s)
            (py_or (meta r ''target_file'') (meta r ''file_path''))
      in case (meta r ''content'', target) of
           (JStr c, JStr f) \<Rightarrow>
             (if c \<noteq> [] \<and> f \<noteq> [] \<and> is_source_file f
              then (case check_seven_anti_corruption c of [] \<Rightarrow> None | v # vs \<Rightarrow> Some (Corrupt_Content v)) else None)
         | _ \<Rightarrow> None)"

definition command_check :: "gate_request \<Rightarrow> scope_denial option" where
  "command_check r =
     (case py_or (meta r ''command'') (meta r ''cmd'') of
        JStr c \<Rightarrow> if c \<noteq> [] \<and> is_destructive c then Some (Destructive_Command c) else None
      | _ \<Rightarrow> None)"

definition validate_scope ::
    "(string \<Rightarrow> string list option) \<Rightarrow> (string \<Rightarrow> bool) \<Rightarrow> string list \<Rightarrow> gate_request
       \<Rightarrow> gate_failure + scope_denial option" where
  "validate_scope resolve bad_netloc root r =
     (if gr_scope r = ''tenant'' \<and> gr_tenant r = [] then Inr (Some Tenant_Missing)
      else if gr_scope r = ''session'' \<and> gr_session r = [] then Inr (Some Session_Missing)
      else
        (case command_check r of
           Some d \<Rightarrow> Inr (Some d)
         | None \<Rightarrow>
             (case content_check r of
                Some d \<Rightarrow> Inr (Some d)
              | None \<Rightarrow>
                  (case gr_resource r of
                     None \<Rightarrow> Inr None
                   | Some res \<Rightarrow> if res = [] then Inr None else resource_check resolve bad_netloc root r res))))"

section \<open>Decisions\<close>

definition corruption_text :: "corruption \<Rightarrow> string" where
  "corruption_text v = (case v of
       Bare_Except \<Rightarrow> ''Anti-Corruption #4: Bare '' @ [CHR 0x27] @ ''except:'' @ [CHR 0x27] @
         '' detected. Typed failures only; catch specific exception classes.''
     | Empty_Catch \<Rightarrow> ''Anti-Corruption #4: Empty catch block detected. Silently swallowing exceptions is prohibited.''
     | Swallowed_Exception \<Rightarrow> ''Anti-Corruption #4: Swallowed Exception with '' @ [CHR 0x27] @ ''pass'' @ [CHR 0x27] @
         '' detected. Map to typed ErrorCode.'')"

definition denial_text :: "scope_denial \<Rightarrow> string" where
  "denial_text d = (case d of
       Tenant_Missing \<Rightarrow> ''tenant scope requires tenant_id''
     | Session_Missing \<Rightarrow> ''session scope requires session_id''
     | Destructive_Command c \<Rightarrow> ''Destructive shell command rejected by PolicyGate: '' @ [CHR 0x27] @ c @ [CHR 0x27]
     | Corrupt_Content v \<Rightarrow> ''Anti-Corruption violation rejected by PolicyGate: '' @ corruption_text v
     | Url_Not_Allowed \<Rightarrow> ''URL resources are only allowed for external API actions''
     | Url_Not_Https \<Rightarrow> ''external API resources require https''
     | Url_Credentials \<Rightarrow> ''external API resources must not embed credentials''
     | Outside_Workspace \<Rightarrow> ''resource outside workspace scope''
     | Role_Is_Read_Only n \<Rightarrow> ''Role '' @ n @ '' is read-only: '' @ ro_description (role_rule_of n)
     | Boundary_Crossed n rel \<Rightarrow> ''Boundary violation: '' @ ro_description (role_rule_of n) @ '' (attempted: '' @ rel @ '')'')"

record gate_state =
  gs_poc :: poc
  gs_ledger :: ledger
  gs_registry :: registry

record gate_decision =
  gd_allowed :: bool
  gd_action :: string
  gd_scope :: string
  gd_reason :: string
  gd_guard :: string
  gd_hash :: string
  gd_event :: int

definition cert_hash :: "gate_certificate \<Rightarrow> string option" where
  "cert_hash c = (case c of Full d \<Rightarrow> Some (ce_payload d) | Partial h \<Rightarrow> h)"

definition cert_content :: "gate_certificate \<Rightarrow> certificate option" where
  "cert_content c = (case c of Full d \<Rightarrow> Some d | Partial h \<Rightarrow> None)"

definition has_valid_consensus ::
    "(string \<Rightarrow> string option) \<Rightarrow> (nat \<Rightarrow> string \<Rightarrow> string) \<Rightarrow> gate_state \<Rightarrow> gate_request \<Rightarrow> string \<Rightarrow> poc \<times> bool" where
  "has_valid_consensus env tok st r h =
     (case gr_certificate r of
        Some c \<Rightarrow> if cert_hash c \<noteq> Some h then (gs_poc st, False)
                  else verify_consensus_certificate env tok (gs_poc st) (cert_content c)
      | None \<Rightarrow> is_consensus_approved env tok (gs_poc st) (gs_registry st) h)"

definition record_decision ::
    "gate_state \<Rightarrow> string \<Rightarrow> gate_request \<Rightarrow> bool \<Rightarrow> string \<Rightarrow> string \<Rightarrow> string \<Rightarrow> gate_state \<times> int" where
  "record_decision st time r allowed reason guard h =
     (case record_event (gs_ledger st) time ''policy_gate_decision'' (JObj
        [(''action'', JStr (gr_action r)), (''scope'', JStr (gr_scope r)), (''session_id'', JStr (gr_session r)),
         (''actor'', JStr (gr_actor r)), (''resource'', (case gr_resource r of None \<Rightarrow> JNull | Some s \<Rightarrow> JStr s)),
         (''allowed'', JBool allowed), (''reason'', JStr reason), (''required_guard'', JStr guard), (''payload_hash'', JStr h),
         (''metadata_keys'', JArr (map JStr (sort (dict_keys (gr_metadata r)))))]) (gr_tenant r) of
        (led, n) \<Rightarrow> (st\<lparr>gs_ledger := led\<rparr>, n))"

definition request_hash :: "gate_request \<Rightarrow> string" where
  "request_hash r = (case gr_hash r of Some h \<Rightarrow> if h = [] then payload_hash_for r else h | None \<Rightarrow> payload_hash_for r)"

definition evaluate ::
    "(string \<Rightarrow> string list option) \<Rightarrow> (string \<Rightarrow> bool) \<Rightarrow> string list \<Rightarrow> (string \<Rightarrow> string option) \<Rightarrow> (nat \<Rightarrow> string \<Rightarrow> string)
       \<Rightarrow> string \<Rightarrow> gate_state \<Rightarrow> gate_request \<Rightarrow> gate_state \<times> (gate_failure + gate_decision)" where
  "evaluate resolve bad_netloc root env tok time st r =
     (let h = request_hash r
      in case validate_scope resolve bad_netloc root r of
           Inl e \<Rightarrow> (st, Inl e)
         | Inr denial \<Rightarrow>
             (let (p, allowed, reason, guard) =
                (case denial of
                   Some d \<Rightarrow> (gs_poc st, False, denial_text d, ''scope_guard'')
                 | None \<Rightarrow>
                     (if gr_action r \<in> set consensus_required_actions
                      then (case has_valid_consensus env tok st r h of
                              (p, True) \<Rightarrow> (p, True, ''proof of consensus accepted'', ''proof_of_consensus'')
                            | (p, False) \<Rightarrow> (p, False, ''proof of consensus required'', ''proof_of_consensus''))
                      else (gs_poc st, True, ''audit-only policy accepted'', ''audit_only'')))
              in case record_decision (st\<lparr>gs_poc := p\<rparr>) time r allowed reason guard h of
                   (st1, n) \<Rightarrow>
                     (st1, Inr \<lparr>gd_allowed = allowed, gd_action = gr_action r, gd_scope = gr_scope r, gd_reason = reason,
                                gd_guard = guard, gd_hash = h, gd_event = n\<rparr>)))"

end
