(* ===== verification/Gate_Properties.thy ===== *)
theory Gate_Properties
  imports Policy_Gate Audit_Properties Consensus_Properties
begin

text \<open>
  Properties of the policy gate and of the filters it uses: every decision is recorded, high-impact
  actions need a certificate, allowed resources lie inside the workspace, and where a request can declare
  what it is checked against.
\<close>

section \<open>Decisions\<close>

lemma evaluate_Inr:
  assumes "evaluate resolve bad root env tok time st r = (st', Inr d)"
  obtains denial p where "validate_scope resolve bad root r = Inr denial"
    "gd_hash d = request_hash r" "gd_action d = gr_action r" "gd_scope d = gr_scope r"
    "gd_allowed d \<longleftrightarrow> denial = None \<and>
       (gr_action r \<in> set consensus_required_actions \<longrightarrow> has_valid_consensus env tok st r (request_hash r) = (p, True))"
    "(st', gd_event d) = record_decision (st\<lparr>gs_poc := p\<rparr>) time r (gd_allowed d) (gd_reason d) (gd_guard d) (request_hash r)"
proof -
  let ?h = "request_hash r"
  obtain denial where v: "validate_scope resolve bad root r = Inr denial"
    using assms by (auto simp: evaluate_def Let_def split: sum.splits)
  show ?thesis
  proof (cases "denial = None \<and> gr_action r \<in> set consensus_required_actions")
    case True
    obtain p ok where h: "has_valid_consensus env tok st r ?h = (p, ok)" by fastforce
    with True assms v that [of denial p] show ?thesis
      by (cases ok) (auto simp: evaluate_def Let_def split: prod.splits)
  next
    case False
    with assms v that [of denial "gs_poc st"] show ?thesis
      by (auto simp: evaluate_def Let_def split: prod.splits option.splits)
  qed
qed

lemma record_decision_ledger:
  assumes "(st', n) = record_decision st time r allowed reason guard h"
  shows "\<exists>payload. gs_ledger st' = fst (record_event (gs_ledger st) time ''policy_gate_decision'' payload (gr_tenant r))
    \<and> n = snd (record_event (gs_ledger st) time ''policy_gate_decision'' payload (gr_tenant r))
    \<and> (\<exists>kvs. payload = JObj kvs \<and> dict_get kvs ''allowed'' = Some (JBool allowed) \<and> dict_get kvs ''payload_hash'' = Some (JStr h)
         \<and> dict_get kvs ''action'' = Some (JStr (gr_action r)))
    \<and> gs_poc st' = gs_poc st \<and> gs_registry st' = gs_registry st"
proof -
  define kvs where "kvs = [(''action'', JStr (gr_action r)), (''scope'', JStr (gr_scope r)), (''session_id'', JStr (gr_session r)),
     (''actor'', JStr (gr_actor r)), (''resource'', (case gr_resource r of None \<Rightarrow> JNull | Some s \<Rightarrow> JStr s)),
     (''allowed'', JBool allowed), (''reason'', JStr reason), (''required_guard'', JStr guard), (''payload_hash'', JStr h),
     (''metadata_keys'', JArr (map JStr (sort (dict_keys (gr_metadata r)))))]"
  have "(st', n) = (case record_event (gs_ledger st) time ''policy_gate_decision'' (JObj kvs) (gr_tenant r) of
      (led, n) \<Rightarrow> (st\<lparr>gs_ledger := led\<rparr>, n))"
    unfolding assms record_decision_def kvs_def ..
  moreover have "dict_get kvs ''allowed'' = Some (JBool allowed)" "dict_get kvs ''payload_hash'' = Some (JStr h)"
    "dict_get kvs ''action'' = Some (JStr (gr_action r))"
    by (simp_all add: kvs_def dict_get_def)
  ultimately show ?thesis by (intro exI [of _ "JObj kvs"]) (simp split: prod.splits)
qed

lemma evaluate_audit_only:
  assumes "validate_scope resolve bad root r = Inr None" "gr_action r \<notin> set consensus_required_actions"
  shows "\<exists>st' d. evaluate resolve bad root env tok time st r = (st', Inr d) \<and> gd_allowed d \<and> gd_action d = gr_action r
    \<and> gs_poc st' = gs_poc st"
  using assms by (auto simp: evaluate_def Let_def record_decision_def split: prod.splits)

lemma evaluate_consensus_ok:
  assumes "validate_scope resolve bad root r = Inr None" "gr_action r \<in> set consensus_required_actions"
    and "has_valid_consensus env tok st r (request_hash r) = (p, True)"
  shows "\<exists>st' d. evaluate resolve bad root env tok time st r = (st', Inr d) \<and> gd_allowed d \<and> gd_action d = gr_action r
    \<and> gs_poc st' = p"
  using assms by (auto simp: evaluate_def Let_def record_decision_def split: prod.splits)

text \<open>A sequence of requests, up to the first that raises.\<close>

fun evaluate_all ::
    "(string \<Rightarrow> string list option) \<Rightarrow> (string \<Rightarrow> bool) \<Rightarrow> string list \<Rightarrow> (string \<Rightarrow> string option) \<Rightarrow> (nat \<Rightarrow> string \<Rightarrow> string)
       \<Rightarrow> gate_state \<Rightarrow> (string \<times> gate_request) list \<Rightarrow> gate_state \<times> gate_decision list" where
  "evaluate_all resolve bad root env tok st [] = (st, [])"
| "evaluate_all resolve bad root env tok st ((time, r) # rs) =
     (case evaluate resolve bad root env tok time st r of
        (st1, Inl e) \<Rightarrow> (st1, [])
      | (st1, Inr d) \<Rightarrow> (case evaluate_all resolve bad root env tok st1 rs of (st2, ds) \<Rightarrow> (st2, d # ds)))"

lemma evaluate_all_records:
  "evaluate_all resolve bad root env tok st rs = (st', ds) \<Longrightarrow>
     \<exists>evs. gs_ledger st' = ledger_log.record_all evs (gs_ledger st) \<and> length evs = length ds"
proof (induction resolve bad root env tok st rs arbitrary: st' ds rule: evaluate_all.induct)
  case (1 resolve bad root env tok st)
  then show ?case by (intro exI [of _ "[]"]) (simp add: ledger_log.record_all_def)
next
  case (2 resolve bad root env tok st time r rs)
  obtain st1 res where e: "evaluate resolve bad root env tok time st r = (st1, res)" by fastforce
  show ?case
  proof (cases res)
    case (Inl x)
    with e have "st1 = st" by (auto simp: evaluate_def Let_def split: sum.splits prod.splits)
    with 2(2) e Inl show ?thesis by (intro exI [of _ "[]"]) (simp add: ledger_log.record_all_def)
  next
    case (Inr d)
    obtain st2 ds2 where a: "evaluate_all resolve bad root env tok st1 rs = (st2, ds2)" by fastforce
    from 2(1) [OF e [symmetric] Inr a] obtain evs where
      evs: "gs_ledger st2 = ledger_log.record_all evs (gs_ledger st1)" "length evs = length ds2" by blast
    obtain denial p where "(st1, gd_event d) = record_decision (st\<lparr>gs_poc := p\<rparr>) time r (gd_allowed d) (gd_reason d) (gd_guard d) (request_hash r)"
      by (rule evaluate_Inr [OF e [unfolded Inr]])
    from record_decision_ledger [OF this] obtain payload where
      "gs_ledger st1 = fst (record_event (gs_ledger st) time ''policy_gate_decision'' payload (gr_tenant r))" by auto
    then have "gs_ledger st2 = ledger_log.record_all ((time, ''policy_gate_decision'', payload, gr_tenant r) # evs) (gs_ledger st)"
      using evs by (simp add: ledger_log.record_all_def)
    with 2(2) e Inr a evs(2) show ?thesis
      by (intro exI [of _ "(time, ''policy_gate_decision'', payload, gr_tenant r) # evs"]) auto
  qed
qed

text \<open>Every decision of the gate, allowed or denied, is in the audit ledger: each appends a row whose
identifier the decision carries and whose text says the action, the payload hash and whether it was
allowed. Over any sequence of requests there are as many new rows as decisions, and a consistent ledger
stays consistent.\<close>

theorem every_decision_is_recorded:
  assumes "evaluate_all resolve bad root env tok st0 rs = (st, ds)" "evaluate resolve bad root env tok time st r = (st', Inr d)"
  shows "length (lg_rows (gs_ledger st)) = length (lg_rows (gs_ledger st0)) + length ds
    \<and> (ledger_ok (gs_ledger st0) \<longrightarrow> ledger_ok (gs_ledger st'))
    \<and> (\<exists>row kvs. lg_rows (gs_ledger st') = lg_rows (gs_ledger st) @ [row]
        \<and> row_says row ''policy_gate_decision'' (JObj kvs) (gr_tenant r) (gd_event d)
        \<and> dict_get kvs ''allowed'' = Some (JBool (gd_allowed d)) \<and> dict_get kvs ''payload_hash'' = Some (JStr (gd_hash d))
        \<and> dict_get kvs ''action'' = Some (JStr (gr_action r)))"
proof -
  obtain evs where evs: "gs_ledger st = ledger_log.record_all evs (gs_ledger st0)" "length evs = length ds"
    using evaluate_all_records [OF assms(1)] by blast
  obtain denial p where d: "gd_hash d = request_hash r"
    "(st', gd_event d) = record_decision (st\<lparr>gs_poc := p\<rparr>) time r (gd_allowed d) (gd_reason d) (gd_guard d) (request_hash r)"
    by (rule evaluate_Inr [OF assms(2)])
  from record_decision_ledger [OF d(2)] obtain kvs where
    led: "gs_ledger st' = fst (record_event (gs_ledger st) time ''policy_gate_decision'' (JObj kvs) (gr_tenant r))"
    and n: "gd_event d = snd (record_event (gs_ledger st) time ''policy_gate_decision'' (JObj kvs) (gr_tenant r))"
    and kvs: "dict_get kvs ''allowed'' = Some (JBool (gd_allowed d))" "dict_get kvs ''payload_hash'' = Some (JStr (gd_hash d))"
      "dict_get kvs ''action'' = Some (JStr (gr_action r))"
    using d(1) by auto
  obtain row where row: "lg_rows (gs_ledger st') = lg_rows (gs_ledger st) @ [row]"
      "row_says row ''policy_gate_decision'' (JObj kvs) (gr_tenant r) (gd_event d)"
    unfolding led n using ledger_log.record_appends by blast
  moreover have "length (lg_rows (gs_ledger st)) = length (lg_rows (gs_ledger st0)) + length ds"
    using ledger_log.record_all_rows [of evs "gs_ledger st0"] evs by auto
  moreover have "ledger_ok (gs_ledger st0) \<longrightarrow> ledger_ok (gs_ledger st')"
    unfolding led evs(1) using ledger_log.record_all_inv ledger_log.record_keeps_inv by blast
  ultimately show ?thesis using kvs by blast
qed


definition gate_start :: gate_state where
  "gate_start = \<lparr>gs_poc = fresh_poc, gs_ledger = empty_ledger, gs_registry = []\<rparr>"

definition gate_call :: "string \<Rightarrow> string option \<Rightarrow> string option \<Rightarrow> gate_certificate option \<Rightarrow> gate_request" where
  "gate_call action res h c = \<lparr>gr_action = action, gr_scope = ''workspace'', gr_session = ''s'', gr_tenant = default_tenant,
     gr_actor = ''system'', gr_resource = res, gr_hash = h, gr_certificate = c, gr_metadata = []\<rparr>"

lemma gate_call_scope:
  "validate_scope resolve bad root (gate_call action None h c) = Inr None"
  by (simp add: validate_scope_def gate_call_def command_check_def content_check_def meta_def py_or_def truthy_def
      dict_get_default_def Let_def)

lemma every_decision_is_recorded_witness:
  "\<exists>st' d. evaluate (\<lambda>_. None) (\<lambda>_. False) [''/''] test_env (\<lambda>_ _. []) ''t'' gate_start (gate_call ''safety_scan'' None None None) = (st', Inr d)
     \<and> length (lg_rows (gs_ledger st')) = 1"
proof -
  have "gr_action (gate_call ''safety_scan'' None None None) \<notin> set consensus_required_actions"
    by (simp add: gate_call_def consensus_required_actions_def)
  from evaluate_audit_only [OF gate_call_scope this] obtain st' d where
    e: "evaluate (\<lambda>_. None) (\<lambda>_. False) [''/''] test_env (\<lambda>_ _. []) ''t'' gate_start (gate_call ''safety_scan'' None None None) = (st', Inr d)"
    by blast
  have "evaluate_all (\<lambda>_. None) (\<lambda>_. False) [''/''] test_env (\<lambda>_ _. []) gate_start [] = (gate_start, [])" by simp
  from every_decision_is_recorded [OF this e] e show ?thesis by (auto simp: gate_start_def empty_ledger_def)
qed


section \<open>Consensus\<close>

text \<open>C4: With every role's key loaded and no key rotated by the call, a high-impact action is allowed only by consensus: a
certificate that the request carries for its own payload hash, or one that the registry holds under that hash, whose
list of approvals names members in good standing with their right signatures at least three times, and whose master
signature is over exactly these entries. If the list has no repetitions these are three different members; the verifier
does not exclude repetitions.\<close>

theorem high_impact_needs_consensus:
  assumes "evaluate resolve bad root env tok time st r = (st', Inr d)" "gd_allowed d"
    and "gr_action r \<in> set consensus_required_actions"
    and "keys_loaded (gs_poc st)" "pc_rotations (gs_poc st') = pc_rotations (gs_poc st)"
  shows "\<exists>c ws. (gr_certificate r = Some (Full c) \<and> ce_payload c = gd_hash d
        \<or> gr_certificate r = None \<and> dict_get (gs_registry st) (gd_hash d) = Some (Some c))
    \<and> ws = filter (\<lambda>m. m \<in> set swarm_roles \<and> \<not> is_quarantined (gs_poc st) m
        \<and> dict_get (ce_signatures c) m = Some (role_signature (gs_poc st) m (ce_payload c))) (ce_approvals c)
    \<and> 3 \<le> length ws \<and> (distinct (ce_approvals c) \<longrightarrow> 3 \<le> card (set ws))
    \<and> ce_consensus c = master_signature (ce_payload c) ws (pc_key (gs_poc st))"
proof -
  obtain denial p where d: "validate_scope resolve bad root r = Inr denial"
    "gd_hash d = request_hash r" "gd_action d = gr_action r" "gd_scope d = gr_scope r"
    "gd_allowed d \<longleftrightarrow> denial = None \<and>
       (gr_action r \<in> set consensus_required_actions \<longrightarrow> has_valid_consensus env tok st r (request_hash r) = (p, True))"
    "(st', gd_event d) = record_decision (st\<lparr>gs_poc := p\<rparr>) time r (gd_allowed d) (gd_reason d) (gd_guard d) (request_hash r)"
    by (rule evaluate_Inr [OF assms(1)])
  then have h: "has_valid_consensus env tok st r (gd_hash d) = (p, True)" using assms(2,3) by simp
  have p: "gs_poc st' = p" using record_decision_ledger [OF d(6)] by auto
  obtain c where c: "gr_certificate r = Some (Full c) \<and> ce_payload c = gd_hash d
        \<or> gr_certificate r = None \<and> dict_get (gs_registry st) (gd_hash d) = Some (Some c)"
    "verify_consensus_certificate env tok (gs_poc st) (Some c) = (p, True)"
  proof (cases "gr_certificate r")
    case None
    then obtain x where x: "dict_get (gs_registry st) (gd_hash d) = Some x" "verify_consensus_certificate env tok (gs_poc st) x = (p, True)"
      using h by (auto simp: has_valid_consensus_def is_consensus_approved_def split: option.splits)
    then show ?thesis using None that by (cases x) (auto simp: verify_consensus_certificate_def)
  next
    case (Some x)
    then show ?thesis
      using h that by (cases x) (auto simp: has_valid_consensus_def cert_hash_def cert_content_def verify_consensus_certificate_def split: if_splits)
  qed
  obtain ws where ws: "ws = filter (\<lambda>m. m \<in> set swarm_roles \<and> \<not> is_quarantined (gs_poc st) m
        \<and> dict_get (ce_signatures c) m = Some (role_signature (gs_poc st) m (ce_payload c))) (ce_approvals c)"
    "3 \<le> length ws" "ce_consensus c = master_signature (ce_payload c) ws (pc_key (gs_poc st))"
    using accepted_signed [OF assms(4) c(2)] assms(5) p by blast
  moreover have "3 \<le> card (set ws)" if "distinct (ce_approvals c)"
  proof -
    have "distinct ws" unfolding ws(1) by (rule distinct_filter) (rule that)
    from distinct_card [OF this] ws(2) show ?thesis by simp
  qed
  ultimately show ?thesis using c(1) by blast
qed

lemma trio_verifies: "verify_consensus_certificate test_env (\<lambda>_ _. []) fresh_poc (Some trio_certificate) = (fresh_poc, True)"
  "ce_payload trio_certificate = ''h''"
  using created_ok [OF fresh_poc_loaded trio_certificate] by blast+

lemma trio_call_allowed:
  "\<exists>st' d. evaluate (\<lambda>_. None) (\<lambda>_. False) [''/''] test_env (\<lambda>_ _. []) ''t'' gate_start
       (gate_call ''ultra_mode'' None (Some ''h'') (Some (Full trio_certificate))) = (st', Inr d)
     \<and> gd_allowed d \<and> gs_poc st' = fresh_poc"
proof -
  let ?r = "gate_call ''ultra_mode'' None (Some ''h'') (Some (Full trio_certificate))"
  have "gr_action ?r \<in> set consensus_required_actions" by (simp add: gate_call_def consensus_required_actions_def)
  moreover have "has_valid_consensus test_env (\<lambda>_ _. []) gate_start ?r (request_hash ?r) = (fresh_poc, True)"
    by (simp add: has_valid_consensus_def gate_call_def cert_hash_def cert_content_def request_hash_def trio_verifies gate_start_def)
  ultimately show ?thesis using evaluate_consensus_ok [OF gate_call_scope] by blast
qed

lemma high_impact_needs_consensus_witness:
  "3 \<le> length (filter (\<lambda>m. m \<in> set swarm_roles \<and> \<not> is_quarantined fresh_poc m
        \<and> dict_get (ce_signatures trio_certificate) m = Some (role_signature fresh_poc m ''h'')) (ce_approvals trio_certificate))"
proof -
  let ?r = "gate_call ''ultra_mode'' None (Some ''h'') (Some (Full trio_certificate))"
  obtain st' d where e: "evaluate (\<lambda>_. None) (\<lambda>_. False) [''/''] test_env (\<lambda>_ _. []) ''t'' gate_start ?r = (st', Inr d)"
    "gd_allowed d" "gs_poc st' = fresh_poc"
    using trio_call_allowed by blast
  have "gr_action ?r \<in> set consensus_required_actions" "keys_loaded (gs_poc gate_start)" "pc_rotations (gs_poc st') = pc_rotations (gs_poc gate_start)"
    using e(3) fresh_poc_loaded by (simp_all add: gate_call_def consensus_required_actions_def gate_start_def)
  from high_impact_needs_consensus [OF e(1,2) this] show ?thesis
    using trio_verifies(2) by (auto simp: gate_call_def gate_start_def)
qed

text \<open>The hash a request is checked against is the one it declares: a certificate made for one request
allows any other request within scope that declares the first one's hash, whatever its action,
resource or metadata.\<close>

theorem declared_hash_is_trusted:
  assumes "keys_loaded (gs_poc st)" "create_consensus_certificate env (gs_poc st) t0 (payload_hash_for r0) approved = (p, Inr c)"
    and "gr_hash r = Some (payload_hash_for r0)" "gr_certificate r = Some (Full c)"
    and "validate_scope resolve bad root r = Inr None"
  shows "\<exists>st' d. evaluate resolve bad root env tok time st r = (st', Inr d) \<and> gd_allowed d \<and> gd_action d = gr_action r"
proof -
  note ok = created_ok [OF assms(1,2)]
  have "length (payload_hash_for r0) = 64" by (simp add: payload_hash_for_def)
  then have h: "request_hash r = payload_hash_for r0" using assms(3) by (auto simp: request_hash_def)
  have "has_valid_consensus env tok st r (request_hash r) = (gs_poc st, True)"
    using ok assms(4) h by (simp add: has_valid_consensus_def cert_hash_def cert_content_def)
  then show ?thesis
    using evaluate_consensus_ok [OF assms(5)] evaluate_audit_only [OF assms(5)]
    by (cases "gr_action r \<in> set consensus_required_actions") blast+
qed

lemma declared_hash_is_trusted_witness:
  "\<exists>c st' d. ce_payload c = payload_hash_for (gate_call ''safety_scan'' None None None)
     \<and> evaluate (\<lambda>_. None) (\<lambda>_. False) [''/''] test_env (\<lambda>_ _. []) ''t'' gate_start
         (gate_call ''ultra_mode'' None (Some (ce_payload c)) (Some (Full c))) = (st', Inr d) \<and> gd_allowed d"
proof -
  let ?h = "payload_hash_for (gate_call ''safety_scan'' None None None)"
  have "map lower [''ceo'', ''cto'', ''qa''] = [''ceo'', ''cto'', ''qa'']" by code_simp
  then obtain c where c: "create_consensus_certificate test_env fresh_poc ''t'' ?h [''ceo'', ''cto'', ''qa''] = (fresh_poc, Inr c)"
    unfolding create_loaded [OF fresh_poc_loaded refl] by (simp add: swarm_roles_def is_quarantined_def fresh_poc_def del: list.map)
  have p: "ce_payload c = ?h" using created_ok [OF fresh_poc_loaded c] by blast
  let ?r = "gate_call ''ultra_mode'' None (Some ?h) (Some (Full c))"
  have "keys_loaded (gs_poc gate_start)" "create_consensus_certificate test_env (gs_poc gate_start) ''t'' ?h [''ceo'', ''cto'', ''qa''] = (fresh_poc, Inr c)"
    using fresh_poc_loaded c by (simp_all add: gate_start_def)
  moreover have "gr_hash ?r = Some ?h" "gr_certificate ?r = Some (Full c)" by (simp_all add: gate_call_def [of "''ultra_mode''"])
  ultimately show ?thesis
    using declared_hash_is_trusted [OF _ _ _ _ gate_call_scope, of gate_start test_env "''t''"] p by metis
qed


section \<open>Scope\<close>

lemma role_check_None:
  assumes "role_check r rel = Inr None"
    and "py_or (meta r ''role'') (if contains_str ''AGENT'' (gr_actor r) then JStr (gr_actor r) else JNull) = JStr n"
    and "dict_get role_scope_restrictions n = Some rule"
  shows "\<not> (ro_read_only rule \<and> truthy (meta r ''is_write''))
    \<and> (\<forall>f \<in> set (ro_forbidden rule). \<not> starts_with f (replace_char (CHR 0x5C) (CHR ''/'') rel))"
  using assms by (auto simp: role_check_def Let_def list_ex_iff split: if_splits)

lemma strip_root_Some: "strip_root root p = Some rel \<Longrightarrow> p = root @ rel"
  by (auto simp: strip_root_def split: if_splits) (metis append_take_drop_id)

lemma resource_check_None:
  assumes "resource_check resolve bad root r res = Inr None"
  shows "(gr_action r = ''external_api'' \<and> fst (url_scheme (url_clean res)) = ''https''
        \<and> \<not> has_credentials (url_netloc (snd (url_scheme (url_clean res)))))
    \<or> (\<exists>rel. resolve (if starts_with ''/'' res then res else join_path root res) = Some (root @ rel)
        \<and> role_check r (posix_join rel) = Inr None)"
  using assms strip_root_Some
  by (auto simp: resource_check_def Let_def split: prod.splits if_splits option.splits) 

definition role_of_request :: "gate_request \<Rightarrow> json" where
  "role_of_request r = py_or (meta r ''role'') (if contains_str ''AGENT'' (gr_actor r) then JStr (gr_actor r) else JNull)"

text \<open>C34: What the gate allows stays in scope. A non-empty resource is a URL of an external API call, with https and
without credentials, or a path that resolves into the workspace; for a role that the table of restrictions has an entry
for, such a path is outside the forbidden prefixes of that entry and, if the entry is read-only, the request is no
write. The command, that is \<open>command\<close> of the metadata or, if that is empty, \<open>cmd\<close>, is not destructive. A request in
tenant scope names its tenant, one in session scope its session.\<close>

theorem allowed_request_is_in_scope:
  assumes "evaluate resolve bad root env tok time st r = (st', Inr d)" "gd_allowed d"
  shows "(\<forall>res. gr_resource r = Some res \<and> res \<noteq> [] \<longrightarrow>
        (gr_action r = ''external_api'' \<and> fst (url_scheme (url_clean res)) = ''https''
          \<and> \<not> has_credentials (url_netloc (snd (url_scheme (url_clean res)))))
        \<or> (\<exists>rel. resolve (if starts_with ''/'' res then res else join_path root res) = Some (root @ rel)
          \<and> (\<forall>n rule. role_of_request r = JStr n \<and> dict_get role_scope_restrictions n = Some rule \<longrightarrow>
               \<not> (ro_read_only rule \<and> truthy (meta r ''is_write''))
               \<and> (\<forall>f \<in> set (ro_forbidden rule). \<not> starts_with f (replace_char (CHR 0x5C) (CHR ''/'') (posix_join rel))))))
    \<and> (\<forall>c. py_or (meta r ''command'') (meta r ''cmd'') = JStr c \<longrightarrow> c = [] \<or> \<not> is_destructive c)
    \<and> (gr_scope r = ''tenant'' \<longrightarrow> gr_tenant r \<noteq> []) \<and> (gr_scope r = ''session'' \<longrightarrow> gr_session r \<noteq> [])"
proof -
  obtain denial p where d: "validate_scope resolve bad root r = Inr denial"
    "gd_hash d = request_hash r" "gd_action d = gr_action r" "gd_scope d = gr_scope r"
    "gd_allowed d \<longleftrightarrow> denial = None \<and>
       (gr_action r \<in> set consensus_required_actions \<longrightarrow> has_valid_consensus env tok st r (request_hash r) = (p, True))"
    "(st', gd_event d) = record_decision (st\<lparr>gs_poc := p\<rparr>) time r (gd_allowed d) (gd_reason d) (gd_guard d) (request_hash r)"
    by (rule evaluate_Inr [OF assms(1)])
  then have v: "validate_scope resolve bad root r = Inr None" using assms(2) by simp
  then have sc: "\<not> (gr_scope r = ''tenant'' \<and> gr_tenant r = [])" "\<not> (gr_scope r = ''session'' \<and> gr_session r = [])"
    and cc: "command_check r = None"
    by (auto simp: validate_scope_def split: if_splits option.splits)
  have "(gr_action r = ''external_api'' \<and> fst (url_scheme (url_clean res)) = ''https''
          \<and> \<not> has_credentials (url_netloc (snd (url_scheme (url_clean res)))))
        \<or> (\<exists>rel. resolve (if starts_with ''/'' res then res else join_path root res) = Some (root @ rel)
          \<and> (\<forall>n rule. role_of_request r = JStr n \<and> dict_get role_scope_restrictions n = Some rule \<longrightarrow>
               \<not> (ro_read_only rule \<and> truthy (meta r ''is_write''))
               \<and> (\<forall>f \<in> set (ro_forbidden rule). \<not> starts_with f (replace_char (CHR 0x5C) (CHR ''/'') (posix_join rel)))))"
    if res: "gr_resource r = Some res" "res \<noteq> []" for res
  proof -
    have "resource_check resolve bad root r res = Inr None"
      using v res by (auto simp: validate_scope_def split: if_splits option.splits)
    from resource_check_None [OF this] role_check_None [of r, folded role_of_request_def] show ?thesis by blast
  qed
  moreover have "c = [] \<or> \<not> is_destructive c" if "py_or (meta r ''command'') (meta r ''cmd'') = JStr c" for c
    using cc that by (auto simp: command_check_def split: if_splits)
  ultimately show ?thesis using sc by blast
qed

definition agent_call :: gate_request where
  "agent_call = (gate_call ''file_mutation'' (Some ''docs/a.md'') None None)\<lparr>gr_actor := ''UI_UX_AGENT''\<rparr>"

lemma allowed_request_is_in_scope_witness:
  "\<exists>st' d. evaluate plain_resolve (\<lambda>_. False) [''/'', ''w''] test_env (\<lambda>_ _. []) ''t'' gate_start agent_call = (st', Inr d) \<and> gd_allowed d
     \<and> (\<exists>rel. plain_resolve ''/w/docs/a.md'' = Some ([''/'', ''w''] @ rel))"
proof -
  have v: "validate_scope plain_resolve (\<lambda>_. False) [''/'', ''w''] agent_call = Inr None" by code_simp
  have a: "gr_action agent_call \<notin> set consensus_required_actions" by (simp add: agent_call_def gate_call_def consensus_required_actions_def)
  obtain st' d where e: "evaluate plain_resolve (\<lambda>_. False) [''/'', ''w''] test_env (\<lambda>_ _. []) ''t'' gate_start agent_call = (st', Inr d)" "gd_allowed d"
    using evaluate_audit_only [OF v a] by blast
  have r: "gr_resource agent_call = Some ''docs/a.md''" "''docs/a.md'' \<noteq> []"
    "(if starts_with ''/'' ''docs/a.md'' then ''docs/a.md'' else join_path [''/'', ''w''] ''docs/a.md'') = ''/w/docs/a.md''"
    "gr_action agent_call \<noteq> ''external_api''"
    by code_simp+
  from allowed_request_is_in_scope [OF e] e r show ?thesis by fastforce
qed

end
