(* ===== verification/Agent_Executor.thy ===== *)
theory Agent_Executor
  imports Task_Environment Policy_Gate
begin

text \<open>
  Governed execution (core/agent_executor.py): the scope guard, the tools inside a worktree, and the
  executor with its turn limit and its evidence.

  \<open>resolve p\<close> are the parts of \<open>Path(p).resolve()\<close>, \<^const>\<open>None\<close> when it raises; the files are the contents
  at resolved paths. The shell and \<open>git diff\<close> are parameters that may change the files or raise; writing a
  file and making its directories succeed. The policy gate is only asked whether there is one: what it
  decides is the model of that component. The repair of malformed arguments
  is a parameter here, and Protocol_Repair's model of core/protocol_repair.py an instance of it.
\<close>

section \<open>Data\<close>

datatype exec_error =
    Scope_Expansion string string "string list"
  | Security_Violation string
  | Invalid_Request contract_error
  | Gate_Raised gate_failure
  | Path_Value_Error
  | Argument_Error
  | Missing_Argument string
  | File_Missing string
  | Command_Raised
  | Unknown_Tool string
  | Repair_Error string

record tool_evidence =
  ev_tool :: string
  ev_arguments :: "(string, json) dict"
  ev_exit :: int
  ev_snippet :: string
  ev_duration :: int
  ev_time :: string
  ev_hash :: string

datatype verification_status = V_Pass | V_Fail | V_Blocked | V_Not_Run | V_Unverified

record attempt =
  at_id :: string
  at_task :: string
  at_role :: string
  at_turns :: int
  at_max :: int
  at_status :: verification_status
  at_trail :: "tool_evidence list"
  at_error :: "string option"

type_synonym files = "string list \<Rightarrow> string option"

text \<open>The guard: the environment, the parts of the worktree, and the evaluation of the policy gate if one is
configured, over the state of the gate.\<close>

record guard =
  gu_env :: task_env
  gu_root :: "string list"
  gu_gate :: "(gate_state \<Rightarrow> gate_request \<Rightarrow> gate_state \<times> (gate_failure + gate_decision)) option"


section \<open>The guard\<close>

definition resolve_and_verify_path ::
    "(string \<Rightarrow> string list option) \<Rightarrow> guard \<Rightarrow> string \<Rightarrow> exec_error + (string list \<times> string)" where
  "resolve_and_verify_path resolve gu path =
     (case resolve (join_path (gu_root gu) (clean_path path)) of
        None \<Rightarrow> Inl Path_Value_Error
      | Some p \<Rightarrow>
          (case strip_root (gu_root gu) p of
             None \<Rightarrow> Inl (Security_Violation ''path traversal'')
           | Some rel \<Rightarrow> Inr (p, posix_join rel)))"

definition gate_call_for :: "task_env \<Rightarrow> string \<Rightarrow> (string, json) dict \<Rightarrow> exec_error + gate_request" where
  "gate_call_for e tool args =
     (let res = py_or (dict_get_default args ''file_path'' JNull) (py_or (dict_get_default args ''command'' JNull) (JStr tool))
      in case res of
           JStr s \<Rightarrow>
             (case make_gate_request \<lparr>gr_action = tool, gr_scope = ''session'',
                     gr_session = (case te_session e of None \<Rightarrow> ''session-unknown'' | Some w \<Rightarrow> ws_session w),
                     gr_tenant = default_tenant, gr_actor = ''system'', gr_resource = Some s, gr_hash = None,
                     gr_certificate = None, gr_metadata = args\<rparr> of
                Inl x \<Rightarrow> Inl (Invalid_Request x) | Inr r \<Rightarrow> Inr r)
         | _ \<Rightarrow> Inl (Invalid_Request (Bad_Field ''resource'')))"

definition write_check ::
    "(string \<Rightarrow> string list option) \<Rightarrow> guard \<Rightarrow> (string, json) dict \<Rightarrow> exec_error + string option" where
  "write_check resolve gu args =
     (let fp = dict_get_default args ''file_path'' (JStr []); e = gu_env gu
      in if \<not> truthy fp then Inr (Some ''filesystem.write requires non-empty file_path.'')
         else
           (case fp of
              JStr path \<Rightarrow>
                res_bind (resolve_and_verify_path resolve gu path) (\<lambda>(p, rel).
                  if is_path_mutable e rel \<noteq> None then Inl (Scope_Expansion (te_role e) rel (te_mutable e))
                  else if ro_read_only (role_rule_of (te_role e)) then Inl (Scope_Expansion (te_role e) rel [])
                  else if list_ex (\<lambda>f. starts_with (clean_path f) rel) (ro_forbidden (role_rule_of (te_role e)))
                  then Inl (Scope_Expansion (te_role e) rel (te_mutable e))
                  else
                    (case dict_get args ''content'' of
                       Some (JStr c) \<Rightarrow>
                         (if c \<noteq> [] \<and> is_source_file rel \<and> check_seven_anti_corruption c \<noteq> []
                          then Inl (Security_Violation ''anti-corruption'') else Inr None)
                     | _ \<Rightarrow> Inr None))
            | _ \<Rightarrow> Inl Argument_Error))"

definition command_guard :: "(string, json) dict \<Rightarrow> exec_error + string option" where
  "command_guard args =
     (case dict_get_default args ''command'' (JStr []) of
        JStr c \<Rightarrow> if is_destructive (py_strip c) then Inl (Security_Violation ''destructive command'') else Inr None
      | _ \<Rightarrow> Inl Argument_Error)"

text \<open>The answer \<open>(False, message)\<close> is \<open>Inr (Some message)\<close>, \<open>(True, None)\<close> is \<open>Inr None\<close>.\<close>

definition local_checks ::
    "(string \<Rightarrow> string list option) \<Rightarrow> guard \<Rightarrow> string \<Rightarrow> (string, json) dict \<Rightarrow> exec_error + string option" where
  "local_checks resolve gu tool args =
     (if \<not> validate_tool_allowed (gu_env gu) tool then Inr (Some ''tool not in the governed toolchain'')
      else if tool = ''filesystem.write'' then write_check resolve gu args
      else if tool = ''shell.exec'' then command_guard args
      else Inr None)"

definition validate_tool_call ::
    "(string \<Rightarrow> string list option) \<Rightarrow> guard \<Rightarrow> gate_state \<Rightarrow> string \<Rightarrow> (string, json) dict
       \<Rightarrow> gate_state \<times> (exec_error + string option)" where
  "validate_tool_call resolve gu st tool args =
     (case gu_gate gu of
        None \<Rightarrow> (st, local_checks resolve gu tool args)
      | Some eval \<Rightarrow>
          (case gate_call_for (gu_env gu) tool args of
             Inl x \<Rightarrow> (st, Inl x)
           | Inr r \<Rightarrow>
               (case eval st r of
                  (st1, Inl x) \<Rightarrow> (st1, Inl (Gate_Raised x))
                | (st1, Inr d) \<Rightarrow>
                    (st1, if gd_allowed d then local_checks resolve gu tool args
                          else Inr (Some (''PolicyGate rejection: '' @ gd_reason d))))))"


section \<open>Tools\<close>

text \<open>Reading translates line ends; \<open>splitlines\<close> also splits at the other separators.\<close>

fun universal_newlines :: "string \<Rightarrow> string" where
  "universal_newlines [] = []"
| "universal_newlines [c] = (if c = CHR 0x0D then [CHR 0x0A] else [c])"
| "universal_newlines (c # d # s) =
     (if c = CHR 0x0D then CHR 0x0A # (if d = CHR 0x0A then universal_newlines s else universal_newlines (d # s))
      else c # universal_newlines (d # s))"

definition line_break :: "char \<Rightarrow> bool" where
  "line_break c = (let n = (of_char c :: nat) in (10 \<le> n \<and> n \<le> 13) \<or> (28 \<le> n \<and> n \<le> 30) \<or> n = 133)"

text \<open>After the translation no carriage return is left, so every separator is one character.\<close>

fun split_lines :: "string \<Rightarrow> string list" where
  "split_lines [] = []"
| "split_lines (c # s) =
     (if line_break c then [] # split_lines s
      else (case split_lines s of [] \<Rightarrow> [[c]] | w # ws \<Rightarrow> (c # w) # ws))"

definition read_lines :: "string \<Rightarrow> int option \<Rightarrow> int option \<Rightarrow> string" where
  "read_lines content start_line end_line =
     (let n = int (length (split_lines content));
          a = (case start_line of None \<Rightarrow> 1 | Some i \<Rightarrow> if i = 0 then 1 else i);
          b = (case end_line of None \<Rightarrow> n | Some i \<Rightarrow> if i = 0 then n else i)
      in join_with [CHR 0x0A] (py_suffix (py_prefix (split_lines content) (min n b)) (max 1 a - 1)))"

definition filesystem_read ::
    "(string \<Rightarrow> string list option) \<Rightarrow> guard \<Rightarrow> files \<Rightarrow> string \<Rightarrow> int option \<Rightarrow> int option \<Rightarrow> exec_error + string" where
  "filesystem_read resolve gu fs path start_line end_line =
     res_bind (resolve_and_verify_path resolve gu path) (\<lambda>(p, rel).
       case fs p of
         None \<Rightarrow> Inl (File_Missing path)
       | Some raw \<Rightarrow>
           (let content = universal_newlines raw
            in Inr (if start_line \<noteq> None \<or> end_line \<noteq> None then read_lines content start_line end_line else content)))"

definition utf8_length :: "string \<Rightarrow> nat" where
  "utf8_length s = sum_list (map (\<lambda>c. if (of_char c :: nat) < 128 then 1 else 2) s)"

definition write_file :: "files \<Rightarrow> string list \<Rightarrow> string \<Rightarrow> bool \<Rightarrow> files" where
  "write_file fs p content app = fs(p := Some ((if app then (case fs p of None \<Rightarrow> [] | Some t \<Rightarrow> t) else []) @ content))"

text \<open>A content that is no text is refused by \<open>write\<close> only after the file was opened.\<close>

definition filesystem_write ::
    "(string \<Rightarrow> string list option) \<Rightarrow> guard \<Rightarrow> gate_state \<Rightarrow> files \<Rightarrow> json \<Rightarrow> json \<Rightarrow> bool
       \<Rightarrow> gate_state \<times> files \<times> (exec_error + (string \<times> nat))" where
  "filesystem_write resolve gu st fs path content app =
     (case validate_tool_call resolve gu st ''filesystem.write'' [(''file_path'', path), (''content'', content)] of
        (st1, Inl x) \<Rightarrow> (st1, fs, Inl x)
      | (st1, Inr (Some msg)) \<Rightarrow> (st1, fs, Inl (Security_Violation msg))
      | (st1, Inr None) \<Rightarrow>
          (case path of
             JStr s \<Rightarrow>
               (case resolve_and_verify_path resolve gu s of
                  Inl x \<Rightarrow> (st1, fs, Inl x)
                | Inr (p, rel) \<Rightarrow>
                    (case content of
                       JStr t \<Rightarrow> (st1, write_file fs p t app, Inr (rel, utf8_length t))
                     | _ \<Rightarrow> (st1, write_file fs p [] app, Inl Argument_Error)))
           | _ \<Rightarrow> (st1, fs, Inl Argument_Error)))"

text \<open>\<open>run\<close> is the subprocess, given the timeout argument: the files after it, and the exit code with the two
outputs, or \<^const>\<open>None\<close> when it raises, a timeout included. \<open>diff\<close> is \<open>git diff\<close>.\<close>

type_synonym runner = "files \<Rightarrow> string \<Rightarrow> json \<Rightarrow> files \<times> (int \<times> string \<times> string) option"

definition shell_exec ::
    "runner \<Rightarrow> (string \<Rightarrow> string list option) \<Rightarrow> guard \<Rightarrow> gate_state \<Rightarrow> files \<Rightarrow> json \<Rightarrow> json
       \<Rightarrow> gate_state \<times> files \<times> (exec_error + (int \<times> string \<times> string))" where
  "shell_exec run resolve gu st fs command timeout =
     (case validate_tool_call resolve gu st ''shell.exec'' [(''command'', command)] of
        (st1, Inl x) \<Rightarrow> (st1, fs, Inl x)
      | (st1, Inr (Some msg)) \<Rightarrow> (st1, fs, Inl (Security_Violation msg))
      | (st1, Inr None) \<Rightarrow>
          (case command of
             JStr c \<Rightarrow>
               (case run fs c timeout of
                  (fs1, None) \<Rightarrow> (st1, fs1, Inl Command_Raised)
                | (fs1, Some out) \<Rightarrow> (st1, fs1, Inr out))
           | _ \<Rightarrow> (st1, fs, Inl Argument_Error)))"


section \<open>The executor\<close>

datatype tool_result =
    Blocked_At_Limit
  | Repair_Failed string
  | Read_Text string
  | Wrote string nat
  | Ran int string string
  | Diffed string

datatype repair_outcome = Repaired "(string, json) dict" | Not_Repaired string | Repair_Raised string

text \<open>Line bounds that are no integers raise in the slice.\<close>

definition line_bound :: "json \<Rightarrow> exec_error + int option" where
  "line_bound v = (case v of JNull \<Rightarrow> Inr None | JInt i \<Rightarrow> Inr (Some i) | JBool b \<Rightarrow> Inr (Some (if b then 1 else 0))
     | _ \<Rightarrow> Inl Argument_Error)"

definition required :: "(string, json) dict \<Rightarrow> string \<Rightarrow> exec_error + json" where
  "required args k = (case dict_get args k of None \<Rightarrow> Inl (Missing_Argument k) | Some v \<Rightarrow> Inr v)"

definition read_tool ::
    "(string \<Rightarrow> string list option) \<Rightarrow> guard \<Rightarrow> files \<Rightarrow> (string, json) dict \<Rightarrow> exec_error + string" where
  "read_tool resolve gu fs args =
     res_bind (required args ''file_path'') (\<lambda>fp.
       case fp of
         JStr path \<Rightarrow>
           res_bind (line_bound (dict_get_default args ''start_line'' JNull)) (\<lambda>a.
           res_bind (line_bound (dict_get_default args ''end_line'' JNull)) (\<lambda>b.
             filesystem_read resolve gu fs path a b))
       | _ \<Rightarrow> Inl Argument_Error)"

text \<open>The dispatch of a call: the result, the exit code and the snippet of the evidence.\<close>

definition dispatch ::
    "runner \<Rightarrow> (files \<Rightarrow> string option) \<Rightarrow> (string \<Rightarrow> string list option) \<Rightarrow> guard \<Rightarrow> gate_state \<Rightarrow> files
       \<Rightarrow> string \<Rightarrow> (string, json) dict \<Rightarrow> gate_state \<times> files \<times> (exec_error + (tool_result \<times> int \<times> string))" where
  "dispatch run diff resolve gu st fs tool args =
     (if tool = ''filesystem.read''
      then (case read_tool resolve gu fs args of
              Inl x \<Rightarrow> (st, fs, Inl x)
            | Inr c \<Rightarrow> (st, fs, Inr (Read_Text c, 0, take 200 c)))
      else if tool = ''filesystem.write''
      then (case res_bind (required args ''file_path'') (\<lambda>p. res_bind (required args ''content'') (\<lambda>c. Inr (p, c))) of
              Inl x \<Rightarrow> (st, fs, Inl x)
            | Inr (p, c) \<Rightarrow>
                (case filesystem_write resolve gu st fs p c (truthy (dict_get_default args ''append'' (JBool False))) of
                   (st1, fs1, Inl x) \<Rightarrow> (st1, fs1, Inl x)
                 | (st1, fs1, Inr (rel, n)) \<Rightarrow>
                     (st1, fs1, Inr (Wrote rel n, 0,
                        ''Wrote '' @ nat_str n @ '' bytes to '' @ (case p of JStr s \<Rightarrow> s | _ \<Rightarrow> [])))))
      else if tool = ''shell.exec''
      then (case required args ''command'' of
              Inl x \<Rightarrow> (st, fs, Inl x)
            | Inr c \<Rightarrow>
                (case shell_exec run resolve gu st fs c (dict_get_default args ''timeout_seconds'' JNull) of
                   (st1, fs1, Inl x) \<Rightarrow> (st1, fs1, Inl x)
                 | (st1, fs1, Inr (code, out, err)) \<Rightarrow> (st1, fs1, Inr (Ran code out err, code, take 200 (out @ err)))))
      else if tool = ''git.diff''
      then (case diff fs of
              None \<Rightarrow> (st, fs, Inl Command_Raised)
            | Some d \<Rightarrow> (st, fs, Inr (Diffed d, 0, take 200 d)))
      else (st, fs, Inl (Unknown_Tool tool)))"

definition make_evidence :: "string \<Rightarrow> (string, json) dict \<Rightarrow> int \<Rightarrow> string \<Rightarrow> int \<Rightarrow> string \<Rightarrow> tool_evidence" where
  "make_evidence tool args code snippet dur time =
     \<lparr>ev_tool = tool, ev_arguments = args, ev_exit = code, ev_snippet = snippet, ev_duration = dur, ev_time = time,
      ev_hash = sha256 (tool @ '':'' @ int_str code @ '':'' @ snippet @ '':'' @ int_str dur)\<rparr>"

definition add_evidence :: "attempt \<Rightarrow> tool_evidence \<Rightarrow> attempt" where
  "add_evidence a e = a\<lparr>at_trail := at_trail a @ [e]\<rparr>"

definition limit_text :: "int \<Rightarrow> string" where
  "limit_text n = ''Loop limit safety gate triggered: attempt reached max_turns ('' @ int_str n
     @ ''). Halting execution for human-in-the-loop review.''"

text \<open>\<open>repair\<close> and \<open>shown\<close> are the repair of the arguments and \<open>str\<close> of them; \<open>message\<close> is \<open>str\<close> of an
exception. The answer of the validation in the chain is not looked at, only its exceptions count, and
these leave before any evidence is made.\<close>

definition execute_tool ::
    "(string \<Rightarrow> json \<Rightarrow> repair_outcome) \<Rightarrow> (json \<Rightarrow> string) \<Rightarrow> (exec_error \<Rightarrow> string) \<Rightarrow> runner \<Rightarrow> (files \<Rightarrow> string option)
       \<Rightarrow> (string \<Rightarrow> string list option) \<Rightarrow> guard \<Rightarrow> gate_state \<Rightarrow> files \<Rightarrow> int \<Rightarrow> string \<Rightarrow> attempt \<Rightarrow> string \<Rightarrow> json
       \<Rightarrow> gate_state \<times> files \<times> attempt \<times> (exec_error + tool_result)" where
  "execute_tool repair shown message run diff resolve gu st fs dur time a tool raw =
     (if at_turns a \<ge> at_max a
      then (st, fs, a\<lparr>at_status := V_Blocked, at_error := Some (limit_text (at_max a))\<rparr>, Inr Blocked_At_Limit)
      else
        (case repair tool raw of
           Not_Repaired msg \<Rightarrow>
             (let snippet = ''Protocol validation failed: '' @ msg
              in (st, fs, add_evidence a (make_evidence tool [(''raw_input'', JStr (take 200 (shown raw)))] 1 snippet dur time),
                  Inr (Repair_Failed snippet)))
         | Repair_Raised x \<Rightarrow> (st, fs, a, Inl (Repair_Error x))
         | Repaired args \<Rightarrow>
             (let a1 = a\<lparr>at_turns := at_turns a + 1\<rparr>
              in case validate_tool_call resolve gu st tool args of
                   (st1, Inl x) \<Rightarrow> (st1, fs, a1, Inl x)
                 | (st1, Inr _) \<Rightarrow>
                     (let kept = dict_pop ''content'' args
                      in case dispatch run diff resolve gu st1 fs tool args of
                           (st2, fs2, Inl x) \<Rightarrow>
                             (st2, fs2, add_evidence a1 (make_evidence tool kept 1 (message x) dur time), Inl x)
                         | (st2, fs2, Inr (res, code, snippet)) \<Rightarrow>
                             (st2, fs2, add_evidence a1 (make_evidence tool kept code snippet dur time), Inr res)))))"


section \<open>Plans\<close>

record file_mutation =
  fm_path :: string
  fm_content :: string
  fm_action :: string

record mutation_plan =
  mu_task :: string
  mu_summary :: string
  mu_targets :: "string list"
  mu_role :: string
  mu_diff :: string
  mu_edge_cases :: "string list"
  mu_tests :: "string list"
  mu_mutations :: "file_mutation list"
  mu_approved :: bool
  mu_token :: "string option"
  mu_approved_at :: "string option"

definition matches_protected :: "string \<Rightarrow> string \<Rightarrow> bool" where
  "matches_protected clean pattern =
     (let pat = clean_path pattern
      in (ends_with ''*'' pat \<and> (starts_with (butlast pat) clean \<or> starts_with (butlast pat) (path_name clean)))
         \<or> clean = pat \<or> ends_with (CHR ''/'' # pat) clean)"

datatype compliance_error =
    Read_Only_Violation string
  | Prefix_Violation string string
  | Protected_Violation string string

fun target_violation :: "role_rule \<Rightarrow> string list \<Rightarrow> compliance_error option" where
  "target_violation rule [] = None"
| "target_violation rule (f # fs) =
     (case find (\<lambda>p. starts_with (clean_path p) (clean_path f)) (ro_forbidden rule) of
        Some p \<Rightarrow> Some (Prefix_Violation f p)
      | None \<Rightarrow>
          (case find (matches_protected (clean_path f)) default_protected_patterns of
             Some p \<Rightarrow> Some (Protected_Violation f p)
           | None \<Rightarrow> target_violation rule fs))"

definition validate_scope_compliance :: "string \<Rightarrow> string list \<Rightarrow> compliance_error option" where
  "validate_scope_compliance role targets =
     (if ro_read_only (role_rule_of role) \<and> targets \<noteq> [] then Some (Read_Only_Violation role)
      else target_violation (role_rule_of role) targets)"

datatype applied = Applied_Write string nat | Applied_Delete string

definition apply_mutation ::
    "(string \<Rightarrow> string list option) \<Rightarrow> guard \<Rightarrow> gate_state \<Rightarrow> files \<Rightarrow> file_mutation
       \<Rightarrow> gate_state \<times> files \<times> (exec_error + applied list)" where
  "apply_mutation resolve gu st fs mu =
     (if fm_action mu = ''write'' \<or> fm_action mu = ''append''
      then (case filesystem_write resolve gu st fs (JStr (fm_path mu)) (JStr (fm_content mu)) (fm_action mu = ''append'') of
              (st1, fs1, Inl x) \<Rightarrow> (st1, fs1, Inl x)
            | (st1, fs1, Inr (rel, n)) \<Rightarrow> (st1, fs1, Inr [Applied_Write rel n]))
      else if fm_action mu = ''delete''
      then (case resolve_and_verify_path resolve gu (fm_path mu) of
              Inl x \<Rightarrow> (st, fs, Inl x)
            | Inr (p, rel) \<Rightarrow> (st, fs(p := None), Inr [Applied_Delete rel]))
      else (st, fs, Inr []))"

fun apply_mutations ::
    "(string \<Rightarrow> string list option) \<Rightarrow> guard \<Rightarrow> gate_state \<Rightarrow> files \<Rightarrow> file_mutation list
       \<Rightarrow> gate_state \<times> files \<times> (exec_error + applied list)" where
  "apply_mutations resolve gu st fs [] = (st, fs, Inr [])"
| "apply_mutations resolve gu st fs (mu # mus) =
     (case apply_mutation resolve gu st fs mu of
        (st1, fs1, Inl x) \<Rightarrow> (st1, fs1, Inl x)
      | (st1, fs1, Inr as) \<Rightarrow>
          (case apply_mutations resolve gu st1 fs1 mus of
             (st2, fs2, Inl x) \<Rightarrow> (st2, fs2, Inl x)
           | (st2, fs2, Inr bs) \<Rightarrow> (st2, fs2, Inr (as @ bs))))"

definition stop_turns :: "task_env \<Rightarrow> exec_error + int" where
  "stop_turns e = (case dict_get_default (te_stop e) ''max_turns'' (JInt 3) of JInt n \<Rightarrow> Inr n | _ \<Rightarrow> Inl Argument_Error)"

definition plan_guard ::
    "task_env option \<Rightarrow> (gate_state \<Rightarrow> gate_request \<Rightarrow> gate_state \<times> (gate_failure + gate_decision)) option \<Rightarrow> string list
       \<Rightarrow> worktree_session \<Rightarrow> mutation_plan \<Rightarrow> guard" where
  "plan_guard env gate root session plan =
     \<lparr>gu_env = (case env of Some e \<Rightarrow> e | None \<Rightarrow> default_env (mu_summary plan) (mu_role plan) (mu_targets plan) (Some session)),
      gu_root = root, gu_gate = gate\<rparr>"

text \<open>\<open>root\<close> are the parts of the resolved worktree path of the session.\<close>

definition execute_plan ::
    "(string \<Rightarrow> string list option) \<Rightarrow> task_env option
       \<Rightarrow> (gate_state \<Rightarrow> gate_request \<Rightarrow> gate_state \<times> (gate_failure + gate_decision)) option \<Rightarrow> string list
       \<Rightarrow> gate_state \<Rightarrow> files \<Rightarrow> worktree_session \<Rightarrow> mutation_plan
       \<Rightarrow> gate_state \<times> files \<times> (exec_error + (attempt \<times> applied list))" where
  "execute_plan resolve env gate root st fs session plan =
     (case validate_scope_compliance (mu_role plan) (mu_targets plan) of
        Some err \<Rightarrow>
          (st, fs, Inl (Scope_Expansion (mu_role plan) (case mu_targets plan of [] \<Rightarrow> [] | t # ts \<Rightarrow> t) []))
      | None \<Rightarrow>
          (let gu = plan_guard env gate root session plan
           in case stop_turns (gu_env gu) of
                Inl x \<Rightarrow> (st, fs, Inl x)
              | Inr turns \<Rightarrow>
                  (case apply_mutations resolve gu st fs (mu_mutations plan) of
                     (st1, fs1, Inl x) \<Rightarrow> (st1, fs1, Inl x)
                   | (st1, fs1, Inr as) \<Rightarrow>
                       (st1, fs1, Inr (\<lparr>at_id = ''att_'' @ take 8 (ws_session session), at_task = mu_task plan, at_role = mu_role plan,
                          at_turns = 0, at_max = turns, at_status = V_Not_Run, at_trail = [], at_error = None\<rparr>, as)))))"

end
