(* ===== verification/Execution_Properties.thy ===== *)
theory Execution_Properties
  imports Agent_Executor Scope_Properties
begin

text \<open>
  Properties of governed execution: what a write can reach, what the turn limit bounds, what leaves
  evidence, and where the chain from call to tool has gaps.
\<close>

section \<open>Writes\<close>

definition in_write_scope :: "guard \<Rightarrow> string list \<Rightarrow> bool" where
  "in_write_scope gu q \<longleftrightarrow> (\<exists>rel. q = gu_root gu @ rel
     \<and> validate_tool_allowed (gu_env gu) ''filesystem.write''
     \<and> is_path_mutable (gu_env gu) (posix_join rel) = None
     \<and> \<not> ro_read_only (role_rule_of (te_role (gu_env gu)))
     \<and> (\<forall>f \<in> set (ro_forbidden (role_rule_of (te_role (gu_env gu)))). \<not> starts_with (clean_path f) (posix_join rel)))"

lemma resolved_path: "resolve_and_verify_path resolve gu path = Inr (p, rel) \<Longrightarrow> \<exists>cs. p = gu_root gu @ cs \<and> rel = posix_join cs"
  by (auto simp: resolve_and_verify_path_def strip_root_def split: option.splits if_splits) (metis append_take_drop_id)

lemma res_bind_Inr: "res_bind m f = Inr v \<longleftrightarrow> (\<exists>x. m = Inr x \<and> f x = Inr v)"
  by (cases m) (simp_all add: res_bind_def)

lemma write_check_ok:
  assumes "write_check resolve gu args = Inr None"
  obtains path p rel where "dict_get args ''file_path'' = Some (JStr path)" "resolve_and_verify_path resolve gu path = Inr (p, rel)"
    "is_path_mutable (gu_env gu) rel = None" "\<not> ro_read_only (role_rule_of (te_role (gu_env gu)))"
    "\<forall>f \<in> set (ro_forbidden (role_rule_of (te_role (gu_env gu)))). \<not> starts_with (clean_path f) rel"
proof -
  obtain path where p: "dict_get_default args ''file_path'' (JStr []) = JStr path" "truthy (JStr path)"
    using assms by (auto simp: write_check_def Let_def split: if_splits json.splits)
  then have "dict_get args ''file_path'' = Some (JStr path)"
    by (auto simp: dict_get_default_def truthy_def split: option.splits)
  then show ?thesis
    using assms p that by (auto simp: write_check_def Let_def res_bind_Inr list_ex_iff split: if_splits)
qed

lemma validate_local:
  assumes "validate_tool_call resolve gu st tool args = (st', Inr None)"
  shows "local_checks resolve gu tool args = Inr None"
  using assms by (auto simp: validate_tool_call_def split: option.splits sum.splits prod.splits if_splits)

lemma filesystem_write_scope:
  assumes "filesystem_write resolve gu st fs path content app = (st', fs', r)" "fs' q \<noteq> fs q"
  shows "in_write_scope gu q"
proof -
  let ?args = "[(''file_path'', path), (''content'', content)]"
  obtain st1 where v: "validate_tool_call resolve gu st ''filesystem.write'' ?args = (st1, Inr None)"
    using assms by (auto simp: filesystem_write_def split: prod.splits sum.splits option.splits)
  have l: "local_checks resolve gu ''filesystem.write'' ?args = Inr None" by (rule validate_local [OF v])
  then have a: "validate_tool_allowed (gu_env gu) ''filesystem.write''" and w: "write_check resolve gu ?args = Inr None"
    by (auto simp: local_checks_def split: if_splits)
  obtain s p rel where wr: "dict_get ?args ''file_path'' = Some (JStr s)" "resolve_and_verify_path resolve gu s = Inr (p, rel)"
    "is_path_mutable (gu_env gu) rel = None" "\<not> ro_read_only (role_rule_of (te_role (gu_env gu)))"
    "\<forall>f \<in> set (ro_forbidden (role_rule_of (te_role (gu_env gu)))). \<not> starts_with (clean_path f) rel"
    by (rule write_check_ok [OF w])
  then have s: "path = JStr s" by (simp add: dict_get_def)
  have "q = p" using assms v s wr(2) by (auto simp: filesystem_write_def write_file_def split: json.splits if_splits)
  with resolved_path [OF wr(2)] a wr(3-5) show ?thesis by (auto simp: in_write_scope_def)
qed

lemma dispatch_scope:
  assumes "dispatch run diff resolve gu st fs tool args = (st', fs', r)" "fs' q \<noteq> fs q" "tool \<noteq> ''shell.exec''"
  shows "tool = ''filesystem.write'' \<and> in_write_scope gu q"
proof (cases "tool = ''filesystem.write''")
  case True
  with assms obtain p c where "required args ''file_path'' = Inr p" "required args ''content'' = Inr c"
    by (auto simp: dispatch_def res_bind_def split: sum.splits prod.splits)
  with True assms obtain st1 r1 where "filesystem_write resolve gu st fs p c (truthy (dict_get_default args ''append'' (JBool False))) = (st1, fs', r1)"
    by (auto simp: dispatch_def res_bind_def split: sum.splits prod.splits)
  from filesystem_write_scope [OF this assms(2)] True show ?thesis by simp
next
  case False
  with assms show ?thesis by (auto simp: dispatch_def split: sum.splits option.splits if_splits)
qed

text \<open>C6: Tools write only in scope: whatever a tool call other than a shell command changes lies under the
worktree, on a path the environment declares mutable and the role may change, and the write tool is one
of the environment's tools.\<close>

theorem tool_writes_stay_in_scope:
  assumes "execute_tool repair shown message run diff resolve gu st fs dur time a tool raw = (st', fs', a', r)"
    and "tool \<noteq> ''shell.exec''" "fs' q \<noteq> fs q"
  shows "tool = ''filesystem.write'' \<and> in_write_scope gu q"
proof -
  obtain args st1 v where "repair tool raw = Repaired args" "validate_tool_call resolve gu st tool args = (st1, Inr v)"
    and d: "\<exists>st2 x. dispatch run diff resolve gu st1 fs tool args = (st2, fs', x)"
    using assms(1,3) by (auto simp: execute_tool_def Let_def split: if_splits repair_outcome.splits prod.splits sum.splits)
  from d obtain st2 x where "dispatch run diff resolve gu st1 fs tool args = (st2, fs', x)" by blast
  from dispatch_scope [OF this assms(3,2)] show ?thesis .
qed


definition bench_env :: "string list \<Rightarrow> string list \<Rightarrow> task_env" where
  "bench_env scope tools = (default_env ''fix'' ''DOMAIN_LOGIC_AGENT'' scope None)\<lparr>te_tools := tools\<rparr>"

definition bench_guard :: "string list \<Rightarrow> string list \<Rightarrow> guard" where
  "bench_guard scope tools = \<lparr>gu_env = bench_env scope tools, gu_root = [''/'', ''w''], gu_gate = None\<rparr>"

definition bench_attempt :: attempt where
  "bench_attempt = \<lparr>at_id = ''att'', at_task = ''t'', at_role = ''DOMAIN_LOGIC_AGENT'', at_turns = 0, at_max = 3,
     at_status = V_Not_Run, at_trail = [], at_error = None\<rparr>"

definition bench_gate :: gate_state where
  "bench_gate = \<lparr>gs_poc = \<lparr>pc_secrets = [], pc_key = None, pc_failures = [], pc_quarantined = {}, pc_rotations = 0\<rparr>,
     gs_ledger = empty_ledger, gs_registry = []\<rparr>"

definition as_given :: "string \<Rightarrow> json \<Rightarrow> repair_outcome" where
  "as_given tool raw = (case raw of JObj kvs \<Rightarrow> Repaired kvs | _ \<Rightarrow> Not_Repaired ''no object'')"

definition no_shell :: runner where
  "no_shell fs c t = (fs, None)"

definition write_args :: "(string, json) dict" where
  "write_args = [(''file_path'', JStr ''src/a.py''), (''content'', JStr ''x'')]"

lemma bench_write:
  "validate_tool_call plain_resolve (bench_guard [''src/''] minimal_governed_tools) gs ''filesystem.write'' write_args = (gs, Inr None)"
  "resolve_and_verify_path plain_resolve (bench_guard [''src/''] minimal_governed_tools) ''src/a.py'' = Inr ([''/'', ''w'', ''src'', ''a.py''], ''src/a.py'')"
proof -
  have "local_checks plain_resolve (bench_guard [''src/''] minimal_governed_tools) ''filesystem.write'' write_args = Inr None" by code_simp
  then show "validate_tool_call plain_resolve (bench_guard [''src/''] minimal_governed_tools) gs ''filesystem.write'' write_args = (gs, Inr None)"
    by (simp add: validate_tool_call_def bench_guard_def)
  show "resolve_and_verify_path plain_resolve (bench_guard [''src/''] minimal_governed_tools) ''src/a.py'' = Inr ([''/'', ''w'', ''src'', ''a.py''], ''src/a.py'')"
    by code_simp
qed

lemma tool_writes_stay_in_scope_witness: "in_write_scope (bench_guard [''src/''] minimal_governed_tools) [''/'', ''w'', ''src'', ''a.py'']"
proof -
  let ?gu = "bench_guard [''src/''] minimal_governed_tools" and ?m = "\<lambda>_. []"
  have v: "validate_tool_call plain_resolve ?gu gs ''filesystem.write'' [(''file_path'', JStr ''src/a.py''), (''content'', JStr ''x'')] = (gs, Inr None)" for gs
    using bench_write(1) by (simp add: write_args_def)
  obtain st' fs' a' r where e: "execute_tool as_given ?m ?m no_shell (\<lambda>_. None) plain_resolve ?gu bench_gate (\<lambda>_. None) 0 ''t''
      bench_attempt ''filesystem.write'' (JObj write_args) = (st', fs', a', r)" "fs' [''/'', ''w'', ''src'', ''a.py''] = Some ''x''"
    by (simp add: execute_tool_def bench_attempt_def as_given_def bench_write dispatch_def required_def write_args_def v res_bind_def
        filesystem_write_def write_file_def dict_get_def dict_get_default_def truthy_def)
  have "''filesystem.write'' \<noteq> ''shell.exec''" by simp
  from tool_writes_stay_in_scope [OF e(1) this, of "[''/'', ''w'', ''src'', ''a.py'']"] e(2) show ?thesis by simp
qed


section \<open>The turn limit\<close>

text \<open>Only the repair raises the exceptions of the repair.\<close>

definition own_error :: "exec_error \<Rightarrow> bool" where
  "own_error x = (case x of Repair_Error e \<Rightarrow> False | _ \<Rightarrow> True)"

lemma own_error_simps [simp]:
  "own_error (Scope_Expansion a b c)" "own_error (Security_Violation m)" "own_error (Invalid_Request i)" "own_error (Gate_Raised g)"
  "own_error Path_Value_Error" "own_error Argument_Error" "own_error (Missing_Argument k)" "own_error (File_Missing p)"
  "own_error Command_Raised" "own_error (Unknown_Tool t)" "\<not> own_error (Repair_Error e)"
  by (simp_all add: own_error_def)

lemma resolve_own: "resolve_and_verify_path resolve gu p = Inl x \<Longrightarrow> own_error x"
  by (auto simp: resolve_and_verify_path_def split: option.splits)

lemma local_checks_own: "local_checks resolve gu tool args = Inl x \<Longrightarrow> own_error x"
proof -
  have w: "write_check resolve gu args = Inl x \<Longrightarrow> own_error x"
    by (auto simp: write_check_def res_bind_def Let_def dest: resolve_own
        split: if_splits json.splits sum.splits option.splits)
  have c: "command_guard args = Inl x \<Longrightarrow> own_error x"
    by (auto simp: command_guard_def split: if_splits json.splits)
  assume "local_checks resolve gu tool args = Inl x"
  with w c show ?thesis by (auto simp: local_checks_def split: if_splits)
qed

lemma validate_own: "validate_tool_call resolve gu st tool args = (st1, Inl x) \<Longrightarrow> own_error x"
  by (auto simp: validate_tool_call_def gate_call_for_def Let_def dest: local_checks_own
      split: option.splits sum.splits prod.splits if_splits json.splits)

lemma read_own: "read_tool resolve gu fs args = Inl x \<Longrightarrow> own_error x"
  by (auto simp: read_tool_def res_bind_def required_def line_bound_def filesystem_read_def Let_def dest: resolve_own
      split: option.splits sum.splits json.splits)

lemma write_own: "filesystem_write resolve gu st fs p c app = (st1, fs1, Inl x) \<Longrightarrow> own_error x"
  by (auto simp: filesystem_write_def dest: resolve_own validate_own split: option.splits sum.splits prod.splits json.splits)

lemma shell_own: "shell_exec run resolve gu st fs c t = (st1, fs1, Inl x) \<Longrightarrow> own_error x"
  by (auto simp: shell_exec_def dest: validate_own split: option.splits sum.splits prod.splits json.splits)

lemma dispatch_own: "dispatch run diff resolve gu st fs tool args = (st1, fs1, Inl x) \<Longrightarrow> own_error x"
  by (auto simp: dispatch_def res_bind_def required_def dest: read_own write_own shell_own
      split: if_splits option.splits sum.splits prod.splits)

definition got_through :: "exec_error + tool_result \<Rightarrow> bool" where
  "got_through r = (case r of Inl x \<Rightarrow> own_error x | Inr res \<Rightarrow> (case res of Blocked_At_Limit \<Rightarrow> False | Repair_Failed s \<Rightarrow> False | _ \<Rightarrow> True))"

text \<open>A sequence of calls of one attempt, with the state threaded through; an exception of one call does not
keep the next from being made.\<close>

fun run_calls ::
    "(string \<Rightarrow> json \<Rightarrow> repair_outcome) \<Rightarrow> (json \<Rightarrow> string) \<Rightarrow> (exec_error \<Rightarrow> string) \<Rightarrow> runner \<Rightarrow> (files \<Rightarrow> string option)
       \<Rightarrow> (string \<Rightarrow> string list option) \<Rightarrow> guard \<Rightarrow> gate_state \<Rightarrow> files \<Rightarrow> attempt \<Rightarrow> (int \<times> string \<times> string \<times> json) list
       \<Rightarrow> attempt \<times> (exec_error + tool_result) list" where
  "run_calls repair shown message run diff resolve gu st fs a [] = (a, [])"
| "run_calls repair shown message run diff resolve gu st fs a ((dur, time, tool, raw) # cs) =
     (case execute_tool repair shown message run diff resolve gu st fs dur time a tool raw of
        (st1, fs1, a1, r) \<Rightarrow>
          (case run_calls repair shown message run diff resolve gu st1 fs1 a1 cs of (a2, rs) \<Rightarrow> (a2, r # rs)))"

lemma dispatch_through: "dispatch run diff resolve gu st fs tool args = (st', fs', Inr (res, code, snip)) \<Longrightarrow> got_through (Inr res)"
  by (auto simp: dispatch_def got_through_def split: if_splits sum.splits prod.splits option.splits)

lemma execute_tool_turns:
  assumes "execute_tool repair shown message run diff resolve gu st fs dur time a tool raw = (st', fs', a', r)"
  shows "at_max a' = at_max a \<and> at_turns a' = at_turns a + (if got_through r then 1 else 0)
    \<and> (got_through r \<longrightarrow> at_turns a < at_max a)"
  using assms dispatch_through
  by (auto simp: execute_tool_def Let_def add_evidence_def validate_own dispatch_own got_through_def [of "Inl _"] got_through_def [of "Inr Blocked_At_Limit"]
      got_through_def [of "Inr (Repair_Failed _)"] split: if_splits repair_outcome.splits prod.splits sum.splits)

text \<open>An attempt gets at most its turns: whatever calls are made, each that is neither blocked nor given up
in the repair takes one turn, and there are never more turns taken than the maximum.\<close>

theorem turn_limit_bounds_calls:
  "case run_calls repair shown message run diff resolve gu st fs a calls of
     (a', rs) \<Rightarrow> length rs = length calls \<and> at_max a' = at_max a
       \<and> at_turns a' = at_turns a + int (length (filter got_through rs))
       \<and> at_turns a' \<le> max (at_turns a) (at_max a)"
proof (induction calls arbitrary: st fs a)
  case (Cons c cs)
  obtain dur time tool raw where c: "c = (dur, time, tool, raw)" by (cases c)
  obtain st1 fs1 a1 r where e: "execute_tool repair shown message run diff resolve gu st fs dur time a tool raw = (st1, fs1, a1, r)"
    by (metis prod_cases4)
  obtain a2 rs where r: "run_calls repair shown message run diff resolve gu st1 fs1 a1 cs = (a2, rs)" by fastforce
  from Cons.IH [where st = st1 and fs = fs1 and a = a1] execute_tool_turns [OF e] show ?case by (auto simp: c e r)
qed simp



section \<open>Evidence\<close>

text \<open>A call that the guard lets pass leaves exactly one piece of evidence, whether it succeeds or raises,
with a digest over tool, exit code, snippet and duration and without the content written; but a call the
guard stops with an exception takes a turn and leaves none.\<close>

theorem evidence_of_a_call:
  assumes "execute_tool repair shown message run diff resolve gu st fs dur time a tool raw = (st', fs', a', r)"
    and "at_turns a < at_max a" "repair tool raw = Repaired args"
    and "validate_tool_call resolve gu st tool args = (st1, v)"
  shows "at_turns a' = at_turns a + 1 \<and>
    (case v of
       Inl x \<Rightarrow> at_trail a' = at_trail a \<and> r = Inl x \<and> fs' = fs
     | Inr _ \<Rightarrow> (\<exists>code snippet. at_trail a' = at_trail a @ [make_evidence tool (dict_pop ''content'' args) code snippet dur time]
         \<and> dict_get (ev_arguments (last (at_trail a'))) ''content'' = None
         \<and> (\<forall>x. r = Inl x \<longrightarrow> code = 1 \<and> snippet = message x)))"
proof (cases v)
  case (Inl x)
  with assms show ?thesis by (auto simp: execute_tool_def Let_def)
next
  case (Inr b)
  obtain st2 fs2 res where d: "dispatch run diff resolve gu st1 fs tool args = (st2, fs2, res)" by (metis prod_cases3)
  show ?thesis
  proof (cases res)
    case (Inl x)
    with assms Inr d show ?thesis by (auto simp: execute_tool_def Let_def add_evidence_def make_evidence_def)
  next
    case (Inr y)
    obtain res' code snippet where y: "y = (res', code, snippet)" by (cases y)
    with assms \<open>v = Inr b\<close> Inr d show ?thesis by (auto simp: execute_tool_def Let_def add_evidence_def make_evidence_def)
  qed
qed

lemma evidence_of_a_call_witness:
  "\<exists>st' fs' a' x. execute_tool as_given (\<lambda>_. []) (\<lambda>_. []) no_shell (\<lambda>_. None) plain_resolve (bench_guard [] minimal_governed_tools) bench_gate
       (\<lambda>_. None) 0 ''t'' bench_attempt ''filesystem.write'' (JObj [(''file_path'', JStr ''.env''), (''content'', JStr ''x'')])
       = (st', fs', a', Inl x) \<and> at_trail a' = [] \<and> at_turns a' = 1"
proof -
  let ?gu = "bench_guard [] minimal_governed_tools" and ?args = "[(''file_path'', JStr ''.env''), (''content'', JStr ''x'')]"
  have "local_checks plain_resolve ?gu ''filesystem.write'' ?args = Inl (Scope_Expansion ''DOMAIN_LOGIC_AGENT'' ''.env'' [])" by code_simp
  then have v: "validate_tool_call plain_resolve ?gu bench_gate ''filesystem.write'' ?args = (bench_gate, Inl (Scope_Expansion ''DOMAIN_LOGIC_AGENT'' ''.env'' []))"
    by (simp add: validate_tool_call_def bench_guard_def)
  obtain st' fs' a' r where e: "execute_tool as_given (\<lambda>_. []) (\<lambda>_. []) no_shell (\<lambda>_. None) plain_resolve ?gu bench_gate
      (\<lambda>_. None) 0 ''t'' bench_attempt ''filesystem.write'' (JObj ?args) = (st', fs', a', r)"
    by (metis prod_cases4)
  have "at_turns bench_attempt < at_max bench_attempt" "as_given ''filesystem.write'' (JObj ?args) = Repaired ?args"
    by (simp_all add: bench_attempt_def as_given_def)
  from evidence_of_a_call [OF e this v] e show ?thesis by (auto simp: bench_attempt_def)
qed


section \<open>Gaps in the chain\<close>

text \<open>The list of tools does not bind reading: without a policy gate, a call of \<open>filesystem.read\<close> or
\<open>git.diff\<close> does the same, whatever tools the environment lists, none included. The validation refuses it,
but its answer is not looked at.\<close>

theorem unlisted_tools_run:
  assumes "gu_gate gu = None" "tool = ''filesystem.read'' \<or> tool = ''git.diff''"
  shows "execute_tool repair shown message run diff resolve (gu\<lparr>gu_env := (gu_env gu)\<lparr>te_tools := ts\<rparr>\<rparr>) st fs dur time a tool raw
    = execute_tool repair shown message run diff resolve gu st fs dur time a tool raw"
proof -
  let ?gu = "gu\<lparr>gu_env := (gu_env gu)\<lparr>te_tools := ts\<rparr>\<rparr>"
  have r: "resolve_and_verify_path resolve ?gu = resolve_and_verify_path resolve gu"
    by (rule ext) (simp add: resolve_and_verify_path_def split: option.split)
  have fr: "filesystem_read resolve ?gu = filesystem_read resolve gu" by (intro ext) (simp add: filesystem_read_def r)
  have rt: "read_tool resolve ?gu = read_tool resolve gu" by (intro ext) (simp only: read_tool_def fr)
  have d: "dispatch run diff resolve ?gu st fs tool args = dispatch run diff resolve gu st fs tool args" for args
    using assms(2) by (elim disjE) (simp_all add: dispatch_def rt)
  have "\<exists>v w. validate_tool_call resolve ?gu st tool args = (st, Inr v) \<and> validate_tool_call resolve gu st tool args = (st, Inr w)" for args
    using assms by (auto simp: validate_tool_call_def local_checks_def)
  then have v: "\<exists>v w. validate_tool_call resolve ?gu st tool args = (st, Inr v) \<and> validate_tool_call resolve gu st tool args = (st, Inr w)
      \<and> dispatch run diff resolve ?gu st fs tool args = dispatch run diff resolve gu st fs tool args" for args
    using d by blast
  show ?thesis
  proof (cases "repair tool raw")
    case (Repaired args)
    with v [of args] show ?thesis by (auto simp: execute_tool_def)
  qed (simp_all add: execute_tool_def)
qed

text \<open>A deletion in a plan is not confined to anything but the worktree: whatever the environment, the role,
the protected patterns and the policy gate say, a plan whose targets comply removes any file that a
deletion names, the targets need not mention it.\<close>

theorem plan_deletes_protected_files:
  assumes "validate_scope_compliance (mu_role plan) (mu_targets plan) = None"
    and "stop_turns (gu_env (plan_guard env gate root session plan)) = Inr turns"
    and "mu_mutations plan = [\<lparr>fm_path = path, fm_content = c, fm_action = ''delete''\<rparr>]"
    and "resolve (join_path root (clean_path path)) = Some (root @ rel)"
  shows "\<exists>at. execute_plan resolve env gate root st fs session plan = (st, fs(root @ rel := None), Inr (at, [Applied_Delete (posix_join rel)]))"
  using assms
  by (simp add: execute_plan_def apply_mutation_def resolve_and_verify_path_def strip_root_def plan_guard_def Let_def)


lemma unlisted_tools_run_witness:
  "\<exists>st' fs' a'. execute_tool as_given (\<lambda>_. []) (\<lambda>_. []) no_shell (\<lambda>_. Some ''diff'') plain_resolve (bench_guard [] []) bench_gate (\<lambda>_. None) 0 ''t''
       bench_attempt ''git.diff'' (JObj []) = (st', fs', a', Inr (Diffed ''diff''))
     \<and> \<not> validate_tool_allowed (gu_env (bench_guard [] [])) ''git.diff''"
proof -
  have g: "gu_gate (bench_guard [] minimal_governed_tools) = None" "''git.diff'' = ''filesystem.read'' \<or> ''git.diff'' = ''git.diff''"
    by (simp_all add: bench_guard_def)
  have "(bench_guard [] minimal_governed_tools)\<lparr>gu_env := (gu_env (bench_guard [] minimal_governed_tools))\<lparr>te_tools := []\<rparr>\<rparr> = bench_guard [] []"
    by (simp add: bench_guard_def bench_env_def)
  then have "execute_tool as_given (\<lambda>_. []) (\<lambda>_. []) no_shell (\<lambda>_. Some ''diff'') plain_resolve (bench_guard [] []) bench_gate (\<lambda>_. None) 0 ''t''
       bench_attempt ''git.diff'' (JObj []) =
     execute_tool as_given (\<lambda>_. []) (\<lambda>_. []) no_shell (\<lambda>_. Some ''diff'') plain_resolve (bench_guard [] minimal_governed_tools) bench_gate (\<lambda>_. None) 0 ''t''
       bench_attempt ''git.diff'' (JObj [])"
    using unlisted_tools_run [OF g, where ts = "[]"] by simp
  moreover have "validate_tool_call plain_resolve (bench_guard [] minimal_governed_tools) bench_gate ''git.diff'' [] = (bench_gate, Inr None)"
    by (simp add: validate_tool_call_def local_checks_def bench_guard_def validate_tool_allowed_def bench_env_def minimal_governed_tools_def)
  ultimately show ?thesis
    by (simp add: execute_tool_def bench_attempt_def as_given_def dispatch_def validate_tool_allowed_def bench_guard_def bench_env_def Let_def)
qed

definition deleting_plan :: mutation_plan where
  "deleting_plan = \<lparr>mu_task = ''t'', mu_summary = ''s'', mu_targets = [], mu_role = ''QA_TEST_AGENT'', mu_diff = [], mu_edge_cases = [],
     mu_tests = [], mu_mutations = [\<lparr>fm_path = ''.env'', fm_content = [], fm_action = ''delete''\<rparr>], mu_approved = False,
     mu_token = None, mu_approved_at = None\<rparr>"

definition bench_session :: worktree_session where
  "bench_session = \<lparr>ws_session = ''session'', ws_path = ''/w'', ws_branch = ''b'', ws_base = ''c'', ws_isolated = True, ws_created = ''t''\<rparr>"

lemma plan_deletes_protected_files_witness:
  "\<exists>at. execute_plan plain_resolve None None [''/'', ''w''] bench_gate (\<lambda>_. Some ''KEY'') bench_session deleting_plan
     = (bench_gate, (\<lambda>_. Some ''KEY'')([''/'', ''w''] @ [''.env''] := None), Inr (at, [Applied_Delete ''.env'']))
     \<and> is_path_mutable (gu_env (plan_guard None None [''/'', ''w''] bench_session deleting_plan)) ''.env'' \<noteq> None
     \<and> ro_read_only (role_rule_of (mu_role deleting_plan))"
proof -
  have "validate_scope_compliance (mu_role deleting_plan) (mu_targets deleting_plan) = None"
    "stop_turns (gu_env (plan_guard None None [''/'', ''w''] bench_session deleting_plan)) = Inr 3"
    "mu_mutations deleting_plan = [\<lparr>fm_path = ''.env'', fm_content = [], fm_action = ''delete''\<rparr>]"
    "plain_resolve (join_path [''/'', ''w''] (clean_path ''.env'')) = Some ([''/'', ''w''] @ [''.env''])"
    "is_path_mutable (gu_env (plan_guard None None [''/'', ''w''] bench_session deleting_plan)) ''.env'' \<noteq> None"
    "ro_read_only (role_rule_of (mu_role deleting_plan))" "posix_join [''.env''] = ''.env''"
    by code_simp+
  note f = this
  from plan_deletes_protected_files [where resolve = plain_resolve and plan = deleting_plan and path = "''.env''" and root = "[''/'', ''w'']" and rel = "[''.env'']", OF f(1-4)] f(5-7) show ?thesis by simp
qed

text \<open>With a policy gate configured no governed tool can be used at all: the name of the tool is given to
the gate as its action, and none of these names is an action, so the request is refused by its own
validation before the gate is asked.\<close>

theorem policy_gate_blocks_every_tool:
  assumes "gu_gate gu = Some eval" "tool \<in> set minimal_governed_tools" "at_turns a < at_max a" "repair tool raw = Repaired args"
  shows "\<exists>x a'. execute_tool repair shown message run diff resolve gu st fs dur time a tool raw = (st, fs, a', Inl (Invalid_Request x))
    \<and> at_trail a' = at_trail a"
proof -
  have "tool \<notin> set policy_actions" using assms(2) by (auto simp: minimal_governed_tools_def policy_actions_def)
  then have "\<exists>x. gate_call_for (gu_env gu) tool args = Inl (Invalid_Request x)"
    by (auto simp: gate_call_for_def Let_def make_gate_request_def guarded_def split: json.splits)
  then show ?thesis
    using assms by (auto simp: execute_tool_def validate_tool_call_def)
qed

lemma policy_gate_blocks_every_tool_witness:
  "\<exists>x a'. execute_tool as_given (\<lambda>_. []) (\<lambda>_. []) no_shell (\<lambda>_. None) plain_resolve
       ((bench_guard [] minimal_governed_tools)\<lparr>gu_gate := Some (\<lambda>st r. (st, Inl Gate_Type_Error))\<rparr>) bench_gate (\<lambda>_. None) 0 ''t''
       bench_attempt ''git.diff'' (JObj []) = (bench_gate, (\<lambda>_. None), a', Inl (Invalid_Request x))"
  using policy_gate_blocks_every_tool [of "(bench_guard [] minimal_governed_tools)\<lparr>gu_gate := Some (\<lambda>st r. (st, Inl Gate_Type_Error))\<rparr>"
      "\<lambda>st r. (st, Inl Gate_Type_Error)" "''git.diff''" bench_attempt as_given "JObj []" "[]"]
  by (fastforce simp: minimal_governed_tools_def bench_attempt_def as_given_def)

end
