(* ===== verification/Pipeline_Models.thy ===== *)
theory Pipeline_Models
  imports Complex_Main Agent_Executor
begin

text \<open>
  The data of the coding pipeline (core/pipeline/models.py): the stages, the request with the bounds its
  constructor checks, the receipts, the record of a debate and the result of a run. The session of a
  worktree, the plan with its mutations and the verification statuses are those of the executor.

  A score is a rational; the random and time-dependent parts of the data are arguments of the operations
  that fill them. Durations are whole milliseconds.
\<close>

text \<open>\<open>a or b\<close> for strings.\<close>

definition or_else :: "string \<Rightarrow> string \<Rightarrow> string" where
  "or_else a b = (if a = [] then b else a)"

section \<open>Stages\<close>

datatype pipeline_stage =
    Intake | Precheck | Committee_Debate | Plan_And_Gate | Isolated_Mutation | Verify_And_Evidence
  | Independent_Review | Self_Healing | Draft_PR_Export | Stage_Completed | Stage_Failed | Stage_Aborted

fun stage_value :: "pipeline_stage \<Rightarrow> string" where
  "stage_value Intake = ''INTAKE''"
| "stage_value Precheck = ''PRECHECK''"
| "stage_value Committee_Debate = ''COMMITTEE_DEBATE''"
| "stage_value Plan_And_Gate = ''PLAN_AND_GATE''"
| "stage_value Isolated_Mutation = ''ISOLATED_MUTATION''"
| "stage_value Verify_And_Evidence = ''VERIFY_AND_EVIDENCE''"
| "stage_value Independent_Review = ''INDEPENDENT_REVIEW''"
| "stage_value Self_Healing = ''SELF_HEALING''"
| "stage_value Draft_PR_Export = ''DRAFT_PR_EXPORT''"
| "stage_value Stage_Completed = ''COMPLETED''"
| "stage_value Stage_Failed = ''FAILED''"
| "stage_value Stage_Aborted = ''ABORTED''"

fun status_value :: "verification_status \<Rightarrow> string" where
  "status_value V_Pass = ''PASS''"
| "status_value V_Fail = ''FAIL''"
| "status_value V_Blocked = ''BLOCKED''"
| "status_value V_Not_Run = ''NOT_RUN''"
| "status_value V_Unverified = ''UNVERIFIED''"


section \<open>Requests\<close>

record coding_request =
  cq_task :: string
  cq_repository :: string
  cq_prompt :: string
  cq_base :: string
  cq_branch :: string
  cq_inspected :: "string list"
  cq_targets :: "string list"
  cq_roles :: "string list"
  cq_max_turns :: int
  cq_issue :: "string option"
  cq_tenant :: string
  cq_committee :: bool
  cq_rounds :: int
  cq_committee_roles :: "string list"
  cq_offline :: bool
  cq_thinking :: "int option"
  cq_effort :: "string option"
  cq_mesh :: bool
  cq_peers :: "string list"
  cq_raft :: bool
  cq_healing :: bool
  cq_max_healing :: int
  cq_evidence :: bool
  cq_review :: bool
  cq_metadata :: "(string, json) dict"

text \<open>The request with every optional field at its default.\<close>

definition new_request :: "string \<Rightarrow> string \<Rightarrow> string \<Rightarrow> string \<Rightarrow> coding_request" where
  "new_request task repo prompt branch =
     \<lparr>cq_task = task, cq_repository = repo, cq_prompt = prompt, cq_base = ''main'', cq_branch = branch,
      cq_inspected = [], cq_targets = [], cq_roles = [''DOMAIN_LOGIC_AGENT'', ''BACKEND_INFRA_AGENT''], cq_max_turns = 3,
      cq_issue = None, cq_tenant = default_tenant, cq_committee = False, cq_rounds = 1,
      cq_committee_roles = [''architect'', ''securityauditor'', ''qaengineer''], cq_offline = False, cq_thinking = None,
      cq_effort = None, cq_mesh = False, cq_peers = [], cq_raft = False, cq_healing = True, cq_max_healing = 2,
      cq_evidence = False, cq_review = False, cq_metadata = []\<rparr>"

definition make_request :: "coding_request \<Rightarrow> contract_error + coding_request" where
  "make_request q = guarded
     [(cq_max_turns q < 1 \<or> 5 < cq_max_turns q, Bad_Field ''max_turns''),
      (cq_rounds q < 1 \<or> 3 < cq_rounds q, Bad_Field ''debate_rounds''),
      (cq_max_healing q < 0 \<or> 5 < cq_max_healing q, Bad_Field ''max_healing_attempts'')] q"


section \<open>Receipts\<close>

record receipt =
  vc_step :: string
  vc_command :: string
  vc_exit :: int
  vc_status :: verification_status
  vc_stdout :: string
  vc_stderr :: string
  vc_duration :: int
  vc_merkle :: "string option"
  vc_time :: string

definition passed :: "receipt \<Rightarrow> bool" where
  "passed r = (vc_status r = V_Pass)"

record draft_pr =
  dr_title :: string
  dr_body :: string
  dr_head :: string
  dr_base :: string
  dr_commit :: string
  dr_files :: "string list"
  dr_receipts :: "receipt list"
  dr_url :: "string option"
  dr_draft :: bool
  dr_root :: "string option"

record healing_receipt =
  hr_attempt :: int
  hr_failed :: "string list"
  hr_evidence :: "string list"
  hr_precedents :: "string list"
  hr_action :: string
  hr_files :: "string list"
  hr_passed :: bool
  hr_duration :: int

record rollback_receipt =
  rb_task :: string
  rb_path :: string
  rb_branch :: string
  rb_restored :: string
  rb_purged :: "string list"
  rb_status :: string
  rb_clean :: bool
  rb_time :: string


section \<open>Debates\<close>

record speech_turn =
  sx_speaker :: string
  sx_target :: "string option"
  sx_round :: int
  sx_turn :: int
  sx_content :: string
  sx_critique :: "string list"
  sx_impact :: rat
  sx_reasoning :: "string option"
  sx_tokens :: int
  sx_time :: string

record debate_round =
  rd_index :: int
  rd_turns :: "speech_turn list"
  rd_summary :: string

record scorecard =
  sc_architecture :: rat
  sc_security :: rat
  sc_tests :: rat
  sc_composite :: rat
  sc_tokens :: int
  sc_decision :: string
  sc_dissent :: "string list"
  sc_actions :: "string list"

text \<open>The bounds of the score card's fields, which its constructor checks.\<close>

definition scorecard_ok :: "scorecard \<Rightarrow> bool" where
  "scorecard_ok s \<longleftrightarrow> (\<forall>x \<in> {sc_architecture s, sc_security s, sc_tests s, sc_composite s}. 0 \<le> x \<and> x \<le> 1) \<and> 0 \<le> sc_tokens s"

definition turn_ok :: "speech_turn \<Rightarrow> bool" where
  "turn_ok t \<longleftrightarrow> 1 \<le> sx_round t \<and> 1 \<le> sx_turn t \<and> 0 \<le> sx_tokens t"

record debate_record =
  dc_id :: string
  dc_task :: string
  dc_members :: "string list"
  dc_rounds :: "debate_round list"
  dc_card :: scorecard
  dc_plan :: "mutation_plan option"
  dc_duration :: int
  dc_log_index :: "int option"
  dc_term :: "int option"
  dc_time :: string


section \<open>Results\<close>

record stage_entry =
  se_stage :: pipeline_stage
  se_time :: string
  se_detail :: string

record review_receipt =
  rw_fresh :: bool
  rw_head :: string
  rw_status :: string
  rw_time :: string

record pipeline_result =
  pl_task :: string
  pl_status :: verification_status
  pl_stage :: pipeline_stage
  pl_history :: "stage_entry list"
  pl_worktree :: "worktree_session option"
  pl_debate :: "debate_record option"
  pl_plan :: "mutation_plan option"
  pl_receipts :: "receipt list"
  pl_healing :: "healing_receipt list"
  pl_rollback :: "rollback_receipt option"
  pl_review :: "review_receipt option"
  pl_pr :: "draft_pr option"
  pl_error :: "string option"

definition new_result :: "string \<Rightarrow> pipeline_result" where
  "new_result task = \<lparr>pl_task = task, pl_status = V_Not_Run, pl_stage = Intake, pl_history = [], pl_worktree = None,
     pl_debate = None, pl_plan = None, pl_receipts = [], pl_healing = [], pl_rollback = None, pl_review = None,
     pl_pr = None, pl_error = None\<rparr>"

end
