(* ===== verification/Runtime_Events.thy ===== *)
theory Runtime_Events
  imports Pipeline_Models Audit_Ledger
begin

text \<open>
  The evidence plane (core/runtime_events.py): the chained log of runtime events, the runner of a
  verification ladder, the freshness of a review, checkpoints and the publication of a draft pull request.

  The table of events is the list of its rows in the order of their identifiers; nothing deletes from it.
  \<open>loads\<close> is \<open>json.loads\<close>, \<^const>\<open>None\<close> when it raises. Running a command, \<open>gh\<close> and the writing of a
  checkpoint's JSON are parameters over a state of the machine they run on.
\<close>

section \<open>The log of runtime events\<close>

datatype runtime_event_type =
    Task_Started | Tool_Invoked | Feedback_Received | Checkpoint_Saved | Recovery_Attempted | Review_Requested
  | Review_Verified | Receipt_Anchored | PR_Published | Stage_Transition | Gate_Approved | Task_Completed | Task_Failed

fun runtime_event_value :: "runtime_event_type \<Rightarrow> string" where
  "runtime_event_value Task_Started = ''TASK_STARTED''"
| "runtime_event_value Tool_Invoked = ''TOOL_INVOKED''"
| "runtime_event_value Feedback_Received = ''FEEDBACK_RECEIVED''"
| "runtime_event_value Checkpoint_Saved = ''CHECKPOINT_SAVED''"
| "runtime_event_value Recovery_Attempted = ''RECOVERY_ATTEMPTED''"
| "runtime_event_value Review_Requested = ''REVIEW_REQUESTED''"
| "runtime_event_value Review_Verified = ''REVIEW_VERIFIED''"
| "runtime_event_value Receipt_Anchored = ''RECEIPT_ANCHORED''"
| "runtime_event_value PR_Published = ''PR_PUBLISHED''"
| "runtime_event_value Stage_Transition = ''STAGE_TRANSITION''"
| "runtime_event_value Gate_Approved = ''GATE_APPROVED''"
| "runtime_event_value Task_Completed = ''TASK_COMPLETED''"
| "runtime_event_value Task_Failed = ''TASK_FAILED''"

record runtime_row =
  rt_id :: int
  rt_task :: string
  rt_type :: runtime_event_type
  rt_payload :: string
  rt_prev :: string
  rt_hash :: string
  rt_time :: string

definition runtime_hash :: "string \<Rightarrow> string \<Rightarrow> runtime_event_type \<Rightarrow> string \<Rightarrow> string \<Rightarrow> string" where
  "runtime_hash prev task ev payload time = sha256 (prev @ task @ runtime_event_value ev @ payload @ time)"

definition events_of :: "string \<Rightarrow> runtime_row list \<Rightarrow> runtime_row list" where
  "events_of task rows = filter (\<lambda>r. rt_task r = task) rows"

definition task_tip :: "string \<Rightarrow> runtime_row list \<Rightarrow> string" where
  "task_tip task rows = (case rev (events_of task rows) of [] \<Rightarrow> zero_hash | r # rs \<Rightarrow> rt_hash r)"

text \<open>The identifier SQLite assigns follows the largest one.\<close>

definition record_runtime_event ::
    "runtime_row list \<Rightarrow> string \<Rightarrow> runtime_event_type \<Rightarrow> json \<Rightarrow> string \<Rightarrow> runtime_row list \<times> int" where
  "record_runtime_event rows time ev payload task =
     (let text = dumps Spaced payload;
          prev = task_tip task rows;
          n = int (length rows) + 1
      in (rows @ [\<lparr>rt_id = n, rt_task = task, rt_type = ev, rt_payload = text, rt_prev = prev,
                    rt_hash = runtime_hash prev task ev text time, rt_time = time\<rparr>], n))"

definition runtime_root :: "runtime_row list \<Rightarrow> string \<Rightarrow> string" where
  "runtime_root rows task = (if events_of task rows = [] then zero_hash else merkle_root (map rt_hash (events_of task rows)))"

fun runtime_chain :: "(string \<Rightarrow> string) \<Rightarrow> string \<Rightarrow> runtime_row list \<Rightarrow> bool" where
  "runtime_chain cn expected [] = True"
| "runtime_chain cn expected (r # rs) =
     (rt_prev r = expected
      \<and> rt_hash r = runtime_hash (rt_prev r) (rt_task r) (rt_type r) (cn (rt_payload r)) (rt_time r)
      \<and> runtime_chain cn (rt_hash r) rs)"

text \<open>Reading the events decodes every payload before the first comparison: a payload that is no JSON makes
the verification raise.\<close>

definition verify_runtime_chain :: "(string \<Rightarrow> json option) \<Rightarrow> runtime_row list \<Rightarrow> string \<Rightarrow> bool option" where
  "verify_runtime_chain loads rows task =
     (if \<exists>r \<in> set (events_of task rows). loads (rt_payload r) = None then None
      else Some (runtime_chain (canon loads) zero_hash (events_of task rows)))"


section \<open>The verification ladder\<close>

datatype run_outcome = Exited int string string | Timed_Out | Run_Raised string

text \<open>\<open>run m dir cmd\<close> runs a command in a directory; \<open>limit\<close> is the text of the timeout in seconds, \<open>ms\<close> the
duration of a run and \<open>now\<close> the time of a receipt.\<close>

definition ladder_receipt :: "string \<Rightarrow> int \<Rightarrow> string \<Rightarrow> nat \<Rightarrow> string \<Rightarrow> run_outcome \<Rightarrow> receipt" where
  "ladder_receipt limit ms now idx cmd res =
     (case (case res of Exited c out err \<Rightarrow> (c, out, err)
                      | Timed_Out \<Rightarrow> (124, [], ''Command timed out after '' @ limit @ '' seconds'')
                      | Run_Raised e \<Rightarrow> (1, [], e)) of
        (code, out, err) \<Rightarrow>
          \<lparr>vc_step = ''Step '' @ nat_str idx @ '': '' @ take 30 cmd, vc_command = cmd, vc_exit = code,
           vc_status = (if code = 0 then V_Pass else V_Fail), vc_stdout = take 500 out, vc_stderr = take 500 err,
           vc_duration = ms, vc_merkle = None, vc_time = now\<rparr>)"

fun run_ladder ::
    "('m \<Rightarrow> string \<Rightarrow> string \<Rightarrow> 'm \<times> run_outcome) \<Rightarrow> string \<Rightarrow> ('m \<Rightarrow> int) \<Rightarrow> ('m \<Rightarrow> string) \<Rightarrow> 'm \<Rightarrow> string \<Rightarrow> nat
       \<Rightarrow> string list \<Rightarrow> 'm \<times> receipt list" where
  "run_ladder run limit ms now m dir idx [] = (m, [])"
| "run_ladder run limit ms now m dir idx (cmd # cmds) =
     (case run m dir cmd of
        (m1, res) \<Rightarrow>
          (let r = ladder_receipt limit (ms m1) (now m1) idx cmd res
           in if \<not> passed r then (m1, [r])
              else (case run_ladder run limit ms now m1 dir (Suc idx) cmds of (m2, rs) \<Rightarrow> (m2, r # rs))))"

definition run_verification_ladder ::
    "('m \<Rightarrow> string \<Rightarrow> string \<Rightarrow> 'm \<times> run_outcome) \<Rightarrow> string \<Rightarrow> ('m \<Rightarrow> int) \<Rightarrow> ('m \<Rightarrow> string) \<Rightarrow> 'm \<Rightarrow> string
       \<Rightarrow> string list \<Rightarrow> 'm \<times> receipt list" where
  "run_verification_ladder run limit ms now m dir cmds = run_ladder run limit ms now m dir 1 cmds"

definition failure_words :: "string list" where
  "failure_words = [''FAIL'', ''Error'', ''Exception'', ''AssertionError'', ''SyntaxError'']"

definition failure_pointer :: "receipt \<Rightarrow> string" where
  "failure_pointer r =
     (let output = py_strip (or_else (vc_stderr r) (vc_stdout r));
          summary = map py_strip (filter (\<lambda>l. list_ex (\<lambda>w. contains_str w l) failure_words) (split_lines output));
          diagnostic = (if summary \<noteq> [] then last summary else take 150 output)
      in ''['' @ vc_command r @ ''] Exit '' @ int_str (vc_exit r) @ '': '' @ diagnostic)"

definition extract_failure_evidence :: "receipt list \<Rightarrow> string list" where
  "extract_failure_evidence rs = map failure_pointer (filter (\<lambda>r. \<not> passed r) rs)"


section \<open>Reviews\<close>

definition verify_review_freshness :: "string \<Rightarrow> string \<Rightarrow> bool \<times> string" where
  "verify_review_freshness reviewed head =
     (let a = py_strip reviewed; b = py_strip head
      in if a = b then (True, ''Review is fresh: verified against current HEAD commit.'')
         else (False, ''STALE_REVIEW: Review conducted on commit '' @ [CHR 0x27] @ take 8 a @ [CHR 0x27]
                 @ '', but current worktree HEAD is '' @ [CHR 0x27] @ take 8 b @ [CHR 0x27] @ ''. Re-review required.''))"


section \<open>Checkpoints\<close>

record checkpoint =
  ck_id :: string
  ck_task :: string
  ck_stage :: pipeline_stage
  ck_path :: string
  ck_head :: string
  ck_turn :: int
  ck_history :: "stage_entry list"
  ck_saved :: string
  ck_sum :: string

definition compute_checksum :: "checkpoint \<Rightarrow> string" where
  "compute_checksum c = sha256 (ck_id c @ '':'' @ ck_task c @ '':'' @ stage_value (ck_stage c) @ '':'' @ ck_head c
     @ '':'' @ int_str (ck_turn c))"

text \<open>The files of the checkpoint directory by their names; \<open>enc\<close> is \<open>model_dump_json\<close>, \<open>dec\<close> parses and
validates a text, \<^const>\<open>None\<close> when either raises.\<close>

datatype checkpoint_error = Checkpoint_Missing | Checkpoint_Invalid | Checkpoint_Corrupt string string string

definition checkpoint_file :: "checkpoint \<Rightarrow> string" where
  "checkpoint_file c = ck_id c @ ''.json''"

definition save_checkpoint ::
    "(checkpoint \<Rightarrow> string) \<Rightarrow> (string \<Rightarrow> string option) \<Rightarrow> checkpoint \<Rightarrow> (string \<Rightarrow> string option) \<times> checkpoint" where
  "save_checkpoint enc files c =
     (let c1 = c\<lparr>ck_sum := compute_checksum c\<rparr> in (files(checkpoint_file c1 := Some (enc c1)), c1))"

definition load_checkpoint ::
    "(string \<Rightarrow> checkpoint option) \<Rightarrow> (string \<Rightarrow> string option) \<Rightarrow> string \<Rightarrow> checkpoint_error + checkpoint" where
  "load_checkpoint dec files name =
     (case files name of
        None \<Rightarrow> Inl Checkpoint_Missing
      | Some s \<Rightarrow>
          (case dec s of
             None \<Rightarrow> Inl Checkpoint_Invalid
           | Some c \<Rightarrow> if ck_sum c \<noteq> compute_checksum c
                       then Inl (Checkpoint_Corrupt (ck_id c) (compute_checksum c) (ck_sum c)) else Inr c))"


section \<open>Publication\<close>

text \<open>\<open>gh\<close> is \<open>gh pr create\<close>, \<^const>\<open>None\<close> when the client is missing or fails; \<open>bundle\<close> the text of the local
bundle, whose first line holds a character outside the strings of the model; \<open>dir\<close> the resolved directory
of the bundles. The name of the file is joined to it as a path.\<close>

definition patch_name :: "draft_pr \<Rightarrow> string" where
  "patch_name p = replace_char (CHR 0x5C) (CHR ''_'') (replace_char (CHR ''/'') (CHR ''_'') (dr_head p)) @ ''.patch.md''"

definition publish_draft_pr ::
    "('m \<Rightarrow> draft_pr \<Rightarrow> 'm \<times> string option) \<Rightarrow> (draft_pr \<Rightarrow> string) \<Rightarrow> string \<Rightarrow> 'm \<Rightarrow> (string \<Rightarrow> string option) \<Rightarrow> draft_pr
       \<Rightarrow> 'm \<times> (string \<Rightarrow> string option) \<times> string" where
  "publish_draft_pr gh bundle dir m files p =
     (case gh m p of
        (m1, Some out) \<Rightarrow> (m1, files, py_strip out)
      | (m1, None) \<Rightarrow>
          (let path = dir @ ''/'' @ patch_name p
           in (m1, files(path := Some (bundle p)), ''file:///'' @ path)))"

end
