(* ===== verification/Committee.thy ===== *)
theory Committee
  imports Pipeline_Models
begin

text \<open>
  The review committee of a coding task (core/pipeline/committee.py): which specialist personas take part,
  decided from the words of the requirement and the paths of the task.

  The sets of trigger words are lists, only membership is asked. \<open>str.capitalize\<close> is given for the
  characters whose other case is one character of the model; the three others stay as they are.
\<close>

definition security_triggers :: "string list" where
  "security_triggers =
     [''auth'', ''security'', ''token'', ''secret'', ''credential'', ''crypto'',
      ''password'', ''sandbox'', ''policy_gate'', ''mtls'', ''cert'', ''audit_ledger'',
      ''vulnerability'', ''sanitize'', ''permission'', ''rbac'', ''signature'']"

definition architect_triggers :: "string list" where
  "architect_triggers =
     [''core'', ''models'', ''contracts'', ''interface'', ''protocol'', ''pipeline'',
      ''api.py'', ''database'', ''mesh'', ''p2p'', ''federation'', ''workflow'']"

definition frontend_extensions :: "string list" where
  "frontend_extensions = [''.tsx'', ''.jsx'', ''.css'', ''.html'']"

definition frontend_paths :: "string list" where
  "frontend_paths = [''viewer/'', ''frontend/'', ''ui/'', ''components/'']"

definition frontend_words :: "string list" where
  "frontend_words = [''react'', ''ui'', ''viewer'', ''tailwind'', ''component'', ''button'', ''modal'']"

record committee_member =
  cz_role :: string
  cz_display :: string
  cz_mandatory :: bool
  cz_reason :: string
  cz_tier :: string
  cz_budget :: int

record formation =
  fo_task :: string
  fo_members :: "committee_member list"
  fo_risk :: string
  fo_security :: bool
  fo_architect :: bool
  fo_max_tokens :: int

definition role_display_names :: "(string, string) dict" where
  "role_display_names =
     [(''architect'', ''Principal System Architect''),
      (''securityauditor'', ''Zero-Trust Security Auditor''),
      (''qaengineer'', ''Strict QA & Test Engineer''),
      (''backenddev'', ''Backend Infrastructure Engineer''),
      (''frontenddev'', ''Frontend UI/UX Engineer''),
      (''devopsengineer'', ''DevOps & CI/CD Engineer''),
      (''refactoringspecialist'', ''Refactoring & SLOC Specialist'')]"

definition upper_char :: "char \<Rightarrow> char" where
  "upper_char c =
     (let n = (of_char c :: nat)
      in if (97 \<le> n \<and> n \<le> 122) \<or> (224 \<le> n \<and> n \<le> 254 \<and> n \<noteq> 247) then char_of (n - 32) else c)"

definition upper :: "string \<Rightarrow> string" where
  "upper s = map upper_char s"

fun capitalize :: "string \<Rightarrow> string" where
  "capitalize [] = []"
| "capitalize (c # s) = upper_char c # lower s"

text \<open>\<open>re.search(r"\b" + re.escape(kw) + r"\b", prompt_lower)\<close>: the word between two boundaries.\<close>

definition has_word :: "string \<Rightarrow> string \<Rightarrow> bool" where
  "has_word prompt kw = rx_search (in_order [Boundary, lit kw, Boundary]) None prompt"

definition slashed_lower :: "string \<Rightarrow> string" where
  "slashed_lower p = lower (replace_char (CHR 0x5C) (CHR ''/'') p)"

definition is_security_critical :: "coding_request \<Rightarrow> bool" where
  "is_security_critical q \<longleftrightarrow>
     list_ex (has_word (lower (cq_prompt q))) security_triggers
     \<or> list_ex (\<lambda>p. list_ex (\<lambda>w. contains_str w (slashed_lower p)) security_triggers) (cq_targets q @ cq_inspected q)"

definition is_architecture_critical :: "coding_request \<Rightarrow> bool" where
  "is_architecture_critical q \<longleftrightarrow>
     3 \<le> length (cq_targets q)
     \<or> list_ex (has_word (lower (cq_prompt q))) architect_triggers
     \<or> list_ex (\<lambda>p. list_ex (\<lambda>w. contains_str w (slashed_lower p)) architect_triggers) (cq_targets q)"

definition is_frontend_critical :: "coding_request \<Rightarrow> bool" where
  "is_frontend_critical q \<longleftrightarrow>
     list_ex (\<lambda>p. list_ex (\<lambda>e. ends_with e (slashed_lower p)) frontend_extensions
                \<or> list_ex (\<lambda>w. contains_str w (slashed_lower p)) frontend_paths) (cq_targets q)
     \<or> list_ex (\<lambda>w. contains_str w (lower (cq_prompt q))) frontend_words"

definition budget_or :: "coding_request \<Rightarrow> int \<Rightarrow> int" where
  "budget_or q n = (case cq_thinking q of None \<Rightarrow> n | Some b \<Rightarrow> if b = 0 then n else b)"

definition member :: "string \<Rightarrow> string \<Rightarrow> bool \<Rightarrow> string \<Rightarrow> string \<Rightarrow> int \<Rightarrow> committee_member" where
  "member role fallback mandatory reason tier budget =
     \<lparr>cz_role = role, cz_display = dict_get_default role_display_names role fallback, cz_mandatory = mandatory,
      cz_reason = reason, cz_tier = tier, cz_budget = budget\<rparr>"

definition triggered_members :: "coding_request \<Rightarrow> committee_member list" where
  "triggered_members q =
     (if is_security_critical q
      then [member ''securityauditor'' ''Security Auditor'' True
              ''Target files or prompt touch security, auth, crypto, or sandbox boundaries.'' ''REASONING'' (budget_or q 4096)]
      else [])
     @ (if is_architecture_critical q
        then [member ''architect'' ''Principal System Architect'' True
                ''Cross-cutting architectural modifications, core models, or new subsystems detected.'' ''REASONING''
                (budget_or q 8192)]
        else [])
     @ (if is_frontend_critical q
        then [member ''frontenddev'' ''Frontend UI/UX Engineer'' False
                ''UI components, TSX views, or styling assets in target scope.'' ''STANDARD_CODING'' 0]
        else [])
     @ [member ''qaengineer'' ''Strict QA Engineer'' True
          ''Mandatory verification ladder design and edge case coverage analysis.'' ''STANDARD_CODING'' 0]"

text \<open>The roles the request names, added when no member has them yet.\<close>

fun add_explicit :: "committee_member list \<Rightarrow> string list \<Rightarrow> committee_member list" where
  "add_explicit ms [] = ms"
| "add_explicit ms (role # roles) =
     (if role \<in> set (map cz_role ms) then add_explicit ms roles
      else add_explicit (ms @ [member role (capitalize role) False ''Explicitly requested by task specification.''
                                 ''STANDARD_CODING'' 0]) roles)"

definition explicit_roles :: "coding_request \<Rightarrow> string list" where
  "explicit_roles q = map lower (filter (\<lambda>r. r \<noteq> []) (cq_committee_roles q))"

definition risk_level :: "coding_request \<Rightarrow> string" where
  "risk_level q =
     (if is_security_critical q \<and> is_architecture_critical q then ''CRITICAL''
      else if is_security_critical q \<or> is_architecture_critical q then ''HIGH''
      else ''NORMAL'')"

definition evaluate_committee :: "coding_request \<Rightarrow> formation" where
  "evaluate_committee q =
     \<lparr>fo_task = cq_task q, fo_members = add_explicit (triggered_members q) (explicit_roles q), fo_risk = risk_level q,
      fo_security = is_security_critical q, fo_architect = is_architecture_critical q,
      fo_max_tokens = (if risk_level q \<in> {''HIGH'', ''CRITICAL''} then 2000 else 1200)\<rparr>"

end
