(* ===== verification/Pipeline_Debate.thy ===== *)
theory Pipeline_Debate
  imports Committee
begin

text \<open>
  The committee debate (core/pipeline/debate_protocol.py): the turn of each persona, the score card and the
  plan enriched by the debate.

  The mesh coordinator, the vector memory and the callback act on a state that is threaded through. A call
  that raises is caught by the protocol: it gives \<^const>\<open>None\<close>, or no precedents. The rounding of the scores
  to three decimals and their \<open>:.2f\<close> text are parameters, because the code computes them in floats; the
  scores themselves are exact. Applied to a state, \<open>de_now\<close> is the time.
\<close>

section \<open>Surroundings\<close>

record mesh_peer =
  pe_node :: string
  pe_host :: string
  pe_port :: int
  pe_latency :: string

record precedent =
  px_task :: string
  px_category :: string
  px_content :: string

datatype debate_proposal =
    Speech_Proposal string int string string rat
  | Verdict_Proposal string scorecard
  | Checkpoint_Proposal string string string nat

record 'm debate_mesh =
  dz_peer :: "'m \<Rightarrow> 'm \<times> mesh_peer option"
  dz_propose :: "'m \<Rightarrow> debate_proposal \<Rightarrow> 'm \<times> (int \<times> int) option"
  dz_node :: string

record experience =
  xp_task :: string
  xp_category :: string
  xp_content :: string
  xp_card :: scorecard
  xp_author :: string

record 'm debate_memory =
  mm_search :: "'m \<Rightarrow> string \<Rightarrow> 'm \<times> precedent list"
  mm_store :: "'m \<Rightarrow> experience \<Rightarrow> 'm \<times> bool"
  mm_root :: "'m \<Rightarrow> string \<times> nat"

record 'm debate_env =
  de_mesh :: "'m debate_mesh option"
  de_memory :: "'m debate_memory option"
  de_callback :: "('m \<Rightarrow> speech_turn \<Rightarrow> 'm) option"
  de_round3 :: "rat \<Rightarrow> rat"
  de_fmt2 :: "rat \<Rightarrow> string"
  de_now :: "'m \<Rightarrow> string"
  de_elapsed :: "'m \<Rightarrow> 'm \<Rightarrow> int"

definition in_quotes :: "string \<Rightarrow> string" where
  "in_quotes s = [CHR 0x27] @ s @ [CHR 0x27]"


section \<open>Turns\<close>

definition red_flags :: "string list" where
  "red_flags = [''bypass auth'', ''disable sandbox'', ''eval('', ''plaintext key'', ''ignore cert'']"

definition has_red_flag :: "coding_request \<Rightarrow> bool" where
  "has_red_flag q = list_ex (\<lambda>w. contains_str w (lower (cq_prompt q))) red_flags"

text \<open>The speech of a persona: the content, the critique points, the impact on the score, the reasoning and
its tokens.\<close>

type_synonym speech = "string \<times> string list \<times> rat \<times> string option \<times> int"

definition mesh_speech :: "string \<Rightarrow> mesh_peer \<Rightarrow> speech" where
  "mesh_speech role p =
     (''[Federated Mesh Review from Peer '' @ in_quotes (pe_node p) @ '' ('' @ pe_host p @ '':'' @ int_str (pe_port p) @ '') for ''
        @ role @ '']: Target scope verified with '' @ pe_latency p @ ''ms latency. Decentralized consensus confirmed.'',
      [''Decentralized peer consensus verified across mesh cluster'',
       ''Preserve host zero-pollution and isolated worktree execution''],
      0, Some (''Offloaded reasoning inference executed on remote peer node '' @ pe_node p @ ''.''), 512)"

definition auditor_speech :: "bool \<Rightarrow> speech" where
  "auditor_speech flagged =
     (if flagged then
       (''CRITICAL SECURITY ALERT: The requirement or target modifications attempt to bypass security boundaries, ''
          @ ''disable sandbox protections, or expose sensitive secrets. As Zero-Trust Security Auditor, I register a formal ''
          @ ''objection and demand AST isolation, strict token hashing, and permission verification.'',
        [''Reject attempts to bypass authentication or sandboxing'',
         ''Enforce constant-time secret comparison and token masking''],
        - 45 / 100,
        Some ''Auditing zero-trust boundary, sandbox escape vectors, secret redaction, and credential exposure paths.'', 48)
      else
       (''Security Audit Review: Inspected target paths against zero-trust boundary contracts. ''
          @ ''No unauthorized credential exposure or unsanitized external calls detected. ''
          @ ''Recommendation: Ensure all dynamic inputs are strictly typed and audited in RuntimeEventsLedger.'',
        [''Validate input parameters with strict Pydantic schemas'',
         ''Ensure audit logging on security-sensitive state transitions''],
        0, Some ''Verifying role boundaries, token authentication middleware, and input sanitization.'', 36))"

definition architect_speech :: "coding_request \<Rightarrow> precedent list \<Rightarrow> speech" where
  "architect_speech q ps =
     (let n = length (cq_targets q)
      in if 5 < n then
       (''Architectural Boundary Concern: Proposed task mutates '' @ nat_str n @ '' files across multiple modules. ''
          @ ''This violates Extreme Single Responsibility (Principle 2). Recommend decomposing this task into vertical slices ''
          @ ''or scoping down to primary domain files.'',
        [''Scope down mutation target files to maintain bounded blast radius'',
         ''Decouple domain models from presentation and transport layers''],
        - 25 / 100,
        Some ''Analyzing modular cohesion, blast radius expansion, cross-package coupling, and boundary contracts.'', 62)
      else
       (''Architectural Assessment: Target scope ('' @ or_else (join_with '', '' (cq_targets q)) ''bounded scope'' @ '') ''
          @ ''is cleanly decoupled. Anti-Summary Invariant satisfied. Domain contracts remain framework-agnostic. ''
          @ ''Approved for Stop-and-Wait Architecture Gate submission.''
          @ (case ps of [] \<Rightarrow> []
             | p # _ \<Rightarrow> [CHR 0x0A] @ ''[Federated Knowledge Topology Precedent ('' @ px_category p @ '') from Task '' @ px_task p
                          @ '']: '' @ take 140 (px_content p)),
        [''Maintain zero dead code policy'', ''Align interfaces with Protocol v3.8.0 invariants'']
          @ (case ps of [] \<Rightarrow> [] | p # _ \<Rightarrow> [''Referenced historical precedent from task '' @ px_task p]),
        0, Some ''Evaluating component modularity, single responsibility, and domain abstraction purity.'', 52))"

definition qa_speech :: speech where
  "qa_speech =
     (''QA Verification Strategy: Proposed implementation requires automated test coverage. ''
        @ ''The test ladder must verify: 1) Happy-path integration, 2) Fault injection and invalid inputs, ''
        @ ''3) Regression matrix compatibility with exit code 0. Enforcing strict evidence before completion.'',
      [''Run pytest with exit code 0 enforcement'',
       ''Add regression tests covering edge cases and boundary inputs''],
      0, Some ''Synthesizing test ladder steps, edge-case failure matrix, and fail-fast assertions.'', 38)"

definition frontend_speech :: speech where
  "frontend_speech =
     (''Frontend UI/UX Assessment: Interface changes must adhere to Tailwind token standards, ''
        @ ''Radix headless accessibility, and responsive cockpit layouts without visual slop.'',
      [''Preserve accessibility standards and responsive UI grids''], 0, None, 0)"

definition other_speech :: "string \<Rightarrow> speech" where
  "other_speech role =
     (''Deliberation statement by '' @ role @ '': Reviewed task scope and confirmed alignment with project milestones.'',
      [], 0, None, 0)"

definition own_speech :: "string \<Rightarrow> coding_request \<Rightarrow> precedent list \<Rightarrow> speech" where
  "own_speech role q ps =
     (let r = lower role
      in if r = ''securityauditor'' then auditor_speech (has_red_flag q)
         else if r = ''architect'' then architect_speech q ps
         else if r = ''qaengineer'' then qa_speech
         else if r = ''frontenddev'' then frontend_speech
         else other_speech role)"

definition member_speech :: "'m debate_env \<Rightarrow> 'm \<Rightarrow> string \<Rightarrow> coding_request \<Rightarrow> precedent list \<Rightarrow> 'm \<times> speech" where
  "member_speech env m role q ps =
     (case de_mesh env of
        None \<Rightarrow> (m, own_speech role q ps)
      | Some mesh \<Rightarrow>
          if cq_mesh q \<and> \<not> has_red_flag q
          then (case dz_peer mesh m of
                  (m1, Some p) \<Rightarrow> (m1, mesh_speech role p)
                | (m1, None) \<Rightarrow> (m1, own_speech role q ps))
          else (m, own_speech role q ps))"

definition generate_member_turn ::
    "'m debate_env \<Rightarrow> 'm \<Rightarrow> string \<Rightarrow> int \<Rightarrow> int \<Rightarrow> coding_request \<Rightarrow> precedent list \<Rightarrow> 'm \<times> speech_turn" where
  "generate_member_turn env m role r_idx t_idx q ps =
     (case member_speech env m role q ps of
        (m1, content, critique, impact, reasoning, tokens) \<Rightarrow>
          (m1, \<lparr>sx_speaker = role, sx_target = None, sx_round = r_idx, sx_turn = t_idx, sx_content = content,
                 sx_critique = critique, sx_impact = impact, sx_reasoning = reasoning, sx_tokens = tokens,
                 sx_time = de_now env m1\<rparr>))"


section \<open>Rounds\<close>

text \<open>What the rounds collect.\<close>

record tally =
  ty_arch :: "rat list"
  ty_sec :: "rat list"
  ty_qa :: "rat list"
  ty_dissent :: "string list"
  ty_points :: "string list"

definition empty_tally :: tally where
  "empty_tally = \<lparr>ty_arch = [], ty_sec = [], ty_qa = [], ty_dissent = [], ty_points = []\<rparr>"

definition turn_score :: "speech_turn \<Rightarrow> rat" where
  "turn_score t = max 0 (min 1 (1 + sx_impact t))"

definition count_turn :: "string \<Rightarrow> int \<Rightarrow> speech_turn \<Rightarrow> tally \<Rightarrow> tally" where
  "count_turn role r_idx t a =
     a\<lparr>ty_points := ty_points a @ sx_critique t,
       ty_arch := ty_arch a @ (if role = ''architect'' then [turn_score t] else []),
       ty_sec := ty_sec a @ (if role = ''securityauditor'' then [turn_score t] else []),
       ty_qa := ty_qa a @ (if role = ''qaengineer'' then [turn_score t] else []),
       ty_dissent := ty_dissent a @ (if sx_impact t < - 1 / 5
         then [''['' @ upper role @ '' R'' @ int_str r_idx @ ''] '' @ take 140 (sx_content t) @ ''...''] else [])\<rparr>"

definition after_turn :: "'m debate_env \<Rightarrow> coding_request \<Rightarrow> string \<Rightarrow> int \<Rightarrow> speech_turn \<Rightarrow> 'm \<Rightarrow> 'm" where
  "after_turn env q role r_idx t m =
     (let m1 = (case de_callback env of None \<Rightarrow> m | Some f \<Rightarrow> f m t)
      in case de_mesh env of
           None \<Rightarrow> m1
         | Some mesh \<Rightarrow>
             if cq_raft q
             then fst (dz_propose mesh m1 (Speech_Proposal (cq_task q) r_idx role (take 160 (sx_content t)) (sx_impact t)))
             else m1)"

fun run_turns ::
    "'m debate_env \<Rightarrow> coding_request \<Rightarrow> precedent list \<Rightarrow> int \<Rightarrow> int \<Rightarrow> 'm \<Rightarrow> tally \<Rightarrow> committee_member list
       \<Rightarrow> 'm \<times> tally \<times> speech_turn list" where
  "run_turns env q ps r_idx t_idx m a [] = (m, a, [])"
| "run_turns env q ps r_idx t_idx m a (z # zs) =
     (case generate_member_turn env m (cz_role z) r_idx t_idx q ps of
        (m1, t) \<Rightarrow>
          (case run_turns env q ps r_idx (t_idx + 1) (after_turn env q (cz_role z) r_idx t m1)
                  (count_turn (cz_role z) r_idx t a) zs of
             (m2, a2, ts) \<Rightarrow> (m2, a2, t # ts)))"

definition round_summary :: "int \<Rightarrow> nat \<Rightarrow> string" where
  "round_summary r_idx n = ''Round '' @ int_str r_idx @ '' completed with '' @ nat_str n @ '' turns. ''
     @ ''Key discussion focused on architectural boundaries, security containment, and testing strategy.''"

text \<open>The rounds from \<open>r_idx\<close> on, \<open>n\<close> of them.\<close>

fun run_rounds ::
    "'m debate_env \<Rightarrow> coding_request \<Rightarrow> precedent list \<Rightarrow> committee_member list \<Rightarrow> int \<Rightarrow> nat \<Rightarrow> 'm \<Rightarrow> tally
       \<Rightarrow> 'm \<times> tally \<times> debate_round list" where
  "run_rounds env q ps zs r_idx 0 m a = (m, a, [])"
| "run_rounds env q ps zs r_idx (Suc n) m a =
     (case run_turns env q ps r_idx 1 m a zs of
        (m1, a1, ts) \<Rightarrow>
          (case run_rounds env q ps zs (r_idx + 1) n m1 a1 of
             (m2, a2, rs) \<Rightarrow>
               (m2, a2, \<lparr>rd_index = r_idx, rd_turns = ts, rd_summary = round_summary r_idx (length ts)\<rparr> # rs)))"


section \<open>The verdict\<close>

definition average :: "rat list \<Rightarrow> rat \<Rightarrow> rat" where
  "average xs none = (if xs = [] then none else sum_list xs / of_nat (length xs))"

definition make_scorecard :: "(rat \<Rightarrow> rat) \<Rightarrow> tally \<Rightarrow> debate_round list \<Rightarrow> scorecard" where
  "make_scorecard round3 a rounds =
     (let arch = average (ty_arch a) (90 / 100);
          sec = average (ty_sec a) (95 / 100);
          qa = average (ty_qa a) (90 / 100);
          composite = round3 (35 / 100 * arch + 40 / 100 * sec + 25 / 100 * qa);
          verdict = (if sec < 70 / 100 then (''REJECTED_NEEDS_REVISION'',
                        ''Security assurance threshold not met; remediate zero-trust/sandbox risks.'')
                     else if composite < 70 / 100 then (''REJECTED_NEEDS_REVISION'',
                        ''Composite confidence below 0.70 threshold; refine plan and re-deliberate.'')
                     else (''CONSENSUS_APPROVED'',
                        ''Proceed to Stop-and-Wait Architecture Gate with committee enrichment.''))
      in \<lparr>sc_architecture = round3 arch, sc_security = round3 sec, sc_tests = round3 qa, sc_composite = composite,
          sc_tokens = sum_list (map sx_tokens (concat (map rd_turns rounds))), sc_decision = fst verdict,
          sc_dissent = ty_dissent a, sc_actions = [snd verdict]\<rparr>)"

definition sort_point :: "string \<Rightarrow> string list \<times> string list \<Rightarrow> string list \<times> string list" where
  "sort_point cp et =
     (case et of (edges, tests) \<Rightarrow>
        if cp \<notin> set edges \<and> \<not> contains_str ''test'' (lower cp) then (edges @ [cp], tests)
        else if cp \<notin> set tests \<and> (contains_str ''test'' (lower cp) \<or> contains_str ''pytest'' (lower cp))
        then (edges, tests @ [cp])
        else (edges, tests))"

text \<open>The constructor call leaves the file mutations at their default.\<close>

definition synthesize_mutation_plan ::
    "(rat \<Rightarrow> string) \<Rightarrow> coding_request \<Rightarrow> mutation_plan option \<Rightarrow> scorecard \<Rightarrow> string list \<Rightarrow> mutation_plan" where
  "synthesize_mutation_plan fmt2 q draft sheet points =
     (case fold sort_point points (case draft of None \<Rightarrow> ([], []) | Some p \<Rightarrow> (mu_edge_cases p, mu_tests p)) of
        (edges, tests) \<Rightarrow>
          \<lparr>mu_task = cq_task q,
           mu_summary =
             (case draft of
                Some p \<Rightarrow> if mu_summary p \<noteq> [] then mu_summary p @ '' (Reviewed & Enriched by Multi-Agent Committee)''
                          else ''[Committee-Enriched Plan] '' @ cq_prompt q @ ''. Consensus Composite: ''
                            @ fmt2 (sc_composite sheet) @ '' ('' @ sc_decision sheet @ '').''
              | None \<Rightarrow> ''[Committee-Enriched Plan] '' @ cq_prompt q @ ''. Consensus Composite: ''
                            @ fmt2 (sc_composite sheet) @ '' ('' @ sc_decision sheet @ '').''),
           mu_targets = (case draft of None \<Rightarrow> cq_targets q | Some p \<Rightarrow> mu_targets p),
           mu_role = (case cq_roles q of [] \<Rightarrow> ''DOMAIN_LOGIC_AGENT'' | r # rs \<Rightarrow> r),
           mu_diff = (case draft of None \<Rightarrow> [] | Some p \<Rightarrow> mu_diff p),
           mu_edge_cases = edges,
           mu_tests = (if tests = [] then [''pytest tests/ -k '' @ cq_task q, ''python -m py_compile <target_files>''] else tests),
           mu_mutations = [], mu_approved = False, mu_token = None, mu_approved_at = None\<rparr>)"

definition replicate_verdict :: "'m debate_env \<Rightarrow> coding_request \<Rightarrow> scorecard \<Rightarrow> 'm \<Rightarrow> 'm \<times> (int \<times> int) option" where
  "replicate_verdict env q sheet m =
     (case de_mesh env of
        None \<Rightarrow> (m, None)
      | Some mesh \<Rightarrow> if cq_raft q then dz_propose mesh m (Verdict_Proposal (cq_task q) sheet) else (m, None))"

text \<open>The checkpoint is only proposed when the experience was stored.\<close>

definition index_experience :: "'m debate_env \<Rightarrow> coding_request \<Rightarrow> scorecard \<Rightarrow> 'm \<Rightarrow> 'm" where
  "index_experience env q sheet m =
     (case de_memory env of
        None \<Rightarrow> m
      | Some mem \<Rightarrow>
          (let xp = \<lparr>xp_task = cq_task q,
                 xp_category = (if sc_decision sheet = ''CONSENSUS_APPROVED'' then ''DECISION'' else ''LESSON''),
                 xp_content = ''Task '' @ cq_task q @ '' consensus verdict: '' @ sc_decision sheet @ ''. Composite score: ''
                   @ de_fmt2 env (sc_composite sheet) @ ''. Recommendations: ''
                   @ (if sc_actions sheet = [] then ''Proceed'' else join_with ''; '' (take 2 (sc_actions sheet))),
                 xp_card = sheet,
                 xp_author = (case de_mesh env of None \<Rightarrow> ''node-local'' | Some mesh \<Rightarrow> dz_node mesh)\<rparr>
           in case mm_store mem m xp of
                (m1, False) \<Rightarrow> m1
              | (m1, True) \<Rightarrow>
                  (case de_mesh env of
                     None \<Rightarrow> m1
                   | Some mesh \<Rightarrow>
                       if cq_raft q
                       then (case mm_root mem m1 of (digest, n) \<Rightarrow>
                               fst (dz_propose mesh m1 (Checkpoint_Proposal (cq_task q) (sc_decision sheet) digest n)))
                       else m1)))"

definition debate_rounds :: "coding_request \<Rightarrow> nat" where
  "debate_rounds q = nat (if cq_rounds q = 0 then 1 else cq_rounds q)"

definition run_debate ::
    "'m debate_env \<Rightarrow> 'm \<Rightarrow> coding_request \<Rightarrow> formation \<Rightarrow> mutation_plan option \<Rightarrow> 'm \<times> debate_record" where
  "run_debate env m q form draft =
     (case (case de_memory env of None \<Rightarrow> (m, []) | Some mem \<Rightarrow> mm_search mem m (cq_prompt q)) of
        (m1, ps) \<Rightarrow>
          (case run_rounds env q ps (fo_members form) 1 (debate_rounds q) m1 empty_tally of
             (m2, a, rounds) \<Rightarrow>
               (let sheet = make_scorecard (de_round3 env) a rounds;
                    plan = synthesize_mutation_plan (de_fmt2 env) q draft sheet (ty_points a)
                in case replicate_verdict env q sheet m2 of
                     (m3, committed) \<Rightarrow>
                       (let m4 = index_experience env q sheet m3
                        in (m4, \<lparr>dc_id = ''DEBATE-'' @ cq_task q, dc_task = cq_task q, dc_members = map cz_role (fo_members form),
                                 dc_rounds = rounds, dc_card = sheet, dc_plan = Some plan, dc_duration = de_elapsed env m m2,
                                 dc_log_index = map_option fst committed, dc_term = map_option snd committed,
                                 dc_time = de_now env m4\<rparr>)))))"

end
