(* ===== verification/Pipeline_Healing.thy ===== *)
theory Pipeline_Healing
  imports Runtime_Events Pipeline_Debate
begin

text \<open>
  The prechecks of core/precheck.py, the surroundings of the pipeline (the interfaces of
  core/pipeline/contracts.py) and the self-healing of core/pipeline/self_healing.py.

  \<open>'w\<close> is the state of everything outside: repository, worktrees, audit ledger, mesh and memory. An
  operation of an interface gives the next state and its value, or the text of the exception it raises. Git
  and the file system are parameters.
\<close>

section \<open>Prechecks\<close>

text \<open>A check gives \<open>Inl message\<close> for BLOCKED and \<open>Inr message\<close> for PASS.\<close>

definition check_cli_dependencies :: "(string \<Rightarrow> bool) \<Rightarrow> string list \<Rightarrow> string list" where
  "check_cli_dependencies which deps = filter (\<lambda>d. \<not> which d) deps"

definition check_credentials :: "string list \<Rightarrow> string list \<Rightarrow> (string, bool) dict" where
  "check_credentials environ vars = dict_of (\<lambda>v. v) (\<lambda>v. v \<in> set environ) vars"

definition merge_new :: "string list \<Rightarrow> string list \<Rightarrow> string list" where
  "merge_new xs ys = fold (\<lambda>y acc. if y \<in> set acc then acc else acc @ [y]) ys xs"

text \<open>\<open>func\<close> are the dependencies and variables the tool's function declares, \<open>contract\<close> those in the front
matter of its contract, if there is one that can be read.\<close>

definition run_precheck ::
    "(string \<Rightarrow> bool) \<Rightarrow> string list \<Rightarrow> string list \<times> string list \<Rightarrow> (string list \<times> string list) option \<Rightarrow> string + string" where
  "run_precheck which environ func contract =
     (let deps = (case contract of None \<Rightarrow> fst func | Some c \<Rightarrow> merge_new (fst func) (fst c));
          vars = (case contract of None \<Rightarrow> snd func | Some c \<Rightarrow> merge_new (snd func) (snd c));
          missing_cli = check_cli_dependencies which deps;
          missing_creds = map fst (filter (\<lambda>kv. \<not> snd kv) (check_credentials environ vars));
          errors = (if missing_cli = [] then [] else [''Missing external CLI dependency: '' @ join_with '', '' missing_cli])
            @ (if missing_creds = [] then []
               else [''Missing environment credentials: '' @ join_with '', '' missing_creds
                     @ '' (Please verify active OAuth/Connector)''])
      in if errors \<noteq> [] then Inl (join_with ''; '' errors) else Inr ''Pre-check passed.'')"

definition source_path :: "string \<Rightarrow> string \<Rightarrow> string" where
  "source_path base f = (if starts_with ''/'' f then f else base @ ''/'' @ f)"

definition check_anti_summary_preflight :: "(string \<Rightarrow> bool) \<Rightarrow> string \<Rightarrow> string list \<Rightarrow> string + string" where
  "check_anti_summary_preflight exists_at base inspected =
     (if inspected = [] then Inl (''Anti-Summary violation: Primary source inspection required before planning or code changes. ''
                                  @ ''Citing concrete files is mandatory.'')
      else
        (let missing = filter (\<lambda>f. \<not> exists_at (source_path base f)) inspected
         in if missing \<noteq> [] then Inl (''Anti-Summary violation: Specified primary source files do not exist: ''
                                       @ join_with '', '' missing)
            else Inr (''Anti-Summary preflight verified across '' @ nat_str (length inspected) @ '' primary source files.'')))"

definition agent_like :: "string \<Rightarrow> bool" where
  "agent_like approver = (let s = lower (py_strip approver) in starts_with ''agent'' s \<or> starts_with ''bot'' s)"

definition check_stop_and_wait_gate :: "bool \<Rightarrow> string option \<Rightarrow> string + string" where
  "check_stop_and_wait_gate approved approver =
     (if \<not> approved then Inl ''Stop-and-Wait Gate: Plan proposal requires explicit Human sign-off before modifying code.''
      else case approver of
             Some a \<Rightarrow>
               if a \<noteq> [] \<and> agent_like a
               then Inl (''Stop-and-Wait Gate: Self-approval rejected. Autonomous agent '' @ in_quotes a
                         @ '' cannot approve execution plans.'')
               else Inr ''Stop-and-Wait Gate passed: Human sign-off confirmed.''
           | None \<Rightarrow> Inr ''Stop-and-Wait Gate passed: Human sign-off confirmed.'')"


section \<open>Interfaces\<close>

type_synonym ('w, 'a) action = "'w \<times> (string + 'a)"

record 'w worktree_manager =
  wm_create :: "'w \<Rightarrow> string \<Rightarrow> string \<Rightarrow> string \<Rightarrow> ('w, worktree_session) action"
  wm_diff :: "'w \<Rightarrow> worktree_session \<Rightarrow> ('w, string) action"
  wm_commit :: "'w \<Rightarrow> worktree_session \<Rightarrow> string \<Rightarrow> ('w, string) action"
  wm_cleanup :: "'w \<Rightarrow> worktree_session \<Rightarrow> bool \<Rightarrow> ('w, bool) action"
  wm_multi :: "('w \<Rightarrow> string \<Rightarrow> string list \<Rightarrow> string \<Rightarrow> ('w, (string, worktree_session) dict) action) option"
  wm_squash :: "('w \<Rightarrow> string \<Rightarrow> string \<Rightarrow> string \<Rightarrow> ('w, bool \<times> string) action) option"

text \<open>The dictionary an executor returns, as far as it is read: \<open>modified_files\<close> and \<open>action_taken\<close>.\<close>

record 'w scoped_executor =
  xc_execute :: "'w \<Rightarrow> worktree_session \<Rightarrow> mutation_plan \<Rightarrow> ('w, string list option) action"
  xc_heal :: "('w \<Rightarrow> worktree_session \<Rightarrow> mutation_plan \<Rightarrow> string list
                \<Rightarrow> ('w, string list option \<times> string option) action) option"

type_synonym 'w ladder_runner = "'w \<Rightarrow> string \<Rightarrow> string list \<Rightarrow> ('w, receipt list) action"

text \<open>What the pipeline relies on of a runner: the receipts are those of the first commands, a receipt is passed
exactly when its exit code is 0, and the ladder only stops early after a receipt that is not.\<close>

locale ladder =
  fixes run :: "'w ladder_runner"
  assumes ladder_commands: "run w dir cmds = (w1, Inr rs) \<Longrightarrow> map vc_command rs = take (length rs) cmds"
    and ladder_exit: "run w dir cmds = (w1, Inr rs) \<Longrightarrow> c \<in> set rs \<Longrightarrow> passed c \<longleftrightarrow> vc_exit c = 0"
    and ladder_stops: "run w dir cmds = (w1, Inr rs) \<Longrightarrow> list_all passed rs \<Longrightarrow> length rs = length cmds"
begin

lemma ladder_complete:
  assumes "run w dir cmds = (w1, Inr rs)" "list_all passed rs"
  shows "map vc_command rs = cmds" "\<forall>c \<in> set rs. vc_exit c = 0"
  using ladder_commands [OF assms(1)] ladder_stops [OF assms] ladder_exit [OF assms(1)] assms(2)
  by (auto simp: list_all_iff)

end

record 'w git_tools =
  gt_head :: "'w \<Rightarrow> string \<Rightarrow> string option"
  gt_main :: "'w \<Rightarrow> string \<Rightarrow> bool"
  gt_is_dir :: "'w \<Rightarrow> string \<Rightarrow> bool"
  gt_status :: "'w \<Rightarrow> string \<Rightarrow> string option"
  gt_reset :: "'w \<Rightarrow> string \<Rightarrow> string \<Rightarrow> 'w"
  gt_clean :: "'w \<Rightarrow> string \<Rightarrow> 'w"
  gt_resolve :: "'w \<Rightarrow> string \<Rightarrow> string"
  gt_exists :: "'w \<Rightarrow> string \<Rightarrow> bool"

text \<open>The text of a pull request's description (\<open>_build_pr_body\<close>) has characters outside the strings of the
model, so it is a parameter of what it is built from.\<close>

record 'w pipeline =
  pp_workspace :: string
  pp_worktrees :: "'w worktree_manager option"
  pp_executor :: "'w scoped_executor option"
  pp_runner :: "'w ladder_runner option"
  pp_publisher :: "('w \<Rightarrow> draft_pr \<Rightarrow> string \<Rightarrow> ('w, string) action) option"
  pp_audit :: "('w \<Rightarrow> string \<Rightarrow> json \<Rightarrow> 'w) option"
  pp_review :: "(string \<Rightarrow> string \<Rightarrow> bool \<times> string) option"
  pp_debate :: "'w debate_env"
  pp_recall :: "('w \<Rightarrow> string \<Rightarrow> 'w \<times> precedent list) option"
  pp_git :: "'w git_tools"
  pp_body :: "coding_request \<Rightarrow> mutation_plan \<Rightarrow> receipt list \<Rightarrow> string \<Rightarrow> debate_record option \<Rightarrow> string"
  pp_now :: "'w \<Rightarrow> string"
  pp_elapsed :: "'w \<Rightarrow> 'w \<Rightarrow> int"


section \<open>Self-healing\<close>

definition healing_diagnostics :: "receipt list \<Rightarrow> string list" where
  "healing_diagnostics failed =
     (let ds = extract_failure_evidence failed
      in if ds \<noteq> [] then ds
         else map (\<lambda>r. vc_step r @ '': '' @ or_else (vc_stderr r) (or_else (vc_stdout r) ''Unknown error'')) failed)"

definition recall_precedents :: "'w pipeline \<Rightarrow> 'w \<Rightarrow> string list \<Rightarrow> 'w \<times> string list" where
  "recall_precedents env w ds =
     (case pp_recall env of
        None \<Rightarrow> (w, [])
      | Some f \<Rightarrow>
          (case f w (take 200 (join_with '' '' ds)) of
             (w1, ps) \<Rightarrow> (w1, map (\<lambda>p. ''['' @ px_category p @ ''] '' @ take 120 (px_content p)) ps)))"

text \<open>The corrective mutation: the files it reports and what was done.\<close>

definition corrective_mutation ::
    "'w pipeline \<Rightarrow> 'w \<Rightarrow> worktree_session \<Rightarrow> mutation_plan \<Rightarrow> string list \<Rightarrow> 'w \<times> string list \<times> string" where
  "corrective_mutation env w session plan ds =
     (case pp_executor env of
        None \<Rightarrow> (w, [], ''No active scoped executor attached; simulated healing pass'')
      | Some x \<Rightarrow>
          (case xc_heal x of
             Some heal \<Rightarrow>
               (case heal w session plan ds of
                  (w1, Inr (fs, done)) \<Rightarrow>
                    (w1, (case fs of None \<Rightarrow> mu_targets plan | Some l \<Rightarrow> l),
                     (case done of None \<Rightarrow> ''Applied scoped executor corrective mutation'' | Some d \<Rightarrow> d))
                | (w1, Inl e) \<Rightarrow> (w1, [], ''Attempted executor fix, encountered: '' @ e))
           | None \<Rightarrow>
               (case xc_execute x w session plan of
                  (w1, Inr fs) \<Rightarrow>
                    (w1, (case fs of None \<Rightarrow> mu_targets plan | Some l \<Rightarrow> l),
                     ''Re-executed scoped mutation plan with updated parameters'')
                | (w1, Inl e) \<Rightarrow> (w1, [], ''Fallback fix failed: '' @ e))))"

definition attempt_self_healing ::
    "'w pipeline \<Rightarrow> 'w \<Rightarrow> worktree_session \<Rightarrow> mutation_plan \<Rightarrow> receipt list \<Rightarrow> int \<Rightarrow> ('w, healing_receipt) action" where
  "attempt_self_healing env w session plan failed idx =
     (let ds = healing_diagnostics failed
      in case recall_precedents env w ds of
           (w1, ps) \<Rightarrow>
             (case corrective_mutation env w1 session plan ds of
                (w2, files, action) \<Rightarrow>
                  (case (case pp_runner env of None \<Rightarrow> (w2, Inr None)
                         | Some run \<Rightarrow> (case run w2 (ws_path session) (mu_tests plan) of
                                           (w3, Inl e) \<Rightarrow> (w3, Inl e) | (w3, Inr rs) \<Rightarrow> (w3, Inr (Some rs)))) of
                     (w3, Inl e) \<Rightarrow> (w3, Inl e)
                   | (w3, Inr recheck) \<Rightarrow>
                       (w3, Inr \<lparr>hr_attempt = idx, hr_failed = map vc_step failed, hr_evidence = ds, hr_precedents = ps,
                                hr_action = action, hr_files = files,
                                hr_passed = (case recheck of None \<Rightarrow> False | Some rs \<Rightarrow> list_all passed rs),
                                hr_duration = pp_elapsed env w w3\<rparr>))))"


section \<open>Rollback\<close>

definition primary_repository :: "'w git_tools \<Rightarrow> 'w \<Rightarrow> string \<Rightarrow> bool" where
  "primary_repository g w dir \<longleftrightarrow>
     gt_main g w dir \<and> \<not> contains_str ''worktrees'' dir \<and> \<not> contains_str ''tmp'' (lower dir)
     \<and> \<not> contains_str ''temp'' (lower dir)"

definition untracked_lines :: "string option \<Rightarrow> string list" where
  "untracked_lines out =
     (case out of None \<Rightarrow> []
      | Some s \<Rightarrow> map (\<lambda>l. py_strip (drop 3 l)) (filter (starts_with ''??'') (split_lines s)))"

definition execute_auto_rollback ::
    "'w pipeline \<Rightarrow> 'w \<Rightarrow> string \<Rightarrow> worktree_session \<Rightarrow> bool \<Rightarrow> 'w \<times> rollback_receipt" where
  "execute_auto_rollback env w task session teardown =
     (let g = pp_git env; dir = gt_resolve g w (ws_path session)
      in if primary_repository g w dir
         then (w, \<lparr>rb_task = task, rb_path = dir, rb_branch = ws_branch session, rb_restored = ws_base session,
                   rb_purged = [], rb_status = ''PRIMARY_REPO_PROTECTED'', rb_clean = False, rb_time = pp_now env w\<rparr>)
         else
           (let purged = (if gt_is_dir g w dir then untracked_lines (gt_status g w dir) else []);
                w1 = (if gt_is_dir g w dir then gt_clean g (gt_reset g w dir (ws_base session)) dir else w);
                w2 = (case pp_worktrees env of
                        Some wm \<Rightarrow> if teardown then fst (wm_cleanup wm w1 session True) else w1
                      | None \<Rightarrow> w1)
            in (w2, \<lparr>rb_task = task, rb_path = ws_path session, rb_branch = ws_branch session, rb_restored = ws_base session,
                     rb_purged = purged, rb_status = (if teardown then ''BRANCH_TEARDOWN'' else ''PRISTINE_ROLLBACK''),
                     rb_clean = True, rb_time = pp_now env w2\<rparr>)))"

end
