(* ===== verification/Coding_Pipeline.thy ===== *)
theory Coding_Pipeline
  imports Pipeline_Healing
begin

text \<open>
  The coding pipeline (core/pipeline/manager.py): intake, committee, gate, isolated mutation, verification
  with self-healing, independent review, draft pull request; and the concurrent pipeline of several roles.

  The sessions are the dictionary \<open>_active_sessions\<close>. A result is an object shared through that
  dictionary: the model keeps it there, under the key of the task, and an operation reads it from there and
  puts it back. The body of the \<open>try\<close> block works on the outside state and the result, a step of it
  ends by raising, by returning or with a value for the next step.
\<close>

section \<open>Steps\<close>

datatype pipeline_exception = Pipeline_Error string pipeline_stage | Value_Error string

datatype 'a outcome = Raise string | Return | Next 'a

type_synonym ('w, 'a) step = "'w \<Rightarrow> pipeline_result \<Rightarrow> 'w \<times> pipeline_result \<times> 'a outcome"

definition bind_step :: "('w, 'a) step \<Rightarrow> ('a \<Rightarrow> ('w, 'b) step) \<Rightarrow> ('w, 'b) step" where
  "bind_step f g w r =
     (case f w r of
        (w1, r1, Next a) \<Rightarrow> g a w1 r1
      | (w1, r1, Raise e) \<Rightarrow> (w1, r1, Raise e)
      | (w1, r1, Return) \<Rightarrow> (w1, r1, Return))"

definition next_step :: "'a \<Rightarrow> ('w, 'a) step" where
  "next_step a w r = (w, r, Next a)"

definition return_step :: "('w, 'a) step" where
  "return_step w r = (w, r, Return)"

definition raise_step :: "string \<Rightarrow> ('w, 'a) step" where
  "raise_step e w r = (w, r, Raise e)"

definition update_result :: "(pipeline_result \<Rightarrow> pipeline_result) \<Rightarrow> ('w, unit) step" where
  "update_result f w r = (w, f r, Next ())"

definition act_step :: "('w \<Rightarrow> ('w, 'a) action) \<Rightarrow> ('w, 'a) step" where
  "act_step f w r = (case f w of (w1, Inl e) \<Rightarrow> (w1, r, Raise e) | (w1, Inr a) \<Rightarrow> (w1, r, Next a))"

definition run_step :: "('w \<Rightarrow> 'w \<times> 'a) \<Rightarrow> ('w, 'a) step" where
  "run_step f w r = (case f w of (w1, a) \<Rightarrow> (w1, r, Next a))"


section \<open>Stages\<close>

definition terminal :: "pipeline_stage \<Rightarrow> bool" where
  "terminal s \<longleftrightarrow> s = Stage_Completed \<or> s = Stage_Failed"

definition illegal_transition :: "pipeline_stage \<Rightarrow> pipeline_stage \<Rightarrow> string" where
  "illegal_transition s t = ''Illegal state transition: cannot re-enter active stage '' @ in_quotes (stage_value t)
     @ '' from terminal stage '' @ in_quotes (stage_value s)"

definition enter_stage :: "'w pipeline \<Rightarrow> 'w \<Rightarrow> pipeline_stage \<Rightarrow> string \<Rightarrow> pipeline_result \<Rightarrow> pipeline_result" where
  "enter_stage env w s detail r =
     r\<lparr>pl_stage := s, pl_history := pl_history r @ [\<lparr>se_stage = s, se_time = pp_now env w, se_detail = detail\<rparr>]\<rparr>"

definition audit_stage :: "'w pipeline \<Rightarrow> 'w \<Rightarrow> string \<Rightarrow> pipeline_stage \<Rightarrow> string \<Rightarrow> 'w" where
  "audit_stage env w task s detail =
     (case pp_audit env of
        None \<Rightarrow> w
      | Some f \<Rightarrow> f w (''pipeline_stage_'' @ lower (stage_value s)) (JObj [(''task_id'', JStr task), (''detail'', JStr detail)]))"

definition record_stage :: "'w pipeline \<Rightarrow> pipeline_stage \<Rightarrow> string \<Rightarrow> ('w, unit) step" where
  "record_stage env s detail w r =
     (if terminal (pl_stage r) \<and> \<not> terminal s then (w, r, Raise (illegal_transition (pl_stage r) s))
      else (audit_stage env w (pl_task r) s detail, enter_stage env w s detail r, Next ()))"

text \<open>Ending with a status and a message: \<open>result.status = \<dots>\<close>, \<open>result.error_message = \<dots>\<close>, the record of the
stage FAILED, and the return.\<close>

definition end_with :: "'w pipeline \<Rightarrow> verification_status \<Rightarrow> string \<Rightarrow> ('w, 'a) step" where
  "end_with env v msg =
     bind_step (update_result (\<lambda>r. r\<lparr>pl_status := v, pl_error := Some msg\<rparr>)) (\<lambda>_.
     bind_step (record_stage env Stage_Failed msg) (\<lambda>_. return_step))"


section \<open>Scopes\<close>

definition unrooted :: "string \<Rightarrow> string" where
  "unrooted p = dropWhile (\<lambda>c. c = CHR ''/'') (replace_char (CHR 0x5C) (CHR ''/'') p)"

fun forbidden_target :: "string list \<Rightarrow> string list \<Rightarrow> (string \<times> string) option" where
  "forbidden_target prefixes [] = None"
| "forbidden_target prefixes (f # fs) =
     (case find (\<lambda>p. starts_with (unrooted p) (unrooted f)) prefixes of
        Some p \<Rightarrow> Some (f, p)
      | None \<Rightarrow> forbidden_target prefixes fs)"

text \<open>\<^const>\<open>None\<close> is \<open>(True, None)\<close>.\<close>

definition validate_role_scope :: "string \<Rightarrow> string list \<Rightarrow> string option" where
  "validate_role_scope role targets =
     (case dict_get role_scope_restrictions role of
        None \<Rightarrow> None
      | Some rule \<Rightarrow>
          if ro_read_only rule then Some (''Role '' @ role @ '' is strictly read-only and cannot mutate any files.'')
          else
            (case forbidden_target (ro_forbidden rule) targets of
               None \<Rightarrow> None
             | Some (f, p) \<Rightarrow> Some (''Role '' @ role @ '' is forbidden from modifying '' @ in_quotes f
                 @ '' (violates boundary prefix '' @ in_quotes p @ ''). '' @ ro_description rule)))"


section \<open>Sessions\<close>

record 'w manager =
  mg_outside :: 'w
  mg_sessions :: "(string, pipeline_result) dict"

definition put_session :: "'w manager \<Rightarrow> string \<Rightarrow> 'w \<times> pipeline_result \<times> 'a outcome \<Rightarrow> 'w manager" where
  "put_session s task out = (case out of (w, r, _) \<Rightarrow> \<lparr>mg_outside = w, mg_sessions = dict_put task r (mg_sessions s)\<rparr>)"

definition session_of :: "'w manager \<Rightarrow> string \<Rightarrow> pipeline_result" where
  "session_of s task = (case dict_get (mg_sessions s) task of None \<Rightarrow> new_result task | Some r \<Rightarrow> r)"

definition outcome_exception :: "'w \<times> pipeline_result \<times> 'a outcome \<Rightarrow> pipeline_exception option" where
  "outcome_exception out = (case snd (snd out) of Raise e \<Rightarrow> Some (Value_Error e) | _ \<Rightarrow> None)"


section \<open>Intake\<close>

definition first_scope_error :: "string list \<Rightarrow> string list \<Rightarrow> string option" where
  "first_scope_error roles targets =
     (case find (\<lambda>role. validate_role_scope role targets \<noteq> None) roles of
        None \<Rightarrow> None
      | Some role \<Rightarrow> validate_role_scope role targets)"

definition target_repository :: "'w pipeline \<Rightarrow> 'w \<Rightarrow> coding_request \<Rightarrow> string" where
  "target_repository env w q =
     (if cq_repository q \<noteq> [] then gt_resolve (pp_git env) w (cq_repository q) else pp_workspace env)"

definition accepted_text :: "coding_request \<Rightarrow> string" where
  "accepted_text q = ''Requirement accepted: '' @ take 80 (cq_prompt q) @ ''...''"

definition intake_steps :: "'w pipeline \<Rightarrow> coding_request \<Rightarrow> ('w, unit) step" where
  "intake_steps env q =
     bind_step (record_stage env Intake (accepted_text q)) (\<lambda>_.
     bind_step (run_step (\<lambda>w. (w, check_anti_summary_preflight (gt_exists (pp_git env) w) (target_repository env w q) (cq_inspected q)))) (\<lambda>pre.
       case pre of
         Inl msg \<Rightarrow> end_with env V_Blocked msg
       | Inr _ \<Rightarrow>
           (case first_scope_error (cq_roles q) (cq_targets q) of
              Some err \<Rightarrow> end_with env V_Blocked (''Role scope violation: '' @ err)
            | None \<Rightarrow> record_stage env Precheck ''Preflight checks passed: Anti-Summary and scope verified.'')))"

text \<open>A new result replaces the session; none of the steps raises, the first stage is not terminal.\<close>

definition start_pipeline :: "'w pipeline \<Rightarrow> 'w manager \<Rightarrow> coding_request \<Rightarrow> 'w manager" where
  "start_pipeline env s q = put_session s (cq_task q) (intake_steps env q (mg_outside s) (new_result (cq_task q)))"


section \<open>Committee\<close>

definition debate_steps :: "'w pipeline \<Rightarrow> coding_request \<Rightarrow> mutation_plan option \<Rightarrow> ('w, debate_record) step" where
  "debate_steps env q draft =
     bind_step (record_stage env Committee_Debate (''Forming specialist committee for deliberation ('' @ int_str (if cq_rounds q = 0 then 1 else cq_rounds q) @ '' round(s)).'')) (\<lambda>_.
     bind_step (run_step (\<lambda>w. run_debate (pp_debate env) w q (evaluate_committee q) draft)) (\<lambda>d.
     bind_step (update_result (\<lambda>r. r\<lparr>pl_debate := Some d, pl_plan := (case dc_plan d of None \<Rightarrow> pl_plan r | Some p \<Rightarrow> Some p)\<rparr>)) (\<lambda>_.
     bind_step (record_stage env Committee_Debate (''Debate concluded. Composite: '' @ de_fmt2 (pp_debate env) (sc_composite (dc_card d))
        @ '' ('' @ sc_decision (dc_card d) @ ''). Members: '' @ join_with '', '' (dc_members d))) (\<lambda>_.
     next_step d))))"

definition run_committee_debate ::
    "'w pipeline \<Rightarrow> 'w manager \<Rightarrow> string \<Rightarrow> coding_request \<Rightarrow> mutation_plan option
       \<Rightarrow> 'w manager \<times> (pipeline_exception + debate_record)" where
  "run_committee_debate env s task q draft =
     (let out = debate_steps env q draft (mg_outside s) (session_of s task)
      in (put_session s task out,
          (case snd (snd out) of Next d \<Rightarrow> Inr d | Raise e \<Rightarrow> Inl (Value_Error e) | Return \<Rightarrow> Inl (Value_Error []))))"


section \<open>The gate\<close>

definition self_approved :: "mutation_plan \<Rightarrow> bool" where
  "self_approved p = (case mu_token p of None \<Rightarrow> False
     | Some t \<Rightarrow> t \<noteq> [] \<and> lower (py_strip t) = lower (py_strip (mu_role p)))"

definition gate_steps :: "'w pipeline \<Rightarrow> mutation_plan \<Rightarrow> ('w, unit) step" where
  "gate_steps env p =
     bind_step (update_result (\<lambda>r. r\<lparr>pl_plan := Some p\<rparr>)) (\<lambda>_.
       case check_stop_and_wait_gate (mu_approved p) (mu_token p) of
         Inl msg \<Rightarrow>
           bind_step (update_result (\<lambda>r. r\<lparr>pl_status := V_Blocked, pl_error := Some msg\<rparr>)) (\<lambda>_.
             record_stage env Plan_And_Gate msg)
       | Inr _ \<Rightarrow>
           if self_approved p
           then end_with env V_Blocked (''Self-approval rejected: Assigned role '' @ in_quotes (mu_role p) @ '' cannot approve its own plan.'')
           else
             (case validate_role_scope (mu_role p) (mu_targets p) of
                Some err \<Rightarrow> end_with env V_Blocked (''Plan role scope violation: '' @ err)
              | None \<Rightarrow> record_stage env Plan_And_Gate (''Plan approved by human (Token: ''
                  @ (case mu_token p of None \<Rightarrow> ''VERIFIED'' | Some t \<Rightarrow> or_else t ''VERIFIED'') @ '').'')))"

definition submit_plan ::
    "'w pipeline \<Rightarrow> 'w manager \<Rightarrow> string \<Rightarrow> mutation_plan \<Rightarrow> 'w manager \<times> (pipeline_exception + pipeline_result)" where
  "submit_plan env s task p =
     (case dict_get (mg_sessions s) task of
        None \<Rightarrow> (s, Inl (Pipeline_Error (''Task '' @ in_quotes task @ '' not found in active pipeline sessions.'') Intake))
      | Some r \<Rightarrow>
          (let out = gate_steps env p (mg_outside s) r
           in (put_session s task out,
               (case outcome_exception out of Some x \<Rightarrow> Inl x | None \<Rightarrow> Inr (fst (snd out))))))"


section \<open>Mutation and verification\<close>

definition mutation_steps :: "'w pipeline \<Rightarrow> 'w worktree_manager \<Rightarrow> coding_request \<Rightarrow> mutation_plan \<Rightarrow> ('w, worktree_session) step" where
  "mutation_steps env wm q plan =
     bind_step (act_step (\<lambda>w. wm_create wm w (cq_repository q) (cq_branch q) (cq_base q))) (\<lambda>session.
     bind_step (update_result (\<lambda>r. r\<lparr>pl_worktree := Some session\<rparr>)) (\<lambda>_.
     bind_step (case pp_executor env of
                  Some x \<Rightarrow> bind_step (act_step (\<lambda>w. xc_execute x w session plan)) (\<lambda>_.
                    record_stage env Isolated_Mutation ''Code modifications successfully applied inside worktree.'')
                | None \<Rightarrow> record_stage env Isolated_Mutation ''Mutation step ready (Executor stubbed).'') (\<lambda>_.
     bind_step (if cq_evidence q
                then bind_step (act_step (\<lambda>w. wm_diff wm w session)) (\<lambda>d.
                       if py_strip d = []
                       then end_with env V_Fail ''No mutation evidence: Worktree diff is empty. Expected concrete modifications.''
                       else next_step ())
                else next_step ()) (\<lambda>_.
     next_step session))))"

definition step_names :: "receipt list \<Rightarrow> string" where
  "step_names rs = join_with '', '' (map vc_step rs)"

text \<open>\<open>n\<close> attempts from the index \<open>idx\<close> on; the value is the ladder run again after a passed attempt.\<close>

fun healing_steps ::
    "'w pipeline \<Rightarrow> 'w ladder_runner \<Rightarrow> coding_request \<Rightarrow> worktree_session \<Rightarrow> mutation_plan \<Rightarrow> receipt list \<Rightarrow> int \<Rightarrow> nat
       \<Rightarrow> ('w, receipt list option) step" where
  "healing_steps env run q session plan failed idx 0 = next_step None"
| "healing_steps env run q session plan failed idx (Suc n) =
     bind_step (act_step (\<lambda>w. attempt_self_healing env w session plan failed idx)) (\<lambda>h.
     bind_step (update_result (\<lambda>r. r\<lparr>pl_healing := pl_healing r @ [h]\<rparr>)) (\<lambda>_.
     bind_step (record_stage env Self_Healing (''Self-healing attempt '' @ int_str idx @ ''/'' @ int_str (cq_max_healing q) @ '': ''
                  @ (if hr_passed h then ''PASSED'' else ''FAILED''))) (\<lambda>_.
       if hr_passed h
       then bind_step (act_step (\<lambda>w. run w (ws_path session) (mu_tests plan))) (\<lambda>rs.
            bind_step (update_result (\<lambda>r. r\<lparr>pl_receipts := rs\<rparr>)) (\<lambda>_. next_step (Some rs)))
       else healing_steps env run q session plan failed (idx + 1) n)))"

definition give_up :: "'w pipeline \<Rightarrow> string \<Rightarrow> coding_request \<Rightarrow> worktree_session \<Rightarrow> receipt list \<Rightarrow> ('w, 'a) step" where
  "give_up env task q session failed =
     (let msg = ''Verification ladder failed on steps: '' @ step_names failed @ '' (Self-healing exhausted after ''
          @ int_str (cq_max_healing q) @ '' attempts).''
      in bind_step (update_result (\<lambda>r. r\<lparr>pl_status := V_Fail, pl_error := Some msg\<rparr>)) (\<lambda>_.
         bind_step (record_stage env Stage_Failed msg) (\<lambda>_.
         bind_step (run_step (\<lambda>w. execute_auto_rollback env w task session False)) (\<lambda>b.
         bind_step (update_result (\<lambda>r. r\<lparr>pl_rollback := Some b\<rparr>)) (\<lambda>_.
         bind_step (record_stage env Stage_Failed (''Auto-rollback executed: '' @ rb_status b)) (\<lambda>_. return_step))))))"

definition heal_or_fail ::
    "'w pipeline \<Rightarrow> 'w ladder_runner \<Rightarrow> string \<Rightarrow> coding_request \<Rightarrow> mutation_plan \<Rightarrow> worktree_session \<Rightarrow> receipt list
       \<Rightarrow> ('w, receipt list) step" where
  "heal_or_fail env run task q plan session rs =
     (let failed = filter (\<lambda>c. \<not> passed c) rs
      in if failed = [] then next_step rs
         else if cq_healing q \<and> 0 < cq_max_healing q
         then bind_step (record_stage env Self_Healing ''Verification ladder failed; entering autonomous self-healing loop.'') (\<lambda>_.
              bind_step (healing_steps env run q session plan failed 1 (nat (cq_max_healing q))) (\<lambda>healed.
                case healed of None \<Rightarrow> give_up env task q session failed | Some rs1 \<Rightarrow> next_step rs1))
         else end_with env V_Fail (''Verification ladder failed on steps: '' @ step_names failed))"

definition accept_receipts :: "'w pipeline \<Rightarrow> receipt list \<Rightarrow> ('w, receipt list) step" where
  "accept_receipts env rs =
     (if rs = []
      then end_with env V_Fail ''Verification ladder cannot be empty. Zero verification receipts were generated.''
      else
        bind_step (update_result (\<lambda>r. r\<lparr>pl_status := V_Pass\<rparr>)) (\<lambda>_.
        bind_step (record_stage env Verify_And_Evidence (''All '' @ nat_str (length rs) @ '' verification steps passed with Exit Code 0.'')) (\<lambda>_.
        next_step rs)))"

definition verification_steps ::
    "'w pipeline \<Rightarrow> string \<Rightarrow> coding_request \<Rightarrow> mutation_plan \<Rightarrow> worktree_session \<Rightarrow> ('w, receipt list) step" where
  "verification_steps env task q plan session =
     bind_step (record_stage env Verify_And_Evidence ''Running verification test ladder.'') (\<lambda>_.
       case pp_runner env of
         None \<Rightarrow> raise_step ''VerificationRunner is not configured on pipeline.''
       | Some run \<Rightarrow>
           bind_step (act_step (\<lambda>w. run w (ws_path session) (mu_tests plan))) (\<lambda>rs.
           bind_step (update_result (\<lambda>r. r\<lparr>pl_receipts := rs\<rparr>)) (\<lambda>_.
           bind_step (heal_or_fail env run task q plan session rs) (accept_receipts env))))"


section \<open>Review and export\<close>

definition review_steps :: "'w pipeline \<Rightarrow> worktree_session \<Rightarrow> ('w, unit) step" where
  "review_steps env session =
     bind_step (record_stage env Independent_Review ''Executing independent review gate verification.'') (\<lambda>_.
     bind_step (run_step (\<lambda>w. (w, case gt_head (pp_git env) w (ws_path session) of
                                    None \<Rightarrow> ws_base session | Some out \<Rightarrow> py_strip out))) (\<lambda>head.
       case (case pp_review env of None \<Rightarrow> verify_review_freshness | Some f \<Rightarrow> f) head head of
         (False, msg) \<Rightarrow> end_with env V_Fail (''Independent review gate rejected: '' @ msg)
       | (True, msg) \<Rightarrow>
           bind_step (run_step (\<lambda>w. (w, \<lparr>rw_fresh = True, rw_head = head, rw_status = ''APPROVED'', rw_time = pp_now env w\<rparr>))) (\<lambda>rw.
           bind_step (update_result (\<lambda>r. r\<lparr>pl_review := Some rw\<rparr>)) (\<lambda>_.
           record_stage env Independent_Review (''Independent review verified: '' @ msg)))))"

definition export_steps ::
    "'w pipeline \<Rightarrow> 'w worktree_manager \<Rightarrow> string \<Rightarrow> coding_request \<Rightarrow> mutation_plan \<Rightarrow> worktree_session \<Rightarrow> receipt list
       \<Rightarrow> ('w, unit) step" where
  "export_steps env wm task q plan session rs =
     bind_step (record_stage env Draft_PR_Export ''Committing changes and generating Draft PR.'') (\<lambda>_.
     bind_step (act_step (\<lambda>w. wm_commit wm w session (''feat('' @ task @ ''): '' @ take 50 (cq_prompt q)
        @ [CHR 0x0A, CHR 0x0A] @ ''Verified by LAS Autonomous Pipeline.''))) (\<lambda>commit.
     bind_step (act_step (\<lambda>w. wm_diff wm w session)) (\<lambda>d.
     bind_step (\<lambda>w r. (w, r, Next (pp_body env q plan rs d (pl_debate r)))) (\<lambda>body.
       (let pr = \<lparr>dr_title = ''[LAS Draft PR] '' @ take 60 (cq_prompt q), dr_body = body, dr_head = cq_branch q,
                  dr_base = cq_base q, dr_commit = commit, dr_files = mu_targets plan, dr_receipts = rs, dr_url = None,
                  dr_draft = True, dr_root = None\<rparr>
        in bind_step (case pp_publisher env of
                        None \<Rightarrow> next_step pr
                      | Some publish \<Rightarrow> bind_step (act_step (\<lambda>w. publish w pr (cq_repository q))) (\<lambda>url.
                          next_step (pr\<lparr>dr_url := Some url\<rparr>))) (\<lambda>pr1.
           bind_step (update_result (\<lambda>r. r\<lparr>pl_pr := Some pr1\<rparr>)) (\<lambda>_.
           bind_step (record_stage env Stage_Completed (''Draft PR successfully created: '' @ dr_title pr1)) (\<lambda>_.
           return_step))))))))"


section \<open>The pipeline\<close>

definition body_steps :: "'w pipeline \<Rightarrow> string \<Rightarrow> coding_request \<Rightarrow> mutation_plan \<Rightarrow> ('w, unit) step" where
  "body_steps env task q plan =
     bind_step (record_stage env Isolated_Mutation ''Setting up isolated git worktree environment.'') (\<lambda>_.
       case pp_worktrees env of
         None \<Rightarrow> raise_step ''WorktreeManager is not configured on pipeline.''
       | Some wm \<Rightarrow>
           bind_step (mutation_steps env wm q plan) (\<lambda>session.
           bind_step (verification_steps env task q plan session) (\<lambda>rs.
           bind_step (if cq_review q then review_steps env session else next_step ()) (\<lambda>_.
           export_steps env wm task q plan session rs))))"

text \<open>\<open>except Exception as exc\<close>: the status, the message and the stage FAILED.\<close>

definition caught :: "'w pipeline \<Rightarrow> ('w, unit) step \<Rightarrow> ('w, unit) step" where
  "caught env f w r =
     (case f w r of
        (w1, r1, Raise e) \<Rightarrow>
          bind_step (update_result (\<lambda>r. r\<lparr>pl_status := V_Fail, pl_error := Some e\<rparr>)) (\<lambda>_.
            record_stage env Stage_Failed (''Pipeline execution failed: '' @ e)) w1 r1
      | other \<Rightarrow> other)"

definition blocked_or_failed :: "pipeline_result \<Rightarrow> bool" where
  "blocked_or_failed r \<longleftrightarrow> pl_status r = V_Blocked \<or> pl_stage r = Stage_Failed"

definition submit_and_run ::
    "'w pipeline \<Rightarrow> 'w manager \<Rightarrow> string \<Rightarrow> coding_request \<Rightarrow> mutation_plan \<Rightarrow> 'w manager \<times> (pipeline_exception + pipeline_result)" where
  "submit_and_run env s task q plan =
     (case submit_plan env s task plan of
        (s1, Inl x) \<Rightarrow> (s1, Inl x)
      | (s1, Inr r) \<Rightarrow>
          if blocked_or_failed r then (s1, Inr r)
          else (let out = caught env (body_steps env task q plan) (mg_outside s1) r
                in (put_session s1 task out, Inr (fst (snd out)))))"

definition with_approval :: "mutation_plan \<Rightarrow> mutation_plan \<Rightarrow> mutation_plan" where
  "with_approval plan enriched =
     enriched\<lparr>mu_approved := mu_approved plan, mu_token := mu_token plan, mu_approved_at := mu_approved_at plan\<rparr>"

text \<open>The enriched plan is the object in the debate record and in the result, so they see its approval.\<close>

definition share_approval :: "debate_record \<Rightarrow> mutation_plan \<Rightarrow> pipeline_result \<Rightarrow> pipeline_result" where
  "share_approval d p r = r\<lparr>pl_debate := Some (d\<lparr>dc_plan := Some p\<rparr>), pl_plan := Some p\<rparr>"

definition security_objection :: "debate_record \<Rightarrow> string" where
  "security_objection d = ''Committee debate rejected task due to critical security objection: ''
     @ join_with ''; '' (sc_dissent (dc_card d))"

definition execute_pipeline ::
    "'w pipeline \<Rightarrow> 'w manager \<Rightarrow> string \<Rightarrow> coding_request \<Rightarrow> mutation_plan \<Rightarrow> 'w manager \<times> (pipeline_exception + pipeline_result)" where
  "execute_pipeline env s task q plan =
     (let s1 = start_pipeline env s q; r1 = session_of s1 (cq_task q)
      in if blocked_or_failed r1 then (s1, Inr r1)
         else if \<not> cq_committee q then submit_and_run env s1 task q plan
         else
           (case run_committee_debate env s1 task q (Some plan) of
              (s2, Inl x) \<Rightarrow> (s2, Inl x)
            | (s2, Inr d) \<Rightarrow>
                if sc_security (dc_card d) < 70 / 100
                then (let out = (end_with env V_Blocked (security_objection d) :: ('w, unit) step)
                            (mg_outside s2) (session_of s2 (cq_task q))
                      in (put_session s2 (cq_task q) out, Inr (fst (snd out))))
                else
                  (case dc_plan d of
                     None \<Rightarrow> submit_and_run env s2 task q plan
                   | Some e \<Rightarrow>
                       (let p = with_approval plan e;
                            s3 = put_session s2 task (update_result (share_approval d p) (mg_outside s2) (session_of s2 task))
                        in submit_and_run env s3 task q p))))"

end
