(* ===== verification/Pipeline_Steps.thy ===== *)
theory Pipeline_Steps
  imports Coding_Pipeline
begin

text \<open>
  Reasoning about the steps of the coding pipeline. \<open>wp f Q w r\<close> says that \<open>Q\<close> holds of the outcome of
  the step \<open>f\<close>; it is computed by rewriting, so that a property of a sequence of steps becomes a property of
  the calls to the outside. \<open>keeps J f\<close> says that the step keeps a property of the result.
\<close>

named_theorems wp_simps \<open>the weakest precondition of every step\<close>
named_theorems keeps_rules \<open>what keeps an invariant of the result\<close>

definition wp :: "('w, 'a) step \<Rightarrow> ('a outcome \<Rightarrow> 'w \<Rightarrow> pipeline_result \<Rightarrow> bool) \<Rightarrow> 'w \<Rightarrow> pipeline_result \<Rightarrow> bool" where
  "wp f Q w r = (case f w r of (w1, r1, out) \<Rightarrow> Q out w1 r1)"

lemma wp_bind [wp_simps]:
  "wp (bind_step f g) Q w r =
     wp f (\<lambda>out w1 r1. case out of Next a \<Rightarrow> wp (g a) Q w1 r1 | Raise e \<Rightarrow> Q (Raise e) w1 r1 | Return \<Rightarrow> Q Return w1 r1) w r"
  by (auto simp: wp_def bind_step_def split: prod.splits outcome.splits)

lemma wp_next [wp_simps]: "wp (next_step a) Q w r = Q (Next a) w r"
  by (simp add: wp_def next_step_def)

lemma wp_return [wp_simps]: "wp return_step Q w r = Q Return w r"
  by (simp add: wp_def return_step_def)

lemma wp_raise [wp_simps]: "wp (raise_step e) Q w r = Q (Raise e) w r"
  by (simp add: wp_def raise_step_def)

lemma wp_update [wp_simps]: "wp (update_result f) Q w r = Q (Next ()) w (f r)"
  by (simp add: wp_def update_result_def)

lemma wp_act [wp_simps]:
  "wp (act_step f) Q w r = (case f w of (w1, Inl e) \<Rightarrow> Q (Raise e) w1 r | (w1, Inr a) \<Rightarrow> Q (Next a) w1 r)"
  by (auto simp: wp_def act_step_def split: prod.splits sum.splits)

lemma wp_run [wp_simps]: "wp (run_step f) Q w r = (case f w of (w1, a) \<Rightarrow> Q (Next a) w1 r)"
  by (auto simp: wp_def run_step_def split: prod.splits)

lemma wp_record [wp_simps]:
  "wp (record_stage env s detail) Q w r =
     (if terminal (pl_stage r) \<and> \<not> terminal s then Q (Raise (illegal_transition (pl_stage r) s)) w r
      else Q (Next ()) (audit_stage env w (pl_task r) s detail) (enter_stage env w s detail r))"
  by (simp add: wp_def record_stage_def)

lemma wp_end_with [wp_simps]:
  "wp (end_with env v msg) Q w r =
     Q Return (audit_stage env w (pl_task r) Stage_Failed msg)
       (enter_stage env w Stage_Failed msg (r\<lparr>pl_status := v, pl_error := Some msg\<rparr>))"
  by (simp add: end_with_def wp_simps terminal_def)

lemma wp_if [wp_simps]: "wp (if b then f else g) Q w r = (if b then wp f Q w r else wp g Q w r)"
  by simp

lemma wp_mono: "wp f Q w r \<Longrightarrow> (\<And>out w1 r1. Q out w1 r1 \<Longrightarrow> Q1 out w1 r1) \<Longrightarrow> wp f Q1 w r"
  by (auto simp: wp_def split: prod.splits)

lemma wp_conj: "wp f Q w r \<Longrightarrow> wp f Q1 w r \<Longrightarrow> wp f (\<lambda>out w1 r1. Q out w1 r1 \<and> Q1 out w1 r1) w r"
  by (auto simp: wp_def split: prod.splits)

lemma wp_result: "wp f Q w r \<Longrightarrow> f w r = (w1, r1, out) \<Longrightarrow> Q out w1 r1"
  by (simp add: wp_def)

lemma enter_stage_fields [simp]:
  "pl_stage (enter_stage env w s d r) = s"
  "pl_status (enter_stage env w s d r) = pl_status r"
  "pl_plan (enter_stage env w s d r) = pl_plan r"
  "pl_receipts (enter_stage env w s d r) = pl_receipts r"
  "pl_healing (enter_stage env w s d r) = pl_healing r"
  "pl_rollback (enter_stage env w s d r) = pl_rollback r"
  "pl_pr (enter_stage env w s d r) = pl_pr r"
  "pl_task (enter_stage env w s d r) = pl_task r"
  "pl_debate (enter_stage env w s d r) = pl_debate r"
  "pl_error (enter_stage env w s d r) = pl_error r"
  "pl_worktree (enter_stage env w s d r) = pl_worktree r"
  "pl_review (enter_stage env w s d r) = pl_review r"
  "pl_history (enter_stage env w s d r) = pl_history r @ [\<lparr>se_stage = s, se_time = pp_now env w, se_detail = d\<rparr>]"
  by (simp_all add: enter_stage_def)

lemma terminal_simps [simp]:
  "terminal Stage_Completed" "terminal Stage_Failed" "\<not> terminal Intake" "\<not> terminal Precheck" "\<not> terminal Committee_Debate"
  "\<not> terminal Plan_And_Gate" "\<not> terminal Isolated_Mutation" "\<not> terminal Verify_And_Evidence" "\<not> terminal Independent_Review"
  "\<not> terminal Self_Healing" "\<not> terminal Draft_PR_Export" "\<not> terminal Stage_Aborted"
  by (simp_all add: terminal_def)


section \<open>Invariants of the result\<close>

definition keeps :: "(pipeline_result \<Rightarrow> bool) \<Rightarrow> ('w, 'a) step \<Rightarrow> bool" where
  "keeps J f \<longleftrightarrow> (\<forall>w r. J r \<longrightarrow> J (fst (snd (f w r))))"

lemma keeps_wp: "keeps J f \<longleftrightarrow> (\<forall>w r. J r \<longrightarrow> wp f (\<lambda>out w1 r1. J r1) w r)"
  by (simp add: keeps_def wp_def case_prod_beta)

lemma keepsI: "(\<And>w r. J r \<Longrightarrow> wp f (\<lambda>out w1 r1. J r1) w r) \<Longrightarrow> keeps J f"
  by (simp add: keeps_wp)

lemma keeps_bind [keeps_rules]:
  assumes "keeps J f" "\<And>a. keeps J (g a)"
  shows "keeps J (bind_step f g)"
proof (rule keepsI)
  fix w r assume "J r"
  with assms(1) have "wp f (\<lambda>out w1 r1. J r1) w r" by (simp add: keeps_wp)
  then show "wp (bind_step f g) (\<lambda>out w1 r1. J r1) w r"
    unfolding wp_bind by (rule wp_mono) (use assms(2) in \<open>auto simp: keeps_wp split: outcome.splits\<close>)
qed

lemma keeps_next [keeps_rules]: "keeps J (next_step a)"
  by (simp add: keeps_def next_step_def)

lemma keeps_return [keeps_rules]: "keeps J return_step"
  by (simp add: keeps_def return_step_def)

lemma keeps_raise [keeps_rules]: "keeps J (raise_step e)"
  by (simp add: keeps_def raise_step_def)

lemma keeps_act [keeps_rules]: "keeps J (act_step f)"
  by (auto simp: keeps_def act_step_def split: prod.splits sum.splits)

lemma keeps_run [keeps_rules]: "keeps J (run_step f)"
  by (auto simp: keeps_def run_step_def split: prod.splits)

lemma keeps_if [keeps_rules]: "keeps J f \<Longrightarrow> keeps J g \<Longrightarrow> keeps J (if b then f else g)"
  by simp

lemma keeps_sum [keeps_rules]:
  "(\<And>a. keeps J (f a)) \<Longrightarrow> (\<And>b. keeps J (g b)) \<Longrightarrow> keeps J (case x of Inl a \<Rightarrow> f a | Inr b \<Rightarrow> g b)"
  by (cases x) auto

lemma keeps_option [keeps_rules]:
  "keeps J f \<Longrightarrow> (\<And>a. keeps J (g a)) \<Longrightarrow> keeps J (case x of None \<Rightarrow> f | Some a \<Rightarrow> g a)"
  by (cases x) auto

lemma keeps_pair [keeps_rules]: "(\<And>a b. keeps J (f a b)) \<Longrightarrow> keeps J (case x of (a, b) \<Rightarrow> f a b)"
  by (cases x) auto

lemma keeps_bool [keeps_rules]: "keeps J f \<Longrightarrow> keeps J g \<Longrightarrow> keeps J (case b of True \<Rightarrow> f | False \<Rightarrow> g)"
  by (cases b) auto

text \<open>Once the stage is terminal every later entry is; the last entry is the current stage.\<close>

fun settled :: "pipeline_stage list \<Rightarrow> bool" where
  "settled [] = True"
| "settled (s # ss) = ((terminal s \<longrightarrow> list_all terminal ss) \<and> settled ss)"

definition stages :: "pipeline_result \<Rightarrow> pipeline_stage list" where
  "stages r = map se_stage (pl_history r)"

definition history_ok :: "pipeline_result \<Rightarrow> bool" where
  "history_ok r \<longleftrightarrow> settled (stages r) \<and> (if stages r = [] then pl_stage r = Intake else last (stages r) = pl_stage r)"

lemma settled_snoc: "settled (ss @ [s]) \<longleftrightarrow> settled ss \<and> ((\<exists>t \<in> set ss. terminal t) \<longrightarrow> terminal s)"
  by (induction ss) (auto simp: list_all_iff)

lemma settled_last: "settled ss \<Longrightarrow> t \<in> set ss \<Longrightarrow> terminal t \<Longrightarrow> terminal (last ss)"
  by (induction ss) (auto simp: list_all_iff)

lemma history_ok_new [simp]: "history_ok (new_result task)"
  by (simp add: history_ok_def stages_def new_result_def)

lemma history_ok_enter:
  assumes "history_ok r" "terminal (pl_stage r) \<longrightarrow> terminal s"
  shows "history_ok (enter_stage env w s d r)"
  using assms settled_last [of "stages r"]
  by (auto simp: history_ok_def stages_def settled_snoc split: if_splits)

lemma keeps_history_record [keeps_rules]: "keeps history_ok (record_stage env s d)"
  by (rule keepsI) (auto simp: wp_simps intro: history_ok_enter)

lemma keeps_history_update:
  "(\<And>r. pl_history (f r) = pl_history r) \<Longrightarrow> (\<And>r. pl_stage (f r) = pl_stage r) \<Longrightarrow> keeps history_ok (update_result f)"
proof (rule keepsI)
  fix w :: 'a and r :: pipeline_result
  assume f: "\<And>r. pl_history (f r) = pl_history r" "\<And>r. pl_stage (f r) = pl_stage r" and r: "history_ok r"
  have "stages (f r) = stages r" by (simp add: stages_def f)
  with r f show "wp (update_result f) (\<lambda>out w1 r1. history_ok r1) w r" by (simp add: wp_simps history_ok_def)
qed

end
