(* ===== verification/Pipeline_Runs.thy ===== *)
theory Pipeline_Runs
  imports Pipeline_Steps
begin

text \<open>
  Runs of the coding pipeline: every step keeps the histories of the sessions in order, and where each
  group of steps, and in the end a whole run, leaves the result.
\<close>

section \<open>Histories\<close>

lemma keeps_end_with [keeps_rules]: "keeps history_ok (end_with env v msg)"
  unfolding end_with_def by (intro keeps_rules keeps_history_update) simp_all

lemma keeps_healing_steps [keeps_rules]: "keeps history_ok (healing_steps env run q session plan failed idx n)"
proof (induction n arbitrary: idx)
  case 0
  show ?case by (simp add: keeps_next)
next
  case (Suc n)
  show ?case unfolding healing_steps.simps by (intro keeps_rules keeps_history_update Suc.IH) simp_all
qed

lemma keeps_give_up [keeps_rules]: "keeps history_ok (give_up env task q session failed)"
  unfolding give_up_def Let_def by (intro keeps_rules keeps_history_update) simp_all

lemma keeps_mutation [keeps_rules]: "keeps history_ok (mutation_steps env wm q plan)"
  unfolding mutation_steps_def by (intro keeps_rules keeps_history_update) simp_all

lemma keeps_heal_or_fail [keeps_rules]: "keeps history_ok (heal_or_fail env run task q plan session rs)"
  unfolding heal_or_fail_def Let_def by (intro keeps_rules)

lemma keeps_verification [keeps_rules]: "keeps history_ok (verification_steps env task q plan session)"
  unfolding verification_steps_def accept_receipts_def by (intro keeps_rules keeps_history_update) simp_all

lemma keeps_review [keeps_rules]: "keeps history_ok (review_steps env session)"
  unfolding review_steps_def by (intro keeps_rules keeps_history_update) simp_all

lemma keeps_export [keeps_rules]: "keeps history_ok (export_steps env wm task q plan session rs)"
  unfolding export_steps_def Let_def
  apply (intro keeps_rules keeps_history_update)
  apply (simp_all add: keeps_def)
  done

lemma keeps_body [keeps_rules]: "keeps history_ok (body_steps env task q plan)"
  unfolding body_steps_def by (intro keeps_rules)

lemma keeps_intake: "keeps history_ok (intake_steps env q)"
  unfolding intake_steps_def by (intro keeps_rules)

lemma keeps_debate: "keeps history_ok (debate_steps env q draft)"
  unfolding debate_steps_def by (intro keeps_rules keeps_history_update) simp_all

lemma keeps_gate: "keeps history_ok (gate_steps env p)"
  unfolding gate_steps_def by (intro keeps_rules keeps_history_update) simp_all

lemma keeps_caught [keeps_rules]:
  fixes f :: "('w, unit) step"
  assumes "keeps J f"
    "\<And>e. keeps J (update_result (\<lambda>r. r\<lparr>pl_status := V_Fail, pl_error := Some e\<rparr>) :: ('w, unit) step)"
    "\<And>e. keeps J (record_stage env Stage_Failed (''Pipeline execution failed: '' @ e))"
  shows "keeps J (caught env f)"
proof -
  define handle where "handle e = bind_step (update_result (\<lambda>r. r\<lparr>pl_status := V_Fail, pl_error := Some e\<rparr>))
     (\<lambda>_. record_stage env Stage_Failed (''Pipeline execution failed: '' @ e))" for e
  have h: "keeps J (handle e)" for e
    unfolding handle_def by (intro keeps_bind assms)
  have "J (fst (snd (caught env f w r)))" if "J r" for w r
  proof -
    obtain w1 r1 out where f: "f w r = (w1, r1, out)" by (cases "f w r") auto
    with assms(1) that have "J r1" by (metis keeps_def fst_conv snd_conv)
    with h f that show ?thesis
      by (cases out) (auto simp: caught_def handle_def keeps_def)
  qed
  then show ?thesis by (simp add: keeps_def)
qed

lemma keeps_caught_body: "keeps history_ok (caught env (body_steps env task q p))"
  by (intro keeps_caught keeps_body keeps_history_record keeps_history_update) simp_all

definition sessions_ok :: "'w manager \<Rightarrow> bool" where
  "sessions_ok s \<longleftrightarrow> (\<forall>task r. dict_get (mg_sessions s) task = Some r \<longrightarrow> history_ok r)"

lemma sessions_ok_put: "sessions_ok s \<Longrightarrow> history_ok (fst (snd out)) \<Longrightarrow> sessions_ok (put_session s task out)"
  by (cases out) (auto simp: sessions_ok_def put_session_def)

lemma sessions_ok_of: "sessions_ok s \<Longrightarrow> history_ok (session_of s task)"
  by (auto simp: sessions_ok_def session_of_def split: option.split)

lemma put_session_get [simp]:
  "dict_get (mg_sessions (put_session s task out)) k =
     (if k = task then Some (fst (snd out)) else dict_get (mg_sessions s) k)"
  by (cases out) (simp add: put_session_def)

lemma put_session_outside [simp]: "mg_outside (put_session s task out) = fst out"
  by (cases out) (simp add: put_session_def)

lemma session_of_put [simp]:
  "session_of (put_session s task out) k = (if k = task then fst (snd out) else session_of s k)"
  by (simp add: session_of_def)

lemma keeps_run_on: "keeps J f \<Longrightarrow> J r \<Longrightarrow> J (fst (snd (f w r)))"
  by (simp add: keeps_def)

lemma sessions_ok_start: "sessions_ok s \<Longrightarrow> sessions_ok (start_pipeline env s q)"
  unfolding start_pipeline_def by (intro sessions_ok_put keeps_run_on [OF keeps_intake]) simp_all

lemma sessions_ok_debate: "sessions_ok s \<Longrightarrow> sessions_ok (fst (run_committee_debate env s task q draft))"
  unfolding run_committee_debate_def Let_def fst_conv
  by (intro sessions_ok_put keeps_run_on [OF keeps_debate] sessions_ok_of)

lemma submit_cases:
  obtains (missing) "dict_get (mg_sessions s) task = None"
      "submit_plan env s task p = (s, Inl (Pipeline_Error (''Task '' @ in_quotes task @ '' not found in active pipeline sessions.'') Intake))"
    | (found) r out where "dict_get (mg_sessions s) task = Some r" "out = gate_steps env p (mg_outside s) r"
      "submit_plan env s task p = (put_session s task out,
         (case outcome_exception out of Some x \<Rightarrow> Inl x | None \<Rightarrow> Inr (fst (snd out))))"
  by (cases "dict_get (mg_sessions s) task") (auto simp: submit_plan_def Let_def)

lemma sessions_ok_submit: "sessions_ok s \<Longrightarrow> sessions_ok (fst (submit_plan env s task p))"
proof (cases rule: submit_cases [of s task env p])
  case (found r out)
  assume "sessions_ok s"
  with found have "history_ok (fst (snd out))"
    by (auto simp: sessions_ok_def intro: keeps_run_on [OF keeps_gate])
  with \<open>sessions_ok s\<close> found show ?thesis by (simp add: sessions_ok_put)
qed simp

lemma submit_value: "submit_plan env s task p = (s1, Inr r) \<Longrightarrow> dict_get (mg_sessions s1) task = Some r"
  by (cases rule: submit_cases [of s task env p]) (auto split: option.splits)

lemma sessions_ok_run: "sessions_ok s \<Longrightarrow> sessions_ok (fst (submit_and_run env s task q p))"
proof -
  assume s: "sessions_ok s"
  obtain s1 res where sub: "submit_plan env s task p = (s1, res)" by fastforce
  with sessions_ok_submit [OF s, of env task p] have s1: "sessions_ok s1" by simp
  show ?thesis
  proof (cases res)
    case (Inr r)
    then have "dict_get (mg_sessions s1) task = Some r" using sub by (intro submit_value [of env s task p]) simp
    with s1 have "history_ok r" by (simp add: sessions_ok_def)
    then have "history_ok (fst (snd (caught env (body_steps env task q p) w r)))" for w
      by (rule keeps_run_on [OF keeps_caught_body])
    with s1 sub Inr show ?thesis by (simp add: submit_and_run_def Let_def sessions_ok_put)
  qed (use s1 sub in \<open>simp add: submit_and_run_def\<close>)
qed

lemma share_approval_history: "history_ok r \<Longrightarrow> history_ok (share_approval d p r)"
  unfolding history_ok_def stages_def by (simp add: share_approval_def)

lemma sessions_ok_execute: "sessions_ok s \<Longrightarrow> sessions_ok (fst (execute_pipeline env s task q plan))"
proof -
  assume s: "sessions_ok s"
  define s1 where "s1 = start_pipeline env s q"
  have s1: "sessions_ok s1" using s by (simp add: s1_def sessions_ok_start)
  obtain s2 res where deb: "run_committee_debate env s1 task q (Some plan) = (s2, res)" by fastforce
  with sessions_ok_debate [OF s1, of env task q "Some plan"] have s2: "sessions_ok s2" by simp
  have fin: "sessions_ok (put_session s2 k ((end_with env v msg :: ('a, unit) step) w (session_of s2 k)))" for k v msg w
    by (intro sessions_ok_put s2 keeps_run_on [OF keeps_end_with] sessions_ok_of)
  have share: "sessions_ok (put_session s2 task (update_result (share_approval d p) w (session_of s2 task)))" for d p w
    by (intro sessions_ok_put s2) (simp add: update_result_def share_approval_history sessions_ok_of s2)
  show ?thesis
    unfolding execute_pipeline_def Let_def s1_def [symmetric] deb
    by (auto simp: s1 s2 fin share sessions_ok_run split: sum.split option.split)
qed

text \<open>The managers that any sequence of operations reaches, with the outside changing freely in between.\<close>

inductive manager_reaches :: "'w pipeline \<Rightarrow> 'w manager \<Rightarrow> bool" for env where
  fresh: "manager_reaches env \<lparr>mg_outside = w, mg_sessions = []\<rparr>"
| elsewhere: "manager_reaches env s \<Longrightarrow> manager_reaches env (s\<lparr>mg_outside := w\<rparr>)"
| started: "manager_reaches env s \<Longrightarrow> manager_reaches env (start_pipeline env s q)"
| debated: "manager_reaches env s \<Longrightarrow> manager_reaches env (fst (run_committee_debate env s task q draft))"
| submitted: "manager_reaches env s \<Longrightarrow> manager_reaches env (fst (submit_plan env s task p))"
| executed: "manager_reaches env s \<Longrightarrow> manager_reaches env (fst (execute_pipeline env s task q p))"

lemma manager_sessions_ok: "manager_reaches env s \<Longrightarrow> sessions_ok s"
proof (induction rule: manager_reaches.induct)
  case (elsewhere s w)
  then show ?case by (simp add: sessions_ok_def)
qed (auto simp: sessions_ok_start sessions_ok_debate sessions_ok_submit sessions_ok_execute, simp add: sessions_ok_def)


section \<open>Runs\<close>

text \<open>Where a step of the body leaves the result: it has returned at the stage FAILED, or raised, or goes on at a
stage that is not terminal, with \<open>G\<close> of its value.\<close>

definition mid :: "mutation_plan option \<Rightarrow> ('a \<Rightarrow> pipeline_result \<Rightarrow> bool) \<Rightarrow> 'a outcome \<Rightarrow> 'w \<Rightarrow> pipeline_result \<Rightarrow> bool" where
  "mid p G out w r \<longleftrightarrow> pl_plan r = p \<and> pl_stage r \<noteq> Stage_Completed \<and>
     (case out of Raise e \<Rightarrow> True | Return \<Rightarrow> pl_stage r = Stage_Failed \<and> pl_status r = V_Fail
      | Next a \<Rightarrow> \<not> terminal (pl_stage r) \<and> G a r)"

lemma mid_simps [simp]:
  "mid p G (Raise e) w r \<longleftrightarrow> pl_plan r = p \<and> pl_stage r \<noteq> Stage_Completed"
  "mid p G Return w r \<longleftrightarrow> pl_plan r = p \<and> pl_stage r = Stage_Failed \<and> pl_status r = V_Fail"
  "mid p G (Next a) w r \<longleftrightarrow> pl_plan r = p \<and> \<not> terminal (pl_stage r) \<and> G a r"
  by (auto simp: mid_def terminal_def)

text \<open>Going on after a step that is known to be in the middle.\<close>

lemma wp_then:
  assumes "wp f (mid p G) w r" "\<And>a w1 r1. pl_plan r1 = p \<Longrightarrow> \<not> terminal (pl_stage r1) \<Longrightarrow> G a r1 \<Longrightarrow> wp (g a) Q w1 r1"
    and "\<And>e w1 r1. pl_plan r1 = p \<Longrightarrow> pl_stage r1 \<noteq> Stage_Completed \<Longrightarrow> Q (Raise e) w1 r1"
    and "\<And>w1 r1. pl_plan r1 = p \<Longrightarrow> pl_stage r1 = Stage_Failed \<Longrightarrow> pl_status r1 = V_Fail \<Longrightarrow> Q Return w1 r1"
  shows "wp (bind_step f g) Q w r"
  unfolding wp_bind using assms(1)
  by (rule wp_mono) (auto simp: assms(2-4) split: outcome.splits)

lemma wp_get: "wp (\<lambda>w r. (w, r, Next (f r))) Q w r = Q (Next (f r)) w r"
  by (simp add: wp_def)

lemma not_terminal: "\<not> terminal s \<Longrightarrow> s \<noteq> Stage_Completed" "\<not> terminal s \<Longrightarrow> s \<noteq> Stage_Failed"
  by auto

lemma wp_mutation:
  assumes "\<not> terminal (pl_stage r)" "pl_plan r = p"
  shows "wp (mutation_steps env wm q plan) (mid p (\<lambda>session r. True)) w r"
  unfolding mutation_steps_def
  by (auto simp: wp_simps assms not_terminal split: prod.splits sum.splits option.splits)

text \<open>The receipts are those a run of the ladder gave for the tests of the plan.\<close>

definition ladder_gave :: "'w pipeline \<Rightarrow> mutation_plan \<Rightarrow> receipt list \<Rightarrow> bool" where
  "ladder_gave env plan rs \<longleftrightarrow> (\<exists>run w1 dir w2. pp_runner env = Some run \<and> run w1 dir (mu_tests plan) = (w2, Inr rs))"

lemma ladder_gaveI: "pp_runner env = Some run \<Longrightarrow> run w1 dir (mu_tests plan) = (w2, Inr rs) \<Longrightarrow> ladder_gave env plan rs"
  by (auto simp: ladder_gave_def)

definition backed_by :: "'w pipeline \<Rightarrow> mutation_plan \<Rightarrow> receipt list \<Rightarrow> pipeline_result \<Rightarrow> bool" where
  "backed_by env plan rs r \<longleftrightarrow> pl_receipts r = rs \<and> ladder_gave env plan rs
     \<and> (list_all passed rs \<or> (\<exists>h \<in> set (pl_healing r). hr_passed h))"

definition healed_by :: "'w pipeline \<Rightarrow> mutation_plan \<Rightarrow> receipt list option \<Rightarrow> pipeline_result \<Rightarrow> bool" where
  "healed_by env plan healed r = (case healed of None \<Rightarrow> True
     | Some rs \<Rightarrow> backed_by env plan rs r \<and> (\<exists>h \<in> set (pl_healing r). hr_passed h))"

lemma healed_by_simps [simp]:
  "healed_by env plan None r"
  "healed_by env plan (Some rs) r \<longleftrightarrow> backed_by env plan rs r \<and> (\<exists>h \<in> set (pl_healing r). hr_passed h)"
  by (simp_all add: healed_by_def)

lemma wp_healing:
  assumes run: "pp_runner env = Some run" and r: "\<not> terminal (pl_stage r)" "pl_plan r = p"
  shows "wp (healing_steps env run q session plan failed idx n) (mid p (healed_by env plan)) w r"
  using r
proof (induction n arbitrary: idx w r)
  case 0
  then show ?case by (simp add: wp_simps)
next
  case (Suc n)
  from Suc.prems show ?case
    by (auto simp: wp_simps not_terminal Suc.IH backed_by_def split: prod.splits sum.splits intro: ladder_gaveI [OF run])
qed

lemma wp_give_up: "pl_plan r = p \<Longrightarrow> wp (give_up env task q session failed) (mid p G) w r"
  by (auto simp: give_up_def Let_def wp_simps split: prod.splits)

lemma wp_heal_or_fail:
  assumes run: "pp_runner env = Some run" and r: "\<not> terminal (pl_stage r)" "pl_plan r = p" "pl_receipts r = rs"
    and rs: "ladder_gave env plan rs"
  shows "wp (heal_or_fail env run task q plan session rs) (mid p (backed_by env plan)) w r"
proof -
  let ?failed = "filter (\<lambda>c. \<not> passed c) rs"
  have "wp (bind_step (healing_steps env run q session plan ?failed 1 (nat (cq_max_healing q))) (\<lambda>healed.
         case healed of None \<Rightarrow> give_up env task q session ?failed | Some rs1 \<Rightarrow> next_step rs1)) (mid p (backed_by env plan)) w2 r2"
    if "\<not> terminal (pl_stage r2)" "pl_plan r2 = p" for w2 r2
    by (rule wp_then [OF wp_healing [OF run that]])
      (auto simp: wp_simps wp_give_up split: option.splits)
  then show ?thesis
    using r rs by (auto simp: heal_or_fail_def Let_def wp_simps not_terminal backed_by_def filter_empty_conv list_all_iff)
qed

definition verified_by :: "'w pipeline \<Rightarrow> mutation_plan \<Rightarrow> receipt list \<Rightarrow> pipeline_result \<Rightarrow> bool" where
  "verified_by env plan rs r \<longleftrightarrow> rs \<noteq> [] \<and> pl_status r = V_Pass \<and> backed_by env plan rs r"

lemma wp_verification:
  assumes "\<not> terminal (pl_stage r)" "pl_plan r = p"
  shows "wp (verification_steps env task q plan session) (mid p (verified_by env plan)) w r"
proof -
  have rest: "wp (bind_step (heal_or_fail env run task q plan session rs) (accept_receipts env)) (mid (pl_plan r) (verified_by env plan)) w2 r2"
    if "pp_runner env = Some run" "\<not> terminal (pl_stage r2)" "pl_plan r2 = pl_plan r" "pl_receipts r2 = rs" "ladder_gave env plan rs"
    for run rs w2 r2
    by (rule wp_then [OF wp_heal_or_fail [OF that]])
      (auto simp: accept_receipts_def wp_simps verified_by_def backed_by_def)
  from assms(1) show ?thesis
    unfolding assms(2) [symmetric]
    by (auto simp: verification_steps_def wp_record wp_act wp_update wp_raise wp_bind [of "record_stage _ _ _"]
          wp_bind [of "act_step _"] wp_bind [of "update_result _"] not_terminal
          split: option.splits prod.splits sum.splits intro!: rest ladder_gaveI)
qed

lemma wp_review:
  assumes "\<not> terminal (pl_stage r)" "pl_plan r = p" "verified_by env plan rs r"
  shows "wp (review_steps env session) (mid p (\<lambda>_. verified_by env plan rs)) w r"
  using assms by (auto simp: review_steps_def wp_simps verified_by_def backed_by_def Let_def not_terminal
     split: option.splits prod.splits bool.splits)

text \<open>The end of a run.\<close>

definition completed_with :: "'w pipeline \<Rightarrow> mutation_plan \<Rightarrow> pipeline_result \<Rightarrow> bool" where
  "completed_with env p r \<longleftrightarrow> pl_plan r = Some p \<and> pl_stage r = Stage_Completed \<and> verified_by env p (pl_receipts r) r
     \<and> (\<exists>pr. pl_pr r = Some pr \<and> dr_receipts pr = pl_receipts r \<and> dr_draft pr)"

definition failed_with :: "mutation_plan option \<Rightarrow> pipeline_result \<Rightarrow> bool" where
  "failed_with p r \<longleftrightarrow> pl_plan r = p \<and> pl_stage r = Stage_Failed \<and> pl_status r = V_Fail"

definition ending :: "'w pipeline \<Rightarrow> mutation_plan \<Rightarrow> 'a outcome \<Rightarrow> 'w \<Rightarrow> pipeline_result \<Rightarrow> bool" where
  "ending env p out w r \<longleftrightarrow> (case out of Raise e \<Rightarrow> pl_plan r = Some p \<and> pl_stage r \<noteq> Stage_Completed
     | _ \<Rightarrow> completed_with env p r \<or> failed_with (Some p) r)"

lemma wp_export:
  assumes "\<not> terminal (pl_stage r)" "pl_plan r = Some plan" "verified_by env plan rs r"
  shows "wp (export_steps env wm task q plan session rs) (ending env plan) w r"
  using assms by (auto simp: export_steps_def Let_def wp_simps wp_get not_terminal ending_def completed_with_def
     verified_by_def backed_by_def split: prod.splits sum.splits option.splits)

lemma ending_simps [simp]:
  "ending env p (Raise e) w r \<longleftrightarrow> pl_plan r = Some p \<and> pl_stage r \<noteq> Stage_Completed"
  "ending env p Return w r \<longleftrightarrow> completed_with env p r \<or> failed_with (Some p) r"
  by (simp_all add: ending_def)

lemma wp_body:
  assumes "\<not> terminal (pl_stage r)" "pl_plan r = Some plan"
  shows "wp (body_steps env task q plan) (ending env plan) w r"
proof -
  have export: "wp (bind_step (if cq_review q then review_steps env session else next_step ())
        (\<lambda>_. export_steps env wm task q plan session rs)) (ending env plan) w3 r3"
    if "\<not> terminal (pl_stage r3)" "pl_plan r3 = Some plan" "verified_by env plan rs r3" for wm session rs w3 r3
    by (rule wp_then [where G = "\<lambda>_. verified_by env plan rs"])
      (use that in \<open>auto simp: wp_review wp_next wp_export failed_with_def\<close>)
  have verify: "wp (bind_step (verification_steps env task q plan session) (\<lambda>rs.
      bind_step (if cq_review q then review_steps env session else next_step ())
        (\<lambda>_. export_steps env wm task q plan session rs))) (ending env plan) w2 r2"
    if "\<not> terminal (pl_stage r2)" "pl_plan r2 = Some plan" for wm session w2 r2
    by (rule wp_then [OF wp_verification [OF that]]) (auto simp: failed_with_def export)
  have mutate: "wp (bind_step (mutation_steps env wm q plan) (\<lambda>session.
      bind_step (verification_steps env task q plan session) (\<lambda>rs.
      bind_step (if cq_review q then review_steps env session else next_step ())
        (\<lambda>_. export_steps env wm task q plan session rs)))) (ending env plan) w1 r1"
    if "\<not> terminal (pl_stage r1)" "pl_plan r1 = Some plan" for wm w1 r1
    by (rule wp_then [OF wp_mutation [OF that]]) (auto simp: failed_with_def verify)
  show ?thesis
    using assms by (auto simp: body_steps_def wp_record wp_raise wp_bind [of "record_stage _ _ _"] not_terminal mutate
       split: option.splits)
qed

lemma caught_body:
  assumes "\<not> terminal (pl_stage r)" "pl_plan r = Some plan"
  shows "completed_with env plan (fst (snd (caught env (body_steps env task q plan) w r)))
    \<or> failed_with (Some plan) (fst (snd (caught env (body_steps env task q plan) w r)))"
proof -
  obtain w1 r1 out where f: "body_steps env task q plan w r = (w1, r1, out)"
    by (cases "body_steps env task q plan w r") auto
  with wp_body [OF assms, of env task q w] have e: "ending env plan out w1 r1" by (simp add: wp_def)
  show ?thesis
  proof (cases out)
    case (Raise msg)
    with e f show ?thesis
      by (simp add: caught_def bind_step_def update_result_def record_stage_def failed_with_def)
  qed (use e f in \<open>auto simp: caught_def ending_def\<close>)
qed


section \<open>Gates\<close>

definition token_ok :: "mutation_plan \<Rightarrow> bool" where
  "token_ok p \<longleftrightarrow> (case mu_token p of None \<Rightarrow> True | Some t \<Rightarrow> t = [] \<or> \<not> agent_like t)"

definition gate_passes :: "mutation_plan \<Rightarrow> bool" where
  "gate_passes p \<longleftrightarrow> mu_approved p \<and> token_ok p \<and> \<not> self_approved p \<and> validate_role_scope (mu_role p) (mu_targets p) = None"

lemma stop_and_wait_iff: "check_stop_and_wait_gate (mu_approved p) (mu_token p) = Inr msg \<Longrightarrow> mu_approved p \<and> token_ok p"
  by (auto simp: check_stop_and_wait_gate_def token_ok_def split: option.splits if_splits)

lemma stop_and_wait_blocked: "check_stop_and_wait_gate (mu_approved p) (mu_token p) = Inl msg \<Longrightarrow> \<not> (mu_approved p \<and> token_ok p)"
  by (auto simp: check_stop_and_wait_gate_def token_ok_def split: option.splits if_splits)

definition stopped :: "pipeline_result \<Rightarrow> bool" where
  "stopped r \<longleftrightarrow> pl_status r = V_Blocked \<and> (pl_stage r = Stage_Failed \<or> pl_stage r = Plan_And_Gate)"

lemma wp_gate:
  assumes "\<not> terminal (pl_stage r)"
  shows "wp (gate_steps env p) (\<lambda>out w1 r1. (\<forall>e. out \<noteq> Raise e) \<and>
     (if gate_passes p then pl_stage r1 = Plan_And_Gate \<and> pl_plan r1 = Some p \<and> pl_status r1 = pl_status r else stopped r1)) w r"
  using assms
  by (auto simp: gate_steps_def wp_simps gate_passes_def stopped_def
      split: sum.splits option.splits dest: stop_and_wait_iff stop_and_wait_blocked)

lemma submit_outcome:
  assumes "dict_get (mg_sessions s) task = Some r" "\<not> terminal (pl_stage r)"
  obtains r1 where "submit_plan env s task p = (put_session s task (gate_steps env p (mg_outside s) r), Inr r1)"
    "r1 = fst (snd (gate_steps env p (mg_outside s) r))"
    "if gate_passes p then pl_stage r1 = Plan_And_Gate \<and> pl_plan r1 = Some p \<and> pl_status r1 = pl_status r else stopped r1"
proof -
  obtain w1 r1 out where g: "gate_steps env p (mg_outside s) r = (w1, r1, out)"
    by (cases "gate_steps env p (mg_outside s) r") auto
  from wp_result [OF wp_gate [OF assms(2)] g]
  have "\<forall>e. out \<noteq> Raise e"
    "if gate_passes p then pl_stage r1 = Plan_And_Gate \<and> pl_plan r1 = Some p \<and> pl_status r1 = pl_status r else stopped r1"
    by auto
  with g assms(1) show ?thesis
    by (intro that [of r1]) (cases out; auto simp: submit_plan_def Let_def outcome_exception_def)+
qed

lemma run_outcome:
  assumes "dict_get (mg_sessions s) task = Some r" "\<not> terminal (pl_stage r)" "pl_status r = V_Not_Run"
  obtains r1 where "snd (submit_and_run env s task q p) = Inr r1"
    "dict_get (mg_sessions (fst (submit_and_run env s task q p))) task = Some r1"
    "if gate_passes p then completed_with env p r1 \<or> failed_with (Some p) r1 else stopped r1"
proof -
  obtain r1 where sub: "submit_plan env s task p = (put_session s task (gate_steps env p (mg_outside s) r), Inr r1)"
    "r1 = fst (snd (gate_steps env p (mg_outside s) r))"
    "if gate_passes p then pl_stage r1 = Plan_And_Gate \<and> pl_plan r1 = Some p \<and> pl_status r1 = pl_status r else stopped r1"
    using submit_outcome [OF assms(1,2)] by blast
  show ?thesis
  proof (cases "gate_passes p")
    case True
    with sub(3) assms(3) have r1: "pl_stage r1 = Plan_And_Gate" "pl_plan r1 = Some p" "\<not> blocked_or_failed r1"
      by (auto simp: blocked_or_failed_def)
    let ?out = "caught env (body_steps env task q p) (fst (gate_steps env p (mg_outside s) r)) r1"
    from caught_body [of r1 p] r1 have "completed_with env p (fst (snd ?out)) \<or> failed_with (Some p) (fst (snd ?out))"
      by simp
    with sub r1 True show ?thesis
      by (intro that [of "fst (snd ?out)"]) (simp_all add: submit_and_run_def Let_def)
  next
    case False
    with sub have "stopped r1" by simp
    then have "blocked_or_failed r1" by (simp add: stopped_def blocked_or_failed_def)
    with sub False \<open>stopped r1\<close> show ?thesis
      by (intro that [of r1]) (simp_all add: submit_and_run_def)
  qed
qed

definition intake_ok :: "'w pipeline \<Rightarrow> 'w \<Rightarrow> coding_request \<Rightarrow> bool" where
  "intake_ok env w q \<longleftrightarrow> cq_inspected q \<noteq> []
     \<and> (\<forall>f \<in> set (cq_inspected q). gt_exists (pp_git env) w (source_path (target_repository env w q) f))
     \<and> (\<forall>role \<in> set (cq_roles q). validate_role_scope role (cq_targets q) = None)"

lemma preflight_iff:
  "(\<exists>msg. check_anti_summary_preflight ex base fs = Inr msg) \<longleftrightarrow> fs \<noteq> [] \<and> (\<forall>f \<in> set fs. ex (source_path base f))"
  by (auto simp: check_anti_summary_preflight_def Let_def filter_empty_conv)

lemma first_scope_error_None: "first_scope_error roles targets = None \<longleftrightarrow> (\<forall>role \<in> set roles. validate_role_scope role targets = None)"
proof (cases "find (\<lambda>role. validate_role_scope role targets \<noteq> None) roles")
  case None
  then have "\<forall>role \<in> set roles. validate_role_scope role targets = None" by (auto simp: find_None_iff)
  then show ?thesis unfolding first_scope_error_def None by simp
next
  case (Some role)
  from find_SomeD [OF this] Some show ?thesis by (auto simp: first_scope_error_def simp del: not_None_eq)
qed

text \<open>The state the intake reads is the one after the record of its own stage.\<close>

definition after_intake :: "'w pipeline \<Rightarrow> 'w \<Rightarrow> coding_request \<Rightarrow> 'w" where
  "after_intake env w q = audit_stage env w (cq_task q) Intake (accepted_text q)"

lemma new_result_fields [simp]:
  "pl_stage (new_result task) = Intake" "pl_status (new_result task) = V_Not_Run" "pl_task (new_result task) = task"
  by (simp_all add: new_result_def)

lemma start_outcome:
  obtains r where "dict_get (mg_sessions (start_pipeline env s q)) (cq_task q) = Some r"
    "if intake_ok env (after_intake env (mg_outside s) q) q
     then pl_stage r = Precheck \<and> pl_status r = V_Not_Run else pl_stage r = Stage_Failed \<and> pl_status r = V_Blocked"
proof -
  let ?w = "after_intake env (mg_outside s) q"
  let ?r = "fst (snd (intake_steps env q (mg_outside s) (new_result (cq_task q))))"
  have "wp (intake_steps env q) (\<lambda>out w r. if intake_ok env ?w q then pl_stage r = Precheck \<and> pl_status r = V_Not_Run
      else pl_stage r = Stage_Failed \<and> pl_status r = V_Blocked) (mg_outside s) (new_result (cq_task q))"
    using preflight_iff [of "gt_exists (pp_git env) ?w" "target_repository env ?w q" "cq_inspected q"]
      first_scope_error_None [of "cq_roles q" "cq_targets q"]
    by (auto simp: intake_steps_def wp_simps after_intake_def [symmetric] intake_ok_def split: sum.splits option.splits)
  then show ?thesis
    by (intro that [of ?r]) (simp_all add: start_pipeline_def wp_def case_prod_beta)
qed


section \<open>The whole pipeline\<close>

lemma synthesized_fields [simp]:
  "mu_mutations (synthesize_mutation_plan fmt2 q draft sheet points) = []"
  "\<not> mu_approved (synthesize_mutation_plan fmt2 q draft sheet points)"
  "mu_token (synthesize_mutation_plan fmt2 q draft sheet points) = None"
  "mu_role (synthesize_mutation_plan fmt2 q draft sheet points) =
     (case cq_roles q of [] \<Rightarrow> ''DOMAIN_LOGIC_AGENT'' | r # rs \<Rightarrow> r)"
  by (simp_all add: synthesize_mutation_plan_def split: prod.splits)

lemma debate_plan:
  "\<exists>sheet points. dc_plan (snd (run_debate env w q form draft)) = Some (synthesize_mutation_plan (de_fmt2 env) q draft sheet points)"
  by (auto simp: run_debate_def Let_def split: prod.splits)

lemma debate_plan_mutations:
  assumes "run_debate env w q form draft = (w1, d)"
  shows "\<exists>e. dc_plan d = Some e \<and> mu_mutations e = []"
  using debate_plan [of env w q form draft] assms by auto

lemma wp_debate:
  assumes "\<not> terminal (pl_stage r)"
  shows "wp (debate_steps env q draft) (\<lambda>out w1 r1. pl_stage r1 = Committee_Debate \<and> pl_status r1 = pl_status r \<and>
     (\<exists>d e. out = Next d \<and> dc_plan d = Some e \<and> mu_mutations e = [])) w r"
  using assms by (auto simp: debate_steps_def wp_simps split: prod.splits dest: debate_plan_mutations)

lemma debate_outcome:
  assumes "dict_get (mg_sessions s) task = Some r" "\<not> terminal (pl_stage r)"
  obtains s1 d e r1 where "run_committee_debate env s task q draft = (s1, Inr d)"
    "dict_get (mg_sessions s1) task = Some r1" "pl_stage r1 = Committee_Debate" "pl_status r1 = pl_status r"
    "dc_plan d = Some e" "mu_mutations e = []"
proof -
  obtain w1 r1 out where f: "debate_steps env q draft (mg_outside s) r = (w1, r1, out)"
    by (cases "debate_steps env q draft (mg_outside s) r") auto
  have r: "session_of s task = r" by (simp add: session_of_def assms(1))
  from wp_result [OF wp_debate [OF assms(2)] f]
  obtain d e where "pl_stage r1 = Committee_Debate" "pl_status r1 = pl_status r" "out = Next d" "dc_plan d = Some e"
    "mu_mutations e = []" by auto
  with f r show ?thesis
    by (intro that [of "put_session s task (w1, r1, out)" d r1 e]) (simp_all add: run_committee_debate_def Let_def)
qed

text \<open>The plan that is submitted: the given one, or the committee's with the approval of the given one.\<close>

definition plan_submitted :: "coding_request \<Rightarrow> mutation_plan \<Rightarrow> mutation_plan \<Rightarrow> bool" where
  "plan_submitted q plan p \<longleftrightarrow>
     (if cq_committee q then mu_approved p = mu_approved plan \<and> mu_token p = mu_token plan \<and> mu_mutations p = [] else p = plan)"

lemma share_approval_fields [simp]:
  "pl_stage (share_approval d p r) = pl_stage r" "pl_status (share_approval d p r) = pl_status r"
  by (simp_all add: share_approval_def)

definition ended :: "'w pipeline \<Rightarrow> 'w manager \<Rightarrow> coding_request \<Rightarrow> mutation_plan \<Rightarrow> pipeline_result \<Rightarrow> bool" where
  "ended env s q plan r \<longleftrightarrow> stopped r \<or>
     (\<exists>p. plan_submitted q plan p \<and> gate_passes p \<and> intake_ok env (after_intake env (mg_outside s) q) q
        \<and> (completed_with env p r \<or> failed_with (Some p) r))"

lemma execute_stop:
  assumes "blocked_or_failed (session_of (start_pipeline env s q) (cq_task q))"
  shows "execute_pipeline env s task q plan = (start_pipeline env s q, Inr (session_of (start_pipeline env s q) (cq_task q)))"
  using assms by (simp add: execute_pipeline_def Let_def)

lemma execute_direct:
  assumes "\<not> blocked_or_failed (session_of (start_pipeline env s q) (cq_task q))" "\<not> cq_committee q"
  shows "execute_pipeline env s task q plan = submit_and_run env (start_pipeline env s q) task q plan"
  using assms by (simp add: execute_pipeline_def Let_def)

lemma execute_rejected:
  assumes "\<not> blocked_or_failed (session_of (start_pipeline env s q) (cq_task q))" "cq_committee q"
    and "run_committee_debate env (start_pipeline env s q) task q (Some plan) = (s2, Inr d)"
    and "sc_security (dc_card d) < 70 / 100"
    and "out = (end_with env V_Blocked (security_objection d) :: ('w, unit) step) (mg_outside s2) (session_of s2 (cq_task q))"
  shows "execute_pipeline env s task q plan = (put_session s2 (cq_task q) out, Inr (fst (snd out)))"
  using assms by (simp add: execute_pipeline_def Let_def)

lemma execute_enriched:
  assumes "\<not> blocked_or_failed (session_of (start_pipeline env s q) (cq_task q))" "cq_committee q"
    and "run_committee_debate env (start_pipeline env s q) task q (Some plan) = (s2, Inr d)"
    and "\<not> sc_security (dc_card d) < 70 / 100" "dc_plan d = Some e" "p = with_approval plan e"
  shows "execute_pipeline env s task q plan =
     submit_and_run env (put_session s2 task (update_result (share_approval d p) (mg_outside s2) (session_of s2 task))) task q p"
  using assms by (simp add: execute_pipeline_def Let_def)

lemma ended_run:
  assumes "dict_get (mg_sessions s2) (cq_task q) = Some r2" "\<not> terminal (pl_stage r2)" "pl_status r2 = V_Not_Run"
    and "plan_submitted q plan p" "intake_ok env (after_intake env (mg_outside s) q) q"
  obtains r where "snd (submit_and_run env s2 (cq_task q) q p) = Inr r" "ended env s q plan r"
    "dict_get (mg_sessions (fst (submit_and_run env s2 (cq_task q) q p))) (cq_task q) = Some r"
proof -
  obtain r where r: "snd (submit_and_run env s2 (cq_task q) q p) = Inr r"
    "dict_get (mg_sessions (fst (submit_and_run env s2 (cq_task q) q p))) (cq_task q) = Some r"
    "if gate_passes p then completed_with env p r \<or> failed_with (Some p) r else stopped r"
    by (rule run_outcome [OF assms(1-3)])
  then have "ended env s q plan r"
    using assms(4,5) unfolding ended_def by (metis (full_types))
  with r show ?thesis by (intro that [of r])
qed

lemma end_with_result:
  "fst (snd (end_with env v msg w r)) = enter_stage env w Stage_Failed msg (r\<lparr>pl_status := v, pl_error := Some msg\<rparr>)"
  by (simp add: end_with_def bind_step_def update_result_def record_stage_def return_step_def)

lemma execute_committee_outcome:
  assumes "dict_get (mg_sessions (start_pipeline env s q)) (cq_task q) = Some r1" "pl_stage r1 = Precheck" "pl_status r1 = V_Not_Run"
    and "cq_committee q" "intake_ok env (after_intake env (mg_outside s) q) q"
  obtains r where "snd (execute_pipeline env s (cq_task q) q plan) = Inr r" "ended env s q plan r"
    "dict_get (mg_sessions (fst (execute_pipeline env s (cq_task q) q plan))) (cq_task q) = Some r"
proof -
  let ?s1 = "start_pipeline env s q"
  have s1: "session_of ?s1 (cq_task q) = r1" "\<not> blocked_or_failed (session_of ?s1 (cq_task q))"
    using assms(1-3) by (simp_all add: session_of_def blocked_or_failed_def)
  have nt: "\<not> terminal (pl_stage r1)" using assms(2) by simp
  obtain s2 d e r2 where deb: "run_committee_debate env ?s1 (cq_task q) q (Some plan) = (s2, Inr d)"
    "dict_get (mg_sessions s2) (cq_task q) = Some r2" "pl_stage r2 = Committee_Debate" "pl_status r2 = pl_status r1"
    "dc_plan d = Some e" "mu_mutations e = []"
    by (rule debate_outcome [OF assms(1) nt])
  show ?thesis
  proof (cases "sc_security (dc_card d) < 70 / 100")
    case True
    let ?out = "(end_with env V_Blocked (security_objection d) :: ('a, unit) step) (mg_outside s2) (session_of s2 (cq_task q))"
    have "stopped (fst (snd ?out))" by (simp add: end_with_result stopped_def)
    with execute_rejected [OF s1(2) assms(4) deb(1) True refl] show ?thesis
      by (intro that [of "fst (snd ?out)"]) (simp_all add: ended_def)
  next
    case False
    let ?p = "with_approval plan e"
    let ?s3 = "put_session s2 (cq_task q) (update_result (share_approval d ?p) (mg_outside s2) (session_of s2 (cq_task q)))"
    have g: "dict_get (mg_sessions ?s3) (cq_task q) = Some (share_approval d ?p (session_of s2 (cq_task q)))"
      by (simp add: update_result_def)
    have st: "\<not> terminal (pl_stage (share_approval d ?p (session_of s2 (cq_task q))))"
      "pl_status (share_approval d ?p (session_of s2 (cq_task q))) = V_Not_Run"
      using deb assms(3) by (simp_all add: session_of_def)
    have p: "plan_submitted q plan ?p"
      using assms(4) deb by (simp add: plan_submitted_def with_approval_def)
    obtain r where "snd (submit_and_run env ?s3 (cq_task q) q ?p) = Inr r" "ended env s q plan r"
      "dict_get (mg_sessions (fst (submit_and_run env ?s3 (cq_task q) q ?p))) (cq_task q) = Some r"
      by (rule ended_run [OF g st p assms(5)])
    with execute_enriched [OF s1(2) assms(4) deb(1) False deb(5) refl] show ?thesis
      by (intro that [of r]) simp_all
  qed
qed

lemma execute_outcome:
  obtains r where "snd (execute_pipeline env s (cq_task q) q plan) = Inr r" "ended env s q plan r"
    "dict_get (mg_sessions (fst (execute_pipeline env s (cq_task q) q plan))) (cq_task q) = Some r"
proof -
  let ?s1 = "start_pipeline env s q"
  obtain r1 where r1: "dict_get (mg_sessions ?s1) (cq_task q) = Some r1"
    "if intake_ok env (after_intake env (mg_outside s) q) q
     then pl_stage r1 = Precheck \<and> pl_status r1 = V_Not_Run else pl_stage r1 = Stage_Failed \<and> pl_status r1 = V_Blocked"
    by (rule start_outcome)
  then have s1: "session_of ?s1 (cq_task q) = r1" by (simp add: session_of_def)
  show thesis
  proof (cases "intake_ok env (after_intake env (mg_outside s) q) q")
    case False
    with r1 s1 have b: "blocked_or_failed (session_of ?s1 (cq_task q))" "stopped r1"
      by (simp_all add: blocked_or_failed_def stopped_def)
    show thesis
      by (rule that [of r1]) (simp_all add: execute_stop [OF b(1)] s1 r1 ended_def b(2))
  next
    case ok: True
    with r1 s1 have st: "pl_stage r1 = Precheck" "pl_status r1 = V_Not_Run" "\<not> blocked_or_failed (session_of ?s1 (cq_task q))"
      by (simp_all add: blocked_or_failed_def)
    show thesis
    proof (cases "cq_committee q")
      case True
      show thesis by (rule execute_committee_outcome [OF r1(1) st(1,2) True ok]) (rule that)
    next
      case False
      have nt: "\<not> terminal (pl_stage r1)" using st(1) by simp
      have p: "plan_submitted q plan plan" using False by (simp add: plan_submitted_def)
      show thesis
        by (rule ended_run [OF r1(1) nt st(2) p ok]) (rule that, simp_all add: execute_direct [OF st(3) False])
    qed
  qed
qed

end
