(* ===== verification/Runtime_Properties.thy ===== *)
theory Runtime_Properties
  imports Pipeline_Healing Audit_Properties
begin

text \<open>
  What the evidence plane guarantees: the log of runtime events verifies for every task, a ladder runs
  until the first failure, and what the checksum of a checkpoint covers.
\<close>

section \<open>The log\<close>

text \<open>\<open>json.loads\<close> gives back the value whose text was written.\<close>

definition json_reads :: "(string \<Rightarrow> json option) \<Rightarrow> bool" where
  "json_reads loads \<longleftrightarrow> (\<forall>j. \<exists>k. loads (dumps Spaced j) = Some k \<and> dumps Spaced k = dumps Spaced j)"

lemma json_reads_canon: "json_reads loads \<Longrightarrow> canon loads (dumps Spaced j) = dumps Spaced j"
  unfolding json_reads_def canon_def by (metis option.simps(5))

lemma json_reads_Some: "json_reads loads \<Longrightarrow> \<exists>k. loads (dumps Spaced j) = Some k"
  by (metis json_reads_def)

definition chain_tip :: "string \<Rightarrow> runtime_row list \<Rightarrow> string" where
  "chain_tip e rs = (case rev rs of [] \<Rightarrow> e | r # _ \<Rightarrow> rt_hash r)"

lemma chain_tip_simps [simp]: "chain_tip e [] = e" "chain_tip e (rs @ [r]) = rt_hash r"
  by (simp_all add: chain_tip_def)

lemma chain_tip_Cons: "chain_tip e (r # rs) = chain_tip (rt_hash r) rs"
  by (cases rs rule: rev_cases) (simp_all add: chain_tip_def)

lemma runtime_chain_snoc:
  "runtime_chain cn e (rs @ [r]) \<longleftrightarrow> runtime_chain cn e rs \<and> rt_prev r = chain_tip e rs
     \<and> rt_hash r = runtime_hash (rt_prev r) (rt_task r) (rt_type r) (cn (rt_payload r)) (rt_time r)"
  by (induction rs arbitrary: e) (auto simp: chain_tip_Cons)

lemma events_of_snoc: "events_of task (rows @ [r]) = events_of task rows @ (if rt_task r = task then [r] else [])"
  by (simp add: events_of_def)

lemma task_tip_chain: "task_tip task rows = chain_tip zero_hash (events_of task rows)"
  by (simp add: task_tip_def chain_tip_def)

definition runtime_inv :: "(string \<Rightarrow> json option) \<Rightarrow> runtime_row list \<Rightarrow> bool" where
  "runtime_inv loads rows \<longleftrightarrow> (\<forall>task. verify_runtime_chain loads rows task = Some True)
     \<and> map rt_id rows = map int [1..<Suc (length rows)]"

lemma verify_runtime_iff:
  "verify_runtime_chain loads rows task = Some True \<longleftrightarrow>
     (\<forall>r \<in> set (events_of task rows). loads (rt_payload r) \<noteq> None)
     \<and> runtime_chain (canon loads) zero_hash (events_of task rows)"
  by (auto simp: verify_runtime_chain_def)

lemma runtime_inv_record:
  assumes "json_reads loads" "runtime_inv loads rows"
  shows "runtime_inv loads (fst (record_runtime_event rows time ev payload task))"
  using assms
  by (auto simp: runtime_inv_def verify_runtime_iff record_runtime_event_def Let_def events_of_snoc runtime_chain_snoc
      task_tip_chain json_reads_canon json_reads_Some)

definition runtime_says :: "runtime_row \<Rightarrow> runtime_event_type \<Rightarrow> json \<Rightarrow> string \<Rightarrow> int \<Rightarrow> bool" where
  "runtime_says r ev payload task n \<longleftrightarrow> rt_type r = ev \<and> rt_payload r = dumps Spaced payload \<and> rt_task r = task \<and> rt_id r = n"

definition runtime_ok :: "runtime_row list \<Rightarrow> bool" where
  "runtime_ok rows \<longleftrightarrow> (\<forall>loads. json_reads loads \<longrightarrow> runtime_inv loads rows)"

interpretation runtime_log: event_recorder record_runtime_event "\<lambda>rows. rows" runtime_ok runtime_says
proof
  fix rows :: "runtime_row list" and time task :: string and ev payload
  show "\<exists>row. fst (record_runtime_event rows time ev payload task) = rows @ [row]
      \<and> runtime_says row ev payload task (snd (record_runtime_event rows time ev payload task))"
    by (simp add: record_runtime_event_def Let_def runtime_says_def)
  show "runtime_ok rows \<Longrightarrow> runtime_ok (fst (record_runtime_event rows time ev payload task))"
    by (simp add: runtime_ok_def runtime_inv_record)
qed

lemma runtime_ok_Nil: "runtime_ok []"
  by (simp add: runtime_ok_def runtime_inv_def verify_runtime_iff events_of_def)

text \<open>The log of runtime events of an honest execution plane verifies: whatever events of whatever tasks are
recorded, in any interleaving, the chain of every task is found intact, one row is kept per event, and
recording for one task leaves the events of every other task as they are.\<close>

theorem runtime_log_verifies:
  assumes "json_reads loads"
  shows "verify_runtime_chain loads (runtime_log.record_all evs []) task = Some True"
    and "length (runtime_log.record_all evs []) = length evs"
    and "other \<noteq> task \<Longrightarrow> events_of other (fst (record_runtime_event rows time ev payload task)) = events_of other rows"
proof -
  have "runtime_ok (runtime_log.record_all evs [])"
    by (rule runtime_log.record_all_inv [OF runtime_ok_Nil])
  with assms show "verify_runtime_chain loads (runtime_log.record_all evs []) task = Some True"
    by (simp add: runtime_ok_def runtime_inv_def)
  show "length (runtime_log.record_all evs []) = length evs"
    using runtime_log.record_all_rows [of evs "[]"] by auto
  show "other \<noteq> task \<Longrightarrow> events_of other (fst (record_runtime_event rows time ev payload task)) = events_of other rows"
    by (simp add: record_runtime_event_def Let_def events_of_snoc)
qed


section \<open>Ladders\<close>

lemma ladder_receipt_fields [simp]:
  "vc_command (ladder_receipt limit ms now idx cmd res) = cmd"
  "passed (ladder_receipt limit ms now idx cmd res) \<longleftrightarrow> vc_exit (ladder_receipt limit ms now idx cmd res) = 0"
  by (simp_all add: ladder_receipt_def passed_def split: prod.splits)

lemma run_ladder_facts:
  assumes "run_ladder run limit ms now w dir idx cmds = (w1, rs)"
  shows "map vc_command rs = take (length rs) cmds \<and> (\<forall>c \<in> set rs. passed c \<longleftrightarrow> vc_exit c = 0)
    \<and> (list_all passed rs \<longrightarrow> length rs = length cmds) \<and> list_all passed (butlast rs) \<and> (cmds \<noteq> [] \<longrightarrow> rs \<noteq> [])"
  using assms
proof (induction cmds arbitrary: w idx rs)
  case (Cons cmd cmds)
  obtain w2 res where res: "run w dir cmd = (w2, res)" by fastforce
  let ?r = "ladder_receipt limit (ms w2) (now w2) idx cmd res"
  show ?case
  proof (cases "passed ?r")
    case True
    obtain w3 rs1 where rest: "run_ladder run limit ms now w2 dir (Suc idx) cmds = (w3, rs1)" by fastforce
    with Cons.prems res True have "rs = ?r # rs1" "w1 = w3" by (auto simp: Let_def)
    with Cons.IH [of w2 "Suc idx" rs1] rest True show ?thesis by (auto)
  next
    case False
    with Cons.prems res show ?thesis by (auto simp: Let_def)
  qed
qed simp

definition live_runner ::
    "('w \<Rightarrow> string \<Rightarrow> string \<Rightarrow> 'w \<times> run_outcome) \<Rightarrow> string \<Rightarrow> ('w \<Rightarrow> int) \<Rightarrow> ('w \<Rightarrow> string) \<Rightarrow> 'w ladder_runner" where
  "live_runner run limit ms now w dir cmds =
     (case run_verification_ladder run limit ms now w dir cmds of (w1, rs) \<Rightarrow> (w1, Inr rs))"

lemma live_runner_facts:
  assumes "live_runner run limit ms now w dir cmds = (w1, Inr rs)"
  shows "map vc_command rs = take (length rs) cmds" "c \<in> set rs \<Longrightarrow> passed c \<longleftrightarrow> vc_exit c = 0"
    "list_all passed rs \<Longrightarrow> length rs = length cmds"
proof -
  have "run_ladder run limit ms now w dir 1 cmds = (w1, rs)"
    using assms by (simp add: live_runner_def run_verification_ladder_def split: prod.splits)
  from run_ladder_facts [OF this]
  show "map vc_command rs = take (length rs) cmds" "c \<in> set rs \<Longrightarrow> passed c \<longleftrightarrow> vc_exit c = 0"
    "list_all passed rs \<Longrightarrow> length rs = length cmds" by auto
qed

interpretation live: ladder "live_runner run limit ms now" for run limit ms now
  by unfold_locales (rule live_runner_facts; assumption)+


text \<open>A ladder whose receipts have all passed ran every command of the strategy, in order, each with exit code
0; otherwise it stopped at the first command that did not, and ran none after it.\<close>

theorem ladder_fail_fast:
  assumes "run_verification_ladder run limit ms now w dir cmds = (w1, rs)"
  shows "if list_all passed rs then map vc_command rs = cmds \<and> (\<forall>c \<in> set rs. vc_exit c = 0)
    else (\<exists>pre c. rs = pre @ [c] \<and> list_all passed pre \<and> vc_exit c \<noteq> 0
            \<and> map vc_command rs = take (Suc (length pre)) cmds)"
proof (cases "list_all passed rs")
  case True
  with live.ladder_complete [of run limit ms now w dir cmds w1 rs] assms show ?thesis
    by (simp add: live_runner_def)
next
  case False
  then obtain pre c where rs: "rs = pre @ [c]" by (cases rs rule: rev_cases) auto
  with run_ladder_facts [of run limit ms now w dir 1 cmds w1 rs] assms False show ?thesis
    by (auto simp: run_verification_ladder_def)
qed

definition shell_sample :: "nat \<Rightarrow> string \<Rightarrow> string \<Rightarrow> nat \<times> run_outcome" where
  "shell_sample n dir cmd = (Suc n, if cmd = ''lint'' then Exited 2 [] ''Error: x'' else Exited 0 ''ok'' [])"

lemma ladder_fail_fast_witness:
  "map vc_exit (snd (run_verification_ladder shell_sample ''60'' (\<lambda>n. 1) (\<lambda>n. ''t'') 0 ''/w'' [''build'', ''lint'', ''test''])) = [0, 2]
   \<and> map vc_command (snd (run_verification_ladder shell_sample ''60'' (\<lambda>n. 1) (\<lambda>n. ''t'') 0 ''/w'' [''build'', ''lint'', ''test'']))
       = take 2 [''build'', ''lint'', ''test'']"
  using ladder_fail_fast [of shell_sample "''60''" "\<lambda>n. 1" "\<lambda>n. ''t''" 0 "''/w''" "[''build'', ''lint'', ''test'']" 2
      "snd (run_verification_ladder shell_sample ''60'' (\<lambda>n. 1) (\<lambda>n. ''t'') 0 ''/w'' [''build'', ''lint'', ''test''])"]
  by (simp add: run_verification_ladder_def shell_sample_def ladder_receipt_def passed_def numeral_2_eq_2 Let_def)


section \<open>Checkpoints\<close>

text \<open>A checkpoint that is saved is loaded back, with its checksum, when its JSON can be read back; checkpoints
under other names stay as they are.\<close>

theorem checkpoint_roundtrip:
  assumes "dec (enc (c\<lparr>ck_sum := compute_checksum c\<rparr>)) = Some (c\<lparr>ck_sum := compute_checksum c\<rparr>)"
  shows "load_checkpoint dec (fst (save_checkpoint enc files c)) (checkpoint_file c) = Inr (c\<lparr>ck_sum := compute_checksum c\<rparr>)"
    and "ck_id d \<noteq> ck_id c \<Longrightarrow>
      load_checkpoint dec (fst (save_checkpoint enc files c)) (checkpoint_file d) = load_checkpoint dec files (checkpoint_file d)"
proof -
  have "compute_checksum (c\<lparr>ck_sum := compute_checksum c\<rparr>) = compute_checksum c" by (simp add: compute_checksum_def)
  with assms show "load_checkpoint dec (fst (save_checkpoint enc files c)) (checkpoint_file c) = Inr (c\<lparr>ck_sum := compute_checksum c\<rparr>)"
    by (simp add: save_checkpoint_def Let_def load_checkpoint_def checkpoint_file_def)
  show "ck_id d \<noteq> ck_id c \<Longrightarrow>
      load_checkpoint dec (fst (save_checkpoint enc files c)) (checkpoint_file d) = load_checkpoint dec files (checkpoint_file d)"
    by (simp add: save_checkpoint_def Let_def load_checkpoint_def checkpoint_file_def)
qed

definition sample_checkpoint :: checkpoint where
  "sample_checkpoint = \<lparr>ck_id = ''cp-1'', ck_task = ''T'', ck_stage = Self_Healing, ck_path = ''/w/a'', ck_head = ''abc'',
     ck_turn = 2, ck_history = [], ck_saved = ''t'', ck_sum = []\<rparr>"

lemma checkpoint_roundtrip_witness:
  "load_checkpoint (\<lambda>s. Some (sample_checkpoint\<lparr>ck_sum := compute_checksum sample_checkpoint\<rparr>))
     (fst (save_checkpoint (\<lambda>c. ''x'') (\<lambda>f. None) sample_checkpoint)) ''cp-1.json''
     = Inr (sample_checkpoint\<lparr>ck_sum := compute_checksum sample_checkpoint\<rparr>)"
  using checkpoint_roundtrip(1) [of "\<lambda>s. Some (sample_checkpoint\<lparr>ck_sum := compute_checksum sample_checkpoint\<rparr>)" "\<lambda>c. ''x''"
      sample_checkpoint "\<lambda>f. None"]
  by (simp add: checkpoint_file_def sample_checkpoint_def)

definition checkpoint_text :: "checkpoint \<Rightarrow> string" where
  "checkpoint_text c = ck_id c @ '':'' @ ck_task c @ '':'' @ stage_value (ck_stage c) @ '':'' @ ck_head c @ '':'' @ int_str (ck_turn c)"

lemma checksum_text: "compute_checksum c = sha256 (checkpoint_text c)"
  by (simp add: compute_checksum_def checkpoint_text_def)

lemma checkpoint_integrity_parts:
  assumes "files name = Some s" "dec s = Some d" "ck_sum d = compute_checksum c"
  shows "load_checkpoint dec files name = Inr d \<Longrightarrow>
      checkpoint_text d = checkpoint_text c \<or> collision sha256 (checkpoint_text d) (checkpoint_text c)"
    and "d = c\<lparr>ck_path := path, ck_history := history, ck_saved := time, ck_sum := compute_checksum c\<rparr>
      \<Longrightarrow> load_checkpoint dec files name = Inr d"
proof -
  show "load_checkpoint dec files name = Inr d \<Longrightarrow>
      checkpoint_text d = checkpoint_text c \<or> collision sha256 (checkpoint_text d) (checkpoint_text c)"
    using assms by (auto simp: load_checkpoint_def checksum_text collision_def split: if_splits)
  show "load_checkpoint dec files name = Inr d"
    if d: "d = c\<lparr>ck_path := path, ck_history := history, ck_saved := time, ck_sum := compute_checksum c\<rparr>"
  proof -
    have "compute_checksum d = compute_checksum c" by (simp add: d compute_checksum_def)
    with assms show ?thesis by (simp add: load_checkpoint_def)
  qed
qed

text \<open>The checksum of a checkpoint protects its identifier, task, stage, head and turn: a stored file that
carries the checksum of a checkpoint is only accepted with the same text of these fields, or a collision of
SHA-256. It does not protect where the work is: whatever the worktree path, the history and the time of a
stored checkpoint are changed to, it is loaded without an error.\<close>

theorem checkpoint_integrity:
  assumes "files name = Some s" "dec s = Some d" "ck_sum d = compute_checksum c"
  shows "(load_checkpoint dec files name = Inr d \<longrightarrow>
      checkpoint_text d = checkpoint_text c \<or> collision sha256 (checkpoint_text d) (checkpoint_text c))
    \<and> (d = c\<lparr>ck_path := path, ck_history := history, ck_saved := time, ck_sum := compute_checksum c\<rparr> \<longrightarrow>
      load_checkpoint dec files name = Inr d)"
  using checkpoint_integrity_parts [where files = files and name = name and s = s and dec = dec and d = d and c = c] assms by blast

lemma checkpoint_integrity_witness:
  "\<exists>d. load_checkpoint (\<lambda>s. Some d) (\<lambda>f. Some ''x'') ''cp-1.json'' = Inr d \<and> ck_path d = ''/other'' \<and> ck_path sample_checkpoint = ''/w/a''
     \<and> ck_sum d = compute_checksum sample_checkpoint"
proof -
  let ?d = "sample_checkpoint\<lparr>ck_path := ''/other'', ck_history := [], ck_saved := ''t'', ck_sum := compute_checksum sample_checkpoint\<rparr>"
  have "load_checkpoint (\<lambda>s. Some ?d) (\<lambda>f. Some ''x'') ''cp-1.json'' = Inr ?d"
    by (rule checkpoint_integrity [THEN conjunct2, rule_format, where s = "''x''" and c = sample_checkpoint and path = "''/other''" and history = "[]"
          and time = "''t''"]) simp_all
  then show ?thesis by (intro exI [of _ ?d]) (simp_all add: sample_checkpoint_def)
qed

lemma runtime_log_verifies_witness:
  "\<exists>loads. json_reads loads \<and> verify_runtime_chain loads
      (runtime_log.record_all [(''t1'', Task_Started, JNull, ''A''), (''t2'', Tool_Invoked, JInt 7, ''B''), (''t3'', Task_Completed, JNull, ''A'')] []) ''A''
      = Some True"
proof -
  define loads :: "string \<Rightarrow> json option" where "loads s = (if \<exists>j. dumps Spaced j = s then Some (SOME j. dumps Spaced j = s) else None)" for s
  have "\<exists>k. loads (dumps Spaced j) = Some k \<and> dumps Spaced k = dumps Spaced j" for j
    using someI [of "\<lambda>k. dumps Spaced k = dumps Spaced j" j] by (auto simp: loads_def)
  then have "json_reads loads" by (simp add: json_reads_def)
  then show ?thesis
    using runtime_log_verifies(1) [of loads] by blast
qed

end
