(* ===== verification/Concurrent_Pipeline.thy ===== *)
theory Concurrent_Pipeline
  imports Coding_Pipeline
begin

text \<open>
  The concurrent pipeline of several roles (\<open>execute_concurrent_role_pipeline\<close> of
  core/pipeline/manager.py): scopes, arbitration of overlapping files, one worktree per role, the squash of
  their branches, and the cleanup. The plans are a dictionary by role; the dictionary it answers is a value of
  \<open>concurrent_result\<close>.
\<close>

record role_execution =
  xe_session :: string
  xe_branch :: string
  xe_commit :: string
  xe_diff :: string

datatype concurrent_result =
    Concurrent_Refused string pipeline_stage "(string, role_execution) dict"
  | Concurrent_Done "string list" "(string, role_execution) dict" "(string, string) dict" nat

fun scope_refusal :: "(string, mutation_plan) dict \<Rightarrow> string option" where
  "scope_refusal [] = None"
| "scope_refusal ((role, p) # plans) =
     (case validate_role_scope role (mu_targets p) of
        Some err \<Rightarrow> Some (''Policy Gate violation for role '' @ in_quotes role @ '': '' @ err)
      | None \<Rightarrow> scope_refusal plans)"

fun claim_files :: "string \<Rightarrow> string list \<Rightarrow> (string, string) dict \<Rightarrow> string + (string, string) dict" where
  "claim_files role [] assigned = Inr assigned"
| "claim_files role (f # fs) assigned =
     (case dict_get assigned f of
        Some other \<Rightarrow> Inl (''Role overlap arbitration conflict: file '' @ in_quotes f @ '' claimed by both ''
                           @ in_quotes other @ '' and '' @ in_quotes role)
      | None \<Rightarrow> claim_files role fs (dict_put f role assigned))"

fun arbitrate :: "(string, mutation_plan) dict \<Rightarrow> (string, string) dict \<Rightarrow> string + (string, string) dict" where
  "arbitrate [] assigned = Inr assigned"
| "arbitrate ((role, p) # plans) assigned = res_bind (claim_files role (mu_targets p) assigned) (arbitrate plans)"

fun create_each ::
    "'w worktree_manager \<Rightarrow> coding_request \<Rightarrow> string list \<Rightarrow> 'w \<Rightarrow> ('w, (string, worktree_session) dict) action" where
  "create_each wm q [] w = (w, Inr [])"
| "create_each wm q (role # roles) w =
     (case wm_create wm w (cq_repository q) (cq_branch q @ ''_'' @ lower role) (cq_base q) of
        (w1, Inl e) \<Rightarrow> (w1, Inl e)
      | (w1, Inr session) \<Rightarrow>
          (case create_each wm q roles w1 of
             (w2, Inl e) \<Rightarrow> (w2, Inl e)
           | (w2, Inr sessions) \<Rightarrow> (w2, Inr ((role, session) # sessions))))"

definition create_sessions ::
    "'w worktree_manager \<Rightarrow> coding_request \<Rightarrow> string list \<Rightarrow> 'w \<Rightarrow> ('w, (string, worktree_session) dict) action" where
  "create_sessions wm q roles w =
     (case wm_multi wm of
        Some multi \<Rightarrow> multi w (cq_repository q) roles (cq_base q)
      | None \<Rightarrow> create_each wm q roles w)"

definition execute_role ::
    "'w pipeline \<Rightarrow> 'w worktree_manager \<Rightarrow> string \<Rightarrow> string \<Rightarrow> mutation_plan \<Rightarrow> worktree_session \<Rightarrow> 'w
       \<Rightarrow> ('w, role_execution) action" where
  "execute_role env wm task role p session w =
     (case (case pp_executor env of None \<Rightarrow> (w, Inr None) | Some x \<Rightarrow> xc_execute x w session p) of
        (w1, Inl e) \<Rightarrow> (w1, Inl e)
      | (w1, Inr _) \<Rightarrow>
          (case wm_commit wm w1 session (''feat('' @ lower role @ ''): apply concurrent mutation for '' @ task) of
             (w2, Inl e) \<Rightarrow> (w2, Inl e)
           | (w2, Inr commit) \<Rightarrow>
               (case wm_diff wm w2 session of
                  (w3, Inl e) \<Rightarrow> (w3, Inl e)
                | (w3, Inr d) \<Rightarrow> (w3, Inr \<lparr>xe_session = ws_session session, xe_branch = ws_branch session,
                                        xe_commit = commit, xe_diff = d\<rparr>))))"

fun execute_roles ::
    "'w pipeline \<Rightarrow> 'w worktree_manager \<Rightarrow> string \<Rightarrow> (string, worktree_session) dict \<Rightarrow> (string, mutation_plan) dict \<Rightarrow> 'w
       \<Rightarrow> ('w, (string, role_execution) dict) action" where
  "execute_roles env wm task sessions [] w = (w, Inr [])"
| "execute_roles env wm task sessions ((role, p) # plans) w =
     (case dict_get sessions role of
        None \<Rightarrow> (w, Inl (in_quotes role))
      | Some session \<Rightarrow>
          (case execute_role env wm task role p session w of
             (w1, Inl e) \<Rightarrow> (w1, Inl e)
           | (w1, Inr x) \<Rightarrow>
               (case execute_roles env wm task sessions plans w1 of
                  (w2, Inl e) \<Rightarrow> (w2, Inl e)
                | (w2, Inr xs) \<Rightarrow> (w2, Inr ((role, x) # xs)))))"

text \<open>The squash of the branches one after the other: the receipts, or the role whose branch failed.\<close>

fun squash_roles ::
    "('w \<Rightarrow> string \<Rightarrow> string \<Rightarrow> string \<Rightarrow> ('w, bool \<times> string) action) \<Rightarrow> coding_request \<Rightarrow> (string, worktree_session) dict \<Rightarrow> 'w
       \<Rightarrow> ('w, string + (string, string) dict) action" where
  "squash_roles squash q [] w = (w, Inr (Inr []))"
| "squash_roles squash q ((role, session) # sessions) w =
     (case squash w (cq_repository q) (ws_branch session) (cq_branch q) of
        (w1, Inl e) \<Rightarrow> (w1, Inl e)
      | (w1, Inr (False, msg)) \<Rightarrow> (w1, Inr (Inl (''Squash merge failed for role '' @ in_quotes role @ '': '' @ msg)))
      | (w1, Inr (True, sha)) \<Rightarrow>
          (case squash_roles squash q sessions w1 of
             (w2, Inl e) \<Rightarrow> (w2, Inl e)
           | (w2, Inr (Inl msg)) \<Rightarrow> (w2, Inr (Inl msg))
           | (w2, Inr (Inr shas)) \<Rightarrow> (w2, Inr (Inr ((role, sha) # shas)))))"

definition cleanup_sessions :: "'w worktree_manager \<Rightarrow> (string, worktree_session) dict \<Rightarrow> 'w \<Rightarrow> 'w" where
  "cleanup_sessions wm sessions w = fold (\<lambda>session w. fst (wm_cleanup wm w session False)) (dict_values sessions) w"

text \<open>The \<open>try\<close> block, before its \<open>finally\<close>.\<close>

definition run_roles ::
    "'w pipeline \<Rightarrow> 'w worktree_manager \<Rightarrow> string \<Rightarrow> coding_request \<Rightarrow> (string, mutation_plan) dict
       \<Rightarrow> (string, worktree_session) dict \<Rightarrow> nat \<Rightarrow> 'w \<Rightarrow> ('w, concurrent_result) action" where
  "run_roles env wm task q plans sessions count w =
     (case execute_roles env wm task sessions plans w of
        (w1, Inl e) \<Rightarrow> (w1, Inl e)
      | (w1, Inr executions) \<Rightarrow>
          (case (case wm_squash wm of None \<Rightarrow> (w1, Inr (Inr [])) | Some squash \<Rightarrow> squash_roles squash q sessions w1) of
             (w2, Inl e) \<Rightarrow> (w2, Inl e)
           | (w2, Inr (Inl msg)) \<Rightarrow> (w2, Inr (Concurrent_Refused msg Isolated_Mutation executions))
           | (w2, Inr (Inr shas)) \<Rightarrow> (w2, Inr (Concurrent_Done (dict_keys plans) executions shas count))))"

definition execute_concurrent_role_pipeline ::
    "'w pipeline \<Rightarrow> 'w \<Rightarrow> string \<Rightarrow> coding_request \<Rightarrow> (string, mutation_plan) dict
       \<Rightarrow> 'w \<times> (pipeline_exception + concurrent_result)" where
  "execute_concurrent_role_pipeline env w task q plans =
     (case pp_worktrees env of
        None \<Rightarrow> (w, Inl (Pipeline_Error ''WorktreeManager is not configured on pipeline.'' Isolated_Mutation))
      | Some wm \<Rightarrow>
          (case scope_refusal plans of
             Some err \<Rightarrow> (w, Inr (Concurrent_Refused err Plan_And_Gate []))
           | None \<Rightarrow>
               (case arbitrate plans [] of
                  Inl err \<Rightarrow> (w, Inr (Concurrent_Refused err Plan_And_Gate []))
                | Inr assigned \<Rightarrow>
                    (case create_sessions wm q (dict_keys plans) w of
                       (w1, Inl e) \<Rightarrow> (w1, Inl (Value_Error e))
                     | (w1, Inr sessions) \<Rightarrow>
                         (case run_roles env wm task q plans sessions (length assigned) w1 of
                            (w2, res) \<Rightarrow>
                              (cleanup_sessions wm sessions w2,
                               (case res of Inl e \<Rightarrow> Inl (Value_Error e) | Inr x \<Rightarrow> Inr x)))))))"

end
