(* ===== verification/Committee_Words.thy ===== *)
theory Committee_Words
  imports Committee Filter_Properties
begin

text \<open>
  The search for a whole word needs the word itself as a substring. As a code equation this decides most of the
  trigger words of the committee without running the search, which keeps evaluating a committee cheap.
\<close>

lemma has_word_contains:
  assumes "has_word prompt kw"
  shows "contains_str (lower kw) (lower prompt)"
  unfolding lower_def
  by (rule search_needs [where rs = "[Boundary, lit kw, Boundary]"]) (use assms in \<open>simp_all add: has_word_def\<close>)

lemma has_word_code [code]:
  "has_word prompt kw =
     (if contains_str (lower kw) (lower prompt) then rx_search (in_order [Boundary, lit kw, Boundary]) None prompt else False)"
  using has_word_contains [of prompt kw] by (auto simp: has_word_def)

end
