(* ===== verification/Pipeline_Properties.thy ===== *)
theory Pipeline_Properties
  imports Pipeline_Runs Runtime_Properties Concurrent_Pipeline Committee_Words
begin

text \<open>
  What the coding pipeline guarantees, and the behaviours of its code that differ from what it says of
  itself: the review that is always fresh, the receipts that are not looked at again after healing, the
  status that stays blocked, the concurrent pipeline without an approval.
\<close>

section \<open>A sample pipeline\<close>

text \<open>The outside is the list of what was done to it. The \<open>k\<close>-th ladder passes as \<open>flags ! k\<close> says.\<close>

definition sample_session :: worktree_session where
  "sample_session = \<lparr>ws_session = ''s1'', ws_path = ''/tmp/wt'', ws_branch = ''feat'', ws_base = ''c0'', ws_isolated = True, ws_created = ''t''\<rparr>"

definition sample_receipt :: "bool \<Rightarrow> receipt" where
  "sample_receipt ok = \<lparr>vc_step = ''Step 1'', vc_command = ''pytest'', vc_exit = (if ok then 0 else 1),
     vc_status = (if ok then V_Pass else V_Fail), vc_stdout = [], vc_stderr = ''Error: x'', vc_duration = 1, vc_merkle = None, vc_time = ''t''\<rparr>"

definition sample_worktrees :: "string list worktree_manager" where
  "sample_worktrees = \<lparr>wm_create = (\<lambda>w repo branch base. (w @ [''create''], Inr (sample_session\<lparr>ws_branch := branch\<rparr>))),
     wm_diff = (\<lambda>w session. (w, Inr ''diff'')), wm_commit = (\<lambda>w session msg. (w @ [''commit''], Inr ''c1'')),
     wm_cleanup = (\<lambda>w session b. (w @ [''cleanup''], Inr True)), wm_multi = None, wm_squash = None\<rparr>"

definition sample_git :: "string list git_tools" where
  "sample_git = \<lparr>gt_head = (\<lambda>w dir. Some ''c1''), gt_main = (\<lambda>w dir. False), gt_is_dir = (\<lambda>w dir. True),
     gt_status = (\<lambda>w dir. Some ''?? new.py''), gt_reset = (\<lambda>w dir base. w @ [''reset'']), gt_clean = (\<lambda>w dir. w @ [''clean'']),
     gt_resolve = (\<lambda>w p. p), gt_exists = (\<lambda>w p. True)\<rparr>"

definition sample_debate_env :: "'m debate_env" where
  "sample_debate_env = \<lparr>de_mesh = None, de_memory = None, de_callback = None, de_round3 = (\<lambda>x. x), de_fmt2 = (\<lambda>x. ''0.90''),
     de_now = (\<lambda>m. ''t''), de_elapsed = (\<lambda>m n. 1)\<rparr>"

definition sample_runner :: "bool list \<Rightarrow> string list ladder_runner" where
  "sample_runner flags w dir cmds = (w @ [''ladder''],
     Inr (if cmds = [] then [] else [sample_receipt (flags ! length (filter (\<lambda>x. x = ''ladder'') w))]))"

definition sample_pipeline :: "bool list \<Rightarrow> string list pipeline" where
  "sample_pipeline flags = \<lparr>pp_workspace = ''/repo'', pp_worktrees = Some sample_worktrees,
     pp_executor = Some \<lparr>xc_execute = (\<lambda>w session plan. (w @ [''mutate''], Inr None)), xc_heal = None\<rparr>,
     pp_runner = Some (sample_runner flags), pp_publisher = None, pp_audit = None, pp_review = None, pp_debate = sample_debate_env,
     pp_recall = None, pp_git = sample_git, pp_body = (\<lambda>q plan rs d c. ''body''), pp_now = (\<lambda>w. ''t''), pp_elapsed = (\<lambda>w v. 1)\<rparr>"

definition sample_manager :: "string list manager" where
  "sample_manager = \<lparr>mg_outside = [], mg_sessions = []\<rparr>"

definition sample_request :: coding_request where
  "sample_request = (new_request ''T-1'' ''/repo'' ''add a parser'' ''feat'')\<lparr>cq_inspected := [''a.py''], cq_targets := [''src/a.py'']\<rparr>"

definition sample_plan :: mutation_plan where
  "sample_plan = \<lparr>mu_task = ''T-1'', mu_summary = ''add'', mu_targets = [''src/a.py''], mu_role = ''DOMAIN_LOGIC_AGENT'', mu_diff = [],
     mu_edge_cases = [], mu_tests = [''pytest''], mu_mutations = [], mu_approved = True, mu_token = Some ''lead-7'', mu_approved_at = None\<rparr>"

section \<open>Completed runs\<close>

lemma execute_completed:
  assumes "execute_pipeline env s (cq_task q) q plan = (s1, Inr r)" "pl_stage r = Stage_Completed"
  obtains p where "plan_submitted q plan p" "gate_passes p" "intake_ok env (after_intake env (mg_outside s) q) q"
    "completed_with env p r"
proof -
  obtain r1 where "snd (execute_pipeline env s (cq_task q) q plan) = Inr r1" "ended env s q plan r1"
    by (rule execute_outcome)
  with assms(1) have "ended env s q plan r" by simp
  with assms(2) that show ?thesis by (auto simp: ended_def stopped_def failed_with_def)
qed

text \<open>C3: A run that reaches COMPLETED has passed every gate: primary sources were inspected and exist, every
allowed role may touch the target files, the plan was approved with a token that is neither agent-like nor the
plan's own role, the role of the submitted plan may touch its targets, and the result is PASS with a draft pull
request that carries a non-empty list of receipts the ladder gave for the tests of that plan, all of them passed
unless the run was healed.\<close>

theorem pipeline_completed:
  assumes "execute_pipeline env s (cq_task q) q plan = (s1, Inr r)" "pl_stage r = Stage_Completed"
  shows "intake_ok env (after_intake env (mg_outside s) q) q \<and> mu_approved plan \<and> token_ok plan \<and> pl_status r = V_Pass \<and>
    (\<exists>p pr. plan_submitted q plan p \<and> \<not> self_approved p \<and> validate_role_scope (mu_role p) (mu_targets p) = None
       \<and> pl_plan r = Some p \<and> pl_receipts r \<noteq> [] \<and> ladder_gave env p (pl_receipts r)
       \<and> (pl_healing r = [] \<longrightarrow> list_all passed (pl_receipts r))
       \<and> pl_pr r = Some pr \<and> dr_draft pr \<and> dr_receipts pr = pl_receipts r)"
proof -
  obtain p where p: "plan_submitted q plan p" "gate_passes p" "intake_ok env (after_intake env (mg_outside s) q) q"
      "completed_with env p r"
    by (rule execute_completed [OF assms])
  then have "mu_approved plan \<and> token_ok plan"
    by (auto simp: gate_passes_def plan_submitted_def token_ok_def split: if_splits)
  with p show ?thesis
    by (auto simp: completed_with_def verified_by_def backed_by_def gate_passes_def)
qed

lemma pipeline_completed_witness:
  "\<exists>r. snd (execute_pipeline (sample_pipeline [True]) sample_manager ''T-1'' sample_request sample_plan) = Inr r
     \<and> pl_stage r = Stage_Completed \<and> mu_approved sample_plan \<and> pl_receipts r \<noteq> [] \<and> list_all passed (pl_receipts r)"
proof -
  obtain s1 res where run: "execute_pipeline (sample_pipeline [True]) sample_manager ''T-1'' sample_request sample_plan = (s1, res)"
    by fastforce
  have "snd (execute_pipeline (sample_pipeline [True]) sample_manager ''T-1'' sample_request sample_plan) \<noteq> Inl (Value_Error [])
    \<and> (case snd (execute_pipeline (sample_pipeline [True]) sample_manager ''T-1'' sample_request sample_plan) of
        Inl x \<Rightarrow> False | Inr r \<Rightarrow> pl_stage r = Stage_Completed \<and> pl_healing r = [])"
    by code_simp
  with run obtain r where r: "res = Inr r" "pl_stage r = Stage_Completed" "pl_healing r = []" by (cases res) auto
  have "cq_task sample_request = ''T-1''" by (simp add: sample_request_def new_request_def)
  with pipeline_completed [of "sample_pipeline [True]" sample_manager sample_request sample_plan s1 r] run r show ?thesis by auto
qed

text \<open>C14: With the live runner, a run that completes without healing ran every command of the submitted plan's test
strategy, in order, and each exited with code 0.\<close>

theorem pipeline_runs_strategy:
  assumes "execute_pipeline env s (cq_task q) q plan = (s1, Inr r)" "pl_stage r = Stage_Completed" "pl_healing r = []"
    and "pp_runner env = Some (live_runner run limit ms now)" "pl_plan r = Some p"
  shows "map vc_command (pl_receipts r) = mu_tests p \<and> (\<forall>c \<in> set (pl_receipts r). vc_exit c = 0)"
proof -
  obtain p1 where "completed_with env p1 r" by (rule execute_completed [OF assms(1,2)])
  moreover from this assms(5) have "p1 = p" by (simp add: completed_with_def)
  ultimately have c: "completed_with env p r" by simp
  then have v: "verified_by env p (pl_receipts r) r" by (simp add: completed_with_def)
  then have all: "list_all passed (pl_receipts r)" using assms(3) by (simp add: verified_by_def backed_by_def)
  from v have "ladder_gave env p (pl_receipts r)" by (simp add: verified_by_def backed_by_def)
  then obtain w1 dir w2 where g: "live_runner run limit ms now w1 dir (mu_tests p) = (w2, Inr (pl_receipts r))"
    unfolding ladder_gave_def assms(4) by auto
  show ?thesis using live.ladder_complete [OF g all] by simp
qed

definition live_pipeline :: "string list pipeline" where
  "live_pipeline = (sample_pipeline [])\<lparr>pp_runner := Some (live_runner (\<lambda>w dir cmd. (w @ [cmd], Exited 0 [] [])) ''60'' (\<lambda>w. 1) (\<lambda>w. ''t''))\<rparr>"

lemma pipeline_runs_strategy_witness:
  "\<exists>r. snd (execute_pipeline live_pipeline sample_manager ''T-1'' sample_request sample_plan) = Inr r
     \<and> pl_stage r = Stage_Completed \<and> map vc_command (pl_receipts r) = [''pytest'']"
proof -
  obtain s1 res where run: "execute_pipeline live_pipeline sample_manager ''T-1'' sample_request sample_plan = (s1, res)"
    by fastforce
  have "(case snd (execute_pipeline live_pipeline sample_manager ''T-1'' sample_request sample_plan) of
        Inl x \<Rightarrow> False | Inr r \<Rightarrow> pl_stage r = Stage_Completed \<and> pl_healing r = [] \<and> pl_plan r = Some sample_plan)"
    by code_simp
  with run obtain r where r: "res = Inr r" "pl_stage r = Stage_Completed" "pl_healing r = []" "pl_plan r = Some sample_plan"
    by (cases res) auto
  have "cq_task sample_request = ''T-1''" by (simp add: sample_request_def new_request_def)
  moreover have "pp_runner live_pipeline = Some (live_runner (\<lambda>w dir cmd. (w @ [cmd], Exited 0 [] [])) ''60'' (\<lambda>w. 1) (\<lambda>w. ''t''))"
    by (simp add: live_pipeline_def)
  moreover have "mu_tests sample_plan = [''pytest'']" by (simp add: sample_plan_def)
  ultimately show ?thesis
    using pipeline_runs_strategy [of live_pipeline sample_manager sample_request sample_plan s1 r _ _ _ _ sample_plan] run r by auto
qed


section \<open>Every run ends\<close>

text \<open>Running the pipeline never raises and always leaves its session at an end: stopped with BLOCKED before the
mutation, FAILED with FAIL, or COMPLETED with PASS.\<close>

theorem pipeline_ends:
  "\<exists>s1 r. execute_pipeline env s (cq_task q) q plan = (s1, Inr r) \<and> dict_get (mg_sessions s1) (cq_task q) = Some r \<and>
     (pl_status r = V_Blocked \<and> pl_stage r \<in> {Stage_Failed, Plan_And_Gate}
      \<or> pl_status r = V_Fail \<and> pl_stage r = Stage_Failed
      \<or> pl_status r = V_Pass \<and> pl_stage r = Stage_Completed)"
proof -
  obtain r where "snd (execute_pipeline env s (cq_task q) q plan) = Inr r" "ended env s q plan r"
    "dict_get (mg_sessions (fst (execute_pipeline env s (cq_task q) q plan))) (cq_task q) = Some r"
    by (rule execute_outcome)
  then show ?thesis
    by (cases "execute_pipeline env s (cq_task q) q plan")
      (auto simp: ended_def stopped_def failed_with_def completed_with_def verified_by_def)
qed

text \<open>C27: Whatever sequence of operations a manager went through, the history of every session is in order: no
entry of an active stage follows a terminal one, and the last entry is the current stage.\<close>

theorem pipeline_history:
  assumes "manager_reaches env s" "dict_get (mg_sessions s) task = Some r"
  shows "settled (stages r) \<and> (stages r \<noteq> [] \<longrightarrow> last (stages r) = pl_stage r)"
  using manager_sessions_ok [OF assms(1)] assms(2) by (auto simp: sessions_ok_def history_ok_def split: if_splits)

lemma pipeline_history_witness:
  "\<exists>r. dict_get (mg_sessions (start_pipeline (sample_pipeline []) sample_manager sample_request)) ''T-1'' = Some r
     \<and> stages r = [Intake, Precheck] \<and> settled (stages r)"
proof -
  have "manager_reaches (sample_pipeline []) (start_pipeline (sample_pipeline []) sample_manager sample_request)"
    unfolding sample_manager_def by (intro manager_reaches.intros)
  moreover have "(case dict_get (mg_sessions (start_pipeline (sample_pipeline []) sample_manager sample_request)) ''T-1'' of
      None \<Rightarrow> False | Some r \<Rightarrow> stages r = [Intake, Precheck])" by code_simp
  ultimately show ?thesis
    using pipeline_history [of "sample_pipeline []" "start_pipeline (sample_pipeline []) sample_manager sample_request" "''T-1''"]
    by (auto split: option.splits)
qed


section \<open>Nothing happens before the gate\<close>

definition with_tools ::
    "'w worktree_manager option \<Rightarrow> 'w scoped_executor option \<Rightarrow> 'w ladder_runner option
       \<Rightarrow> ('w \<Rightarrow> draft_pr \<Rightarrow> string \<Rightarrow> ('w, string) action) option \<Rightarrow> 'w pipeline \<Rightarrow> 'w pipeline" where
  "with_tools wm x run pub env = env\<lparr>pp_worktrees := wm, pp_executor := x, pp_runner := run, pp_publisher := pub\<rparr>"

lemma record_stage_tools [simp]: "record_stage (with_tools wm x run pub env) = record_stage env"
  by (intro ext) (simp add: record_stage_def audit_stage_def enter_stage_def with_tools_def)

lemma end_with_tools [simp]: "end_with (with_tools wm x run pub env) = end_with env"
  by (intro ext) (simp add: end_with_def)

lemma start_tools [simp]: "start_pipeline (with_tools wm x run pub env) = start_pipeline env"
proof -
  have "target_repository (with_tools wm x run pub env) = target_repository env"
    by (intro ext) (simp add: target_repository_def with_tools_def)
  moreover have "pp_git (with_tools wm x run pub env) = pp_git env" by (simp add: with_tools_def)
  ultimately show ?thesis by (intro ext) (simp add: start_pipeline_def intake_steps_def cong: sum.case_cong option.case_cong)
qed

lemma debate_tools [simp]: "run_committee_debate (with_tools wm x run pub env) = run_committee_debate env"
proof -
  have "pp_debate (with_tools wm x run pub env) = pp_debate env" by (simp add: with_tools_def)
  then show ?thesis by (intro ext) (simp add: run_committee_debate_def debate_steps_def)
qed

lemma submit_tools [simp]: "submit_plan (with_tools wm x run pub env) = submit_plan env"
  by (intro ext) (simp add: submit_plan_def gate_steps_def cong: sum.case_cong option.case_cong)

lemma submit_refused:
  assumes "\<not> gate_passes p" "submit_plan env s task p = (s1, Inr r)"
  shows "blocked_or_failed r"
proof (cases rule: submit_cases [of s task env p])
  case (found r0 out)
  obtain w1 r1 oc where out: "out = (w1, r1, oc)" by (cases out) auto
  have "wp (gate_steps env p) (\<lambda>out w1 r1. blocked_or_failed r1) (mg_outside s) r0"
    using assms(1)
    by (auto simp: gate_steps_def wp_simps gate_passes_def blocked_or_failed_def
        split: sum.splits option.splits dest: stop_and_wait_iff)
  moreover have g: "gate_steps env p (mg_outside s) r0 = (w1, r1, oc)" using found out by simp
  ultimately have "blocked_or_failed r1" by (rule wp_result)
  with found g assms(2) show ?thesis by (auto split: option.splits)
qed (use assms(2) in simp)

lemma run_refused_tools:
  assumes "\<not> gate_passes p"
  shows "submit_and_run (with_tools wm x run pub env) s task q p = submit_and_run env s task q p"
proof -
  obtain s1 res where sub: "submit_plan env s task p = (s1, res)" by fastforce
  show ?thesis
  proof (cases res)
    case (Inr r)
    with submit_refused [OF assms] sub have "blocked_or_failed r" by simp
    with sub Inr show ?thesis by (simp add: submit_and_run_def)
  qed (use sub in \<open>simp add: submit_and_run_def\<close>)
qed

text \<open>The plan that reaches the gate: the one given, or, in a run with a committee, the one its debate drew up with
the approval of the one given.\<close>

definition gated_plan :: "'w pipeline \<Rightarrow> 'w manager \<Rightarrow> string \<Rightarrow> coding_request \<Rightarrow> mutation_plan \<Rightarrow> mutation_plan" where
  "gated_plan env s task q plan =
     (if cq_committee q
      then (case run_committee_debate env (start_pipeline env s q) task q (Some plan) of
              (s2, Inr d) \<Rightarrow> (case dc_plan d of None \<Rightarrow> plan | Some e \<Rightarrow> with_approval plan e)
            | (s2, Inl x) \<Rightarrow> plan)
      else plan)"

text \<open>C5: Nothing is touched before the gate. Call the plan that reaches the gate the one given, or, with a committee, the
one its debate drew up with the approval and the token of the one given. When that plan is not approved, has an agent-like
token, has its own role as the token, or names targets its role may not touch, then the run is the same, to the outside
state, the sessions and the result, whatever worktree manager, executor, runner and publisher the pipeline has. With a
committee the role is that of the drawn up plan, not of the one given.\<close>

theorem pipeline_sealed:
  assumes "\<not> gate_passes (gated_plan env s task q plan)"
  shows "execute_pipeline (with_tools wm x run pub env) s task q plan = execute_pipeline env s task q plan"
proof -
  have same: "submit_and_run (with_tools wm x run pub env) s2 task q p = submit_and_run env s2 task q p"
    if "p = gated_plan env s task q plan" for s2 p
    using assms that by (intro run_refused_tools) simp
  obtain s2 res where deb: "run_committee_debate env (start_pipeline env s q) task q (Some plan) = (s2, res)" by fastforce
  show ?thesis
  proof (cases "cq_committee q")
    case False
    then have "plan = gated_plan env s task q plan" by (simp add: gated_plan_def)
    with same False show ?thesis by (simp add: execute_pipeline_def Let_def)
  next
    case True
    show ?thesis
    proof (cases res)
      case (Inr d)
      with True deb have g: "gated_plan env s task q plan = (case dc_plan d of None \<Rightarrow> plan | Some e \<Rightarrow> with_approval plan e)"
        by (simp add: gated_plan_def)
      show ?thesis
      proof (cases "dc_plan d")
        case None
        with g have "plan = gated_plan env s task q plan" by simp
        with same None True deb Inr show ?thesis by (simp add: execute_pipeline_def Let_def)
      next
        case (Some e)
        with g have "with_approval plan e = gated_plan env s task q plan" by simp
        with same Some True deb Inr show ?thesis by (simp add: execute_pipeline_def Let_def)
      qed
    qed (use True deb in \<open>simp add: execute_pipeline_def Let_def\<close>)
  qed
qed

lemma pipeline_sealed_witness:
  "execute_pipeline (sample_pipeline [True]) sample_manager ''T-1'' sample_request (sample_plan\<lparr>mu_token := Some '' Agent-3''\<rparr>)
   = execute_pipeline (with_tools None None None None (sample_pipeline [True])) sample_manager ''T-1'' sample_request
       (sample_plan\<lparr>mu_token := Some '' Agent-3''\<rparr>)"
proof -
  have "\<not> gate_passes (gated_plan (sample_pipeline [True]) sample_manager ''T-1'' sample_request (sample_plan\<lparr>mu_token := Some '' Agent-3''\<rparr>))"
    by code_simp
  from pipeline_sealed [OF this] show ?thesis by simp
qed

text \<open>With a committee the role of the plan that was given is lost before the gate looks at it: a plan approved by its
own role is completed.\<close>

definition own_token_plan :: mutation_plan where
  "own_token_plan = sample_plan\<lparr>mu_targets := [''a''], mu_role := ''BACKEND_INFRA_AGENT'', mu_token := Some ''BACKEND_INFRA_AGENT''\<rparr>"

definition small_request :: "bool \<Rightarrow> coding_request" where
  "small_request committee = (new_request ''T'' ''/r'' [] ''b'')\<lparr>cq_inspected := [''a''], cq_targets := [''a''], cq_committee := committee,
     cq_committee_roles := []\<rparr>"

lemma own_role_blocked:
  "self_approved own_token_plan"
  "case snd (execute_pipeline (sample_pipeline [True]) sample_manager ''T'' (small_request False) own_token_plan) of
     Inl x \<Rightarrow> False | Inr r \<Rightarrow> pl_status r = V_Blocked"
  by code_simp+

lemma committee_hides_own_role:
  "case snd (execute_pipeline (sample_pipeline [True]) sample_manager ''T'' (small_request True) own_token_plan) of
     Inl x \<Rightarrow> False | Inr r \<Rightarrow> pl_status r = V_Pass \<and> pl_stage r = Stage_Completed"
  by code_simp

section \<open>Healing\<close>

definition attempts :: "nat \<Rightarrow> nat \<Rightarrow> receipt list option outcome \<Rightarrow> 'w \<Rightarrow> pipeline_result \<Rightarrow> bool" where
  "attempts k n out w r \<longleftrightarrow> length (pl_healing r) \<le> k + n \<and> out \<noteq> Return
     \<and> (out = Next None \<longrightarrow> length (pl_healing r) = k + n)"

lemma attempts_simps [simp]:
  "attempts k n (Next None) w r \<longleftrightarrow> length (pl_healing r) = k + n"
  "attempts k n (Next (Some rs)) w r \<longleftrightarrow> length (pl_healing r) \<le> k + n"
  "attempts k n (Raise e) w r \<longleftrightarrow> length (pl_healing r) \<le> k + n"
  "\<not> attempts k n Return w r"
  by (auto simp: attempts_def)

lemma wp_healing_count:
  assumes "\<not> terminal (pl_stage r)" "length (pl_healing r) = k"
  shows "wp (healing_steps env run q session plan failed idx n) (attempts k n) w r"
  using assms
proof (induction n arbitrary: idx w r k)
  case 0
  then show ?case by (simp add: wp_simps)
next
  case (Suc n)
  have step: "wp (healing_steps env run q session plan failed idx1 n) (attempts k (Suc n)) w1 r1"
    if "\<not> terminal (pl_stage r1)" "length (pl_healing r1) = Suc k" for idx1 w1 r1
    by (rule wp_mono [OF Suc.IH [OF that]]) (auto simp: attempts_def)
  from Suc.prems(1) show ?case
    by (auto simp: wp_simps Suc.prems(2) step split: prod.splits sum.splits)
qed

definition bounded_healing :: "nat \<Rightarrow> coding_request \<Rightarrow> 'a outcome \<Rightarrow> 'w \<Rightarrow> pipeline_result \<Rightarrow> bool" where
  "bounded_healing k q out w r \<longleftrightarrow> length (pl_healing r) \<le> k + nat (cq_max_healing q)
    \<and> (out = Return \<and> cq_healing q \<and> 0 < cq_max_healing q \<longrightarrow>
        length (pl_healing r) = k + nat (cq_max_healing q)
        \<and> pl_stage r = Stage_Failed \<and> pl_status r = V_Fail \<and> pl_rollback r \<noteq> None)"

lemma healing_bounded_parts:
  assumes "heal_or_fail env run task q plan session rs w r = (w1, r1, out)" "\<not> terminal (pl_stage r)"
  shows "length (pl_healing r1) \<le> length (pl_healing r) + nat (cq_max_healing q)"
    and "out = Return \<Longrightarrow> cq_healing q \<Longrightarrow> 0 < cq_max_healing q \<Longrightarrow>
      length (pl_healing r1) = length (pl_healing r) + nat (cq_max_healing q)
      \<and> pl_stage r1 = Stage_Failed \<and> pl_status r1 = V_Fail \<and> pl_rollback r1 \<noteq> None"
proof -
  let ?failed = "filter (\<lambda>c. \<not> passed c) rs"
  have heal: "wp (bind_step (healing_steps env run q session plan ?failed 1 (nat (cq_max_healing q))) (\<lambda>healed.
         case healed of None \<Rightarrow> give_up env task q session ?failed | Some rs1 \<Rightarrow> next_step rs1))
       (bounded_healing (length (pl_healing r)) q) w2 r2"
    if "\<not> terminal (pl_stage r2)" "length (pl_healing r2) = length (pl_healing r)" for w2 r2
    unfolding wp_bind
    by (rule wp_mono [OF wp_healing_count [OF that]])
      (auto simp: wp_simps give_up_def Let_def bounded_healing_def split: outcome.splits option.splits prod.splits)
  have "wp (heal_or_fail env run task q plan session rs) (bounded_healing (length (pl_healing r)) q) w r"
    unfolding heal_or_fail_def Let_def wp_if wp_bind [of "record_stage _ _ _"] wp_record
    by (auto simp: wp_next wp_end_with assms(2) bounded_healing_def [of _ _ "Next _"] bounded_healing_def [of _ _ Return] heal)
  from wp_result [OF this assms(1)]
  show "length (pl_healing r1) \<le> length (pl_healing r) + nat (cq_max_healing q)"
    "out = Return \<Longrightarrow> cq_healing q \<Longrightarrow> 0 < cq_max_healing q \<Longrightarrow>
      length (pl_healing r1) = length (pl_healing r) + nat (cq_max_healing q)
      \<and> pl_stage r1 = Stage_Failed \<and> pl_status r1 = V_Fail \<and> pl_rollback r1 \<noteq> None"
    by (auto simp: bounded_healing_def)
qed

text \<open>C28: Self-healing is bounded: a failed ladder is retried at most \<open>max_healing_attempts\<close> times, and when the
pipeline gives up without an exception it has used exactly that many attempts, is FAILED with FAIL, and carries the
receipt of a rollback.\<close>

theorem healing_bounded:
  assumes "heal_or_fail env run task q plan session rs w r = (w1, r1, out)" "\<not> terminal (pl_stage r)"
  shows "length (pl_healing r1) \<le> length (pl_healing r) + nat (cq_max_healing q)
    \<and> (out = Return \<and> cq_healing q \<and> 0 < cq_max_healing q \<longrightarrow>
      length (pl_healing r1) = length (pl_healing r) + nat (cq_max_healing q)
      \<and> pl_stage r1 = Stage_Failed \<and> pl_status r1 = V_Fail \<and> pl_rollback r1 \<noteq> None)"
  using healing_bounded_parts [OF assms] by blast

lemma healing_bounded_witness:
  "\<exists>w1 r1. heal_or_fail (sample_pipeline [False, False, False]) (sample_runner [False, False, False]) ''T-1'' sample_request sample_plan
      sample_session [sample_receipt False] [] (new_result ''T-1'') = (w1, r1, Return)
     \<and> length (pl_healing r1) = 2 \<and> pl_rollback r1 \<noteq> None"
proof -
  obtain w1 r1 out where run: "heal_or_fail (sample_pipeline [False, False, False]) (sample_runner [False, False, False]) ''T-1''
      sample_request sample_plan sample_session [sample_receipt False] [] (new_result ''T-1'') = (w1, r1, out)"
    by (metis prod.exhaust)
  have "(case heal_or_fail (sample_pipeline [False, False, False]) (sample_runner [False, False, False]) ''T-1''
      sample_request sample_plan sample_session [sample_receipt False] [] (new_result ''T-1'') of (w1, r1, out) \<Rightarrow>
      (case out of Return \<Rightarrow> True | _ \<Rightarrow> False))" by code_simp
  with run have out: "out = Return" by (cases out) auto
  have q: "cq_healing sample_request" "cq_max_healing sample_request = 2" "pl_healing (new_result ''T-1'') = []"
    by (simp_all add: sample_request_def new_request_def new_result_def)
  from healing_bounded [OF run] out q run show ?thesis by auto
qed

lemma sample_flaky:
  "(case snd (execute_pipeline (sample_pipeline [False, True, False]) sample_manager ''T-1'' sample_request sample_plan) of
     Inl x \<Rightarrow> False | Inr r \<Rightarrow> pl_stage r = Stage_Completed \<and> pl_status r = V_Pass \<and> map (\<lambda>c. (vc_exit c, vc_status c)) (pl_receipts r) = [(1, V_Fail)])"
  by code_simp

text \<open>After a healing attempt that passed, the ladder is run once more and its receipts are kept without being
looked at: there are runs that end COMPLETED with PASS although the receipts of their result, and of their draft
pull request, have a failed step.\<close>

theorem healed_receipts_unchecked:
  "\<exists>env s q plan r. snd (execute_pipeline (env :: string list pipeline) s (cq_task q) q plan) = Inr r
     \<and> pl_stage r = Stage_Completed \<and> pl_status r = V_Pass \<and> \<not> list_all passed (pl_receipts r)"
proof -
  obtain s1 r where run: "execute_pipeline (sample_pipeline [False, True, False]) sample_manager ''T-1'' sample_request sample_plan = (s1, r)"
    by fastforce
  with sample_flaky obtain r1 where r1: "r = Inr r1" "pl_stage r1 = Stage_Completed" "pl_status r1 = V_Pass"
    "map (\<lambda>c. (vc_exit c, vc_status c)) (pl_receipts r1) = [(1, V_Fail)]"
    by (cases r) auto
  have q: "cq_task sample_request = ''T-1''" by (simp add: sample_request_def new_request_def)
  from r1(4) have "\<not> list_all passed (pl_receipts r1)" by (auto simp: passed_def)
  with run r1 q show ?thesis
    by (intro exI [of _ "sample_pipeline [False, True, False]"] exI [of _ sample_manager] exI [of _ sample_request]
        exI [of _ sample_plan] exI [of _ r1]) simp
qed

lemma rollback_guard_parts:
  assumes "dir = gt_resolve (pp_git env) w (ws_path session)"
  shows "primary_repository (pp_git env) w dir \<Longrightarrow>
      fst (execute_auto_rollback env w task session False) = w \<and> \<not> rb_clean (snd (execute_auto_rollback env w task session False))"
    and "gt_is_dir (pp_git env) w dir \<Longrightarrow> contains_str ''temp'' (lower dir) \<Longrightarrow>
      fst (execute_auto_rollback env w task session False) = gt_clean (pp_git env) (gt_reset (pp_git env) w dir (ws_base session)) dir
      \<and> rb_clean (snd (execute_auto_rollback env w task session False))"
  using assms by (auto simp: execute_auto_rollback_def Let_def primary_repository_def split: option.split)

text \<open>The rollback never changes a directory that holds a main repository unless its path contains
\<open>worktrees\<close>, \<open>tmp\<close> or \<open>temp\<close>; any other existing directory is reset to the base commit and cleaned, a main repository
under a path like \<open>/home/dev/templates\<close> included.\<close>

theorem rollback_guard:
  assumes "dir = gt_resolve (pp_git env) w (ws_path session)"
  shows "(primary_repository (pp_git env) w dir \<longrightarrow>
      fst (execute_auto_rollback env w task session False) = w \<and> \<not> rb_clean (snd (execute_auto_rollback env w task session False)))
    \<and> (gt_is_dir (pp_git env) w dir \<and> contains_str ''temp'' (lower dir) \<longrightarrow>
      fst (execute_auto_rollback env w task session False) = gt_clean (pp_git env) (gt_reset (pp_git env) w dir (ws_base session)) dir
      \<and> rb_clean (snd (execute_auto_rollback env w task session False)))"
  using rollback_guard_parts [OF assms] by blast

lemma rollback_guard_witness:
  "fst (execute_auto_rollback ((sample_pipeline [])\<lparr>pp_git := sample_git\<lparr>gt_main := \<lambda>w dir. True\<rparr>\<rparr>) [] ''T-1''
      (sample_session\<lparr>ws_path := ''/home/dev/templates''\<rparr>) False) = [''reset'', ''clean'']"
proof -
  let ?env = "(sample_pipeline [])\<lparr>pp_git := sample_git\<lparr>gt_main := \<lambda>w dir. True\<rparr>\<rparr>"
  have "contains_str ''temp'' (lower ''/home/dev/templates'')" by code_simp
  with rollback_guard [of "''/home/dev/templates''" ?env "[]" "sample_session\<lparr>ws_path := ''/home/dev/templates''\<rparr>" "''T-1''"]
  show ?thesis by (simp add: sample_git_def)
qed


section \<open>Review and resubmission\<close>

text \<open>With the default verifier the independent review compares the head of the worktree with itself: whatever
git answers, the review is recorded as fresh and approved, and never stops a run.\<close>

theorem review_always_fresh:
  assumes "pp_review env = None" "\<not> terminal (pl_stage r)"
  shows "\<exists>w1 r1. review_steps env session w r = (w1, r1, Next ()) \<and> pl_stage r1 = Independent_Review
    \<and> (\<exists>rw. pl_review r1 = Some rw \<and> rw_fresh rw \<and> rw_status rw = ''APPROVED'')"
proof -
  obtain w1 r1 out where f: "review_steps env session w r = (w1, r1, out)" by (metis prod.exhaust)
  have "wp (review_steps env session) (\<lambda>out w1 r1. out = Next () \<and> pl_stage r1 = Independent_Review
      \<and> (\<exists>rw. pl_review r1 = Some rw \<and> rw_fresh rw \<and> rw_status rw = ''APPROVED'')) w r"
    using assms by (simp add: review_steps_def wp_simps verify_review_freshness_def)
  from wp_result [OF this f] f show ?thesis by auto
qed

lemma review_always_fresh_witness:
  "\<exists>w1 r1. review_steps ((sample_pipeline [])\<lparr>pp_git := sample_git\<lparr>gt_head := \<lambda>w dir. Some ''not the reviewed commit''\<rparr>\<rparr>) sample_session []
      (new_result ''T-1'') = (w1, r1, Next ()) \<and> pl_stage r1 = Independent_Review"
  using review_always_fresh [of "(sample_pipeline [])\<lparr>pp_git := sample_git\<lparr>gt_head := \<lambda>w dir. Some ''not the reviewed commit''\<rparr>\<rparr>"
      "new_result ''T-1''" sample_session "[]"]
  by (auto simp: sample_pipeline_def)

text \<open>A session that the gate blocked keeps the status BLOCKED and its message when an approved plan is submitted
afterwards, although its stage and history say that the plan was approved.\<close>

theorem resubmission_stays_blocked:
  assumes "dict_get (mg_sessions s) task = Some r" "\<not> terminal (pl_stage r)" "pl_status r = V_Blocked" "gate_passes p"
  shows "\<exists>s1 r1. submit_plan env s task p = (s1, Inr r1) \<and> pl_stage r1 = Plan_And_Gate \<and> pl_plan r1 = Some p \<and> pl_status r1 = V_Blocked"
proof -
  obtain r1 where "submit_plan env s task p = (put_session s task (gate_steps env p (mg_outside s) r), Inr r1)"
    "if gate_passes p then pl_stage r1 = Plan_And_Gate \<and> pl_plan r1 = Some p \<and> pl_status r1 = pl_status r else stopped r1"
    by (rule submit_outcome [OF assms(1,2), of env p])
  with assms(3,4) show ?thesis by simp
qed

lemma resubmission_stays_blocked_witness:
  "\<exists>s1 r1. submit_plan (sample_pipeline []) \<lparr>mg_outside = [], mg_sessions = [(''T-1'', (new_result ''T-1'')\<lparr>pl_status := V_Blocked\<rparr>)]\<rparr>
      ''T-1'' sample_plan = (s1, Inr r1) \<and> pl_status r1 = V_Blocked"
proof -
  have "gate_passes sample_plan" by code_simp
  then show ?thesis
    using resubmission_stays_blocked [of "\<lparr>mg_outside = [], mg_sessions = [(''T-1'', (new_result ''T-1'')\<lparr>pl_status := V_Blocked\<rparr>)]\<rparr>"
        "''T-1''" "(new_result ''T-1'')\<lparr>pl_status := V_Blocked\<rparr>" sample_plan "sample_pipeline []"]
    by (auto simp: dict_get_def)
qed

end
