(* ===== verification/Committee_Properties.thy ===== *)
theory Committee_Properties
  imports Pipeline_Properties
begin

text \<open>
  What the committee decides: who sits on it, that its score card and turns are within the bounds of their
  types, when it rejects a task, and what is left of the plan it was given.
\<close>

section \<open>Formation\<close>

lemma add_explicit_roles:
  "distinct (map cz_role ms) \<Longrightarrow>
     distinct (map cz_role (add_explicit ms roles)) \<and> set (map cz_role (add_explicit ms roles)) = set (map cz_role ms) \<union> set roles
     \<and> set ms \<subseteq> set (add_explicit ms roles)"
proof (induction ms roles rule: add_explicit.induct)
  case (2 ms role roles)
  then show ?case by (auto simp: member_def)
qed simp

lemma triggered_roles:
  "distinct (map cz_role (triggered_members q))"
  "set (map cz_role (triggered_members q)) =
     {''qaengineer''} \<union> (if is_security_critical q then {''securityauditor''} else {})
     \<union> (if is_architecture_critical q then {''architect''} else {}) \<union> (if is_frontend_critical q then {''frontenddev''} else {})"
  by (auto simp: triggered_members_def member_def)

lemma committee_roles_eq:
  "set (map cz_role (fo_members (evaluate_committee q))) = set (map cz_role (triggered_members q)) \<union> set (explicit_roles q)"
  using add_explicit_roles [OF triggered_roles(1)] by (simp add: evaluate_committee_def)

text \<open>A committee has no role twice, always has the QA engineer, has the security auditor and the architect as
mandatory members whenever the task touches their domain, and every role the request names; its risk is CRITICAL
exactly when both domains are touched.\<close>

theorem committee_composition:
  "distinct (map cz_role (fo_members (evaluate_committee q)))"
  "''qaengineer'' \<in> set (map cz_role (fo_members (evaluate_committee q)))"
  "is_security_critical q \<Longrightarrow> \<exists>m \<in> set (fo_members (evaluate_committee q)). cz_role m = ''securityauditor'' \<and> cz_mandatory m"
  "is_architecture_critical q \<Longrightarrow> \<exists>m \<in> set (fo_members (evaluate_committee q)). cz_role m = ''architect'' \<and> cz_mandatory m"
  "set (explicit_roles q) \<subseteq> set (map cz_role (fo_members (evaluate_committee q)))"
  "fo_risk (evaluate_committee q) = ''CRITICAL'' \<longleftrightarrow> is_security_critical q \<and> is_architecture_critical q"
proof -
  have members: "fo_members (evaluate_committee q) = add_explicit (triggered_members q) (explicit_roles q)"
    by (simp add: evaluate_committee_def)
  note ex = add_explicit_roles [OF triggered_roles(1), of q "explicit_roles q"]
  show "distinct (map cz_role (fo_members (evaluate_committee q)))" using ex by (simp add: members)
  show "''qaengineer'' \<in> set (map cz_role (fo_members (evaluate_committee q)))"
    unfolding committee_roles_eq triggered_roles(2) by simp
  show "set (explicit_roles q) \<subseteq> set (map cz_role (fo_members (evaluate_committee q)))"
    unfolding committee_roles_eq by blast
  show "\<exists>m \<in> set (fo_members (evaluate_committee q)). cz_role m = ''securityauditor'' \<and> cz_mandatory m" if "is_security_critical q"
  proof -
    have "\<exists>m \<in> set (triggered_members q). cz_role m = ''securityauditor'' \<and> cz_mandatory m"
      using that by (simp add: triggered_members_def member_def)
    with ex show ?thesis unfolding members by blast
  qed
  show "\<exists>m \<in> set (fo_members (evaluate_committee q)). cz_role m = ''architect'' \<and> cz_mandatory m" if "is_architecture_critical q"
  proof -
    have "\<exists>m \<in> set (triggered_members q). cz_role m = ''architect'' \<and> cz_mandatory m"
      using that by (simp add: triggered_members_def member_def)
    with ex show ?thesis unfolding members by blast
  qed
  show "fo_risk (evaluate_committee q) = ''CRITICAL'' \<longleftrightarrow> is_security_critical q \<and> is_architecture_critical q"
    by (simp add: evaluate_committee_def risk_level_def)
qed


section \<open>Scores\<close>

lemma lower_names [simp]:
  "lower ''securityauditor'' = ''securityauditor''" "lower ''architect'' = ''architect''" "lower ''qaengineer'' = ''qaengineer''"
  by code_simp+

definition speech_impact :: "speech \<Rightarrow> rat" where
  "speech_impact sp = fst (snd (snd sp))"

definition speech_tokens :: "speech \<Rightarrow> int" where
  "speech_tokens sp = snd (snd (snd (snd sp)))"

lemma member_speech_or:
  "snd (member_speech env m role q ps) = own_speech role q ps
   \<or> \<not> has_red_flag q \<and> (\<exists>p. snd (member_speech env m role q ps) = mesh_speech role p)"
  by (auto simp: member_speech_def split: option.split prod.split)

lemma member_speech_cases:
  obtains (own) "snd (member_speech env m role q ps) = own_speech role q ps"
    | (mesh) p where "snd (member_speech env m role q ps) = mesh_speech role p" "\<not> has_red_flag q"
  using member_speech_or [of env m role q ps] by blast

lemma impact_bounds: "- 45 / 100 \<le> speech_impact (snd (member_speech env m role q ps)) \<and> speech_impact (snd (member_speech env m role q ps)) \<le> 0"
  by (cases rule: member_speech_cases [of env m role q ps])
    (auto simp: own_speech_def Let_def auditor_speech_def architect_speech_def qa_speech_def frontend_speech_def other_speech_def
      mesh_speech_def speech_impact_def)

lemma tokens_nonneg: "0 \<le> speech_tokens (snd (member_speech env m role q ps))"
  by (cases rule: member_speech_cases [of env m role q ps])
    (auto simp: own_speech_def Let_def auditor_speech_def architect_speech_def qa_speech_def frontend_speech_def other_speech_def
      mesh_speech_def speech_tokens_def)

lemma auditor_impact:
  "speech_impact (snd (member_speech env m ''securityauditor'' q ps)) = (if has_red_flag q then - 45 / 100 else 0)"
  by (cases rule: member_speech_cases [of env m "''securityauditor''" q ps])
    (simp_all add: own_speech_def auditor_speech_def mesh_speech_def speech_impact_def)

lemma generated_turn:
  assumes "generate_member_turn env m role r_idx t_idx q ps = (m1, t)"
  shows "sx_impact t = speech_impact (snd (member_speech env m role q ps))"
    "sx_tokens t = speech_tokens (snd (member_speech env m role q ps))" "sx_round t = r_idx" "sx_turn t = t_idx"
  using assms by (auto simp: generate_member_turn_def speech_impact_def speech_tokens_def split: prod.splits)

lemma auditor_score:
  assumes "generate_member_turn env m ''securityauditor'' r_idx t_idx q ps = (m1, t)"
  shows "turn_score t = (if has_red_flag q then 55 / 100 else 1)"
  by (simp add: turn_score_def generated_turn [OF assms] auditor_impact)

lemma turn_score_bounds: "0 \<le> turn_score t \<and> turn_score t \<le> 1"
  by (simp add: turn_score_def)

definition auditors :: "committee_member list \<Rightarrow> nat" where
  "auditors zs = length (filter (\<lambda>z. cz_role z = ''securityauditor'') zs)"

definition audit_mark :: "coding_request \<Rightarrow> rat" where
  "audit_mark q = (if has_red_flag q then 55 / 100 else 1)"

definition unit_scores :: "tally \<Rightarrow> bool" where
  "unit_scores a \<longleftrightarrow> (\<forall>x \<in> set (ty_arch a @ ty_sec a @ ty_qa a). 0 \<le> x \<and> x \<le> 1)"

lemma run_turns_facts:
  assumes "run_turns env q ps r_idx t_idx m a zs = (m1, a1, ts)"
  shows "ty_sec a1 = ty_sec a @ replicate (auditors zs) (audit_mark q)"
    and "unit_scores a \<Longrightarrow> unit_scores a1"
    and "1 \<le> r_idx \<Longrightarrow> 1 \<le> t_idx \<Longrightarrow> \<forall>t \<in> set ts. turn_ok t"
proof -
  have "ty_sec a1 = ty_sec a @ replicate (auditors zs) (audit_mark q) \<and> (unit_scores a \<longrightarrow> unit_scores a1)
     \<and> (1 \<le> r_idx \<longrightarrow> 1 \<le> t_idx \<longrightarrow> (\<forall>t \<in> set ts. turn_ok t))"
    using assms
  proof (induction zs arbitrary: t_idx m a m1 a1 ts)
    case (Cons z zs)
    obtain m2 t where g: "generate_member_turn env m (cz_role z) r_idx t_idx q ps = (m2, t)" by fastforce
    let ?a = "count_turn (cz_role z) r_idx t a"
    obtain m3 a3 ts3 where r: "run_turns env q ps r_idx (t_idx + 1) (after_turn env q (cz_role z) r_idx t m2) ?a zs = (m3, a3, ts3)"
      by (metis prod.exhaust)
    from Cons.prems g r have eq: "m1 = m3" "a1 = a3" "ts = t # ts3" by simp_all
    have "ty_sec ?a = ty_sec a @ (if cz_role z = ''securityauditor'' then [audit_mark q] else [])"
    proof (cases "cz_role z = ''securityauditor''")
      case True
      with auditor_score [of env m r_idx t_idx q ps m2 t] g have "turn_score t = audit_mark q" by (simp add: audit_mark_def)
      with True show ?thesis by (simp add: count_turn_def)
    qed (simp add: count_turn_def)
    moreover have "unit_scores a \<Longrightarrow> unit_scores ?a"
      using turn_score_bounds [of t] by (auto simp: unit_scores_def count_turn_def)
    moreover have "1 \<le> r_idx \<Longrightarrow> 1 \<le> t_idx \<Longrightarrow> turn_ok t"
      by (simp add: turn_ok_def generated_turn [OF g] tokens_nonneg)
    ultimately show ?case
      using Cons.IH [OF r] by (auto simp: eq auditors_def)
  qed (simp add: auditors_def)
  then show "ty_sec a1 = ty_sec a @ replicate (auditors zs) (audit_mark q)" "unit_scores a \<Longrightarrow> unit_scores a1"
    "1 \<le> r_idx \<Longrightarrow> 1 \<le> t_idx \<Longrightarrow> \<forall>t \<in> set ts. turn_ok t" by auto
qed

lemma run_rounds_facts:
  assumes "run_rounds env q ps zs r_idx n m a = (m1, a1, rs)"
  shows "ty_sec a1 = ty_sec a @ replicate (n * auditors zs) (audit_mark q)"
    and "unit_scores a \<Longrightarrow> unit_scores a1"
    and "1 \<le> r_idx \<Longrightarrow> \<forall>t \<in> set (concat (map rd_turns rs)). turn_ok t"
    and "length rs = n"
proof -
  have "ty_sec a1 = ty_sec a @ replicate (n * auditors zs) (audit_mark q) \<and> (unit_scores a \<longrightarrow> unit_scores a1)
     \<and> (1 \<le> r_idx \<longrightarrow> (\<forall>t \<in> set (concat (map rd_turns rs)). turn_ok t)) \<and> length rs = n"
    using assms
  proof (induction n arbitrary: r_idx m a m1 a1 rs)
    case (Suc n)
    obtain m2 a2 ts where t: "run_turns env q ps r_idx 1 m a zs = (m2, a2, ts)" by (metis prod.exhaust)
    obtain m3 a3 rs3 where r: "run_rounds env q ps zs (r_idx + 1) n m2 a2 = (m3, a3, rs3)" by (metis prod.exhaust)
    from Suc.prems t r
    have eq: "a1 = a3" "rs = \<lparr>rd_index = r_idx, rd_turns = ts, rd_summary = round_summary r_idx (length ts)\<rparr> # rs3" by simp_all
    show ?case
      using Suc.IH [OF r] run_turns_facts [OF t] by (auto simp: eq replicate_add)
  qed simp
  then show "ty_sec a1 = ty_sec a @ replicate (n * auditors zs) (audit_mark q)" "unit_scores a \<Longrightarrow> unit_scores a1"
    "1 \<le> r_idx \<Longrightarrow> \<forall>t \<in> set (concat (map rd_turns rs)). turn_ok t" "length rs = n" by auto
qed

lemma average_replicate: "average (replicate n x) y = (if n = 0 then y else x)"
  by (simp add: average_def sum_list_replicate)

lemma average_unit: "\<forall>x \<in> set xs. 0 \<le> x \<and> x \<le> 1 \<Longrightarrow> 0 \<le> y \<Longrightarrow> y \<le> 1 \<Longrightarrow> 0 \<le> average xs y \<and> average xs y \<le> 1"
proof (cases "xs = []")
  case False
  assume xs: "\<forall>x \<in> set xs. 0 \<le> x \<and> x \<le> 1"
  then have "0 \<le> sum_list xs" "sum_list xs \<le> of_nat (length xs)"
    by (induction xs) auto
  with False show ?thesis by (simp add: average_def divide_le_eq)
qed (simp add: average_def)

lemma debate_parts:
  obtains w1 ps w2 a rounds where "run_rounds env q ps (fo_members form) 1 (debate_rounds q) w1 empty_tally = (w2, a, rounds)"
    "dc_card (snd (run_debate env w q form draft)) = make_scorecard (de_round3 env) a rounds"
    "dc_rounds (snd (run_debate env w q form draft)) = rounds"
proof -
  obtain w1 ps where s: "(case de_memory env of None \<Rightarrow> (w, []) | Some mem \<Rightarrow> mm_search mem w (cq_prompt q)) = (w1, ps)" by fastforce
  obtain w2 a rounds where r: "run_rounds env q ps (fo_members form) 1 (debate_rounds q) w1 empty_tally = (w2, a, rounds)"
    by (metis prod.exhaust)
  show ?thesis
    by (rule that [OF r]) (simp_all add: run_debate_def s r Let_def split: prod.splits)
qed


text \<open>What the rounding of the scores to three decimals keeps.\<close>

definition rounds3 :: "(rat \<Rightarrow> rat) \<Rightarrow> bool" where
  "rounds3 f \<longleftrightarrow> (\<forall>x. \<bar>f x - x\<bar> \<le> 1 / 2000) \<and> (\<forall>x. 0 \<le> x \<and> x \<le> 1 \<longrightarrow> 0 \<le> f x \<and> f x \<le> 1)"

lemma rounds3_id: "rounds3 (\<lambda>x. x)"
  by (simp add: rounds3_def)

lemma debate_well_typed_parts:
  assumes "rounds3 (de_round3 env)"
  shows "scorecard_ok (dc_card (snd (run_debate env w q form draft)))"
    and "\<forall>t \<in> set (concat (map rd_turns (dc_rounds (snd (run_debate env w q form draft))))). turn_ok t"
    and "length (dc_rounds (snd (run_debate env w q form draft))) = debate_rounds q"
proof -
  obtain w1 ps w2 a rounds where d: "run_rounds env q ps (fo_members form) 1 (debate_rounds q) w1 empty_tally = (w2, a, rounds)"
    "dc_card (snd (run_debate env w q form draft)) = make_scorecard (de_round3 env) a rounds"
    "dc_rounds (snd (run_debate env w q form draft)) = rounds"
    by (rule debate_parts)
  note facts = run_rounds_facts [OF d(1)]
  have turns: "\<forall>t \<in> set (concat (map rd_turns rounds)). turn_ok t" using facts(3) by simp
  then have tokens: "0 \<le> sum_list (map sx_tokens (concat (map rd_turns rounds)))"
    by (intro sum_list_nonneg) (auto simp: turn_ok_def)
  have "unit_scores a" using facts(2) by (simp add: unit_scores_def empty_tally_def)
  then have u: "0 \<le> average (ty_arch a) (90 / 100)" "average (ty_arch a) (90 / 100) \<le> 1"
    "0 \<le> average (ty_sec a) (95 / 100)" "average (ty_sec a) (95 / 100) \<le> 1"
    "0 \<le> average (ty_qa a) (90 / 100)" "average (ty_qa a) (90 / 100) \<le> 1"
    using average_unit [of "ty_arch a" "90 / 100"] average_unit [of "ty_sec a" "95 / 100"] average_unit [of "ty_qa a" "90 / 100"]
    by (auto simp: unit_scores_def)
  have c: "0 \<le> 35 / 100 * average (ty_arch a) (90 / 100) + 40 / 100 * average (ty_sec a) (95 / 100) + 25 / 100 * average (ty_qa a) (90 / 100)"
    "35 / 100 * average (ty_arch a) (90 / 100) + 40 / 100 * average (ty_sec a) (95 / 100) + 25 / 100 * average (ty_qa a) (90 / 100) \<le> 1"
    using u by linarith+
  have r: "0 \<le> de_round3 env x \<and> de_round3 env x \<le> 1" if "0 \<le> x" "x \<le> 1" for x
    using assms that by (simp add: rounds3_def)
  show "scorecard_ok (dc_card (snd (run_debate env w q form draft)))"
    unfolding d(2) scorecard_ok_def make_scorecard_def Let_def
    using r [OF u(1,2)] r [OF u(3,4)] r [OF u(5,6)] r [OF c] tokens by simp
  show "\<forall>t \<in> set (concat (map rd_turns (dc_rounds (snd (run_debate env w q form draft))))). turn_ok t"
    unfolding d(3) by (rule turns)
  show "length (dc_rounds (snd (run_debate env w q form draft))) = debate_rounds q"
    unfolding d(3) by (rule facts(4))
qed

text \<open>Every debate fills its types: the scores of the card lie between 0 and 1 and its reasoning tokens are not
negative, every turn has round and turn indices from 1 on, and there are as many rounds as were asked for.\<close>

theorem debate_well_typed:
  assumes "rounds3 (de_round3 env)"
  shows "scorecard_ok (dc_card (snd (run_debate env w q form draft)))
    \<and> (\<forall>t \<in> set (concat (map rd_turns (dc_rounds (snd (run_debate env w q form draft))))). turn_ok t)
    \<and> length (dc_rounds (snd (run_debate env w q form draft))) = debate_rounds q"
  by (intro conjI debate_well_typed_parts assms)

lemma debate_well_typed_witness:
  "scorecard_ok (dc_card (snd (run_debate sample_debate_env (0 :: nat) sample_request (evaluate_committee sample_request) None)))"
  by (rule debate_well_typed [THEN conjunct1]) (simp add: sample_debate_env_def rounds3_id)


section \<open>Rejection\<close>

lemma auditors_0: "auditors zs = 0 \<longleftrightarrow> ''securityauditor'' \<notin> set (map cz_role zs)"
  unfolding auditors_def set_map image_iff length_0_conv filter_empty_conv by metis

lemma debate_security:
  "sc_security (dc_card (snd (run_debate env w q form draft))) =
     de_round3 env (if debate_rounds q = 0 \<or> ''securityauditor'' \<notin> set (map cz_role (fo_members form)) then 95 / 100 else audit_mark q)"
proof -
  obtain w1 ps w2 a rounds where d: "run_rounds env q ps (fo_members form) 1 (debate_rounds q) w1 empty_tally = (w2, a, rounds)"
    "dc_card (snd (run_debate env w q form draft)) = make_scorecard (de_round3 env) a rounds"
    by (rule debate_parts)
  have "ty_sec a = replicate (debate_rounds q * auditors (fo_members form)) (audit_mark q)"
    using run_rounds_facts(1) [OF d(1)] by (simp add: empty_tally_def)
  then show ?thesis
    by (simp add: d(2) make_scorecard_def Let_def average_replicate auditors_0)
qed

definition auditor_sits :: "coding_request \<Rightarrow> bool" where
  "auditor_sits q \<longleftrightarrow> is_security_critical q \<or> ''securityauditor'' \<in> set (explicit_roles q)"

lemma auditor_sits_iff: "''securityauditor'' \<in> set (map cz_role (fo_members (evaluate_committee q))) \<longleftrightarrow> auditor_sits q"
  unfolding committee_roles_eq triggered_roles(2) auditor_sits_def by auto

lemma rejection_iff:
  assumes "rounds3 (de_round3 env)" "0 < cq_rounds q"
  shows "sc_security (dc_card (snd (run_debate env w q (evaluate_committee q) draft))) < 70 / 100 \<longleftrightarrow> has_red_flag q \<and> auditor_sits q"
proof -
  have close: "\<bar>de_round3 env x - x\<bar> \<le> 1 / 2000" for x
    using assms(1) by (simp add: rounds3_def)
  have "debate_rounds q \<noteq> 0" using assms(2) by (simp add: debate_rounds_def)
  moreover have "\<not> de_round3 env (95 / 100) < 70 / 100" using close [of "95 / 100"] by linarith
  moreover have "de_round3 env (55 / 100) < 70 / 100" using close [of "55 / 100"] by linarith
  moreover have "\<not> de_round3 env 1 < 70 / 100" using close [of 1] by linarith
  ultimately show ?thesis
    unfolding debate_security auditor_sits_iff audit_mark_def
    by (cases "has_red_flag q"; cases "auditor_sits q") (simp_all del: divide_less_eq_numeral1)
qed

text \<open>C32: The committee objects on security grounds exactly when the requirement has one of the red-flag phrases and
the security auditor sits on the committee, which is when the task touches a security domain or the request names
the auditor, however many rounds, precedents or mesh peers there are.\<close>

theorem committee_rejects_iff:
  assumes "rounds3 (de_round3 env)" "0 < cq_rounds q"
  shows "sc_security (dc_card (snd (run_debate env w q (evaluate_committee q) draft))) < 70 / 100 \<longleftrightarrow> has_red_flag q \<and> auditor_sits q"
  by (rule rejection_iff [OF assms])

definition flagged_request :: coding_request where
  "flagged_request = sample_request\<lparr>cq_prompt := ''run eval( on the input'', cq_committee := True\<rparr>"

lemma flagged_request_flag: "has_red_flag flagged_request"
  by code_simp

lemma committee_rejects_iff_witness:
  "sc_security (dc_card (snd (run_debate sample_debate_env (0 :: nat) flagged_request (evaluate_committee flagged_request) None))) < 70 / 100"
proof -
  have "auditor_sits flagged_request" unfolding auditor_sits_def by code_simp
  with flagged_request_flag committee_rejects_iff [of sample_debate_env flagged_request 0 None]
  show ?thesis by (simp add: sample_debate_env_def rounds3_id flagged_request_def sample_request_def new_request_def)
qed

text \<open>A red-flag phrase alone does not convene the security auditor: there are requests with one, such as an
\<open>eval(\<close> in the requirement and no named roles, which the committee approves on security grounds.\<close>

theorem red_flag_unheard:
  "\<exists>q. has_red_flag q \<and> cq_committee q \<and>
     (\<forall>env (w :: nat) draft. rounds3 (de_round3 env) \<longrightarrow> \<not> sc_security (dc_card (snd (run_debate env w q (evaluate_committee q) draft))) < 70 / 100)"
proof -
  let ?q = "flagged_request\<lparr>cq_committee_roles := []\<rparr>"
  have q: "has_red_flag ?q" "\<not> auditor_sits ?q" unfolding auditor_sits_def by code_simp+
  have r: "0 < cq_rounds ?q" "cq_committee ?q"
    by (simp_all add: flagged_request_def sample_request_def new_request_def)
  show ?thesis
  proof (intro exI [of _ ?q] conjI allI impI)
    fix env :: "nat debate_env" and w :: nat and draft
    assume "rounds3 (de_round3 env)"
    from rejection_iff [OF this r(1)] q(2)
    show "\<not> sc_security (dc_card (snd (run_debate env w ?q (evaluate_committee ?q) draft))) < 70 / 100" by blast
  qed (use q r in simp_all)
qed

end
