(* ===== verification/Concurrent_Properties.thy ===== *)
theory Concurrent_Properties
  imports Pipeline_Properties
begin

text \<open>
  What the concurrent pipeline of several roles guarantees, and what reaches its executor and the executor
  of a run with a committee.
\<close>

section \<open>Arbitration\<close>

lemma claim_files_ok:
  assumes "claim_files role fs assigned = Inr a"
  shows "distinct fs \<and> set fs \<inter> fst ` set assigned = {} \<and> fst ` set a = fst ` set assigned \<union> set fs
    \<and> length a = length assigned + length fs"
  using assms
proof (induction role fs assigned rule: claim_files.induct)
  case (2 role f fs assigned)
  then have none: "dict_get assigned f = None" "claim_files role fs (dict_put f role assigned) = Inr a"
    by (auto split: option.splits)
  then have "f \<notin> fst ` set assigned" by (simp add: dict_get_None)
  moreover from this have "length (dict_put f role assigned) = Suc (length assigned)"
    by (induction assigned) auto
  ultimately show ?case using "2.IH" [OF none] by auto
qed simp

definition claimed :: "(string, mutation_plan) dict \<Rightarrow> string list" where
  "claimed plans = concat (map (\<lambda>(role, p). mu_targets p) plans)"

lemma claimed_simps [simp]: "claimed [] = []" "claimed ((role, p) # plans) = mu_targets p @ claimed plans"
  by (simp_all add: claimed_def)

lemma arbitrate_ok:
  assumes "arbitrate plans assigned = Inr a"
  shows "distinct (claimed plans) \<and> set (claimed plans) \<inter> fst ` set assigned = {} \<and> length a = length assigned + length (claimed plans)"
  using assms
proof (induction plans assigned rule: arbitrate.induct)
  case (2 role p plans assigned)
  then obtain b where b: "claim_files role (mu_targets p) assigned = Inr b" "arbitrate plans b = Inr a"
    by (auto simp: res_bind_eq_Inr)
  from claim_files_ok [OF b(1)] "2.IH" [OF b(2)] show ?case by auto
qed simp

lemma scope_refusal_None: "scope_refusal plans = None \<Longrightarrow> (role, p) \<in> set plans \<Longrightarrow> validate_role_scope role (mu_targets p) = None"
  by (induction plans rule: scope_refusal.induct) (auto split: option.splits)

lemma concurrent_cases:
  assumes "pp_worktrees env = Some wm"
  obtains (refused) err where "execute_concurrent_role_pipeline env w task q plans = (w, Inr (Concurrent_Refused err Plan_And_Gate []))"
    | (uncreated) w1 e where "create_sessions wm q (dict_keys plans) w = (w1, Inl e)"
        "execute_concurrent_role_pipeline env w task q plans = (w1, Inl (Value_Error e))"
    | (ran) a w1 sessions w2 res where "scope_refusal plans = None" "arbitrate plans [] = Inr a"
        "create_sessions wm q (dict_keys plans) w = (w1, Inr sessions)"
        "run_roles env wm task q plans sessions (length a) w1 = (w2, res)"
        "execute_concurrent_role_pipeline env w task q plans =
           (cleanup_sessions wm sessions w2, (case res of Inl e \<Rightarrow> Inl (Value_Error e) | Inr x \<Rightarrow> Inr x))"
proof (cases "scope_refusal plans")
  case (Some err)
  then show ?thesis using assms by (intro refused [of err]) (simp add: execute_concurrent_role_pipeline_def)
next
  case no: None
  show ?thesis
  proof (cases "arbitrate plans []")
    case (Inl err)
    with no assms show ?thesis by (intro refused [of err]) (simp add: execute_concurrent_role_pipeline_def)
  next
    case a: (Inr a)
    obtain w1 res where c: "create_sessions wm q (dict_keys plans) w = (w1, res)" by fastforce
    show ?thesis
    proof (cases res)
      case (Inl e)
      with no a c assms show ?thesis by (intro uncreated [of w1 e]) (simp_all add: execute_concurrent_role_pipeline_def)
    next
      case (Inr sessions)
      obtain w2 out where "run_roles env wm task q plans sessions (length a) w1 = (w2, out)" by fastforce
      with no a c Inr assms show ?thesis
        by (intro ran [of a w1 sessions w2 out]) (simp_all add: execute_concurrent_role_pipeline_def)
    qed
  qed
qed

lemma concurrent_done:
  assumes "pp_worktrees env = Some wm" "execute_concurrent_role_pipeline env w task q plans = (w1, Inr (Concurrent_Done roles executions shas n))"
  shows "roles = dict_keys plans \<and> distinct (claimed plans) \<and> n = length (claimed plans)
      \<and> (\<forall>(role, p) \<in> set plans. validate_role_scope role (mu_targets p) = None)"
  using assms(1)
proof (cases rule: concurrent_cases [of env wm w task q plans])
  case (ran a v1 sessions v2 out)
  with assms(2) have out: "out = Inr (Concurrent_Done roles executions shas n)" by (cases out) auto
  then have "roles = dict_keys plans" "n = length a"
    using ran(4) by (auto simp: run_roles_def split: prod.splits sum.splits option.splits)
  with arbitrate_ok [OF ran(2)] scope_refusal_None [OF ran(1)] show ?thesis by auto
qed (use assms(2) in auto)

text \<open>C30: The concurrent pipeline succeeds only when every role may touch its targets and no file name is claimed twice;
it then reports the number of claimed names. Names are compared as the texts they are, so two spellings of one file are
two names. And every run ends in one of three ways: it is refused before anything is touched; or the creation of the
worktrees raises and the run raises with it, leaving what had been created; or all worktrees were created, and then,
whatever happens after that, an exception or a failed squash included, the last thing it does is to clean up every one of
them.\<close>

theorem concurrent_safe:
  assumes "pp_worktrees env = Some wm" "execute_concurrent_role_pipeline env w task q plans = (w1, res)"
  shows "(\<forall>roles executions shas n. res = Inr (Concurrent_Done roles executions shas n) \<longrightarrow>
      roles = dict_keys plans \<and> distinct (claimed plans) \<and> n = length (claimed plans)
      \<and> (\<forall>(role, p) \<in> set plans. validate_role_scope role (mu_targets p) = None))
    \<and> ((w1 = w \<and> (\<exists>err. res = Inr (Concurrent_Refused err Plan_And_Gate [])))
       \<or> (\<exists>e. create_sessions wm q (dict_keys plans) w = (w1, Inl e) \<and> res = Inl (Value_Error e))
       \<or> (\<exists>w0 sessions w2. create_sessions wm q (dict_keys plans) w = (w0, Inr sessions) \<and> w1 = cleanup_sessions wm sessions w2))"
proof (intro conjI allI impI)
  show "roles = dict_keys plans" "distinct (claimed plans)" "n = length (claimed plans)"
    "\<forall>(role, p) \<in> set plans. validate_role_scope role (mu_targets p) = None"
    if "res = Inr (Concurrent_Done roles executions shas n)" for roles executions shas n
    using concurrent_done [OF assms(1)] assms(2) that by simp_all
  show "(w1 = w \<and> (\<exists>err. res = Inr (Concurrent_Refused err Plan_And_Gate [])))
       \<or> (\<exists>e. create_sessions wm q (dict_keys plans) w = (w1, Inl e) \<and> res = Inl (Value_Error e))
       \<or> (\<exists>w0 sessions w2. create_sessions wm q (dict_keys plans) w = (w0, Inr sessions) \<and> w1 = cleanup_sessions wm sessions w2)"
    using assms(1)
  proof (cases rule: concurrent_cases [of env wm w task q plans])
    case (ran a v1 sessions v2 out)
    with assms(2) show ?thesis by auto
  qed (use assms(2) in auto)
qed

definition two_plans :: "(string, mutation_plan) dict" where
  "two_plans = [(''DOMAIN_LOGIC_AGENT'', sample_plan), (''UI_UX_AGENT'', sample_plan\<lparr>mu_targets := [''viewer/b.tsx''], mu_approved := False\<rparr>)]"

lemma concurrent_safe_witness:
  "\<exists>w1 executions shas. execute_concurrent_role_pipeline (sample_pipeline []) [] ''T-1'' sample_request two_plans
     = (w1, Inr (Concurrent_Done [''DOMAIN_LOGIC_AGENT'', ''UI_UX_AGENT''] executions shas 2)) \<and> distinct (claimed two_plans)"
proof -
  obtain w1 res where run: "execute_concurrent_role_pipeline (sample_pipeline []) [] ''T-1'' sample_request two_plans = (w1, res)"
    by fastforce
  have "(case snd (execute_concurrent_role_pipeline (sample_pipeline []) [] ''T-1'' sample_request two_plans) of
      Inr (Concurrent_Done roles executions shas n) \<Rightarrow> roles = [''DOMAIN_LOGIC_AGENT'', ''UI_UX_AGENT''] \<and> n = 2 | _ \<Rightarrow> False)"
    by code_simp
  with run obtain executions shas where
    res: "res = Inr (Concurrent_Done [''DOMAIN_LOGIC_AGENT'', ''UI_UX_AGENT''] executions shas 2)"
    by (auto split: sum.splits concurrent_result.splits)
  have wm: "pp_worktrees (sample_pipeline []) = Some sample_worktrees" by (simp add: sample_pipeline_def)
  from concurrent_safe [OF wm run] res have "distinct (claimed two_plans)" by simp
  with run res show ?thesis by simp
qed


section \<open>Approval of concurrent plans\<close>

definition reapprove :: "bool \<Rightarrow> string option \<Rightarrow> mutation_plan \<Rightarrow> mutation_plan" where
  "reapprove b tok p = p\<lparr>mu_approved := b, mu_token := tok\<rparr>"

lemma reapprove_fields [simp]: "mu_targets (reapprove b tok p) = mu_targets p"
  by (simp add: reapprove_def)

definition reapproved :: "bool \<Rightarrow> string option \<Rightarrow> (string, mutation_plan) dict \<Rightarrow> (string, mutation_plan) dict" where
  "reapproved b tok plans = map (\<lambda>(role, p). (role, reapprove b tok p)) plans"

text \<open>An executor that does not look at the approval of a plan.\<close>

definition approval_blind :: "'w pipeline \<Rightarrow> bool" where
  "approval_blind env \<longleftrightarrow> (\<forall>x w session p b tok. pp_executor env = Some x \<longrightarrow> xc_execute x w session (reapprove b tok p) = xc_execute x w session p)"

lemma reapproved_simps [simp]:
  "reapproved b tok [] = []"
  "reapproved b tok ((role, p) # plans) = (role, reapprove b tok p) # reapproved b tok plans"
  by (simp_all add: reapproved_def)

lemma keys_reapproved [simp]: "dict_keys (reapproved b tok plans) = dict_keys plans"
  by (induction plans) (auto simp: dict_keys_def)

lemma refusal_reapproved: "scope_refusal (reapproved b tok plans) = scope_refusal plans"
  by (induction plans rule: scope_refusal.induct) (auto split: option.splits)

lemma arbitrate_reapproved: "arbitrate (reapproved b tok plans) a = arbitrate plans a"
  by (induction plans a rule: arbitrate.induct) (auto simp: res_bind_def split: sum.split)

lemma roles_reapproved:
  assumes "approval_blind env"
  shows "execute_roles env wm task sessions (reapproved b tok plans) w = execute_roles env wm task sessions plans w"
proof -
  have "execute_role env wm task role (reapprove b tok p) session v = execute_role env wm task role p session v" for role p session v
    using assms by (cases "pp_executor env") (simp_all add: execute_role_def approval_blind_def)
  then show ?thesis
    by (induction plans arbitrary: w) (auto split: option.splits prod.splits sum.splits)
qed

lemma run_roles_reapproved:
  "approval_blind env \<Longrightarrow> run_roles env wm task q (reapproved b tok plans) sessions n w = run_roles env wm task q plans sessions n w"
  unfolding run_roles_def keys_reapproved by (simp add: roles_reapproved)

text \<open>The concurrent pipeline has no approval gate: with an executor that does not itself look at the approval, its
run, to every effect and result, is the same whether its plans were approved by a human, by nobody or by their own
role.\<close>

theorem concurrent_needs_no_approval:
  assumes "approval_blind env"
  shows "execute_concurrent_role_pipeline env w task q (reapproved b tok plans) = execute_concurrent_role_pipeline env w task q plans"
  unfolding execute_concurrent_role_pipeline_def refusal_reapproved arbitrate_reapproved keys_reapproved
    run_roles_reapproved [OF assms] by (rule refl)

lemma concurrent_needs_no_approval_witness:
  "execute_concurrent_role_pipeline (sample_pipeline []) [] ''T-1'' sample_request (reapproved False (Some ''agent'') two_plans)
   = execute_concurrent_role_pipeline (sample_pipeline []) [] ''T-1'' sample_request two_plans"
  by (rule concurrent_needs_no_approval) (simp add: approval_blind_def sample_pipeline_def)


section \<open>What is left of a committee's plan\<close>

lemma apply_nothing: "mu_mutations p = [] \<Longrightarrow> execute_plan resolve env gate dir st fs session p = (st1, fs1, res) \<Longrightarrow> fs1 = fs \<and> st1 = st"
  by (auto simp: execute_plan_def Let_def split: option.splits sum.splits)

text \<open>The committee loses the work: whatever file mutations a plan has, the plan that a run with a committee hands on
has none, and executing it with the agent executor leaves every file as it is.\<close>

theorem committee_drops_mutations:
  assumes "cq_committee q" "execute_pipeline env s (cq_task q) q plan = (s1, Inr r)" "pl_stage r = Stage_Completed"
  shows "\<exists>p. pl_plan r = Some p \<and> mu_mutations p = []
    \<and> fst (snd (execute_plan resolve tenv gate dir st fs session p)) = fs"
proof -
  obtain p where p: "plan_submitted q plan p" "completed_with env p r"
    by (rule execute_completed [OF assms(2,3)])
  with assms(1) have m: "mu_mutations p = []" "pl_plan r = Some p"
    by (simp_all add: plan_submitted_def completed_with_def)
  obtain st1 fs1 res where x: "execute_plan resolve tenv gate dir st fs session p = (st1, fs1, res)" by (metis prod.exhaust)
  from apply_nothing [OF m(1) x] have "fs1 = fs" by simp
  with m x show ?thesis by (intro exI [of _ p]) simp
qed

definition committee_request :: coding_request where
  "committee_request = (new_request ''T'' ''/r'' [] ''b'')\<lparr>cq_inspected := [''a''], cq_targets := [''a''], cq_committee := True, cq_committee_roles := []\<rparr>"

definition writing_plan :: mutation_plan where
  "writing_plan = sample_plan\<lparr>mu_targets := [''a''], mu_mutations := [\<lparr>fm_path = ''a'', fm_content = ''x'', fm_action = ''write''\<rparr>]\<rparr>"

lemma committee_run:
  "(case snd (execute_pipeline (sample_pipeline [True]) sample_manager ''T'' committee_request writing_plan) of
      Inr r \<Rightarrow> pl_stage r = Stage_Completed | _ \<Rightarrow> False)"
  by code_simp

lemma committee_drops_mutations_witness:
  "\<exists>s1 r p. execute_pipeline (sample_pipeline [True]) sample_manager ''T'' committee_request writing_plan = (s1, Inr r)
     \<and> pl_stage r = Stage_Completed \<and> pl_plan r = Some p \<and> mu_mutations p = [] \<and> mu_mutations writing_plan \<noteq> []"
proof -
  obtain s1 res where run: "execute_pipeline (sample_pipeline [True]) sample_manager ''T'' committee_request writing_plan = (s1, res)"
    by fastforce
  with committee_run obtain r where r: "res = Inr r" "pl_stage r = Stage_Completed" by (cases res) auto
  have q: "cq_task committee_request = ''T''" "cq_committee committee_request" "mu_mutations writing_plan \<noteq> []"
    by (simp_all add: committee_request_def new_request_def writing_plan_def)
  have "execute_pipeline (sample_pipeline [True]) sample_manager (cq_task committee_request) committee_request writing_plan = (s1, Inr r)"
    using run r q(1) by simp
  from committee_drops_mutations [OF q(2) this r(2)] have "\<exists>p. pl_plan r = Some p \<and> mu_mutations p = []" by blast
  with run r q(3) show ?thesis by blast
qed

end
