(* ===== verification/Workflow_Graph.thy ===== *)
theory Workflow_Graph
  imports Protocol_Repair
begin

text \<open>
  The declarative workflows of core/workflow_engine.py: the front matter of a workflow file, its steps with
  their dependencies and jumps, and the validation of the step graph with its two searches for cycles.

  The YAML parser is a parameter. Step identifiers, targets and skills are strings, as the type hints say; a
  dependency that is neither text nor list is a number.
\<close>

section \<open>Steps\<close>

datatype dep_value = Dep_Null | Dep_One string | Dep_Many "string list" | Dep_Number

record wf_step =
  wp_id :: string
  wp_dependencies :: "dep_value option"
  wp_depends_on :: "dep_value option"
  wp_next :: "string option"
  wp_fallback :: "string option"
  wp_on_failure :: string
  wp_skill :: "string option"
  wp_params :: json

datatype wf_entry = Not_A_Mapping | Mapping wf_step

datatype wf_error =
    Workflow_Missing string
  | Outside_Boundary
  | No_Start_Delimiter
  | No_End_Delimiter
  | Bad_Yaml
  | Not_A_Dictionary
  | Missing_Fields "string list"
  | Steps_Not_A_List
  | Empty_Step_Id
  | Duplicate_Step
  | Step_Not_Mapping
  | Bad_Dependencies string
  | Unknown_Dependency string string
  | Unknown_Target string string string
  | Dependency_Cycle string
  | Next_Cycle string


section \<open>The searches for cycles\<close>

text \<open>\<open>visit\<close> and \<open>visit_next\<close> over the list of successors still to be visited: \<open>path\<close> is the set
\<open>visiting\<close>, from which the code removes a step where its call returns. A successor without an entry is
passed over.\<close>

type_synonym step_graph = "(string, string list) dict"

function visit_steps :: "step_graph \<Rightarrow> string list \<Rightarrow> string list \<Rightarrow> string list \<Rightarrow> string + string list" where
  "visit_steps g path seen [] = Inr seen"
| "visit_steps g path seen (d # ds) =
     (if d \<in> set path then Inl d
      else if d \<in> set seen \<or> dict_get g d = None then visit_steps g path seen ds
      else (case visit_steps g (d # path) seen (the (dict_get g d)) of
              Inl e \<Rightarrow> Inl e
            | Inr seen1 \<Rightarrow> visit_steps g path (d # seen1) ds))"
  by pat_completeness auto

definition unseen :: "step_graph \<Rightarrow> string list \<Rightarrow> string list \<Rightarrow> string set" where
  "unseen g path seen = fst ` set g - set path - set seen"

lemma finite_unseen [simp]: "finite (unseen g path seen)"
  by (simp add: unseen_def)

lemma in_graph: "dict_get g d \<noteq> None \<longleftrightarrow> d \<in> fst ` set g"
  by (simp add: dict_get_None)

lemma visit_steps_grows:
  "visit_steps_dom (g, path, seen, ds) \<Longrightarrow> visit_steps g path seen ds = Inr seen1 \<Longrightarrow> set seen \<subseteq> set seen1"
proof (induction g path seen ds arbitrary: seen1 rule: visit_steps.pinduct)
  case (2 g path seen d ds)
  note step = visit_steps.psimps(2) [OF 2(1)]
  show ?case
  proof (cases "d \<in> set path")
    case True
    with 2(5) step show ?thesis by simp
  next
    case False
    show ?thesis
    proof (cases "d \<in> set seen \<or> dict_get g d = None")
      case True
      with 2(5) step False have "visit_steps g path seen ds = Inr seen1" by (simp only: if_True if_False)
      from 2(2) [OF False True this] show ?thesis .
    next
      case new: False
      with 2(5) step False obtain v where v: "visit_steps g (d # path) seen (the (dict_get g d)) = Inr v"
        "visit_steps g path (d # v) ds = Inr seen1"
        by (simp only: if_False split: sum.splits) simp
      from 2(3) [OF False new v(1)] 2(4) [OF False new v(1) v(2)] show ?thesis by auto
    qed
  qed
qed (simp add: visit_steps.psimps)

termination visit_steps
proof (relation "measures [\<lambda>(g, path, seen, ds). card (unseen g path seen), \<lambda>(g, path, seen, ds). length ds]", goal_cases)
  case (3 g path seen d ds)
  then have "d \<notin> set path" "d \<notin> set seen" "d \<in> fst ` set g" using in_graph [of g d] by blast+
  then have "d \<in> unseen g path seen" "unseen g (d # path) seen \<subseteq> unseen g path seen - {d}"
    unfolding unseen_def by auto
  then have "card (unseen g (d # path) seen) < card (unseen g path seen)"
    by (intro psubset_card_mono) auto
  then show ?case by simp
next
  case (4 g path seen d ds seen1)
  then have "d \<notin> set path" "d \<notin> set seen" "d \<in> fst ` set g" "set seen \<subseteq> set seen1"
    using in_graph [of g d] visit_steps_grows [OF 4(4,3)] by blast+
  then have "d \<in> unseen g path seen" "unseen g path (d # seen1) \<subseteq> unseen g path seen - {d}"
    unfolding unseen_def by auto
  then have "card (unseen g path (d # seen1)) < card (unseen g path seen)"
    by (intro psubset_card_mono) auto
  then show ?case by simp
qed simp_all


section \<open>The validation\<close>

definition raw_dep :: "wf_step \<Rightarrow> dep_value" where
  "raw_dep s = (case wp_dependencies s of Some v \<Rightarrow> v | None \<Rightarrow> (case wp_depends_on s of Some v \<Rightarrow> v | None \<Rightarrow> Dep_Null))"

definition step_deps :: "string option \<Rightarrow> wf_step \<Rightarrow> wf_error + string list" where
  "step_deps prev s =
     (case raw_dep s of
        Dep_Null \<Rightarrow> Inr (case prev of None \<Rightarrow> [] | Some p \<Rightarrow> [p])
      | Dep_One d \<Rightarrow> Inr [d]
      | Dep_Many ds \<Rightarrow> Inr ds
      | Dep_Number \<Rightarrow> Inl (Bad_Dependencies (wp_id s)))"

definition templated :: "string \<Rightarrow> bool" where
  "templated t = contains_str ''{{'' t"

definition bad_target :: "string list \<Rightarrow> string option \<Rightarrow> bool" where
  "bad_target ids target = (case target of None \<Rightarrow> False | Some t \<Rightarrow> \<not> templated t \<and> t \<notin> set ids)"

fun check_steps :: "string list \<Rightarrow> string option \<Rightarrow> wf_entry list \<Rightarrow> wf_error + step_graph" where
  "check_steps ids prev [] = Inr []"
| "check_steps ids prev (Not_A_Mapping # es) = Inl Step_Not_Mapping"
| "check_steps ids prev (Mapping s # es) =
     res_bind (step_deps prev s) (\<lambda>ds.
       case find (\<lambda>d. d \<notin> set ids) ds of
         Some d \<Rightarrow> Inl (Unknown_Dependency (wp_id s) d)
       | None \<Rightarrow>
           if bad_target ids (wp_next s) then Inl (Unknown_Target (wp_id s) ''next_step'' (the (wp_next s)))
           else if bad_target ids (wp_fallback s) then Inl (Unknown_Target (wp_id s) ''fallback_step'' (the (wp_fallback s)))
           else res_bind (check_steps ids (Some (wp_id s)) es) (\<lambda>g. Inr ((wp_id s, ds) # g)))"

fun mappings :: "wf_entry list \<Rightarrow> wf_step list" where
  "mappings [] = []"
| "mappings (Not_A_Mapping # es) = mappings es"
| "mappings (Mapping s # es) = s # mappings es"

definition next_edges :: "wf_step list \<Rightarrow> step_graph" where
  "next_edges steps =
     map (\<lambda>s. (wp_id s, [the (wp_next s)])) (filter (\<lambda>s. case wp_next s of None \<Rightarrow> False | Some t \<Rightarrow> \<not> templated t) steps)"

definition validate_step_graph :: "wf_entry list option \<Rightarrow> wf_error option" where
  "validate_step_graph raw =
     (case raw of
        None \<Rightarrow> Some Steps_Not_A_List
      | Some es \<Rightarrow>
          (let ids = map wp_id (mappings es)
           in if [] \<in> set ids then Some Empty_Step_Id
              else if \<not> distinct ids then Some Duplicate_Step
              else (case check_steps ids None es of
                      Inl e \<Rightarrow> Some e
                    | Inr g \<Rightarrow>
                        (case visit_steps g [] [] (dict_keys g) of
                           Inl d \<Rightarrow> Some (Dependency_Cycle d)
                         | Inr seen \<Rightarrow>
                             (case visit_steps (next_edges (mappings es)) [] [] (dict_keys (next_edges (mappings es))) of
                                Inl d \<Rightarrow> Some (Next_Cycle d)
                              | Inr seen1 \<Rightarrow> None)))))"


section \<open>Loading\<close>

text \<open>What the YAML parser makes of the front matter: the keys it has, and the value of \<open>steps\<close> when it is a list.\<close>

datatype wf_document = Other_Document | Document "string list" "wf_entry list option"

definition workflow_fields :: "string list" where
  "workflow_fields = [''id'', ''name'', ''description'', ''version'', ''steps'']"

definition delimiter :: string where
  "delimiter = ''---''"

definition front_matter :: "string \<Rightarrow> wf_error + string" where
  "front_matter content =
     (if \<not> starts_with delimiter content then Inl No_Start_Delimiter
      else (case split_first delimiter content of
              None \<Rightarrow> Inl No_End_Delimiter
            | Some (before, r) \<Rightarrow>
                (case split_first delimiter r of
                   None \<Rightarrow> Inl No_End_Delimiter
                 | Some (matter, body) \<Rightarrow> Inr matter)))"

text \<open>\<open>inside\<close> says whether the path of the file stays below the directory of workflows, \<open>files\<close> is the content there,
\<open>yaml\<close> the parser.\<close>

definition load_workflow ::
    "(string \<Rightarrow> bool) \<Rightarrow> (string \<Rightarrow> string option) \<Rightarrow> (string \<Rightarrow> wf_document option) \<Rightarrow> string \<Rightarrow> wf_error + wf_step list" where
  "load_workflow inside files yaml name =
     (if \<not> inside name then Inl Outside_Boundary
      else (case files name of
              None \<Rightarrow> Inl (Workflow_Missing name)
            | Some content \<Rightarrow>
                res_bind (front_matter content) (\<lambda>matter.
                  case yaml matter of
                    None \<Rightarrow> Inl Bad_Yaml
                  | Some Other_Document \<Rightarrow> Inl Not_A_Dictionary
                  | Some (Document keys steps) \<Rightarrow>
                      if \<not> set workflow_fields \<subseteq> set keys
                      then Inl (Missing_Fields (filter (\<lambda>k. k \<notin> set keys) workflow_fields))
                      else (case validate_step_graph steps of
                              Some e \<Rightarrow> Inl e
                            | None \<Rightarrow> Inr (mappings (the steps))))))"

end
