(* ===== verification/Workflow_Validation.thy ===== *)
theory Workflow_Validation
  imports Workflow_Graph Graph_Search
begin

text \<open>
  The validation of a workflow is exact: it accepts a list of steps exactly when they are sound, in a description that
  names no search. The search is shown to find a cycle when there is one and none when there is none.
\<close>

section \<open>The search\<close>

definition graph_edges :: "step_graph \<Rightarrow> (string \<times> string) set" where
  "graph_edges g = {(a, b). dict_get g b \<noteq> None \<and> (\<exists>ds. dict_get g a = Some ds \<and> b \<in> set ds)}"

definition cleared :: "step_graph \<Rightarrow> string list \<Rightarrow> bool" where
  "cleared g seen \<longleftrightarrow> graph_edges g `` set seen \<subseteq> set seen \<and> acyclic (Restr (graph_edges g) (set seen))"

lemma visit_steps_clears:
  "visit_steps g path seen ds = Inr seen1 \<Longrightarrow> cleared g seen \<Longrightarrow> set path \<inter> set seen = {} \<Longrightarrow>
     cleared g seen1 \<and> set seen \<subseteq> set seen1 \<and> {d \<in> set ds. dict_get g d \<noteq> None} \<subseteq> set seen1 \<and> set path \<inter> set seen1 = {}"
proof (induction g path seen ds arbitrary: seen1 rule: visit_steps.induct)
  case (2 g path seen d ds)
  note step = 2(4) [unfolded visit_steps.simps]
  show ?case
  proof (cases "d \<in> set path")
    case True
    with step show ?thesis by simp
  next
    case out: False
    show ?thesis
    proof (cases "d \<in> set seen \<or> dict_get g d = None")
      case True
      with step out have "visit_steps g path seen ds = Inr seen1" by (simp only: if_True if_False)
      from 2(1) [OF out True this 2(5,6)] True show ?thesis by auto
    next
      case new: False
      with step out obtain v where v: "visit_steps g (d # path) seen (the (dict_get g d)) = Inr v"
        "visit_steps g path (d # v) ds = Inr seen1"
        by (simp only: if_False split: sum.splits) simp
      have d: "set (d # path) \<inter> set seen = {}" using 2(6) new by simp
      note c = 2(2) [OF out new v(1) 2(5) d]
      have "graph_edges g `` {d} \<subseteq> set v" using c new by (auto simp: graph_edges_def)
      then have "cleared g (d # v)"
        using c acyclic_insert_top [of "graph_edges g" "set v" d] unfolding cleared_def by auto
      moreover have "set path \<inter> set (d # v) = {}" using c out by auto
      ultimately show ?thesis using 2(3) [OF out new v(1) v(2)] c by auto
    qed
  qed
qed simp

lemma visit_steps_finds:
  "visit_steps g path seen ds = Inl e \<Longrightarrow> (\<And>x. x \<in> set path \<Longrightarrow> dict_get g x \<noteq> None) \<Longrightarrow>
     (\<And>x d. x \<in> set path \<Longrightarrow> d \<in> set ds \<Longrightarrow> dict_get g d \<noteq> None \<Longrightarrow> (x, d) \<in> (graph_edges g)\<^sup>+) \<Longrightarrow> (e, e) \<in> (graph_edges g)\<^sup>+"
proof (induction g path seen ds rule: visit_steps.induct)
  case (2 g path seen d ds)
  note step = 2(4) [unfolded visit_steps.simps]
  show ?case
  proof (cases "d \<in> set path")
    case True
    with step have "e = d" by simp
    with 2(6) [of d d] 2(5) [OF True] True show ?thesis by simp
  next
    case out: False
    show ?thesis
    proof (cases "d \<in> set seen \<or> dict_get g d = None")
      case True
      with step out have v: "visit_steps g path seen ds = Inl e" by (simp only: if_True if_False)
      show ?thesis by (rule 2(1) [OF out True v]) (use 2(5,6) in simp_all)
    next
      case new: False
      show ?thesis
      proof (cases "visit_steps g (d # path) seen (the (dict_get g d))")
        case (Inl e1)
        with step out new have "e1 = e" by simp
        have edge: "(d, x) \<in> graph_edges g" if "x \<in> set (the (dict_get g d))" "dict_get g x \<noteq> None" for x
          using new that by (auto simp: graph_edges_def)
        show ?thesis
        proof (rule 2(2) [OF out new Inl [unfolded \<open>e1 = e\<close>]])
          fix x y
          assume "x \<in> set (d # path)" "y \<in> set (the (dict_get g d))" "dict_get g y \<noteq> None"
          then show "(x, y) \<in> (graph_edges g)\<^sup>+"
            using edge [of y] 2(6) [of x d] new by (auto intro: trancl_into_trancl)
        qed (use 2(5) new in auto)
      next
        case (Inr v)
        with step out new have e: "visit_steps g path (d # v) ds = Inl e" by simp
        show ?thesis by (rule 2(3) [OF out new Inr e]) (use 2(5,6) in simp_all)
      qed
    qed
  qed
qed simp

lemma visit_steps_exact: "(\<exists>seen. visit_steps g [] [] (dict_keys g) = Inr seen) \<longleftrightarrow> acyclic (graph_edges g)"
proof (cases "visit_steps g [] [] (dict_keys g)")
  case (Inl e)
  from visit_steps_finds [OF Inl] have "(e, e) \<in> (graph_edges g)\<^sup>+" by simp
  with Inl show ?thesis by (auto simp: acyclic_def)
next
  case (Inr seen)
  have "cleared g []" by (simp add: cleared_def acyclic_def)
  with visit_steps_clears [OF Inr] have c: "cleared g seen" "{d \<in> set (dict_keys g). dict_get g d \<noteq> None} \<subseteq> set seen" by simp_all
  then have known: "a \<in> set seen" if "dict_get g a \<noteq> None" for a
    using that in_graph [of g a] by (auto simp: dict_keys_def)
  have "graph_edges g \<subseteq> set seen \<times> set seen"
    using known by (auto simp: graph_edges_def)
  then have "Restr (graph_edges g) (set seen) = graph_edges g" by blast
  with c(1) Inr show ?thesis by (simp add: cleared_def)
qed


section \<open>Sound workflows\<close>

text \<open>The steps with the step before each, what a step waits for, and where it may jump to.\<close>

definition with_previous :: "string option \<Rightarrow> wf_step list \<Rightarrow> (string option \<times> wf_step) list" where
  "with_previous prev steps = zip (prev # map (Some \<circ> wp_id) steps) steps"

definition waits_for :: "string option \<Rightarrow> wf_step \<Rightarrow> string set" where
  "waits_for prev s =
     (case raw_dep s of
        Dep_Null \<Rightarrow> set_option prev
      | Dep_One d \<Rightarrow> {d}
      | Dep_Many ds \<Rightarrow> set ds
      | Dep_Number \<Rightarrow> {})"

definition jumps_to :: "string option \<Rightarrow> string set" where
  "jumps_to target = {t. target = Some t \<and> \<not> templated t}"

definition wait_relation :: "wf_step list \<Rightarrow> (string \<times> string) set" where
  "wait_relation steps = {(wp_id s, d) | p s d. (p, s) \<in> set (with_previous None steps) \<and> d \<in> waits_for p s}"

definition jump_relation :: "wf_step list \<Rightarrow> (string \<times> string) set" where
  "jump_relation steps = {(wp_id s, t) | s t. s \<in> set steps \<and> t \<in> jumps_to (wp_next s)}"

definition step_sound :: "string list \<Rightarrow> string option \<times> wf_step \<Rightarrow> bool" where
  "step_sound ids ps = (case ps of (p, s) \<Rightarrow>
     raw_dep s \<noteq> Dep_Number \<and> waits_for p s \<subseteq> set ids \<and> jumps_to (wp_next s) \<subseteq> set ids \<and> jumps_to (wp_fallback s) \<subseteq> set ids)"

definition workflow_sound :: "wf_entry list \<Rightarrow> bool" where
  "workflow_sound es \<longleftrightarrow>
     (let steps = mappings es; ids = map wp_id steps
      in Not_A_Mapping \<notin> set es \<and> [] \<notin> set ids \<and> distinct ids \<and> list_all (step_sound ids) (with_previous None steps)
         \<and> acyclic (wait_relation steps) \<and> acyclic (jump_relation steps))"

lemma with_previous_simps [simp]:
  "with_previous prev [] = []" "with_previous prev (s # ss) = (prev, s) # with_previous (Some (wp_id s)) ss"
  by (simp_all add: with_previous_def)

lemma map_snd_with_previous [simp]: "map snd (with_previous prev steps) = steps"
  by (induction steps arbitrary: prev) simp_all

definition deps_listed :: "string option \<times> wf_step \<Rightarrow> string \<times> string list" where
  "deps_listed ps = (case ps of (p, s) \<Rightarrow> (wp_id s, case step_deps p s of Inl e \<Rightarrow> [] | Inr ds \<Rightarrow> ds))"

lemma step_deps_waits: "step_deps p s = Inr ds \<Longrightarrow> set ds = waits_for p s \<and> raw_dep s \<noteq> Dep_Number"
  by (auto simp: step_deps_def waits_for_def split: dep_value.splits option.splits)

lemma step_deps_ok: "raw_dep s \<noteq> Dep_Number \<Longrightarrow> \<exists>ds. step_deps p s = Inr ds"
  by (auto simp: step_deps_def split: dep_value.splits)

lemma bad_target_jumps: "bad_target ids target \<longleftrightarrow> \<not> jumps_to target \<subseteq> set ids"
  by (auto simp: bad_target_def jumps_to_def split: option.splits)

lemma check_steps_exact:
  "check_steps ids prev es = Inr g \<longleftrightarrow>
     Not_A_Mapping \<notin> set es \<and> list_all (step_sound ids) (with_previous prev (mappings es)) \<and> g = map deps_listed (with_previous prev (mappings es))"
proof (induction ids prev es arbitrary: g rule: check_steps.induct)
  case (3 ids prev s es)
  show ?case
  proof (cases "step_deps prev s")
    case (Inl e)
    then have "raw_dep s = Dep_Number" using step_deps_ok [of s prev] by fastforce
    with Inl show ?thesis by (simp add: step_sound_def)
  next
    case (Inr ds)
    note w = step_deps_waits [OF Inr]
    show ?thesis
    proof (cases "find (\<lambda>d. d \<notin> set ids) ds")
      case (Some d)
      then have "d \<in> set ds" "d \<notin> set ids" by (auto simp: find_Some_iff)
      with w Some Inr show ?thesis by (auto simp: step_sound_def)
    next
      case None
      then have "waits_for prev s \<subseteq> set ids" using w by (auto simp: find_None_iff)
      moreover have "deps_listed (prev, s) = (wp_id s, ds)" using Inr by (simp add: deps_listed_def)
      ultimately show ?thesis
        using Inr None w 3 [OF None]
        by (auto simp: step_sound_def bad_target_jumps res_bind_eq_Inr split: if_splits)
    qed
  qed
qed auto

lemma acyclic_between:
  assumes "\<And>a b. (a, b) \<in> R \<Longrightarrow> b \<in> Domain R \<Longrightarrow> (a, b) \<in> E" "E \<subseteq> R"
  shows "acyclic E \<longleftrightarrow> acyclic R"
  using acyclic_domain [OF _ assms(1)] acyclic_subset [OF _ assms(2)] by blast

lemma graph_edges_distinct:
  assumes "distinct (map fst g)"
  shows "graph_edges g = {(a, b). b \<in> fst ` set g \<and> (\<exists>ds. (a, ds) \<in> set g \<and> b \<in> set ds)}"
  using map_of_eq_Some_iff [OF assms] in_graph [of g] by (auto simp: graph_edges_def dict_get_def)

lemma deps_listed_keys: "map fst (map deps_listed (with_previous prev steps)) = map wp_id steps"
  by (induction steps arbitrary: prev) (simp_all add: deps_listed_def)

lemma wait_edges:
  assumes "distinct (map wp_id steps)" "list_all (step_sound ids) (with_previous None steps)"
  shows "acyclic (graph_edges (map deps_listed (with_previous None steps))) \<longleftrightarrow> acyclic (wait_relation steps)"
proof (rule acyclic_between)
  let ?ps = "with_previous None steps"
  note keys = deps_listed_keys [of None steps]
  have listed: "(wp_id s, ds) = deps_listed (p, s) \<Longrightarrow> set ds = waits_for p s" if "(p, s) \<in> set ?ps" for p s ds
  proof -
    assume ds: "(wp_id s, ds) = deps_listed (p, s)"
    have "raw_dep s \<noteq> Dep_Number" using assms(2) that by (auto simp: list_all_iff step_sound_def)
    from step_deps_ok [OF this] obtain ds1 where "step_deps p s = Inr ds1" by blast
    with ds step_deps_waits [OF this] show ?thesis by (simp add: deps_listed_def)
  qed
  note edges = graph_edges_distinct [of "map deps_listed ?ps", unfolded keys, OF assms(1)]
  have ids: "fst ` set (map deps_listed ?ps) = wp_id ` set steps" using keys by (metis list.set_map)
  show "graph_edges (map deps_listed ?ps) \<subseteq> wait_relation steps"
  proof
    fix e
    assume "e \<in> graph_edges (map deps_listed ?ps)"
    then obtain a b ds p s where e: "e = (a, b)" "(a, ds) = deps_listed (p, s)" "(p, s) \<in> set ?ps" "b \<in> set ds"
      unfolding edges by auto
    then have "a = wp_id s" by (simp add: deps_listed_def)
    with e listed [OF e(3)] show "e \<in> wait_relation steps" unfolding wait_relation_def by blast
  qed
  fix a b
  assume w: "(a, b) \<in> wait_relation steps" and "b \<in> Domain (wait_relation steps)"
  then have "b \<in> wp_id ` snd ` set ?ps" by (force simp: wait_relation_def)
  then have b: "b \<in> wp_id ` set steps" by (metis list.set_map map_snd_with_previous)
  obtain p s where s: "a = wp_id s" "(p, s) \<in> set ?ps" "b \<in> waits_for p s" using w by (auto simp: wait_relation_def)
  obtain ds where ds: "deps_listed (p, s) = (wp_id s, ds)" by (simp add: deps_listed_def)
  with listed [OF s(2)] s b show "(a, b) \<in> graph_edges (map deps_listed ?ps)"
    unfolding edges ids by (force simp: image_iff)
qed

lemma jump_edges:
  assumes "distinct (map wp_id steps)"
  shows "acyclic (graph_edges (next_edges steps)) \<longleftrightarrow> acyclic (jump_relation steps)"
proof (rule acyclic_between)
  let ?P = "\<lambda>s. case wp_next s of None \<Rightarrow> False | Some t \<Rightarrow> \<not> templated t"
  have "map fst (next_edges steps) = map wp_id (filter ?P steps)" by (simp add: next_edges_def)
  with assms have d: "distinct (map fst (next_edges steps))" by (simp add: distinct_map_filter)
  have mem: "(a, ds) \<in> set (next_edges steps) \<longleftrightarrow> (\<exists>s t. s \<in> set steps \<and> a = wp_id s \<and> t \<in> jumps_to (wp_next s) \<and> ds = [t])" for a ds
    by (auto simp: next_edges_def jumps_to_def split: option.splits)
  note edges = graph_edges_distinct [OF d]
  show "graph_edges (next_edges steps) \<subseteq> jump_relation steps"
    unfolding edges mem jump_relation_def by fastforce
  fix a b
  assume w: "(a, b) \<in> jump_relation steps" and "b \<in> Domain (jump_relation steps)"
  then obtain s t where "s \<in> set steps" "b = wp_id s" "t \<in> jumps_to (wp_next s)" by (auto simp: jump_relation_def)
  then have "(b, [t]) \<in> set (next_edges steps)" unfolding mem by blast
  then have "b \<in> fst ` set (next_edges steps)" by force
  moreover have "(a, [b]) \<in> set (next_edges steps)" using w unfolding mem jump_relation_def by blast
  ultimately show "(a, b) \<in> graph_edges (next_edges steps)" unfolding edges by force
qed

text \<open>C12: A workflow passes the validation exactly when it is sound: all its steps are mappings with distinct, nonempty
identifiers; what a step waits for and the literal targets it jumps to are steps; and neither the waiting nor the
literal jumps form a cycle.\<close>

theorem validation_exact: "validate_step_graph (Some es) = None \<longleftrightarrow> workflow_sound es"
proof -
  let ?steps = "mappings es"
  let ?ids = "map wp_id ?steps"
  let ?g = "map deps_listed (with_previous None ?steps)"
  have "validate_step_graph (Some es) = None \<longleftrightarrow> [] \<notin> set ?ids \<and> distinct ?ids \<and> check_steps ?ids None es = Inr ?g
      \<and> (\<exists>seen. visit_steps ?g [] [] (dict_keys ?g) = Inr seen)
      \<and> (\<exists>seen. visit_steps (next_edges ?steps) [] [] (dict_keys (next_edges ?steps)) = Inr seen)"
  proof (cases "check_steps ?ids None es")
    case (Inl e)
    then show ?thesis by (simp add: validate_step_graph_def Let_def)
  next
    case (Inr g)
    then have "g = ?g" unfolding check_steps_exact by simp
    with Inr show ?thesis by (auto simp: validate_step_graph_def Let_def split: sum.splits)
  qed
  also have "\<dots> \<longleftrightarrow> [] \<notin> set ?ids \<and> distinct ?ids \<and> Not_A_Mapping \<notin> set es \<and> list_all (step_sound ?ids) (with_previous None ?steps)
      \<and> acyclic (graph_edges ?g) \<and> acyclic (graph_edges (next_edges ?steps))"
    unfolding visit_steps_exact check_steps_exact by blast
  also have "\<dots> \<longleftrightarrow> workflow_sound es"
    unfolding workflow_sound_def Let_def using wait_edges [of ?steps ?ids] jump_edges [of ?steps] by blast
  finally show ?thesis .
qed

end
