(* ===== verification/Workflow_Engine.thy ===== *)
theory Workflow_Engine
  imports Workflow_Graph
begin

text \<open>
  Running a workflow, core/workflow_engine.py: the state of a run and its checkpoints, the parameters of a step, a step
  with its healing attempts, and the evaluation loop of \<open>execute\<close>.

  A round starts the steps it picked one after the other, since the code between the start of a step and its first
  suspension does not wait, and finishes them in any order: \<open>we_order\<close> is the order in which a set of steps is
  iterated and \<open>we_finish\<close> the one in which the tools of a round return. The tools, the healing provider, the
  templates and the listeners are functions over a state of their own. A loop that sleeps and starts again
  unchanged does not return.
\<close>

section \<open>The state of a run\<close>

datatype step_status = SS_Pending | SS_Running | SS_Success | SS_Failed | SS_Skipped | SS_Other string

record step_run =
  wt_id :: string
  wt_status :: step_status
  wt_output :: json
  wt_error :: "string option"
  wt_started :: "string option"
  wt_completed :: "string option"

record wf_run =
  wr_workflow :: string
  wr_session :: string
  wr_status :: step_status
  wr_current :: "string option"
  wr_steps :: "(string, step_run) dict"
  wr_payload :: "(string, json) dict"
  wr_created :: string
  wr_updated :: string

definition status_name :: "step_status \<Rightarrow> string" where
  "status_name s = (case s of SS_Pending \<Rightarrow> ''pending'' | SS_Running \<Rightarrow> ''running'' | SS_Success \<Rightarrow> ''success''
     | SS_Failed \<Rightarrow> ''failed'' | SS_Skipped \<Rightarrow> ''skipped'' | SS_Other t \<Rightarrow> t)"

definition status_named :: "string \<Rightarrow> step_status" where
  "status_named t = (if t = ''pending'' then SS_Pending else if t = ''running'' then SS_Running else if t = ''success'' then SS_Success
     else if t = ''failed'' then SS_Failed else if t = ''skipped'' then SS_Skipped else SS_Other t)"

definition new_step :: "string \<Rightarrow> step_run" where
  "new_step sid = \<lparr>wt_id = sid, wt_status = SS_Pending, wt_output = JNull, wt_error = None, wt_started = None, wt_completed = None\<rparr>"

datatype run_error =
    Not_Loaded wf_error
  | Run_Denied
  | Wrong_Workflow string
  | Bad_Checkpoint string
  | Cycle_Through string
  | Key_Missing string
  | Step_Raised string
  | Step_Failed "(string \<times> string) list"
  | Deadlock "string list"


section \<open>Checkpoints\<close>

text \<open>The dictionary \<open>save_state\<close> writes; the file holds its \<^const>\<open>json_image\<close>.\<close>

definition step_json :: "step_run \<Rightarrow> json" where
  "step_json s = JObj
     [(''step_id'', JStr (wt_id s)), (''status'', JStr (status_name (wt_status s))), (''output'', wt_output s),
      (''error'', opt_json JStr (wt_error s)), (''started_at'', opt_json JStr (wt_started s)),
      (''completed_at'', opt_json JStr (wt_completed s))]"

definition run_json :: "wf_run \<Rightarrow> json" where
  "run_json r = JObj
     [(''workflow_id'', JStr (wr_workflow r)), (''session_id'', JStr (wr_session r)), (''status'', JStr (status_name (wr_status r))),
      (''current_step_id'', opt_json JStr (wr_current r)), (''created_at'', JStr (wr_created r)), (''updated_at'', JStr (wr_updated r)),
      (''payload'', JObj (wr_payload r)), (''steps'', JObj (map (\<lambda>(i, s). (i, step_json s)) (wr_steps r)))]"

text \<open>The loader. Fields that \<open>save_state\<close> writes as text are taken as text: other JSON types there count as invalid.\<close>

fun text_of_json :: "json option \<Rightarrow> string + string" where
  "text_of_json (Some (JStr s)) = Inr s"
| "text_of_json v = Inl ''text expected''"

fun opt_text_of_json :: "json option \<Rightarrow> string + string option" where
  "opt_text_of_json (Some (JStr s)) = Inr (Some s)"
| "opt_text_of_json (Some JNull) = Inr None"
| "opt_text_of_json None = Inr None"
| "opt_text_of_json v = Inl ''text or null expected''"

definition step_of_json :: "string \<Rightarrow> json \<Rightarrow> string + step_run" where
  "step_of_json sid j =
     (case j of
        JObj d \<Rightarrow>
          if dict_get d ''step_id'' \<noteq> Some (JStr sid) then Inl (''checkpoint step key mismatch: '' @ sid)
          else res_bind (text_of_json (dict_get d ''status'')) (\<lambda>st.
               res_bind (opt_text_of_json (dict_get d ''error'')) (\<lambda>err.
               res_bind (opt_text_of_json (dict_get d ''started_at'')) (\<lambda>a.
               res_bind (opt_text_of_json (dict_get d ''completed_at'')) (\<lambda>b.
                 Inr \<lparr>wt_id = sid, wt_status = status_named st, wt_output = dict_get_default d ''output'' JNull, wt_error = err,
                      wt_started = a, wt_completed = b\<rparr>))))
      | _ \<Rightarrow> Inl (''checkpoint step key mismatch: '' @ sid))"

fun steps_of_json :: "(string \<times> json) list \<Rightarrow> string + (string, step_run) dict" where
  "steps_of_json [] = Inr []"
| "steps_of_json ((i, j) # kvs) =
     res_bind (step_of_json i j) (\<lambda>s. res_bind (steps_of_json kvs) (\<lambda>d. Inr ((i, s) # d)))"

definition checkpoint_fields :: "string list" where
  "checkpoint_fields = [''workflow_id'', ''session_id'', ''status'', ''current_step_id'', ''created_at'', ''updated_at'', ''steps'']"

definition run_of_json :: "string \<Rightarrow> json \<Rightarrow> string + wf_run" where
  "run_of_json session j =
     (case j of
        JObj d \<Rightarrow>
          if \<not> list_all (\<lambda>k. dict_get d k \<noteq> None) checkpoint_fields then Inl ''checkpoint missing fields''
          else if dict_get d ''session_id'' \<noteq> Some (JStr session) then Inl ''checkpoint session_id does not match requested session''
          else (case dict_get d ''steps'' of
                  Some (JObj kvs) \<Rightarrow>
                    res_bind (steps_of_json kvs) (\<lambda>steps.
                    res_bind (text_of_json (dict_get d ''workflow_id'')) (\<lambda>wf.
                    res_bind (text_of_json (dict_get d ''status'')) (\<lambda>st.
                    res_bind (opt_text_of_json (dict_get d ''current_step_id'')) (\<lambda>cur.
                    res_bind (text_of_json (dict_get d ''created_at'')) (\<lambda>a.
                    res_bind (text_of_json (dict_get d ''updated_at'')) (\<lambda>b.
                      case dict_get_default d ''payload'' (JObj []) of
                        JObj p \<Rightarrow> Inr \<lparr>wr_workflow = wf, wr_session = session, wr_status = status_named st, wr_current = cur,
                                      wr_steps = steps, wr_payload = p, wr_created = a, wr_updated = b\<rparr>
                      | _ \<Rightarrow> Inl ''payload''))))))
                | _ \<Rightarrow> Inl ''checkpoint steps must be an object'')
      | _ \<Rightarrow> Inl ''checkpoint root must be an object'')"

text \<open>\<open>safe_workspace_path\<close> of core/security.py, on a directory without symbolic links: the session identifier must be a
plain relative path.\<close>

definition drive_path :: "string \<Rightarrow> bool" where
  "drive_path p = (2 \<le> length p \<and> letter (hd p) \<and> p ! 1 = CHR '':'')"

definition safe_relative :: "string \<Rightarrow> bool" where
  "safe_relative p =
     (p \<noteq> [] \<and> CHR ''%'' \<notin> set p \<and> list_all (\<lambda>c. \<not> py_space c \<and> 32 \<le> (of_char c :: nat)) p
      \<and> take 1 p \<noteq> ''/'' \<and> take 1 p \<noteq> [CHR 0x5C] \<and> \<not> drive_path p
      \<and> list_all (\<lambda>c. c \<notin> {[], ''.'', ''..''}) (split_on (CHR ''/'') (replace_char (CHR 0x5C) (CHR ''/'') p)))"

definition run_file :: "string \<Rightarrow> run_error + string" where
  "run_file session = (if safe_relative (session @ ''.json'') then Inr (session @ ''.json'') else Inl Run_Denied)"



section \<open>The parameters of a step\<close>

text \<open>The context of templates: the payload and the outputs of the steps that succeeded.\<close>

type_synonym wf_context = "(string, json) dict"

definition context_json :: "(string, json) dict \<Rightarrow> wf_context \<Rightarrow> json" where
  "context_json payload outputs =
     JObj [(''payload'', JObj payload), (''steps'', JObj (map (\<lambda>(i, j). (i, JObj [(''output'', j)])) outputs))]"

datatype wf_event =
    Step_Started string string string
  | Step_Completed string string string bool bool

datatype heal_answer = No_Account | Heal_Raised string | Heal_Error | Heal_Answer string

record 'w wf_env =
  we_now :: "'w \<Rightarrow> string"
  we_skill :: "'w \<Rightarrow> string \<Rightarrow> json \<Rightarrow> 'w \<times> (string + string)"
  we_provider :: "'w \<Rightarrow> string \<Rightarrow> json \<Rightarrow> string \<Rightarrow> 'w \<times> heal_answer"
  we_template :: "string \<Rightarrow> json \<Rightarrow> string + string"
  we_attr :: "json \<Rightarrow> string \<Rightarrow> json option"
  we_codecs :: codecs
  we_schema :: "string \<Rightarrow> tool_schema option"
  we_emit :: "'w \<Rightarrow> wf_event \<Rightarrow> 'w"
  we_slow :: "'w \<Rightarrow> 'w \<Rightarrow> bool"
  we_costly :: "'w \<Rightarrow> bool"
  we_order :: "'w \<Rightarrow> string list \<Rightarrow> string list"
  we_finish :: "'w \<Rightarrow> string list \<Rightarrow> string list"
  we_limit :: "'w \<Rightarrow> nat"

fun count_str :: "string \<Rightarrow> nat \<Rightarrow> string \<Rightarrow> nat" where
  "count_str p skip [] = 0"
| "count_str p skip (c # s) =
     (if skip = 0 \<and> starts_with p (c # s) then Suc (count_str p (length p - 1) s) else count_str p (skip - 1) s)"

definition single_expression :: "string \<Rightarrow> string option" where
  "single_expression v =
     (let s = py_strip v
      in if starts_with ''{{'' s \<and> ends_with ''}}'' s \<and> count_str ''{{'' 0 s = 1
         then Some (py_strip (take (length s - 4) (drop 2 s))) else None)"

fun follow_parts :: "'w wf_env \<Rightarrow> string list \<Rightarrow> json \<Rightarrow> json option" where
  "follow_parts env [] j = Some j"
| "follow_parts env (part # parts) j =
     (case (case j of JObj d \<Rightarrow> dict_get d part | _ \<Rightarrow> None) of
        Some k \<Rightarrow> follow_parts env parts k
      | None \<Rightarrow> (case we_attr env j part of Some k \<Rightarrow> follow_parts env parts k | None \<Rightarrow> None))"

definition resolve_text :: "'w wf_env \<Rightarrow> json \<Rightarrow> string \<Rightarrow> string + json" where
  "resolve_text env ctx v =
     (if contains_str ''{{'' v \<and> contains_str ''}}'' v
      then (case (case single_expression v of None \<Rightarrow> None | Some e \<Rightarrow> follow_parts env (split_on (CHR ''.'') e) ctx) of
              Some j \<Rightarrow> Inr j
            | None \<Rightarrow> (case we_template env v ctx of Inl e \<Rightarrow> Inl e | Inr t \<Rightarrow> Inr (JStr t)))
      else Inr (JStr v))"

fun resolve_placeholder :: "'w wf_env \<Rightarrow> json \<Rightarrow> json \<Rightarrow> string + json"
  and resolve_items :: "'w wf_env \<Rightarrow> json \<Rightarrow> json list \<Rightarrow> string + json list"
  and resolve_fields :: "'w wf_env \<Rightarrow> json \<Rightarrow> (string \<times> json) list \<Rightarrow> string + (string \<times> json) list" where
  "resolve_placeholder env ctx (JStr v) = resolve_text env ctx v"
| "resolve_placeholder env ctx (JObj d) = res_bind (resolve_fields env ctx d) (\<lambda>d1. Inr (JObj d1))"
| "resolve_placeholder env ctx (JArr xs) = res_bind (resolve_items env ctx xs) (\<lambda>ys. Inr (JArr ys))"
| "resolve_placeholder env ctx JNull = Inr JNull"
| "resolve_placeholder env ctx (JBool b) = Inr (JBool b)"
| "resolve_placeholder env ctx (JInt n) = Inr (JInt n)"
| "resolve_placeholder env ctx (JFloat t) = Inr (JFloat t)"
| "resolve_placeholder env ctx (JPy t r i) = Inr (JPy t r i)"
| "resolve_items env ctx [] = Inr []"
| "resolve_items env ctx (x # xs) =
     res_bind (resolve_placeholder env ctx x) (\<lambda>y. res_bind (resolve_items env ctx xs) (\<lambda>ys. Inr (y # ys)))"
| "resolve_fields env ctx [] = Inr []"
| "resolve_fields env ctx ((k, x) # xs) =
     res_bind (resolve_placeholder env ctx x) (\<lambda>y. res_bind (resolve_fields env ctx xs) (\<lambda>ys. Inr ((k, y) # ys)))"

text \<open>The repair before a step, which runs without a model: its arguments are used when it succeeds with any.\<close>

definition prepared :: "'w wf_env \<Rightarrow> string \<Rightarrow> json \<Rightarrow> string + json" where
  "prepared env skill params =
     (case snd (validate_and_repair (we_codecs env) (None :: unit llm option) (we_schema env skill) skill params 2 ()) of
        Inl x \<Rightarrow> Inl x
      | Inr res \<Rightarrow> Inr (if rr_success res \<and> rr_args res \<noteq> [] then JObj (rr_args res) else params))"


section \<open>A step\<close>

text \<open>The patch of a healing call: without an account, after an error and when the answer is no object the
parameters stay as they are.\<close>

definition unfenced_answer :: "string \<Rightarrow> string" where
  "unfenced_answer answer =
     (let s = py_strip answer
      in if starts_with fence s
         then (let ls = split_lines (universal_newlines s);
                   ms = (case ls of [] \<Rightarrow> [] | l # rest \<Rightarrow> if starts_with fence l then rest else ls);
                   ns = (if ms \<noteq> [] \<and> py_strip (last ms) = fence then butlast ms else ms)
               in py_strip (join_with nl ns))
         else s)"

definition heal_params :: "'w wf_env \<Rightarrow> 'w \<Rightarrow> string \<Rightarrow> json \<Rightarrow> string \<Rightarrow> 'w \<times> (string + json)" where
  "heal_params env w skill params err =
     (case we_provider env w skill params err of
        (w1, No_Account) \<Rightarrow> (w1, Inr params)
      | (w1, Heal_Raised x) \<Rightarrow> (w1, Inl x)
      | (w1, Heal_Error) \<Rightarrow> (w1, Inr params)
      | (w1, Heal_Answer answer) \<Rightarrow>
          (w1, Inr (case cd_loads (we_codecs env) (unfenced_answer answer) of Some (JObj d) \<Rightarrow> JObj d | _ \<Rightarrow> params)))"

text \<open>An output is a value of JSON, a Python literal or the text itself.\<close>

definition parse_output :: "codecs \<Rightarrow> string \<Rightarrow> json" where
  "parse_output cd raw =
     (case cd_loads cd raw of Some j \<Rightarrow> j | None \<Rightarrow> (case cd_literal cd raw of Some j \<Rightarrow> j | None \<Rightarrow> JStr raw))"

definition healing_attempts :: nat where
  "healing_attempts = 2"

text \<open>The outcome of a step: an exception that leaves it, its output, or the error of its last attempt.\<close>

datatype step_outcome = Left_By string | Output_Of json | Gave_Error string

fun run_attempts :: "'w wf_env \<Rightarrow> string \<Rightarrow> nat \<Rightarrow> 'w \<Rightarrow> json \<Rightarrow> 'w \<times> step_outcome" where
  "run_attempts env skill healings w params =
     (case we_skill env w skill params of
        (w1, answer) \<Rightarrow>
          (case (case answer of
                   Inl e \<Rightarrow> Inl e
                 | Inr out \<Rightarrow> if starts_with ''Error:'' (py_strip out) then Inl (py_strip out) else Inr out) of
             Inr out \<Rightarrow> (w1, Output_Of (parse_output (we_codecs env) out))
           | Inl e \<Rightarrow>
               (case healings of
                  0 \<Rightarrow> (w1, Gave_Error e)
                | Suc k \<Rightarrow>
                    (case heal_params env w1 skill params e of
                       (w2, Inl x) \<Rightarrow> (w2, Left_By x)
                     | (w2, Inr params1) \<Rightarrow> run_attempts env skill k w2 params1))))"

text \<open>The state of the engine: the world of the tools, the checkpoint files, the run and the outputs of its context.\<close>

record 'w wf_state =
  wx_world :: 'w
  wx_files :: "(string, json option) dict"
  wx_run :: wf_run
  wx_outputs :: wf_context

text \<open>A run that holds a value \<open>json.dumps\<close> does not take is not saved: the file stays as it was and the \<open>TypeError\<close> is
raised.\<close>

definition save_state :: "'w wf_env \<Rightarrow> 'w wf_state \<Rightarrow> 'w wf_state \<times> string option" where
  "save_state env s =
     (let r = (wx_run s)\<lparr>wr_updated := we_now env (wx_world s)\<rparr>
      in case json_image (run_json r) of
           None \<Rightarrow> (s\<lparr>wx_run := r\<rparr>, Some ''TypeError'')
         | Some j \<Rightarrow> (s\<lparr>wx_run := r, wx_files := dict_put (wr_session r @ ''.json'') (Some j) (wx_files s)\<rparr>, None))"

text \<open>Saving, and then an answer or the exception.\<close>

definition saving :: "'w wf_env \<Rightarrow> 'w wf_state \<Rightarrow> 'a \<Rightarrow> 'w wf_state \<times> (string + 'a)" where
  "saving env s b = (case save_state env s of (s1, None) \<Rightarrow> (s1, Inr b) | (s1, Some x) \<Rightarrow> (s1, Inl x))"

definition update_step :: "string \<Rightarrow> (step_run \<Rightarrow> step_run) \<Rightarrow> 'w wf_state \<Rightarrow> 'w wf_state" where
  "update_step sid f s =
     (let r = wx_run s
      in s\<lparr>wx_run := r\<lparr>wr_steps := map (\<lambda>(i, t). (i, if i = sid then f t else t)) (wr_steps r)\<rparr>\<rparr>)"

definition mark_run :: "step_status \<Rightarrow> 'w wf_state \<Rightarrow> 'w wf_state" where
  "mark_run st s = s\<lparr>wx_run := (wx_run s)\<lparr>wr_status := st\<rparr>\<rparr>"

definition mark_current :: "string option \<Rightarrow> 'w wf_state \<Rightarrow> 'w wf_state" where
  "mark_current c s = s\<lparr>wx_run := (wx_run s)\<lparr>wr_current := c\<rparr>\<rparr>"

definition in_world :: "'w \<Rightarrow> 'w wf_state \<Rightarrow> 'w wf_state" where
  "in_world w s = s\<lparr>wx_world := w\<rparr>"

text \<open>From the start of a step to its first suspension: the parameters it will run with, or the exception that leaves it.\<close>

definition start_step :: "'w wf_env \<Rightarrow> wf_step \<Rightarrow> 'w wf_state \<Rightarrow> 'w wf_state \<times> (string + string \<times> json)" where
  "start_step env d s =
     (case saving env (mark_current (Some (wp_id d))
             (update_step (wp_id d) (\<lambda>t. t\<lparr>wt_status := SS_Running, wt_started := Some (we_now env (wx_world s))\<rparr>) s)) (wp_skill d) of
        (s1, Inl x) \<Rightarrow> (s1, Inl x)
      | (s1, Inr None) \<Rightarrow> (s1, Inl ''skill_id'')
      | (s1, Inr (Some skill)) \<Rightarrow>
             (let s2 = in_world (we_emit env (wx_world s1) (Step_Started (wr_session (wx_run s1)) (wp_id d) skill)) s1
              in (s2, res_bind (resolve_placeholder env (context_json (wr_payload (wx_run s2)) (wx_outputs s2)) (wp_params d)) (\<lambda>ps.
                      res_bind (prepared env skill ps) (\<lambda>ps1. Inr (skill, ps1))))))"

definition succeed_step :: "'w wf_env \<Rightarrow> wf_step \<Rightarrow> json \<Rightarrow> 'w wf_state \<Rightarrow> 'w wf_state \<times> (string + bool)" where
  "succeed_step env d out s =
     (let s1 = update_step (wp_id d) (\<lambda>t. t\<lparr>wt_status := SS_Success, wt_output := out, wt_error := None,
                 wt_completed := Some (we_now env (wx_world s))\<rparr>) s
      in saving env (s1\<lparr>wx_outputs := dict_put (wp_id d) out (wx_outputs s1)\<rparr>) True)"

definition fail_step :: "'w wf_env \<Rightarrow> wf_step \<Rightarrow> string \<Rightarrow> 'w wf_state \<Rightarrow> 'w wf_state \<times> (string + bool)" where
  "fail_step env d e s =
     (let s1 = update_step (wp_id d) (\<lambda>t. t\<lparr>wt_status := SS_Failed, wt_error := Some e,
                 wt_completed := Some (we_now env (wx_world s))\<rparr>) s
      in if wp_on_failure d = ''skip''
         then saving env (update_step (wp_id d) (\<lambda>t. t\<lparr>wt_status := SS_Skipped\<rparr>) s1) True
         else if wp_on_failure d = ''fallback'' \<and> wp_fallback d \<noteq> None \<and> wp_fallback d \<noteq> Some []
         then saving env s1 False
         else saving env (mark_run SS_Failed s1) False)"

text \<open>From there to its end: \<^term>\<open>Inl x\<close> is the exception that leaves it, otherwise whether it succeeded.\<close>

definition finish_step :: "'w wf_env \<Rightarrow> wf_step \<Rightarrow> string + string \<times> json \<Rightarrow> 'w wf_state \<Rightarrow> 'w wf_state \<times> (string + bool)" where
  "finish_step env d prep s =
     (case prep of
        Inl x \<Rightarrow> (s, Inl x)
      | Inr (skill, params) \<Rightarrow>
          (case run_attempts env skill healing_attempts (wx_world s) params of
             (w1, Left_By x) \<Rightarrow> (in_world w1 s, Inl x)
           | (w1, out) \<Rightarrow>
               (let done_name = (case out of Output_Of j \<Rightarrow> ''success'' | _ \<Rightarrow> ''failed'');
                    w2 = we_emit env w1 (Step_Completed (wr_session (wx_run s)) (wp_id d) done_name (we_slow env (wx_world s) w1) (we_costly env w1));
                    s1 = in_world w2 s
                in case out of
                     Output_Of j \<Rightarrow> succeed_step env d j s1
                   | Gave_Error e \<Rightarrow> fail_step env d e s1
                   | Left_By x \<Rightarrow> (s1, Inl x))))"

end
