(* ===== verification/Workflow_Run.thy ===== *)
theory Workflow_Run
  imports Workflow_Engine
begin

text \<open>
  The evaluation loop of core/workflow_engine.py: which steps are active, which of them are ready, the rounds that run
  them, and \<open>execute\<close> with its new and resumed runs.
\<close>

section \<open>Dependencies and jumps\<close>

definition step_def_of :: "wf_step list \<Rightarrow> string \<Rightarrow> wf_step option" where
  "step_def_of defs sid = find (\<lambda>d. wp_id d = sid) defs"

text \<open>Here a \<open>dependencies\<close> of null falls back to \<open>depends_on\<close>, other than in the validation. An entry is whether
the dependencies are explicit, and their list, \<^const>\<open>None\<close> for a number.\<close>

definition run_dep :: "wf_step \<Rightarrow> dep_value" where
  "run_dep s =
     (case wp_dependencies s of
        None \<Rightarrow> (case wp_depends_on s of Some v \<Rightarrow> v | None \<Rightarrow> Dep_Null)
      | Some Dep_Null \<Rightarrow> (case wp_depends_on s of Some v \<Rightarrow> v | None \<Rightarrow> Dep_Null)
      | Some v \<Rightarrow> v)"

type_synonym dep_entry = "bool \<times> string list option"

fun step_dependencies :: "string option \<Rightarrow> wf_step list \<Rightarrow> (string, dep_entry) dict" where
  "step_dependencies prev [] = []"
| "step_dependencies prev (d # ds) =
     (wp_id d,
      (case run_dep d of
         Dep_Null \<Rightarrow> (False, Some (case prev of None \<Rightarrow> [] | Some p \<Rightarrow> [p]))
       | Dep_One x \<Rightarrow> (True, Some [x])
       | Dep_Many xs \<Rightarrow> (True, Some xs)
       | Dep_Number \<Rightarrow> (True, None))) # step_dependencies (Some (wp_id d)) ds"

definition get_next_step_id :: "'w wf_env \<Rightarrow> json \<Rightarrow> wf_step \<Rightarrow> string option" where
  "get_next_step_id env ctx d =
     (case wp_next d of
        None \<Rightarrow> None
      | Some t \<Rightarrow>
          if t = [] then None
          else if contains_str ''{{'' t \<and> contains_str ''}}'' t
          then (case we_template env t ctx of
                  Inl e \<Rightarrow> None
                | Inr r \<Rightarrow> if py_strip r = [] then None else Some (py_strip r))
          else Some t)"

definition step_ctx :: "'w wf_state \<Rightarrow> json" where
  "step_ctx s = context_json (wr_payload (wx_run s)) (wx_outputs s)"

fun dependents :: "string \<Rightarrow> (string, dep_entry) dict \<Rightarrow> run_error + string list" where
  "dependents sid [] = Inr []"
| "dependents sid ((c, (explicit, deps)) # ds) =
     (if explicit
      then (case deps of
              None \<Rightarrow> Inl (Step_Raised ''TypeError'')
            | Some xs \<Rightarrow> res_bind (dependents sid ds) (\<lambda>cs. Inr (if sid \<in> set xs then c # cs else cs)))
      else dependents sid ds)"

definition finished :: "step_run \<Rightarrow> bool" where
  "finished t \<longleftrightarrow> wt_status t \<in> {SS_Success, SS_Failed, SS_Skipped}"

definition passed_on :: "step_run \<Rightarrow> bool" where
  "passed_on t \<longleftrightarrow> wt_status t \<in> {SS_Success, SS_Skipped}"

text \<open>The steps an active step activates.\<close>

definition successors :: "'w wf_env \<Rightarrow> wf_step list \<Rightarrow> 'w wf_state \<Rightarrow> string \<Rightarrow> step_run \<Rightarrow> run_error + string list" where
  "successors env defs s sid t =
     (case step_def_of defs sid of
        None \<Rightarrow> Inl (Key_Missing sid)
      | Some d \<Rightarrow>
          (let nx = get_next_step_id env (step_ctx s) d
           in if passed_on t
              then (if nx = Some sid then Inl (Cycle_Through sid)
                    else res_bind (dependents sid (step_dependencies None defs)) (\<lambda>cs.
                           Inr ((case nx of None \<Rightarrow> [] | Some n \<Rightarrow> [n]) @ cs)))
              else if wt_status t = SS_Failed
              then Inr (if wp_on_failure d = ''skip'' then (case nx of None \<Rightarrow> [] | Some n \<Rightarrow> [n])
                        else if wp_on_failure d = ''fallback''
                        then (case wp_fallback d of None \<Rightarrow> [] | Some f \<Rightarrow> if f = [] then [] else [f])
                        else [])
              else Inr []))"

definition successor_table :: "'w wf_env \<Rightarrow> wf_step list \<Rightarrow> 'w wf_state \<Rightarrow> (string, run_error + string list) dict" where
  "successor_table env defs s = map (\<lambda>(sid, t). (sid, successors env defs s sid t)) (wr_steps (wx_run s))"

definition add_new :: "string list \<Rightarrow> string list \<Rightarrow> string list" where
  "add_new ns act = fold (\<lambda>n a. if n \<in> set a then a else a @ [n]) ns act"

fun pass_over ::
    "(string, run_error + string list) dict \<Rightarrow> string list \<Rightarrow> string list \<Rightarrow> run_error + string list" where
  "pass_over tab act [] = Inr act"
| "pass_over tab act (x # xs) =
     (case dict_get_default tab x (Inr []) of
        Inl e \<Rightarrow> Inl e
      | Inr ns \<Rightarrow> pass_over tab (add_new ns act) xs)"

text \<open>\<open>while changed\<close>: passes over the active steps until one adds nothing.\<close>

definition offered :: "(string, run_error + string list) dict \<Rightarrow> string set" where
  "offered tab = (\<Union>(k, r) \<in> set tab. case r of Inl e \<Rightarrow> {} | Inr ns \<Rightarrow> set ns)"

lemma finite_offered [simp]: "finite (offered tab)"
  by (auto simp: offered_def split: sum.splits)

lemma set_add_new: "set (add_new ns act) = set act \<union> set ns"
  unfolding add_new_def by (induction ns arbitrary: act) auto

lemma add_new_prefix: "\<exists>more. add_new ns act = act @ more \<and> set more \<inter> set act = {}"
  unfolding add_new_def
proof (induction ns arbitrary: act)
  case (Cons n ns)
  from Cons.IH [of "if n \<in> set act then act else act @ [n]"] show ?case by (auto split: if_splits)
qed simp

lemma distinct_add_new: "distinct act \<Longrightarrow> distinct (add_new ns act)"
  unfolding add_new_def by (induction ns arbitrary: act) auto

lemma offered_get: "dict_get_default tab x (Inr []) = Inr ns \<Longrightarrow> set ns \<subseteq> offered tab"
  by (force simp: offered_def dict_get_default_def dict_get_def split: option.splits dest: map_of_SomeD)

lemma pass_over_spec:
  "pass_over tab act xs = Inr a \<Longrightarrow>
     (\<exists>more. a = act @ more \<and> set more \<inter> set act = {}) \<and> set a \<subseteq> set act \<union> offered tab"
proof (induction tab act xs arbitrary: a rule: pass_over.induct)
  case (2 tab act x xs)
  then obtain ns where ns: "dict_get_default tab x (Inr []) = Inr ns" "pass_over tab (add_new ns act) xs = Inr a"
    by (auto split: sum.splits)
  obtain more where m: "add_new ns act = act @ more" "set more \<inter> set act = {}" using add_new_prefix by blast
  obtain rest where r: "a = add_new ns act @ rest" "set rest \<inter> set (add_new ns act) = {}" "set a \<subseteq> set (add_new ns act) \<union> offered tab"
    using 2(1) [OF ns] by blast
  from m r(1,2) have "a = act @ (more @ rest) \<and> set (more @ rest) \<inter> set act = {}" by auto
  with r(3) offered_get [OF ns(1)] show ?case unfolding set_add_new by blast
qed simp

function grow_active :: "(string, run_error + string list) dict \<Rightarrow> string list \<Rightarrow> run_error + string list" where
  "grow_active tab act =
     (case pass_over tab act act of
        Inl e \<Rightarrow> Inl e
      | Inr a \<Rightarrow> if a = act then Inr a else grow_active tab a)"
  by pat_completeness auto
termination
proof (relation "measure (\<lambda>(tab, act). card (offered tab - set act))", goal_cases)
  case (2 tab act a)
  then obtain more where more: "a = act @ more" "set more \<inter> set act = {}" "set a \<subseteq> set act \<union> offered tab" "more \<noteq> []"
    using pass_over_spec [OF 2(1)] by fastforce
  then obtain x where "x \<in> set more" by (cases more) auto
  with more have "x \<in> offered tab - set act" "x \<notin> offered tab - set a" by auto
  then have "card (offered tab - set a) < card (offered tab - set act)"
    using more(1) by (intro psubset_card_mono) auto
  then show ?case by simp
qed simp


definition initial_active :: "wf_step list \<Rightarrow> 'w wf_state \<Rightarrow> string list" where
  "initial_active defs s =
     (let steps = wr_steps (wx_run s);
          roots = map fst (filter (\<lambda>(i, (e, ds)). ds = Some [] \<and> dict_get steps i \<noteq> None) (step_dependencies None defs));
          ended = map fst (filter (\<lambda>(i, t). finished t) steps)
      in add_new ((case defs of [] \<Rightarrow> [] | d # ds \<Rightarrow> [wp_id d]) @ roots @ ended) [])"

definition active_steps :: "'w wf_env \<Rightarrow> wf_step list \<Rightarrow> 'w wf_state \<Rightarrow> run_error + string list" where
  "active_steps env defs s = grow_active (successor_table env defs s) (initial_active defs s)"


section \<open>A round\<close>

text \<open>A dependency is settled for a step when it passed, or failed with the step as its fallback.\<close>

definition dep_settled :: "wf_step list \<Rightarrow> 'w wf_state \<Rightarrow> string \<Rightarrow> string \<Rightarrow> bool" where
  "dep_settled defs s sid dep =
     (case dict_get (wr_steps (wx_run s)) dep of
        None \<Rightarrow> False
      | Some t \<Rightarrow>
          passed_on t
          \<or> (wt_status t = SS_Failed
             \<and> (case step_def_of defs dep of
                  None \<Rightarrow> False
                | Some d \<Rightarrow> wp_on_failure d = ''fallback'' \<and> wp_fallback d = Some sid)))"

text \<open>Whether a pending step can run, with the two ways in which looking fails.\<close>

definition readiness :: "wf_step list \<Rightarrow> 'w wf_state \<Rightarrow> string \<Rightarrow> run_error + bool" where
  "readiness defs s sid =
     (case dict_get (wr_steps (wx_run s)) sid of
        None \<Rightarrow> Inl (Key_Missing sid)
      | Some t \<Rightarrow>
          if wt_status t \<noteq> SS_Pending then Inr False
          else (case dict_get (step_dependencies None defs) sid of
                  None \<Rightarrow> Inl (Key_Missing sid)
                | Some (explicit, None) \<Rightarrow> Inl (Step_Raised ''TypeError'')
                | Some (explicit, Some deps) \<Rightarrow> Inr (list_all (dep_settled defs s sid) deps)))"

fun ready_steps :: "wf_step list \<Rightarrow> 'w wf_state \<Rightarrow> string list \<Rightarrow> run_error + string list" where
  "ready_steps defs s [] = Inr []"
| "ready_steps defs s (sid # sids) =
     res_bind (readiness defs s sid) (\<lambda>b. res_bind (ready_steps defs s sids) (\<lambda>rs. Inr (if b then sid # rs else rs)))"

definition run_status :: "'w wf_state \<Rightarrow> string \<Rightarrow> step_status option" where
  "run_status s sid = map_option wt_status (dict_get (wr_steps (wx_run s)) sid)"

definition fatal :: "wf_step list \<Rightarrow> 'w wf_state \<Rightarrow> string \<Rightarrow> bool" where
  "fatal defs s sid =
     (run_status s sid = Some SS_Failed
      \<and> (case step_def_of defs sid of None \<Rightarrow> False | Some d \<Rightarrow> wp_on_failure d = ''fail''))"

definition failures :: "'w wf_state \<Rightarrow> string list \<Rightarrow> (string \<times> string) list" where
  "failures s act =
     concat (map (\<lambda>sid. case dict_get (wr_steps (wx_run s)) sid of
                          Some t \<Rightarrow> (case wt_error t of Some e \<Rightarrow> if wt_status t = SS_Failed \<and> e \<noteq> [] then [(sid, e)] else [] | None \<Rightarrow> [])
                        | None \<Rightarrow> []) act)"

fun start_all :: "'w wf_env \<Rightarrow> wf_step list \<Rightarrow> 'w wf_state \<Rightarrow> 'w wf_state \<times> (wf_step \<times> (string + string \<times> json)) list" where
  "start_all env [] s = (s, [])"
| "start_all env (d # ds) s =
     (case start_step env d s of (s1, prep) \<Rightarrow>
        (case start_all env ds s1 of (s2, preps) \<Rightarrow> (s2, (d, prep) # preps)))"

fun finish_all :: "'w wf_env \<Rightarrow> (wf_step \<times> (string + string \<times> json)) list \<Rightarrow> 'w wf_state \<Rightarrow> 'w wf_state \<times> (string + bool) list" where
  "finish_all env [] s = (s, [])"
| "finish_all env ((d, prep) # ps) s =
     (case finish_step env d prep s of (s1, r) \<Rightarrow>
        (case finish_all env ps s1 of (s2, rs) \<Rightarrow> (s2, r # rs)))"

definition first_raised :: "(string + 'b) list \<Rightarrow> string option" where
  "first_raised rs = (case filter (\<lambda>r. \<not> is_ok r) rs of Inl x # _ \<Rightarrow> Some x | _ \<Rightarrow> None)"

text \<open>The steps of a round in the order in which their tools return.\<close>

definition arranged :: "string list \<Rightarrow> (wf_step \<times> 'p) list \<Rightarrow> (wf_step \<times> 'p) list" where
  "arranged ids ps = concat (map (\<lambda>i. filter (\<lambda>(d, p). wp_id d = i) ps) ids)"

datatype 'w round_result =
    Round_Finished
  | Round_Halted "'w wf_state" run_error
  | Round_Again "'w wf_state"
  | Round_Waiting

text \<open>Leaving the loop with an error after saving, or with the exception of the saving.\<close>

definition halt_saved :: "'w wf_env \<Rightarrow> 'w wf_state \<Rightarrow> run_error \<Rightarrow> 'w round_result" where
  "halt_saved env s e =
     (case saving env s e of (s1, Inr e1) \<Rightarrow> Round_Halted s1 e1 | (s1, Inl x) \<Rightarrow> Round_Halted s1 (Step_Raised x))"

text \<open>Running the picked steps; an exception of one leaves the round, while the others run on.\<close>

definition run_picked :: "'w wf_env \<Rightarrow> wf_step list \<Rightarrow> string list \<Rightarrow> string list \<Rightarrow> 'w wf_state \<Rightarrow> 'w round_result" where
  "run_picked env defs act picked s =
     (case start_all env (concat (map (\<lambda>sid. case step_def_of defs sid of None \<Rightarrow> [] | Some d \<Rightarrow> [d]) picked)) s of
        (s1, preps) \<Rightarrow>
          (case finish_all env (arranged (we_finish env (wx_world s1) picked) preps) s1 of
             (s2, rs) \<Rightarrow>
               (case (case first_raised (map snd preps) of Some x \<Rightarrow> Some x | None \<Rightarrow> first_raised rs) of
                  Some x \<Rightarrow> Round_Halted s2 (Step_Raised x)
                | None \<Rightarrow>
                    if Inr False \<in> set rs \<and> list_ex (fatal defs s2) picked
                    then halt_saved env (mark_run SS_Failed s2) (Step_Failed (failures s2 act))
                    else Round_Again s2)))"

definition wf_round :: "'w wf_env \<Rightarrow> wf_step list \<Rightarrow> 'w wf_state \<Rightarrow> 'w round_result" where
  "wf_round env defs s =
     (case active_steps env defs s of
        Inl (Cycle_Through n) \<Rightarrow>
          halt_saved env (mark_current (Some n) (mark_run SS_Failed s)) (Cycle_Through n)
      | Inl e \<Rightarrow> Round_Halted s e
      | Inr act \<Rightarrow>
          (case find (\<lambda>sid. run_status s sid = None) act of
             Some sid \<Rightarrow> Round_Halted s (Key_Missing sid)
           | None \<Rightarrow>
               if list_all (\<lambda>sid. run_status s sid \<in> {Some SS_Success, Some SS_Failed, Some SS_Skipped}) act then Round_Finished
               else if list_ex (fatal defs s) act
               then halt_saved env (mark_run SS_Failed s) (Step_Failed (failures s act))
               else
                 (case ready_steps defs s (we_order env (wx_world s) act) of
                    Inl e \<Rightarrow> Round_Halted s e
                  | Inr [] \<Rightarrow>
                      (if list_ex (\<lambda>sid. run_status s sid = Some SS_Running) act then Round_Waiting
                       else
                         (let blocked = filter (\<lambda>sid. run_status s sid = Some SS_Pending) (we_order env (wx_world s) act)
                          in halt_saved env (mark_current (case blocked of [] \<Rightarrow> None | b # bs \<Rightarrow> Some b) (mark_run SS_Failed s)) (Deadlock blocked)))
                  | Inr ready \<Rightarrow> run_picked env defs act (take (we_limit env (wx_world s)) ready) s)))"

partial_function (option) run_loop :: "'w wf_env \<Rightarrow> wf_step list \<Rightarrow> 'w wf_state \<Rightarrow> ('w wf_state \<times> run_error option) option" where
  "run_loop env defs s =
     (case wf_round env defs s of
        Round_Finished \<Rightarrow> Some (s, None)
      | Round_Halted s1 e \<Rightarrow> Some (s1, Some e)
      | Round_Again s1 \<Rightarrow> run_loop env defs s1
      | Round_Waiting \<Rightarrow> run_loop env defs s)"

declare run_loop.simps [code]


section \<open>execute\<close>

definition new_run :: "string \<Rightarrow> string \<Rightarrow> (string, json) dict \<Rightarrow> string \<Rightarrow> wf_step list \<Rightarrow> wf_run" where
  "new_run workflow session payload now defs =
     \<lparr>wr_workflow = workflow, wr_session = session, wr_status = SS_Running, wr_current = None,
      wr_steps = map (\<lambda>d. (wp_id d, new_step (wp_id d))) defs, wr_payload = payload, wr_created = now, wr_updated = now\<rparr>"

definition resumed_step :: "step_run \<Rightarrow> step_run" where
  "resumed_step t = (if wt_status t = SS_Failed then t\<lparr>wt_status := SS_Pending, wt_error := None\<rparr> else t)"

definition resumed_run :: "(string, json) dict \<Rightarrow> wf_run \<Rightarrow> wf_run" where
  "resumed_run payload r =
     r\<lparr>wr_status := SS_Running, wr_payload := fold (\<lambda>(k, v). dict_put k v) payload (wr_payload r),
       wr_steps := map (\<lambda>(i, t). (i, resumed_step t)) (wr_steps r)\<rparr>"

definition outputs_of :: "wf_run \<Rightarrow> wf_context" where
  "outputs_of r = map (\<lambda>(i, t). (i, wt_output t)) (filter (\<lambda>(i, t). wt_status t = SS_Success) (wr_steps r))"

definition load_state :: "(string, json option) dict \<Rightarrow> string \<Rightarrow> run_error + wf_run option" where
  "load_state files session =
     res_bind (run_file session) (\<lambda>name.
       case dict_get files name of
         None \<Rightarrow> Inr None
       | Some None \<Rightarrow> Inl (Bad_Checkpoint ''unreadable'')
       | Some (Some j) \<Rightarrow> (case run_of_json session j of Inl e \<Rightarrow> Inl (Bad_Checkpoint e) | Inr r \<Rightarrow> Inr (Some r)))"

text \<open>The state the loop starts in.\<close>

definition begin_run ::
    "'w wf_env \<Rightarrow> wf_step list \<Rightarrow> string \<Rightarrow> string \<Rightarrow> (string, json) dict \<Rightarrow> bool \<Rightarrow> 'w \<Rightarrow> (string, json option) dict
       \<Rightarrow> run_error + 'w wf_state" where
  "begin_run env defs workflow session payload resume w files =
     res_bind (load_state files session) (\<lambda>stored.
       if (case stored of None \<Rightarrow> False | Some r \<Rightarrow> wr_workflow r \<noteq> workflow) then Inl (Wrong_Workflow (wr_workflow (the stored)))
       else if resume \<and> (case stored of None \<Rightarrow> False | Some r \<Rightarrow> wr_status r = SS_Failed)
       then (let r = resumed_run payload (the stored)
             in Inr \<lparr>wx_world = w, wx_files = files, wx_run = r, wx_outputs = outputs_of r\<rparr>)
       else Inr \<lparr>wx_world = w, wx_files = dict_pop (session @ ''.json'') files,
                 wx_run = new_run workflow session payload (we_now env w) defs, wx_outputs = []\<rparr>)"

definition conclude :: "'w wf_env \<Rightarrow> 'w wf_state \<Rightarrow> 'w wf_state \<times> (string + wf_context)" where
  "conclude env s = saving env (mark_current None (mark_run SS_Success s)) (outputs_of (wx_run s))"

definition execute_workflow ::
    "'w wf_env \<Rightarrow> wf_error + wf_step list \<Rightarrow> string \<Rightarrow> string \<Rightarrow> (string, json) dict \<Rightarrow> bool \<Rightarrow> 'w \<Rightarrow> (string, json option) dict
       \<Rightarrow> (('w \<times> (string, json option) dict) \<times> (run_error + wf_context)) option" where
  "execute_workflow env loaded workflow session payload resume w files =
     (case loaded of
        Inl e \<Rightarrow> Some ((w, files), Inl (Not_Loaded e))
      | Inr defs \<Rightarrow>
          (case begin_run env defs workflow session payload resume w files of
             Inl e \<Rightarrow> Some ((w, files), Inl e)
           | Inr s \<Rightarrow>
               (case run_loop env defs s of
                  None \<Rightarrow> None
                | Some (s1, Some e) \<Rightarrow> Some ((wx_world s1, wx_files s1), Inl e)
                | Some (s1, None) \<Rightarrow>
                    (case conclude env s1 of
                       (s2, Inl x) \<Rightarrow> Some ((wx_world s2, wx_files s2), Inl (Step_Raised x))
                     | (s2, Inr outs) \<Rightarrow> Some ((wx_world s2, wx_files s2), Inr outs)))))"

end
