(* ===== verification/Workflow_Rounds.thy ===== *)
theory Workflow_Rounds
  imports Workflow_Run
begin

text \<open>
  What a round of the workflow engine does to the steps: it changes those it picked and no others, they were pending
  with all their dependencies settled, and each of them has ended when the round ends without an exception.
\<close>

section \<open>Steps\<close>

definition step_in :: "'w wf_state \<Rightarrow> string \<Rightarrow> step_run option" where
  "step_in s sid = dict_get (wr_steps (wx_run s)) sid"

lemma run_status_step: "run_status s sid = map_option wt_status (step_in s sid)"
  by (simp add: run_status_def step_in_def)

lemma wf_round_simps [simp]:
  "wr_steps (wx_run (mark_run st s)) = wr_steps (wx_run s)"
  "wr_steps (wx_run (mark_current c s)) = wr_steps (wx_run s)"
  "wx_run (in_world w s) = wx_run s" "wx_outputs (in_world w s) = wx_outputs s" "wx_files (in_world w s) = wx_files s"
  "wx_world (in_world w s) = w"
  by (simp_all add: mark_run_def mark_current_def in_world_def)

lemma step_in_simps [simp]:
  "step_in (mark_run st s) k = step_in s k" "step_in (mark_current c s) k = step_in s k"
  "step_in (in_world w s) k = step_in s k" "step_in (s\<lparr>wx_outputs := outs\<rparr>) k = step_in s k"
  by (simp_all add: step_in_def)

lemma dict_get_map_pair: "dict_get (map (\<lambda>(i, t). (i, g i t)) d) k = map_option (g k) (dict_get d k)"
  by (induction d) (auto simp: dict_get_def)

lemma step_in_update [simp]: "step_in (update_step sid f s) k = (if k = sid then map_option f (step_in s k) else step_in s k)"
  by (simp add: step_in_def update_step_def Let_def dict_get_map_pair option.map_ident)

text \<open>Saving changes no step.\<close>

lemma saving_result:
  "saving env s b = (s1, r) \<Longrightarrow> step_in s1 = step_in s \<and> (\<forall>x. r = Inr x \<longrightarrow> x = b)"
  by (auto simp: saving_def save_state_def step_in_def Let_def fun_eq_iff split: option.split_asm)

lemma saving_cases:
  obtains s1 r where "saving env s b = (s1, r)" "step_in s1 = step_in s" "r = Inr b \<or> (\<exists>x. r = Inl x)"
proof -
  obtain s1 r where s: "saving env s b = (s1, r)" by fastforce
  from saving_result [OF s] show ?thesis by (intro that [OF s]; cases r) auto
qed

lemma halt_saved_facts: "\<exists>s1 e1. halt_saved env s e = Round_Halted s1 e1 \<and> step_in s1 = step_in s"
  by (cases rule: saving_cases [of env s e]) (auto simp: halt_saved_def)

definition step_over :: "step_status option \<Rightarrow> bool" where
  "step_over st \<longleftrightarrow> st \<in> {Some SS_Success, Some SS_Failed, Some SS_Skipped}"

lemma step_over_simps [simp]:
  "step_over (Some SS_Success)" "step_over (Some SS_Failed)" "step_over (Some SS_Skipped)" "\<not> step_over (Some SS_Pending)" "\<not> step_over (Some SS_Running)"
  "\<not> step_over None" "\<not> step_over (Some (SS_Other t))"
  by (simp_all add: step_over_def)

lemma start_step_facts:
  assumes "start_step env d s = (s1, prep)"
  shows "(k \<noteq> wp_id d \<longrightarrow> step_in s1 k = step_in s k) \<and> (step_in s1 k = None \<longleftrightarrow> step_in s k = None)
     \<and> (step_in s (wp_id d) \<noteq> None \<longrightarrow> run_status s1 (wp_id d) = Some SS_Running)"
proof -
  let ?t = "mark_current (Some (wp_id d)) (update_step (wp_id d) (\<lambda>t. t\<lparr>wt_status := SS_Running, wt_started := Some (we_now env (wx_world s))\<rparr>) s)"
  obtain s2 r where sv: "saving env ?t (wp_skill d) = (s2, r)" "step_in s2 = step_in ?t"
    by (rule saving_cases)
  have "step_in s1 = step_in s2"
    using assms sv(1) by (auto simp: start_step_def Let_def fun_eq_iff split: option.split_asm sum.split_asm)
  then show ?thesis by (auto simp: sv(2) run_status_step)
qed

lemma start_step_other: "start_step env d s = (s1, prep) \<Longrightarrow> k \<noteq> wp_id d \<Longrightarrow> step_in s1 k = step_in s k"
  using start_step_facts by blast

lemma start_step_own: "start_step env d s = (s1, prep) \<Longrightarrow> step_in s (wp_id d) \<noteq> None \<Longrightarrow> run_status s1 (wp_id d) = Some SS_Running"
  using start_step_facts by blast

lemma start_step_known: "start_step env d s = (s1, prep) \<Longrightarrow> step_in s1 k = None \<longleftrightarrow> step_in s k = None"
  using start_step_facts by blast

definition step_ended :: "wf_step \<Rightarrow> 'w wf_state \<Rightarrow> 'w wf_state \<Rightarrow> string + bool \<Rightarrow> bool" where
  "step_ended d s s1 r \<longleftrightarrow>
     (\<forall>k. (k \<noteq> wp_id d \<longrightarrow> step_in s1 k = step_in s k) \<and> (step_in s1 k = None \<longleftrightarrow> step_in s k = None))
     \<and> (\<forall>b. r = Inr b \<and> step_in s (wp_id d) \<noteq> None \<longrightarrow>
          step_over (run_status s1 (wp_id d)) \<and> (b \<longleftrightarrow> run_status s1 (wp_id d) \<noteq> Some SS_Failed))"

text \<open>A step that is changed in place and then saved.\<close>

lemma saved_step_ended:
  assumes "saving env t b = (s1, r)" "\<And>k. k \<noteq> wp_id d \<Longrightarrow> step_in t k = step_in s k" "\<And>k. step_in t k = None \<longleftrightarrow> step_in s k = None"
    and "step_in s (wp_id d) \<noteq> None \<Longrightarrow> step_over (run_status t (wp_id d)) \<and> (b \<longleftrightarrow> run_status t (wp_id d) \<noteq> Some SS_Failed)"
  shows "step_ended d s s1 r"
proof -
  have "step_in s1 = step_in t" "\<And>x. r = Inr x \<Longrightarrow> x = b" using saving_result [OF assms(1)] by blast+
  then show ?thesis using assms(2-4) by (auto simp: step_ended_def run_status_step)
qed

lemma fail_step_facts:
  assumes "fail_step env d e s = (s1, r)"
  shows "step_ended d s s1 r"
proof -
  let ?t = "update_step (wp_id d) (\<lambda>t. t\<lparr>wt_status := SS_Failed, wt_error := Some e, wt_completed := Some (we_now env (wx_world s))\<rparr>) s"
  consider "saving env (update_step (wp_id d) (\<lambda>t. t\<lparr>wt_status := SS_Skipped\<rparr>) ?t) True = (s1, r)"
    | "saving env ?t False = (s1, r)" | "saving env (mark_run SS_Failed ?t) False = (s1, r)"
    using assms unfolding fail_step_def Let_def by (auto split: if_split_asm)
  then show ?thesis
    by cases (erule saved_step_ended; auto simp: run_status_step)+
qed

lemma succeed_step_facts: "succeed_step env d out s = (s1, r) \<Longrightarrow> step_ended d s s1 r"
  unfolding succeed_step_def Let_def by (erule saved_step_ended) (auto simp: run_status_step)

lemma finish_step_facts:
  assumes "finish_step env d prep s = (s1, r)"
  shows "(k \<noteq> wp_id d \<longrightarrow> step_in s1 k = step_in s k) \<and> (step_in s1 k = None \<longleftrightarrow> step_in s k = None)
     \<and> (\<forall>b. r = Inr b \<and> step_in s (wp_id d) \<noteq> None \<longrightarrow>
          step_over (run_status s1 (wp_id d)) \<and> (b \<longleftrightarrow> run_status s1 (wp_id d) \<noteq> Some SS_Failed))"
proof (cases prep)
  case (Inl x)
  with assms show ?thesis by (auto simp: finish_step_def)
next
  case (Inr p)
  obtain skill params where p: "p = (skill, params)" by (cases p)
  obtain w1 out where ra: "run_attempts env skill healing_attempts (wx_world s) params = (w1, out)" by fastforce
  show ?thesis
  proof (cases out)
    case (Left_By x)
    with assms Inr p ra show ?thesis by (auto simp: finish_step_def)
  next
    case (Output_Of j)
    with assms Inr p ra obtain w2 where "succeed_step env d j (in_world w2 s) = (s1, r)"
      by (auto simp: finish_step_def Let_def)
    from succeed_step_facts [OF this] show ?thesis by (auto simp: step_ended_def)
  next
    case (Gave_Error e)
    with assms Inr p ra obtain w2 where "fail_step env d e (in_world w2 s) = (s1, r)"
      by (auto simp: finish_step_def Let_def)
    from fail_step_facts [OF this] show ?thesis by (auto simp: step_ended_def)
  qed
qed


section \<open>Rounds\<close>

lemma start_all_facts:
  "start_all env ds s = (s1, preps) \<Longrightarrow>
     map fst preps = ds \<and> (k \<notin> wp_id ` set ds \<longrightarrow> step_in s1 k = step_in s k) \<and> (step_in s1 k = None \<longleftrightarrow> step_in s k = None)
     \<and> (k \<in> wp_id ` set ds \<and> step_in s k \<noteq> None \<longrightarrow> run_status s1 k = Some SS_Running)"
proof (induction ds arbitrary: s s1 preps)
  case (Cons d ds)
  obtain s2 prep where st: "start_step env d s = (s2, prep)" by fastforce
  obtain s3 ps where al: "start_all env ds s2 = (s3, ps)" by fastforce
  from Cons.prems st al have r: "s1 = s3" "preps = (d, prep) # ps" by simp_all
  note ih = Cons.IH [OF al]
  have "run_status s3 (wp_id d) = Some SS_Running" if "step_in s (wp_id d) \<noteq> None" "k = wp_id d"
  proof (cases "k \<in> wp_id ` set ds")
    case True
    moreover have "step_in s2 k \<noteq> None" using that start_step_known [OF st, of k] by simp
    ultimately show ?thesis unfolding that(2) [symmetric] using ih by blast
  next
    case False
    with ih that start_step_own [OF st] show ?thesis by (simp add: run_status_step)
  qed
  with ih start_step_other [OF st, of k] start_step_known [OF st, of k] show ?case by (auto simp: r)
qed simp

lemma finish_all_other:
  "finish_all env ps s = (s1, rs) \<Longrightarrow> (k \<notin> wp_id ` fst ` set ps \<longrightarrow> step_in s1 k = step_in s k) \<and> (step_in s1 k = None \<longleftrightarrow> step_in s k = None)"
proof (induction ps arbitrary: s rs)
  case (Cons p ps)
  obtain d prep where p: "p = (d, prep)" by (cases p)
  obtain s2 r where f: "finish_step env d prep s = (s2, r)" by fastforce
  obtain s3 rs1 where al: "finish_all env ps s2 = (s3, rs1)" by fastforce
  from Cons.prems p f al have "s1 = s3" by simp
  with Cons.IH al finish_step_facts [OF f, of k] show ?case by (auto simp: p)
qed simp

lemma finish_all_ends:
  "finish_all env ps s = (s1, rs) \<Longrightarrow> list_all is_ok rs \<Longrightarrow> k \<in> wp_id ` fst ` set ps \<Longrightarrow> step_in s k \<noteq> None \<Longrightarrow>
     step_over (run_status s1 k) \<and> (Inr False \<notin> set rs \<longrightarrow> run_status s1 k \<noteq> Some SS_Failed)"
proof (induction ps arbitrary: s rs)
  case (Cons p ps)
  obtain d prep where p: "p = (d, prep)" by (cases p)
  obtain s2 r where f: "finish_step env d prep s = (s2, r)" by fastforce
  obtain s3 rs1 where al: "finish_all env ps s2 = (s3, rs1)" by fastforce
  from Cons.prems p f al have q: "s1 = s3" "rs = r # rs1" by simp_all
  from Cons.prems(2) q obtain b where b: "r = Inr b" by (auto simp: is_ok_iff)
  have known: "step_in s2 k \<noteq> None" using finish_step_facts [OF f, of k] Cons.prems(4) by blast
  show ?case
  proof (cases "k \<in> wp_id ` fst ` set ps")
    case True
    with Cons.IH [of s2 rs1] al Cons.prems(2) q known show ?thesis by auto
  next
    case False
    then have k: "k = wp_id d" using Cons.prems(3) p by auto
    have "step_in s1 k = step_in s2 k" using finish_all_other [OF al, of k] False q by blast
    with finish_step_facts [OF f, of k] b Cons.prems(4) k q show ?thesis by (auto simp: run_status_step)
  qed
qed simp

lemma first_raised_None: "first_raised rs = None \<longleftrightarrow> list_all is_ok rs"
proof -
  have "filter (\<lambda>r. \<not> is_ok r) rs = [] \<longleftrightarrow> list_all is_ok rs" by (auto simp: filter_empty_conv list_all_iff)
  moreover have "\<exists>x. r = Inl x" if "filter (\<lambda>r. \<not> is_ok r) rs = r # rest" for r rest
  proof -
    have "r \<in> set (filter (\<lambda>r. \<not> is_ok r) rs)" unfolding that by simp
    then have "\<not> is_ok r" by simp
    then show ?thesis by (cases r) simp_all
  qed
  ultimately show ?thesis by (auto simp: first_raised_def split: list.splits sum.splits)
qed

definition good_env :: "'w wf_env \<Rightarrow> bool" where
  "good_env env \<longleftrightarrow> (\<forall>w xs. set (we_order env w xs) = set xs) \<and> (\<forall>w xs. set (we_finish env w xs) = set xs) \<and> (\<forall>w. 0 < we_limit env w)"

lemma set_arranged: "set ids = fst_ids \<Longrightarrow> set (arranged ids ps) = {(d, p) \<in> set ps. wp_id d \<in> fst_ids}"
  by (auto simp: arranged_def)

lemma step_dependencies_def_of:
  "dict_get (step_dependencies prev defs) sid \<noteq> None \<Longrightarrow> \<exists>d. step_def_of defs sid = Some d \<and> wp_id d = sid \<and> d \<in> set defs"
  by (induction defs arbitrary: prev) (auto simp: dict_get_def step_def_of_def split: if_splits)

text \<open>What the picked steps have in common.\<close>

definition startable :: "wf_step list \<Rightarrow> 'w wf_state \<Rightarrow> string \<Rightarrow> bool" where
  "startable defs s sid \<longleftrightarrow> run_status s sid = Some SS_Pending
     \<and> (\<exists>e deps. dict_get (step_dependencies None defs) sid = Some (e, Some deps) \<and> list_all (dep_settled defs s sid) deps)"

lemma ready_startable: "ready_steps defs s sids = Inr ready \<Longrightarrow> sid \<in> set ready \<longleftrightarrow> sid \<in> set sids \<and> startable defs s sid"
proof (induction sids arbitrary: ready)
  case (Cons x xs)
  then obtain b rs where r: "readiness defs s x = Inr b" "ready_steps defs s xs = Inr rs" "ready = (if b then x # rs else rs)"
    by (auto simp: res_bind_eq_Inr)
  have "b \<longleftrightarrow> startable defs s x"
    using r(1) by (auto simp: readiness_def startable_def run_status_def split: option.splits if_splits prod.splits)
  with r Cons.IH [OF r(2)] show ?case by auto
qed simp

lemma run_picked_facts:
  assumes "good_env env" "\<And>sid. sid \<in> set picked \<Longrightarrow> startable defs s sid"
  shows "case run_picked env defs act picked s of
      Round_Finished \<Rightarrow> False | Round_Waiting \<Rightarrow> False
    | Round_Halted s1 e \<Rightarrow> (k \<notin> set picked \<longrightarrow> step_in s1 k = step_in s k)
    | Round_Again s1 \<Rightarrow> (k \<notin> set picked \<longrightarrow> step_in s1 k = step_in s k) \<and> (k \<in> set picked \<longrightarrow> step_over (run_status s1 k) \<and> \<not> fatal defs s1 k)"
proof -
  let ?ds = "concat (map (\<lambda>sid. case step_def_of defs sid of None \<Rightarrow> [] | Some d \<Rightarrow> [d]) picked)"
  obtain s1 preps where st: "start_all env ?ds s = (s1, preps)" by fastforce
  obtain s2 rs where fin: "finish_all env (arranged (we_finish env (wx_world s1) picked) preps) s1 = (s2, rs)" by fastforce
  have own: "\<exists>d. step_def_of defs sid = Some d \<and> wp_id d = sid" if "sid \<in> set picked" for sid
    using assms(2) [OF that] step_dependencies_def_of [of None defs sid] by (auto simp: startable_def)
  have ds: "wp_id ` set ?ds = set picked"
  proof -
    have "wp_id ` set ?ds = (\<Union>sid \<in> set picked. {sid})"
      using own by (fastforce split: option.splits)
    then show ?thesis by simp
  qed
  note sf = start_all_facts [OF st]
  have preps: "fst ` set preps = set ?ds" using sf by (metis list.set_map)
  have ar: "set (arranged (we_finish env (wx_world s1) picked) preps) = set preps"
  proof -
    have "set (we_finish env (wx_world s1) picked) = set picked" using assms(1) by (simp add: good_env_def)
    moreover have "wp_id d \<in> set picked" if "(d, p) \<in> set preps" for d p
      using that preps ds by (metis fst_conv image_eqI)
    ultimately show ?thesis by (auto simp: arranged_def)
  qed
  have other: "step_in s2 k = step_in s k" if "k \<notin> set picked"
    using that sf [of k] finish_all_other [OF fin, of k] ar preps ds by metis
  have own_end: "step_over (run_status s2 k) \<and> (Inr False \<notin> set rs \<longrightarrow> run_status s2 k \<noteq> Some SS_Failed)" if "k \<in> set picked" "list_all is_ok rs"
  proof (rule finish_all_ends [OF fin that(2)])
    show "k \<in> wp_id ` fst ` set (arranged (we_finish env (wx_world s1) picked) preps)" using that(1) ar preps ds by metis
    have "run_status s k = Some SS_Pending" using assms(2) [OF that(1)] by (simp add: startable_def)
    then show "step_in s1 k \<noteq> None" using sf [of k] by (auto simp: run_status_step)
  qed
  show ?thesis
  proof (cases "case first_raised (map snd preps) of Some x \<Rightarrow> Some x | None \<Rightarrow> first_raised rs")
    case (Some x)
    with st fin other show ?thesis by (simp add: run_picked_def)
  next
    case None
    then have ok: "list_all is_ok rs" using first_raised_None [of rs] by (auto split: option.splits)
    show ?thesis
    proof (cases "Inr False \<in> set rs \<and> list_ex (fatal defs s2) picked")
      case True
      obtain s3 e1 where "halt_saved env (mark_run SS_Failed s2) (Step_Failed (failures s2 act)) = Round_Halted s3 e1"
        "step_in s3 = step_in (mark_run SS_Failed s2)"
        using halt_saved_facts by blast
      with True st fin None other show ?thesis by (simp add: run_picked_def)
    next
      case False
      then have "\<not> fatal defs s2 k" if "k \<in> set picked"
        using own_end [OF that ok] that by (auto simp: fatal_def list_ex_iff)
      with st fin None False other own_end ok show ?thesis by (auto simp: run_picked_def)
    qed
  qed
qed

end
