(* ===== verification/Workflow_Checkpoint.thy ===== *)
theory Workflow_Checkpoint
  imports Workflow_Rounds
begin

text \<open>
  The checkpoints of the workflow engine: reading one back gives the run that was written, with the JSON images of its
  values, and every operation of a run
  keeps what that needs, that steps are stored under their own name with a status of the engine.
\<close>

definition regular :: "step_status \<Rightarrow> bool" where
  "regular st \<longleftrightarrow> status_named (status_name st) = st"

lemma regular_simps [simp]: "regular SS_Pending" "regular SS_Running" "regular SS_Success" "regular SS_Failed" "regular SS_Skipped"
  "regular (status_named t)"
  by (simp_all add: regular_def status_name_def status_named_def)

definition plain_run :: "wf_run \<Rightarrow> bool" where
  "plain_run r \<longleftrightarrow> regular (wr_status r) \<and> list_all (\<lambda>(i, t). wt_id t = i \<and> regular (wt_status t)) (wr_steps r)"

text \<open>The run that is read back has the images of the payload and of the outputs, and is the same otherwise.\<close>

definition step_image :: "string \<times> step_run \<Rightarrow> string \<times> step_run \<Rightarrow> bool" where
  "step_image = (\<lambda>(i, t) (i1, t1). i1 = i \<and> t1 = t\<lparr>wt_output := wt_output t1\<rparr> \<and> json_image (wt_output t) = Some (wt_output t1))"

definition run_image :: "wf_run \<Rightarrow> wf_run \<Rightarrow> bool" where
  "run_image r r1 \<longleftrightarrow> r1 = r\<lparr>wr_steps := wr_steps r1, wr_payload := wr_payload r1\<rparr>
     \<and> field_images (wr_payload r) = Some (wr_payload r1) \<and> list_all2 step_image (wr_steps r) (wr_steps r1)"

lemma opt_text_image [simp]: "json_image (opt_json JStr x) = Some (opt_json JStr x)"
  by (cases x) simp_all

lemma step_json_image:
  "json_image (step_json t) = map_option (\<lambda>j. step_json (t\<lparr>wt_output := j\<rparr>)) (json_image (wt_output t))"
  by (cases "json_image (wt_output t)") (simp_all add: step_json_def)

lemma step_of_json_back: "regular (wt_status t) \<Longrightarrow> step_of_json (wt_id t) (step_json t) = Inr t"
  by (cases "wt_error t"; cases "wt_started t"; cases "wt_completed t")
     (simp_all add: step_of_json_def step_json_def dict_get_def dict_get_default_def regular_def)

lemma steps_of_json_back:
  "list_all (\<lambda>(i, t). wt_id t = i \<and> regular (wt_status t)) d \<Longrightarrow> field_images (map (\<lambda>(i, t). (i, step_json t)) d) = Some kvs \<Longrightarrow>
     \<exists>e. steps_of_json kvs = Inr e \<and> list_all2 step_image d e"
proof (induction d arbitrary: kvs)
  case (Cons it d)
  obtain i t where it: "it = (i, t)" by (cases it)
  then have t: "wt_id t = i" "regular (wt_status t)" using Cons.prems(1) by simp_all
  from Cons.prems(2) it obtain y ks where y: "json_image (step_json t) = Some y" "field_images (map (\<lambda>(i, t). (i, step_json t)) d) = Some ks"
    "kvs = (i, y) # ks"
    by (auto split: option.split_asm)
  from Cons.IH [OF _ y(2)] Cons.prems(1) obtain e where e: "steps_of_json ks = Inr e" "list_all2 step_image d e" by auto
  from y(1) obtain j where j: "json_image (wt_output t) = Some j" "y = step_json (t\<lparr>wt_output := j\<rparr>)" by (auto simp: step_json_image)
  have "step_of_json (wt_id (t\<lparr>wt_output := j\<rparr>)) (step_json (t\<lparr>wt_output := j\<rparr>)) = Inr (t\<lparr>wt_output := j\<rparr>)"
    by (rule step_of_json_back) (use t(2) in simp)
  then have "step_of_json i y = Inr (t\<lparr>wt_output := j\<rparr>)" using t(1) j(2) by simp
  then show ?case using y(3) e j(1) it by (simp add: step_image_def)
qed simp

lemma run_of_json_back:
  assumes "plain_run r" "json_image (run_json r) = Some j"
  shows "\<exists>r1. run_of_json (wr_session r) j = Inr r1 \<and> run_image r r1"
proof -
  obtain kvs p where i: "field_images (map (\<lambda>(i, t). (i, step_json t)) (wr_steps r)) = Some kvs" "field_images (wr_payload r) = Some p"
    using assms(2) by (auto simp: run_json_def split: option.split_asm)
  obtain e where e: "steps_of_json kvs = Inr e" "list_all2 step_image (wr_steps r) e"
    using steps_of_json_back [OF _ i(1)] assms(1) by (auto simp: plain_run_def)
  have j: "j = JObj
     [(''workflow_id'', JStr (wr_workflow r)), (''session_id'', JStr (wr_session r)), (''status'', JStr (status_name (wr_status r))),
      (''current_step_id'', opt_json JStr (wr_current r)), (''created_at'', JStr (wr_created r)), (''updated_at'', JStr (wr_updated r)),
      (''payload'', JObj p), (''steps'', JObj kvs)]"
    using assms(2) i by (simp add: run_json_def)
  have "run_of_json (wr_session r) j = Inr (r\<lparr>wr_steps := e, wr_payload := p\<rparr>)"
    using assms(1) e(1) unfolding j by (cases "wr_current r")
      (simp_all add: run_of_json_def checkpoint_fields_def dict_get_def dict_get_default_def plain_run_def regular_def)
  then show ?thesis using e(2) i(2) by (simp add: run_image_def)
qed

text \<open>The outputs of the run read back are the images of those of the run.\<close>

lemma outputs_image:
  assumes "list_all2 step_image d e"
  shows "field_images (map (\<lambda>(i, t). (i, wt_output t)) (filter (\<lambda>(i, t). wt_status t = SS_Success) d))
    = Some (map (\<lambda>(i, t). (i, wt_output t)) (filter (\<lambda>(i, t). wt_status t = SS_Success) e))"
  using assms
proof (induction rule: list_all2_induct)
  case (Cons it d it1 e)
  obtain i t i1 t1 where it: "it = (i, t)" "it1 = (i1, t1)" by (cases it, cases it1)
  then have "i1 = i" "t1 = t\<lparr>wt_output := wt_output t1\<rparr>" "json_image (wt_output t) = Some (wt_output t1)"
    using Cons(1) by (auto simp: step_image_def)
  moreover from this(2) have "wt_status t1 = wt_status t" by (cases t1) simp
  ultimately show ?case using Cons.IH it by simp
qed simp

lemma step_of_json_plain: "step_of_json i j = Inr t \<Longrightarrow> wt_id t = i \<and> regular (wt_status t)"
  by (auto simp: step_of_json_def res_bind_eq_Inr split: json.splits if_splits)

lemma steps_of_json_plain: "steps_of_json kvs = Inr d \<Longrightarrow> list_all (\<lambda>(i, t). wt_id t = i \<and> regular (wt_status t)) d"
  by (induction kvs arbitrary: d rule: steps_of_json.induct) (auto simp: res_bind_eq_Inr dest: step_of_json_plain)

lemma run_of_json_plain:
  assumes "run_of_json session j = Inr r"
  shows "plain_run r \<and> wr_session r = session"
proof -
  obtain d where j: "j = JObj d" using assms by (cases j) (simp_all add: run_of_json_def)
  obtain kvs where kvs: "dict_get d ''steps'' = Some (JObj kvs)"
    using assms by (auto simp: run_of_json_def j split: if_splits option.split_asm json.split_asm)
  note r = assms [unfolded run_of_json_def j json.case kvs option.case]
  show ?thesis
  proof (cases "dict_get_default d ''payload'' (JObj [])")
    case (JObj p)
    with r show ?thesis
      by (auto simp: res_bind_eq_Inr plain_run_def dest!: steps_of_json_plain split: if_splits)
  qed (use r in \<open>auto simp: res_bind_eq_Inr split: if_splits\<close>)
qed


section \<open>What a run keeps\<close>

definition same_run :: "'w wf_state \<Rightarrow> 'w wf_state \<Rightarrow> bool" where
  "same_run s s1 \<longleftrightarrow> wr_session (wx_run s1) = wr_session (wx_run s) \<and> wr_workflow (wx_run s1) = wr_workflow (wx_run s)
     \<and> (plain_run (wx_run s) \<longrightarrow> plain_run (wx_run s1))"

lemma same_run_refl [simp]: "same_run s s"
  by (simp add: same_run_def)

lemma same_run_trans [trans]: "same_run s t \<Longrightarrow> same_run t u \<Longrightarrow> same_run s u"
  by (simp add: same_run_def)

lemma same_run_saving [simp]: "same_run s (fst (saving env t b)) = same_run s t"
  by (simp add: same_run_def saving_def save_state_def plain_run_def Let_def split: option.split)

lemma same_run_current [simp]: "same_run s (mark_current c t) = same_run s t"
  by (simp add: same_run_def mark_current_def plain_run_def)

lemma same_run_world [simp]: "same_run s (in_world w t) = same_run s t"
  by (simp add: same_run_def in_world_def)

lemma same_run_outputs [simp]: "same_run s (t\<lparr>wx_outputs := outs\<rparr>) = same_run s t"
  by (simp add: same_run_def)

lemma same_run_mark: "same_run s t \<Longrightarrow> regular st \<Longrightarrow> same_run s (mark_run st t)"
  by (simp add: same_run_def mark_run_def plain_run_def)

lemma same_run_update:
  assumes "same_run s t" "\<And>x. wt_id (f x) = wt_id x" "\<And>x. regular (wt_status x) \<Longrightarrow> regular (wt_status (f x))"
  shows "same_run s (update_step sid f t)"
proof -
  have "list_all (\<lambda>(i, x). wt_id x = i \<and> regular (wt_status x)) (map (\<lambda>(i, x). (i, if i = sid then f x else x)) d)"
    if "list_all (\<lambda>(i, x). wt_id x = i \<and> regular (wt_status x)) d" for d
    using that assms(2,3) by (induction d) auto
  with assms(1) show ?thesis by (simp add: same_run_def update_step_def plain_run_def Let_def)
qed

lemma start_step_same: "same_run s (fst (start_step env d s))"
proof -
  let ?t = "mark_current (Some (wp_id d)) (update_step (wp_id d) (\<lambda>t. t\<lparr>wt_status := SS_Running, wt_started := Some (we_now env (wx_world s))\<rparr>) s)"
  obtain s1 r where sv: "saving env ?t (wp_skill d) = (s1, r)" by fastforce
  have "same_run s ?t" by (simp add: same_run_update)
  then have "same_run s s1" using same_run_saving [of s env ?t "wp_skill d"] sv by simp
  then show ?thesis using sv by (auto simp: start_step_def Let_def split: sum.split option.split)
qed

lemma succeed_step_same: "same_run t s \<Longrightarrow> same_run t (fst (succeed_step env d out s))"
  by (simp add: succeed_step_def Let_def same_run_update)

lemma fail_step_same: "same_run t s \<Longrightarrow> same_run t (fst (fail_step env d e s))"
  by (simp add: fail_step_def Let_def same_run_update same_run_mark)

lemma finish_step_same: "same_run s (fst (finish_step env d prep s))"
proof (cases prep)
  case (Inl x)
  then show ?thesis by (simp add: finish_step_def)
next
  case (Inr p)
  obtain skill params where p: "p = (skill, params)" by (cases p)
  obtain w1 out where ra: "run_attempts env skill healing_attempts (wx_world s) params = (w1, out)" by fastforce
  show ?thesis
    by (cases out) (use Inr p ra in \<open>simp_all add: finish_step_def Let_def succeed_step_same fail_step_same\<close>)
qed

lemma start_all_same: "same_run s (fst (start_all env ds s))"
proof (induction ds arbitrary: s)
  case (Cons d ds)
  obtain s1 prep where st: "start_step env d s = (s1, prep)" by fastforce
  have "same_run s s1" using start_step_same [of s env d] st by simp
  also have "same_run s1 (fst (start_all env ds s1))" by (rule Cons.IH)
  finally show ?case using st by (simp add: case_prod_beta)
qed simp

lemma finish_all_same: "same_run s (fst (finish_all env ps s))"
proof (induction ps arbitrary: s)
  case (Cons p ps)
  obtain d prep where p: "p = (d, prep)" by (cases p)
  obtain s1 r where st: "finish_step env d prep s = (s1, r)" by fastforce
  have "same_run s s1" using finish_step_same [of s env d prep] st by simp
  also have "same_run s1 (fst (finish_all env ps s1))" by (rule Cons.IH)
  finally show ?case using st p by (simp add: case_prod_beta)
qed simp

lemma run_picked_same:
  assumes "run_picked env defs act picked s = Round_Again s1"
  shows "same_run s s1"
proof -
  let ?ds = "concat (map (\<lambda>sid. case step_def_of defs sid of None \<Rightarrow> [] | Some d \<Rightarrow> [d]) picked)"
  obtain s2 preps where st: "start_all env ?ds s = (s2, preps)" by fastforce
  obtain s3 rs where fin: "finish_all env (arranged (we_finish env (wx_world s2) picked) preps) s2 = (s3, rs)" by fastforce
  have "s1 = s3" using assms st fin by (auto simp: run_picked_def halt_saved_def split: option.splits if_splits sum.splits prod.splits)
  have "same_run s s2" using start_all_same [of s env ?ds] st by simp
  also have "same_run s2 s3" using finish_all_same [of s2 env] fin by (metis fst_conv)
  finally show ?thesis using \<open>s1 = s3\<close> by simp
qed

end
