(* ===== verification/Workflow_Properties.thy ===== *)
theory Workflow_Properties
  imports Workflow_Checkpoint
begin

text \<open>
  What the workflow engine guarantees: an accepted graph is acyclic, a run ends unless it resumes a step that was
  recorded as running, steps wait for their dependencies and run once, checkpoints are read back as they were written.
  And the ways in which its code falls short of that.
\<close>

section \<open>The loop\<close>

lemma run_loop_induct [consumes 1, case_names finished halted again]:
  assumes "run_loop env defs s = Some (s1, r)"
    and fin: "\<And>s. wf_round env defs s = Round_Finished \<Longrightarrow> P s s None"
    and halt: "\<And>s s1 e. wf_round env defs s = Round_Halted s1 e \<Longrightarrow> P s s1 (Some e)"
    and again: "\<And>s s' s1 r. wf_round env defs s = Round_Again s' \<Longrightarrow> P s' s1 r \<Longrightarrow> P s s1 r"
  shows "P s s1 r"
proof -
  have "env = env \<and> defs = defs \<longrightarrow> P s (fst (s1, r)) (snd (s1, r))"
    using assms(1)
  proof (rule run_loop.raw_induct [where P = "\<lambda>env' defs' s y. env' = env \<and> defs' = defs \<longrightarrow> P s (fst y) (snd y)", rotated])
    fix f env' defs' s y
    assume ih: "\<And>env' defs' s y. f env' defs' s = Some y \<Longrightarrow> env' = env \<and> defs' = defs \<longrightarrow> P s (fst y) (snd y)"
      and step: "(case wf_round env' defs' s of Round_Finished \<Rightarrow> Some (s, None) | Round_Halted s1 e \<Rightarrow> Some (s1, Some e)
          | Round_Again s1 \<Rightarrow> f env' defs' s1 | Round_Waiting \<Rightarrow> f env' defs' s) = Some y"
    show "env' = env \<and> defs' = defs \<longrightarrow> P s (fst y) (snd y)"
    proof
      assume e: "env' = env \<and> defs' = defs"
      show "P s (fst y) (snd y)"
      proof (cases "wf_round env defs s")
        case Round_Finished
        with step e fin show ?thesis by auto
      next
        case (Round_Halted s1 err)
        with step e halt show ?thesis by auto
      next
        case (Round_Again s1)
        with step e have "f env defs s1 = Some y" by simp
        from ih [OF this] again [OF Round_Again] show ?thesis by simp
      next
        case Round_Waiting
        with step e have "f env defs s = Some y" by simp
        from ih [OF this] show ?thesis by simp
      qed
    qed
  qed
  then show ?thesis by simp
qed


lemma waiting_hangs:
  assumes "wf_round env defs s = Round_Waiting"
  shows "run_loop env defs s = None"
proof -
  have "wf_round env defs s \<noteq> Round_Waiting" if "run_loop env defs s = Some (s1, r)" for s1 r
    using that by (induction rule: run_loop_induct) auto
  with assms show ?thesis by (metis not_Some_eq prod.exhaust)
qed


section \<open>What a round does\<close>

text \<open>The order of a set has no step twice.\<close>

definition fair_env :: "'w wf_env \<Rightarrow> bool" where
  "fair_env env \<longleftrightarrow> good_env env
     \<and> (\<forall>w xs. distinct xs \<longrightarrow> distinct (we_order env w xs)) \<and> (\<forall>w xs. distinct xs \<longrightarrow> distinct (we_finish env w xs))"

definition framed :: "string list \<Rightarrow> 'w wf_state \<Rightarrow> 'w wf_state \<Rightarrow> bool" where
  "framed picked s s1 \<longleftrightarrow> (\<forall>k. k \<notin> set picked \<longrightarrow> step_in s1 k = step_in s k)"

lemma framed_refl [simp]: "framed picked s s"
  by (simp add: framed_def)

text \<open>Leaving the loop changes no step.\<close>

lemma halt_saved_unchanged:
  assumes "step_in t = step_in s"
  obtains s1 e1 where "halt_saved env t e = Round_Halted s1 e1" "\<And>k. step_in s1 k = step_in s k"
  using halt_saved_facts [of env t e] assms by auto

lemma step_in_marks: "step_in (mark_run st s) = step_in s" "step_in (mark_current c s) = step_in s"
  by (simp_all add: fun_eq_iff)

lemma wf_round_cases:
  assumes "good_env env"
  obtains (finished) act where "wf_round env defs s = Round_Finished" "active_steps env defs s = Inr act"
      "\<And>sid. sid \<in> set act \<Longrightarrow> step_over (run_status s sid)"
  | (unchanged) s1 e where "wf_round env defs s = Round_Halted s1 e" "\<And>k. step_in s1 k = step_in s k"
  | (ran) act picked where "active_steps env defs s = Inr act" "picked \<noteq> []" "set picked \<subseteq> set act" "\<And>sid. sid \<in> set picked \<Longrightarrow> startable defs s sid"
      "picked = take (we_limit env (wx_world s)) (filter (startable defs s) (we_order env (wx_world s) act))"
      "wf_round env defs s = run_picked env defs act picked s"
  | (waiting) act b where "wf_round env defs s = Round_Waiting" "active_steps env defs s = Inr act" "run_status s b = Some SS_Running"
proof (cases "active_steps env defs s")
  case (Inl e)
  show ?thesis
  proof (cases "\<exists>n. e = Cycle_Through n")
    case True
    then obtain n where "e = Cycle_Through n" by blast
    with Inl have "wf_round env defs s = halt_saved env (mark_current (Some n) (mark_run SS_Failed s)) (Cycle_Through n)"
      by (simp add: wf_round_def)
    then show ?thesis by (metis halt_saved_unchanged step_in_marks unchanged)
  next
    case False
    with Inl have "wf_round env defs s = Round_Halted s e" by (auto simp: wf_round_def split: run_error.splits)
    then show ?thesis by (rule unchanged) simp
  qed
next
  case (Inr act)
  note r = wf_round_def [of env defs s, unfolded Inr sum.case]
  show ?thesis
  proof (cases "find (\<lambda>sid. run_status s sid = None) act")
    case (Some k)
    with r have "\<exists>e. wf_round env defs s = Round_Halted s e \<or> wf_round env defs s = halt_saved env (mark_run SS_Failed s) e" by auto
    then show ?thesis by (metis halt_saved_unchanged step_in_marks unchanged)
  next
    case None
    note r = r [unfolded None option.case]
    show ?thesis
    proof (cases "list_all (\<lambda>sid. run_status s sid \<in> {Some SS_Success, Some SS_Failed, Some SS_Skipped}) act")
      case True
      with r Inr show ?thesis by (intro finished) (auto simp: list_all_iff step_over_def)
    next
      case unfinished: False
      note r = r [unfolded if_not_P [OF unfinished]]
      show ?thesis
      proof (cases "list_ex (fatal defs s) act")
        case True
        with r have "\<exists>e. wf_round env defs s = Round_Halted s e \<or> wf_round env defs s = halt_saved env (mark_run SS_Failed s) e" by auto
    then show ?thesis by (metis halt_saved_unchanged step_in_marks unchanged)
      next
        case False
        note r = r [unfolded if_not_P [OF False]]
        show ?thesis
        proof (cases "ready_steps defs s (we_order env (wx_world s) act)")
          case (Inl e)
          with r have "\<exists>e. wf_round env defs s = Round_Halted s e \<or> wf_round env defs s = halt_saved env (mark_run SS_Failed s) e" by auto
    then show ?thesis by (metis halt_saved_unchanged step_in_marks unchanged)
        next
          case ready: (Inr rs)
          have rs: "rs = filter (startable defs s) (we_order env (wx_world s) act)"
          proof -
            have "ready_steps defs s sids = Inr rs \<Longrightarrow> rs = filter (startable defs s) sids" for sids rs
            proof (induction sids arbitrary: rs)
              case (Cons x xs)
              then obtain b rs1 where q: "readiness defs s x = Inr b" "ready_steps defs s xs = Inr rs1" "rs = (if b then x # rs1 else rs1)"
                by (auto simp: res_bind_eq_Inr)
              have "b \<longleftrightarrow> startable defs s x"
                using q(1) by (auto simp: readiness_def startable_def run_status_def split: option.splits if_splits prod.splits)
              with q Cons.IH [OF q(2)] show ?case by simp
            qed simp
            then show ?thesis using ready by blast
          qed
          show ?thesis
          proof (cases rs)
            case Nil
            note r = r [unfolded ready Nil sum.case list.case]
            show ?thesis
            proof (cases "list_ex (\<lambda>sid. run_status s sid = Some SS_Running) act")
              case True
              then obtain b where "run_status s b = Some SS_Running" by (auto simp: list_ex_iff)
              with r True Inr show ?thesis by (intro waiting) auto
            next
              case False
              with r have "\<exists>c e. wf_round env defs s = halt_saved env (mark_current c (mark_run SS_Failed s)) e"
                by (auto simp: Let_def)
              then show ?thesis by (metis halt_saved_unchanged step_in_marks unchanged)
            qed
          next
            case (Cons x xs)
            let ?picked = "take (we_limit env (wx_world s)) rs"
            have "wf_round env defs s = run_picked env defs act ?picked s"
              using r ready Cons by simp
            moreover have "?picked \<noteq> []" using Cons assms by (simp add: good_env_def)
            moreover have "set ?picked \<subseteq> set rs" by (rule set_take_subset)
            moreover have "set rs \<subseteq> set act" using rs assms by (auto simp: good_env_def)
            ultimately show ?thesis using rs by (intro ran [OF Inr, of ?picked]) auto
          qed
        qed
      qed
    qed
  qed
qed


lemma round_again:
  assumes "good_env env" "wf_round env defs s = Round_Again s1"
  obtains act picked where "active_steps env defs s = Inr act" "picked \<noteq> []" "set picked \<subseteq> set act"
    "picked = take (we_limit env (wx_world s)) (filter (startable defs s) (we_order env (wx_world s) act))"
    "\<And>k. k \<in> set picked \<Longrightarrow> startable defs s k" "run_picked env defs act picked s = Round_Again s1" "framed picked s s1"
    "\<And>k. k \<in> set picked \<Longrightarrow> step_over (run_status s1 k)" "\<And>k. k \<in> set picked \<Longrightarrow> \<not> fatal defs s1 k"
proof (rule wf_round_cases [OF assms(1), of defs s], goal_cases)
  case (3 act picked)
  note f = run_picked_facts [where picked = picked and defs = defs and s = s and act = act, OF assms(1) 3(5)]
  have again: "run_picked env defs act picked s = Round_Again s1" using 3(7) assms(2) by simp
  then have "framed picked s s1" using f by (simp add: framed_def)
  moreover have "step_over (run_status s1 k)" "\<not> fatal defs s1 k" if "k \<in> set picked" for k
    using f [of k] again that by simp_all
  ultimately show ?case using 3(1) [OF 3(2,3,4,6) _ again] 3(5) by blast
next
  case 1
  from assms(2) 1(2) show ?case by simp
next
  case 2
  from assms(2) 2(2) show ?case by simp
next
  case 4
  from assms(2) 4(2) show ?case by simp
qed

lemma round_halted:
  assumes "good_env env" "wf_round env defs s = Round_Halted s1 e"
  obtains picked where "\<And>k. k \<in> set picked \<Longrightarrow> startable defs s k" "framed picked s s1"
proof (rule wf_round_cases [OF assms(1), of defs s], goal_cases)
  case (2 s2 e2)
  with assms(2) that [of "[]"] show ?thesis by (simp add: framed_def)
next
  case (3 act picked)
  note f = run_picked_facts [where picked = picked and defs = defs and s = s and act = act, OF assms(1) 3(5)]
  have "run_picked env defs act picked s = Round_Halted s1 e" using 3(7) assms(2) by simp
  then have "framed picked s s1" using f by (simp add: framed_def)
  show ?case by (rule 3(1) [of picked]) fact+
next
  case 1
  from assms(2) 1(2) show ?case by simp
next
  case 4
  from assms(2) 4(2) show ?case by simp
qed

lemma startable_pending: "startable defs s k \<Longrightarrow> run_status s k = Some SS_Pending"
  by (simp add: startable_def)

lemma framed_status: "framed picked s s1 \<Longrightarrow> k \<notin> set picked \<Longrightarrow> run_status s1 k = run_status s k"
  by (simp add: framed_def run_status_step)


section \<open>Termination\<close>

definition pending_steps :: "'w wf_state \<Rightarrow> string set" where
  "pending_steps s = {k. run_status s k = Some SS_Pending}"

lemma finite_pending [simp]: "finite (pending_steps s)"
proof (rule finite_subset)
  show "pending_steps s \<subseteq> fst ` set (wr_steps (wx_run s))"
    by (force simp: pending_steps_def run_status_def dict_get_def dest: map_of_SomeD)
qed simp

definition quiet :: "'w wf_state \<Rightarrow> bool" where
  "quiet s \<longleftrightarrow> (\<forall>k. run_status s k \<noteq> Some SS_Running)"

lemma run_loop_returns:
  assumes "good_env env"
  shows "quiet s \<Longrightarrow> \<exists>y. run_loop env defs s = Some y"
proof (induction "card (pending_steps s)" arbitrary: s rule: less_induct)
  case less
  show ?case
  proof (cases "wf_round env defs s")
    case Round_Finished
    then show ?thesis by (simp add: run_loop.simps)
  next
    case (Round_Halted s1 e)
    then show ?thesis by (simp add: run_loop.simps)
  next
    case (Round_Again s1)
    obtain act picked where p: "picked \<noteq> []" "\<And>k. k \<in> set picked \<Longrightarrow> startable defs s k" "framed picked s s1"
      "\<And>k. k \<in> set picked \<Longrightarrow> step_over (run_status s1 k)"
      by (rule round_again [OF assms Round_Again]) blast
    have kept: "run_status s1 k = run_status s k" if "k \<notin> set picked" for k using framed_status [OF p(3) that] .
    have "quiet s1" unfolding quiet_def
    proof
      fix k
      show "run_status s1 k \<noteq> Some SS_Running"
        using p(4) [of k] kept [of k] less.prems by (cases "k \<in> set picked") (auto simp: quiet_def)
    qed
    moreover have "card (pending_steps s1) < card (pending_steps s)"
    proof (rule psubset_card_mono [OF finite_pending])
      obtain x where x: "x \<in> set picked" using p(1) by (cases picked) auto
      have "pending_steps s1 \<subseteq> pending_steps s"
      proof
        fix k
        assume "k \<in> pending_steps s1"
        then show "k \<in> pending_steps s"
          using p(4) [of k] kept [of k] by (cases "k \<in> set picked") (auto simp: pending_steps_def)
      qed
      moreover have "x \<in> pending_steps s" using startable_pending [OF p(2) [OF x]] by (simp add: pending_steps_def)
      moreover have "x \<notin> pending_steps s1" using p(4) [OF x] by (auto simp: pending_steps_def)
      ultimately show "pending_steps s1 \<subset> pending_steps s" by blast
    qed
    ultimately obtain y where "run_loop env defs s1 = Some y" using less.hyps by blast
    with Round_Again show ?thesis by (subst run_loop.simps) simp
  next
    case Round_Waiting
    have "\<exists>b. run_status s b = Some SS_Running"
    proof (rule wf_round_cases [OF assms, of defs s], goal_cases)
      case (3 act picked)
      note f = run_picked_facts [where picked = picked and defs = defs and s = s and act = act, OF assms 3(4)]
      have "run_picked env defs act picked s = Round_Waiting" using 3(6) Round_Waiting by simp
      then show ?case using f by simp
    qed (use Round_Waiting in auto)
    then obtain b where "run_status s b = Some SS_Running" by blast
    with less.prems show ?thesis by (simp add: quiet_def)
  qed
qed

text \<open>How a run starts.\<close>

lemma begin_run_cases:
  assumes "begin_run env defs workflow session payload resume w files = Inr s"
  obtains (fresh) "wx_run s = new_run workflow session payload (we_now env w) defs" "wx_outputs s = []" "wx_world s = w"
      "\<not> (resume \<and> (\<exists>r. load_state files session = Inr (Some r) \<and> wr_status r = SS_Failed))"
  | (resumed) r where "resume" "load_state files session = Inr (Some r)" "wr_status r = SS_Failed" "wr_workflow r = workflow"
      "wx_run s = resumed_run payload r" "wx_outputs s = outputs_of (resumed_run payload r)" "wx_world s = w"
proof -
  obtain stored where st: "load_state files session = Inr stored"
    using assms by (auto simp: begin_run_def res_bind_eq_Inr)
  show ?thesis
  proof (cases "resume \<and> (case stored of None \<Rightarrow> False | Some r \<Rightarrow> wr_status r = SS_Failed)")
    case True
    then obtain r where r: "resume" "stored = Some r" "wr_status r = SS_Failed" by (auto split: option.splits)
    with assms st have "wr_workflow r = workflow" "wx_run s = resumed_run payload r" "wx_outputs s = outputs_of (resumed_run payload r)" "wx_world s = w"
      by (auto simp: begin_run_def Let_def split: if_splits)
    with r st show ?thesis by (intro resumed [of r]) simp_all
  next
    case False
    with assms st show ?thesis by (intro fresh) (auto simp: begin_run_def Let_def split: option.splits if_splits)
  qed
qed

lemma dict_get_const: "dict_get (map (\<lambda>d. (f d, g (f d))) ds) k = (if k \<in> f ` set ds then Some (g k) else None)"
  by (induction ds) (auto simp: dict_get_def)

lemma fresh_status: "wx_run s = new_run workflow session payload now defs \<Longrightarrow> run_status s k \<in> {None, Some SS_Pending}"
  by (simp add: run_status_def new_run_def dict_get_const) (simp add: new_step_def)

lemma resumed_step_in: "wx_run s = resumed_run payload r \<Longrightarrow> step_in s k = map_option resumed_step (dict_get (wr_steps r) k)"
  by (simp add: step_in_def resumed_run_def dict_get_map_pair)

definition interrupted :: "wf_run \<Rightarrow> bool" where
  "interrupted r \<longleftrightarrow> (\<exists>k t. dict_get (wr_steps r) k = Some t \<and> wt_status t = SS_Running)"

lemma begin_quiet:
  assumes "begin_run env defs workflow session payload resume w files = Inr s"
    and "\<And>r. resume \<Longrightarrow> load_state files session = Inr (Some r) \<Longrightarrow> \<not> interrupted r"
  shows "quiet s"
  using assms(1)
proof (cases rule: begin_run_cases)
  case fresh
  show ?thesis unfolding quiet_def
  proof
    fix k
    show "run_status s k \<noteq> Some SS_Running" using fresh_status [OF fresh(1), of k] by auto
  qed
next
  case (resumed r)
  show ?thesis unfolding quiet_def
  proof
    fix k
    show "run_status s k \<noteq> Some SS_Running"
      using assms(2) [OF resumed(1,2)] resumed_step_in [OF resumed(5), of k]
      by (auto simp: run_status_step interrupted_def resumed_step_def split: if_splits)
  qed
qed

section \<open>A sample\<close>

text \<open>The skill \<open>shaky\<close> fails when it is among the first four calls, every other call answers with the number of the call.\<close>

definition sample_codecs :: codecs where
  "sample_codecs = \<lparr>cd_loads = (\<lambda>t. if t = ''7'' then Some (JInt 7) else None), cd_literal = (\<lambda>t. None),
     cd_float_text = (\<lambda>t. None), cd_float_int = (\<lambda>n. None), cd_shown = (\<lambda>j. ''''), cd_schema_text = (\<lambda>sc. ''''), cd_equal = (\<lambda>a b. a = b)\<rparr>"

definition sample_env :: "nat wf_env" where
  "sample_env =
     \<lparr>we_now = (\<lambda>w. ''t''), we_skill = (\<lambda>w skill params. (Suc w, if skill = ''shaky'' \<and> w < 4 then Inl ''timeout'' else Inr ''7'')),
      we_provider = (\<lambda>w skill params err. (w, No_Account)), we_template = (\<lambda>t ctx. Inr t), we_attr = (\<lambda>j part. None),
      we_codecs = sample_codecs, we_schema = (\<lambda>skill. None), we_emit = (\<lambda>w ev. w), we_slow = (\<lambda>a b. False), we_costly = (\<lambda>w. False),
      we_order = (\<lambda>w xs. xs), we_finish = (\<lambda>w xs. xs), we_limit = (\<lambda>w. 3)\<rparr>"

definition plain_step :: "string \<Rightarrow> string option \<Rightarrow> string list \<Rightarrow> wf_step" where
  "plain_step sid skill deps =
     \<lparr>wp_id = sid, wp_dependencies = Some (Dep_Many deps), wp_depends_on = None, wp_next = None, wp_fallback = None,
      wp_on_failure = ''fail'', wp_skill = skill, wp_params = JObj []\<rparr>"

definition sample_chain :: "wf_step list" where
  "sample_chain = [plain_step ''a'' (Some ''ok'') [], plain_step ''b'' (Some ''ok'') [''a'']]"

definition sample_abort :: "wf_step list" where
  "sample_abort = [(plain_step ''a'' (Some ''shaky'') [])\<lparr>wp_on_failure := ''fallback''\<rparr>]"

text \<open>A workflow whose first step has no skill, and what its first run leaves: the second step failed for good while
the first was left running.\<close>

definition sample_broken :: "wf_step list" where
  "sample_broken = [plain_step ''b'' None [], plain_step ''a'' (Some ''shaky'') []]"

definition half_chain :: "wf_step list" where
  "half_chain = [plain_step ''a'' (Some ''ok'') [], plain_step ''c'' (Some ''shaky'') [''a'']]"

definition half_files :: "(string, json option) dict" where
  "half_files =
     (case execute_workflow sample_env (Inr half_chain) ''w'' ''s'' [] False 0 [] of Some ((w, files), r) \<Rightarrow> files | None \<Rightarrow> [])"

definition half_run :: wf_run where
  "half_run = (case load_state half_files ''s'' of Inr (Some r) \<Rightarrow> r | _ \<Rightarrow> new_run ''w'' ''s'' [] ''t'' sample_broken)"

definition broken_files :: "(string, json option) dict" where
  "broken_files = (case execute_workflow sample_env (Inr sample_broken) ''w'' ''s'' [] False 0 [] of Some ((w, files), r) \<Rightarrow> files | None \<Rightarrow> [])"

definition broken_run :: wf_run where
  "broken_run = (case load_state broken_files ''s'' of Inr (Some r) \<Rightarrow> r | _ \<Rightarrow> new_run ''w'' ''s'' [] ''t'' sample_broken)"

lemma run_outputs:
  "(case x of Some ((w, files), Inr outs) \<Rightarrow> P w files outs | _ \<Rightarrow> False) \<Longrightarrow> \<exists>w files outs. x = Some ((w, files), Inr outs) \<and> P w files outs"
  by (cases x; cases "snd (the x)") auto

lemma sample_good: "good_env sample_env"
  by (simp add: good_env_def sample_env_def)

section \<open>Runs\<close>

text \<open>C8: Every new run of a workflow returns: whatever the tools answer, the templates jump to, and the order in which
steps are started and finish, \<open>execute\<close> ends with outputs or an error. So does every resumed run whose checkpoint
has no step recorded as running.\<close>

theorem workflow_returns:
  assumes "good_env env" "\<And>r. resume \<Longrightarrow> load_state files session = Inr (Some r) \<Longrightarrow> \<not> interrupted r"
  shows "\<exists>out. execute_workflow env loaded workflow session payload resume w files = Some out"
proof (cases loaded)
  case (Inr defs)
  show ?thesis
  proof (cases "begin_run env defs workflow session payload resume w files")
    case (Inr s)
    obtain s1 r where "run_loop env defs s = Some (s1, r)"
      using run_loop_returns [OF assms(1) begin_quiet [OF Inr assms(2)], of defs] by auto
    with Inr \<open>loaded = Inr defs\<close> show ?thesis
      by (cases r) (auto simp: execute_workflow_def split: prod.split sum.split)
  qed (use Inr in \<open>simp add: execute_workflow_def\<close>)
qed (simp add: execute_workflow_def)


lemma workflow_returns_witness:
  "\<exists>out. execute_workflow sample_env (Inr [plain_step ''a'' (Some ''ok'') []]) ''w'' ''s'' [] True 0 [] = Some out"
  by (rule workflow_returns [OF sample_good]) (simp add: load_state_def run_file_def safe_relative_def dict_get_def res_bind_def split: if_splits)


section \<open>Order\<close>

lemma dep_settled_kept:
  assumes "dep_settled defs s k d" "\<And>j. step_over (run_status s j) \<Longrightarrow> step_in s1 j = step_in s j"
  shows "dep_settled defs s1 k d"
proof -
  obtain t where t: "step_in s d = Some t" using assms(1) by (auto simp: dep_settled_def step_in_def split: option.splits)
  have "wt_status t \<in> {SS_Success, SS_Failed, SS_Skipped}"
    using assms(1) t by (auto simp: dep_settled_def step_in_def passed_on_def)
  then have "step_in s1 d = step_in s d" using t by (intro assms(2)) (auto simp: run_status_step)
  with assms(1) show ?thesis by (simp add: dep_settled_def step_in_def)
qed

lemma framed_over: "framed picked s s1 \<Longrightarrow> (\<And>k. k \<in> set picked \<Longrightarrow> startable defs s k) \<Longrightarrow> step_over (run_status s k) \<Longrightarrow> step_in s1 k = step_in s k"
  using startable_pending [of defs s k] by (cases "k \<in> set picked") (auto simp: framed_def step_over_def)

text \<open>What holds of some steps of a state and of every state a run reaches from it.\<close>

definition waited :: "string set \<Rightarrow> wf_step list \<Rightarrow> 'w wf_state \<Rightarrow> bool" where
  "waited ks defs s \<longleftrightarrow> (\<forall>k explicit deps d. k \<in> ks \<longrightarrow> run_status s k \<notin> {None, Some SS_Pending}
     \<longrightarrow> dict_get (step_dependencies None defs) k = Some (explicit, Some deps) \<longrightarrow> d \<in> set deps \<longrightarrow> dep_settled defs s k d)"

lemma framed_waited:
  assumes "waited ks defs s" "framed picked s s1" "\<And>k. k \<in> set picked \<Longrightarrow> startable defs s k"
  shows "waited ks defs s1"
  unfolding waited_def
proof (intro allI impI)
  fix k explicit deps d
  assume ks: "k \<in> ks" and st: "run_status s1 k \<notin> {None, Some SS_Pending}"
    and dep: "dict_get (step_dependencies None defs) k = Some (explicit, Some deps)" "d \<in> set deps"
  have "dep_settled defs s k d"
  proof (cases "k \<in> set picked")
    case True
    with assms(3) [OF True] dep show ?thesis by (auto simp: startable_def list_all_iff)
  next
    case False
    with st framed_status [OF assms(2) False] have "run_status s k \<notin> {None, Some SS_Pending}" by simp
    from assms(1) [unfolded waited_def, rule_format, OF ks this dep] show ?thesis .
  qed
  then show "dep_settled defs s1 k d"
    by (rule dep_settled_kept) (rule framed_over [OF assms(2,3)])
qed

lemma run_loop_frames:
  assumes "good_env env" "run_loop env defs s = Some (s1, r)"
  shows "(waited ks defs s \<longrightarrow> waited ks defs s1) \<and> (step_over (run_status s k) \<longrightarrow> step_in s1 k = step_in s k)
    \<and> (run_status s k = Some SS_Running \<longrightarrow> run_status s1 k = Some SS_Running)"
  using assms(2)
proof (induction rule: run_loop_induct)
  case (halted s s1 e)
  obtain picked where p: "\<And>k. k \<in> set picked \<Longrightarrow> startable defs s k" "framed picked s s1"
    by (rule round_halted [OF assms(1) halted]) blast
  have "run_status s1 k = Some SS_Running" if "run_status s k = Some SS_Running"
    using that startable_pending [OF p(1), of k] framed_status [OF p(2), of k] by auto
  with framed_waited [OF _ p(2,1)] framed_over [OF p(2,1)] show ?case by blast
next
  case (again s s' s1 r)
  obtain act picked where p: "\<And>k. k \<in> set picked \<Longrightarrow> startable defs s k" "framed picked s s'"
    by (rule round_again [OF assms(1) again(1)]) blast
  have "run_status s' k = Some SS_Running" if "run_status s k = Some SS_Running"
    using that startable_pending [OF p(1), of k] framed_status [OF p(2), of k] by auto
  moreover have "step_in s' k = step_in s k \<and> run_status s' k = run_status s k" if "step_over (run_status s k)"
    using framed_over [OF p(2,1) that] by (simp add: run_status_step)
  ultimately show ?case using framed_waited [OF _ p(2,1)] again(2) by fastforce
qed simp

lemma run_loop_finished:
  assumes "run_loop env defs s = Some (s1, None)"
  shows "wf_round env defs s1 = Round_Finished"
proof -
  have "r = None \<longrightarrow> wf_round env defs s1 = Round_Finished" if "run_loop env defs s = Some (s1, r)" for r
    using that by (induction rule: run_loop_induct) auto
  with assms show ?thesis by blast
qed

lemma finished_act:
  assumes "good_env env" "run_loop env defs s = Some (s1, None)"
  obtains act where "active_steps env defs s1 = Inr act" "\<And>k. k \<in> set act \<Longrightarrow> step_over (run_status s1 k)"
proof (rule wf_round_cases [OF assms(1), of defs s1], goal_cases)
  case (1 act)
  show ?case by (rule 1(1) [OF 1(3)]) (rule 1(4))
next
  case (3 act picked)
  note f = run_picked_facts [where picked = picked and defs = defs and s = s1 and act = act, OF assms(1) 3(5)]
  have "run_picked env defs act picked s1 = Round_Finished" using 3(7) run_loop_finished [OF assms(2)] by simp
  then show ?case using f by simp
next
  case (2 s2 e)
  from run_loop_finished [OF assms(2)] 2(2) show ?case by simp
next
  case (4 act b)
  from run_loop_finished [OF assms(2)] 4(2) show ?case by simp
qed

lemma grow_active_contains: "grow_active tab act = Inr a \<Longrightarrow> set act \<subseteq> set a"
proof (induction tab act arbitrary: a rule: grow_active.induct)
  case (1 tab act)
  obtain b where b: "pass_over tab act act = Inr b" "if b = act then a = b else grow_active tab b = Inr a"
    using 1(2) by (subst (asm) grow_active.simps) (auto simp del: grow_active.simps split: sum.splits if_splits)
  from pass_over_spec [OF b(1)] have "set act \<subseteq> set b" by auto
  with b 1(1) [OF b(1)] show ?case by (auto simp del: grow_active.simps split: if_splits)
qed

lemma initial_contains: "active_steps env defs s = Inr act \<Longrightarrow> set (initial_active defs s) \<subseteq> set act"
  unfolding active_steps_def by (rule grow_active_contains)

lemma first_active: "active_steps env (d # defs) s = Inr act \<Longrightarrow> wp_id d \<in> set act"
  by (drule initial_contains) (auto simp: initial_active_def Let_def set_add_new)

text \<open>C7: A step never runs before its dependencies: whenever a run of a workflow ends, with outputs or with an error, every
step that was started in this run has all its dependencies settled, that is succeeded or skipped, or failed with this
step as their fallback. In a new run these are all the steps that were started; in a resumed run they are the started
ones among those pending when it began, the failed ones reset by the resumption included.\<close>

theorem workflow_order:
  assumes "good_env env" "begin_run env defs workflow session payload resume w files = Inr s" "run_loop env defs s = Some (s1, r)"
    "resume \<Longrightarrow> run_status s k = Some SS_Pending" "run_status s1 k \<notin> {None, Some SS_Pending}"
    "dict_get (step_dependencies None defs) k = Some (explicit, Some deps)" "d \<in> set deps"
  shows "dep_settled defs s1 k d"
proof -
  have "run_status s k \<in> {None, Some SS_Pending}"
    using assms(2)
  proof (cases rule: begin_run_cases)
    case fresh
    then show ?thesis using fresh_status [OF fresh(1), of k] by blast
  qed (use assms(4) in simp)
  then have "waited {k} defs s" by (simp add: waited_def)
  then have "waited {k} defs s1" using run_loop_frames [OF assms(1,3), where ks = "{k}"] by blast
  with assms(5-7) show ?thesis unfolding waited_def by blast
qed

lemma workflow_order_witness:
  "\<exists>s s1. begin_run sample_env sample_chain ''w'' ''s'' [] False 0 [] = Inr s \<and> run_loop sample_env sample_chain s = Some (s1, None)
     \<and> dep_settled sample_chain s1 ''b'' ''a''"
proof -
  have run: "case begin_run sample_env sample_chain ''w'' ''s'' [] False 0 [] of Inl e \<Rightarrow> False | Inr s \<Rightarrow>
      (case run_loop sample_env sample_chain s of Some (s1, None) \<Rightarrow> run_status s1 ''b'' = Some SS_Success | _ \<Rightarrow> False)"
    by code_simp
  obtain s where s: "begin_run sample_env sample_chain ''w'' ''s'' [] False 0 [] = Inr s"
    using run by (cases "begin_run sample_env sample_chain ''w'' ''s'' [] False 0 []") simp_all
  obtain s1 where s1: "run_loop sample_env sample_chain s = Some (s1, None)" "run_status s1 ''b'' = Some SS_Success"
    using run unfolding s sum.case by (cases "run_loop sample_env sample_chain s") (auto split: option.split_asm)
  have "dict_get (step_dependencies None sample_chain) ''b'' = Some (True, Some [''a''])" by code_simp
  from workflow_order [OF sample_good s s1(1) _ _ this, of "''a''"] s s1 show ?thesis by auto
qed

text \<open>A step that ended before a run was resumed is left alone: what the checkpoint holds of a step that succeeded or
was skipped, its output included, is what the resumed run ends with.\<close>

theorem resumed_steps_kept:
  assumes "good_env env" "begin_run env defs workflow session payload resume w files = Inr s" "run_loop env defs s = Some (s1, r)"
    "load_state files session = Inr (Some old)" "resume" "wr_status old = SS_Failed" "dict_get (wr_steps old) k = Some t" "passed_on t"
  shows "dict_get (wr_steps (wx_run s1)) k = Some t"
  using assms(2)
proof (cases rule: begin_run_cases)
  case fresh
  with assms(4-6) show ?thesis by blast
next
  case (resumed old1)
  with assms(4) have "old1 = old" by simp
  with resumed_step_in [OF resumed(5), of k] assms(7,8) have "step_in s k = Some t"
    by (auto simp: resumed_step_def passed_on_def)
  moreover from this assms(8) have "step_over (run_status s k)" by (auto simp: run_status_step passed_on_def)
  ultimately show ?thesis using run_loop_frames [OF assms(1,3), where k = k] by (simp add: step_in_def)
qed

text \<open>A run resumed from a checkpoint in which the first step of the workflow is recorded as running never
returns outputs: no round touches a running step and no run finishes before its first step.\<close>

theorem interrupted_run_never_succeeds:
  assumes "good_env env" "load_state files session = Inr (Some old)" "wr_status old = SS_Failed"
    "dict_get (wr_steps old) (wp_id d) = Some t" "wt_status t = SS_Running"
  shows "execute_workflow env (Inr (d # defs)) workflow session payload True w files \<noteq> Some (x, Inr outs)"
proof
  assume ret: "execute_workflow env (Inr (d # defs)) workflow session payload True w files = Some (x, Inr outs)"
  obtain s where b: "begin_run env (d # defs) workflow session payload True w files = Inr s"
    using ret by (auto simp: execute_workflow_def split: sum.splits)
  obtain s1 where l: "run_loop env (d # defs) s = Some (s1, None)"
    using ret b by (auto simp: execute_workflow_def split: option.splits prod.splits)
  have "run_status s (wp_id d) = Some SS_Running"
    using b
  proof (cases rule: begin_run_cases)
    case fresh
    with assms(2,3) show ?thesis by blast
  next
    case (resumed old1)
    with assms(2,4,5) resumed_step_in [OF resumed(5), of "wp_id d"] show ?thesis by (simp add: run_status_step resumed_step_def)
  qed
  then have running: "run_status s1 (wp_id d) = Some SS_Running" using run_loop_frames [OF assms(1) l] by blast
  obtain act where act: "active_steps env (d # defs) s1 = Inr act" "\<And>k. k \<in> set act \<Longrightarrow> step_over (run_status s1 k)"
    by (rule finished_act [OF assms(1) l]) blast
  have "wp_id d \<in> set act" by (rule first_active [OF act(1)])
  with act(2) running show False by fastforce
qed



lemma broken_facts: "load_state broken_files ''s'' = Inr (Some broken_run)" "wr_status broken_run = SS_Failed"
  "map_option wt_status (dict_get (wr_steps broken_run) ''b'') = Some SS_Running"
  "map_option wt_status (dict_get (wr_steps broken_run) ''a'') = Some SS_Failed"
  by code_simp+

lemma interrupted_run_never_succeeds_witness:
  "load_state broken_files ''s'' = Inr (Some broken_run)
     \<and> (\<forall>x outs. execute_workflow sample_env (Inr sample_broken) ''w'' ''s'' [] True 3 broken_files \<noteq> Some (x, Inr outs))"
proof -
  obtain t where "dict_get (wr_steps broken_run) (wp_id (plain_step ''b'' None [])) = Some t" "wt_status t = SS_Running"
    using broken_facts(3) by (auto simp: plain_step_def)
  from interrupted_run_never_succeeds [OF sample_good broken_facts(1,2) this] broken_facts(1)
  show ?thesis unfolding sample_broken_def by blast
qed

text \<open>It does not even fail: once the other step has succeeded, the loop sleeps and looks again for ever.\<close>

lemma interrupted_run_hangs: "execute_workflow sample_env (Inr sample_broken) ''w'' ''s'' [] True 3 broken_files = None"
proof -
  have run: "case begin_run sample_env sample_broken ''w'' ''s'' [] True 3 broken_files of Inl e \<Rightarrow> False | Inr s \<Rightarrow>
     (case wf_round sample_env sample_broken s of Round_Again s1 \<Rightarrow>
        (case wf_round sample_env sample_broken s1 of Round_Waiting \<Rightarrow> True | _ \<Rightarrow> False) | _ \<Rightarrow> False)"
    by code_simp
  obtain s where s: "begin_run sample_env sample_broken ''w'' ''s'' [] True 3 broken_files = Inr s"
    using run by (auto split: sum.split_asm)
  note run = run [unfolded s sum.case]
  obtain s1 where s1: "wf_round sample_env sample_broken s = Round_Again s1"
    using run by (auto split: round_result.split_asm)
  note run = run [unfolded s1 round_result.case]
  have "wf_round sample_env sample_broken s1 = Round_Waiting"
    using run by (auto split: round_result.split_asm)
  from waiting_hangs [OF this] have "run_loop sample_env sample_broken s = None" using s1 by (subst run_loop.simps) simp
  with s show ?thesis by (simp add: execute_workflow_def)
qed

lemma resumed_steps_kept_witness:
  "\<exists>s s1. begin_run sample_env half_chain ''w'' ''s'' [] True 4 half_files = Inr s \<and> run_loop sample_env half_chain s = Some (s1, None)
     \<and> dict_get (wr_steps (wx_run s1)) ''a'' = dict_get (wr_steps half_run) ''a''"
proof -
  have half: "load_state half_files ''s'' = Inr (Some half_run)" "wr_status half_run = SS_Failed"
    "map_option passed_on (dict_get (wr_steps half_run) ''a'') = Some True"
    by code_simp+
  obtain t where t: "dict_get (wr_steps half_run) ''a'' = Some t" "passed_on t" using half(3) by auto
  have run: "case begin_run sample_env half_chain ''w'' ''s'' [] True 4 half_files of Inl e \<Rightarrow> False | Inr s \<Rightarrow>
      (case run_loop sample_env half_chain s of Some (s1, None) \<Rightarrow> True | _ \<Rightarrow> False)"
    by code_simp
  obtain s where s: "begin_run sample_env half_chain ''w'' ''s'' [] True 4 half_files = Inr s"
    using run by (auto split: sum.split_asm)
  obtain s1 where s1: "run_loop sample_env half_chain s = Some (s1, None)"
    using run unfolding s sum.case by (auto split: option.split_asm)
  from resumed_steps_kept [OF sample_good s s1 half(1) _ half(2) t] s s1 t show ?thesis by auto
qed


section \<open>Results\<close>

lemma run_loop_same: "good_env env \<Longrightarrow> run_loop env defs s = Some (s1, None) \<Longrightarrow> same_run s s1"
proof -
  assume good: "good_env env"
  have "r = None \<longrightarrow> same_run s s1" if "run_loop env defs s = Some (s1, r)" for r
    using that
  proof (induction rule: run_loop_induct)
    case (again s s' s1 r)
    obtain act picked where "run_picked env defs act picked s = Round_Again s'"
      by (rule round_again [OF good again(1)]) blast
    from same_run_trans [OF run_picked_same [OF this]] again(2) show ?case by blast
  qed simp_all
  then show "run_loop env defs s = Some (s1, None) \<Longrightarrow> same_run s s1" by blast
qed

lemma load_state_plain:
  assumes "load_state files session = Inr (Some r)"
  shows "plain_run r \<and> wr_session r = session"
proof -
  obtain name where n: "run_file session = Inr name"
    using assms by (auto simp: load_state_def res_bind_eq_Inr)
  note l = assms [unfolded load_state_def n res_bind_def sum.case]
  obtain j where "dict_get files name = Some (Some j)" using l by (cases "dict_get files name") (auto split: option.split_asm)
  note l = l [unfolded this option.case]
  have "run_of_json session j = Inr r" using l by (cases "run_of_json session j") simp_all
  then show ?thesis by (rule run_of_json_plain)
qed

lemma begin_plain:
  assumes "begin_run env defs workflow session payload resume w files = Inr s"
  shows "plain_run (wx_run s) \<and> wr_session (wx_run s) = session \<and> wr_workflow (wx_run s) = workflow"
  using assms
proof (cases rule: begin_run_cases)
  case fresh
  have "list_all (\<lambda>(i, t). wt_id t = i \<and> regular (wt_status t)) (map (\<lambda>d. (wp_id d, new_step (wp_id d))) defs)"
    by (simp add: list_all_iff new_step_def)
  with fresh(1) show ?thesis by (simp add: plain_run_def new_run_def)
next
  case (resumed r)
  from load_state_plain [OF resumed(2)] have r: "plain_run r" "wr_session r = session" by simp_all
  have "list_all (\<lambda>(i, t). wt_id t = i \<and> regular (wt_status t)) (map (\<lambda>(i, t). (i, resumed_step t)) d)"
    if "list_all (\<lambda>(i, t). wt_id t = i \<and> regular (wt_status t)) d" for d
    using that by (induction d) (auto simp: resumed_step_def)
  with r resumed(4,5) show ?thesis by (simp add: plain_run_def resumed_run_def)
qed

lemma execute_outputs:
  assumes "execute_workflow env (Inr defs) workflow session payload resume w files = Some ((w1, files1), Inr outs)"
  obtains s s1 s2 where "begin_run env defs workflow session payload resume w files = Inr s" "run_loop env defs s = Some (s1, None)"
    "conclude env s1 = (s2, Inr outs)" "w1 = wx_world s2" "files1 = wx_files s2"
proof -
  obtain s where s: "begin_run env defs workflow session payload resume w files = Inr s"
    using assms by (auto simp: execute_workflow_def split: sum.splits)
  then obtain s1 where l: "run_loop env defs s = Some (s1, None)"
    using assms by (auto simp: execute_workflow_def split: option.splits prod.splits)
  obtain s2 r where c: "conclude env s1 = (s2, r)" by fastforce
  from s l c assms show ?thesis by (cases r) (auto simp: execute_workflow_def intro: that)
qed

lemma conclude_loads:
  assumes "conclude env s = (s2, Inr outs)" "run_file (wr_session (wx_run s)) = Inr name" "plain_run (wx_run s)"
  obtains r where "load_state (wx_files s2) (wr_session (wx_run s)) = Inr (Some r)" "run_image (wx_run s2) r"
    "wr_steps (wx_run s2) = wr_steps (wx_run s)" "wr_workflow (wx_run s2) = wr_workflow (wx_run s)"
    "wr_status (wx_run s2) = SS_Success" "wr_session (wx_run s2) = wr_session (wx_run s)" "outs = outputs_of (wx_run s)"
proof -
  let ?t = "mark_current None (mark_run SS_Success s)"
  let ?r = "(wx_run ?t)\<lparr>wr_updated := we_now env (wx_world ?t)\<rparr>"
  obtain j where j: "json_image (run_json ?r) = Some j" and s2: "wx_run s2 = ?r"
    "wx_files s2 = dict_put (wr_session ?r @ ''.json'') (Some j) (wx_files ?t)" and outs: "outs = outputs_of (wx_run s)"
    using assms(1) by (auto simp: conclude_def saving_def save_state_def Let_def split: option.split_asm)
  have r: "wr_steps ?r = wr_steps (wx_run s)" "wr_workflow ?r = wr_workflow (wx_run s)" "wr_status ?r = SS_Success"
    "wr_session ?r = wr_session (wx_run s)"
    by (simp_all add: mark_current_def mark_run_def)
  then have plain: "plain_run ?r" using assms(3) by (simp add: plain_run_def)
  obtain r1 where r1: "run_of_json (wr_session ?r) j = Inr r1" "run_image ?r r1"
    using run_of_json_back [OF plain j] by blast
  have "name = wr_session (wx_run s) @ ''.json''" using assms(2) by (simp add: run_file_def split: if_splits)
  then have "dict_get (wx_files s2) name = Some (Some j)" using s2(2) r(4) by simp
  with assms(2) r1(1) r(4) have "load_state (wx_files s2) (wr_session (wx_run s)) = Inr (Some r1)"
    by (simp add: load_state_def res_bind_def)
  with r1(2) r outs show ?thesis by (intro that [of r1]) (simp_all only: s2(1))
qed

text \<open>C17: The checkpoint a successful run leaves behind is read back: loading it gives a run of that workflow with status
success, and its outputs are, step by step, the JSON images of the outputs \<open>execute\<close> returned, which all have one; outputs
that are values of JSON are read back unchanged.\<close>

theorem checkpoint_holds_outputs:
  assumes "good_env env" "execute_workflow env (Inr defs) workflow session payload resume w files = Some ((w1, files1), Inr outs)"
  shows "\<exists>r. load_state files1 session = Inr (Some r) \<and> wr_workflow r = workflow \<and> wr_session r = session
    \<and> wr_status r = SS_Success \<and> field_images outs = Some (outputs_of r)
    \<and> (list_all (\<lambda>(k, v). pure_json v) outs \<longrightarrow> outputs_of r = outs)"
proof -
  obtain s s1 s2 where e: "begin_run env defs workflow session payload resume w files = Inr s" "run_loop env defs s = Some (s1, None)"
    "conclude env s1 = (s2, Inr outs)" "files1 = wx_files s2"
    by (rule execute_outputs [OF assms(2)]) blast
  obtain name where name: "run_file session = Inr name"
    using e(1) by (auto simp: begin_run_def load_state_def res_bind_eq_Inr)
  note b = begin_plain [OF e(1)] and sm = run_loop_same [OF assms(1) e(2)]
  then have s1: "plain_run (wx_run s1)" "wr_session (wx_run s1) = session" "wr_workflow (wx_run s1) = workflow"
    by (simp_all add: same_run_def)
  obtain r where r: "load_state files1 session = Inr (Some r)" "run_image (wx_run s2) r" "wr_steps (wx_run s2) = wr_steps (wx_run s1)"
    "wr_workflow (wx_run s2) = workflow" "wr_status (wx_run s2) = SS_Success" "wr_session (wx_run s2) = session" "outs = outputs_of (wx_run s1)"
    by (rule conclude_loads [OF e(3) name [folded s1(2)] s1(1)]) (use s1 e(4) in simp)
  have im: "field_images outs = Some (outputs_of r)"
    using outputs_image [of "wr_steps (wx_run s2)" "wr_steps r"] r(2,3,7) by (simp add: run_image_def outputs_of_def)
  have "r = (wx_run s2)\<lparr>wr_steps := wr_steps r, wr_payload := wr_payload r\<rparr>" using r(2) by (simp add: run_image_def)
  then have "wr_workflow r = workflow" "wr_session r = session" "wr_status r = SS_Success"
    using r(4-6) by (metis (no_types) wf_run.simps wf_run.surjective wf_run.update_convs)+
  with r(1) im pure_image(3) [of outs] show ?thesis by auto
qed

lemma checkpoint_holds_outputs_witness:
  "\<exists>w files outs r. execute_workflow sample_env (Inr sample_chain) ''w'' ''s'' [] False 0 [] = Some ((w, files), Inr outs)
     \<and> load_state files ''s'' = Inr (Some r) \<and> outputs_of r = outs \<and> outs \<noteq> []"
proof -
  have "case execute_workflow sample_env (Inr sample_chain) ''w'' ''s'' [] False 0 [] of
      Some ((w, files), Inr outs) \<Rightarrow> outs \<noteq> [] \<and> list_all (\<lambda>(k, v). pure_json v) outs | _ \<Rightarrow> False"
    by code_simp
  from run_outputs [OF this] obtain w files outs
    where ex: "execute_workflow sample_env (Inr sample_chain) ''w'' ''s'' [] False 0 [] = Some ((w, files), Inr outs)"
      and outs: "outs \<noteq> []" "list_all (\<lambda>(k, v). pure_json v) outs" by blast
  from checkpoint_holds_outputs [OF sample_good ex] ex outs show ?thesis by blast
qed

text \<open>The tool answers a Python literal: a tuple is a list after the checkpoint, a set cannot be saved, and the run
raises although its tool succeeded.\<close>

definition literal_env :: "json \<Rightarrow> nat wf_env" where
  "literal_env j = sample_env\<lparr>we_codecs := sample_codecs\<lparr>cd_loads := (\<lambda>t. None), cd_literal := (\<lambda>t. Some j)\<rparr>\<rparr>"

lemma tuple_output_changes:
  "case execute_workflow (literal_env (JPy ''tuple'' ''(1, 2)'' (Some (JArr [JInt 1, JInt 2])))) (Inr [plain_step ''a'' (Some ''ok'') []]) ''w'' ''s'' [] False 0 [] of
     Some ((w, files), Inr outs) \<Rightarrow> outs = [(''a'', JPy ''tuple'' ''(1, 2)'' (Some (JArr [JInt 1, JInt 2])))]
       \<and> (case load_state files ''s'' of Inr (Some r) \<Rightarrow> outputs_of r = [(''a'', JArr [JInt 1, JInt 2])] | _ \<Rightarrow> False)
   | _ \<Rightarrow> False"
  by code_simp

lemma set_output_raises:
  "map_option snd (execute_workflow (literal_env (JPy ''set'' ''{1, 2}'' None)) (Inr [plain_step ''a'' (Some ''ok'') []]) ''w'' ''s'' [] False 0 [])
     = Some (Inl (Step_Raised ''TypeError''))"
  by code_simp

text \<open>A failed step is fatal when its failures are to fail the run.\<close>

lemma fatal_status: "run_status s1 k = run_status s k \<Longrightarrow> fatal defs s1 k = fatal defs s k"
  by (simp add: fatal_def)

lemma run_loop_not_fatal:
  assumes "good_env env" "\<And>k. \<not> fatal defs s k" "run_loop env defs s = Some (s1, None)"
  shows "\<not> fatal defs s1 k"
proof -
  have "r = None \<longrightarrow> (\<forall>k. \<not> fatal defs s k) \<longrightarrow> \<not> fatal defs s1 k" if "run_loop env defs s = Some (s1, r)" for r
    using that
  proof (induction rule: run_loop_induct)
    case (again s s' s1 r)
    obtain act picked where p: "framed picked s s'" "\<And>k. k \<in> set picked \<Longrightarrow> \<not> fatal defs s' k"
      by (rule round_again [OF assms(1) again(1)]) blast
    have "\<not> fatal defs s' k" if "\<forall>k. \<not> fatal defs s k" for k
      using p(2) [of k] fatal_status [OF framed_status [OF p(1), of k]] that by blast
    with again(2) show ?case by blast
  qed simp_all
  with assms(2,3) show ?thesis by blast
qed

lemma image_status:
  assumes "list_all2 step_image d e"
  shows "map_option wt_status (dict_get e k) = map_option wt_status (dict_get d k)"
  using assms
proof (induction rule: list_all2_induct)
  case (Cons it d it1 e)
  obtain i t i1 t1 where it: "it = (i, t)" "it1 = (i1, t1)" by (cases it, cases it1)
  then have "i1 = i" "t1 = t\<lparr>wt_output := wt_output t1\<rparr>" using Cons(1) by (auto simp: step_image_def)
  moreover from this(2) have "wt_status t1 = wt_status t" by (cases t1) simp
  ultimately show ?case using Cons.IH it by (simp add: dict_get_def)
qed simp

lemma begin_not_failed:
  assumes "begin_run env defs workflow session payload resume w files = Inr s"
  shows "run_status s k \<noteq> Some SS_Failed"
  using assms
proof (cases rule: begin_run_cases)
  case fresh
  show ?thesis using fresh_status [OF fresh(1), of k] by auto
next
  case (resumed r)
  show ?thesis using resumed_step_in [OF resumed(5), of k] by (auto simp: run_status_step resumed_step_def split: if_splits)
qed

text \<open>C18: A run that returns outputs has no step that failed under the policy \<open>fail\<close>: every failed step its checkpoint
holds is one whose \<open>on_failure\<close> is something else.\<close>

theorem success_without_fatal_failure:
  assumes "good_env env" "execute_workflow env (Inr defs) workflow session payload resume w files = Some ((w1, files1), Inr outs)"
    "load_state files1 session = Inr (Some r)" "dict_get (wr_steps r) k = Some t" "wt_status t = SS_Failed" "step_def_of defs k = Some d"
  shows "wp_on_failure d \<noteq> ''fail''"
proof -
  obtain s s1 s2 where e: "begin_run env defs workflow session payload resume w files = Inr s" "run_loop env defs s = Some (s1, None)"
    "conclude env s1 = (s2, Inr outs)" "files1 = wx_files s2"
    by (rule execute_outputs [OF assms(2)]) blast
  obtain name where name: "run_file session = Inr name"
    using e(1) by (auto simp: begin_run_def load_state_def res_bind_eq_Inr)
  note b = begin_plain [OF e(1)] and sm = run_loop_same [OF assms(1) e(2)]
  then have s1: "plain_run (wx_run s1)" "wr_session (wx_run s1) = session" by (simp_all add: same_run_def)
  have "list_all2 step_image (wr_steps (wx_run s1)) (wr_steps r)"
    by (rule conclude_loads [OF e(3) name [folded s1(2)] s1(1)]) (use s1 e(4) assms(3) in \<open>simp add: run_image_def\<close>)
  from image_status [OF this, of k] assms(4,5) have "run_status s1 k = Some SS_Failed"
    by (simp add: run_status_def)
  moreover have "\<not> fatal defs s k" for k using begin_not_failed [OF e(1), of k] by (simp add: fatal_def)
  note run_loop_not_fatal [OF assms(1) this e(2), of k]
  ultimately show ?thesis using assms(6) by (simp add: fatal_def)
qed

lemma success_without_fatal_failure_witness:
  "(\<exists>w files outs. execute_workflow sample_env (Inr sample_abort) ''w'' ''s'' [] False 0 [] = Some ((w, files), Inr outs)) \<and> ''fallback'' \<noteq> ''fail''"
proof -
  have run: "case execute_workflow sample_env (Inr sample_abort) ''w'' ''s'' [] False 0 [] of Some ((w, files), Inr outs) \<Rightarrow>
      (case load_state files ''s'' of Inr (Some r) \<Rightarrow> map_option wt_status (dict_get (wr_steps r) ''a'') = Some SS_Failed | _ \<Rightarrow> False) | _ \<Rightarrow> False"
    by code_simp
  from run_outputs [OF run] obtain w files outs
    where ex: "execute_workflow sample_env (Inr sample_abort) ''w'' ''s'' [] False 0 [] = Some ((w, files), Inr outs)"
      and l: "case load_state files ''s'' of Inr (Some r) \<Rightarrow> map_option wt_status (dict_get (wr_steps r) ''a'') = Some SS_Failed | _ \<Rightarrow> False"
    by blast
  from l obtain r t where r: "load_state files ''s'' = Inr (Some r)" "dict_get (wr_steps r) ''a'' = Some t" "wt_status t = SS_Failed"
    by (cases "load_state files ''s''") (auto split: option.split_asm)
  have "step_def_of sample_abort ''a'' = Some (hd sample_abort)" "wp_on_failure (hd sample_abort) = ''fallback''" by code_simp+
  with success_without_fatal_failure [OF sample_good ex r] ex show ?thesis by auto
qed


section \<open>Accepted workflows that cannot run\<close>

text \<open>The validation takes \<open>depends_on\<close> only when there is no key \<open>dependencies\<close>, the execution also when it is null: two
steps that wait for each other pass the validation and block each other.\<close>

definition null_step :: "string \<Rightarrow> string \<Rightarrow> wf_step" where
  "null_step sid dep = (plain_step sid (Some ''ok'') [])\<lparr>wp_dependencies := Some Dep_Null, wp_depends_on := Some (Dep_One dep)\<rparr>"

lemma null_dependencies_block:
  "validate_step_graph (Some [Mapping (null_step ''a'' ''b''), Mapping (null_step ''b'' ''a'')]) = None"
  "map_option snd (execute_workflow sample_env (Inr [null_step ''a'' ''b'', null_step ''b'' ''a'']) ''w'' ''s'' [] False 0 []) = Some (Inl (Deadlock [''a'']))"
  by code_simp+

text \<open>A jump past a step leaves its target waiting for the step before it, which nothing activates.\<close>

definition linear_step :: "string \<Rightarrow> string option \<Rightarrow> wf_step" where
  "linear_step sid next = (plain_step sid (Some ''ok'') [])\<lparr>wp_dependencies := None, wp_next := next\<rparr>"

lemma jump_past_a_step_blocks:
  "validate_step_graph (Some [Mapping (linear_step ''a'' (Some ''c'')), Mapping (linear_step ''b'' None), Mapping (linear_step ''c'' None)]) = None"
  "map_option snd (execute_workflow sample_env (Inr [linear_step ''a'' (Some ''c''), linear_step ''b'' None, linear_step ''c'' None]) ''w'' ''s'' [] False 0 [])
     = Some (Inl (Deadlock [''c'']))"
  by code_simp+

text \<open>A failed step whose fallback is missing: the run is saved as failed and then reported as a success.\<close>

lemma failed_step_reported_as_success:
  "case execute_workflow sample_env (Inr sample_abort) ''w'' ''s'' [] False 0 [] of
     Some ((w, files), Inr outs) \<Rightarrow>
       (case load_state files ''s'' of
          Inr (Some r) \<Rightarrow> outs = [] \<and> wr_status r = SS_Success \<and> map_option wt_status (dict_get (wr_steps r) ''a'') = Some SS_Failed
        | _ \<Rightarrow> False)
   | _ \<Rightarrow> False"
  by code_simp

end
