(* ===== verification/Debate_Budget.thy ===== *)
theory Debate_Budget
  imports Json Complex_Main
begin

text \<open>
  The execution budget of a debate (core/debate_budget.py): the counters with their limits, the attempts that
  share its semaphore, and the classification of provider failures.

  The semaphore is asyncio's, as of Python 3.11: a waiter is granted its place when it is woken and goes on later,
  and nobody overtakes those who wait or were woken. Between two suspensions a task runs alone, so each operation is
  one step of the whole system. A float is the rational it denotes; \<open>rnd\<close> rounds the result of an operation on floats.
\<close>

section \<open>Classifying failures\<close>

text \<open>What the code reads from an error object: whether it is a cancellation, its attribute \<open>retryable\<close> when that is
\<open>True\<close> or \<open>False\<close>, its integer \<open>status_code\<close> or \<open>status\<close>, whether its type is one of the transient ones and its text;
then the errors behind it, as \<open>__cause__\<close> and \<open>__context__\<close>. A chain that comes back to itself, which the code cuts,
does not arise.\<close>

datatype fault = Fault
  (flt_cancelled: bool) (flt_retryable: "bool option") (flt_status_code: "int option") (flt_status: "int option")
  (flt_transient: bool) (flt_text: string) (flt_cause: "fault option") (flt_context: "fault option")

record failure_classification =
  fc_retryable :: bool
  fc_reason :: string

definition classified :: "bool \<Rightarrow> string \<Rightarrow> failure_classification" where
  "classified b r = \<lparr>fc_retryable = b, fc_reason = r\<rparr>"

definition fault_behind :: "fault \<Rightarrow> fault option" where
  "fault_behind f = (case flt_cause f of Some c \<Rightarrow> Some c | None \<Rightarrow> flt_context f)"

fun fault_chain :: "nat \<Rightarrow> fault option \<Rightarrow> fault list" where
  "fault_chain 0 f = []"
| "fault_chain n None = []"
| "fault_chain (Suc n) (Some f) = f # fault_chain n (fault_behind f)"

definition chain_limit :: nat where
  "chain_limit = 8"

definition fault_marker :: "fault \<Rightarrow> bool option" where
  "fault_marker f = (case find (\<lambda>g. flt_retryable g \<noteq> None) (fault_chain chain_limit (Some f)) of None \<Rightarrow> None | Some g \<Rightarrow> flt_retryable g)"

definition own_status :: "fault \<Rightarrow> int option" where
  "own_status f = (case flt_status_code f of Some n \<Rightarrow> Some n | None \<Rightarrow> flt_status f)"

definition status_code_of :: "fault \<Rightarrow> int option" where
  "status_code_of f = (case find (\<lambda>g. own_status g \<noteq> None) (fault_chain chain_limit (Some f)) of None \<Rightarrow> None | Some g \<Rightarrow> own_status g)"

definition temporary_codes :: "int list" where
  "temporary_codes = [429, 500, 502, 503, 504]"

definition permanent_codes :: "int list" where
  "permanent_codes = [400, 401, 403, 404, 409, 422]"

definition permanent_markers :: "string list" where
  "permanent_markers =
     [''unauthorized'', ''forbidden'', ''authentication'', ''invalid api key'', ''api key was not provided'', ''subscription'', ''billing'',
      ''quota'', ''unsupported model'', ''malformed request'', ''validation'', ''context window'', ''offline'', ''disabled provider'']"

definition retryable_markers :: "string list" where
  "retryable_markers =
     [''timeout'', ''timed out'', ''connection'', ''connection reset'', ''temporarily unavailable'', ''rate limit'', ''http 429'', ''http 500'',
      ''http 502'', ''http 503'', ''http 504'']"

definition classify_text :: "string \<Rightarrow> failure_classification" where
  "classify_text t =
     (if list_ex (\<lambda>m. contains_str m (lower t)) permanent_markers then classified False ''permanent_provider_failure''
      else if list_ex (\<lambda>m. contains_str m (lower t)) retryable_markers then classified True ''flattened_transient_provider_failure''
      else classified False ''ambiguous_provider_failure'')"

definition classify_status :: "fault \<Rightarrow> failure_classification option" where
  "classify_status f =
     (case status_code_of f of
        None \<Rightarrow> None
      | Some n \<Rightarrow>
          if n \<in> set temporary_codes then Some (classified True (''http_'' @ int_str n))
          else if n \<in> set permanent_codes then Some (classified False (''http_'' @ int_str n))
          else None)"

definition classify_provider_failure :: "fault \<Rightarrow> failure_classification" where
  "classify_provider_failure f =
     (if flt_cancelled f then classified False ''cancelled''
      else (case fault_marker f of
              Some True \<Rightarrow> classified True ''explicit_temporary_provider_failure''
            | Some False \<Rightarrow> classified False ''explicit_permanent_provider_failure''
            | None \<Rightarrow>
                (case classify_status f of
                   Some c \<Rightarrow> c
                 | None \<Rightarrow> if flt_transient f then classified True ''typed_transient_provider_failure'' else classify_text (flt_text f))))"

definition estimate_provider_cost :: "(rat \<Rightarrow> rat) \<Rightarrow> string \<Rightarrow> int \<Rightarrow> int \<Rightarrow> rat" where
  "estimate_provider_cost rnd model prompt completion =
     (let pro = contains_str ''pro'' (lower model);
          input_rate = rnd ((if pro then 125 / 100 else rnd (75 / 1000)) / 1000000);
          output_rate = rnd ((if pro then 5 else rnd (3 / 10)) / 1000000)
      in rnd (rnd (of_int prompt * input_rate) + rnd (of_int completion * output_rate)))"


section \<open>The counters\<close>

record execution_budget =
  eb_max_calls :: int
  eb_max_retries :: int
  eb_max_healing :: int
  eb_max_depth :: int
  eb_max_concurrent :: int
  eb_calls :: int
  eb_retries :: int
  eb_healing :: int
  eb_depth :: int
  eb_peak_depth :: int
  eb_concurrent :: int
  eb_peak_concurrent :: int
  eb_prompt_tokens :: int
  eb_completion_tokens :: int
  eb_total_tokens :: int
  eb_cost :: rat
  eb_exhausted :: "string option"
  eb_classifications :: "string list"

text \<open>The limits are integers, checked in the order of the constructor.\<close>

definition make_budget :: "int \<Rightarrow> int \<Rightarrow> int \<Rightarrow> int \<Rightarrow> int \<Rightarrow> string + execution_budget" where
  "make_budget calls retries healing depth concurrent =
     guarded
       [(calls < 1, ''max_provider_calls must be at least 1''), (concurrent < 1, ''max_concurrent_provider_calls must be at least 1''),
        (retries < 0, ''max_retries must be non-negative''), (healing < 0, ''max_healing_calls must be non-negative''),
        (depth < 0, ''max_nested_depth must be non-negative'')]
       \<lparr>eb_max_calls = calls, eb_max_retries = retries, eb_max_healing = healing, eb_max_depth = depth, eb_max_concurrent = concurrent,
        eb_calls = 0, eb_retries = 0, eb_healing = 0, eb_depth = 0, eb_peak_depth = 0, eb_concurrent = 0, eb_peak_concurrent = 0,
        eb_prompt_tokens = 0, eb_completion_tokens = 0, eb_total_tokens = 0, eb_cost = 0, eb_exhausted = None, eb_classifications = []\<rparr>"

definition default_budget :: "string + execution_budget" where
  "default_budget = make_budget 64 12 8 1 3"

text \<open>Each operation gives the budget it leaves and the dimension in which it raised \<open>BudgetExhausted\<close>.\<close>

type_synonym budget_result = "execution_budget \<times> string option"

definition exhausted_in :: "string \<Rightarrow> execution_budget \<Rightarrow> budget_result" where
  "exhausted_in which b = (b\<lparr>eb_exhausted := Some which\<rparr>, Some which)"

definition consume_retry :: "execution_budget \<Rightarrow> budget_result" where
  "consume_retry b = (if eb_max_retries b \<le> eb_retries b then exhausted_in ''retries'' b else (b\<lparr>eb_retries := eb_retries b + 1\<rparr>, None))"

definition consume_healing :: "execution_budget \<Rightarrow> budget_result" where
  "consume_healing b = (if eb_max_healing b \<le> eb_healing b then exhausted_in ''healing_calls'' b else (b\<lparr>eb_healing := eb_healing b + 1\<rparr>, None))"

definition check_nested_depth :: "int \<Rightarrow> execution_budget \<Rightarrow> budget_result" where
  "check_nested_depth d b =
     (if eb_max_depth b < d then exhausted_in ''nested_depth'' b
      else (b\<lparr>eb_depth := d, eb_peak_depth := max (eb_peak_depth b) d\<rparr>, None))"

definition record_classification :: "failure_classification \<Rightarrow> execution_budget \<Rightarrow> execution_budget" where
  "record_classification c b = b\<lparr>eb_classifications := eb_classifications b @ [fc_reason c]\<rparr>"

text \<open>\<open>isinstance(x, int) and x >= 0\<close>, which holds of booleans too.\<close>

definition token_count :: "json option \<Rightarrow> int option" where
  "token_count v =
     (case v of
        Some (JInt n) \<Rightarrow> if 0 \<le> n then Some n else None
      | Some (JBool b) \<Rightarrow> Some (if b then 1 else 0)
      | _ \<Rightarrow> None)"

definition record_usage :: "(rat \<Rightarrow> rat) \<Rightarrow> (string, json) dict \<Rightarrow> rat option \<Rightarrow> execution_budget \<Rightarrow> execution_budget" where
  "record_usage rnd usage cost b =
     (if usage = [] then b
      else
        (let p = token_count (dict_get usage ''prompt_tokens''); c = token_count (dict_get usage ''completion_tokens'');
             t = token_count (dict_get usage ''total_tokens'');
             added = (case t of Some n \<Rightarrow> n | None \<Rightarrow> (case (p, c) of (Some m, Some n) \<Rightarrow> m + n | _ \<Rightarrow> 0))
         in b\<lparr>eb_prompt_tokens := eb_prompt_tokens b + (case p of Some n \<Rightarrow> n | None \<Rightarrow> 0),
              eb_completion_tokens := eb_completion_tokens b + (case c of Some n \<Rightarrow> n | None \<Rightarrow> 0),
              eb_total_tokens := eb_total_tokens b + added,
              eb_cost := (case cost of Some x \<Rightarrow> if 0 \<le> x then rnd (eb_cost b + x) else eb_cost b | None \<Rightarrow> eb_cost b)\<rparr>))"


section \<open>The semaphore\<close>

record 't semaphore =
  sm_value :: nat
  sm_waiting :: "'t list"
  sm_woken :: "'t list"

definition sem_locked :: "'t semaphore \<Rightarrow> bool" where
  "sem_locked sm = (sm_value sm = 0 \<or> sm_waiting sm \<noteq> [] \<or> sm_woken sm \<noteq> [])"

definition wake_next :: "'t semaphore \<Rightarrow> 't semaphore" where
  "wake_next sm =
     (case sm_waiting sm of
        [] \<Rightarrow> sm
      | t # ts \<Rightarrow> sm\<lparr>sm_value := sm_value sm - 1, sm_waiting := ts, sm_woken := sm_woken sm @ [t]\<rparr>)"

definition sem_release :: "'t semaphore \<Rightarrow> 't semaphore" where
  "sem_release sm = wake_next (sm\<lparr>sm_value := sm_value sm + 1\<rparr>)"


section \<open>Attempts\<close>

text \<open>A debate: the budget, its semaphore, and the attempts that hold a place.\<close>

record 't debate =
  db_budget :: execution_budget
  db_sem :: "'t semaphore"
  db_inside :: "'t list"

definition new_debate :: "execution_budget \<Rightarrow> 't debate" where
  "new_debate b = \<lparr>db_budget = b, db_sem = \<lparr>sm_value = nat (eb_max_concurrent b), sm_waiting = [], sm_woken = []\<rparr>, db_inside = []\<rparr>"

definition busy :: "'t debate \<Rightarrow> 't set" where
  "busy s = set (sm_waiting (db_sem s)) \<union> set (sm_woken (db_sem s)) \<union> set (db_inside s)"

text \<open>\<open>_acquire_provider\<close> once the semaphore is acquired; an attempt that is refused gives its place back.\<close>

definition acquired :: "'t \<Rightarrow> 't debate \<Rightarrow> 't debate \<times> string option" where
  "acquired t s =
     (let b = db_budget s
      in if eb_max_calls b \<le> eb_calls b
         then (s\<lparr>db_budget := b\<lparr>eb_exhausted := Some ''provider_calls''\<rparr>, db_sem := sem_release (db_sem s)\<rparr>, Some ''provider_calls'')
         else (s\<lparr>db_budget := b\<lparr>eb_calls := eb_calls b + 1, eb_concurrent := eb_concurrent b + 1,
                     eb_peak_concurrent := max (eb_peak_concurrent b) (eb_concurrent b + 1)\<rparr>,
                 db_inside := db_inside s @ [t]\<rparr>, None))"

definition begin_attempt :: "'t \<Rightarrow> 't debate \<Rightarrow> 't debate \<times> string option" where
  "begin_attempt t s =
     (let sm = db_sem s
      in if sem_locked sm then (s\<lparr>db_sem := sm\<lparr>sm_waiting := sm_waiting sm @ [t]\<rparr>\<rparr>, None)
         else acquired t (s\<lparr>db_sem := sm\<lparr>sm_value := sm_value sm - 1\<rparr>\<rparr>))"

definition resume_attempt :: "'t \<Rightarrow> 't debate \<Rightarrow> 't debate \<times> string option" where
  "resume_attempt t s =
     (let sm = (db_sem s)\<lparr>sm_woken := remove1 t (sm_woken (db_sem s))\<rparr>;
          sm1 = (if 0 < sm_value sm then wake_next sm else sm)
      in acquired t (s\<lparr>db_sem := sm1\<rparr>))"

definition end_attempt :: "'t \<Rightarrow> 't debate \<Rightarrow> 't debate" where
  "end_attempt t s =
     s\<lparr>db_budget := (db_budget s)\<lparr>eb_concurrent := eb_concurrent (db_budget s) - 1\<rparr>, db_sem := sem_release (db_sem s),
       db_inside := remove1 t (db_inside s)\<rparr>"

text \<open>A cancelled waiter leaves the queue; one that was woken already hands its place on.\<close>

definition cancel_attempt :: "'t \<Rightarrow> 't debate \<Rightarrow> 't debate" where
  "cancel_attempt t s =
     (let sm = db_sem s
      in if t \<in> set (sm_woken sm) then s\<lparr>db_sem := sem_release (sm\<lparr>sm_woken := remove1 t (sm_woken sm)\<rparr>)\<rparr>
         else s\<lparr>db_sem := sm\<lparr>sm_waiting := remove1 t (sm_waiting sm)\<rparr>\<rparr>)"

definition on_budget :: "(execution_budget \<Rightarrow> execution_budget) \<Rightarrow> 't debate \<Rightarrow> 't debate" where
  "on_budget f s = s\<lparr>db_budget := f (db_budget s)\<rparr>"

text \<open>What may happen next in a debate, and what it grants: a provider call when an attempt comes inside, a retry or a
healing call when its counter does not raise. The log of a run is what was granted in it.\<close>

datatype grant = Call_Made | Retry_Granted | Healing_Granted

definition call_made :: "'t \<Rightarrow> 't debate \<Rightarrow> grant list" where
  "call_made t s = (if t \<in> set (db_inside s) then [Call_Made] else [])"

definition granted :: "grant \<Rightarrow> budget_result \<Rightarrow> grant list" where
  "granted g r = (if snd r = None then [g] else [])"

inductive debate_step :: "(rat \<Rightarrow> rat) \<Rightarrow> 't debate \<Rightarrow> grant list \<Rightarrow> 't debate \<Rightarrow> bool" for rnd where
  step_begin: "t \<notin> busy s \<Longrightarrow> s1 = fst (begin_attempt t s) \<Longrightarrow> debate_step rnd s (call_made t s1) s1"
| step_resume: "t \<in> set (sm_woken (db_sem s)) \<Longrightarrow> s1 = fst (resume_attempt t s) \<Longrightarrow> debate_step rnd s (call_made t s1) s1"
| step_end: "t \<in> set (db_inside s) \<Longrightarrow> debate_step rnd s [] (end_attempt t s)"
| step_cancel: "t \<in> set (sm_waiting (db_sem s)) \<union> set (sm_woken (db_sem s)) \<Longrightarrow> debate_step rnd s [] (cancel_attempt t s)"
| step_retry: "debate_step rnd s (granted Retry_Granted (consume_retry (db_budget s))) (on_budget (fst \<circ> consume_retry) s)"
| step_healing: "debate_step rnd s (granted Healing_Granted (consume_healing (db_budget s))) (on_budget (fst \<circ> consume_healing) s)"
| step_depth: "debate_step rnd s [] (on_budget (fst \<circ> check_nested_depth d) s)"
| step_classified: "debate_step rnd s [] (on_budget (record_classification c) s)"
| step_usage: "debate_step rnd s [] (on_budget (record_usage rnd usage cost) s)"

inductive debate_reaches :: "(rat \<Rightarrow> rat) \<Rightarrow> 't debate \<Rightarrow> grant list \<Rightarrow> 't debate \<Rightarrow> bool" for rnd s0 where
  debate_start: "debate_reaches rnd s0 [] s0"
| debate_more: "debate_reaches rnd s0 given s \<Longrightarrow> debate_step rnd s g s1 \<Longrightarrow> debate_reaches rnd s0 (given @ g) s1"

end
