(* ===== verification/Budget_Properties.thy ===== *)
theory Budget_Properties
  imports Debate_Budget
begin

text \<open>
  What the execution budget of a debate guarantees under every interleaving of its attempts: the limits, a semaphore
  that loses no place, and which failures are never retried.
\<close>

section \<open>The invariant\<close>

definition within_limits :: "execution_budget \<Rightarrow> bool" where
  "within_limits b \<longleftrightarrow> eb_calls b \<le> eb_max_calls b \<and> eb_retries b \<le> eb_max_retries b \<and> eb_healing b \<le> eb_max_healing b
     \<and> eb_depth b \<le> eb_max_depth b \<and> eb_peak_depth b \<le> eb_max_depth b \<and> eb_concurrent b \<le> eb_peak_concurrent b
     \<and> eb_peak_concurrent b \<le> eb_max_concurrent b"

definition places_kept :: "'t debate \<Rightarrow> bool" where
  "places_kept s \<longleftrightarrow> (let sm = db_sem s in
     int (sm_value sm + length (sm_woken sm) + length (db_inside s)) = eb_max_concurrent (db_budget s)
     \<and> eb_concurrent (db_budget s) = int (length (db_inside s)) \<and> (sm_waiting sm \<noteq> [] \<longrightarrow> 0 < sm_value sm \<longrightarrow> sm_woken sm \<noteq> [])
     \<and> distinct (sm_waiting sm @ sm_woken sm @ db_inside s))"

definition debate_ok :: "'t debate \<Rightarrow> bool" where
  "debate_ok s \<longleftrightarrow> within_limits (db_budget s) \<and> places_kept s"

lemma make_budget_ok:
  assumes "make_budget calls retries healing depth concurrent = Inr b"
  shows "debate_ok (new_debate b)" "eb_max_calls b = calls" "eb_max_concurrent b = concurrent"
  using assms by (auto simp: make_budget_def debate_ok_def within_limits_def places_kept_def new_debate_def Let_def)

lemma sem_release_simps:
  "sm_value (sem_release sm) + length (sm_woken (sem_release sm)) = Suc (sm_value sm + length (sm_woken sm))"
  "sm_waiting (sem_release sm) = tl (sm_waiting sm)"
  "sm_woken (sem_release sm) = sm_woken sm @ take 1 (sm_waiting sm)"
  by (simp_all add: sem_release_def wake_next_def split: list.splits)

text \<open>The state between taking a place and \<open>_acquire_provider\<close>: one place more than the counters say. What a woken
waiter leaves to the next is the last conjunct.\<close>

definition place_taken :: "'t \<Rightarrow> 't debate \<Rightarrow> bool" where
  "place_taken t s \<longleftrightarrow> within_limits (db_budget s) \<and> (let sm = db_sem s in
     int (sm_value sm + length (sm_woken sm) + length (db_inside s) + 1) = eb_max_concurrent (db_budget s)
     \<and> eb_concurrent (db_budget s) = int (length (db_inside s)) \<and> (sm_waiting sm \<noteq> [] \<longrightarrow> 0 < sm_value sm \<longrightarrow> sm_woken sm \<noteq> [])
     \<and> distinct (sm_waiting sm @ sm_woken sm @ db_inside s) \<and> t \<notin> busy s)"

lemma take_tl_distinct: "distinct (xs @ ys @ zs) \<Longrightarrow> distinct (tl xs @ (ys @ take 1 xs) @ zs)"
  by (cases xs) auto

text \<open>Giving a place back keeps the invariant, whatever else has changed consistently.\<close>

lemma released_ok:
  assumes "within_limits b" "int (sm_value sm + length (sm_woken sm) + length ins + 1) = eb_max_concurrent b"
    "eb_concurrent b = int (length ins)" "distinct (sm_waiting sm @ sm_woken sm @ ins)"
  shows "debate_ok \<lparr>db_budget = b, db_sem = sem_release sm, db_inside = ins\<rparr>"
proof -
  let ?sm = "sem_release sm"
  have "distinct (sm_waiting ?sm @ sm_woken ?sm @ ins)"
    unfolding sem_release_simps by (rule take_tl_distinct) (use assms(4) in simp)
  moreover have "sm_waiting ?sm \<noteq> [] \<longrightarrow> sm_woken ?sm \<noteq> []"
    by (cases "sm_waiting sm") (auto simp: sem_release_simps)
  moreover have "sm_value ?sm + length (sm_woken ?sm) = Suc (sm_value sm + length (sm_woken sm))" by (rule sem_release_simps)
  ultimately show ?thesis using assms by (simp add: debate_ok_def places_kept_def Let_def)
qed

lemma acquired_ok:
  assumes "place_taken t s"
  shows "debate_ok (fst (acquired t s))"
proof (cases "eb_max_calls (db_budget s) \<le> eb_calls (db_budget s)")
  case True
  have "debate_ok \<lparr>db_budget = (db_budget s)\<lparr>eb_exhausted := Some ''provider_calls''\<rparr>, db_sem = sem_release (db_sem s), db_inside = db_inside s\<rparr>"
    by (rule released_ok) (use assms in \<open>simp_all add: place_taken_def within_limits_def Let_def\<close>)
  with True show ?thesis by (cases s) (simp add: acquired_def Let_def)
next
  case False
  have "distinct (sm_waiting (db_sem s) @ sm_woken (db_sem s) @ db_inside s @ [t])"
    using assms by (auto simp: place_taken_def busy_def Let_def)
  with False assms show ?thesis
    by (simp add: acquired_def debate_ok_def places_kept_def within_limits_def place_taken_def Let_def)
qed

lemma begin_ok:
  assumes "debate_ok s" "t \<notin> busy s"
  shows "debate_ok (fst (begin_attempt t s))"
proof (cases "sem_locked (db_sem s)")
  case True
  with assms show ?thesis
    by (auto simp: begin_attempt_def debate_ok_def places_kept_def sem_locked_def busy_def Let_def)
next
  case False
  have "place_taken t (s\<lparr>db_sem := (db_sem s)\<lparr>sm_value := sm_value (db_sem s) - 1\<rparr>\<rparr>)"
    using False assms by (auto simp: place_taken_def debate_ok_def places_kept_def sem_locked_def busy_def Let_def)
  from acquired_ok [OF this] False show ?thesis by (simp add: begin_attempt_def Let_def)
qed

lemma resume_ok:
  assumes "debate_ok s" "t \<in> set (sm_woken (db_sem s))"
  shows "debate_ok (fst (resume_attempt t s))"
proof -
  let ?sm = "(db_sem s)\<lparr>sm_woken := remove1 t (sm_woken (db_sem s))\<rparr>"
  have len: "length (sm_woken (db_sem s)) = Suc (length (remove1 t (sm_woken (db_sem s))))"
    using assms(2) by (metis One_nat_def Suc_pred length_pos_if_in_set length_remove1)
  have d: "distinct (sm_waiting (db_sem s) @ remove1 t (sm_woken (db_sem s)) @ db_inside s)"
    and t: "t \<notin> set (sm_waiting (db_sem s))" "t \<notin> set (remove1 t (sm_woken (db_sem s)))" "t \<notin> set (db_inside s)"
    using assms by (auto simp: debate_ok_def places_kept_def Let_def dest: in_set_remove1 notin_set_remove1)
  have "place_taken t (s\<lparr>db_sem := if 0 < sm_value ?sm then wake_next ?sm else ?sm\<rparr>)"
  proof (cases "sm_waiting (db_sem s)")
    case Nil
    with assms(1) d t len show ?thesis by (auto simp: place_taken_def debate_ok_def places_kept_def wake_next_def busy_def Let_def)
  next
    case (Cons x xs)
    with assms(1) d t len show ?thesis by (auto simp: place_taken_def debate_ok_def places_kept_def wake_next_def busy_def Let_def)
  qed
  from acquired_ok [OF this] show ?thesis by (simp add: resume_attempt_def Let_def)
qed

lemma end_ok:
  assumes "debate_ok s" "t \<in> set (db_inside s)"
  shows "debate_ok (end_attempt t s)"
proof -
  have len: "length (db_inside s) = Suc (length (remove1 t (db_inside s)))"
    using assms(2) by (metis One_nat_def Suc_pred length_pos_if_in_set length_remove1)
  have "debate_ok \<lparr>db_budget = (db_budget s)\<lparr>eb_concurrent := eb_concurrent (db_budget s) - 1\<rparr>, db_sem = sem_release (db_sem s),
      db_inside = remove1 t (db_inside s)\<rparr>"
    by (rule released_ok)
      (use assms len in \<open>auto simp: debate_ok_def places_kept_def within_limits_def Let_def dest: notin_set_remove1\<close>)
  then show ?thesis by (cases s) (simp add: end_attempt_def)
qed

lemma cancel_ok:
  assumes "debate_ok s" "t \<in> set (sm_waiting (db_sem s)) \<union> set (sm_woken (db_sem s))"
  shows "debate_ok (cancel_attempt t s)"
proof (cases "t \<in> set (sm_woken (db_sem s))")
  case True
  have len: "length (sm_woken (db_sem s)) = Suc (length (remove1 t (sm_woken (db_sem s))))"
    using True by (metis One_nat_def Suc_pred length_pos_if_in_set length_remove1)
  have "debate_ok \<lparr>db_budget = db_budget s, db_sem = sem_release ((db_sem s)\<lparr>sm_woken := remove1 t (sm_woken (db_sem s))\<rparr>), db_inside = db_inside s\<rparr>"
    by (rule released_ok)
      (use assms(1) len in \<open>auto simp: debate_ok_def places_kept_def Let_def dest: notin_set_remove1\<close>)
  with True show ?thesis by (cases s) (simp add: cancel_attempt_def Let_def)
next
  case False
  have "sm_waiting (db_sem s) \<noteq> [] \<longrightarrow> 0 < sm_value (db_sem s) \<longrightarrow> sm_woken (db_sem s) \<noteq> []"
    using assms(1) by (simp add: debate_ok_def places_kept_def Let_def)
  moreover have "sm_waiting (db_sem s) \<noteq> []" using False assms(2) by auto
  ultimately show ?thesis
    using False assms by (auto simp: cancel_attempt_def debate_ok_def places_kept_def Let_def dest: notin_set_remove1)
qed

lemma on_budget_ok:
  assumes "debate_ok s" "within_limits (f (db_budget s))" "eb_concurrent (f (db_budget s)) = eb_concurrent (db_budget s)"
    "eb_max_concurrent (f (db_budget s)) = eb_max_concurrent (db_budget s)"
  shows "debate_ok (on_budget f s)"
  using assms by (simp add: debate_ok_def on_budget_def places_kept_def Let_def)

lemma debate_step_ok:
  assumes "debate_step rnd s g s1" "debate_ok s"
  shows "debate_ok s1"
  using assms
proof (cases rule: debate_step.cases)
  case (step_begin t)
  show ?thesis using begin_ok [OF assms(2) step_begin(2)] step_begin by simp
next
  case (step_resume t)
  show ?thesis using resume_ok [OF assms(2) step_resume(2)] step_resume by simp
next
  case (step_end t)
  show ?thesis using end_ok [OF assms(2) step_end(3)] step_end by simp
next
  case (step_cancel t)
  show ?thesis using cancel_ok [OF assms(2) step_cancel(3)] step_cancel by simp
next
  case step_retry
  show ?thesis unfolding step_retry(2)
    by (rule on_budget_ok [OF assms(2)])
      (use assms(2) in \<open>auto simp: consume_retry_def exhausted_in_def within_limits_def debate_ok_def\<close>)
next
  case step_healing
  show ?thesis unfolding step_healing(2)
    by (rule on_budget_ok [OF assms(2)])
      (use assms(2) in \<open>auto simp: consume_healing_def exhausted_in_def within_limits_def debate_ok_def\<close>)
next
  case (step_depth d)
  show ?thesis unfolding step_depth(2)
    by (rule on_budget_ok [OF assms(2)])
      (use assms(2) in \<open>auto simp: check_nested_depth_def exhausted_in_def within_limits_def debate_ok_def\<close>)
next
  case (step_classified c)
  show ?thesis unfolding step_classified(2)
    by (rule on_budget_ok [OF assms(2)])
      (use assms(2) in \<open>auto simp: record_classification_def within_limits_def debate_ok_def\<close>)
next
  case (step_usage usage cost)
  show ?thesis unfolding step_usage(2)
    by (rule on_budget_ok [OF assms(2)])
      (use assms(2) in \<open>auto simp: record_usage_def within_limits_def debate_ok_def Let_def\<close>)
qed

lemma debate_reaches_ok: "debate_reaches rnd s0 given s \<Longrightarrow> debate_ok s0 \<Longrightarrow> debate_ok s"
  by (induction rule: debate_reaches.induct) (auto intro: debate_step_ok)

definition limits :: "execution_budget \<Rightarrow> int \<times> int \<times> int \<times> int \<times> int" where
  "limits b = (eb_max_calls b, eb_max_retries b, eb_max_healing b, eb_max_depth b, eb_max_concurrent b)"

lemma limits_fixed_step:
  assumes "debate_step rnd s g s1"
  shows "limits (db_budget s1) = limits (db_budget s)"
  using assms
  by (cases rule: debate_step.cases)
    (auto simp: limits_def begin_attempt_def resume_attempt_def acquired_def end_attempt_def cancel_attempt_def on_budget_def consume_retry_def
      consume_healing_def check_nested_depth_def exhausted_in_def record_classification_def record_usage_def Let_def)

lemma limits_fixed: "debate_reaches rnd s0 given s \<Longrightarrow> limits (db_budget s) = limits (db_budget s0)"
  by (induction rule: debate_reaches.induct) (auto dest: limits_fixed_step)

lemma make_budget_limits:
  "make_budget calls retries healing depth concurrent = Inr b \<Longrightarrow> limits b = (calls, retries, healing, depth, concurrent)"
  by (auto simp: make_budget_def limits_def)


section \<open>The counters and the log\<close>

definition counted :: "grant list \<Rightarrow> execution_budget \<Rightarrow> bool" where
  "counted given b \<longleftrightarrow> eb_calls b = int (count_list given Call_Made) \<and> eb_retries b = int (count_list given Retry_Granted)
     \<and> eb_healing b = int (count_list given Healing_Granted)"

lemma call_counted:
  assumes "t \<notin> set (db_inside s)"
  shows "counted given (db_budget s) \<Longrightarrow> counted (given @ call_made t (fst (acquired t s))) (db_budget (fst (acquired t s)))"
  using assms by (auto simp: counted_def acquired_def call_made_def Let_def)

lemma counted_step:
  assumes "debate_step rnd s g s1" "debate_ok s" "counted given (db_budget s)"
  shows "counted (given @ g) (db_budget s1)"
  using assms(1)
proof (cases rule: debate_step.cases)
  case (step_begin t)
  have t: "t \<notin> set (db_inside s)" using step_begin(2) by (simp add: busy_def)
  show ?thesis
  proof (cases "sem_locked (db_sem s)")
    case True
    with step_begin t assms(3) show ?thesis by (simp add: begin_attempt_def call_made_def Let_def)
  next
    case False
    let ?s = "s\<lparr>db_sem := (db_sem s)\<lparr>sm_value := sm_value (db_sem s) - 1\<rparr>\<rparr>"
    from call_counted [of t ?s given] t assms(3) False step_begin show ?thesis by (simp add: begin_attempt_def Let_def)
  qed
next
  case (step_resume t)
  let ?sm = "(db_sem s)\<lparr>sm_woken := remove1 t (sm_woken (db_sem s))\<rparr>"
  have "t \<notin> set (db_inside s)" using step_resume(2) assms(2) by (auto simp: debate_ok_def places_kept_def Let_def)
  with call_counted [of t "s\<lparr>db_sem := if 0 < sm_value ?sm then wake_next ?sm else ?sm\<rparr>" given] assms(3) step_resume show ?thesis
    by (simp add: resume_attempt_def Let_def)
next
  case (step_end t)
  with assms(3) show ?thesis by (simp add: counted_def end_attempt_def)
next
  case (step_cancel t)
  with assms(3) show ?thesis by (simp add: counted_def cancel_attempt_def Let_def)
next
  case step_retry
  with assms(3) show ?thesis by (auto simp: counted_def granted_def on_budget_def consume_retry_def exhausted_in_def)
next
  case step_healing
  with assms(3) show ?thesis by (auto simp: counted_def granted_def on_budget_def consume_healing_def exhausted_in_def)
next
  case (step_depth d)
  with assms(3) show ?thesis by (auto simp: counted_def on_budget_def check_nested_depth_def exhausted_in_def)
next
  case (step_classified c)
  with assms(3) show ?thesis by (simp add: counted_def on_budget_def record_classification_def)
next
  case (step_usage usage cost)
  with assms(3) show ?thesis by (simp add: counted_def on_budget_def record_usage_def Let_def)
qed

lemma debate_reaches_counted:
  "debate_reaches rnd s0 given s \<Longrightarrow> debate_ok s0 \<Longrightarrow> counted [] (db_budget s0) \<Longrightarrow> counted given (db_budget s)"
proof (induction rule: debate_reaches.induct)
  case (debate_more given s g s1)
  from debate_reaches_ok [OF debate_more(1,4)] debate_more(3) [OF debate_more(4,5)] counted_step [OF debate_more(2)] show ?case by blast
qed simp

lemma make_budget_counted: "make_budget calls retries healing depth concurrent = Inr b \<Longrightarrow> counted [] b"
  by (auto simp: make_budget_def counted_def)


section \<open>Properties\<close>

definition two_at_once :: execution_budget where
  "two_at_once = (case make_budget 3 0 0 1 2 of Inr b \<Rightarrow> b | Inl e \<Rightarrow> undefined)"

lemma two_at_once: "make_budget 3 0 0 1 2 = Inr two_at_once"
  by (simp add: two_at_once_def make_budget_def guarded_def)

text \<open>C22: However the provider attempts of a debate interleave, are refused or cancelled: at most the allowed number of
them is inside a provider call at a time; the provider calls made, the retries and the healing calls granted so far are
each at most what the budget allows, and the counters of the budget are exactly these numbers; the nesting depth and its
peak stay within the limit; the counter of concurrent calls is the number of attempts inside, and its peak stays within
the limit; and the semaphore loses no place: while somebody waits and nobody has been woken, every place is taken.\<close>

theorem debate_stays_in_budget:
  assumes "make_budget calls retries healing depth concurrent = Inr b" "debate_reaches rnd (new_debate b) given s"
  shows "eb_calls (db_budget s) = int (count_list given Call_Made) \<and> int (count_list given Call_Made) \<le> calls
    \<and> eb_retries (db_budget s) = int (count_list given Retry_Granted) \<and> int (count_list given Retry_Granted) \<le> retries
    \<and> eb_healing (db_budget s) = int (count_list given Healing_Granted) \<and> int (count_list given Healing_Granted) \<le> healing
    \<and> eb_depth (db_budget s) \<le> depth \<and> eb_peak_depth (db_budget s) \<le> depth
    \<and> eb_concurrent (db_budget s) = int (length (db_inside s)) \<and> int (length (db_inside s)) \<le> concurrent
    \<and> eb_peak_concurrent (db_budget s) \<le> concurrent
    \<and> (sm_waiting (db_sem s) \<noteq> [] \<and> sm_woken (db_sem s) = [] \<longrightarrow> int (length (db_inside s)) = concurrent)"
proof -
  note m = make_budget_ok(1) [OF assms(1)]
  have ok: "debate_ok s" by (rule debate_reaches_ok [OF assms(2) m])
  have c: "counted given (db_budget s)"
    using debate_reaches_counted [OF assms(2) m] make_budget_counted [OF assms(1)] by (simp add: new_debate_def)
  have l: "limits (db_budget s) = (calls, retries, healing, depth, concurrent)"
    using limits_fixed [OF assms(2)] make_budget_limits [OF assms(1)] by (simp add: new_debate_def)
  show ?thesis
    using ok c l by (auto simp: debate_ok_def places_kept_def within_limits_def counted_def limits_def Let_def)
qed

lemma debate_stays_in_budget_witness:
  "\<exists>s. debate_reaches (\<lambda>x. x) (new_debate two_at_once) [Call_Made, Call_Made] s \<and> db_inside s = [1, 2 :: nat] \<and> sm_waiting (db_sem s) = [3]
     \<and> int (length (db_inside s)) = 2 \<and> eb_calls (db_budget s) = 2"
proof -
  let ?s1 = "fst (begin_attempt (1 :: nat) (new_debate two_at_once))"
  let ?s2 = "fst (begin_attempt 2 ?s1)"
  let ?s3 = "fst (begin_attempt 3 ?s2)"
  have "1 \<notin> busy (new_debate two_at_once :: nat debate)" "2 \<notin> busy ?s1" "3 \<notin> busy ?s2" by code_simp+
  note free = this
  have "debate_reaches (\<lambda>x. x) (new_debate two_at_once) ((([] @ call_made 1 ?s1) @ call_made 2 ?s2) @ call_made 3 ?s3) ?s3"
    by (rule debate_more [OF debate_more [OF debate_more [OF debate_start]]]; rule step_begin; (rule free refl)?)
  moreover have "call_made 1 ?s1 = [Call_Made]" "call_made 2 ?s2 = [Call_Made]" "call_made 3 ?s3 = []" by code_simp+
  ultimately have r: "debate_reaches (\<lambda>x. x) (new_debate two_at_once) [Call_Made, Call_Made] ?s3" by simp
  have facts: "db_inside ?s3 = [1, 2]" "sm_waiting (db_sem ?s3) = [3]" "sm_woken (db_sem ?s3) = []" by code_simp+
  have "int (length (db_inside ?s3)) = 2 \<and> eb_calls (db_budget ?s3) = 2"
    using debate_stays_in_budget [OF two_at_once r] facts by simp
  with r facts show ?thesis by blast
qed

text \<open>A cancellation is never classified as retryable, and neither is a failure with a permanent HTTP status and no
explicit mark along its chain, whatever its type and text say; and an explicit mark decides over status, type
and text.\<close>

theorem permanent_failures_not_retried:
  "(flt_cancelled f \<longrightarrow> \<not> fc_retryable (classify_provider_failure f))
   \<and> (fault_marker f = None \<and> (\<exists>n \<in> set permanent_codes. status_code_of f = Some n) \<longrightarrow> \<not> fc_retryable (classify_provider_failure f))
   \<and> (\<not> flt_cancelled f \<and> fault_marker f = Some m \<longrightarrow> fc_retryable (classify_provider_failure f) = m)"
  by (cases m) (auto simp: classify_provider_failure_def classify_status_def classified_def permanent_codes_def temporary_codes_def)

lemma permanent_failures_not_retried_witness:
  "\<not> fc_retryable (classify_provider_failure (Fault False None (Some 403) None True ''connection timeout'' None None))"
proof -
  let ?f = "Fault False None (Some 403) None True ''connection timeout'' None None"
  have "fault_marker ?f = None" "status_code_of ?f = Some 403" "403 \<in> set permanent_codes" by code_simp+
  with permanent_failures_not_retried [of ?f True] show ?thesis by blast
qed

end
