(* ===== verification/Rate_Limit.thy ===== *)
theory Rate_Limit
  imports Prelude Complex_Main
begin

text \<open>
  The request rate limiter of a tenant (core/rate_limit.py), and that no window ever holds more accepted requests than
  its limit.

  The table is the list of its rows; a call is one transaction, which \<open>BEGIN IMMEDIATE\<close> serializes. Whether the
  database answers is an argument of the call. Times are floats: the rationals they denote, \<open>rnd\<close> rounds a difference.
\<close>

type_synonym rate_rows = "(string \<times> rat) list"

datatype rate_error = Tenant_Required | Rate_State_Unavailable

definition valid_limiter :: "int \<Rightarrow> rat \<Rightarrow> bool" where
  "valid_limiter limit window = (\<not> (limit \<le> 0 \<or> window \<le> 0))"

definition in_window :: "string \<Rightarrow> rat \<Rightarrow> rate_rows \<Rightarrow> rate_rows" where
  "in_window tenant cutoff rows = filter (\<lambda>(u, x). u = tenant \<and> cutoff \<le> x) rows"

text \<open>The answer is whether the request is limited.\<close>

definition consume_request ::
    "(rat \<Rightarrow> rat) \<Rightarrow> int \<Rightarrow> rat \<Rightarrow> bool \<Rightarrow> rat \<Rightarrow> string \<Rightarrow> rate_rows \<Rightarrow> rate_rows \<times> (rate_error + bool)" where
  "consume_request rnd limit window up now tenant rows =
     (if tenant = [] then (rows, Inl Tenant_Required)
      else if \<not> up then (rows, Inl Rate_State_Unavailable)
      else
        (let cutoff = rnd (now - window); kept = filter (\<lambda>(u, x). \<not> x < cutoff) rows
         in if limit \<le> int (length (in_window tenant cutoff kept)) then (kept, Inr True)
            else (kept @ [(tenant, now)], Inr False)))"

text \<open>A sequence of calls, each with its clock and whether the database answers, and the requests it accepts.\<close>

fun serve_requests :: "(rat \<Rightarrow> rat) \<Rightarrow> int \<Rightarrow> rat \<Rightarrow> (rat \<times> bool \<times> string) list \<Rightarrow> rate_rows \<Rightarrow> rate_rows \<times> rate_rows" where
  "serve_requests rnd limit window [] rows = (rows, [])"
| "serve_requests rnd limit window ((now, up, tenant) # reqs) rows =
     (case consume_request rnd limit window up now tenant rows of (rows1, answer) \<Rightarrow>
        (case serve_requests rnd limit window reqs rows1 of (rows2, acc) \<Rightarrow>
           (rows2, (if answer = Inr False then [(tenant, now)] else []) @ acc)))"


section \<open>The window\<close>

text \<open>What the table remembers of the requests accepted so far: all that later windows can see.\<close>

definition remembers :: "(rat \<Rightarrow> rat) \<Rightarrow> rat \<Rightarrow> rat \<Rightarrow> rate_rows \<Rightarrow> rate_rows \<Rightarrow> bool" where
  "remembers rnd window last_time rows acc \<longleftrightarrow>
     (\<forall>u c. rnd (last_time - window) \<le> c \<longrightarrow> in_window u c rows = in_window u c acc)"

definition windows_kept :: "(rat \<Rightarrow> rat) \<Rightarrow> int \<Rightarrow> rat \<Rightarrow> rate_rows \<Rightarrow> bool" where
  "windows_kept rnd limit window acc \<longleftrightarrow>
     (\<forall>before u t after. acc = before @ (u, t) # after \<longrightarrow> int (length (in_window u (rnd (t - window)) (before @ [(u, t)]))) \<le> limit)"

lemma windows_kept_snoc:
  "windows_kept rnd limit window acc \<Longrightarrow> int (length (in_window u (rnd (t - window)) (acc @ [(u, t)]))) \<le> limit \<Longrightarrow>
     windows_kept rnd limit window (acc @ [(u, t)])"
  unfolding windows_kept_def by (auto simp: append_eq_append_conv2 append_eq_Cons_conv Cons_eq_append_conv)

lemma in_window_kept:
  assumes "cutoff \<le> c"
  shows "in_window u c (filter (\<lambda>(u, x). \<not> x < cutoff) rows) = in_window u c rows"
  using assms by (induction rows) (auto simp: in_window_def)

lemma in_window_snoc: "in_window u c (rows @ [(v, t)]) = in_window u c rows @ (if v = u \<and> c \<le> t then [(v, t)] else [])"
  by (simp add: in_window_def)

lemma consume_remembers:
  assumes "mono rnd" "consume_request rnd limit window up now tenant rows = (rows1, answer)" "last_time \<le> now"
    "remembers rnd window last_time rows acc" "windows_kept rnd limit window acc"
  shows "remembers rnd window now rows1 (acc @ (if answer = Inr False then [(tenant, now)] else []))
    \<and> windows_kept rnd limit window (acc @ (if answer = Inr False then [(tenant, now)] else []))"
proof -
  let ?cutoff = "rnd (now - window)"
  let ?kept = "filter (\<lambda>(u, x). \<not> x < ?cutoff) rows"
  have later: "rnd (last_time - window) \<le> ?cutoff" using assms(1,3) by (simp add: mono_def)
  have same: "in_window u c rows = in_window u c acc" if "?cutoff \<le> c" for u c
    using assms(4) order_trans [OF later that] by (simp add: remembers_def)
  show ?thesis
  proof (cases "tenant = [] \<or> \<not> up")
    case True
    then have "rows1 = rows" "answer \<noteq> Inr False" using assms(2) by (auto simp: consume_request_def split: if_splits)
    with same assms(5) show ?thesis by (simp add: remembers_def)
  next
    case False
    show ?thesis
    proof (cases "limit \<le> int (length (in_window tenant ?cutoff ?kept))")
      case True
      with assms(2) False have "rows1 = ?kept" "answer = Inr True" by (simp_all add: consume_request_def Let_def)
      with same assms(5) show ?thesis by (simp add: remembers_def in_window_kept)
    next
      case below: False
      with assms(2) False have r: "rows1 = ?kept @ [(tenant, now)]" "answer = Inr False" by (simp_all add: consume_request_def Let_def)
      have "int (length (in_window tenant ?cutoff acc)) < limit" using below same by (simp add: in_window_kept)
      then have "int (length (in_window tenant ?cutoff (acc @ [(tenant, now)]))) \<le> limit" by (simp add: in_window_snoc)
      with windows_kept_snoc [OF assms(5)] r same show ?thesis by (simp add: remembers_def in_window_kept in_window_snoc)
    qed
  qed
qed

lemma serve_windows:
  assumes "mono rnd"
  shows "sorted (last_time # map fst reqs) \<Longrightarrow> remembers rnd window last_time rows acc \<Longrightarrow> windows_kept rnd limit window acc \<Longrightarrow>
     windows_kept rnd limit window (acc @ snd (serve_requests rnd limit window reqs rows))"
proof (induction reqs arbitrary: last_time rows acc)
  case (Cons r reqs)
  obtain now up tenant where r: "r = (now, up, tenant)" by (cases r)
  obtain rows1 answer where c: "consume_request rnd limit window up now tenant rows = (rows1, answer)" by fastforce
  let ?new = "if answer = Inr False then [(tenant, now)] else []"
  have s: "last_time \<le> now" "sorted (now # map fst reqs)" using Cons.prems(1) r by auto
  note step = consume_remembers [OF assms c s(1) Cons.prems(2,3)]
  from Cons.IH [OF s(2)] step have "windows_kept rnd limit window ((acc @ ?new) @ snd (serve_requests rnd limit window reqs rows1))" by blast
  then show ?case using r c by (simp add: case_prod_beta)
qed simp

text \<open>C24: While the clock does not go back, no tenant is let through more often than the limit in any window: of the
requests accepted up to one of them, that one included, at most \<open>limit\<close> of its tenant are at most a window old,
whichever requests of other tenants and failures of the database come between.\<close>

theorem rate_window_bound:
  assumes "mono rnd" "sorted (map fst reqs)" "0 < limit"
    "snd (serve_requests rnd limit window reqs []) = before @ (u, t) # after"
  shows "int (length (in_window u (rnd (t - window)) (before @ [(u, t)]))) \<le> limit"
proof (cases reqs)
  case Nil
  with assms(4) show ?thesis by simp
next
  case (Cons r rest)
  have "windows_kept rnd limit window ([] @ snd (serve_requests rnd limit window reqs []))"
  proof (rule serve_windows [OF assms(1)])
    show "sorted (fst r # map fst reqs)" using assms(2) Cons by auto
  qed (simp_all add: remembers_def windows_kept_def)
  with assms(4) show ?thesis unfolding windows_kept_def by simp
qed

lemma rate_window_bound_witness:
  "snd (serve_requests (\<lambda>x. x) 2 10 [(0, True, ''a''), (1, True, ''a''), (2, True, ''a''), (3, True, ''b''), (11, True, ''a'')] [])
     = [(''a'', 0), (''a'', 1)] @ (''b'', 3) # [(''a'', 11)]
   \<and> length (in_window ''a'' 1 [(''a'', 0), (''a'', 1), (''b'', 3), (''a'', 11)]) \<le> 2"
proof -
  let ?reqs = "[(0, True, ''a''), (1, True, ''a''), (2, True, ''a''), (3, True, ''b''), (11, True, ''a'')]"
  have s: "snd (serve_requests (\<lambda>x. x) 2 10 ?reqs []) = [(''a'', 0), (''a'', 1), (''b'', 3)] @ (''a'', 11) # []" by code_simp
  from rate_window_bound [OF _ _ _ s] show ?thesis unfolding s by (simp add: mono_def)
qed

end
