(* ===== verification/Credits.thy ===== *)
theory Credits
  imports Json Complex_Main
begin

text \<open>
  Credits: the financial ledger of token usage (core/ledger.py), the billing on top of it (core/billing.py), and the
  worker nodes and credit checks of core/swarm_coordinator.py.

  The tables are the lists of their rows in the order of their row identifiers; a method is one transaction. Whether the
  database answers is the argument \<open>up\<close> where the code distinguishes it. An amount is a float: the rational it denotes,
  with \<open>rnd\<close> for the rounding of each operation and \<open>sum_real\<close> for SQLite's sum of a column. A timestamp is its
  instant in microseconds; the texts the code compares are ordered alike. A count of tokens is an integer.
\<close>

section \<open>The tables\<close>

record usage_entry =
  ue_session :: string
  ue_account :: string
  ue_provider :: string
  ue_model :: string
  ue_prompt :: int
  ue_completion :: int
  ue_tenant :: string
  ue_markup :: "rat option"
  ue_key :: "string option"

record ledger_row =
  lr_entry :: usage_entry
  lr_id :: nat
  lr_total :: int
  lr_cost :: rat
  lr_time :: int

record credit_row =
  ct_credits :: rat
  ct_max :: rat
  ct_policy :: string

record status_row =
  sw_tenant :: string
  sw_status :: string
  sw_customer :: "string option"
  sw_subscription :: "string option"
  sw_updated :: int

record billing_db =
  bl_rows :: "ledger_row list"
  bl_next :: nat
  bl_credits :: "(string, credit_row) dict"
  bl_status :: "status_row list"
  bl_events :: "(string, string \<times> string) dict"

definition empty_billing :: billing_db where
  "empty_billing = \<lparr>bl_rows = [], bl_next = 1, bl_credits = [], bl_status = [], bl_events = []\<rparr>"


section \<open>The ledger\<close>

definition get_stripe_webhook_event :: "string \<Rightarrow> billing_db \<Rightarrow> (string \<times> string) option" where
  "get_stripe_webhook_event event db = dict_get (bl_events db) event"

definition claim_stripe_webhook_event :: "string \<Rightarrow> string \<Rightarrow> string \<Rightarrow> billing_db \<Rightarrow> billing_db \<times> bool" where
  "claim_stripe_webhook_event event payload_hash tenant db =
     (case dict_get (bl_events db) event of
        Some e \<Rightarrow> (db, False)
      | None \<Rightarrow> (db\<lparr>bl_events := dict_put event (payload_hash, tenant) (bl_events db)\<rparr>, True))"

definition price_per_token :: "string \<Rightarrow> rat \<times> rat" where
  "price_per_token model =
     (let m = lower model
      in if contains_str ''pro'' m then (15 / 1000000, 45 / 1000000)
         else if contains_str ''claude-3-5'' m then (3 / 1000000, 15 / 1000000)
         else if contains_str ''flash'' m then (75 / 1000000000, 3 / 10000000)
         else (2 / 1000000, 8 / 1000000))"

definition estimate_cost :: "(rat \<Rightarrow> rat) \<Rightarrow> string \<Rightarrow> int \<Rightarrow> int \<Rightarrow> rat" where
  "estimate_cost rnd model prompt completion =
     (case price_per_token model of (a, b) \<Rightarrow> rnd (rnd (of_int prompt * rnd a) + rnd (of_int completion * rnd b)))"

definition entry_cost :: "(rat \<Rightarrow> rat) \<Rightarrow> usage_entry \<Rightarrow> rat" where
  "entry_cost rnd e = estimate_cost rnd (ue_model e) (ue_prompt e) (ue_completion e)"

definition has_key :: "string \<Rightarrow> string \<Rightarrow> ledger_row \<Rightarrow> bool" where
  "has_key tenant key r = (ue_tenant (lr_entry r) = tenant \<and> ue_key (lr_entry r) = Some key)"

definition default_credit :: credit_row where
  "default_credit = \<lparr>ct_credits = 100, ct_max = 100, ct_policy = ''downscale''\<rparr>"

definition charge :: "(rat \<Rightarrow> rat) \<Rightarrow> rat \<Rightarrow> credit_row \<Rightarrow> credit_row" where
  "charge rnd cost c = c\<lparr>ct_credits := max 0 (rnd (ct_credits c - cost))\<rparr>"

text \<open>The result is the cost, or the integrity error of the index over tenant and key, which an empty key runs into: it
is not looked up before, but it is not null.\<close>

definition record_transaction :: "(rat \<Rightarrow> rat) \<Rightarrow> int \<Rightarrow> usage_entry \<Rightarrow> billing_db \<Rightarrow> billing_db \<times> (string + rat)" where
  "record_transaction rnd now e db =
     (let cost = entry_cost rnd e; old = (case ue_key e of None \<Rightarrow> None | Some k \<Rightarrow> find (has_key (ue_tenant e) k) (bl_rows db))
      in case old of
           Some r \<Rightarrow> (db, if ue_key e = Some [] then Inl ''UNIQUE constraint failed'' else Inr (lr_cost r))
         | None \<Rightarrow>
             (db\<lparr>bl_rows := bl_rows db @ [\<lparr>lr_entry = e, lr_id = bl_next db, lr_total = ue_prompt e + ue_completion e, lr_cost = cost, lr_time = now\<rparr>],
                 bl_next := bl_next db + 1,
                 bl_credits := dict_put (ue_tenant e) (charge rnd cost (dict_get_default (bl_credits db) (ue_tenant e) default_credit)) (bl_credits db)\<rparr>,
              Inr cost))"

definition has_idempotency_key :: "string \<Rightarrow> string \<Rightarrow> billing_db \<Rightarrow> bool" where
  "has_idempotency_key tenant key db = list_ex (has_key tenant key) (bl_rows db)"

text \<open>An empty filter counts as none.\<close>

definition row_selected :: "string option \<Rightarrow> ledger_row \<Rightarrow> bool" where
  "row_selected flt r =
     (case flt of
        None \<Rightarrow> True
      | Some f \<Rightarrow> f = [] \<or> ue_session (lr_entry r) = f \<or> ue_account (lr_entry r) = f)"

definition tenant_rows :: "string \<Rightarrow> billing_db \<Rightarrow> ledger_row list" where
  "tenant_rows tenant db = filter (\<lambda>r. ue_tenant (lr_entry r) = tenant) (bl_rows db)"

definition get_total_cost :: "(rat list \<Rightarrow> rat) \<Rightarrow> string option \<Rightarrow> string \<Rightarrow> billing_db \<Rightarrow> rat" where
  "get_total_cost sum_real flt tenant db =
     (let costs = map lr_cost (filter (row_selected flt) (tenant_rows tenant db)) in if costs = [] then 0 else sum_real costs)"

definition get_all_records :: "string \<Rightarrow> billing_db \<Rightarrow> ledger_row list" where
  "get_all_records tenant db = sort_key lr_time (tenant_rows tenant db)"

definition reset_ledger :: "billing_db \<Rightarrow> billing_db" where
  "reset_ledger db = db\<lparr>bl_rows := []\<rparr>"


section \<open>Billing\<close>

record invoice =
  iv_prompt :: int
  iv_completion :: int
  iv_total :: int
  iv_raw :: rat
  iv_billed :: rat
  iv_lines :: "(ledger_row \<times> rat \<times> rat) list"

definition line_markup :: "rat \<Rightarrow> ledger_row \<Rightarrow> rat" where
  "line_markup markup r = (case ue_markup (lr_entry r) of None \<Rightarrow> markup | Some x \<Rightarrow> x)"

definition billed_line :: "(rat \<Rightarrow> rat) \<Rightarrow> rat \<Rightarrow> ledger_row \<Rightarrow> rat" where
  "billed_line rnd markup r = rnd (lr_cost r * line_markup markup r)"

definition get_saas_invoice :: "(rat \<Rightarrow> rat) \<Rightarrow> (rat list \<Rightarrow> rat) \<Rightarrow> string option \<Rightarrow> rat \<Rightarrow> string \<Rightarrow> billing_db \<Rightarrow> invoice" where
  "get_saas_invoice rnd sum_real flt markup tenant db =
     (let rows = filter (row_selected flt) (get_all_records tenant db)
      in \<lparr>iv_prompt = sum_list (map (ue_prompt \<circ> lr_entry) rows), iv_completion = sum_list (map (ue_completion \<circ> lr_entry) rows),
          iv_total = sum_list (map lr_total rows), iv_raw = get_total_cost sum_real flt tenant db,
          iv_billed = fold (\<lambda>r x. rnd (x + billed_line rnd markup r)) rows 0,
          iv_lines = map (\<lambda>r. (r, line_markup markup r, billed_line rnd markup r)) rows\<rparr>)"

text \<open>\<open>INSERT OR REPLACE\<close> gives the row a new identifier: it moves to the end. The second result is the status before,
as it is written to the audit ledger.\<close>

definition update_tenant_status :: "int \<Rightarrow> string \<Rightarrow> string \<Rightarrow> string option \<Rightarrow> string option \<Rightarrow> billing_db \<Rightarrow> billing_db \<times> string" where
  "update_tenant_status now tenant status customer subscription db =
     (db\<lparr>bl_status := filter (\<lambda>r. sw_tenant r \<noteq> tenant) (bl_status db)
          @ [\<lparr>sw_tenant = tenant, sw_status = status, sw_customer = customer, sw_subscription = subscription, sw_updated = now\<rparr>]\<rparr>,
      case find (\<lambda>r. sw_tenant r = tenant) (bl_status db) of None \<Rightarrow> ''unknown'' | Some r \<Rightarrow> sw_status r)"

datatype quota_error = Quota_Unavailable | Subscription_Inactive string | Rate_Limited int | Quota_Exceeded rat

definition get_tenant_status :: "bool \<Rightarrow> string \<Rightarrow> billing_db \<Rightarrow> quota_error + string" where
  "get_tenant_status up tenant db =
     (if \<not> up then Inl Quota_Unavailable
      else Inr (case find (\<lambda>r. sw_tenant r = tenant) (bl_status db) of None \<Rightarrow> ''active'' | Some r \<Rightarrow> sw_status r))"

definition get_tenant_by_stripe_customer :: "string \<Rightarrow> billing_db \<Rightarrow> string option" where
  "get_tenant_by_stripe_customer customer db = map_option sw_tenant (find (\<lambda>r. sw_customer r = Some customer) (bl_status db))"

definition get_tenant_by_stripe_subscription :: "string \<Rightarrow> billing_db \<Rightarrow> string option" where
  "get_tenant_by_stripe_subscription subscription db =
     map_option sw_tenant (find (\<lambda>r. sw_subscription r = Some subscription) (bl_status db))"

definition inactive :: "string \<Rightarrow> bool" where
  "inactive status = (status \<in> {''frozen'', ''canceled''})"

definition check_rate_limit :: "bool \<Rightarrow> bool \<Rightarrow> int \<Rightarrow> string \<Rightarrow> billing_db \<Rightarrow> quota_error + unit" where
  "check_rate_limit up1 up2 now tenant db =
     res_bind (get_tenant_status up1 tenant db) (\<lambda>status.
       if inactive status then Inl (Subscription_Inactive status)
       else if \<not> up2 then Inl Quota_Unavailable
       else
         (let used = sum_list (map lr_total (filter (\<lambda>r. now - 60000000 \<le> lr_time r) (tenant_rows tenant db)))
          in if 5000 \<le> used then Inl (Rate_Limited used) else Inr ()))"

definition verify_tenant_credit :: "bool \<Rightarrow> bool \<Rightarrow> string \<Rightarrow> billing_db \<Rightarrow> quota_error + unit" where
  "verify_tenant_credit up1 up2 tenant db =
     res_bind (get_tenant_status up1 tenant db) (\<lambda>status.
       if inactive status then Inl (Subscription_Inactive status)
       else if \<not> up2 then Inl Quota_Unavailable
       else
         (let credits = ct_credits (dict_get_default (bl_credits db) tenant default_credit)
          in if credits \<le> 0 then Inl (Quota_Exceeded credits) else Inr ()))"

definition should_downscale_model :: "(rat \<Rightarrow> rat) \<Rightarrow> bool \<Rightarrow> string \<Rightarrow> billing_db \<Rightarrow> bool" where
  "should_downscale_model rnd up tenant db =
     (let c = dict_get_default (bl_credits db) tenant default_credit
      in up \<and> 0 < ct_max c \<and> rnd (ct_credits c / ct_max c) < rnd (1 / 5) \<and> lower (ct_policy c) = ''downscale'')"


section \<open>Worker nodes\<close>

record swarm_node =
  wn_role :: string
  wn_status :: string
  wn_seen :: rat
  wn_load :: nat

record swarm =
  wk_nodes :: "(string, swarm_node) dict"
  wk_failures :: "(rat \<times> string \<times> string \<times> string) list"

definition register_or_update_node :: "rat \<Rightarrow> string \<Rightarrow> string \<Rightarrow> string \<Rightarrow> swarm \<Rightarrow> swarm" where
  "register_or_update_node now role node status sw =
     sw\<lparr>wk_nodes := dict_put node
          \<lparr>wn_role = lower role, wn_status = lower status, wn_seen = now, wn_load = (if lower status = ''busy'' then 1 else 0)\<rparr> (wk_nodes sw)\<rparr>"

definition mark_node_offline :: "rat \<Rightarrow> string \<Rightarrow> string \<Rightarrow> swarm \<Rightarrow> swarm" where
  "mark_node_offline now node reason sw =
     (case dict_get (wk_nodes sw) node of
        None \<Rightarrow> sw
      | Some n \<Rightarrow> sw\<lparr>wk_nodes := dict_pop node (wk_nodes sw), wk_failures := wk_failures sw @ [(now, node, wn_role n, reason)]\<rparr>)"

definition stale_nodes :: "(rat \<Rightarrow> rat) \<Rightarrow> rat \<Rightarrow> rat \<Rightarrow> swarm \<Rightarrow> string list" where
  "stale_nodes rnd now timeout sw = map fst (filter (\<lambda>(i, n). timeout < rnd (now - wn_seen n)) (wk_nodes sw))"

text \<open>The clocks of the failure log are read one by one; here they are the clock of the check.\<close>

definition check_heartbeats :: "(rat \<Rightarrow> rat) \<Rightarrow> rat \<Rightarrow> rat \<Rightarrow> swarm \<Rightarrow> swarm" where
  "check_heartbeats rnd now timeout sw = fold (\<lambda>i. mark_node_offline now i ''heartbeat_timeout'') (stale_nodes rnd now timeout sw) sw"

definition default_heartbeat :: rat where
  "default_heartbeat = 15"

fun least_loaded :: "string \<Rightarrow> (string \<times> nat) option \<Rightarrow> (string \<times> swarm_node) list \<Rightarrow> (string \<times> nat) option" where
  "least_loaded role best [] = best"
| "least_loaded role best ((i, n) # ns) =
     least_loaded role
       (if wn_role n = role \<and> (case best of None \<Rightarrow> True | Some (b, l) \<Rightarrow> wn_load n < l) then Some (i, wn_load n) else best) ns"

definition reserve_node :: "rat \<Rightarrow> string \<Rightarrow> swarm \<Rightarrow> swarm" where
  "reserve_node now node sw =
     (case dict_get (wk_nodes sw) node of
        None \<Rightarrow> sw
      | Some n \<Rightarrow> sw\<lparr>wk_nodes := dict_put node (n\<lparr>wn_status := ''busy'', wn_load := wn_load n + 1, wn_seen := now\<rparr>) (wk_nodes sw)\<rparr>)"

text \<open>A node whose name is empty is chosen like another, but counts as none.\<close>

definition get_best_node :: "(rat \<Rightarrow> rat) \<Rightarrow> rat \<Rightarrow> string \<Rightarrow> swarm \<Rightarrow> swarm \<times> string option" where
  "get_best_node rnd now role sw =
     (let sw1 = check_heartbeats rnd now default_heartbeat sw
      in case least_loaded (lower role) None (wk_nodes sw1) of
           None \<Rightarrow> (sw1, None)
         | Some (i, l) \<Rightarrow> (if i = [] then sw1 else reserve_node now i sw1, Some i))"

definition release_node_load :: "string \<Rightarrow> swarm \<Rightarrow> swarm" where
  "release_node_load node sw =
     (case dict_get (wk_nodes sw) node of
        None \<Rightarrow> sw
      | Some n \<Rightarrow>
          (let l = wn_load n - 1
           in sw\<lparr>wk_nodes := dict_put node (n\<lparr>wn_load := l, wn_status := (if l = 0 then ''idle'' else wn_status n)\<rparr>) (wk_nodes sw)\<rparr>))"

definition get_active_nodes :: "(rat \<Rightarrow> rat) \<Rightarrow> rat \<Rightarrow> swarm \<Rightarrow> swarm \<times> swarm_node list" where
  "get_active_nodes rnd now sw =
     (let sw1 = check_heartbeats rnd now default_heartbeat sw in (sw1, dict_values (wk_nodes sw1)))"

text \<open>\<open>fresh\<close> is the random part of the name of a new node. The result is the node, or that there was none to stop.\<close>

definition simulate_scaling :: "rat \<Rightarrow> string \<Rightarrow> string \<Rightarrow> string \<Rightarrow> swarm \<Rightarrow> swarm \<times> string option" where
  "simulate_scaling now fresh role direction sw =
     (let r = lower role; new_node = ''service-'' @ r @ ''-'' @ fresh
      in if lower direction = ''up'' then (register_or_update_node now r new_node ''idle'' sw, Some new_node)
         else if lower direction = ''down''
         then (case find (\<lambda>(i, n). wn_role n = r) (wk_nodes sw) of
                 None \<Rightarrow> (sw, None)
               | Some (i, n) \<Rightarrow> if i = [] then (sw, None) else (mark_node_offline now i ''scale_down'' sw, Some i))
         else (sw, None))"

end
