(* ===== verification/Credit_Properties.thy ===== *)
theory Credit_Properties
  imports Credits
begin

text \<open>
  What the ledger and the coordinator guarantee: a repeated transaction charges once, credits follow the costs until they
  are used up, the best node is a least loaded live one. And what a heartbeat does to a reservation.
\<close>

section \<open>Transactions\<close>

definition record_all :: "(rat \<Rightarrow> rat) \<Rightarrow> (int \<times> usage_entry) list \<Rightarrow> billing_db \<Rightarrow> billing_db" where
  "record_all rnd reqs db = fold (\<lambda>(now, e) db. fst (record_transaction rnd now e db)) reqs db"

lemma record_all_simps [simp]:
  "record_all rnd [] db = db"
  "record_all rnd ((now, e) # reqs) db = record_all rnd reqs (fst (record_transaction rnd now e db))"
  "record_all rnd (reqs @ [(now, e)]) db = fst (record_transaction rnd now e (record_all rnd reqs db))"
  by (simp_all add: record_all_def)

lemma record_appends: "\<exists>new. bl_rows (fst (record_transaction rnd now e db)) = bl_rows db @ new"
  by (auto simp: record_transaction_def Let_def split: option.splits)

lemma record_all_appends: "\<exists>new. bl_rows (record_all rnd reqs db) = bl_rows db @ new"
proof (induction reqs arbitrary: db)
  case (Cons r reqs)
  obtain now e where "r = (now, e)" by (cases r)
  with Cons.IH [of "fst (record_transaction rnd now e db)"] record_appends [of rnd now e db] show ?case by auto
qed simp

lemma find_append_found: "find p xs = Some x \<Longrightarrow> find p (xs @ ys) = Some x"
  by (induction xs) (auto split: if_splits)

lemma find_snoc_new: "find p xs = None \<Longrightarrow> p x \<Longrightarrow> find p (xs @ [x]) = Some x"
  by (induction xs) (auto split: if_splits)

text \<open>C23: A transaction with an idempotency key is charged once: whatever is recorded in between, recording the same
key of the tenant again, with whatever model and tokens, returns the first cost and changes nothing.\<close>

theorem transaction_charged_once:
  assumes "record_transaction rnd now e db = (db1, Inr c)" "ue_key e = Some k" "k \<noteq> []"
    "ue_tenant e2 = ue_tenant e" "ue_key e2 = Some k"
  shows "record_transaction rnd now2 e2 (record_all rnd reqs db1) = (record_all rnd reqs db1, Inr c)"
proof -
  have "\<exists>r. find (has_key (ue_tenant e) k) (bl_rows db1) = Some r \<and> lr_cost r = c"
  proof (cases "find (has_key (ue_tenant e) k) (bl_rows db)")
    case None
    then show ?thesis
      using assms(1,2) find_snoc_new [OF None] by (auto simp: record_transaction_def Let_def has_key_def)
  next
    case (Some r)
    with assms(1,2,3) show ?thesis by (auto simp: record_transaction_def Let_def)
  qed
  then obtain r where r: "find (has_key (ue_tenant e) k) (bl_rows db1) = Some r" "lr_cost r = c" by blast
  obtain new where "bl_rows (record_all rnd reqs db1) = bl_rows db1 @ new" using record_all_appends by blast
  with find_append_found [OF r(1)] r(2) assms(3-5) show ?thesis by (simp add: record_transaction_def Let_def)
qed

definition sample_entry :: "string \<Rightarrow> int \<Rightarrow> string option \<Rightarrow> usage_entry" where
  "sample_entry model n key =
     \<lparr>ue_session = ''s'', ue_account = ''acc'', ue_provider = ''p'', ue_model = model, ue_prompt = n, ue_completion = n, ue_tenant = ''t'',
      ue_markup = None, ue_key = key\<rparr>"

lemma transaction_charged_once_witness:
  "\<exists>db1. record_transaction (\<lambda>x. x) 0 (sample_entry ''flash'' 1000000 (Some ''k'')) empty_billing = (db1, Inr (3 / 8))
     \<and> record_transaction (\<lambda>x. x) 2 (sample_entry ''pro'' 5 (Some ''k'')) (record_all (\<lambda>x. x) [(1, sample_entry ''pro'' 9 None)] db1)
       = (record_all (\<lambda>x. x) [(1, sample_entry ''pro'' 9 None)] db1, Inr (3 / 8))"
proof -
  let ?e = "sample_entry ''flash'' 1000000 (Some ''k'')"
  have "snd (record_transaction (\<lambda>x. x) 0 ?e empty_billing) = Inr (3 / 8)" by code_simp
  then obtain db1 where r: "record_transaction (\<lambda>x. x) 0 ?e empty_billing = (db1, Inr (3 / 8))"
    by (cases "record_transaction (\<lambda>x. x) 0 ?e empty_billing") simp
  have "ue_key ?e = Some ''k''" "''k'' \<noteq> []" "ue_tenant (sample_entry ''pro'' 5 (Some ''k'')) = ue_tenant ?e"
    "ue_key (sample_entry ''pro'' 5 (Some ''k'')) = Some ''k''"
    by (simp_all add: sample_entry_def)
  from transaction_charged_once [OF r this] r show ?thesis by blast
qed

text \<open>An empty key is recorded but not looked up: the second transaction with one fails.\<close>

lemma empty_key_fails_twice:
  assumes "record_transaction rnd now e db = (db1, Inr c)" "ue_key e = Some []" "ue_tenant e2 = ue_tenant e" "ue_key e2 = Some []"
  shows "record_transaction rnd now2 e2 db1 = (db1, Inl ''UNIQUE constraint failed'')"
proof -
  have "find (has_key (ue_tenant e) []) (bl_rows db) = None"
    using assms(1,2) by (auto simp: record_transaction_def Let_def split: option.split_asm)
  from find_snoc_new [OF this] obtain r where "find (has_key (ue_tenant e) []) (bl_rows db1) = Some r"
    using assms(1,2) \<open>find (has_key (ue_tenant e) []) (bl_rows db) = None\<close> by (auto simp: record_transaction_def Let_def has_key_def)
  with assms(3,4) show ?thesis by (simp add: record_transaction_def Let_def)
qed


section \<open>Credits\<close>

definition tenant_credits :: "string \<Rightarrow> billing_db \<Rightarrow> rat" where
  "tenant_credits tenant db = ct_credits (dict_get_default (bl_credits db) tenant default_credit)"

definition tenant_cost :: "string \<Rightarrow> billing_db \<Rightarrow> rat" where
  "tenant_cost tenant db = sum_list (map lr_cost (tenant_rows tenant db))"

lemma entry_cost_nonneg: "0 \<le> ue_prompt e \<Longrightarrow> 0 \<le> ue_completion e \<Longrightarrow> 0 \<le> entry_cost (\<lambda>x. x) e"
  by (auto simp: entry_cost_def estimate_cost_def price_per_token_def Let_def intro!: add_nonneg_nonneg mult_nonneg_nonneg)

lemma total_cost_exact: "get_total_cost sum_list None tenant db = tenant_cost tenant db"
proof -
  have "filter (row_selected None) rows = rows" for rows by (simp add: row_selected_def)
  then show ?thesis by (simp add: get_total_cost_def tenant_cost_def Let_def)
qed

lemma record_credits:
  assumes "tenant_credits t db = max 0 (100 - (x + tenant_cost t db))" "0 \<le> ue_prompt e" "0 \<le> ue_completion e"
  shows "tenant_credits t (fst (record_transaction (\<lambda>x. x) now e db))
    = max 0 (100 - (x + tenant_cost t (fst (record_transaction (\<lambda>x. x) now e db))))"
proof (cases "case ue_key e of None \<Rightarrow> None | Some k \<Rightarrow> find (has_key (ue_tenant e) k) (bl_rows db)")
  case (Some r)
  with assms(1) show ?thesis by (simp add: record_transaction_def Let_def)
next
  case None
  let ?db = "fst (record_transaction (\<lambda>x. x) now e db)"
  have cost: "tenant_cost t ?db = tenant_cost t db + (if ue_tenant e = t then entry_cost (\<lambda>x. x) e else 0)"
    using None by (simp add: record_transaction_def Let_def tenant_cost_def tenant_rows_def)
  have credits: "tenant_credits t ?db = (if ue_tenant e = t then max 0 (tenant_credits t db - entry_cost (\<lambda>x. x) e) else tenant_credits t db)"
    using None by (auto simp: record_transaction_def Let_def tenant_credits_def charge_def dict_get_default_def)
  show ?thesis unfolding cost credits assms(1) using entry_cost_nonneg [OF assms(2,3)] by auto
qed

text \<open>What changes the costs and the credits: transactions and the reset of the ledger. A reset erases the costs of every
tenant and leaves the credits as they are.\<close>

datatype billing_op = Charged int usage_entry | Reset

fun run_billing :: "billing_op list \<Rightarrow> billing_db \<Rightarrow> billing_db" where
  "run_billing [] db = db"
| "run_billing (Charged now e # ops) db = run_billing ops (fst (record_transaction (\<lambda>x. x) now e db))"
| "run_billing (Reset # ops) db = run_billing ops (reset_ledger db)"

fun erased_cost :: "string \<Rightarrow> billing_op list \<Rightarrow> billing_db \<Rightarrow> rat" where
  "erased_cost t [] db = 0"
| "erased_cost t (Charged now e # ops) db = erased_cost t ops (fst (record_transaction (\<lambda>x. x) now e db))"
| "erased_cost t (Reset # ops) db = get_total_cost sum_list None t db + erased_cost t ops (reset_ledger db)"

fun counts_tokens :: "billing_op \<Rightarrow> bool" where
  "counts_tokens (Charged now e) \<longleftrightarrow> 0 \<le> ue_prompt e \<and> 0 \<le> ue_completion e"
| "counts_tokens Reset \<longleftrightarrow> True"

lemma run_billing_credits:
  assumes "\<forall>op \<in> set ops. counts_tokens op" "tenant_credits t db = max 0 (100 - (x + tenant_cost t db))"
  shows "tenant_credits t (run_billing ops db) = max 0 (100 - (x + erased_cost t ops db + tenant_cost t (run_billing ops db)))"
  using assms
proof (induction ops db arbitrary: x rule: run_billing.induct)
  case (2 now e ops db)
  then have "tenant_credits t (fst (record_transaction (\<lambda>x. x) now e db))
    = max 0 (100 - (x + tenant_cost t (fst (record_transaction (\<lambda>x. x) now e db))))"
    by (intro record_credits) simp_all
  with 2 show ?case by simp
next
  case (3 ops db)
  have "tenant_cost t (reset_ledger db) = 0" "tenant_credits t (reset_ledger db) = tenant_credits t db"
    by (simp_all add: reset_ledger_def tenant_cost_def tenant_rows_def tenant_credits_def)
  with 3(3) have "tenant_credits t (reset_ledger db) = max 0 (100 - (x + tenant_cost t db + tenant_cost t (reset_ledger db)))" by simp
  from 3(1) [OF _ this] 3(2) show ?case by (simp add: total_cost_exact algebra_simps)
qed simp

text \<open>C31: In exact arithmetic, from an empty ledger and for transactions that count no negative tokens, the credits of a
tenant are what its costs leave of the initial hundred, and zero once they exceed it; what it spends beyond its credits
is forgotten. Its costs are those the ledger records together with those that resets of the ledger erased: a reset gives
no credit back, so after one the credits are no longer what the recorded costs say.\<close>

theorem credits_follow_costs:
  assumes "\<forall>op \<in> set ops. counts_tokens op"
  shows "tenant_credits t (run_billing ops empty_billing)
    = max 0 (100 - (erased_cost t ops empty_billing + get_total_cost sum_list None t (run_billing ops empty_billing)))"
proof -
  have "tenant_credits t empty_billing = max 0 (100 - (0 + tenant_cost t empty_billing))"
    by (simp add: tenant_credits_def tenant_cost_def tenant_rows_def empty_billing_def default_credit_def dict_get_default_def)
  from run_billing_credits [OF assms this] show ?thesis unfolding total_cost_exact by simp
qed

lemma credits_follow_costs_witness:
  "tenant_credits ''t'' (run_billing [Charged 0 (sample_entry ''gpt'' 1000000 None), Reset, Charged 1 (sample_entry ''gpt'' 1000000 (Some ''k''))]
     empty_billing) = 80"
proof -
  let ?ops = "[Charged 0 (sample_entry ''gpt'' 1000000 None), Reset, Charged 1 (sample_entry ''gpt'' 1000000 (Some ''k''))]"
  have "get_total_cost sum_list None ''t'' (run_billing ?ops empty_billing) = 10" "erased_cost ''t'' ?ops empty_billing = 10" by code_simp+
  with credits_follow_costs [of ?ops "''t''"] show ?thesis by (simp add: sample_entry_def)
qed

text \<open>The reset of one session's ledger erases every tenant's costs and gives no credit back.\<close>

lemma reset_keeps_credits:
  "bl_rows (reset_ledger db) = [] \<and> tenant_credits t (reset_ledger db) = tenant_credits t db"
  by (simp add: reset_ledger_def tenant_credits_def)


section \<open>Nodes\<close>

definition live_node :: "(rat \<Rightarrow> rat) \<Rightarrow> rat \<Rightarrow> swarm_node \<Rightarrow> bool" where
  "live_node rnd now n \<longleftrightarrow> \<not> default_heartbeat < rnd (now - wn_seen n)"

lemma fold_offline_nodes: "wk_nodes (fold (\<lambda>i. mark_node_offline now i reason) is sw) = fold dict_pop is (wk_nodes sw)"
proof (induction "is" arbitrary: sw)
  case (Cons i "is")
  have "wk_nodes (mark_node_offline now i reason sw) = dict_pop i (wk_nodes sw)"
  proof (cases "dict_get (wk_nodes sw) i")
    case None
    then have "dict_pop i (wk_nodes sw) = wk_nodes sw"
      by (simp add: dict_get_None dict_pop_def filter_id_conv) force
    with None show ?thesis by (simp add: mark_node_offline_def)
  qed (simp add: mark_node_offline_def)
  with Cons.IH show ?case by simp
qed simp

lemma checked_node:
  assumes "dict_wf (wk_nodes sw)"
  shows "dict_get (wk_nodes (check_heartbeats rnd now default_heartbeat sw)) i =
    (case dict_get (wk_nodes sw) i of Some n \<Rightarrow> if live_node rnd now n then Some n else None | None \<Rightarrow> None)"
proof -
  let ?stale = "stale_nodes rnd now default_heartbeat sw"
  have pops: "dict_get (fold dict_pop is d) i = (if i \<in> set is then None else dict_get d i)" for "is" and d :: "(string, swarm_node) dict"
    by (induction "is" arbitrary: d) auto
  have "i \<in> set ?stale \<longleftrightarrow> (\<exists>n. dict_get (wk_nodes sw) i = Some n \<and> \<not> live_node rnd now n)"
    using dict_get_iff [OF assms] by (auto simp: stale_nodes_def live_node_def image_iff)
  then show ?thesis
    unfolding check_heartbeats_def fold_offline_nodes pops by (auto split: option.splits)
qed

lemma least_loaded_spec:
  "least_loaded role best ns = Some (i, l) \<Longrightarrow>
     (best = Some (i, l) \<or> (\<exists>n. (i, n) \<in> set ns \<and> wn_role n = role \<and> wn_load n = l))
     \<and> (\<forall>(j, m) \<in> set ns. wn_role m = role \<longrightarrow> l \<le> wn_load m) \<and> (case best of None \<Rightarrow> True | Some (b, k) \<Rightarrow> l \<le> k)"
proof (induction role best ns arbitrary: i l rule: least_loaded.induct)
  case (2 role best j n ns)
  from 2(1) [of i l] 2(2) show ?case by (auto split: option.splits if_splits prod.splits)
qed (auto split: option.splits)

text \<open>The node a task is given to is a registered node of its role whose last sign of life is recent enough, no other
such node has less load, and its own load counts the task from then on.\<close>

theorem best_node_is_least_loaded:
  assumes "dict_wf (wk_nodes sw)" "get_best_node rnd now role sw = (sw1, Some i)" "i \<noteq> []"
  shows "\<exists>n. dict_get (wk_nodes sw) i = Some n \<and> wn_role n = lower role \<and> live_node rnd now n
    \<and> (\<forall>j m. dict_get (wk_nodes sw) j = Some m \<and> wn_role m = lower role \<and> live_node rnd now m \<longrightarrow> wn_load n \<le> wn_load m)
    \<and> map_option wn_load (dict_get (wk_nodes sw1) i) = Some (wn_load n + 1)"
proof -
  let ?sw = "check_heartbeats rnd now default_heartbeat sw"
  have wf: "dict_wf (wk_nodes ?sw)"
  proof -
    have "dict_wf (fold dict_pop is d)" if "dict_wf d" for "is" and d :: "(string, swarm_node) dict"
      using that by (induction "is" arbitrary: d) auto
    with assms(1) show ?thesis unfolding check_heartbeats_def fold_offline_nodes by blast
  qed
  obtain l where l: "least_loaded (lower role) None (wk_nodes ?sw) = Some (i, l)" "sw1 = reserve_node now i ?sw"
    using assms(2,3) by (auto simp: get_best_node_def Let_def split: option.split_asm)
  from least_loaded_spec [OF l(1)] obtain n where n: "dict_get (wk_nodes ?sw) i = Some n" "wn_role n = lower role" "wn_load n = l"
    using dict_get_in [OF wf] by auto
  have least: "l \<le> wn_load m" if "dict_get (wk_nodes ?sw) j = Some m" "wn_role m = lower role" for j m
    using least_loaded_spec [OF l(1)] dict_get_Some_in [OF that(1)] that(2) by auto
  have "dict_get (wk_nodes sw) i = Some n \<and> live_node rnd now n"
    using n(1) unfolding checked_node [OF assms(1)] by (auto split: option.split_asm if_split_asm)
  moreover have "wn_load n \<le> wn_load m" if "dict_get (wk_nodes sw) j = Some m" "wn_role m = lower role" "live_node rnd now m" for j m
    using least [of j m] that n(3) unfolding checked_node [OF assms(1)] by simp
  moreover have "map_option wn_load (dict_get (wk_nodes sw1) i) = Some (wn_load n + 1)"
    using l(2) n(1) by (simp add: reserve_node_def)
  ultimately show ?thesis using n(2) by blast
qed

definition two_workers :: swarm where
  "two_workers = register_or_update_node 1 ''Coder'' ''n2'' ''idle'' (register_or_update_node 0 ''coder'' ''n1'' ''busy'' \<lparr>wk_nodes = [], wk_failures = []\<rparr>)"

lemma best_node_is_least_loaded_witness:
  "snd (get_best_node (\<lambda>x. x) 2 ''CODER'' two_workers) = Some ''n2''
     \<and> map_option wn_load (dict_get (wk_nodes (fst (get_best_node (\<lambda>x. x) 2 ''CODER'' two_workers))) ''n2'') = Some 1"
proof -
  have b: "snd (get_best_node (\<lambda>x. x) 2 ''CODER'' two_workers) = Some ''n2''"
    and load: "map_option wn_load (dict_get (wk_nodes two_workers) ''n2'') = Some 0" by code_simp+
  have wf: "dict_wf (wk_nodes two_workers)" by code_simp
  obtain sw1 where g: "get_best_node (\<lambda>x. x) 2 ''CODER'' two_workers = (sw1, Some ''n2'')" using b by (metis prod.collapse)
  from best_node_is_least_loaded [OF wf g] load b show ?thesis unfolding g by auto
qed

text \<open>The next heartbeat of the node forgets the reservation: it registers the node anew, with load zero when idle.\<close>

lemma heartbeat_forgets_load:
  "dict_get (wk_nodes (register_or_update_node now2 role i ''idle'' (fst (get_best_node rnd now role sw)))) i
     = Some \<lparr>wn_role = lower role, wn_status = ''idle'', wn_seen = now2, wn_load = 0\<rparr>"
proof -
  have "lower ''idle'' = ''idle''" "lower ''idle'' \<noteq> ''busy''" by code_simp+
  then show ?thesis by (simp add: register_or_update_node_def)
qed

end
