(* ===== verification/Delegation.thy ===== *)
theory Delegation
  imports Protocol_Repair
begin

text \<open>
  Delegation to an external advisor (core/delegation_packet.py): scrubbing texts of credentials and host paths, bounding
  the files of a packet, the packet itself, and the dispatch with its fallback.

  The token counter is the parameter \<open>est\<close>, \<open>shown\<close> is \<open>str\<close>. The advisor and the internal model are functions over a
  state of their own; a call that raises gives the text of its exception. Durations and logging are left out.
\<close>

section \<open>Scrubbing\<close>

text \<open>The ends of an expression in the order in which \<open>re\<close> tries them: a repetition takes as much as it can first.\<close>

fun tried_spans :: "rx \<Rightarrow> pos \<Rightarrow> pos list" where
  "tried_spans Eps p = [p]"
| "tried_spans (One q) p = (case snd p of [] \<Rightarrow> [] | c # s \<Rightarrow> if q c then [(Some c, s)] else [])"
| "tried_spans (Many q) p = rev (many_spans q (fst p) (snd p))"
| "tried_spans Boundary p = (if at_boundary p then [p] else [])"
| "tried_spans (Then a b) p = concat (map (tried_spans b) (tried_spans a p))"
| "tried_spans (Either a b) p = tried_spans a p @ tried_spans b p"

text \<open>A pattern is a first part, whose text the replacement may repeat, and the rest.\<close>

definition first_match :: "rx \<Rightarrow> rx \<Rightarrow> pos \<Rightarrow> (nat \<times> nat) option" where
  "first_match pre after p =
     (case concat (map (\<lambda>q. map (\<lambda>e. (length (snd p) - length (snd q), length (snd p) - length (snd e))) (tried_spans after q)) (tried_spans pre p)) of
        [] \<Rightarrow> None
      | m # ms \<Rightarrow> Some m)"

text \<open>\<open>re.sub\<close>: \<open>skip\<close> characters belong to the match before. No pattern here matches the empty text.\<close>

fun rx_sub :: "rx \<Rightarrow> rx \<Rightarrow> (string \<Rightarrow> string) \<Rightarrow> nat \<Rightarrow> char option \<Rightarrow> string \<Rightarrow> string" where
  "rx_sub pre after f skip prev [] = []"
| "rx_sub pre after f skip prev (c # s) =
     (if 0 < skip then rx_sub pre after f (skip - 1) (Some c) s
      else (case first_match pre after (prev, c # s) of
              None \<Rightarrow> c # rx_sub pre after f 0 (Some c) s
            | Some (g, n) \<Rightarrow> f (take g (c # s)) @ rx_sub pre after f (n - 1) (Some c) s))"

definition exact :: "string \<Rightarrow> rx" where
  "exact w = in_order (map (\<lambda>c. One (\<lambda>x. x = c)) w)"

definition at_least :: "nat \<Rightarrow> (char \<Rightarrow> bool) \<Rightarrow> rx" where
  "at_least n q = Then (in_order (replicate n (One q))) (Many q)"

definition id_char :: "char \<Rightarrow> bool" where
  "id_char c = (letter c \<or> is_digit c \<or> c = CHR ''_'')"

definition secret_name :: rx where
  "secret_name =
     Then Boundary (Then (Many id_char)
       (one_of [lit ''password'', lit ''passwd'', lit ''secret'', lit ''api_key'', lit ''token'', lit ''private_key'']))"

definition assigned :: rx where
  "assigned = in_order [Many py_space, any_of '':='', Many py_space]"

definition quote_char :: "char \<Rightarrow> bool" where
  "quote_char c = (c = CHR 0x22 \<or> c = CHR 0x27)"

definition secret_patterns :: "(rx \<times> rx \<times> (string \<Rightarrow> string)) list" where
  "secret_patterns =
     [(Eps, in_order [Boundary, exact ''sk-'', at_least 20 (\<lambda>c. id_char c \<or> c = CHR ''-''), Boundary], \<lambda>g. ''[REDACTED_OPENAI_KEY]''),
      (Eps, in_order [Boundary, exact ''AIza'', at_least 20 (\<lambda>c. id_char c \<or> c = CHR ''-''), Boundary], \<lambda>g. ''[REDACTED_GEMINI_KEY]''),
      (Eps, in_order [Boundary, exact ''gh'', One (\<lambda>c. c \<in> set ''pousr''), exact ''_'', at_least 20 id_char, Boundary], \<lambda>g. ''[REDACTED_GITHUB_TOKEN]''),
      (Eps, in_order [Boundary, lit ''Bearer'', spaces, at_least 20 (\<lambda>c. id_char c \<or> c = CHR ''-'' \<or> c = CHR ''.''), Boundary],
        \<lambda>g. ''Bearer [REDACTED_BEARER_TOKEN]''),
      (secret_name, in_order [assigned, One quote_char, Many (\<lambda>c. \<not> quote_char c), One quote_char],
        \<lambda>g. g @ ''='' @ squoted ''[REDACTED_SECRET]''),
      (secret_name, in_order [assigned, at_least 4 (\<lambda>c. \<not> py_space c \<and> c \<noteq> CHR '','' \<and> c \<noteq> CHR '';'')],
        \<lambda>g. g @ ''=[REDACTED_SECRET]'')]"

definition path_char :: "char \<Rightarrow> bool" where
  "path_char c = (\<not> py_space c \<and> c \<noteq> CHR '','' \<and> c \<noteq> CHR '';'' \<and> \<not> quote_char c)"

definition path_patterns :: "(rx \<times> rx \<times> (string \<Rightarrow> string)) list" where
  "path_patterns =
     [(Eps, in_order [One letter, exact '':'', exact [CHR 0x5C], at_least 1 path_char], \<lambda>g. ''[WORKSPACE]''),
      (Eps, in_order [exact ''/'', Either (exact ''home'') (exact ''Users''), exact ''/'', at_least 1 path_char], \<lambda>g. ''[WORKSPACE]'')]"

definition scrub_sensitive_data :: "string \<Rightarrow> string" where
  "scrub_sensitive_data t = fold (\<lambda>(pre, after, f) s. rx_sub pre after f 0 None s) (secret_patterns @ path_patterns) t"


section \<open>Bounding files\<close>

definition truncation_notice :: string where
  "truncation_notice = ''# [TRUNCATED: remaining lines omitted for token containment]''"

definition fallback_estimate :: "string \<Rightarrow> int" where
  "fallback_estimate t = max 1 (int (length t) div 4)"

fun keep_lines :: "(string \<Rightarrow> int) \<Rightarrow> int \<Rightarrow> string \<Rightarrow> string list \<Rightarrow> string list" where
  "keep_lines est budget cur [] = []"
| "keep_lines est budget cur (l # ls) =
     (let candidate = py_strip (cur @ nl @ l)
      in if budget < est candidate then [] else l # keep_lines est budget candidate ls)"

text \<open>The lines are popped from the end; the list is the reverse.\<close>

fun drop_last_lines :: "(string \<Rightarrow> int) \<Rightarrow> int \<Rightarrow> string list \<Rightarrow> string list" where
  "drop_last_lines est budget [] = []"
| "drop_last_lines est budget (l # ls) =
     (if budget < est (join_with nl (rev (l # ls) @ [truncation_notice])) then drop_last_lines est budget ls else l # ls)"

definition bound_file :: "(string \<Rightarrow> int) \<Rightarrow> int \<Rightarrow> string \<Rightarrow> string" where
  "bound_file est budget content =
     (if est content \<le> budget then content
      else
        (let target = max 20 (budget - est truncation_notice);
             retained = keep_lines est target [] (split_lines (universal_newlines content))
         in join_with nl (rev (drop_last_lines est budget (rev retained)) @ [truncation_notice])))"

definition extract_and_bound_files :: "(string \<Rightarrow> int) \<Rightarrow> int \<Rightarrow> (string, string) dict \<Rightarrow> (string, string) dict" where
  "extract_and_bound_files est max_total files =
     (let scrubbed = map (\<lambda>(p, c). (p, scrub_sensitive_data c)) files
      in if scrubbed = [] then []
         else if sum_list (map (est \<circ> snd) scrubbed) \<le> max_total then scrubbed
         else (let budget = max 50 (max_total div int (length scrubbed)) in map (\<lambda>(p, c). (p, bound_file est budget c)) scrubbed))"


section \<open>Packets\<close>

datatype advisor_mode = Automated_Mcp | Zero_Risk_Manual | Internal_Fallback

datatype advisor_task = Architecture_Design | Code_Review | Refactoring_Strategy | General_Reasoning

definition mode_value :: "advisor_mode \<Rightarrow> string" where
  "mode_value m = (case m of Automated_Mcp \<Rightarrow> ''AUTOMATED_MCP'' | Zero_Risk_Manual \<Rightarrow> ''ZERO_RISK_MANUAL'' | Internal_Fallback \<Rightarrow> ''INTERNAL_FALLBACK'')"

definition task_value :: "advisor_task \<Rightarrow> string" where
  "task_value t = (case t of Architecture_Design \<Rightarrow> ''ARCHITECTURE_DESIGN'' | Code_Review \<Rightarrow> ''CODE_REVIEW''
     | Refactoring_Strategy \<Rightarrow> ''REFACTORING_STRATEGY'' | General_Reasoning \<Rightarrow> ''GENERAL_REASONING'')"

record delegation_packet =
  dl_id :: string
  dl_task :: string
  dl_type :: advisor_task
  dl_objective :: string
  dl_mode :: advisor_mode
  dl_files :: "(string, string) dict"
  dl_constraints :: "string list"
  dl_questions :: "string list"
  dl_budget :: int
  dl_estimated :: int

definition create_packet ::
    "(string \<Rightarrow> int) \<Rightarrow> string \<Rightarrow> string \<Rightarrow> advisor_task \<Rightarrow> string \<Rightarrow> (string, string) dict \<Rightarrow> string list \<Rightarrow> string list \<Rightarrow> advisor_mode \<Rightarrow> int
       \<Rightarrow> delegation_packet" where
  "create_packet est packet task ty objective files constraints questions mode max_tokens =
     (let bounded = extract_and_bound_files est 1500 files; obj = scrub_sensitive_data objective;
          cs = map scrub_sensitive_data constraints; qs = map scrub_sensitive_data questions
      in \<lparr>dl_id = packet, dl_task = task, dl_type = ty, dl_objective = obj, dl_mode = mode, dl_files = bounded, dl_constraints = cs,
          dl_questions = qs, dl_budget = min max_tokens 2000,
          dl_estimated = est (obj @ join_with '' '' cs @ join_with '' '' qs @ concat (map snd bounded))\<rparr>)"

definition ticked :: "string \<Rightarrow> string" where
  "ticked s = [CHR 0x60] @ s @ [CHR 0x60]"

definition to_clipboard_markdown :: "delegation_packet \<Rightarrow> string" where
  "to_clipboard_markdown d =
     join_with nl
       ([''# LAS External Advisor Consultation Packet ['' @ mode_value (dl_mode d) @ '']'',
         ''- **Packet ID**: '' @ ticked (dl_id d), ''- **Task ID**: '' @ ticked (dl_task d), ''- **Task Type**: '' @ ticked (task_value (dl_type d)),
         ''- **Mode**: '' @ ticked (mode_value (dl_mode d)) @ '' (Mode: '' @ mode_value (dl_mode d) @ '')'',
         ''- **Estimated Tokens**: '' @ ticked (int_str (dl_estimated d)) @ '' / '' @ ticked (int_str (dl_budget d)),
         [], ''## 1. Primary Objective'', dl_objective d, []]
        @ (if dl_constraints d = [] then [] else ''## 2. Constraints & Invariants'' # map (\<lambda>c. ''- '' @ c) (dl_constraints d) @ [[]])
        @ (if dl_questions d = [] then [] else ''## 3. Specific Questions for Advisor'' # map (\<lambda>q. ''- '' @ q) (dl_questions d) @ [[]])
        @ (if dl_files d = [] then []
           else ''## 4. Context Source Files (Sanitized)'' # concat (map (\<lambda>(p, c). [''### File: '' @ ticked p, fence, c, fence, []]) (dl_files d)))
        @ [''---'', ''### Instructions for Advisor:'',
           ''Please analyze the objective, constraints, and questions. Respond with structured advice containing:'',
           ''1. Architectural recommendations'', ''2. Implementation plan step-by-step'', ''3. Code diffs / patch proposals if applicable''])"

definition to_mcp_arguments :: "delegation_packet \<Rightarrow> json" where
  "to_mcp_arguments d = JObj
     [(''packet_id'', JStr (dl_id d)), (''task_id'', JStr (dl_task d)), (''task_type'', JStr (task_value (dl_type d))),
      (''objective'', JStr (dl_objective d)), (''constraints'', JArr (map JStr (dl_constraints d))),
      (''questions'', JArr (map JStr (dl_questions d))), (''files'', JObj (map (\<lambda>(p, c). (p, JStr c)) (dl_files d))),
      (''token_budget'', JInt (dl_budget d))]"


section \<open>Answers\<close>

record advisor_response =
  av_packet :: string
  av_success :: bool
  av_model :: string
  av_recommendations :: "string list"
  av_plan :: "string option"
  av_patches :: "(string, string) dict list"
  av_raw :: string
  av_fallback :: bool
  av_error :: "string option"

text \<open>The fields as pydantic reads them; \<^const>\<open>None\<close> is a validation error. A tuple, which pydantic takes for a list, is
refused here: the answers of an advisor are JSON values, and an answer that cannot be serialised is an error in the code
as well.\<close>

fun as_text :: "json \<Rightarrow> string option" where
  "as_text (JStr s) = Some s"
| "as_text j = None"

fun all_some :: "'a option list \<Rightarrow> 'a list option" where
  "all_some [] = Some []"
| "all_some (x # xs) = (case x of None \<Rightarrow> None | Some v \<Rightarrow> map_option (\<lambda>vs. v # vs) (all_some xs))"

definition as_texts :: "json \<Rightarrow> string list option" where
  "as_texts j = (case j of JArr xs \<Rightarrow> all_some (map as_text xs) | _ \<Rightarrow> None)"

definition as_patch :: "json \<Rightarrow> (string, string) dict option" where
  "as_patch j = (case j of JObj d \<Rightarrow> all_some (map (\<lambda>(k, v). map_option (\<lambda>t. (k, t)) (as_text v)) d) | _ \<Rightarrow> None)"

definition as_patches :: "json \<Rightarrow> (string, string) dict list option" where
  "as_patches j = (case j of JArr xs \<Rightarrow> all_some (map as_patch xs) | _ \<Rightarrow> None)"

definition as_opt_text :: "json \<Rightarrow> string option option" where
  "as_opt_text j = (case j of JNull \<Rightarrow> Some None | JStr s \<Rightarrow> Some (Some s) | _ \<Rightarrow> None)"

fun as_flag :: "json \<Rightarrow> bool option" where
  "as_flag (JBool b) = Some b"
| "as_flag (JInt n) = (if n = 1 then Some True else if n = 0 then Some False else None)"
| "as_flag (JFloat t) = (if t = ''1.0'' then Some True else if t = ''0.0'' \<or> t = ''-0.0'' then Some False else None)"
| "as_flag (JStr s) =
     (if lower s \<in> {''1'', ''on'', ''t'', ''true'', ''y'', ''yes''} then Some True
      else if lower s \<in> {''0'', ''off'', ''f'', ''false'', ''n'', ''no''} then Some False else None)"
| "as_flag j = None"

definition status_good :: "json \<Rightarrow> bool" where
  "status_good j = (j \<in> {JStr ''success'', JStr ''ok'', JBool True, JInt 1, JFloat ''1.0''})"

definition response_of_dict :: "string \<Rightarrow> (string, json) dict \<Rightarrow> string \<Rightarrow> advisor_response option" where
  "response_of_dict packet d model =
     (case (as_text (dict_get_default d ''model'' (JStr model)), as_texts (dict_get_default d ''recommendations'' (JArr [])),
            as_opt_text (dict_get_default d ''proposed_plan'' JNull), as_patches (dict_get_default d ''code_patches'' (JArr [])),
            as_flag (dict_get_default d ''fallback_triggered'' (JBool False)), json_image (JObj d)) of
        (Some m, Some rs, Some plan, Some ps, Some fb, Some j) \<Rightarrow>
          Some \<lparr>av_packet = packet, av_success = status_good (dict_get_default d ''status'' (JStr ''success'')), av_model = m,
                av_recommendations = rs, av_plan = plan, av_patches = ps, av_raw = render Spaced j, av_fallback = fb, av_error = None\<rparr>
      | _ \<Rightarrow> None)"

definition plain_response :: "string \<Rightarrow> bool \<Rightarrow> string \<Rightarrow> string list \<Rightarrow> string option \<Rightarrow> string \<Rightarrow> bool \<Rightarrow> string option \<Rightarrow> advisor_response" where
  "plain_response packet ok model recs plan raw fb err =
     \<lparr>av_packet = packet, av_success = ok, av_model = model, av_recommendations = recs, av_plan = plan, av_patches = [], av_raw = raw,
      av_fallback = fb, av_error = err\<rparr>"

definition structured_markers :: "string list" where
  "structured_markers = [''#'', ''recommend'', ''plan'', ''step 1'', ''architecture'']"

definition clean_answer :: "string \<Rightarrow> string" where
  "clean_answer raw =
     (let s = py_strip raw
      in if starts_with (fence @ ''json'') s \<and> ends_with fence s then py_strip (take (length s - 3 - 7) (drop 7 s)) else s)"

definition parse_advisor_response :: "(string \<Rightarrow> json option) \<Rightarrow> (json \<Rightarrow> string) \<Rightarrow> string \<Rightarrow> json \<Rightarrow> string \<Rightarrow> advisor_response option" where
  "parse_advisor_response loads shown packet raw model =
     (case raw of
        JObj d \<Rightarrow> response_of_dict packet d model
      | JStr s \<Rightarrow>
          (let cleaned = clean_answer s
           in case (case loads cleaned of Some (JObj d) \<Rightarrow> response_of_dict packet d model | _ \<Rightarrow> None) of
                Some r \<Rightarrow> Some r
              | None \<Rightarrow>
                  if list_ex (\<lambda>m. contains_str m (lower cleaned)) structured_markers
                  then Some (plain_response packet True model [take 200 cleaned] (Some cleaned) cleaned False None)
                  else Some (plain_response packet False model [] None cleaned False
                         (Some (''External advisor returned unparseable or unstructured response: '' @ take 100 cleaned))))
      | _ \<Rightarrow> Some (plain_response packet False model [] None (shown raw) False (Some (''Unsupported advisor response type: '' @ type_name raw))))"


section \<open>Dispatch\<close>

type_synonym 'w advisor = "'w \<Rightarrow> json \<Rightarrow> 'w \<times> (string + json)"
type_synonym 'w fallback_model = "'w \<Rightarrow> string \<Rightarrow> 'w \<times> (string + json)"

definition usable :: "advisor_response \<Rightarrow> bool" where
  "usable r = (av_success r \<and> (av_recommendations r \<noteq> [] \<or> (av_plan r \<noteq> None \<and> av_plan r \<noteq> Some [])))"

text \<open>The external call: its answer when it is usable.\<close>

definition ask_advisor ::
    "(string \<Rightarrow> json option) \<Rightarrow> (json \<Rightarrow> string) \<Rightarrow> delegation_packet \<Rightarrow> 'w advisor option \<Rightarrow> 'w \<Rightarrow> 'w \<times> advisor_response option" where
  "ask_advisor loads shown d ext w =
     (case ext of
        None \<Rightarrow> (w, None)
      | Some ask \<Rightarrow>
          (case ask w (to_mcp_arguments d) of
             (w1, Inl x) \<Rightarrow> (w1, None)
           | (w1, Inr raw) \<Rightarrow>
               (w1, (case parse_advisor_response loads shown (dl_id d) raw ''external-advisor'' of
                       Some r \<Rightarrow> if usable r then Some r else None
                     | None \<Rightarrow> None))))"

definition ask_fallback :: "(json \<Rightarrow> string) \<Rightarrow> delegation_packet \<Rightarrow> 'w fallback_model option \<Rightarrow> 'w \<Rightarrow> 'w \<times> advisor_response" where
  "ask_fallback shown d fb w =
     (case fb of
        None \<Rightarrow> (w, plain_response (dl_id d) False ''unreachable'' [] None [] False (Some ''No external caller or fallback caller available''))
      | Some ask \<Rightarrow>
          (case ask w (to_clipboard_markdown d) of
             (w1, Inl x) \<Rightarrow>
               (w1, plain_response (dl_id d) False ''failed-fallback'' [] None [] True (Some (''Both external advisor and fallback failed: '' @ x)))
           | (w1, Inr out) \<Rightarrow>
               (w1, plain_response (dl_id d) True ''internal-fallback-model'' [''Plan synthesized via internal fallback model.''] (Some (shown out))
                      (shown out) True None)))"

definition execute_delegation ::
    "(string \<Rightarrow> json option) \<Rightarrow> (json \<Rightarrow> string) \<Rightarrow> delegation_packet \<Rightarrow> 'w advisor option \<Rightarrow> 'w fallback_model option \<Rightarrow> 'w
       \<Rightarrow> 'w \<times> advisor_response" where
  "execute_delegation loads shown d ext fb w =
     (if dl_mode d = Zero_Risk_Manual
      then (let md = to_clipboard_markdown d
            in (w, plain_response (dl_id d) True ''ZERO_RISK_MANUAL'' [''Payload rendered for manual review and clipboard copying.''] (Some md) md False None))
      else (case ask_advisor loads shown d ext w of
              (w1, Some r) \<Rightarrow> (w1, r)
            | (w1, None) \<Rightarrow> ask_fallback shown d fb w1))"

end
