(* ===== verification/Delegation_Properties.thy ===== *)
theory Delegation_Properties
  imports Delegation
begin

text \<open>
  What a delegation guarantees: manual mode sends nothing, every dispatch answers, and how far the files of a packet are
  bounded. And where it does not do what it says: many small files exceed the budget, the mode of the internal
  fallback still asks the external advisor, and names are not scrubbed.
\<close>

section \<open>Dispatch\<close>

lemma ask_advisor_usable: "ask_advisor loads shown d ext w = (w1, Some r) \<Longrightarrow> usable r"
  by (auto simp: ask_advisor_def split: option.split_asm prod.split_asm sum.split_asm if_split_asm)

text \<open>C33: A delegation in manual mode calls nobody: the advisor and the internal model are left as they were and the
answer is the packet itself, for the clipboard. In the other modes an answer is either usable or a marked failure. A
success is the answer the advisor gave, with recommendations or a plan, or, when the advisor gave none that is usable, the
answer the internal model gave to the packet, marked as a fallback, its text being the plan. A failure carries an error
and neither recommendations nor a plan nor patches, and there is one only when the advisor gave no usable answer and the
internal model is absent or raised.\<close>

theorem manual_mode_sends_nothing:
  "case execute_delegation loads shown d ext fb w of (w1, r) \<Rightarrow>
     (dl_mode d = Zero_Risk_Manual \<longrightarrow> w1 = w \<and> av_success r \<and> av_plan r = Some (to_clipboard_markdown d))
     \<and> (dl_mode d \<noteq> Zero_Risk_Manual \<and> av_success r \<longrightarrow>
          usable r
          \<and> ((ext \<noteq> None \<and> ask_advisor loads shown d ext w = (w1, Some r))
             \<or> (\<exists>ask w0 out. ask_advisor loads shown d ext w = (w0, None) \<and> fb = Some ask \<and> ask w0 (to_clipboard_markdown d) = (w1, Inr out)
                  \<and> av_model r = ''internal-fallback-model'' \<and> av_fallback r \<and> av_plan r = Some (shown out))))
     \<and> (dl_mode d \<noteq> Zero_Risk_Manual \<and> \<not> av_success r \<longrightarrow>
          av_error r \<noteq> None \<and> av_recommendations r = [] \<and> av_plan r = None \<and> av_patches r = []
          \<and> (\<exists>w0. ask_advisor loads shown d ext w = (w0, None)
               \<and> (case fb of None \<Rightarrow> w1 = w0 | Some ask \<Rightarrow> \<exists>x. ask w0 (to_clipboard_markdown d) = (w1, Inl x))))"
proof (cases "dl_mode d = Zero_Risk_Manual")
  case True
  then show ?thesis by (simp add: execute_delegation_def plain_response_def Let_def)
next
  case False
  obtain w1 a where a: "ask_advisor loads shown d ext w = (w1, a)" by fastforce
  show ?thesis
  proof (cases a)
    case (Some r)
    then have "ext \<noteq> None" using a by (cases ext) (auto simp: ask_advisor_def)
    moreover have "usable r" "av_success r" using ask_advisor_usable [of loads shown d ext w w1 r] a Some by (auto simp: usable_def)
    ultimately show ?thesis using a Some False by (simp add: execute_delegation_def)
  next
    case None
    with a have e: "execute_delegation loads shown d ext fb w = ask_fallback shown d fb w1" using False by (simp add: execute_delegation_def)
    show ?thesis
    proof (cases fb)
      case n: None
      with e False a None show ?thesis by (simp add: ask_fallback_def plain_response_def)
    next
      case (Some ask)
      obtain w2 out where o: "ask w1 (to_clipboard_markdown d) = (w2, out)" by fastforce
      with Some e False a None show ?thesis by (cases out) (auto simp: ask_fallback_def plain_response_def usable_def)
    qed
  qed
qed

definition sample_packet :: "advisor_mode \<Rightarrow> delegation_packet" where
  "sample_packet mode = create_packet fallback_estimate ''del_1'' ''t1'' Code_Review ''review'' [] [] [] mode 2000"

lemma manual_mode_sends_nothing_witness:
  "fst (execute_delegation (\<lambda>t. None) (\<lambda>j. []) (sample_packet Zero_Risk_Manual) (Some (\<lambda>w args. (Suc w, Inl ''down''))) None 0) = 0"
proof -
  have "dl_mode (sample_packet Zero_Risk_Manual) = Zero_Risk_Manual" by (simp add: sample_packet_def create_packet_def Let_def)
  with manual_mode_sends_nothing [where loads = "\<lambda>t. None" and shown = "\<lambda>j. []" and d = "sample_packet Zero_Risk_Manual"
      and ext = "Some (\<lambda>w args. (Suc w, Inl ''down''))" and fb = None and w = "0 :: nat"]
  show ?thesis by (simp add: case_prod_beta)
qed

text \<open>The mode of the internal fallback asks the external advisor all the same.\<close>

lemma internal_mode_asks_advisor:
  "fst (execute_delegation (\<lambda>t. None) (\<lambda>j. []) (sample_packet Internal_Fallback) (Some (\<lambda>w args. (Suc w, Inl ''down''))) None 0) = 1"
  by (simp add: execute_delegation_def sample_packet_def create_packet_def ask_advisor_def ask_fallback_def Let_def)


section \<open>Bounds\<close>

lemma drop_last_lines_bound:
  "drop_last_lines est budget ls \<noteq> [] \<Longrightarrow> est (join_with nl (rev (drop_last_lines est budget ls) @ [truncation_notice])) \<le> budget"
  by (induction est budget ls rule: drop_last_lines.induct) auto

lemma bound_file_bound: "est (bound_file est budget content) \<le> max budget (est truncation_notice)"
proof (cases "est content \<le> budget")
  case True
  then show ?thesis by (simp add: bound_file_def)
next
  case False
  let ?kept = "drop_last_lines est budget (rev (keep_lines est (max 20 (budget - est truncation_notice)) [] (split_lines (universal_newlines content))))"
  have f: "bound_file est budget content = join_with nl (rev ?kept @ [truncation_notice])"
    using False by (simp add: bound_file_def Let_def)
  show ?thesis
  proof (cases "?kept = []")
    case True
    then show ?thesis unfolding f by simp
  next
    case False
    from drop_last_lines_bound [OF this] show ?thesis unfolding f by simp
  qed
qed

lemma sum_list_le: "(\<And>x. x \<in> set xs \<Longrightarrow> f x \<le> (b :: int)) \<Longrightarrow> sum_list (map f xs) \<le> int (length xs) * b"
proof (induction xs)
  case (Cons x xs)
  have "f x \<le> b" "sum_list (map f xs) \<le> int (length xs) * b" using Cons by simp_all
  then show ?case by (simp add: algebra_simps)
qed simp

text \<open>The files of a packet keep their names, and if they do not fit the budget together, each of them is cut to its
share, or to fifty tokens when the share is smaller: up to thirty files whose cut mark is within fifty tokens stay
within the fifteen hundred tokens of a packet.\<close>

theorem bounded_files_fit:
  assumes "length files \<le> 30" "est truncation_notice \<le> 50"
  shows "map fst (extract_and_bound_files est 1500 files) = map fst files
    \<and> sum_list (map (est \<circ> snd) (extract_and_bound_files est 1500 files)) \<le> 1500"
proof -
  let ?s = "map (\<lambda>(p, c). (p, scrub_sensitive_data c)) files"
  let ?b = "max 50 (1500 div int (length ?s))"
  have names: "map fst ?s = map fst files" by (simp add: case_prod_beta)
  consider (empty) "files = []" | (small) "files \<noteq> []" "sum_list (map (est \<circ> snd) ?s) \<le> 1500"
    | (cut) "files \<noteq> []" "\<not> sum_list (map (est \<circ> snd) ?s) \<le> 1500" by blast
  then show ?thesis
  proof cases
    case empty
    then show ?thesis by (simp add: extract_and_bound_files_def)
  next
    case small
    then have "extract_and_bound_files est 1500 files = ?s" by (simp add: extract_and_bound_files_def Let_def)
    with small names show ?thesis by simp
  next
    case cut
    let ?out = "map (\<lambda>(p, c). (p, bound_file est ?b c)) ?s"
    have out: "extract_and_bound_files est 1500 files = ?out" using cut unfolding extract_and_bound_files_def Let_def by simp
    have n: "0 < length ?s" "length ?s \<le> 30" using cut(1) assms(1) by simp_all
    have b: "?b = 1500 div int (length ?s)"
    proof -
      have "1500 div 30 \<le> 1500 div int (length ?s)" using n by (intro zdiv_mono2) auto
      then show ?thesis by simp
    qed
    have "(est \<circ> snd) x \<le> ?b" if "x \<in> set ?out" for x
    proof -
      have "x \<in> (\<lambda>(p, c). (p, bound_file est ?b c)) ` set ?s" using that unfolding set_map .
      then obtain q where "x = (case q of (p, c) \<Rightarrow> (p, bound_file est ?b c))" by blast
      then obtain p c where "x = (p, bound_file est ?b c)" by (cases q) simp
      with bound_file_bound [of est ?b c] assms(2) show ?thesis by simp
    qed
    then have "sum_list (map (est \<circ> snd) ?out) \<le> int (length ?out) * ?b" by (rule sum_list_le)
    also have "\<dots> = int (length ?s) * (1500 div int (length ?s))" using b by simp
    also have "\<dots> \<le> 1500"
    proof -
      have "int (length ?s) * (1500 div int (length ?s)) = 1500 - 1500 mod int (length ?s)" by (rule minus_mod_eq_mult_div [symmetric])
      moreover have "0 \<le> 1500 mod int (length ?s)" using n(1) by (intro pos_mod_sign) simp
      ultimately show ?thesis by linarith
    qed
    finally have "sum_list (map (est \<circ> snd) ?out) \<le> 1500" .
    moreover have "map fst ?out = map fst ?s" by (simp add: case_prod_beta)
    ultimately show ?thesis unfolding out using names by simp
  qed
qed

lemma notice_tokens: "fallback_estimate truncation_notice \<le> 50"
  by code_simp

lemma bounded_files_fit_witness:
  "sum_list (map (fallback_estimate \<circ> snd) (extract_and_bound_files fallback_estimate 1500 [(''a'', replicate 4000 (CHR ''x'')), (''b'', replicate 4000 (CHR ''y''))])) \<le> 1500"
proof -
  have "length [(''a'', replicate 4000 (CHR ''x'')), (''b'', replicate 4000 (CHR ''y''))] \<le> 30" by simp
  from bounded_files_fit [where est = fallback_estimate, OF this notice_tokens] show ?thesis by blast
qed

text \<open>One file more, each within its fifty tokens, and the files are all kept although they exceed the budget.\<close>

lemma many_small_files_exceed:
  assumes "length files = 31"
  shows "sum_list (map ((\<lambda>t. 49 :: int) \<circ> snd) (extract_and_bound_files (\<lambda>t. 49) 1500 files)) = 1519"
proof -
  have "sum_list (map (\<lambda>x. 49 :: int) files) = 1519" using assms by (simp add: sum_list_triv)
  moreover have "files \<noteq> []" using assms by auto
  ultimately show ?thesis by (simp add: extract_and_bound_files_def Let_def bound_file_def case_prod_beta comp_def)
qed

end
