(* ===== verification/Git_Worktree.thy ===== *)
theory Git_Worktree
  imports Pipeline_Healing
begin

text \<open>
  The git worktrees of the pipeline (core/git_worktree.py), which provide the interface \<open>worktree_manager\<close> of the coding
  pipeline.

  Git and the file system are the parameters of a host, over a state of their own; a path is a POSIX path. The
  exceptions are told apart by their names, which also stand for their messages: a failed command is a
  \<open>RuntimeError\<close>, a slow one a \<open>TimeoutError\<close>.
\<close>

datatype git_answer = Git_Timeout | Git_Raised string | Git_Exit int string string

record 'w git_host =
  gh_git :: "'w \<Rightarrow> string \<Rightarrow> string list \<Rightarrow> 'w \<times> git_answer"
  gh_is_dir :: "'w \<Rightarrow> string \<Rightarrow> bool"
  gh_exists :: "'w \<Rightarrow> string \<Rightarrow> bool"
  gh_link :: "'w \<Rightarrow> string \<Rightarrow> string option"
  gh_remove :: "'w \<Rightarrow> string \<Rightarrow> 'w"
  gh_fresh :: "'w \<Rightarrow> nat \<Rightarrow> 'w \<times> string"
  gh_now :: "'w \<Rightarrow> string"
  gh_abspath :: "string \<Rightarrow> string"
  gh_base :: "string option"
  gh_temp :: string

definition runtime_error :: string where
  "runtime_error = ''RuntimeError''"

definition timeout_error :: string where
  "timeout_error = ''TimeoutError''"

definition and_then :: "('w, 'a) action \<Rightarrow> ('w \<Rightarrow> 'a \<Rightarrow> ('w, 'b) action) \<Rightarrow> ('w, 'b) action" where
  "and_then r f = (case r of (w, Inl e) \<Rightarrow> (w, Inl e) | (w, Inr a) \<Rightarrow> f w a)"

definition run_git :: "'w git_host \<Rightarrow> bool \<Rightarrow> string \<Rightarrow> string list \<Rightarrow> 'w \<Rightarrow> ('w, int \<times> string \<times> string) action" where
  "run_git h check cwd args w =
     (case gh_git h w cwd args of
        (w1, Git_Timeout) \<Rightarrow> (w1, Inl timeout_error)
      | (w1, Git_Raised e) \<Rightarrow> (w1, Inl e)
      | (w1, Git_Exit rc out err) \<Rightarrow> (w1, if check \<and> rc \<noteq> 0 then Inl runtime_error else Inr (rc, out, err)))"

definition git_text :: "'w git_host \<Rightarrow> string \<Rightarrow> string list \<Rightarrow> 'w \<Rightarrow> ('w, string) action" where
  "git_text h cwd args w = and_then (run_git h True cwd args w) (\<lambda>w1 (rc, out, err). (w1, Inr (py_strip out)))"

text \<open>The value of a command, or another way to go on when it fails.\<close>

definition or_on_failure :: "('w, 'a) action \<Rightarrow> ('w \<Rightarrow> ('w, 'a) action) \<Rightarrow> ('w, 'a) action" where
  "or_on_failure r f = (case r of (w, Inl e) \<Rightarrow> if e = runtime_error then f w else (w, Inl e) | (w, Inr a) \<Rightarrow> (w, Inr a))"

definition under :: "string \<Rightarrow> string \<Rightarrow> string" where
  "under dir name = (if dir = [] \<or> last dir = CHR ''/'' then dir @ name else dir @ ''/'' @ name)"

definition resolve_worktree_path :: "'w git_host \<Rightarrow> string \<Rightarrow> string \<Rightarrow> string" where
  "resolve_worktree_path h repo session =
     (let shared = under (under (gh_temp h) ''las_worktrees'') (last (split_on (CHR ''/'') repo) @ ''_'' @ session)
      in case gh_base h of
           Some base \<Rightarrow> if base = [] then shared else under (gh_abspath h base) session
         | None \<Rightarrow> shared)"

definition branch_line :: "string \<Rightarrow> string" where
  "branch_line b = ''branch refs/heads/'' @ b"

text \<open>Whether the branch is attached as it is: it stands at the base commit and is checked out nowhere.\<close>

definition choose_branch :: "'w git_host \<Rightarrow> string \<Rightarrow> string \<Rightarrow> string \<Rightarrow> string \<Rightarrow> 'w \<Rightarrow> ('w, string \<times> bool) action" where
  "choose_branch h repo branch session base_commit w =
     and_then (run_git h False repo [''branch'', ''--list'', branch] w) (\<lambda>w1 (rc, out, err).
       if py_strip out = [] then (w1, Inr (branch, True))
       else
         and_then (or_on_failure (git_text h repo [''rev-parse'', branch] w1) (\<lambda>w2. (w2, Inr []))) (\<lambda>w2 sha.
         and_then (run_git h False repo [''worktree'', ''list'', ''--porcelain''] w2) (\<lambda>w3 (rc, listed, err).
           (w3, Inr (if sha = base_commit \<and> \<not> contains_str (branch_line branch) listed then (branch, False)
                     else (branch @ ''_'' @ session, True))))))"

definition create_worktree :: "'w git_host \<Rightarrow> 'w \<Rightarrow> string \<Rightarrow> string \<Rightarrow> string \<Rightarrow> ('w, worktree_session) action" where
  "create_worktree h w repo_path branch base_ref =
     (let repo = gh_abspath h repo_path
      in if \<not> gh_is_dir h w repo then (w, Inl ''FileNotFoundError'')
         else
           and_then (run_git h True repo [''rev-parse'', ''--git-dir''] w) (\<lambda>w1 _.
             case gh_fresh h w1 10 of
               (w2, token) \<Rightarrow>
                 (let session = ''wt_'' @ token; path = resolve_worktree_path h repo session;
                      w3 = (if gh_exists h w2 path then gh_remove h w2 path else w2)
                  in and_then (or_on_failure (git_text h repo [''rev-parse'', base_ref] w3) (git_text h repo [''rev-parse'', ''HEAD''])) (\<lambda>w4 base_commit.
                     and_then (choose_branch h repo branch session base_commit w4) (\<lambda>w5 (target, is_new).
                     and_then (run_git h True repo
                         (if is_new then [''worktree'', ''add'', ''-b'', target, path, base_commit] else [''worktree'', ''add'', path, target]) w5) (\<lambda>w6 _.
                       (w6, Inr \<lparr>ws_session = session, ws_path = path, ws_branch = target, ws_base = base_commit, ws_isolated = True,
                                 ws_created = gh_now h w6\<rparr>)))))))"

text \<open>\<open>Path(gitdir).parents[1]\<close> when it is named \<open>.git\<close>: then its parent, the repository.\<close>

definition path_parts :: "string \<Rightarrow> string list" where
  "path_parts p = filter (\<lambda>c. c \<noteq> [] \<and> c \<noteq> ''.'') (split_on (CHR ''/'') p)"

definition repo_of_link :: "string \<Rightarrow> string option" where
  "repo_of_link content =
     (let c = py_strip content
      in if \<not> starts_with ''gitdir:'' c then None
         else
           (let gitdir = py_strip (drop 7 c); above = butlast (butlast (path_parts gitdir))
            in if 2 \<le> length (path_parts gitdir) \<and> above \<noteq> [] \<and> last above = ''.git''
               then Some (if take 1 gitdir = ''/'' then ''/'' @ join_with ''/'' (butlast above)
                          else if butlast above = [] then ''.'' else join_with ''/'' (butlast above))
               else None))"

definition cleanup_worktree :: "'w git_host \<Rightarrow> 'w \<Rightarrow> worktree_session \<Rightarrow> bool \<Rightarrow> ('w, bool) action" where
  "cleanup_worktree h w session remove_branch =
     (let path = ws_path session;
          repo = (case gh_link h w (under path ''.git'') of None \<Rightarrow> None | Some c \<Rightarrow> repo_of_link c);
          torn = (case repo of
                    None \<Rightarrow> (w, Inr ())
                  | Some r \<Rightarrow>
                      if r = [] \<or> \<not> gh_is_dir h w r then (w, Inr ())
                      else
                        and_then (run_git h False r [''worktree'', ''remove'', ''--force'', path] w) (\<lambda>w1 _.
                        and_then (run_git h False r [''worktree'', ''prune''] w1) (\<lambda>w2 _.
                          if remove_branch then and_then (run_git h False r [''branch'', ''-D'', ws_branch session] w2) (\<lambda>w3 _. (w3, Inr ()))
                          else (w2, Inr ()))))
      in and_then torn (\<lambda>w1 _.
           let w2 = (if gh_exists h w1 path then gh_remove h w1 path else w1)
           in (w2, Inr (\<not> gh_exists h w2 path))))"

definition untracked_files :: "string \<Rightarrow> string list" where
  "untracked_files status = map (\<lambda>l. py_strip (drop 3 l)) (filter (starts_with ''??'') (split_lines (universal_newlines status)))"

definition get_diff :: "'w git_host \<Rightarrow> 'w \<Rightarrow> worktree_session \<Rightarrow> ('w, string) action" where
  "get_diff h w session =
     (let path = ws_path session
      in if \<not> gh_is_dir h w path then (w, Inl ''FileNotFoundError'')
         else
           and_then (run_git h False path [''diff'', ws_base session] w) (\<lambda>w1 (rc, text, err).
           and_then (run_git h False path [''status'', ''--porcelain''] w1) (\<lambda>w2 (rc, status, err).
             let us = untracked_files status; line_end = [CHR 0x0A]
             in (w2, Inr (py_strip
                  (if us = [] then text
                   else text @ line_end @ ''# Untracked files:'' @ line_end @ join_with line_end (map (\<lambda>f. ''# + '' @ f) us)))))))"

definition commit_changes :: "'w git_host \<Rightarrow> 'w \<Rightarrow> worktree_session \<Rightarrow> string \<Rightarrow> ('w, string) action" where
  "commit_changes h w session message =
     (let path = ws_path session
      in if \<not> gh_is_dir h w path then (w, Inl ''FileNotFoundError'')
         else
           and_then (run_git h True path [''add'', ''-A''] w) (\<lambda>w1 _.
           and_then (run_git h False path [''diff'', ''--cached'', ''--quiet''] w1) (\<lambda>w2 (rc, out, err).
           and_then (if rc \<noteq> 0 then run_git h True path [''commit'', ''-m'', message] w2 else (w2, Inr (0, [], []))) (\<lambda>w3 _.
             git_text h path [''rev-parse'', ''HEAD''] w3))))"

definition role_branch :: "string \<Rightarrow> string \<Rightarrow> string" where
  "role_branch role token =
     ''task_'' @ map (\<lambda>c. if letter c \<or> is_digit c \<or> c = CHR ''_'' \<or> c = CHR ''-'' then c else CHR ''_'') (lower role) @ ''_'' @ token"

fun create_roles ::
    "'w git_host \<Rightarrow> string \<Rightarrow> string \<Rightarrow> (string, worktree_session) dict \<Rightarrow> string list \<Rightarrow> 'w \<Rightarrow> ('w, (string, worktree_session) dict) action" where
  "create_roles h repo base_ref made [] w = (w, Inr made)"
| "create_roles h repo base_ref made (role # roles) w =
     (case gh_fresh h w 6 of
        (w1, token) \<Rightarrow>
          and_then (create_worktree h w1 repo (role_branch role token) base_ref) (\<lambda>w2 s.
            create_roles h repo base_ref (dict_put role s made) roles w2))"

definition create_multi_agent_worktrees ::
    "'w git_host \<Rightarrow> 'w \<Rightarrow> string \<Rightarrow> string list \<Rightarrow> string \<Rightarrow> ('w, (string, worktree_session) dict) action" where
  "create_multi_agent_worktrees h w repo roles base_ref = create_roles h repo base_ref [] roles w"

text \<open>Every exception becomes the answer \<open>False\<close> with its text.\<close>

definition squash_merge_worktree_branch ::
    "'w git_host \<Rightarrow> 'w \<Rightarrow> string \<Rightarrow> string \<Rightarrow> string \<Rightarrow> string option \<Rightarrow> 'w \<times> bool \<times> string" where
  "squash_merge_worktree_branch h w repo_path source target message =
     (let repo = gh_abspath h repo_path;
          msg = (case message of
                   Some m \<Rightarrow> if m = [] then ''chore(worktree): squash merge '' @ source @ '' into '' @ target else m
                 | None \<Rightarrow> ''chore(worktree): squash merge '' @ source @ '' into '' @ target);
          run =
            and_then (git_text h repo [''rev-parse'', ''--abbrev-ref'', ''HEAD''] w) (\<lambda>w1 curr.
            and_then (if curr \<noteq> target then run_git h True repo [''checkout'', target] w1 else (w1, Inr (0, [], []))) (\<lambda>w2 _.
            and_then (run_git h False repo [''merge'', ''--squash'', source] w2) (\<lambda>w3 (rc, out, err).
              if rc \<noteq> 0
              then and_then (run_git h False repo [''reset'', ''--hard'', ''HEAD''] w3) (\<lambda>w4 _.
                     (w4, Inr (False, ''Squash merge conflict or failure: '' @ py_strip err)))
              else
                and_then (run_git h False repo [''diff'', ''--cached'', ''--quiet''] w3) (\<lambda>w4 (changed, out, err).
                  if changed \<noteq> 0
                  then and_then (run_git h True repo [''commit'', ''-m'', msg] w4) (\<lambda>w5 _.
                       and_then (git_text h repo [''rev-parse'', ''HEAD''] w5) (\<lambda>w6 sha. (w6, Inr (True, sha))))
                  else (w4, Inr (True, ''NOOP_NO_CHANGES''))))))
      in case run of (w1, Inl e) \<Rightarrow> (w1, False, e) | (w1, Inr r) \<Rightarrow> (w1, r))"

text \<open>The manager as the pipeline uses it.\<close>

definition git_worktree_manager :: "'w git_host \<Rightarrow> 'w worktree_manager" where
  "git_worktree_manager h =
     \<lparr>wm_create = create_worktree h, wm_diff = get_diff h, wm_commit = commit_changes h, wm_cleanup = cleanup_worktree h,
      wm_multi = Some (create_multi_agent_worktrees h),
      wm_squash = Some (\<lambda>w repo source target. case squash_merge_worktree_branch h w repo source target None of (w1, r) \<Rightarrow> (w1, Inr r))\<rparr>"

end
