(* ===== verification/Git_Properties.thy ===== *)
theory Git_Properties
  imports Git_Worktree
begin

text \<open>
  What creating a worktree asks of git. The host is watched: every command and every removal it performs is recorded.
\<close>

type_synonym git_trace = "(string \<times> string list + string) list"

definition watched :: "'w git_host \<Rightarrow> ('w \<times> git_trace) git_host" where
  "watched h =
     \<lparr>gh_git = (\<lambda>(w, t) cwd args. case gh_git h w cwd args of (w1, r) \<Rightarrow> ((w1, t @ [Inl (cwd, args)]), r)),
      gh_is_dir = (\<lambda>(w, t). gh_is_dir h w), gh_exists = (\<lambda>(w, t). gh_exists h w), gh_link = (\<lambda>(w, t). gh_link h w),
      gh_remove = (\<lambda>(w, t) p. (gh_remove h w p, t @ [Inr p])),
      gh_fresh = (\<lambda>(w, t) n. case gh_fresh h w n of (w1, token) \<Rightarrow> ((w1, t), token)),
      gh_now = (\<lambda>(w, t). gh_now h w), gh_abspath = gh_abspath h, gh_base = gh_base h, gh_temp = gh_temp h\<rparr>"

text \<open>The commands that neither delete or move a branch nor touch the checkout they run in.\<close>

fun leaves_checkout :: "string list \<Rightarrow> bool" where
  "leaves_checkout [a, b] = (a = ''rev-parse'')"
| "leaves_checkout [a, b, c] = (a = ''branch'' \<and> b = ''--list'' \<or> a = ''worktree'' \<and> b = ''list'')"
| "leaves_checkout [a, b, c, d] = (a = ''worktree'' \<and> b = ''add'')"
| "leaves_checkout [a, b, c, d, e, f] = (a = ''worktree'' \<and> b = ''add'' \<and> c = ''-b'')"
| "leaves_checkout _ = False"

lemma after_and_then:
  assumes "P (fst r)" and "\<And>w a. r = (w, Inr a) \<Longrightarrow> P w \<Longrightarrow> P (fst (f w a))"
  shows "P (fst (and_then r f))"
  using assms by (cases r) (auto simp: and_then_def split: sum.split)

lemma after_failure:
  assumes "P (fst r)" and "\<And>w. P w \<Longrightarrow> P (fst (f w))"
  shows "P (fst (or_on_failure r f))"
  using assms by (cases r) (auto simp: or_on_failure_def split: sum.split)

text \<open>A predicate of the host's state that the harmless commands keep is kept by the whole operation.\<close>

lemma run_git_keeps:
  assumes "\<And>w. P w \<Longrightarrow> P (fst (gh_git h w cwd args))" and "P w"
  shows "P (fst (run_git h check cwd args w))"
  using assms(1) [OF assms(2)] by (auto simp: run_git_def split: prod.split git_answer.split)

lemma git_text_keeps:
  assumes "\<And>w. P w \<Longrightarrow> P (fst (gh_git h w cwd args))" and "P w"
  shows "P (fst (git_text h cwd args w))"
  unfolding git_text_def
  by (rule after_and_then) (auto intro: run_git_keeps assms)

lemma choose_branch_keeps:
  assumes g: "\<And>w args. P w \<Longrightarrow> leaves_checkout args \<Longrightarrow> P (fst (gh_git h w repo args))" and "P w"
  shows "P (fst (choose_branch h repo branch session base w))"
proof -
  have r: "P w \<Longrightarrow> leaves_checkout args \<Longrightarrow> P (fst (run_git h check repo args w))" for w args check
    by (rule run_git_keeps [where P = P]) (auto intro: g)
  have t: "P w \<Longrightarrow> leaves_checkout args \<Longrightarrow> P (fst (git_text h repo args w))" for w args
    by (rule git_text_keeps [where P = P]) (auto intro: g)
  show ?thesis
    unfolding choose_branch_def
  proof (rule after_and_then [where P = P], goal_cases)
    case 1
    show ?case by (rule r) (use \<open>P w\<close> in simp_all)
  next
    case (2 w1 a)
    have "P (fst (or_on_failure (git_text h repo [''rev-parse'', branch] w1) (\<lambda>w2. (w2, Inr []))))"
      by (rule after_failure [where P = P]) (use 2 in \<open>auto intro: t\<close>)
    then show ?case
      using 2 by (auto split: prod.split intro!: after_and_then [where P = P] r)
  qed
qed

lemma create_worktree_keeps:
  assumes g: "\<And>w args. P w \<Longrightarrow> leaves_checkout args \<Longrightarrow> P (fst (gh_git h w (gh_abspath h repo) args))"
    and f: "\<And>w. P w \<Longrightarrow> P (fst (gh_fresh h w 10))"
    and d: "\<And>w token. P w \<Longrightarrow> P (gh_remove h w (resolve_worktree_path h (gh_abspath h repo) (''wt_'' @ token)))"
    and "P w"
  shows "P (fst (create_worktree h w repo branch base))"
proof -
  let ?repo = "gh_abspath h repo"
  have r: "P w \<Longrightarrow> leaves_checkout args \<Longrightarrow> P (fst (run_git h check ?repo args w))" for w args check
    by (rule run_git_keeps [where P = P]) (auto intro: g)
  have t: "P w \<Longrightarrow> leaves_checkout args \<Longrightarrow> P (fst (git_text h ?repo args w))" for w args
    by (rule git_text_keeps [where P = P]) (auto intro: g)
  have b: "P w \<Longrightarrow> P (fst (or_on_failure (git_text h ?repo [''rev-parse'', base] w) (git_text h ?repo [''rev-parse'', ''HEAD''])))" for w
    by (rule after_failure [where P = P]) (auto intro: t)
  have c: "P w \<Longrightarrow> P (fst (choose_branch h ?repo branch session sha w))" for w session sha
    by (rule choose_branch_keeps [where P = P]) (auto intro: g)
  have rest: "P w2 \<Longrightarrow> P (fst (and_then (or_on_failure (git_text h ?repo [''rev-parse'', base] w2) (git_text h ?repo [''rev-parse'', ''HEAD'']))
      (\<lambda>w4 sha. and_then (choose_branch h ?repo branch session sha w4) (\<lambda>w5 (target, is_new).
         and_then (run_git h True ?repo
           (if is_new then [''worktree'', ''add'', ''-b'', target, path, sha] else [''worktree'', ''add'', path, target]) w5) (\<lambda>w6 _.
           (w6, Inr (made w6 target sha)))))))" for w2 session path made
    by (auto split: prod.split intro!: after_and_then [where P = P] b c r)
  show ?thesis
  proof (cases "gh_is_dir h w ?repo")
    case False
    then show ?thesis using \<open>P w\<close> by (simp add: create_worktree_def Let_def)
  next
    case True
    have "P w3" if "P w1" "gh_fresh h w1 10 = (w2, token)"
        "w3 = (if e then gh_remove h w2 (resolve_worktree_path h ?repo (''wt_'' @ token)) else w2)" for w1 w2 w3 e token
      using f [OF that(1)] that d by auto
    note kept = this
    have step: "P (fst (and_then (run_git h True ?repo [''rev-parse'', ''--git-dir''] w) f))"
      if "\<And>w1 a. P w1 \<Longrightarrow> P (fst (f w1 a))" for f :: "'a \<Rightarrow> _ \<Rightarrow> ('a, worktree_session) action"
      by (rule_tac after_and_then [where P = P]) (auto intro: that r \<open>P w\<close>)
    show ?thesis
    proof (simp only: create_worktree_def Let_def True not_True_eq_False if_False, rule step, goal_cases)
      case (1 w1 a)
      obtain w2 token where fresh: "gh_fresh h w1 10 = (w2, token)" by (cases "gh_fresh h w1 10")
      show ?case
        unfolding fresh prod.case by (rule rest) (rule kept [OF \<open>P w1\<close> fresh refl])
    qed
  qed
qed

definition harmless_entry :: "'w git_host \<Rightarrow> string \<Rightarrow> string \<times> string list + string \<Rightarrow> bool" where
  "harmless_entry h repo e =
     (case e of
        Inl (cwd, args) \<Rightarrow> cwd = gh_abspath h repo \<and> leaves_checkout args
      | Inr p \<Rightarrow> (\<exists>token. p = resolve_worktree_path h (gh_abspath h repo) (''wt_'' @ token)))"

text \<open>C29: creating a worktree protects the user's repository. Whatever git answers - failures and timeouts included - every
command issued is a query (\<open>rev-parse\<close>, \<open>branch --list\<close>, \<open>worktree list\<close>) or \<open>worktree add\<close>, run in the repository: no branch
is deleted, reset or moved, no \<open>checkout\<close> is made. The only path ever removed is a session path of a fresh token.\<close>

theorem creating_worktree_is_harmless:
  "list_all (harmless_entry h repo) (snd (fst (create_worktree (watched h) (w, []) repo branch base)))"
proof (rule create_worktree_keeps [where P = "\<lambda>s. list_all (harmless_entry h repo) (snd s)"], goal_cases)
  case (1 s args)
  then show ?case by (cases s) (auto simp: watched_def harmless_entry_def split: prod.split)
next
  case (2 s)
  then show ?case by (cases s) (auto simp: watched_def split: prod.split)
next
  case (3 s token)
  have "resolve_worktree_path (watched h) (gh_abspath (watched h) repo) session = resolve_worktree_path h (gh_abspath h repo) session" for session
    by (cases "gh_base h") (simp_all add: watched_def resolve_worktree_path_def Let_def)
  then show ?case using 3 by (cases s) (auto simp: watched_def harmless_entry_def)
next
  case 4
  then show ?case by simp
qed

end
