(* ===== verification/Spec2Isabelle.thy ===== *)
theory Spec2Isabelle
  imports Mission_Properties Store_Properties Raft_Properties Mesh_Properties Federation_Properties
    Audit_Properties Consensus_Properties Task_Properties Scope_Properties Filter_Properties Gate_Properties
    Execution_Properties Committee_Properties Concurrent_Properties Runtime_Properties Pipeline_Properties
    Repair_Properties Workflow_Validation Workflow_Properties Budget_Properties Rate_Limit Credit_Properties
    Delegation_Properties Git_Properties
begin

text \<open>
  A verification development of the control plane of the LLM agent system: the Python code under
  src/agent_workspace/core that decides what agents may do, in which order work runs, and what is recorded about it.
  Every definition is translated from the source; paths below are relative to src/agent_workspace.

  \<^bold>\<open>The program and how its parts interact.\<close>

  \<^item> A user's request becomes a \<^emph>\<open>mission\<close> (core/product_contracts.py, mission_contracts.py, mission_model.py): an
    immutable aggregate of a plan, approvals, evidence, gates and usage. The state machine (mission_state_machine.py)
    moves it between states, each move guarded and appended to its audit trail; the store (mission_store.py) keeps
    missions in SQLite under optimistic revisions and idempotency keys.
  \<^item> The plan's \<^emph>\<open>task graph\<close> (task_environment.py) is checked for cycles and for overlapping scopes; each task gets a
    sealed environment. The \<^emph>\<open>executor\<close> (agent_executor.py) runs the tool calls of a task inside it: protocol repair of the
    arguments (protocol_repair.py), the turn limit, the command filter, the \<^emph>\<open>policy gate\<close> (policy_gate.py), the scope
    guard, the tool, the evidence.
  \<^item> High-impact actions need a certificate of the swarm's \<^emph>\<open>proof of consensus\<close> (discussion/consensus.py) whose roles the
    intrusion detection (discussion/ids.py) may quarantine and whose policies governance (governance.py) changes. Every
    decision goes into the hash-chained \<^emph>\<open>audit ledger\<close> with its Merkle tree (audit_ledger.py, merkle.py).
  \<^item> The \<^emph>\<open>coding pipeline\<close> (pipeline/) takes a request through intake, committee debate, the human gate, isolated
    mutation in a git worktree (git_worktree.py), the verification ladder with self-healing, review and a draft pull
    request, with the evidence of runtime_events.py. The \<^emph>\<open>workflow engine\<close> (workflow_engine.py) runs declarative step
    graphs with checkpoints.
  \<^item> The committee is replicated by \<^emph>\<open>Raft\<close> (raft_consensus.py) over a mesh in which the chaos manager (chaos.py)
    injects faults, and federated across regions (mesh_tunnel/multi_cluster_raft.py).
  \<^item> Around this: the execution budget of a debate (debate_budget.py), the request rate limiter (rate_limit.py), credits
    and billing (ledger.py, billing.py, swarm_coordinator.py), and delegation to an external advisor
    (delegation_packet.py).

  \<^bold>\<open>Theories and the code they model.\<close> A class becomes a record of its attributes, an enumeration a datatype, a method a
  function from the state (and what it reads from outside) to the new state and its result.

  \<^item> \<open>Prelude\<close>: results (\<open>error + 'a\<close>) and guards, Python dictionaries as association lists in insertion order, indexing and
    slicing, the string methods. \<open>Json\<close>: JSON values and \<open>json.dumps\<close> with their unambiguity, and the Python
    values beside them (tuples, sets, dictionaries with other keys) with what \<open>json.dumps\<close> makes of them, if anything. \<open>Sha256\<close>: SHA-256 on 32-bit
    words. \<open>Graph_Search\<close>: cycles of a relation, shared by both depth-first searches.
  \<^item> \<open>Product_Contracts\<close>, \<open>Mission_Contracts\<close>, \<open>Mission_Records\<close>, \<open>Mission_Model\<close>: the contracts, each with the
    validators its constructor runs. \<open>Mission_Machine\<close>: transition table, guards, \<open>transition\<close>. \<open>Mission_Store\<close>: the two
    tables and the operations of \<open>MissionStore\<close>, transactions with rollback included.
  \<^item> \<open>Scope_Paths\<close>, \<open>Task_Graph\<close>, \<open>Task_Environment\<close>: scopes, \<open>detect_cycles\<close>, the scheduling states, \<open>synthesize\<close> and the
    permission checks. \<open>Command_Filter\<close>: a regular-expression search for the patterns of the content filters.
    \<open>Policy_Gate\<close>: \<open>evaluate\<close>. \<open>Agent_Executor\<close>: the guard, the tools and \<open>execute_tool_call\<close>. \<open>Protocol_Repair\<close>: parsing,
    aliases, coercion, prompt and both repair loops.
  \<^item> \<open>Merkle\<close>, \<open>Audit_Ledger\<close>: tree, inclusion proofs, the chained table and its replication daemon. \<open>Consensus\<close>:
    certificates, votes, quarantine, governance.
  \<^item> \<open>Raft\<close>: the node's record and its handlers, election, proposal, application. \<open>Chaos\<close>, \<open>Mesh\<close>: fault rules, and the node
    behind them. \<open>Federation\<close>: regions, elections across them, replication, failover.
  \<^item> \<open>Pipeline_Models\<close>, \<open>Committee\<close>, \<open>Pipeline_Debate\<close>, \<open>Runtime_Events\<close>, \<open>Pipeline_Healing\<close>, \<open>Coding_Pipeline\<close>,
    \<open>Concurrent_Pipeline\<close>: the files of core/pipeline, precheck.py and runtime_events.py in the order a run visits them;
    \<open>Git_Worktree\<close> provides the pipeline's worktree manager.
  \<^item> \<open>Workflow_Graph\<close> (front matter and \<open>validate_step_graph\<close>), \<open>Workflow_Engine\<close> (run state, parameters, a step with its
    healing), \<open>Workflow_Run\<close> (active and ready steps, rounds, \<open>execute\<close>): workflow_engine.py.
  \<^item> \<open>Debate_Budget\<close>, \<open>Rate_Limit\<close>, \<open>Credits\<close>, \<open>Delegation\<close>: the files named above.

  \<^bold>\<open>What the lemmas show.\<close> The theories \<open>_Properties\<close> state the properties, with a witness at a concrete input after each
  that has a hypothesis; \<open>Mission_Safety\<close>, \<open>Raft_Safety\<close>, \<open>Pipeline_Steps\<close>, \<open>Pipeline_Runs\<close>, \<open>Workflow_Rounds\<close> and
  \<open>Workflow_Checkpoint\<close> hold the invariants they rest on, \<open>Mission_Samples\<close> the values of the witnesses.

  \<^item> Missions: no mission runs before a plan gate was approved by somebody who is no autonomous agent; the audit trail
    replays to the current state; a plan is accepted exactly when its graph is well-formed; approvals bind the content of
    the plan; a draft pull request needs the permission and a fresh review. Store: a stale revision is refused, a stored
    transition is the machine's transition.
  \<^item> Raft: at most one leader is elected per term, in every interleaving of the cluster's steps; on a side of a partition
    without a quorum no node wins an election it starts and no proposal it makes commits. Commit indexes that a follower
    takes over from heartbeats are not restricted by it.
  \<^item> Ledger: two chains that verify and end alike hold the same texts, unless two of the texts named in the statement collide
    under SHA-256; Merkle proofs are complete, and sound unless such a collision shows up between the texts of the proof
    and of the tree. Consensus: a proposal is accepted by three different roles with a certificate, which is registered
    and recorded if the disk plays along, and accepted also if it does not; a high-impact action needs a certificate with
    three rightly signed entries, which are three different members unless the certificate repeats one.
  \<^item> Tasks: cycle detection is exact; scheduling completes an acyclic graph with known dependencies and no failed, blocked
    or running task; two tasks that pass the overlap test share no mutable path if both have a non-empty scope; what a tool
    writes stays in the scope. Repair: what is handed on conforms to the tool's schema, after exactly the reported number of
    at most two questions to the model, and a call that runs is well-typed.
  \<^item> Pipeline: a completed run has passed every gate; when the plan that reaches the gate is refused nothing outside is touched;
    a completed run without healing ran the whole test strategy; healing is bounded. Creating a worktree leaves the user's
    branches alone; a concurrent run that created all its worktrees cleans them all up.
  \<^item> Workflow: a run returns unless it resumes a step recorded as running; a step that is started, in a new or a resumed run,
    has waited for its dependencies; a checkpoint holds the JSON images of the outputs; a run succeeds only without a fatal
    failure; the validation of graphs is exact.
  \<^item> Budgets: no interleaving of attempts exceeds the limits, and the counters are the calls made; no window exceeds the rate;
    a keyed transaction is charged once, and the credits follow the recorded costs and those that resets erased; a manual
    delegation sends nothing.

  Lemmas beside these properties record where the code falls short of what it says of itself, on concrete inputs.

  \<^bold>\<open>Interfaces.\<close> \<open>keyed_store\<close> (a dictionary; interpreted on the association lists), \<open>fixed_digest\<close> (a hash of fixed length;
  on SHA-256), \<open>event_recorder\<close> (an append-only chained log; on the audit ledger and on the runtime log), \<open>link_layer\<close>
  (what a Raft node asks of the network; on the chaos manager) and \<open>ladder\<close> (what the pipeline relies on of a runner of
  verification commands; on the runner of runtime_events.py).

  \<^bold>\<open>Bounds and recursion.\<close> Every function is total and uses no fuel, by structural recursion or a termination measure: the
  depth-first searches decrease the nodes not yet visited, the growth of the active steps the steps not yet offered. The
  exception is \<open>run_loop\<close>, the evaluation loop of the workflow engine, a \<open>partial_function\<close> in the option monad whose value
  \<open>None\<close> is a run that does not return; \<open>workflow_returns\<close> shows that it returns unless it resumes a step recorded as running. Bounds in the definitions are the
  code's own: eight links of an exception chain, the retries and healing attempts of a step, two turns of the repair model.

  \<^bold>\<open>Parameters.\<close> Code that is not part of the repository is an argument: the codecs of pydantic and \<open>json.loads\<close>, the YAML
  parser, git and the file system, the providers and models, whether SQLite answers, what the disk does to a consensus registration (the record \<open>storage\<close>), clocks, fresh identifiers and tokens,
  and the rounding \<open>rnd\<close> of floating-point operations, floats being the rationals they denote. What a theorem needs of them
  is a named hypothesis, such as \<open>json_reads\<close>: what was dumped is read back.

  \<^bold>\<open>Not modelled.\<close> Logging, metrics and delays. The HTTP routes and the command line, which pass requests on; the chat
  engine, model router, discussion room and memory, whose behaviour is that of language models, embeddings and full-text
  search; sockets, certificates and encryption of the peer-to-peer mesh; accounts, the sandbox, skills, benchmarks, the
  JSON-schema validators and the desktop viewer. Strings are lists of 8-bit characters: text beyond Latin-1 is outside the
  model, as are surrogates and the locale. Concurrency is modelled as interleavings of the code between two suspension
  points (Raft clusters, the attempts of a debate) or as the single transactions that locks and SQLite make of the others.
\<close>

end
